(* ===== verification/C_Base.thy ===== *)
theory C_Base
  imports Main "HOL-Library.Word" "HOL-Library.Sublist"
begin

text \<open>
  Prelude of the development: C strings, the part of \<open>ctype.h\<close> and \<open>string.h\<close>
  the memory module uses, fixed-size buffers and the collections of rewrite rules the
  component theories share.

  Conventions.  A C string is a \<^typ>\<open>string\<close> without its terminating NUL; a pointer
  that may be NULL is an \<^typ>\<open>string option\<close>.  Reading the byte at or behind the
  terminator gives NUL (\<open>char_at\<close>); the source never reads further than the
  terminator.  \<open>ctype.h\<close> is the C locale's: bytes above 127 are in no class.
  \<open>size_t\<close> and \<open>int\<close> lengths are \<^typ>\<open>nat\<close> and assumed to fit their width; values
  whose wrap-around matters are words.
\<close>

unbundle bit_operations_syntax

type_synonym cptr = "string option"
type_synonym byte = "8 word"
type_synonym u16 = "16 word"
type_synonym u32 = "32 word"
type_synonym u64 = "64 word"

named_theorems wire_simps \<open>sizes and round trips of the wire fields\<close>
named_theorems cstr_simps \<open>C string helpers: lengths, bounds and prefixes\<close>

subsection \<open>Character classes\<close>

abbreviation code :: "char \<Rightarrow> nat" where
  "code c \<equiv> of_char c"

abbreviation NUL :: char where
  "NUL \<equiv> CHR 0x00"

definition isdigit :: "char \<Rightarrow> bool" where
  "isdigit c \<longleftrightarrow> 48 \<le> code c \<and> code c \<le> 57"

definition isupper :: "char \<Rightarrow> bool" where
  "isupper c \<longleftrightarrow> 65 \<le> code c \<and> code c \<le> 90"

definition islower :: "char \<Rightarrow> bool" where
  "islower c \<longleftrightarrow> 97 \<le> code c \<and> code c \<le> 122"

definition isalnum :: "char \<Rightarrow> bool" where
  "isalnum c \<longleftrightarrow> isdigit c \<or> isupper c \<or> islower c"

definition isspace :: "char \<Rightarrow> bool" where
  "isspace c \<longleftrightarrow> code c = 32 \<or> (9 \<le> code c \<and> code c \<le> 13)"

definition tolower :: "char \<Rightarrow> char" where
  "tolower c = (if isupper c then char_of (code c + 32) else c)"

lemma code_less_256 [simp]: "code c < 256"
  by (rule nat_of_char_less_256)

lemma code_NUL [simp]: "code NUL = 0"
  by simp

lemma isspace_NUL [simp]: "\<not> isspace NUL"
  and isdigit_NUL [simp]: "\<not> isdigit NUL"
  and isalnum_NUL [simp]: "\<not> isalnum NUL"
  by (simp_all add: isspace_def isdigit_def isalnum_def isupper_def islower_def)

lemma code_tolower: "code (tolower c) = (if isupper c then code c + 32 else code c)"
  by (simp add: tolower_def isupper_def)

lemma tolower_idem [simp]: "tolower (tolower c) = tolower c"
  by (auto simp: tolower_def isupper_def)

lemma tolower_eq_NUL [simp]: "tolower c = NUL \<longleftrightarrow> c = NUL"
proof -
  have "code (tolower c) = 0 \<longleftrightarrow> code c = 0"
    by (auto simp: code_tolower isupper_def)
  then show ?thesis
    by (metis char_of_char code_NUL)
qed

lemma not_isupper_tolower [simp]: "\<not> isupper (tolower c)"
  by (auto simp: isupper_def code_tolower)

subsection \<open>Strings and buffers\<close>

definition char_at :: "string \<Rightarrow> nat \<Rightarrow> char" where
  "char_at s i = (if i < length s then s ! i else NUL)"

lemma char_at_in [simp]: "i < length s \<Longrightarrow> char_at s i = s ! i"
  and char_at_out [simp]: "length s \<le> i \<Longrightarrow> char_at s i = NUL"
  by (simp_all add: char_at_def)

text \<open>
  A C string has no NUL of its own.  The properties that depend on it say so.
\<close>

definition cstring :: "string \<Rightarrow> bool" where
  "cstring s \<longleftrightarrow> NUL \<notin> set s"

lemma cstring_simps [simp]:
  "cstring []" "cstring (c # s) \<longleftrightarrow> c \<noteq> NUL \<and> cstring s"
  "cstring (s @ t) \<longleftrightarrow> cstring s \<and> cstring t"
  by (auto simp: cstring_def)

lemma cstring_take [simp]: "cstring s \<Longrightarrow> cstring (take n s)"
  and cstring_drop [simp]: "cstring s \<Longrightarrow> cstring (drop n s)"
  by (auto simp: cstring_def dest: in_set_takeD in_set_dropD)

text \<open>
  \<open>snprintf(dst, cap, "%s", s)\<close> keeps at most \<open>cap - 1\<close> bytes; so does every copy
  into a fixed buffer of the module.
\<close>

definition cbuf :: "nat \<Rightarrow> string \<Rightarrow> string" where
  "cbuf cap s = take (cap - 1) s"

lemma length_cbuf [cstr_simps]: "0 < cap \<Longrightarrow> length (cbuf cap s) < cap"
  by (simp add: cbuf_def)

lemma cbuf_fits [cstr_simps]: "length s < cap \<Longrightarrow> cbuf cap s = s"
  by (simp add: cbuf_def)

lemma cbuf_idem [simp]: "cbuf cap (cbuf cap s) = cbuf cap s"
  by (simp add: cbuf_def)

lemma cbuf_prefix: "prefix (cbuf cap s) s"
  by (simp add: cbuf_def take_is_prefix)

lemma cstring_cbuf [simp]: "cstring s \<Longrightarrow> cstring (cbuf cap s)"
  by (simp add: cbuf_def)

definition nonempty :: "cptr \<Rightarrow> bool" where
  "nonempty p \<longleftrightarrow> (case p of None \<Rightarrow> False | Some s \<Rightarrow> s \<noteq> [])"

lemma nonempty_simps [simp]:
  "nonempty None = False" "nonempty (Some s) = (s \<noteq> [])"
  by (simp_all add: nonempty_def)

subsection \<open>Substring search\<close>

definition cptr_str :: "cptr \<Rightarrow> string" where
  "cptr_str p = (case p of None \<Rightarrow> [] | Some s \<Rightarrow> s)"

lemma cptr_str_simps [simp]: "cptr_str None = []" "cptr_str (Some s) = s"
  by (simp_all add: cptr_str_def)

text \<open>\<open>strstr\<close>: the index of the first occurrence.\<close>

fun strstr :: "string \<Rightarrow> string \<Rightarrow> nat option" where
  "strstr [] needle = (if needle = [] then Some 0 else None)"
| "strstr (c # cs) needle =
     (if prefix needle (c # cs) then Some 0 else map_option Suc (strstr cs needle))"

lemma strstr_Some:
  "strstr hay needle = Some i \<Longrightarrow> prefix needle (drop i hay) \<and> i \<le> length hay"
  by (induction hay arbitrary: i) (auto split: if_splits)

lemma strstr_bound:
  assumes "strstr hay needle = Some i"
  shows "i + length needle \<le> length hay"
  using strstr_Some [OF assms] prefix_length_le [of needle "drop i hay"] by auto

lemma strstr_first:
  "strstr hay needle = Some i \<Longrightarrow> j < i \<Longrightarrow> \<not> prefix needle (drop j hay)"
proof (induction hay arbitrary: i j)
  case (Cons c cs)
  then show ?case
    by (cases j) (auto split: if_splits)
qed (auto split: if_splits)

definition contains :: "string \<Rightarrow> string \<Rightarrow> bool" where
  "contains hay needle \<longleftrightarrow> strstr hay needle \<noteq> None"

lemma contains_sublist: "contains hay needle \<longleftrightarrow> sublist needle hay"
  unfolding contains_def
  by (induction hay) (auto simp: sublist_Cons_right)

lemma contains_mono: "prefix hay hay' \<Longrightarrow> contains hay needle \<Longrightarrow> contains hay' needle"
  by (auto simp: contains_sublist prefix_def sublist_def) (metis append_assoc)

text \<open>\<open>ci_find\<close> and \<open>ci_contains\<close>: the same, ignoring ASCII case.\<close>

fun ci_starts :: "string \<Rightarrow> string \<Rightarrow> bool" where
  "ci_starts hs [] = True"
| "ci_starts [] (n # ns) = False"
| "ci_starts (h # hs) (n # ns) = (tolower h = tolower n \<and> ci_starts hs ns)"

lemma ci_starts_prefix:
  "ci_starts hs ns \<longleftrightarrow> prefix (map tolower ns) (map tolower hs)"
  by (induction hs ns rule: ci_starts.induct) auto

lemma ci_starts_length: "ci_starts hs ns \<Longrightarrow> length ns \<le> length hs"
  by (induction hs ns rule: ci_starts.induct) auto

subsection \<open>Words of a text\<close>

text \<open>
  The maximal runs without a separator: what a loop over \<open>strtok_r\<close> sees, and what the
  hand-written tokenisers see.
\<close>

function split_words :: "(char \<Rightarrow> bool) \<Rightarrow> string \<Rightarrow> string list" where
  "split_words sep s =
     (if s = [] then []
      else let start = dropWhile sep s;
               tok = takeWhile (\<lambda>c. \<not> sep c) start
           in (if tok = [] then [] else [tok]) @ split_words sep (dropWhile (\<lambda>c. \<not> sep c) start))"
  by auto

lemma split_words_shorter:
  assumes "s \<noteq> []"
  shows "length (dropWhile (\<lambda>c. \<not> sep c) (dropWhile sep s)) < length s"
proof (cases s)
  case (Cons c cs)
  then show ?thesis
    using length_dropWhile_le [of "\<lambda>c. \<not> sep c" cs]
      length_dropWhile_le [of "\<lambda>c. \<not> sep c" "dropWhile sep cs"]
      length_dropWhile_le [of sep cs]
    by auto
qed (use assms in simp)

termination split_words
  by (relation "measure (length \<circ> snd)") (simp_all add: split_words_shorter)

declare split_words.simps [simp del]

text \<open>
  The words of a scanner that skips to a starting character and reads on while the characters
  belong to the word.
\<close>

function lead_words :: "(char \<Rightarrow> bool) \<Rightarrow> (char \<Rightarrow> bool) \<Rightarrow> string \<Rightarrow> string list" where
  "lead_words start body s =
     (case dropWhile (\<lambda>c. \<not> start c) s of [] \<Rightarrow> []
      | c # cs \<Rightarrow> (c # takeWhile body cs) # lead_words start body (dropWhile body cs))"
  by pat_completeness auto

termination lead_words
proof (relation "measure (\<lambda>(_, _, s). length s)")
  fix start body :: "char \<Rightarrow> bool" and s c cs
  assume eq: "dropWhile (\<lambda>c. \<not> start c) s = c # cs"
  have "length (dropWhile body cs) \<le> length cs" by (rule length_dropWhile_le)
  also have "\<dots> < length (dropWhile (\<lambda>c. \<not> start c) s)" by (simp add: eq)
  also have "\<dots> \<le> length s" by (rule length_dropWhile_le)
  finally show "((start, body, dropWhile body cs), (start, body, s)) \<in> measure (\<lambda>(_, _, s). length s)" by simp
qed simp

declare lead_words.simps [simp del]

lemma split_words_Nil [simp]: "split_words sep [] = []"
  by (simp add: split_words.simps)

lemma split_words_step:
  "t \<in> set (split_words sep s) \<longleftrightarrow>
     s \<noteq> [] \<and> (t \<noteq> [] \<and> t = takeWhile (\<lambda>c. \<not> sep c) (dropWhile sep s)
       \<or> t \<in> set (split_words sep (dropWhile (\<lambda>c. \<not> sep c) (dropWhile sep s))))"
  by (subst split_words.simps) (auto simp: Let_def)

lemma split_words_sublist:
  "t \<in> set (split_words sep s) \<Longrightarrow> t \<noteq> [] \<and> (\<forall>c\<in>set t. \<not> sep c) \<and> set t \<subseteq> set s \<and> length t \<le> length s"
proof (induction "length s" arbitrary: s rule: less_induct)
  case less
  have start: "set (dropWhile sep s) \<subseteq> set s" "length (dropWhile sep s) \<le> length s"
    by (auto simp: length_dropWhile_le dest: set_dropWhileD)
  from less.prems consider
    (first) "t \<noteq> []" "t = takeWhile (\<lambda>c. \<not> sep c) (dropWhile sep s)"
  | (later) "s \<noteq> []" "t \<in> set (split_words sep (dropWhile (\<lambda>c. \<not> sep c) (dropWhile sep s)))"
    by (subst (asm) split_words_step) blast
  then show ?case
  proof cases
    case first
    then have "length t \<le> length (dropWhile sep s)" "set t \<subseteq> set (dropWhile sep s)"
      by (auto simp: length_takeWhile_le dest: set_takeWhileD)
    then show ?thesis
      using first start by (auto dest: set_takeWhileD)
  next
    case later
    have "set (dropWhile (\<lambda>c. \<not> sep c) (dropWhile sep s)) \<subseteq> set s"
      using start by (auto dest: set_dropWhileD)
    moreover have "length (dropWhile (\<lambda>c. \<not> sep c) (dropWhile sep s)) < length s"
      using later(1) by (rule split_words_shorter)
    ultimately show ?thesis
      using less.hyps [OF _ later(2)] by (meson less_imp_le order.trans)
  qed
qed

text \<open>The words are the maximal runs.\<close>

lemma split_words_maximal:
  "t \<in> set (split_words sep s) \<Longrightarrow>
     \<exists>a b. s = a @ t @ b \<and> (a = [] \<or> sep (last a)) \<and> (b = [] \<or> sep (hd b))"
proof (induction "length s" arbitrary: s rule: less_induct)
  case less
  let ?s1 = "dropWhile sep s"
  let ?s2 = "dropWhile (\<lambda>c. \<not> sep c) ?s1"
  have front: "s = takeWhile sep s @ takeWhile (\<lambda>c. \<not> sep c) ?s1 @ ?s2"
    by simp
  have hd2: "?s2 = [] \<or> sep (hd ?s2)"
    using hd_dropWhile [of "\<lambda>c. \<not> sep c" ?s1] by blast
  from less.prems consider
    (first) "t = takeWhile (\<lambda>c. \<not> sep c) ?s1"
  | (later) "s \<noteq> []" "t \<in> set (split_words sep ?s2)"
    by (subst (asm) split_words_step) blast
  then show ?case
  proof cases
    case first
    have "takeWhile sep s = [] \<or> sep (last (takeWhile sep s))"
      using set_takeWhileD [OF last_in_set] by blast
    then show ?thesis
      using front hd2 first by blast
  next
    case later
    obtain a b where ab: "?s2 = a @ t @ b" "a = [] \<or> sep (last a)" "b = [] \<or> sep (hd b)"
      using less.hyps [OF split_words_shorter [OF later(1)] later(2)] by blast
    have "a \<noteq> []"
    proof
      assume "a = []"
      then have "sep (hd t)" "hd t \<in> set t"
        using hd2 ab(1) split_words_sublist [OF later(2)] by auto
      then show False
        using split_words_sublist [OF later(2)] by blast
    qed
    moreover have "s = (takeWhile sep s @ takeWhile (\<lambda>c. \<not> sep c) ?s1 @ a) @ t @ b"
      using front ab(1) by simp
    ultimately show ?thesis
      using ab by (metis last_append append_is_Nil_conv)
  qed
qed

lemma split_words_complete:
  "t \<noteq> [] \<Longrightarrow> \<forall>c\<in>set t. \<not> sep c \<Longrightarrow> s = a @ t @ b \<Longrightarrow> a = [] \<or> sep (last a) \<Longrightarrow> b = [] \<or> sep (hd b)
     \<Longrightarrow> t \<in> set (split_words sep s)"
proof (induction "length s" arbitrary: s a rule: less_induct)
  case less
  have tb: "takeWhile (\<lambda>c. \<not> sep c) (t @ b) = t"
    using less.prems(2,5) by (cases b) (auto simp: takeWhile_append)
  have s: "s \<noteq> []"
    using less.prems by simp
  show ?case
  proof (cases "\<forall>c\<in>set a. sep c")
    case True
    have "dropWhile sep s = t @ b"
      using True less.prems(1-3) by (cases t) (auto simp: dropWhile_append)
    then show ?thesis
      using less.prems(1) s tb by (subst split_words_step) simp
  next
    case False
    define a1 where "a1 = dropWhile sep a"
    define a2 where "a2 = dropWhile (\<lambda>c. \<not> sep c) a1"
    have a: "a = takeWhile sep a @ takeWhile (\<lambda>c. \<not> sep c) a1 @ a2"
      by (simp add: a1_def a2_def)
    have a1: "a1 \<noteq> []"
      using False by (simp add: a1_def dropWhile_eq_Nil_conv)
    have "last a1 = last a"
      using a1 by (metis a1_def last_append takeWhile_dropWhile_id)
    then have last1: "sep (last a1)" "last a1 \<in> set a1"
      using less.prems(4) last_in_set [OF a1] False by auto
    have "a2 \<noteq> []"
      using last1 by (auto simp: a2_def dropWhile_eq_Nil_conv)
    moreover from this have "last a2 = last a1"
      using last_appendR [of a2 "takeWhile (\<lambda>c. \<not> sep c) a1"] by (simp add: a2_def)
    ultimately have a2: "a2 \<noteq> []" "sep (last a2)"
      using last1 by simp_all
    have "dropWhile sep s = a1 @ t @ b"
      using False by (auto simp: less.prems(3) a1_def dropWhile_append)
    moreover have "dropWhile (\<lambda>c. \<not> sep c) (a1 @ t @ b) = a2 @ t @ b"
      using last1 by (auto simp: a2_def dropWhile_append)
    ultimately have rest: "dropWhile (\<lambda>c. \<not> sep c) (dropWhile sep s) = a2 @ t @ b"
      by simp
    have "t \<in> set (split_words sep (a2 @ t @ b))"
      using less.hyps [of "a2 @ t @ b" a2] split_words_shorter [OF s, of sep] less.prems a2 rest by simp
    then show ?thesis
      using s rest by (subst split_words_step) simp
  qed
qed

lemma split_words_map:
  assumes "\<And>c. sep (f c) = sep c"
  shows "split_words sep (map f s) = map (map f) (split_words sep s)"
proof (induction "length s" arbitrary: s rule: less_induct)
  case less
  show ?case
  proof (cases "s = []")
    case False
    then show ?thesis
      using less [OF split_words_shorter [of s sep]]
      by (simp add: split_words.simps [of sep s] split_words.simps [of sep "map f s"] Let_def
          dropWhile_map takeWhile_map comp_def assms)
  qed simp
qed

end
