(* ===== verification/Wire.thy ===== *)
theory Wire
  imports C_Base
begin

text \<open>
  The C side of the memory module's wire contract
  (\<open>src/modules/memory/include/aimee/memory/module_api.h\<close>): little-endian fields,
  the request encoders and the response decoders.

  An encoder writes into a caller's buffer: its destination is \<^typ>\<open>nat option\<close>, the
  buffer's capacity or \<open>None\<close> for a NULL pointer, and its result the bytes written, or
  \<open>None\<close> for the C's \<open>-1\<close>.  A decoder takes the received bytes (\<open>None\<close> for NULL)
  and a flag that says whether its out-pointers are non-NULL; what it leaves in them on
  failure is not modelled, since no caller reads it.
\<close>

subsection \<open>Little-endian fields\<close>

definition aimee_memory_put_u32 :: "u32 \<Rightarrow> byte list" where
  "aimee_memory_put_u32 v = map (\<lambda>i. ucast (drop_bit (i * 8) v)) [0..<4]"

definition aimee_memory_get_u32 :: "byte list \<Rightarrow> u32" where
  "aimee_memory_get_u32 p =
     fold (\<lambda>i v. v OR push_bit (i * 8) (ucast (p ! i))) [0..<4] 0"

definition aimee_memory_put_i64 :: "u64 \<Rightarrow> byte list" where
  "aimee_memory_put_i64 v = map (\<lambda>i. ucast (drop_bit (i * 8) v)) [0..<8]"

definition aimee_memory_get_i64 :: "byte list \<Rightarrow> u64" where
  "aimee_memory_get_i64 p =
     fold (\<lambda>i v. v OR push_bit (i * 8) (ucast (p ! i))) [0..<8] 0"

definition aimee_memory_put_u16 :: "u16 \<Rightarrow> byte list" where
  "aimee_memory_put_u16 v = [ucast (v AND 0xff), ucast (drop_bit 8 v)]"

text \<open>Go's \<open>binary.LittleEndian.Uint16\<close>; its \<open>Uint32\<close> and \<open>Uint64\<close> are the
  two functions above.\<close>

definition le_u16 :: "byte list \<Rightarrow> u16" where
  "le_u16 p = ucast (p ! 0) OR push_bit 8 (ucast (p ! 1))"

text \<open>
  What a fixed-width field promises.  The client lemmas read a field at an offset of a
  longer message.
\<close>

locale wire_field =
  fixes put :: "'a \<Rightarrow> byte list"
    and get :: "byte list \<Rightarrow> 'a"
    and width :: nat
  assumes length_put: "length (put v) = width"
    and get_put: "get (put v @ rest) = v"
begin

lemma get_put_exact: "get (put v) = v"
  using get_put [of v "[]"] by simp

lemma get_after: "length xs = k \<Longrightarrow> get (drop k (xs @ put v @ rest)) = v"
  by (simp add: get_put)

lemma put_inject: "put v = put w \<longleftrightarrow> v = w"
  by (metis get_put_exact)

lemma drop_put: "drop width (put v @ rest) = rest"
  by (simp add: length_put)

lemma put_nth_field:
  assumes "i < length vs"
  shows "get (drop (i * width) (concat (map put vs) @ rest)) = vs ! i"
  using assms
proof (induction vs arbitrary: i)
  case (Cons v vs)
  show ?case
  proof (cases i)
    case 0
    then show ?thesis by (simp add: get_put)
  next
    case (Suc j)
    with Cons show ?thesis by (simp add: length_put drop_put flip: drop_drop)
  qed
qed simp

end

text \<open>
  Reading \<open>n\<close> bytes, least significant first: bit \<open>k\<close> of the value is bit
  \<open>k mod 8\<close> of byte \<open>k div 8\<close>.
\<close>

lemma bit_le_fold:
  fixes p :: "byte list"
  shows "bit (fold (\<lambda>i v. v OR push_bit (i * 8) (ucast (p ! i))) [0..<n] (0 :: 'a::len word)) k
     \<longleftrightarrow> k < LENGTH('a) \<and> k < 8 * n \<and> bit (p ! (k div 8)) (k mod 8)"
proof (induction n)
  case (Suc n)
  have "bit (push_bit (n * 8) (ucast (p ! n)) :: 'a word) k
     \<longleftrightarrow> k < LENGTH('a) \<and> n * 8 \<le> k \<and> k < n * 8 + 8 \<and> bit (p ! n) (k - n * 8)"
    using bit_imp_le_length [of "p ! n" "k - n * 8"]
    by (cases "n * 8 \<le> k") (auto simp: bit_push_bit_iff bit_unsigned_iff)
  moreover have "k div 8 = n \<and> k mod 8 = k - n * 8" if "n * 8 \<le> k" "k < n * 8 + 8"
  proof -
    from that have "k div 8 = n" by (intro div_nat_eqI) simp_all
    then show ?thesis by (simp flip: minus_div_mult_eq_mod)
  qed
  ultimately show ?case
    using Suc by (auto simp: bit_or_iff)
qed simp

lemma le_fold_bytes:
  fixes v :: "'a::len word"
  assumes len: "LENGTH('a) \<le> 8 * n"
    and p: "\<And>i. i < n \<Longrightarrow> p ! i = (ucast (drop_bit (i * 8) v) :: byte)"
  shows "fold (\<lambda>i w. w OR push_bit (i * 8) (ucast (p ! i))) [0..<n] 0 = v"
proof (rule bit_word_eqI)
  fix k assume k: "k < LENGTH('a)"
  with len have "k div 8 < n" by (simp add: less_mult_imp_div_less mult.commute)
  then have "bit (p ! (k div 8)) (k mod 8) \<longleftrightarrow> bit v (k div 8 * 8 + k mod 8)"
    using k by (auto simp: p bit_simps)
  then show "bit (fold (\<lambda>i w. w OR push_bit (i * 8) (ucast (p ! i))) [0..<n] (0 :: 'a word)) k = bit v k"
    using k len by (simp add: bit_le_fold)
qed

lemma get_put_u32 [wire_simps]: "aimee_memory_get_u32 (aimee_memory_put_u32 v @ rest) = v"
  unfolding aimee_memory_get_u32_def
  by (rule le_fold_bytes) (simp_all add: aimee_memory_put_u32_def nth_append)

lemma get_put_i64 [wire_simps]: "aimee_memory_get_i64 (aimee_memory_put_i64 v @ rest) = v"
  unfolding aimee_memory_get_i64_def
  by (rule le_fold_bytes) (simp_all add: aimee_memory_put_i64_def nth_append)

lemma get_put_u16 [wire_simps]: "le_u16 (aimee_memory_put_u16 v @ rest) = v"
proof -
  have ff: "(0xff :: u16) = mask 8"
    by (simp add: mask_eq_exp_minus_1)
  have "ucast (v AND 0xff) = (ucast v :: byte)"
    unfolding ff by (rule bit_word_eqI) (auto simp: bit_simps)
  moreover have "fold (\<lambda>i w. w OR push_bit (i * 8) (ucast (([ucast v, ucast (drop_bit 8 v)] :: byte list) ! i)))
      [0..<2] 0 = v"
    by (rule le_fold_bytes) (auto simp: less_2_cases_iff)
  ultimately show ?thesis
    by (simp add: le_u16_def aimee_memory_put_u16_def upt_rec)
qed

lemma length_put [wire_simps]:
  "length (aimee_memory_put_u16 a) = 2"
  "length (aimee_memory_put_u32 b) = 4"
  "length (aimee_memory_put_i64 c) = 8"
  by (simp_all add: aimee_memory_put_u16_def aimee_memory_put_u32_def aimee_memory_put_i64_def)

interpretation u16: wire_field aimee_memory_put_u16 le_u16 2
  by unfold_locales (simp_all add: wire_simps)

interpretation u32: wire_field aimee_memory_put_u32 aimee_memory_get_u32 4
  by unfold_locales (simp_all add: wire_simps)

interpretation i64: wire_field aimee_memory_put_i64 aimee_memory_get_i64 8
  by unfold_locales (simp_all add: wire_simps)

end
