(* ===== verification/Wire_Messages.thy ===== *)
theory Wire_Messages
  imports Wire
begin

text \<open>
  The messages of \<open>module_api.h\<close>, one group per stage: confidence reranking (MRNK/MCNF),
  the typed-fact write gate (WGRT/WGRV), pattern extraction (XTRQ/XTRS), the retraction
  scan (RTRQ/RTRS), the PII turn classifier (PIRQ/PIRS) and the relation sensitivity
  batch (PSRQ/PSRS).
\<close>

subsection \<open>Text on the wire\<close>

definition bytes_of :: "string \<Rightarrow> byte list" where
  "bytes_of s = map of_char s"

definition chars_of :: "byte list \<Rightarrow> string" where
  "chars_of bs = map (\<lambda>b. char_of (unat b)) bs"

lemma length_bytes_of [simp]: "length (bytes_of s) = length s"
  and length_chars_of [simp]: "length (chars_of bs) = length bs"
  by (simp_all add: bytes_of_def chars_of_def)

lemma bytes_of_Nil [simp]: "bytes_of [] = []" "chars_of [] = []"
  by (simp_all add: bytes_of_def chars_of_def)

lemma unat_of_char: "unat (of_char c :: byte) = code c"
proof -
  have "(of_char c :: byte) = of_nat (code c)"
    by (rule of_nat_of_char [symmetric])
  then show ?thesis
    by (simp only: unat_of_nat) simp
qed

lemma chars_of_bytes_of [simp]: "chars_of (bytes_of s) = s"
  by (simp add: chars_of_def bytes_of_def comp_def unat_of_char map_idI)

definition UINT32_MAX :: nat where
  "UINT32_MAX = 4294967295"

lemma unat_of_nat_u32 [wire_simps]: "n \<le> UINT32_MAX \<Longrightarrow> unat (word_of_nat n :: u32) = n"
  by (simp add: UINT32_MAX_def unat_of_nat)

lemma unat_of_nat_u16 [wire_simps]: "n < 65536 \<Longrightarrow> unat (word_of_nat n :: u16) = n"
  by (simp add: unat_of_nat)

subsection \<open>Reranking confidence\<close>

abbreviation (input) AIMEE_MEMORY_REQUEST_MAGIC :: u32 where
  "AIMEE_MEMORY_REQUEST_MAGIC \<equiv> 0x4b4e524d"
abbreviation (input) AIMEE_MEMORY_RESPONSE_MAGIC :: u32 where
  "AIMEE_MEMORY_RESPONSE_MAGIC \<equiv> 0x464e434d"
abbreviation (input) AIMEE_MEMORY_WIRE_VERSION :: u32 where
  "AIMEE_MEMORY_WIRE_VERSION \<equiv> 1"
abbreviation (input) AIMEE_MEMORY_REQUEST_LEN :: nat where
  "AIMEE_MEMORY_REQUEST_LEN \<equiv> 16"
abbreviation (input) AIMEE_MEMORY_RESPONSE_LEN :: nat where
  "AIMEE_MEMORY_RESPONSE_LEN \<equiv> 8"

datatype aimee_memory_confidence =
  CONFIDENCE_LOW | CONFIDENCE_MEDIUM | CONFIDENCE_HIGH

fun confidence_code :: "aimee_memory_confidence \<Rightarrow> u32" where
  "confidence_code CONFIDENCE_LOW = 1"
| "confidence_code CONFIDENCE_MEDIUM = 2"
| "confidence_code CONFIDENCE_HIGH = 3"

definition aimee_memory_request_encode :: "u64 \<Rightarrow> nat option \<Rightarrow> byte list option" where
  "aimee_memory_request_encode score_micros out =
     (case out of None \<Rightarrow> None
      | Some cap \<Rightarrow>
        (if cap < AIMEE_MEMORY_REQUEST_LEN then None
         else Some (aimee_memory_put_u32 AIMEE_MEMORY_REQUEST_MAGIC @
                    aimee_memory_put_u32 AIMEE_MEMORY_WIRE_VERSION @
                    aimee_memory_put_i64 score_micros)))"

definition aimee_memory_response_decode ::
    "byte list option \<Rightarrow> bool \<Rightarrow> aimee_memory_confidence option" where
  "aimee_memory_response_decode inp dst =
     (case inp of None \<Rightarrow> None
      | Some bs \<Rightarrow>
        (if length bs \<noteq> AIMEE_MEMORY_RESPONSE_LEN \<or> \<not> dst \<or>
            aimee_memory_get_u32 bs \<noteq> AIMEE_MEMORY_RESPONSE_MAGIC then None
         else
           (let value = aimee_memory_get_u32 (drop 4 bs) in
            if value < 1 \<or> 3 < value then None
            else if value = 1 then Some CONFIDENCE_LOW
            else if value = 2 then Some CONFIDENCE_MEDIUM
            else Some CONFIDENCE_HIGH)))"

subsection \<open>Typed-fact write gate\<close>

abbreviation (input) AIMEE_MEMORY_GATE_REQUEST_MAGIC :: u32 where
  "AIMEE_MEMORY_GATE_REQUEST_MAGIC \<equiv> 0x54524757"
abbreviation (input) AIMEE_MEMORY_GATE_RESPONSE_MAGIC :: u32 where
  "AIMEE_MEMORY_GATE_RESPONSE_MAGIC \<equiv> 0x56524757"
abbreviation (input) AIMEE_MEMORY_REL_TYPE_MAX :: nat where
  "AIMEE_MEMORY_REL_TYPE_MAX \<equiv> 256"
abbreviation (input) AIMEE_MEMORY_GATE_REQUEST_LEN :: nat where
  "AIMEE_MEMORY_GATE_REQUEST_LEN \<equiv> 276"
abbreviation (input) AIMEE_MEMORY_GATE_RESPONSE_LEN :: nat where
  "AIMEE_MEMORY_GATE_RESPONSE_LEN \<equiv> 8"

datatype aimee_memory_fact_verdict =
  FACT_ACCEPT | FACT_REJECT_KIND | FACT_NOVEL | FACT_BADARG

definition aimee_memory_gate_request_encode ::
    "u32 \<Rightarrow> cptr \<Rightarrow> u32 \<Rightarrow> nat option \<Rightarrow> byte list option" where
  "aimee_memory_gate_request_encode head_kind rel_type tail_kind out =
     (let len = length (cptr_str rel_type) in
      case out of None \<Rightarrow> None
      | Some cap \<Rightarrow>
        (if cap < AIMEE_MEMORY_GATE_REQUEST_LEN \<or> AIMEE_MEMORY_REL_TYPE_MAX < len then None
         else Some (aimee_memory_put_u32 AIMEE_MEMORY_GATE_REQUEST_MAGIC @
                    aimee_memory_put_u32 AIMEE_MEMORY_WIRE_VERSION @
                    aimee_memory_put_u32 head_kind @
                    aimee_memory_put_u32 tail_kind @
                    aimee_memory_put_u16 (word_of_nat len) @ [0, 0] @
                    bytes_of (cptr_str rel_type) @
                    replicate (AIMEE_MEMORY_REL_TYPE_MAX - len) 0)))"

definition aimee_memory_gate_response_decode ::
    "byte list option \<Rightarrow> bool \<Rightarrow> aimee_memory_fact_verdict option" where
  "aimee_memory_gate_response_decode inp dst =
     (case inp of None \<Rightarrow> None
      | Some bs \<Rightarrow>
        (if length bs \<noteq> AIMEE_MEMORY_GATE_RESPONSE_LEN \<or> \<not> dst \<or>
            aimee_memory_get_u32 bs \<noteq> AIMEE_MEMORY_GATE_RESPONSE_MAGIC then None
         else
           (let value = aimee_memory_get_u32 (drop 4 bs) in
            if 3 < value then None
            else if value = 0 then Some FACT_ACCEPT
            else if value = 1 then Some FACT_REJECT_KIND
            else if value = 2 then Some FACT_NOVEL
            else Some FACT_BADARG)))"

subsection \<open>Pattern extraction\<close>

abbreviation (input) AIMEE_MEMORY_EXTRACT_REQUEST_MAGIC :: u32 where
  "AIMEE_MEMORY_EXTRACT_REQUEST_MAGIC \<equiv> 0x51525458"
abbreviation (input) AIMEE_MEMORY_EXTRACT_RESPONSE_MAGIC :: u32 where
  "AIMEE_MEMORY_EXTRACT_RESPONSE_MAGIC \<equiv> 0x53525458"
abbreviation (input) AIMEE_MEMORY_EXTRACT_REQUEST_HEADER_LEN :: nat where
  "AIMEE_MEMORY_EXTRACT_REQUEST_HEADER_LEN \<equiv> 16"
abbreviation (input) AIMEE_MEMORY_EXTRACT_RESPONSE_HEADER_LEN :: nat where
  "AIMEE_MEMORY_EXTRACT_RESPONSE_HEADER_LEN \<equiv> 8"
abbreviation (input) AIMEE_MEMORY_TRIPLE_SUBJECT_MAX :: nat where
  "AIMEE_MEMORY_TRIPLE_SUBJECT_MAX \<equiv> 128"
abbreviation (input) AIMEE_MEMORY_TRIPLE_REL_TYPE_MAX :: nat where
  "AIMEE_MEMORY_TRIPLE_REL_TYPE_MAX \<equiv> 64"
abbreviation (input) AIMEE_MEMORY_TRIPLE_OBJECT_MAX :: nat where
  "AIMEE_MEMORY_TRIPLE_OBJECT_MAX \<equiv> 128"

record aimee_memory_triple =
  tr_subject_kind :: u32
  tr_object_kind :: u32
  tr_subject :: string
  tr_rel_type :: string
  tr_object :: string

text \<open>The length-prefixed text requests share their size rule; 0 refuses the text.\<close>

definition text_request_size :: "nat \<Rightarrow> cptr \<Rightarrow> nat" where
  "text_request_size header text =
     (let len = length (cptr_str text) in
      if UINT32_MAX - header < len then 0 else header + len)"

definition aimee_memory_extract_request_size :: "cptr \<Rightarrow> nat" where
  "aimee_memory_extract_request_size text =
     text_request_size AIMEE_MEMORY_EXTRACT_REQUEST_HEADER_LEN text"

definition aimee_memory_extract_request_encode ::
    "cptr \<Rightarrow> u32 \<Rightarrow> nat option \<Rightarrow> byte list option" where
  "aimee_memory_extract_request_encode text max_triples out =
     (let needed = aimee_memory_extract_request_size text in
      case out of None \<Rightarrow> None
      | Some cap \<Rightarrow>
        (if needed = 0 \<or> cap < needed \<or> max_triples = 0 then None
         else
           (let len = needed - AIMEE_MEMORY_EXTRACT_REQUEST_HEADER_LEN in
            Some (aimee_memory_put_u32 AIMEE_MEMORY_EXTRACT_REQUEST_MAGIC @
                  aimee_memory_put_u32 AIMEE_MEMORY_WIRE_VERSION @
                  aimee_memory_put_u32 max_triples @
                  aimee_memory_put_u32 (word_of_nat len) @
                  bytes_of (cptr_str text)))))"

text \<open>The field and the bytes consumed, or \<open>None\<close> for the C's 0.\<close>

definition aimee_memory_extract_field ::
    "byte list \<Rightarrow> nat \<Rightarrow> nat \<Rightarrow> (string \<times> nat) option" where
  "aimee_memory_extract_field bs offset out_cap =
     (if length bs < offset + 4 then None
      else
        (let field_len = unat (aimee_memory_get_u32 (drop offset bs)) in
         if out_cap \<le> field_len \<or> length bs - offset - 4 < field_len then None
         else Some (chars_of (take field_len (drop (offset + 4) bs)), 4 + field_len)))"

text \<open>One iteration of the decoding loop: the triple and the offset behind it.\<close>

definition extract_triple :: "byte list \<Rightarrow> nat \<Rightarrow> (aimee_memory_triple \<times> nat) option" where
  "extract_triple bs offset =
     (if length bs < offset + 8 then None
      else
        (let sk = aimee_memory_get_u32 (drop offset bs);
             ok = aimee_memory_get_u32 (drop (offset + 4) bs);
             o1 = offset + 8 in
         case aimee_memory_extract_field bs o1 AIMEE_MEMORY_TRIPLE_SUBJECT_MAX of
           None \<Rightarrow> None
         | Some (subj, u1) \<Rightarrow>
           (case aimee_memory_extract_field bs (o1 + u1) AIMEE_MEMORY_TRIPLE_REL_TYPE_MAX of
              None \<Rightarrow> None
            | Some (rel, u2) \<Rightarrow>
              (case aimee_memory_extract_field bs (o1 + u1 + u2) AIMEE_MEMORY_TRIPLE_OBJECT_MAX of
                 None \<Rightarrow> None
               | Some (obj, u3) \<Rightarrow>
                   Some (\<lparr>tr_subject_kind = sk, tr_object_kind = ok, tr_subject = subj,
                          tr_rel_type = rel, tr_object = obj\<rparr>, o1 + u1 + u2 + u3)))))"

fun extract_triples ::
    "byte list \<Rightarrow> nat \<Rightarrow> nat \<Rightarrow> (aimee_memory_triple list \<times> nat) option" where
  "extract_triples bs 0 offset = Some ([], offset)"
| "extract_triples bs (Suc n) offset =
     (case extract_triple bs offset of None \<Rightarrow> None
      | Some (t, offset') \<Rightarrow>
        (case extract_triples bs n offset' of None \<Rightarrow> None
         | Some (ts, offset'') \<Rightarrow> Some (t # ts, offset'')))"

definition aimee_memory_extract_response_decode ::
    "byte list option \<Rightarrow> bool \<Rightarrow> u32 \<Rightarrow> aimee_memory_triple list option" where
  "aimee_memory_extract_response_decode inp dst mx =
     (case inp of None \<Rightarrow> None
      | Some bs \<Rightarrow>
        (if \<not> dst \<or> length bs < AIMEE_MEMORY_EXTRACT_RESPONSE_HEADER_LEN \<or>
            aimee_memory_get_u32 bs \<noteq> AIMEE_MEMORY_EXTRACT_RESPONSE_MAGIC then None
         else
           (let found = aimee_memory_get_u32 (drop 4 bs) in
            if mx < found then None
            else
              (case extract_triples bs (unat found) AIMEE_MEMORY_EXTRACT_RESPONSE_HEADER_LEN of
                 None \<Rightarrow> None
               | Some (ts, offset) \<Rightarrow> if offset \<noteq> length bs then None else Some ts))))"

subsection \<open>Retraction scan\<close>

abbreviation (input) AIMEE_MEMORY_SCAN_REQUEST_MAGIC :: u32 where
  "AIMEE_MEMORY_SCAN_REQUEST_MAGIC \<equiv> 0x51525452"
abbreviation (input) AIMEE_MEMORY_SCAN_RESPONSE_MAGIC :: u32 where
  "AIMEE_MEMORY_SCAN_RESPONSE_MAGIC \<equiv> 0x53525452"
abbreviation (input) AIMEE_MEMORY_SCAN_REQUEST_HEADER_LEN :: nat where
  "AIMEE_MEMORY_SCAN_REQUEST_HEADER_LEN \<equiv> 12"
abbreviation (input) AIMEE_MEMORY_SCAN_RESPONSE_HEADER_LEN :: nat where
  "AIMEE_MEMORY_SCAN_RESPONSE_HEADER_LEN \<equiv> 16"
abbreviation (input) AIMEE_MEMORY_SCAN_ATTR_MAX :: nat where
  "AIMEE_MEMORY_SCAN_ATTR_MAX \<equiv> 128"

definition aimee_memory_scan_request_size :: "cptr \<Rightarrow> nat" where
  "aimee_memory_scan_request_size text =
     text_request_size AIMEE_MEMORY_SCAN_REQUEST_HEADER_LEN text"

definition aimee_memory_scan_request_encode :: "cptr \<Rightarrow> nat option \<Rightarrow> byte list option" where
  "aimee_memory_scan_request_encode text out =
     (let needed = aimee_memory_scan_request_size text in
      case out of None \<Rightarrow> None
      | Some cap \<Rightarrow>
        (if needed = 0 \<or> cap < needed then None
         else
           (let len = needed - AIMEE_MEMORY_SCAN_REQUEST_HEADER_LEN in
            Some (aimee_memory_put_u32 AIMEE_MEMORY_SCAN_REQUEST_MAGIC @
                  aimee_memory_put_u32 AIMEE_MEMORY_WIRE_VERSION @
                  aimee_memory_put_u32 (word_of_nat len) @
                  bytes_of (cptr_str text)))))"

text \<open>The result is the two flags and the attribute.\<close>

definition aimee_memory_scan_response_decode ::
    "byte list option \<Rightarrow> bool \<Rightarrow> nat \<Rightarrow> (bool \<times> bool \<times> string) option" where
  "aimee_memory_scan_response_decode inp dst attr_cap =
     (case inp of None \<Rightarrow> None
      | Some bs \<Rightarrow>
        (if \<not> dst \<or> attr_cap = 0 \<or> length bs < AIMEE_MEMORY_SCAN_RESPONSE_HEADER_LEN \<or>
            aimee_memory_get_u32 bs \<noteq> AIMEE_MEMORY_SCAN_RESPONSE_MAGIC then None
         else
           (let retraction = aimee_memory_get_u32 (drop 4 bs);
                possessive = aimee_memory_get_u32 (drop 8 bs);
                attr_len = unat (aimee_memory_get_u32 (drop 12 bs)) in
            if 1 < retraction \<or> 1 < possessive \<or> attr_cap \<le> attr_len \<or>
               length bs \<noteq> AIMEE_MEMORY_SCAN_RESPONSE_HEADER_LEN + attr_len then None
            else if (possessive = 0) \<noteq> (attr_len = 0) then None
            else Some (retraction = 1, possessive = 1,
                       chars_of (take attr_len (drop AIMEE_MEMORY_SCAN_RESPONSE_HEADER_LEN bs))))))"

subsection \<open>PII turn classification\<close>

abbreviation (input) AIMEE_MEMORY_PII_REQUEST_MAGIC :: u32 where
  "AIMEE_MEMORY_PII_REQUEST_MAGIC \<equiv> 0x51524950"
abbreviation (input) AIMEE_MEMORY_PII_RESPONSE_MAGIC :: u32 where
  "AIMEE_MEMORY_PII_RESPONSE_MAGIC \<equiv> 0x53524950"
abbreviation (input) AIMEE_MEMORY_PII_REQUEST_HEADER_LEN :: nat where
  "AIMEE_MEMORY_PII_REQUEST_HEADER_LEN \<equiv> 12"
abbreviation (input) AIMEE_MEMORY_PII_RESPONSE_LEN :: nat where
  "AIMEE_MEMORY_PII_RESPONSE_LEN \<equiv> 8"

definition aimee_memory_pii_request_size :: "cptr \<Rightarrow> nat" where
  "aimee_memory_pii_request_size turn_text =
     text_request_size AIMEE_MEMORY_PII_REQUEST_HEADER_LEN turn_text"

definition aimee_memory_pii_request_encode :: "cptr \<Rightarrow> nat option \<Rightarrow> byte list option" where
  "aimee_memory_pii_request_encode turn_text out =
     (let needed = aimee_memory_pii_request_size turn_text in
      case out of None \<Rightarrow> None
      | Some cap \<Rightarrow>
        (if needed = 0 \<or> cap < needed then None
         else
           (let len = needed - AIMEE_MEMORY_PII_REQUEST_HEADER_LEN in
            Some (aimee_memory_put_u32 AIMEE_MEMORY_PII_REQUEST_MAGIC @
                  aimee_memory_put_u32 AIMEE_MEMORY_WIRE_VERSION @
                  aimee_memory_put_u32 (word_of_nat len) @
                  bytes_of (cptr_str turn_text)))))"

definition aimee_memory_pii_response_decode :: "byte list option \<Rightarrow> bool \<Rightarrow> bool option" where
  "aimee_memory_pii_response_decode inp dst =
     (case inp of None \<Rightarrow> None
      | Some bs \<Rightarrow>
        (if length bs \<noteq> AIMEE_MEMORY_PII_RESPONSE_LEN \<or> \<not> dst \<or>
            aimee_memory_get_u32 bs \<noteq> AIMEE_MEMORY_PII_RESPONSE_MAGIC then None
         else
           (let value = aimee_memory_get_u32 (drop 4 bs) in
            if 1 < value then None else Some (value = 1))))"

subsection \<open>Relation sensitivity batch\<close>

abbreviation (input) AIMEE_MEMORY_SENS_REQUEST_MAGIC :: u32 where
  "AIMEE_MEMORY_SENS_REQUEST_MAGIC \<equiv> 0x51525350"
abbreviation (input) AIMEE_MEMORY_SENS_RESPONSE_MAGIC :: u32 where
  "AIMEE_MEMORY_SENS_RESPONSE_MAGIC \<equiv> 0x53525350"
abbreviation (input) AIMEE_MEMORY_SENS_REQUEST_HEADER_LEN :: nat where
  "AIMEE_MEMORY_SENS_REQUEST_HEADER_LEN \<equiv> 12"
abbreviation (input) AIMEE_MEMORY_SENS_RESPONSE_HEADER_LEN :: nat where
  "AIMEE_MEMORY_SENS_RESPONSE_HEADER_LEN \<equiv> 8"

datatype aimee_memory_sensitivity = SENS_NORMAL | SENS_PII | SENS_SECRET

fun sensitivity_code :: "aimee_memory_sensitivity \<Rightarrow> byte" where
  "sensitivity_code SENS_NORMAL = 0"
| "sensitivity_code SENS_PII = 1"
| "sensitivity_code SENS_SECRET = 2"

text \<open>\<open>count\<close> is the length of the relation list the caller hands over.\<close>

fun sens_total :: "cptr list \<Rightarrow> nat \<Rightarrow> nat option" where
  "sens_total [] acc = Some acc"
| "sens_total (r # rs) acc =
     (if AIMEE_MEMORY_REL_TYPE_MAX < length (cptr_str r) then None
      else sens_total rs (acc + (2 + length (cptr_str r))))"

definition aimee_memory_sens_request_size :: "cptr list option \<Rightarrow> nat" where
  "aimee_memory_sens_request_size rel_types =
     (case rel_types of None \<Rightarrow> 0
      | Some rs \<Rightarrow>
        (if rs = [] then 0
         else (case sens_total rs AIMEE_MEMORY_SENS_REQUEST_HEADER_LEN of
                 None \<Rightarrow> 0 | Some n \<Rightarrow> n)))"

definition sens_entry :: "cptr \<Rightarrow> byte list" where
  "sens_entry r = aimee_memory_put_u16 (word_of_nat (length (cptr_str r))) @ bytes_of (cptr_str r)"

definition aimee_memory_sens_request_encode ::
    "cptr list option \<Rightarrow> nat option \<Rightarrow> byte list option" where
  "aimee_memory_sens_request_encode rel_types out =
     (let needed = aimee_memory_sens_request_size rel_types in
      case out of None \<Rightarrow> None
      | Some cap \<Rightarrow>
        (if needed = 0 \<or> cap < needed then None
         else
           (case rel_types of None \<Rightarrow> None
            | Some rs \<Rightarrow>
                Some (aimee_memory_put_u32 AIMEE_MEMORY_SENS_REQUEST_MAGIC @
                      aimee_memory_put_u32 AIMEE_MEMORY_WIRE_VERSION @
                      aimee_memory_put_u32 (word_of_nat (length rs)) @
                      concat (map sens_entry rs)))))"

fun sens_tiers :: "byte list \<Rightarrow> aimee_memory_sensitivity list option" where
  "sens_tiers [] = Some []"
| "sens_tiers (tier # rest) =
     (if 2 < tier then None
      else map_option
             ((#) (if tier = 0 then SENS_NORMAL else if tier = 1 then SENS_PII else SENS_SECRET))
             (sens_tiers rest))"

definition aimee_memory_sens_response_decode ::
    "byte list option \<Rightarrow> bool \<Rightarrow> int \<Rightarrow> aimee_memory_sensitivity list option" where
  "aimee_memory_sens_response_decode inp dst count =
     (case inp of None \<Rightarrow> None
      | Some bs \<Rightarrow>
        (if \<not> dst \<or> count \<le> 0 \<or>
            length bs \<noteq> AIMEE_MEMORY_SENS_RESPONSE_HEADER_LEN + nat count \<or>
            aimee_memory_get_u32 bs \<noteq> AIMEE_MEMORY_SENS_RESPONSE_MAGIC \<or>
            aimee_memory_get_u32 (drop 4 bs) \<noteq> word_of_int count then None
         else sens_tiers (drop AIMEE_MEMORY_SENS_RESPONSE_HEADER_LEN bs)))"

end
