(* ===== verification/Node_Kinds.thy ===== *)
theory Node_Kinds
  imports Wire_Messages
begin

text \<open>
  The node kinds of \<open>src/modules/memory/memory_ontology.h\<close>, with the integer codes
  that are persisted and cross the wire.
\<close>

datatype memory_node_kind =
  NODE_FILE | NODE_FUNCTION | NODE_STRUCT | NODE_MODULE | NODE_BUG | NODE_COMMIT | NODE_PR
| NODE_DEVELOPER | NODE_CONCEPT | NODE_EVENT | NODE_PERSON | NODE_PLACE | NODE_TIME_EXPR
| NODE_DEVICE | NODE_ORG | NODE_IP | NODE_SCALAR | NODE_OTHER

fun node_code :: "memory_node_kind \<Rightarrow> u32" where
  "node_code NODE_FILE = 0"
| "node_code NODE_FUNCTION = 1"
| "node_code NODE_STRUCT = 2"
| "node_code NODE_MODULE = 3"
| "node_code NODE_BUG = 4"
| "node_code NODE_COMMIT = 5"
| "node_code NODE_PR = 6"
| "node_code NODE_DEVELOPER = 7"
| "node_code NODE_CONCEPT = 8"
| "node_code NODE_EVENT = 9"
| "node_code NODE_PERSON = 10"
| "node_code NODE_PLACE = 11"
| "node_code NODE_TIME_EXPR = 12"
| "node_code NODE_DEVICE = 13"
| "node_code NODE_ORG = 14"
| "node_code NODE_IP = 15"
| "node_code NODE_SCALAR = 16"
| "node_code NODE_OTHER = 99"

lemma node_code_inject: "node_code a = node_code b \<longleftrightarrow> a = b"
  by (cases a; cases b) simp_all

text \<open>The kinds in the order of their codes.\<close>

instantiation memory_node_kind :: linorder
begin

definition less_eq_memory_node_kind :: "memory_node_kind \<Rightarrow> memory_node_kind \<Rightarrow> bool" where
  "less_eq_memory_node_kind a b \<longleftrightarrow> node_code a \<le> node_code b"

definition less_memory_node_kind :: "memory_node_kind \<Rightarrow> memory_node_kind \<Rightarrow> bool" where
  "less_memory_node_kind a b \<longleftrightarrow> node_code a < node_code b"

instance
  by standard
    (auto simp: less_eq_memory_node_kind_def less_memory_node_kind_def node_code_inject order_less_le)

end

end
