(* ===== verification/Extract.thy ===== *)
theory Extract
  imports Node_Kinds
begin

text \<open>
  Pattern-first fact extraction and the retraction scan:
  \<open>src/modules/memory/memory_extract_patterns.c\<close>.  A loop over a pointer becomes a
  recursion over the rest of the string, a loop over an index a recursion over the index.
  \<open>rel_type_normalize\<close> is not part of the repository's C sources and is the parameter
  \<open>rel_norm\<close> (input, buffer size).
\<close>

abbreviation (input) REL_TYPE_NAME_MAX :: nat where
  "REL_TYPE_NAME_MAX \<equiv> 64"

datatype pattern_value_kind =
  PAT_VAL_NONE | PAT_VAL_IPV4 | PAT_VAL_IPV6 | PAT_VAL_MAC | PAT_VAL_EMAIL | PAT_VAL_DATE

subsection \<open>Structured values\<close>

definition is_hex :: "char \<Rightarrow> bool" where
  "is_hex c \<longleftrightarrow> (48 \<le> code c \<and> code c \<le> 57) \<or> (97 \<le> code c \<and> code c \<le> 102)
     \<or> (65 \<le> code c \<and> code c \<le> 70)"

definition all_digits :: "string \<Rightarrow> nat \<Rightarrow> bool" where
  "all_digits s n \<longleftrightarrow> (\<forall>i < n. isdigit (char_at s i)) \<and> 0 < n"

text \<open>The digits of one octet: its length and value, and the string behind it.\<close>

fun ipv4_octet :: "string \<Rightarrow> nat \<Rightarrow> nat \<Rightarrow> (nat \<times> nat \<times> string) option" where
  "ipv4_octet [] len val = Some (len, val, [])"
| "ipv4_octet (c # cs) len val =
     (if isdigit c
      then (if 3 < len + 1 then None else ipv4_octet cs (len + 1) (val * 10 + (code c - 48)))
      else Some (len, val, c # cs))"

lemma ipv4_octet_length:
  "ipv4_octet p len val = Some (len', val', p') \<Longrightarrow> length p' + len' = length p + len"
  by (induction p len val rule: ipv4_octet.induct) (auto split: if_splits)

function ipv4_loop :: "string \<Rightarrow> nat \<Rightarrow> bool" where
  "ipv4_loop p octets =
     (if p = [] then octets = 4
      else
        (case ipv4_octet p 0 0 of None \<Rightarrow> False
         | Some (len, val, p') \<Rightarrow>
             if len = 0 \<or> 255 < val then False
             else (case p' of
                     [] \<Rightarrow> octets + 1 = 4
                   | c # p'' \<Rightarrow> if c = CHR ''.'' then ipv4_loop p'' (octets + 1) else False)))"
  by pat_completeness auto
termination
  by (relation "measure (\<lambda>(p, octets). length p)") (auto dest!: ipv4_octet_length)

declare ipv4_loop.simps [simp del]

definition is_ipv4 :: "string \<Rightarrow> bool" where
  "is_ipv4 t = ipv4_loop t 0"

definition is_mac :: "string \<Rightarrow> bool" where
  "is_mac t =
     (if length t \<noteq> 17 then False
      else
        (let sep = t ! 2 in
         if sep \<noteq> CHR '':'' \<and> sep \<noteq> CHR ''-'' then False
         else list_all (\<lambda>g. is_hex (t ! (g * 3)) \<and> is_hex (t ! (g * 3 + 1))
                          \<and> (g < 5 \<longrightarrow> t ! (g * 3 + 2) = sep)) [0..<6]))"

fun ipv6_groups :: "string \<Rightarrow> nat \<Rightarrow> nat \<Rightarrow> bool" where
  "ipv6_groups [] groups len = (if len < 1 \<or> 4 < len then False else groups + 1 = 8)"
| "ipv6_groups (c # cs) groups len =
     (if c = CHR '':''
      then (if len < 1 \<or> 4 < len then False else ipv6_groups cs (groups + 1) 0)
      else ipv6_groups cs groups (len + 1))"

definition is_ipv6 :: "string \<Rightarrow> bool" where
  "is_ipv6 t =
     (if CHR '':'' \<notin> set t then False
      else if \<not> list_all (\<lambda>c. is_hex c \<or> c = CHR '':'') t then False
      else if contains t ''::'' then True
      else ipv6_groups t 0 0)"

text \<open>\<open>strchr\<close> for a character other than NUL.\<close>

fun strchr :: "string \<Rightarrow> char \<Rightarrow> nat option" where
  "strchr [] c = None"
| "strchr (x # xs) c = (if x = c then Some 0 else map_option Suc (strchr xs c))"

definition email_char :: "char \<Rightarrow> bool" where
  "email_char c \<longleftrightarrow> c = CHR ''@'' \<or> c = CHR ''.'' \<or> c = CHR ''-'' \<or> c = CHR ''_''
     \<or> c = CHR ''+'' \<or> isalnum c"

definition is_email :: "string \<Rightarrow> bool" where
  "is_email t =
     (case strchr t (CHR ''@'') of None \<Rightarrow> False
      | Some a \<Rightarrow>
          if a = 0 \<or> strchr (drop (a + 1) t) (CHR ''@'') \<noteq> None then False
          else
            (let dom = drop (a + 1) t in
             case strchr dom (CHR ''.'') of None \<Rightarrow> False
             | Some dot \<Rightarrow>
                 if dot = 0 \<or> char_at dom (dot + 1) = NUL then False
                 else list_all email_char t))"

definition is_iso_date :: "string \<Rightarrow> bool" where
  "is_iso_date t =
     (if length t \<noteq> 10 \<or> char_at t 4 \<noteq> CHR ''-'' \<or> char_at t 7 \<noteq> CHR ''-'' then False
      else if \<not> all_digits t 4 \<or> \<not> all_digits (drop 5 t) 2 \<or> \<not> all_digits (drop 8 t) 2
      then False
      else
        (let mo = (code (t ! 5) - 48) * 10 + (code (t ! 6) - 48);
             da = (code (t ! 8) - 48) * 10 + (code (t ! 9) - 48) in
         1 \<le> mo \<and> mo \<le> 12 \<and> 1 \<le> da \<and> da \<le> 31))"

definition memory_pattern_classify_value :: "cptr \<Rightarrow> pattern_value_kind" where
  "memory_pattern_classify_value token =
     (if \<not> nonempty token then PAT_VAL_NONE
      else
        (let t = cptr_str token in
         if is_ipv4 t then PAT_VAL_IPV4
         else if is_mac t then PAT_VAL_MAC
         else if is_ipv6 t then PAT_VAL_IPV6
         else if is_email t then PAT_VAL_EMAIL
         else if is_iso_date t then PAT_VAL_DATE
         else PAT_VAL_NONE))"

fun memory_pattern_value_node_kind :: "pattern_value_kind \<Rightarrow> memory_node_kind" where
  "memory_pattern_value_node_kind PAT_VAL_IPV4 = NODE_IP"
| "memory_pattern_value_node_kind PAT_VAL_IPV6 = NODE_IP"
| "memory_pattern_value_node_kind PAT_VAL_MAC = NODE_SCALAR"
| "memory_pattern_value_node_kind PAT_VAL_EMAIL = NODE_SCALAR"
| "memory_pattern_value_node_kind PAT_VAL_DATE = NODE_SCALAR"
| "memory_pattern_value_node_kind PAT_VAL_NONE = NODE_OTHER"

subsection \<open>Case-insensitive search and the retraction cues\<close>

function ci_find_loop :: "string \<Rightarrow> string \<Rightarrow> nat \<Rightarrow> nat option" where
  "ci_find_loop hay needle i =
     (if i + length needle \<le> length hay
      then (if ci_starts (drop i hay) needle then Some i else ci_find_loop hay needle (i + 1))
      else None)"
  by pat_completeness auto
termination
  by (relation "measure (\<lambda>(hay, needle, i). length hay + 1 - i)") auto

declare ci_find_loop.simps [simp del]

definition ci_find :: "string \<Rightarrow> string \<Rightarrow> nat \<Rightarrow> nat option" where
  "ci_find hay needle from =
     (if needle = [] then Some from else ci_find_loop hay needle from)"

definition retraction_cues :: "string list" where
  "retraction_cues =
     [''forget that'', ''forget about'', ''forget my'', ''forget what'',
      ''delete that'', ''delete the'', ''that'' @ [CHR 39] @ ''s wrong'', ''thats wrong'',
      ''that is wrong'', ''no longer'', ''scratch that'', ''ignore that'',
      ''never mind'', ''nevermind'', ''disregard'']"

definition memory_pattern_is_retraction :: "cptr \<Rightarrow> bool" where
  "memory_pattern_is_retraction text =
     (if \<not> nonempty text then False
      else list_ex (\<lambda>cue. ci_find (cptr_str text) cue 0 \<noteq> None) retraction_cues)"

subsection \<open>Possessives\<close>

definition trim :: "string \<Rightarrow> string" where
  "trim s = rev (dropWhile isspace (rev (dropWhile isspace s)))"

text \<open>The content of a buffer of \<open>cap > 0\<close> bytes after the copy.\<close>

definition copy_trimmed :: "nat \<Rightarrow> string \<Rightarrow> nat \<Rightarrow> string" where
  "copy_trimmed cap src len = cbuf cap (trim (take len src))"

definition is_my_word :: "string \<Rightarrow> nat \<Rightarrow> bool" where
  "is_my_word text i =
     (if tolower (char_at text i) \<noteq> CHR ''m'' \<or> tolower (char_at text (i + 1)) \<noteq> CHR ''y''
      then False
      else if 0 < i \<and> (isalnum (char_at text (i - 1)) \<or> char_at text (i - 1) = CHR ''_'')
      then False
      else isspace (char_at text (i + 2)))"

definition skip_spaces :: "string \<Rightarrow> nat \<Rightarrow> nat" where
  "skip_spaces text s = s + length (takeWhile isspace (drop s text))"

text \<open>The length of the attribute at the head of \<open>rest\<close>.\<close>

fun attr_len :: "string \<Rightarrow> nat \<Rightarrow> bool \<Rightarrow> nat" where
  "attr_len [] words in_word = 0"
| "attr_len (c # cs) words in_word =
     (if c = CHR ''.'' \<or> c = CHR ''!'' \<or> c = CHR ''?'' \<or> c = CHR 0x0A then 0
      else if c = CHR '' ''
      then (if ci_starts (c # cs) '' is '' \<or> ci_starts (c # cs) '' was '' then 0
            else if in_word
            then (if 3 \<le> words + 1 then 0 else Suc (attr_len cs (words + 1) False))
            else Suc (attr_len cs words in_word))
      else Suc (attr_len cs words True))"

text \<open>The result flag and the content of the out buffer, whose size is \<open>Some out_len\<close>.\<close>

definition memory_pattern_possessive_attr :: "cptr \<Rightarrow> nat option \<Rightarrow> bool \<times> string" where
  "memory_pattern_possessive_attr text out =
     (case (text, out) of
        (Some t, Some out_len) \<Rightarrow>
          if out_len = 0 then (False, [])
          else
            (case find (is_my_word t) [0..<length t] of
               None \<Rightarrow> (False, [])
             | Some i \<Rightarrow>
                 (let s = skip_spaces t (i + 2);
                      n = attr_len (drop s t) 0 False;
                      out = copy_trimmed out_len (drop s t) n in
                  (out \<noteq> [], out)))
      | _ \<Rightarrow> (False, []))"

subsection \<open>The turn scan and its registry\<close>

abbreviation (input) MEMORY_PATTERN_ATTR_MAX :: nat where
  "MEMORY_PATTERN_ATTR_MAX \<equiv> 128"

record memory_pattern_turn =
  turn_is_retraction :: bool
  turn_has_attr :: bool
  turn_attr :: string

text \<open>A registered scanner answers with its status (zero or not) and the filled turn.\<close>

type_synonym turn_scanner = "string \<Rightarrow> bool \<times> memory_pattern_turn"

definition memory_pattern_scan_turn ::
    "turn_scanner option \<Rightarrow> cptr \<Rightarrow> bool \<Rightarrow> memory_pattern_turn option" where
  "memory_pattern_scan_turn g_turn_scanner text out =
     (case text of None \<Rightarrow> None
      | Some t \<Rightarrow>
          if \<not> out then None
          else (case g_turn_scanner of
                  Some scanner \<Rightarrow> (let (zero, turn) = scanner t in if zero then Some turn else None)
                | None \<Rightarrow>
                    (let (has, a) =
                       memory_pattern_possessive_attr (Some t) (Some MEMORY_PATTERN_ATTR_MAX) in
                     Some \<lparr>turn_is_retraction = memory_pattern_is_retraction (Some t),
                           turn_has_attr = has, turn_attr = a\<rparr>)))"

subsection \<open>Extraction\<close>

record pattern_triple =
  pt_subject :: string
  pt_rel_type :: string
  pt_object :: string
  pt_subject_kind :: memory_node_kind
  pt_object_kind :: memory_node_kind

type_synonym extractor = "string \<Rightarrow> int \<Rightarrow> bool \<times> pattern_triple list"

text \<open>The length of the value at the head of \<open>rest\<close>.\<close>

fun val_len :: "string \<Rightarrow> nat" where
  "val_len [] = 0"
| "val_len (c # cs) =
     (if c = CHR 0x0A then 0
      else if (c = CHR ''.'' \<or> c = CHR ''!'' \<or> c = CHR ''?'')
              \<and> (cs = [] \<or> isspace (char_at cs 0)) then 0
      else Suc (val_len cs))"

definition make_triple :: "(string \<Rightarrow> nat \<Rightarrow> string) \<Rightarrow> string \<Rightarrow> string \<Rightarrow> pattern_triple" where
  "make_triple rel_norm a v =
     \<lparr>pt_subject = cbuf 128 ''user'',
      pt_rel_type = rel_norm a REL_TYPE_NAME_MAX,
      pt_object = cbuf 128 v,
      pt_subject_kind = NODE_PERSON,
      pt_object_kind = memory_pattern_value_node_kind (memory_pattern_classify_value (Some v))\<rparr>"

lemma ci_find_loop_Some:
  "ci_find_loop hay needle i = Some j \<Longrightarrow>
     i \<le> j \<and> j + length needle \<le> length hay \<and> ci_starts (drop j hay) needle"
  by (induction hay needle i rule: ci_find_loop.induct)
    (subst (asm) (2) ci_find_loop.simps, auto split: if_splits)

lemma ci_find_Some:
  assumes "ci_find hay needle i = Some j" and "needle \<noteq> []"
  shows "i \<le> j" and "j + length needle \<le> length hay" and "ci_starts (drop j hay) needle"
  using assms ci_find_loop_Some [of hay needle i j] by (auto simp: ci_find_def)

lemma skip_spaces_ge [simp]: "s \<le> skip_spaces text s"
  by (simp add: skip_spaces_def)

lemma ci_find_skip:
  "ci_find s '' is '' (skip_spaces s k) = Some p \<Longrightarrow> k \<le> p \<and> p + 4 \<le> length s"
  using ci_find_Some(1,2) [of s "'' is ''" "skip_spaces s k" p]
  by (auto intro: order_trans [OF skip_spaces_ge])

text \<open>
  What a "my" word at position \<open>i\<close> yields: attribute, value and the end of the value.
\<close>

definition extract_hit :: "string \<Rightarrow> nat \<Rightarrow> (string \<times> string \<times> nat) option" where
  "extract_hit text i =
     (let attr_start = skip_spaces text (i + 2) in
      case ci_find text '' is '' attr_start of
        None \<Rightarrow> None
      | Some is_pos \<Rightarrow>
          (let val_start = is_pos + 4;
               val_end = val_start + val_len (drop val_start text) in
           Some (copy_trimmed 128 (drop attr_start text) (is_pos - attr_start),
                 copy_trimmed 128 (drop val_start text) (val_end - val_start),
                 val_end)))"

lemma extract_hit_bound: "extract_hit s i = Some (a, v, e) \<Longrightarrow> i < e"
  by (auto simp: extract_hit_def Let_def dest!: ci_find_skip split: option.splits)

text \<open>
  The scan from position \<open>i\<close> with \<open>n\<close> triples already written.
\<close>

function extract_loop ::
    "(string \<Rightarrow> nat \<Rightarrow> string) \<Rightarrow> string \<Rightarrow> int \<Rightarrow> nat \<Rightarrow> nat \<Rightarrow> pattern_triple list" where
  "extract_loop rel_norm text mx i n =
     (if \<not> (i < length text \<and> int n < mx) then []
      else if \<not> is_my_word text i then extract_loop rel_norm text mx (i + 1) n
      else
        (case extract_hit text i of
           None \<Rightarrow> extract_loop rel_norm text mx (i + 1) n
         | Some (a, v, val_end) \<Rightarrow>
             if a = [] \<or> v = [] then extract_loop rel_norm text mx (val_end + 1) n
             else
               (let t = make_triple rel_norm a v in
                if pt_rel_type t \<noteq> []
                then t # extract_loop rel_norm text mx (val_end + 1) (n + 1)
                else extract_loop rel_norm text mx (val_end + 1) n)))"
  by pat_completeness auto
termination
  by (relation "measure (\<lambda>(rel_norm, text, mx, i, n). length text - i)")
    (auto dest!: extract_hit_bound)

declare extract_loop.simps [simp del]

text \<open>\<open>None\<close> is the C's \<open>-1\<close>; the count is the length of the list.\<close>

definition memory_extract_patterns ::
    "(string \<Rightarrow> nat \<Rightarrow> string) \<Rightarrow> extractor option \<Rightarrow> cptr \<Rightarrow> bool \<Rightarrow> int \<Rightarrow>
     pattern_triple list option" where
  "memory_extract_patterns rel_norm g_extractor text out mx =
     (case text of None \<Rightarrow> None
      | Some t \<Rightarrow>
          if \<not> out \<or> mx \<le> 0 then None
          else (case g_extractor of
                  Some extractor \<Rightarrow>
                    (let (zero, ts) = extractor t mx in if zero then Some ts else None)
                | None \<Rightarrow> Some (extract_loop rel_norm t mx 0 0)))"

end
