(* ===== verification/Gates.thy ===== *)
theory Gates
  imports Extract Complex_Main
begin

text \<open>
  The typed-fact write gate (\<open>src/modules/memory/memory_fact_gate.c\<close>) and the PII
  recall gate (\<open>src/modules/memory/memory_pii_gate.c\<close>).

  Both consult the relation ontology of \<open>rel_types.h\<close>, which is not part of the
  repository's C sources: it is the record \<open>rel_types\<close>, the four functions the two
  gates call.  \<open>Go_Module\<close> gives the instance that the repository does hold, the seed
  table of the Go process.
\<close>

record 'd rel_types =
  seed_lookup :: "string \<Rightarrow> 'd option"
  kind_allowed :: "'d \<Rightarrow> bool \<Rightarrow> memory_node_kind \<Rightarrow> bool"
  def_sensitivity :: "'d \<Rightarrow> aimee_memory_sensitivity"
  rel_normalize :: "string \<Rightarrow> nat \<Rightarrow> string"

subsection \<open>The write gate\<close>

datatype fact_gate_verdict =
  FACT_GATE_ACCEPT | FACT_GATE_REJECT_KIND | FACT_GATE_NOVEL | FACT_GATE_BADARG
| FACT_GATE_DEFER | FACT_GATE_REJECT_SENSITIVE

text \<open>A registered checker gives a verdict, or \<open>None\<close> when it cannot.\<close>

type_synonym gate_checker =
  "memory_node_kind \<Rightarrow> cptr \<Rightarrow> memory_node_kind \<Rightarrow> fact_gate_verdict option"

text \<open>
  \<open>matched\<close> says whether the caller passed an out-pointer; the second component is what
  it holds afterwards.
\<close>

definition memory_fact_gate_check ::
    "'d rel_types \<Rightarrow> gate_checker option \<Rightarrow> memory_node_kind \<Rightarrow> cptr \<Rightarrow> memory_node_kind \<Rightarrow> bool \<Rightarrow>
     fact_gate_verdict \<times> 'd option" where
  "memory_fact_gate_check rt g_checker head_kind rel_type tail_kind matched =
     (let def = (if nonempty rel_type then seed_lookup rt (cptr_str rel_type) else None) in
      case g_checker of
        Some checker \<Rightarrow>
          (case checker head_kind rel_type tail_kind of
             None \<Rightarrow> (FACT_GATE_DEFER, None)
           | Some verdict \<Rightarrow>
               (verdict,
                if matched \<and> verdict \<noteq> FACT_GATE_NOVEL \<and> verdict \<noteq> FACT_GATE_BADARG
                then def else None))
      | None \<Rightarrow>
          if \<not> nonempty rel_type then (FACT_GATE_BADARG, None)
          else
            (case def of None \<Rightarrow> (FACT_GATE_NOVEL, None)
             | Some d \<Rightarrow>
                 (if \<not> kind_allowed rt d True head_kind \<or> \<not> kind_allowed rt d False tail_kind
                  then FACT_GATE_REJECT_KIND else FACT_GATE_ACCEPT,
                  if matched then Some d else None)))"

subsection \<open>The recall gate\<close>

definition ci_contains :: "string \<Rightarrow> string \<Rightarrow> bool" where
  "ci_contains hay needle =
     (if needle = [] then True
      else if length hay < length needle then False
      else ci_find_loop hay needle 0 \<noteq> None)"

definition sensitive_turn_cues :: "string list" where
  "sensitive_turn_cues =
     [''address'', ''phone'', ''email'', ''birthday'',
      ''birth date'', ''date of birth'', ''born on'', ''password'',
      ''passphrase'', ''credential'', ''secret'', ''api key'',
      ''ssn'', ''social security'', ''where do i live'', ''where i live'',
      ''my number'', ''home ip'', ''ip address'']"

type_synonym turn_classifier = "string \<Rightarrow> bool option"

definition memory_pii_turn_requests_sensitive :: "turn_classifier option \<Rightarrow> cptr \<Rightarrow> bool" where
  "memory_pii_turn_requests_sensitive g_turn_classifier turn_text =
     (if \<not> nonempty turn_text then False
      else
        (case g_turn_classifier of
           Some classifier \<Rightarrow>
             (case classifier (cptr_str turn_text) of None \<Rightarrow> False
              | Some requests_sensitive \<Rightarrow> requests_sensitive)
         | None \<Rightarrow> list_ex (ci_contains (cptr_str turn_text)) sensitive_turn_cues))"

definition secret_tokens :: "string list" where
  "secret_tokens =
     [''password'', ''passwd'', ''passphrase'', ''secret'',
      ''api_key'', ''apikey'', ''access_key'', ''private_key'',
      ''privkey'', ''ssh_key'', ''token'', ''credential'']"

definition pii_tokens :: "string list" where
  "pii_tokens =
     [''ssn'', ''social_security'', ''passport'', ''credit_card'', ''creditcard'',
      ''card_number'', ''cvv'', ''bank_account'', ''account_number'', ''routing_number'',
      ''tax_id'', ''national_id'', ''drivers_license'', ''license_number'', ''phone'',
      ''email'', ''date_of_birth'', ''birthdate'', ''dob'', ''home_address'',
      ''street_address'']"

definition pii_unknown_rel_sensitivity :: "string \<Rightarrow> aimee_memory_sensitivity" where
  "pii_unknown_rel_sensitivity nm =
     (if list_ex (ci_contains nm) secret_tokens then SENS_SECRET
      else if list_ex (ci_contains nm) pii_tokens then SENS_PII
      else SENS_NORMAL)"

definition memory_pii_rel_sensitivity :: "'d rel_types \<Rightarrow> cptr \<Rightarrow> aimee_memory_sensitivity" where
  "memory_pii_rel_sensitivity rt rel_type =
     (if \<not> nonempty rel_type then SENS_NORMAL
      else
        (let nm = rel_normalize rt (cptr_str rel_type) REL_TYPE_NAME_MAX;
             def = (if nm \<noteq> [] then seed_lookup rt nm else None) in
         case def of
           Some d \<Rightarrow> def_sensitivity rt d
         | None \<Rightarrow>
             pii_unknown_rel_sensitivity (if nm \<noteq> [] then nm else cptr_str rel_type)))"

text \<open>\<open>count\<close> is the length of the list.\<close>

type_synonym sensitivity_batch = "cptr list \<Rightarrow> aimee_memory_sensitivity list option"

definition memory_pii_rel_sensitivity_batch ::
    "'d rel_types \<Rightarrow> sensitivity_batch option \<Rightarrow> cptr list option \<Rightarrow> bool \<Rightarrow>
     aimee_memory_sensitivity list option" where
  "memory_pii_rel_sensitivity_batch rt g_sensitivity_batch rel_types out =
     (case rel_types of None \<Rightarrow> None
      | Some rs \<Rightarrow>
          if \<not> out \<or> rs = [] then None
          else (case g_sensitivity_batch of
                  Some classifier \<Rightarrow> classifier rs
                | None \<Rightarrow> Some (map (memory_pii_rel_sensitivity rt) rs)))"

text \<open>
  A C \<open>double\<close>: the values a comparison can see.  \<open>>=\<close> is false for NaN.
\<close>

datatype cdouble = NaN | NInf | PInf | Fin real

fun double_ge :: "cdouble \<Rightarrow> real \<Rightarrow> bool" where
  "double_ge NaN r = False"
| "double_ge NInf r = False"
| "double_ge PInf r = True"
| "double_ge (Fin x) r = (r \<le> x)"

definition PII_GATE_CONFIDENCE_FLOOR :: real where
  "PII_GATE_CONFIDENCE_FLOOR = 4 / 10"

definition memory_pii_should_inject ::
    "aimee_memory_sensitivity \<Rightarrow> cdouble \<Rightarrow> bool \<Rightarrow> bool" where
  "memory_pii_should_inject sens confidence turn_requests_sensitive =
     (if \<not> double_ge confidence PII_GATE_CONFIDENCE_FLOOR then False
      else (case sens of
              SENS_NORMAL \<Rightarrow> True
            | SENS_PII \<Rightarrow> turn_requests_sensitive
            | SENS_SECRET \<Rightarrow> False))"

subsection \<open>The registries\<close>

text \<open>
  The five file-static function pointers.  NULL (\<open>None\<close>) means the local computation.
\<close>

record seams =
  g_checker :: "gate_checker option"
  g_turn_classifier :: "turn_classifier option"
  g_sensitivity_batch :: "sensitivity_batch option"
  g_turn_scanner :: "turn_scanner option"
  g_extractor :: "extractor option"

definition local_seams :: seams where
  "local_seams = \<lparr>g_checker = None, g_turn_classifier = None, g_sensitivity_batch = None,
                  g_turn_scanner = None, g_extractor = None\<rparr>"

definition memory_fact_gate_register_checker :: "gate_checker option \<Rightarrow> seams \<Rightarrow> seams" where
  "memory_fact_gate_register_checker checker s = s\<lparr>g_checker := checker\<rparr>"

definition memory_pii_register_turn_classifier :: "turn_classifier option \<Rightarrow> seams \<Rightarrow> seams" where
  "memory_pii_register_turn_classifier classifier s = s\<lparr>g_turn_classifier := classifier\<rparr>"

definition memory_pii_register_sensitivity_batch :: "sensitivity_batch option \<Rightarrow> seams \<Rightarrow> seams" where
  "memory_pii_register_sensitivity_batch classifier s = s\<lparr>g_sensitivity_batch := classifier\<rparr>"

definition memory_extract_register_turn_scanner :: "turn_scanner option \<Rightarrow> seams \<Rightarrow> seams" where
  "memory_extract_register_turn_scanner scanner s = s\<lparr>g_turn_scanner := scanner\<rparr>"

definition memory_extract_register_extractor :: "extractor option \<Rightarrow> seams \<Rightarrow> seams" where
  "memory_extract_register_extractor extractor s = s\<lparr>g_extractor := extractor\<rparr>"

end
