(* ===== verification/Go_Ports.thy ===== *)
theory Go_Ports
  imports Gates
begin

text \<open>
  The Go process's ports of the pure decisions:
  \<open>server-go/modules/memory/ontology.go\<close>, \<open>ontology_seed.go\<close>, \<open>extract.go\<close> and
  \<open>pii.go\<close>.  They are written over indices where the C walks pointers; the parity lemmas
  at the end relate each port to the C function it replaces.  Go's ASCII predicates
  (\<open>isUpper\<close>, \<open>isSpace\<close>, \<open>isHex\<close>, \<open>toLower\<close> and so on) are those of \<open>C_Base\<close>
  and \<open>Extract\<close>; a Go string may contain NUL bytes.
\<close>

subsection \<open>Ontology\<close>

type_synonym go_node_kind = u32

record relTypeDef =
  RelType :: string
  HeadKinds :: "go_node_kind list"
  TailKinds :: "go_node_kind list"
  Sensitivity :: aimee_memory_sensitivity

abbreviation (input) relTypeNameMax :: nat where
  "relTypeNameMax \<equiv> 64"

fun normalize_loop :: "string \<Rightarrow> string \<Rightarrow> bool \<Rightarrow> bool \<Rightarrow> string" where
  "normalize_loop [] res prevUnderscore prevLowerOrDigit = res"
| "normalize_loop (c # cs) res prevUnderscore prevLowerOrDigit =
     (if \<not> length res < relTypeNameMax - 1 then res
      else if isalnum c then
        (let res1 = (if isupper c \<and> prevLowerOrDigit \<and> \<not> prevUnderscore
                       \<and> length res < relTypeNameMax - 1 then res @ ''_'' else res);
             res2 = (if length res1 < relTypeNameMax - 1 then res1 @ [tolower c] else res1) in
         normalize_loop cs res2 False (islower c \<or> isdigit c))
      else if \<not> prevUnderscore \<and> length res < relTypeNameMax - 1
      then normalize_loop cs (res @ ''_'') True False
      else normalize_loop cs res prevUnderscore False)"

text \<open>\<open>strings.TrimSuffix(s, "_")\<close>.\<close>

definition trim_suffix_underscore :: "string \<Rightarrow> string" where
  "trim_suffix_underscore s = (if suffix ''_'' s then butlast s else s)"

definition normalizeRelType :: "string \<Rightarrow> string" where
  "normalizeRelType s = trim_suffix_underscore (normalize_loop s [] True False)"

definition seed_row ::
    "string \<Rightarrow> memory_node_kind \<Rightarrow> memory_node_kind \<Rightarrow> aimee_memory_sensitivity \<Rightarrow> relTypeDef" where
  "seed_row name h t s =
     \<lparr>RelType = name, HeadKinds = [node_code h], TailKinds = [node_code t], Sensitivity = s\<rparr>"

definition seedOntology :: "relTypeDef list" where
  "seedOntology =
     [seed_row ''works_for'' NODE_PERSON NODE_ORG SENS_NORMAL,
      seed_row ''member_of'' NODE_PERSON NODE_ORG SENS_NORMAL,
      seed_row ''has_role'' NODE_PERSON NODE_SCALAR SENS_NORMAL,
      seed_row ''spouse'' NODE_PERSON NODE_PERSON SENS_PII,
      seed_row ''knows'' NODE_PERSON NODE_PERSON SENS_PII,
      seed_row ''parent_of'' NODE_PERSON NODE_PERSON SENS_PII,
      seed_row ''child_of'' NODE_PERSON NODE_PERSON SENS_PII,
      seed_row ''lives_in'' NODE_PERSON NODE_PLACE SENS_PII,
      seed_row ''born_in'' NODE_PERSON NODE_PLACE SENS_PII,
      seed_row ''located_in'' NODE_OTHER NODE_PLACE SENS_NORMAL,
      seed_row ''device_has_ip'' NODE_DEVICE NODE_IP SENS_NORMAL,
      seed_row ''has_hostname'' NODE_DEVICE NODE_SCALAR SENS_NORMAL,
      seed_row ''age'' NODE_PERSON NODE_SCALAR SENS_PII,
      seed_row ''also_known_as'' NODE_PERSON NODE_OTHER SENS_NORMAL,
      seed_row ''supersedes'' NODE_OTHER NODE_OTHER SENS_NORMAL,
      seed_row ''linked_policy'' NODE_OTHER NODE_OTHER SENS_NORMAL,
      seed_row ''decided_by'' NODE_OTHER NODE_PERSON SENS_NORMAL]"

definition seedLookup :: "string \<Rightarrow> relTypeDef option" where
  "seedLookup relType =
     (if relType = [] then None
      else (let nm = normalizeRelType relType in find (\<lambda>d. RelType d = nm) seedOntology))"

definition kindAllowed :: "go_node_kind list \<Rightarrow> go_node_kind \<Rightarrow> bool" where
  "kindAllowed kinds kind = list_ex (\<lambda>allowed. allowed = 99 \<or> allowed = kind) kinds"

definition GateCheck :: "go_node_kind \<Rightarrow> string \<Rightarrow> go_node_kind \<Rightarrow> aimee_memory_fact_verdict" where
  "GateCheck headKind relType tailKind =
     (if relType = [] then FACT_BADARG
      else
        (case seedLookup relType of None \<Rightarrow> FACT_NOVEL
         | Some d \<Rightarrow>
             if \<not> kindAllowed (HeadKinds d) headKind \<or> \<not> kindAllowed (TailKinds d) tailKind
             then FACT_REJECT_KIND else FACT_ACCEPT))"

text \<open>
  The ontology record the C gates take, read off the Go tables.  \<open>rel_type_normalize\<close>
  writes at most \<open>cap - 1\<close> bytes.
\<close>

definition go_rel_types :: "relTypeDef rel_types" where
  "go_rel_types =
     \<lparr>seed_lookup = seedLookup,
      kind_allowed = (\<lambda>d is_head k. kindAllowed (if is_head then HeadKinds d else TailKinds d)
                                      (node_code k)),
      def_sensitivity = Sensitivity,
      rel_normalize = (\<lambda>s cap. cbuf cap (normalizeRelType s))\<rparr>"

subsection \<open>Extraction\<close>

definition ciStartsAt :: "string \<Rightarrow> nat \<Rightarrow> string \<Rightarrow> bool" where
  "ciStartsAt haystack pos needle =
     list_all (\<lambda>k. \<not> (length haystack \<le> pos + k) \<and> tolower (haystack ! (pos + k)) = tolower (needle ! k))
       [0..<length needle]"

function ciFind_loop :: "string \<Rightarrow> string \<Rightarrow> nat \<Rightarrow> nat option" where
  "ciFind_loop haystack needle i =
     (if i + length needle \<le> length haystack
      then (if ciStartsAt haystack i needle then Some i else ciFind_loop haystack needle (i + 1))
      else None)"
  by pat_completeness auto
termination
  by (relation "measure (\<lambda>(hay, needle, i). length hay + 1 - i)") auto

declare ciFind_loop.simps [simp del]

definition ciFind :: "string \<Rightarrow> string \<Rightarrow> nat \<Rightarrow> nat option" where
  "ciFind haystack needle from =
     (if length haystack < from then None
      else if needle = [] then Some from
      else ciFind_loop haystack needle from)"

definition IsRetraction :: "string \<Rightarrow> bool" where
  "IsRetraction s =
     (if s = [] then False
      else list_ex (\<lambda>cue. ciFind s cue 0 \<noteq> None) retraction_cues)"

definition trimmedTo :: "string \<Rightarrow> nat \<Rightarrow> string" where
  "trimmedTo s cap =
     (if cap = 0 then []
      else (let t = trim s in if cap - 1 < length t then take (cap - 1) t else t))"

definition isMyWord :: "string \<Rightarrow> nat \<Rightarrow> bool" where
  "isMyWord s i =
     (if length s \<le> i + 1 \<or> tolower (s ! i) \<noteq> CHR ''m'' \<or> tolower (s ! (i + 1)) \<noteq> CHR ''y''
      then False
      else if 0 < i \<and> (isalnum (s ! (i - 1)) \<or> s ! (i - 1) = CHR ''_'') then False
      else i + 2 < length s \<and> isspace (s ! (i + 2)))"

function attr_end :: "string \<Rightarrow> nat \<Rightarrow> nat \<Rightarrow> bool \<Rightarrow> nat" where
  "attr_end s e words inWord =
     (if \<not> e < length s then e
      else
        (let c = s ! e in
         if c = CHR ''.'' \<or> c = CHR ''!'' \<or> c = CHR ''?'' \<or> c = CHR 0x0A then e
         else if c = CHR '' ''
         then (if ciStartsAt s e '' is '' \<or> ciStartsAt s e '' was '' then e
               else if inWord
               then (if 3 \<le> words + 1 then e else attr_end s (e + 1) (words + 1) False)
               else attr_end s (e + 1) words inWord)
         else attr_end s (e + 1) words True))"
  by pat_completeness auto
termination
  by (relation "measure (\<lambda>(s, e, words, inWord). length s - e)") auto

declare attr_end.simps [simp del]

function skip_at :: "string \<Rightarrow> nat \<Rightarrow> nat" where
  "skip_at s i = (if i < length s \<and> isspace (s ! i) then skip_at s (i + 1) else i)"
  by pat_completeness auto
termination
  by (relation "measure (\<lambda>(s, i). length s - i)") auto

declare skip_at.simps [simp del]

definition slice :: "string \<Rightarrow> nat \<Rightarrow> nat \<Rightarrow> string" where
  "slice s i j = take (j - i) (drop i s)"

definition PossessiveAttr :: "string \<Rightarrow> string \<times> bool" where
  "PossessiveAttr s =
     (case find (isMyWord s) [0..<length s] of
        None \<Rightarrow> ([], False)
      | Some i \<Rightarrow>
          (let start = skip_at s (i + 2);
               e = attr_end s start 0 False;
               a = trimmedTo (slice s start e) 128 in
           (a, a \<noteq> [])))"

function val_end_at :: "string \<Rightarrow> nat \<Rightarrow> nat" where
  "val_end_at s i =
     (if \<not> i < length s then i
      else
        (let c = s ! i in
         if c = CHR 0x0A then i
         else if (c = CHR ''.'' \<or> c = CHR ''!'' \<or> c = CHR ''?'')
                 \<and> (i + 1 = length s \<or> isspace (s ! (i + 1))) then i
         else val_end_at s (i + 1)))"
  by pat_completeness auto
termination
  by (relation "measure (\<lambda>(s, i). length s - i)") auto

declare val_end_at.simps [simp del]

record Triple =
  go_Subject :: string
  go_RelType :: string
  go_Object :: string
  go_SubjectKind :: go_node_kind
  go_ObjectKind :: go_node_kind

subsection \<open>Value shapes\<close>

definition allDigits :: "string \<Rightarrow> bool" where
  "allDigits s \<longleftrightarrow> list_all isdigit s \<and> 0 < length s"

function octet_at :: "string \<Rightarrow> nat \<Rightarrow> nat \<Rightarrow> nat \<Rightarrow> (nat \<times> nat) option" where
  "octet_at t i n val =
     (if i + n < length t \<and> isdigit (t ! (i + n))
      then (if 3 < n + 1 then None else octet_at t i (n + 1) (val * 10 + (code (t ! (i + n)) - 48)))
      else Some (n, val))"
  by pat_completeness auto
termination
  by (relation "measure (\<lambda>(t, i, n, val). length t - (i + n))") auto

declare octet_at.simps [simp del]

lemma octet_at_bound:
  "octet_at t i n val = Some (n', val') \<Longrightarrow> i + n \<le> length t \<Longrightarrow> n \<le> n' \<and> i + n' \<le> length t"
  by (induction t i n val rule: octet_at.induct)
    (subst (asm) (2) octet_at.simps, auto split: if_splits)

function isIPv4_loop :: "string \<Rightarrow> nat \<Rightarrow> nat \<Rightarrow> bool" where
  "isIPv4_loop t i octets =
     (if \<not> i < length t then octets = 4
      else
        (case octet_at t i 0 0 of None \<Rightarrow> False
         | Some (n, val) \<Rightarrow>
             if n = 0 \<or> 255 < val then False
             else if i + n < length t \<and> t ! (i + n) = CHR ''.''
             then isIPv4_loop t (i + n + 1) (octets + 1)
             else if i + n < length t then False
             else isIPv4_loop t (i + n) (octets + 1)))"
  by pat_completeness auto
termination
  by (relation "measure (\<lambda>(t, i, octets). length t - i)") auto

declare isIPv4_loop.simps [simp del]

definition isIPv4 :: "string \<Rightarrow> bool" where
  "isIPv4 t = isIPv4_loop t 0 0"

definition isMAC :: "string \<Rightarrow> bool" where
  "isMAC t =
     (if length t \<noteq> 17 then False
      else
        (let sep = t ! 2 in
         if sep \<noteq> CHR '':'' \<and> sep \<noteq> CHR ''-'' then False
         else list_all (\<lambda>g. let grp = drop (g * 3) t in
                is_hex (grp ! 0) \<and> is_hex (grp ! 1) \<and> (g < 5 \<longrightarrow> grp ! 2 = sep)) [0..<6]))"

function ipv6_count :: "string \<Rightarrow> nat \<Rightarrow> nat \<Rightarrow> nat \<Rightarrow> nat option" where
  "ipv6_count t i groups len =
     (if length t < i then Some groups
      else if i = length t \<or> t ! i = CHR '':''
      then (if len < 1 \<or> 4 < len then None else ipv6_count t (i + 1) (groups + 1) 0)
      else ipv6_count t (i + 1) groups (len + 1))"
  by pat_completeness auto
termination
  by (relation "measure (\<lambda>(t, i, groups, len). length t + 1 - i)") auto

declare ipv6_count.simps [simp del]

definition isIPv6 :: "string \<Rightarrow> bool" where
  "isIPv6 t =
     (if \<not> contains t '':'' then False
      else if list_ex (\<lambda>c. \<not> is_hex c \<and> c \<noteq> CHR '':'') t then False
      else if contains t ''::'' then True
      else (case ipv6_count t 0 0 0 of None \<Rightarrow> False | Some groups \<Rightarrow> groups = 8))"

definition isEmail :: "string \<Rightarrow> bool" where
  "isEmail t =
     (case strchr t (CHR ''@'') of None \<Rightarrow> False
      | Some a \<Rightarrow>
          if a = 0 \<or> strchr (drop (a + 1) t) (CHR ''@'') \<noteq> None then False
          else
            (let dom = drop (a + 1) t in
             case strchr dom (CHR ''.'') of None \<Rightarrow> False
             | Some dot \<Rightarrow>
                 if dot = 0 \<or> int dot = int (length dom) - 1 then False
                 else list_all email_char t))"

definition isISODate :: "string \<Rightarrow> bool" where
  "isISODate t =
     (if length t \<noteq> 10 \<or> t ! 4 \<noteq> CHR ''-'' \<or> t ! 7 \<noteq> CHR ''-'' then False
      else if \<not> allDigits (slice t 0 4) \<or> \<not> allDigits (slice t 5 7) \<or> \<not> allDigits (slice t 8 10)
      then False
      else
        (let month = (code (t ! 5) - 48) * 10 + (code (t ! 6) - 48);
             day = (code (t ! 8) - 48) * 10 + (code (t ! 9) - 48) in
         1 \<le> month \<and> month \<le> 12 \<and> 1 \<le> day \<and> day \<le> 31))"

definition ClassifyValue :: "string \<Rightarrow> pattern_value_kind" where
  "ClassifyValue token =
     (if token = [] then PAT_VAL_NONE
      else if isIPv4 token then PAT_VAL_IPV4
      else if isMAC token then PAT_VAL_MAC
      else if isIPv6 token then PAT_VAL_IPV6
      else if isEmail token then PAT_VAL_EMAIL
      else if isISODate token then PAT_VAL_DATE
      else PAT_VAL_NONE)"

definition ValueNodeKind :: "pattern_value_kind \<Rightarrow> go_node_kind" where
  "ValueNodeKind kind =
     (if kind = PAT_VAL_IPV4 \<or> kind = PAT_VAL_IPV6 then node_code NODE_IP
      else if kind = PAT_VAL_MAC \<or> kind = PAT_VAL_EMAIL \<or> kind = PAT_VAL_DATE
      then node_code NODE_SCALAR
      else node_code NODE_OTHER)"

subsection \<open>The extraction loop\<close>

lemma val_end_at_ge: "i \<le> val_end_at s i"
  by (induction s i rule: val_end_at.induct) (subst val_end_at.simps, auto simp: Let_def)

lemma skip_at_ge: "i \<le> skip_at s i"
  by (induction s i rule: skip_at.induct) (subst skip_at.simps, auto)

lemma ciFind_ge: "ciFind s n i = Some j \<Longrightarrow> i \<le> j"
proof -
  have "ciFind_loop s n i = Some j \<Longrightarrow> i \<le> j"
    by (induction s n i rule: ciFind_loop.induct)
      (subst (asm) (2) ciFind_loop.simps, auto split: if_splits)
  then show "ciFind s n i = Some j \<Longrightarrow> i \<le> j"
    by (auto simp: ciFind_def split: if_splits)
qed

definition go_hit :: "string \<Rightarrow> nat \<Rightarrow> (string \<times> string \<times> nat) option" where
  "go_hit s i =
     (let attrStart = skip_at s (i + 2) in
      case ciFind s '' is '' attrStart of
        None \<Rightarrow> None
      | Some isPos \<Rightarrow>
          (let valStart = isPos + 4;
               valEnd = val_end_at s valStart in
           Some (trimmedTo (slice s attrStart isPos) 128,
                 trimmedTo (slice s valStart valEnd) 128,
                 valEnd)))"

lemma go_hit_bound:
  assumes "go_hit s i = Some (a, v, e)"
  shows "i < e"
proof -
  obtain p where p: "ciFind s '' is '' (skip_at s (i + 2)) = Some p"
    and e: "e = val_end_at s (p + 4)"
    using assms by (auto simp: go_hit_def Let_def split: option.splits)
  show ?thesis
    using ciFind_ge [OF p] skip_at_ge [of "i + 2" s] val_end_at_ge [of "p + 4" s] e by linarith
qed

function ExtractPatterns_loop :: "string \<Rightarrow> int \<Rightarrow> nat \<Rightarrow> nat \<Rightarrow> Triple list" where
  "ExtractPatterns_loop s mx i n =
     (if \<not> (i < length s \<and> int n < mx) then []
      else if \<not> isMyWord s i then ExtractPatterns_loop s mx (i + 1) n
      else
        (case go_hit s i of
           None \<Rightarrow> ExtractPatterns_loop s mx (i + 1) n
         | Some (a, v, valEnd) \<Rightarrow>
             if a = [] \<or> v = [] then ExtractPatterns_loop s mx (valEnd + 1) n
             else
               (let relType = normalizeRelType a in
                if relType = [] then ExtractPatterns_loop s mx (valEnd + 1) n
                else \<lparr>go_Subject = ''user'', go_RelType = relType, go_Object = v,
                       go_SubjectKind = node_code NODE_PERSON,
                       go_ObjectKind = ValueNodeKind (ClassifyValue v)\<rparr>
                     # ExtractPatterns_loop s mx (valEnd + 1) (n + 1))))"
  by pat_completeness auto
termination
  by (relation "measure (\<lambda>(s, mx, i, n). length s - i)") (auto dest!: go_hit_bound)

declare ExtractPatterns_loop.simps [simp del]

definition ExtractPatterns :: "string \<Rightarrow> int \<Rightarrow> Triple list" where
  "ExtractPatterns s mx = (if mx \<le> 0 then [] else ExtractPatterns_loop s mx 0 0)"

subsection \<open>PII\<close>

definition ciContains :: "string \<Rightarrow> string \<Rightarrow> bool" where
  "ciContains haystack needle =
     (if length needle = 0 then True
      else if length haystack < length needle then False
      else ciFind_loop haystack needle 0 \<noteq> None)"

definition TurnRequestsSensitive :: "string \<Rightarrow> bool" where
  "TurnRequestsSensitive turnText =
     (if turnText = [] then False
      else list_ex (ciContains turnText) sensitive_turn_cues)"

definition unknownRelSensitivity :: "string \<Rightarrow> aimee_memory_sensitivity" where
  "unknownRelSensitivity normalized =
     (if list_ex (ciContains normalized) secret_tokens then SENS_SECRET
      else if list_ex (ciContains normalized) pii_tokens then SENS_PII
      else SENS_NORMAL)"

definition RelSensitivityOf :: "string \<Rightarrow> aimee_memory_sensitivity" where
  "RelSensitivityOf relType =
     (if relType = [] then SENS_NORMAL
      else
        (let normalized = normalizeRelType relType in
         if normalized \<noteq> []
         then (case seedLookup normalized of
                 Some d \<Rightarrow> Sensitivity d
               | None \<Rightarrow> unknownRelSensitivity normalized)
         else unknownRelSensitivity relType))"

end
