(* ===== verification/Go_Parity.thy ===== *)
theory Go_Parity
  imports Go_Ports
begin

text \<open>
  The Go ports compute what the C computes: one lemma per pair of functions, collected in
  \<open>parity\<close>.  Reading a C string at its terminator, where Go checks the bound, is the
  recurring case.
\<close>

named_theorems parity \<open>a Go function rewritten to its C counterpart\<close>

subsection \<open>Search\<close>

lemma ci_starts_nth:
  "ci_starts hs ns \<longleftrightarrow>
     length ns \<le> length hs \<and> (\<forall>k < length ns. tolower (hs ! k) = tolower (ns ! k))"
proof (induction hs ns rule: ci_starts.induct)
  case (3 h hs n ns)
  then show ?case by (auto simp: nth_Cons' less_Suc_eq_0_disj)
qed auto

lemma ciStartsAt_eq [parity]: "ciStartsAt s i needle \<longleftrightarrow> ci_starts (drop i s) needle"
proof -
  have "ciStartsAt s i needle \<longleftrightarrow>
      (\<forall>k < length needle. i + k < length s \<and> tolower (s ! (i + k)) = tolower (needle ! k))"
    by (auto simp: ciStartsAt_def list_all_iff not_le)
  also have "\<dots> \<longleftrightarrow> ci_starts (drop i s) needle"
  proof (cases needle)
    case (Cons c cs)
    have "(\<forall>k < length needle. i + k < length s) \<longleftrightarrow> i + length needle \<le> length s"
      using Cons by (auto dest: spec [of _ "length cs"])
    then show ?thesis
      using Cons by (auto simp: ci_starts_nth)
  qed simp
  finally show ?thesis .
qed

lemma ciFind_loop_eq [parity]: "ciFind_loop s needle i = ci_find_loop s needle i"
proof (induction s needle i rule: ciFind_loop.induct)
  case (1 s needle i)
  then show ?case
    by (subst ciFind_loop.simps, subst ci_find_loop.simps) (auto simp: ciStartsAt_eq)
qed

lemma ciFind_eq [parity]: "i \<le> length s \<Longrightarrow> ciFind s needle i = ci_find s needle i"
  by (simp add: ciFind_def ci_find_def ciFind_loop_eq)

lemma ciContains_eq [parity]: "ciContains s needle = ci_contains s needle"
  by (simp add: ciContains_def ci_contains_def ciFind_loop_eq)

lemma ci_find_0: "needle \<noteq> [] \<Longrightarrow> ci_find s needle 0 \<noteq> None \<longleftrightarrow> ci_contains s needle"
  by (simp add: ci_find_def ci_contains_def ci_find_loop.simps [of s needle 0])

subsection \<open>Words and attributes\<close>

lemma isMyWord_eq [parity]: "i < length s \<Longrightarrow> isMyWord s i = is_my_word s i"
  by (auto simp: isMyWord_def is_my_word_def char_at_def)

lemma skip_at_eq [parity]: "skip_at s i = skip_spaces s i"
proof (induction s i rule: skip_at.induct)
  case (1 s i)
  show ?case
  proof (cases "i < length s \<and> isspace (s ! i)")
    case True
    then have "drop i s = s ! i # drop (Suc i) s"
      by (simp add: Cons_nth_drop_Suc)
    with True 1 show ?thesis
      by (subst skip_at.simps) (simp add: skip_spaces_def)
  next
    case False
    then have "takeWhile isspace (drop i s) = []"
      by (cases "i < length s") (auto simp flip: Cons_nth_drop_Suc)
    with False show ?thesis
      by (subst skip_at.simps) (auto simp: skip_spaces_def)
  qed
qed

lemma attr_end_eq [parity]: "attr_end s e w b = e + attr_len (drop e s) w b"
proof (induction s e w b rule: attr_end.induct)
  case (1 s e w b)
  show ?case
  proof (cases "e < length s")
    case True
    then have "drop e s = s ! e # drop (Suc e) s"
      by (simp add: Cons_nth_drop_Suc)
    with True 1 show ?thesis
      by (subst attr_end.simps) (auto simp: Let_def ciStartsAt_eq)
  qed (subst attr_end.simps, simp)
qed

lemma val_end_at_eq [parity]: "val_end_at s i = i + val_len (drop i s)"
proof (induction s i rule: val_end_at.induct)
  case (1 s i)
  show ?case
  proof (cases "i < length s")
    case True
    then have "drop i s = s ! i # drop (Suc i) s"
      by (simp add: Cons_nth_drop_Suc)
    moreover have "i + 1 = length s \<or> isspace (s ! (i + 1)) \<longleftrightarrow>
        drop (Suc i) s = [] \<or> isspace (char_at (drop (Suc i) s) 0)"
      using True by (auto simp: char_at_def)
    ultimately show ?thesis
      using True 1 by (subst val_end_at.simps) (auto simp: Let_def)
  qed (subst val_end_at.simps, simp)
qed

lemma trimmedTo_eq [parity]: "0 < cap \<Longrightarrow> trimmedTo s cap = cbuf cap (trim s)"
  by (simp add: trimmedTo_def cbuf_def Let_def)

lemma copy_trimmed_slice:
  "cbuf cap (trim (slice s i j)) = copy_trimmed cap (drop i s) (j - i)"
  by (simp add: copy_trimmed_def slice_def)

lemma length_trim: "length (trim s) \<le> length s"
  unfolding trim_def by (metis length_dropWhile_le length_rev order_trans)

lemma find_isMyWord: "find (isMyWord s) [0..<length s] = find (is_my_word s) [0..<length s]"
  by (rule find_cong) (auto simp: isMyWord_eq)

text \<open>The scan of a turn: attribute and cue.\<close>

lemma PossessiveAttr_eq [parity]:
  "PossessiveAttr s = prod.swap (memory_pattern_possessive_attr (Some s) (Some 128))"
proof (cases "find (is_my_word s) [0..<length s]")
  case None
  then show ?thesis
    by (simp add: PossessiveAttr_def memory_pattern_possessive_attr_def find_isMyWord)
next
  case (Some i)
  let ?k = "skip_spaces s (i + 2)"
  have "slice s ?k (?k + attr_len (drop ?k s) 0 False) =
      take (attr_len (drop ?k s) 0 False) (drop ?k s)"
    by (simp add: slice_def)
  with Some show ?thesis
    by (simp add: PossessiveAttr_def memory_pattern_possessive_attr_def find_isMyWord Let_def
        copy_trimmed_def skip_at_eq attr_end_eq trimmedTo_eq del: One_nat_def add_2_eq_Suc')
qed

lemma IsRetraction_eq [parity]: "IsRetraction s = memory_pattern_is_retraction (Some s)"
  by (simp add: IsRetraction_def memory_pattern_is_retraction_def ciFind_eq)

subsection \<open>Value shapes\<close>

lemma ipv4_octet_drop:
  "ipv4_octet p len val = Some (len', val', p') \<Longrightarrow> len \<le> len' \<and> p' = drop (len' - len) p"
proof (induction p len val rule: ipv4_octet.induct)
  case (2 c cs len val)
  then show ?case
    by (auto split: if_splits simp: drop_Cons' Suc_diff_le)
qed auto

lemma octet_at_eq:
  "octet_at t i n val = map_option (\<lambda>(l, v, r). (l, v)) (ipv4_octet (drop (i + n) t) n val)"
proof (induction t i n val rule: octet_at.induct)
  case (1 t i n val)
  show ?case
  proof (cases "i + n < length t")
    case True
    then have "drop (i + n) t = t ! (i + n) # drop (Suc (i + n)) t"
      by (simp add: Cons_nth_drop_Suc)
    with True 1 show ?thesis
      by (subst octet_at.simps) auto
  qed (subst octet_at.simps, simp)
qed

lemma isIPv4_loop_eq: "isIPv4_loop t i octets = ipv4_loop (drop i t) octets"
proof (induction t i octets rule: isIPv4_loop.induct)
  case (1 t i octets)
  show ?case
  proof (cases "i < length t")
    case True
    show ?thesis
    proof (cases "ipv4_octet (drop i t) 0 0")
      case None
      with True show ?thesis
        by (subst isIPv4_loop.simps, subst ipv4_loop.simps) (simp add: octet_at_eq)
    next
      case (Some r)
      then obtain n v p where o: "ipv4_octet (drop i t) 0 0 = Some (n, v, p)"
        by (cases r) auto
      have p: "p = drop (i + n) t"
        using ipv4_octet_drop [OF o] by (simp add: add.commute)
      have "isIPv4_loop t (i + n) (octets + 1) = (octets + 1 = 4)" if "length t \<le> i + n"
        using that by (subst isIPv4_loop.simps) auto
      moreover have "drop (i + n) t = t ! (i + n) # drop (i + n + 1) t" if "i + n < length t"
        using that by (simp add: Cons_nth_drop_Suc)
      ultimately show ?thesis
        using True 1 o p
        by (subst isIPv4_loop.simps, subst ipv4_loop.simps)
          (cases "i + n < length t"; simp add: octet_at_eq)
    qed
  qed (subst isIPv4_loop.simps, subst ipv4_loop.simps, simp)
qed

lemma isIPv4_eq [parity]: "isIPv4 t = is_ipv4 t"
  by (simp add: isIPv4_def is_ipv4_def isIPv4_loop_eq)

lemma isMAC_eq [parity]: "isMAC t = is_mac t"
  by (auto simp: isMAC_def is_mac_def Let_def list_all_iff)

lemma ipv6_count_eq:
  "i \<le> length t \<Longrightarrow>
   (case ipv6_count t i groups len of None \<Rightarrow> False | Some n \<Rightarrow> n = 8) =
   ipv6_groups (drop i t) groups len"
proof (induction t i groups len rule: ipv6_count.induct)
  case (1 t i groups len)
  have stop: "ipv6_count t (Suc (length t)) g l = Some g" for g l
    by (subst ipv6_count.simps) simp
  show ?case
  proof (cases "i < length t")
    case True
    then have "drop i t = t ! i # drop (Suc i) t"
      by (simp add: Cons_nth_drop_Suc)
    with True 1 show ?thesis
      by (subst ipv6_count.simps) auto
  next
    case False
    with "1.prems" have "i = length t" by simp
    then show ?thesis
      by (subst ipv6_count.simps) (simp add: stop)
  qed
qed

lemma contains_char: "contains s [c] \<longleftrightarrow> c \<in> set s"
  by (auto simp: contains_sublist sublist_def in_set_conv_decomp)

lemma isIPv6_eq [parity]: "isIPv6 t = is_ipv6 t"
  using ipv6_count_eq [of 0 t 0 0]
  by (auto simp: isIPv6_def is_ipv6_def contains_char list_all_iff list_ex_iff)

lemma strchr_Some: "strchr s c = Some i \<Longrightarrow> i < length s \<and> s ! i = c"
  by (induction s arbitrary: i) (auto split: if_splits)

lemma email_char_NUL: "\<not> email_char NUL"
  by (simp add: email_char_def)

lemma isEmail_eq [parity]: "isEmail t = is_email t"
proof (cases "strchr t (CHR ''@'')")
  case (Some a)
  let ?dom = "drop (a + 1) t"
  show ?thesis
  proof (cases "strchr ?dom (CHR ''.'')")
    case dot: (Some d)
    have "d < length ?dom" using strchr_Some [OF dot] by simp
    moreover have "\<not> list_all email_char t" if "d + 1 < length ?dom" "?dom ! (d + 1) = NUL"
    proof -
      have "?dom ! (d + 1) \<in> set t"
        using that(1) by (metis in_set_dropD nth_mem)
      then have "NUL \<in> set t"
        by (simp only: that(2))
      then show ?thesis
        using email_char_NUL by (metis list_all_iff)
    qed
    ultimately show ?thesis
      using Some dot
      by (cases "d + 1 < length ?dom")
        (auto simp: isEmail_def is_email_def Let_def char_at_def)
  qed (simp add: isEmail_def is_email_def Some)
qed (simp add: isEmail_def is_email_def)

lemma allDigits_slice:
  assumes "i + n \<le> length t"
  shows "allDigits (slice t i (i + n)) = all_digits (drop i t) n"
  using assms
  by (auto simp: allDigits_def all_digits_def slice_def list_all_length char_at_def)

lemma isISODate_eq [parity]: "isISODate t = is_iso_date t"
proof (cases "length t = 10")
  case True
  have "allDigits (slice t 0 4) = all_digits t 4"
    and "allDigits (slice t 5 7) = all_digits (drop 5 t) 2"
    and "allDigits (slice t 8 10) = all_digits (drop 8 t) 2"
    using allDigits_slice [of 0 4 t] allDigits_slice [of 5 2 t] allDigits_slice [of 8 2 t] True
    by simp_all
  moreover have "char_at t 4 = t ! 4" "char_at t 7 = t ! 7"
    using True by simp_all
  ultimately show ?thesis
    using True by (simp only: isISODate_def is_iso_date_def)
next
  case False
  then show ?thesis
    by (simp only: isISODate_def is_iso_date_def simp_thms if_True)
qed

lemma ClassifyValue_eq [parity]: "ClassifyValue t = memory_pattern_classify_value (Some t)"
  by (simp add: ClassifyValue_def memory_pattern_classify_value_def Let_def parity)

lemma ValueNodeKind_eq [parity]:
  "ValueNodeKind k = node_code (memory_pattern_value_node_kind k)"
  by (cases k) (simp_all add: ValueNodeKind_def)

subsection \<open>Normalisation and the relation tables\<close>

lemma normalize_loop_length:
  "length res < 64 \<Longrightarrow> length (normalize_loop s res pu pl) < 64"
  by (induction s res pu pl rule: normalize_loop.induct) (auto simp: Let_def)

lemma length_normalizeRelType: "length (normalizeRelType s) < 64"
  using normalize_loop_length [of "[]" s True False]
  by (auto simp: normalizeRelType_def trim_suffix_underscore_def)

lemma rel_normalize_go [simp]:
  "rel_normalize go_rel_types s REL_TYPE_NAME_MAX = normalizeRelType s"
  by (simp add: go_rel_types_def cbuf_fits length_normalizeRelType)

lemma go_rel_types_simps [simp]:
  "seed_lookup go_rel_types = seedLookup"
  "def_sensitivity go_rel_types = Sensitivity"
  "kind_allowed go_rel_types d True k = kindAllowed (HeadKinds d) (node_code k)"
  "kind_allowed go_rel_types d False k = kindAllowed (TailKinds d) (node_code k)"
  by (simp_all add: go_rel_types_def)

lemma unknownRelSensitivity_eq [parity]: "unknownRelSensitivity s = pii_unknown_rel_sensitivity s"
proof -
  have "ciContains s = ci_contains s"
    by (simp add: fun_eq_iff ciContains_eq)
  then show ?thesis
    by (simp add: unknownRelSensitivity_def pii_unknown_rel_sensitivity_def)
qed

lemma RelSensitivityOf_eq [parity]:
  "RelSensitivityOf s = memory_pii_rel_sensitivity go_rel_types (Some s)"
  by (simp add: RelSensitivityOf_def memory_pii_rel_sensitivity_def Let_def
      unknownRelSensitivity_eq split: option.splits)

lemma TurnRequestsSensitive_eq [parity]:
  "TurnRequestsSensitive s = memory_pii_turn_requests_sensitive None (Some s)"
proof -
  have "ciContains s = ci_contains s"
    by (simp add: fun_eq_iff ciContains_eq)
  then show ?thesis
    by (simp add: TurnRequestsSensitive_def memory_pii_turn_requests_sensitive_def)
qed

fun verdict_of :: "aimee_memory_fact_verdict \<Rightarrow> fact_gate_verdict" where
  "verdict_of FACT_ACCEPT = FACT_GATE_ACCEPT"
| "verdict_of FACT_REJECT_KIND = FACT_GATE_REJECT_KIND"
| "verdict_of FACT_NOVEL = FACT_GATE_NOVEL"
| "verdict_of FACT_BADARG = FACT_GATE_BADARG"

lemma GateCheck_eq [parity]:
  "verdict_of (GateCheck (node_code h) s (node_code t)) =
     fst (memory_fact_gate_check go_rel_types None h (Some s) t matched)"
  by (simp add: GateCheck_def memory_fact_gate_check_def Let_def split: option.splits)

subsection \<open>Extraction\<close>

definition go_triple :: "pattern_triple \<Rightarrow> Triple" where
  "go_triple t =
     \<lparr>go_Subject = pt_subject t, go_RelType = pt_rel_type t, go_Object = pt_object t,
      go_SubjectKind = node_code (pt_subject_kind t),
      go_ObjectKind = node_code (pt_object_kind t)\<rparr>"

lemma copy_trimmed_cbuf [simp]: "cbuf cap (copy_trimmed cap s n) = copy_trimmed cap s n"
  by (simp add: copy_trimmed_def)

lemma go_triple_make:
  assumes "cbuf 128 v = v"
  shows "go_triple (make_triple (rel_normalize go_rel_types) a v) =
     \<lparr>go_Subject = ''user'', go_RelType = normalizeRelType a, go_Object = v,
      go_SubjectKind = node_code NODE_PERSON,
      go_ObjectKind = ValueNodeKind (ClassifyValue v)\<rparr>"
  by (simp add: go_triple_def make_triple_def assms ClassifyValue_eq ValueNodeKind_eq cbuf_fits)

lemma is_my_word_bound: "is_my_word s i \<Longrightarrow> i + 2 < length s"
  by (auto simp: is_my_word_def char_at_def split: if_splits)

lemma skip_spaces_le: "k \<le> length s \<Longrightarrow> skip_spaces s k \<le> length s"
  using length_takeWhile_le [of isspace "drop k s"] by (simp add: skip_spaces_def)

lemma go_hit_eq: "is_my_word s i \<Longrightarrow> go_hit s i = extract_hit s i"
proof -
  assume "is_my_word s i"
  then have "skip_spaces s (i + 2) \<le> length s"
    by (intro skip_spaces_le less_imp_le is_my_word_bound)
  then show ?thesis
    by (simp add: go_hit_def extract_hit_def Let_def skip_at_eq ciFind_eq trimmedTo_eq
        val_end_at_eq copy_trimmed_slice del: One_nat_def add_2_eq_Suc' split: option.split)
qed

lemma extract_hit_fits:
  "extract_hit s i = Some (a, v, e) \<Longrightarrow> cbuf 128 a = a \<and> cbuf 128 v = v"
  by (auto simp: extract_hit_def Let_def split: option.splits)

lemma ExtractPatterns_loop_eq:
  "ExtractPatterns_loop s mx i n =
     map go_triple (extract_loop (rel_normalize go_rel_types) s mx i n)"
proof (induction s mx i n rule: ExtractPatterns_loop.induct)
  case (1 s mx i n)
  note unfold = ExtractPatterns_loop.simps [of s mx i n]
    extract_loop.simps [of "rel_normalize go_rel_types" s mx i n]
  show ?case
  proof (cases "i < length s \<and> int n < mx \<and> is_my_word s i")
    case True
    then have hit: "go_hit s i = extract_hit s i" "isMyWord s i"
      by (simp_all add: go_hit_eq isMyWord_eq)
    have rel: "pt_rel_type (make_triple (rel_normalize go_rel_types) a v) = normalizeRelType a"
      for a v by (simp add: make_triple_def)
    show ?thesis
      using True hit 1
      by (subst unfold, subst unfold)
        (auto simp: Let_def rel go_triple_make dest: extract_hit_fits split: option.split)
  next
    case False
    with 1 show ?thesis
      by (subst unfold, subst unfold) (auto simp: isMyWord_eq)
  qed
qed

lemma ExtractPatterns_eq [parity]:
  "0 < mx \<Longrightarrow> Some (ExtractPatterns s mx) = map_option (map go_triple)
     (memory_extract_patterns (rel_normalize go_rel_types) None (Some s) True mx)"
  by (simp add: ExtractPatterns_def memory_extract_patterns_def ExtractPatterns_loop_eq)

end
