(* ===== verification/Go_Module.thy ===== *)
theory Go_Module
  imports Go_Parity
begin

text \<open>
  The stage handlers of the memory process, \<open>server-go/modules/memory/memory.go\<close>, and the
  C adapter kept as the wire-parity fixture of the reranking stage,
  \<open>src/modules/memory/module_adapter.c\<close>.  A handler returns the response body
  (\<open>Inr\<close>) or the failure status (\<open>Inl\<close>).  The embedding and the command-declaration
  stages need an embedder and the bus; they are the parameter \<open>others\<close> of the dispatch.
\<close>

datatype module_status = STATUS_CANCELLED | STATUS_INVALID_REQUEST | STATUS_INTERNAL

record module_invocation =
  StageID :: u32
  Cancelled :: bool

type_synonym response = "module_status + byte list"

definition StageExtractIndex :: u32 where "StageExtractIndex = 1"
definition StageWrite :: u32 where "StageWrite = 2"
definition StageEmbed :: u32 where "StageEmbed = 3"
definition StageRetrieve :: u32 where "StageRetrieve = 4"
definition StageRerank :: u32 where "StageRerank = 5"
definition StageDeclareCommands :: u32 where "StageDeclareCommands = 6"

lemmas stage_defs = StageExtractIndex_def StageWrite_def StageEmbed_def StageRetrieve_def
  StageRerank_def StageDeclareCommands_def

subsection \<open>Handlers\<close>

definition handleScanTurn :: "module_invocation \<Rightarrow> byte list \<Rightarrow> response" where
  "handleScanTurn invocation request =
     (if length request < 12 \<or> aimee_memory_get_u32 request \<noteq> AIMEE_MEMORY_SCAN_REQUEST_MAGIC
         \<or> aimee_memory_get_u32 (drop 4 request) \<noteq> AIMEE_MEMORY_WIRE_VERSION
         \<or> unat (aimee_memory_get_u32 (drop 8 request)) \<noteq> length request - 12
      then Inl STATUS_INVALID_REQUEST
      else if Cancelled invocation then Inl STATUS_CANCELLED
      else
        (let s = chars_of (drop 12 request); (a, has) = PossessiveAttr s in
         if 128 \<le> length a then Inl STATUS_INVALID_REQUEST
         else Inr (aimee_memory_put_u32 AIMEE_MEMORY_SCAN_RESPONSE_MAGIC @
                   aimee_memory_put_u32 (if IsRetraction s then 1 else 0) @
                   aimee_memory_put_u32 (if has then 1 else 0) @
                   aimee_memory_put_u32 (word_of_nat (length a)) @ bytes_of a)))"

definition triple_field :: "string \<Rightarrow> byte list" where
  "triple_field f = aimee_memory_put_u32 (word_of_nat (length f)) @ bytes_of f"

definition triple_bytes :: "Triple \<Rightarrow> byte list" where
  "triple_bytes t =
     aimee_memory_put_u32 (go_SubjectKind t) @ aimee_memory_put_u32 (go_ObjectKind t) @
     triple_field (go_Subject t) @ triple_field (go_RelType t) @ triple_field (go_Object t)"

definition triple_fits :: "Triple \<Rightarrow> bool" where
  "triple_fits t \<longleftrightarrow> length (go_Subject t) < 128 \<and> length (go_RelType t) < 64
     \<and> length (go_Object t) < 128"

definition handleExtract :: "module_invocation \<Rightarrow> byte list \<Rightarrow> response" where
  "handleExtract invocation request =
     (if length request < 16 \<or> aimee_memory_get_u32 request \<noteq> AIMEE_MEMORY_EXTRACT_REQUEST_MAGIC
         \<or> aimee_memory_get_u32 (drop 4 request) \<noteq> AIMEE_MEMORY_WIRE_VERSION
      then Inl STATUS_INVALID_REQUEST
      else
        (let mx = aimee_memory_get_u32 (drop 8 request);
             textLen = unat (aimee_memory_get_u32 (drop 12 request)) in
         if mx = 0 \<or> textLen \<noteq> length request - 16 then Inl STATUS_INVALID_REQUEST
         else if Cancelled invocation then Inl STATUS_CANCELLED
         else
           (let triples = ExtractPatterns (chars_of (drop 16 request)) (int (unat mx)) in
            if \<not> list_all triple_fits triples then Inl STATUS_INVALID_REQUEST
            else Inr (aimee_memory_put_u32 AIMEE_MEMORY_EXTRACT_RESPONSE_MAGIC @
                      aimee_memory_put_u32 (word_of_nat (length triples)) @
                      concat (map triple_bytes triples)))))"

fun verdict_code :: "aimee_memory_fact_verdict \<Rightarrow> u32" where
  "verdict_code FACT_ACCEPT = 0"
| "verdict_code FACT_REJECT_KIND = 1"
| "verdict_code FACT_NOVEL = 2"
| "verdict_code FACT_BADARG = 3"

definition handleWrite :: "module_invocation \<Rightarrow> byte list \<Rightarrow> response" where
  "handleWrite invocation request =
     (if length request \<noteq> 276 \<or> aimee_memory_get_u32 request \<noteq> AIMEE_MEMORY_GATE_REQUEST_MAGIC
         \<or> aimee_memory_get_u32 (drop 4 request) \<noteq> AIMEE_MEMORY_WIRE_VERSION
         \<or> le_u16 (drop 18 request) \<noteq> 0
      then Inl STATUS_INVALID_REQUEST
      else
        (let len = unat (le_u16 (drop 16 request)) in
         if 256 < len then Inl STATUS_INVALID_REQUEST
         else if Cancelled invocation then Inl STATUS_CANCELLED
         else
           (let headKind = aimee_memory_get_u32 (drop 8 request);
                tailKind = aimee_memory_get_u32 (drop 12 request);
                verdict = GateCheck headKind (chars_of (take len (drop 20 request))) tailKind in
            Inr (aimee_memory_put_u32 AIMEE_MEMORY_GATE_RESPONSE_MAGIC @
                 aimee_memory_put_u32 (verdict_code verdict)))))"

text \<open>The loop of \<open>handleSensitivity\<close>: the tiers and the offset behind the names.\<close>

fun sens_loop :: "byte list \<Rightarrow> nat \<Rightarrow> nat \<Rightarrow> (byte list \<times> nat) option" where
  "sens_loop request 0 offset = Some ([], offset)"
| "sens_loop request (Suc n) offset =
     (if length request < offset + 2 then None
      else
        (let len = unat (le_u16 (drop offset request)); offset1 = offset + 2 in
         if 256 < len \<or> length request < offset1 + len then None
         else
           (case sens_loop request n (offset1 + len) of None \<Rightarrow> None
            | Some (tiers, e) \<Rightarrow>
                Some (sensitivity_code
                        (RelSensitivityOf (chars_of (take len (drop offset1 request)))) # tiers, e))))"

definition handleSensitivity :: "module_invocation \<Rightarrow> byte list \<Rightarrow> response" where
  "handleSensitivity invocation request =
     (if length request < 12 \<or> aimee_memory_get_u32 request \<noteq> AIMEE_MEMORY_SENS_REQUEST_MAGIC
         \<or> aimee_memory_get_u32 (drop 4 request) \<noteq> AIMEE_MEMORY_WIRE_VERSION
      then Inl STATUS_INVALID_REQUEST
      else
        (let count = unat (aimee_memory_get_u32 (drop 8 request)) in
         if count = 0 then Inl STATUS_INVALID_REQUEST
         else if Cancelled invocation then Inl STATUS_CANCELLED
         else
           (case sens_loop request count 12 of None \<Rightarrow> Inl STATUS_INVALID_REQUEST
            | Some (tiers, offset) \<Rightarrow>
                if offset \<noteq> length request then Inl STATUS_INVALID_REQUEST
                else Inr (aimee_memory_put_u32 AIMEE_MEMORY_SENS_RESPONSE_MAGIC @
                          aimee_memory_put_u32 (word_of_nat count) @ tiers))))"

definition handlePIITurn :: "module_invocation \<Rightarrow> byte list \<Rightarrow> response" where
  "handlePIITurn invocation request =
     (if length request < 12 \<or> aimee_memory_get_u32 request \<noteq> AIMEE_MEMORY_PII_REQUEST_MAGIC
         \<or> aimee_memory_get_u32 (drop 4 request) \<noteq> AIMEE_MEMORY_WIRE_VERSION
         \<or> unat (aimee_memory_get_u32 (drop 8 request)) \<noteq> length request - 12
      then Inl STATUS_INVALID_REQUEST
      else if Cancelled invocation then Inl STATUS_CANCELLED
      else Inr (aimee_memory_put_u32 AIMEE_MEMORY_PII_RESPONSE_MAGIC @
                aimee_memory_put_u32
                  (if TurnRequestsSensitive (chars_of (drop 12 request)) then 1 else 0)))"

definition handleRetrieve :: "module_invocation \<Rightarrow> byte list \<Rightarrow> response" where
  "handleRetrieve invocation request =
     (if 4 \<le> length request \<and> aimee_memory_get_u32 request = AIMEE_MEMORY_SENS_REQUEST_MAGIC
      then handleSensitivity invocation request
      else handlePIITurn invocation request)"

definition confidence_band :: "u64 \<Rightarrow> aimee_memory_confidence" where
  "confidence_band score =
     (if 660000 \<le> sint score then CONFIDENCE_HIGH
      else if 330000 \<le> sint score then CONFIDENCE_MEDIUM
      else CONFIDENCE_LOW)"

definition handleRerank :: "module_invocation \<Rightarrow> byte list \<Rightarrow> response" where
  "handleRerank invocation request =
     (if StageID invocation \<noteq> StageRerank \<or> length request \<noteq> 16
         \<or> aimee_memory_get_u32 request \<noteq> AIMEE_MEMORY_REQUEST_MAGIC
         \<or> aimee_memory_get_u32 (drop 4 request) \<noteq> AIMEE_MEMORY_WIRE_VERSION
      then Inl STATUS_INVALID_REQUEST
      else if Cancelled invocation then Inl STATUS_CANCELLED
      else
        (let score = sint (aimee_memory_get_i64 (drop 8 request));
             confidence = (if 660000 \<le> score then CONFIDENCE_HIGH
                           else if 330000 \<le> score then CONFIDENCE_MEDIUM
                           else CONFIDENCE_LOW) in
         Inr (aimee_memory_put_u32 AIMEE_MEMORY_RESPONSE_MAGIC @
              aimee_memory_put_u32 (confidence_code confidence))))"

definition Handle ::
    "(module_invocation \<Rightarrow> byte list \<Rightarrow> response) \<Rightarrow> module_invocation \<Rightarrow> byte list \<Rightarrow> response" where
  "Handle others invocation request =
     (if StageID invocation = StageWrite then handleWrite invocation request
      else if StageID invocation = StageExtractIndex then
        (if 4 \<le> length request \<and> aimee_memory_get_u32 request = AIMEE_MEMORY_SCAN_REQUEST_MAGIC
         then handleScanTurn invocation request
         else handleExtract invocation request)
      else if StageID invocation = StageRetrieve then handleRetrieve invocation request
      else if StageID invocation = StageEmbed \<or> StageID invocation = StageDeclareCommands
      then others invocation request
      else handleRerank invocation request)"

subsection \<open>The C adapter\<close>

text \<open>
  The invocation and request pointers may be NULL, \<open>response_len\<close> says whether that
  out-pointer is there; the response is what the adapter writes to the response buffer.
\<close>

definition aimee_module_handler ::
    "module_invocation option \<Rightarrow> byte list option \<Rightarrow> nat \<Rightarrow> bool \<Rightarrow> response" where
  "aimee_module_handler invocation request_body response_capacity response_len =
     (case (invocation, request_body) of
        (Some iv, Some body) \<Rightarrow>
          if \<not> response_len \<or> StageID iv \<noteq> 5 \<or> length body \<noteq> AIMEE_MEMORY_REQUEST_LEN
             \<or> response_capacity < AIMEE_MEMORY_RESPONSE_LEN
             \<or> aimee_memory_get_u32 body \<noteq> AIMEE_MEMORY_REQUEST_MAGIC
             \<or> aimee_memory_get_u32 (drop 4 body) \<noteq> AIMEE_MEMORY_WIRE_VERSION
          then Inl STATUS_INVALID_REQUEST
          else if Cancelled iv then Inl STATUS_CANCELLED
          else Inr (aimee_memory_put_u32 AIMEE_MEMORY_RESPONSE_MAGIC @
                    aimee_memory_put_u32
                      (confidence_code (confidence_band (aimee_memory_get_i64 (drop 8 body)))))
      | _ \<Rightarrow> Inl STATUS_INVALID_REQUEST)"

end
