(* ===== verification/Seam.thy ===== *)
theory Seam
  imports Go_Module
begin

text \<open>
  The seams: a decision asked over the wire.  A stage is an encoder, the handler and a
  decoder; \<open>over_wire\<close> sends a question through the three.  The locale \<open>wire_seam\<close> is the
  contract of a stage (which questions the wire carries, and that the answer is the local
  one), with the client's consequences; the interpretations prove it for every stage of
  \<open>Go_Module\<close> against the encoders and decoders of \<open>module_api.h\<close>.
\<close>

definition over_wire ::
    "('q \<Rightarrow> byte list option) \<Rightarrow> (byte list \<Rightarrow> response) \<Rightarrow> ('q \<Rightarrow> byte list \<Rightarrow> 'a option) \<Rightarrow>
     'q \<Rightarrow> 'a option" where
  "over_wire encode handle decode q =
     (case encode q of None \<Rightarrow> None
      | Some m \<Rightarrow> (case handle m of Inl status \<Rightarrow> None | Inr r \<Rightarrow> decode q r))"

locale wire_seam =
  fixes encode :: "'q \<Rightarrow> byte list option"
    and handle :: "byte list \<Rightarrow> response"
    and decode :: "'q \<Rightarrow> byte list \<Rightarrow> 'a option"
    and decide :: "'q \<Rightarrow> 'a"
    and carries :: "'q \<Rightarrow> bool"
  assumes refuses: "\<not> carries q \<Longrightarrow> encode q = None"
    and answers: "carries q \<Longrightarrow>
      \<exists>m r. encode q = Some m \<and> handle m = Inr r \<and> decode q r = Some (decide q)"
begin

lemma over_wire_eq:
  "over_wire encode handle decode q = (if carries q then Some (decide q) else None)"
proof (cases "carries q")
  case True
  then obtain m r where "encode q = Some m" "handle m = Inr r" "decode q r = Some (decide q)"
    using answers by blast
  with True show ?thesis by (simp add: over_wire_def)
next
  case False
  then show ?thesis by (simp add: over_wire_def refuses)
qed

lemma over_wire_never_differs:
  "over_wire encode handle decode q = Some a \<Longrightarrow> a = decide q"
  by (simp add: over_wire_eq split: if_splits)

end

text \<open>The process at a stage, neither cancelled nor asked for what it cannot serve.\<close>

definition process :: "u32 \<Rightarrow> byte list \<Rightarrow> response" where
  "process stage =
     Handle (\<lambda>invocation request. Inl STATUS_INTERNAL) \<lparr>StageID = stage, Cancelled = False\<rparr>"

subsection \<open>Reranking\<close>

definition rerank_over_wire :: "u64 \<Rightarrow> aimee_memory_confidence option" where
  "rerank_over_wire =
     over_wire (\<lambda>s. aimee_memory_request_encode s (Some AIMEE_MEMORY_REQUEST_LEN))
       (process StageRerank) (\<lambda>s r. aimee_memory_response_decode (Some r) True)"

lemma response_decode_code:
  "aimee_memory_response_decode
     (Some (aimee_memory_put_u32 AIMEE_MEMORY_RESPONSE_MAGIC @
            aimee_memory_put_u32 (confidence_code c))) True = Some c"
  using u32.get_put_exact
  by (cases c) (simp_all add: aimee_memory_response_decode_def wire_simps)

interpretation rerank: wire_seam
  "\<lambda>s. aimee_memory_request_encode s (Some AIMEE_MEMORY_REQUEST_LEN)"
  "process StageRerank" "\<lambda>s r. aimee_memory_response_decode (Some r) True"
  confidence_band "\<lambda>s. True"
proof unfold_locales
  fix s
  have "process StageRerank
      (aimee_memory_put_u32 AIMEE_MEMORY_REQUEST_MAGIC @
       aimee_memory_put_u32 AIMEE_MEMORY_WIRE_VERSION @ aimee_memory_put_i64 s) =
      Inr (aimee_memory_put_u32 AIMEE_MEMORY_RESPONSE_MAGIC @
           aimee_memory_put_u32 (confidence_code (confidence_band s)))"
    using i64.get_put_exact
    by (simp add: process_def Handle_def stage_defs handleRerank_def confidence_band_def
        Let_def wire_simps)
  then show "\<exists>m r. aimee_memory_request_encode s (Some AIMEE_MEMORY_REQUEST_LEN) = Some m \<and>
      process StageRerank m = Inr r \<and>
      aimee_memory_response_decode (Some r) True = Some (confidence_band s)"
    using response_decode_code by (simp add: aimee_memory_request_encode_def)
qed simp

subsection \<open>The write gate\<close>

type_synonym gate_question = "memory_node_kind \<times> cptr \<times> memory_node_kind"

definition gate_encode :: "gate_question \<Rightarrow> byte list option" where
  "gate_encode q =
     (case q of (h, rel, t) \<Rightarrow>
        aimee_memory_gate_request_encode (node_code h) rel (node_code t)
          (Some AIMEE_MEMORY_GATE_REQUEST_LEN))"

definition gate_decide :: "gate_question \<Rightarrow> aimee_memory_fact_verdict" where
  "gate_decide q = (case q of (h, rel, t) \<Rightarrow> GateCheck (node_code h) (cptr_str rel) (node_code t))"

definition gate_carries :: "gate_question \<Rightarrow> bool" where
  "gate_carries q =
     (case q of (h, rel, t) \<Rightarrow> length (cptr_str rel) \<le> AIMEE_MEMORY_REL_TYPE_MAX)"

definition gate_over_wire :: "gate_question \<Rightarrow> aimee_memory_fact_verdict option" where
  "gate_over_wire =
     over_wire gate_encode (process StageWrite)
       (\<lambda>q r. aimee_memory_gate_response_decode (Some r) True)"

lemma gate_response_decode_code:
  "aimee_memory_gate_response_decode
     (Some (aimee_memory_put_u32 AIMEE_MEMORY_GATE_RESPONSE_MAGIC @
            aimee_memory_put_u32 (verdict_code v))) True = Some v"
  using u32.get_put_exact
  by (cases v) (simp_all add: aimee_memory_gate_response_decode_def wire_simps)

lemma le_u16_zeros: "le_u16 (0 # 0 # rest) = 0"
  by (simp add: le_u16_def)

lemma handleWrite_request:
  assumes "length s \<le> 256"
  shows "handleWrite \<lparr>StageID = st, Cancelled = False\<rparr>
      (aimee_memory_put_u32 AIMEE_MEMORY_GATE_REQUEST_MAGIC @
       aimee_memory_put_u32 AIMEE_MEMORY_WIRE_VERSION @
       aimee_memory_put_u32 h @ aimee_memory_put_u32 t @
       aimee_memory_put_u16 (word_of_nat (length s)) @ [0, 0] @ bytes_of s @
       replicate (256 - length s) 0) =
    Inr (aimee_memory_put_u32 AIMEE_MEMORY_GATE_RESPONSE_MAGIC @
         aimee_memory_put_u32 (verdict_code (GateCheck h s t)))"
  using assms
  by (simp add: handleWrite_def Let_def wire_simps le_u16_zeros)

interpretation gate: wire_seam gate_encode "process StageWrite"
  "\<lambda>q r. aimee_memory_gate_response_decode (Some r) True" gate_decide gate_carries
proof unfold_locales
  fix q :: gate_question
  obtain h rel t where q: "q = (h, rel, t)" by (cases q)
  show "\<not> gate_carries q \<Longrightarrow> gate_encode q = None"
    by (simp add: q gate_carries_def gate_encode_def aimee_memory_gate_request_encode_def Let_def)
  show "gate_carries q \<Longrightarrow> \<exists>m r. gate_encode q = Some m \<and> process StageWrite m = Inr r \<and>
      aimee_memory_gate_response_decode (Some r) True = Some (gate_decide q)"
    using handleWrite_request [of "cptr_str rel"] gate_response_decode_code
    by (simp add: q gate_carries_def gate_encode_def aimee_memory_gate_request_encode_def Let_def
        process_def Handle_def stage_defs gate_decide_def)
qed

subsection \<open>Text questions: the PII classifier and the retraction scan\<close>

definition text_carries :: "nat \<Rightarrow> cptr \<Rightarrow> bool" where
  "text_carries header t \<longleftrightarrow> length (cptr_str t) \<le> UINT32_MAX - header"

lemma text_request_size_eq:
  "0 < header \<Longrightarrow> text_request_size header t =
     (if text_carries header t then header + length (cptr_str t) else 0)"
  by (simp add: text_request_size_def text_carries_def Let_def)

lemma text_carries_unat [wire_simps]:
  "text_carries header t \<Longrightarrow> unat (word_of_nat (length (cptr_str t)) :: u32) = length (cptr_str t)"
  by (rule unat_of_nat_u32) (simp add: text_carries_def)

definition pii_over_wire :: "cptr \<Rightarrow> bool option" where
  "pii_over_wire =
     over_wire (\<lambda>t. aimee_memory_pii_request_encode t (Some (aimee_memory_pii_request_size t)))
       (process StageRetrieve) (\<lambda>t r. aimee_memory_pii_response_decode (Some r) True)"

lemma pii_response_decode_flag:
  "aimee_memory_pii_response_decode
     (Some (aimee_memory_put_u32 AIMEE_MEMORY_PII_RESPONSE_MAGIC @
            aimee_memory_put_u32 (if b then 1 else 0))) True = Some b"
  using u32.get_put_exact
  by (simp add: aimee_memory_pii_response_decode_def wire_simps)

interpretation pii: wire_seam
  "\<lambda>t. aimee_memory_pii_request_encode t (Some (aimee_memory_pii_request_size t))"
  "process StageRetrieve" "\<lambda>t r. aimee_memory_pii_response_decode (Some r) True"
  "\<lambda>t. TurnRequestsSensitive (cptr_str t)" "text_carries 12"
proof unfold_locales
  fix t
  show "\<not> text_carries 12 t \<Longrightarrow>
      aimee_memory_pii_request_encode t (Some (aimee_memory_pii_request_size t)) = None"
    by (simp add: aimee_memory_pii_request_encode_def aimee_memory_pii_request_size_def
        text_request_size_eq Let_def)
  assume c: "text_carries 12 t"
  then have "process StageRetrieve
      (aimee_memory_put_u32 AIMEE_MEMORY_PII_REQUEST_MAGIC @
       aimee_memory_put_u32 AIMEE_MEMORY_WIRE_VERSION @
       aimee_memory_put_u32 (word_of_nat (length (cptr_str t))) @ bytes_of (cptr_str t)) =
      Inr (aimee_memory_put_u32 AIMEE_MEMORY_PII_RESPONSE_MAGIC @
           aimee_memory_put_u32 (if TurnRequestsSensitive (cptr_str t) then 1 else 0))"
    by (simp add: process_def Handle_def stage_defs handleRetrieve_def handlePIITurn_def wire_simps)
  with c show "\<exists>m r. aimee_memory_pii_request_encode t (Some (aimee_memory_pii_request_size t)) = Some m \<and>
      process StageRetrieve m = Inr r \<and>
      aimee_memory_pii_response_decode (Some r) True = Some (TurnRequestsSensitive (cptr_str t))"
    using pii_response_decode_flag
    by (simp add: aimee_memory_pii_request_encode_def aimee_memory_pii_request_size_def
        text_request_size_eq Let_def)
qed

definition scan_over_wire :: "cptr \<Rightarrow> (bool \<times> bool \<times> string) option" where
  "scan_over_wire =
     over_wire (\<lambda>t. aimee_memory_scan_request_encode t (Some (aimee_memory_scan_request_size t)))
       (process StageExtractIndex)
       (\<lambda>t r. aimee_memory_scan_response_decode (Some r) True AIMEE_MEMORY_SCAN_ATTR_MAX)"

definition scan_decide :: "cptr \<Rightarrow> bool \<times> bool \<times> string" where
  "scan_decide t = (let (a, has) = PossessiveAttr (cptr_str t) in (IsRetraction (cptr_str t), has, a))"

lemma PossessiveAttr_cases:
  assumes "PossessiveAttr s = (a, has)"
  shows "length a < 128" and "has \<longleftrightarrow> a \<noteq> []"
proof -
  have "(has, a) = memory_pattern_possessive_attr (Some s) (Some 128)"
    using assms PossessiveAttr_eq [of s] by (metis swap_simp swap_swap)
  then have "(\<exists>u. a = cbuf 128 u) \<and> (has \<longleftrightarrow> a \<noteq> [])"
    by (auto simp: memory_pattern_possessive_attr_def copy_trimmed_def Let_def cbuf_def
        split: option.splits)
  then show "length a < 128" and "has \<longleftrightarrow> a \<noteq> []"
    by (auto simp: length_cbuf)
qed

lemma scan_response_decode_turn:
  assumes "length a < 128"
  shows "aimee_memory_scan_response_decode
     (Some (aimee_memory_put_u32 AIMEE_MEMORY_SCAN_RESPONSE_MAGIC @
            aimee_memory_put_u32 (if b then 1 else 0) @
            aimee_memory_put_u32 (if a \<noteq> [] then 1 else 0) @
            aimee_memory_put_u32 (word_of_nat (length a)) @ bytes_of a)) True 128 =
     Some (b, a \<noteq> [], a)"
proof -
  have "unat (word_of_nat (length a) :: u32) = length a"
    using assms by (intro unat_of_nat_u32) (simp add: UINT32_MAX_def)
  with assms show ?thesis
    by (simp add: aimee_memory_scan_response_decode_def wire_simps)
qed

interpretation scan: wire_seam
  "\<lambda>t. aimee_memory_scan_request_encode t (Some (aimee_memory_scan_request_size t))"
  "process StageExtractIndex"
  "\<lambda>t r. aimee_memory_scan_response_decode (Some r) True AIMEE_MEMORY_SCAN_ATTR_MAX"
  scan_decide "text_carries 12"
proof unfold_locales
  fix t
  show "\<not> text_carries 12 t \<Longrightarrow>
      aimee_memory_scan_request_encode t (Some (aimee_memory_scan_request_size t)) = None"
    by (simp add: aimee_memory_scan_request_encode_def aimee_memory_scan_request_size_def
        text_request_size_eq Let_def)
  assume c: "text_carries 12 t"
  obtain a has where pa: "PossessiveAttr (cptr_str t) = (a, has)"
    by (cases "PossessiveAttr (cptr_str t)")
  note a = PossessiveAttr_cases [OF pa]
  have "process StageExtractIndex
      (aimee_memory_put_u32 AIMEE_MEMORY_SCAN_REQUEST_MAGIC @
       aimee_memory_put_u32 AIMEE_MEMORY_WIRE_VERSION @
       aimee_memory_put_u32 (word_of_nat (length (cptr_str t))) @ bytes_of (cptr_str t)) =
      Inr (aimee_memory_put_u32 AIMEE_MEMORY_SCAN_RESPONSE_MAGIC @
           aimee_memory_put_u32 (if IsRetraction (cptr_str t) then 1 else 0) @
           aimee_memory_put_u32 (if a \<noteq> [] then 1 else 0) @
           aimee_memory_put_u32 (word_of_nat (length a)) @ bytes_of a)"
    using c a
    by (simp add: process_def Handle_def stage_defs handleScanTurn_def wire_simps pa not_le)
  with c a show "\<exists>m r. aimee_memory_scan_request_encode t (Some (aimee_memory_scan_request_size t)) = Some m \<and>
      process StageExtractIndex m = Inr r \<and>
      aimee_memory_scan_response_decode (Some r) True AIMEE_MEMORY_SCAN_ATTR_MAX = Some (scan_decide t)"
    using scan_response_decode_turn [OF a(1)]
    by (simp add: aimee_memory_scan_request_encode_def aimee_memory_scan_request_size_def
        text_request_size_eq Let_def scan_decide_def pa)
qed

subsection \<open>The sensitivity batch\<close>

text \<open>
  The C passes the number of relations as an \<open>int\<close>, so a batch has less than \<open>2^31\<close>.
\<close>

definition sens_encode :: "cptr list \<Rightarrow> byte list option" where
  "sens_encode rs =
     (if 2147483648 \<le> length rs then None
      else aimee_memory_sens_request_encode (Some rs)
             (Some (aimee_memory_sens_request_size (Some rs))))"

definition sens_carries :: "cptr list \<Rightarrow> bool" where
  "sens_carries rs \<longleftrightarrow> rs \<noteq> [] \<and> length rs < 2147483648 \<and> (\<forall>r \<in> set rs. length (cptr_str r) \<le> 256)"

lemma length_sens_entry: "length (sens_entry r) = 2 + length (cptr_str r)"
  by (simp add: sens_entry_def wire_simps)

lemma sens_entry_read:
  "le_u16 (sens_entry r @ rest) = word_of_nat (length (cptr_str r))"
  "take (length (cptr_str r)) (drop 2 (sens_entry r @ rest)) = bytes_of (cptr_str r)"
  by (simp_all add: sens_entry_def wire_simps)

definition sens_decide :: "cptr list \<Rightarrow> aimee_memory_sensitivity list" where
  "sens_decide rs = map (\<lambda>r. RelSensitivityOf (cptr_str r)) rs"

definition sens_decode :: "cptr list \<Rightarrow> byte list \<Rightarrow> aimee_memory_sensitivity list option" where
  "sens_decode rs r = aimee_memory_sens_response_decode (Some r) True (int (length rs))"

definition sens_over_wire :: "cptr list \<Rightarrow> aimee_memory_sensitivity list option" where
  "sens_over_wire = over_wire sens_encode (process StageRetrieve) sens_decode"

lemma sens_total_eq:
  "sens_total rs acc =
     (if \<forall>r \<in> set rs. length (cptr_str r) \<le> 256
      then Some (acc + length (concat (map sens_entry rs))) else None)"
  by (induction rs arbitrary: acc) (auto simp: sens_entry_def wire_simps)

lemma sens_request_size_eq:
  "aimee_memory_sens_request_size (Some rs) =
     (if rs \<noteq> [] \<and> (\<forall>r \<in> set rs. length (cptr_str r) \<le> 256)
      then 12 + length (concat (map sens_entry rs)) else 0)"
  by (simp add: aimee_memory_sens_request_size_def sens_total_eq)

lemma sens_loop_names:
  assumes "\<forall>r \<in> set rs. length (cptr_str r) \<le> 256" and "length pre = offset"
  shows "sens_loop (pre @ concat (map sens_entry rs)) (length rs) offset =
    Some (map (\<lambda>r. sensitivity_code (RelSensitivityOf (cptr_str r))) rs,
          offset + length (concat (map sens_entry rs)))"
  using assms
proof (induction rs arbitrary: pre offset)
  case (Cons r rs)
  have len: "unat (word_of_nat (length (cptr_str r)) :: u16) = length (cptr_str r)"
    using Cons.prems(1) by (intro unat_of_nat_u16) simp
  have "sens_loop ((pre @ sens_entry r) @ concat (map sens_entry rs)) (length rs)
      (offset + length (sens_entry r)) =
    Some (map (\<lambda>r. sensitivity_code (RelSensitivityOf (cptr_str r))) rs,
          offset + length (sens_entry r) + length (concat (map sens_entry rs)))"
    using Cons.prems by (intro Cons.IH) auto
  moreover have "take (length (cptr_str r)) (drop (offset + 2) ((pre @ sens_entry r) @ rest)) =
      bytes_of (cptr_str r)" for rest
    using Cons.prems sens_entry_read(2) [of r rest]
    by (simp add: drop_append length_sens_entry)
  ultimately show ?case
    using Cons.prems sens_entry_read(1) [of r]
    by (simp add: len Let_def length_sens_entry add.assoc)
qed simp

lemma sens_tiers_codes: "sens_tiers (map sensitivity_code ts) = Some ts"
proof (induction ts)
  case (Cons t ts)
  then show ?case by (cases t) simp_all
qed simp

interpretation sens: wire_seam sens_encode "process StageRetrieve" sens_decode
  sens_decide sens_carries
proof unfold_locales
  fix rs :: "cptr list"
  show "\<not> sens_carries rs \<Longrightarrow> sens_encode rs = None"
    by (auto simp: sens_encode_def sens_carries_def aimee_memory_sens_request_encode_def
        sens_request_size_eq Let_def)
  assume c: "sens_carries rs"
  then have count: "unat (word_of_nat (length rs) :: u32) = length rs"
    by (intro unat_of_nat_u32) (simp add: sens_carries_def UINT32_MAX_def)
  let ?pre = "aimee_memory_put_u32 AIMEE_MEMORY_SENS_REQUEST_MAGIC @
      aimee_memory_put_u32 AIMEE_MEMORY_WIRE_VERSION @
      aimee_memory_put_u32 (word_of_nat (length rs))"
  let ?tiers = "map sensitivity_code (sens_decide rs)"
  have "sens_loop (?pre @ concat (map sens_entry rs)) (length rs) 12 =
      Some (?tiers, 12 + length (concat (map sens_entry rs)))"
    using c sens_loop_names [of rs ?pre 12]
    by (simp add: sens_carries_def wire_simps sens_decide_def comp_def)
  then have "process StageRetrieve (?pre @ concat (map sens_entry rs)) =
      Inr (aimee_memory_put_u32 AIMEE_MEMORY_SENS_RESPONSE_MAGIC @
           aimee_memory_put_u32 (word_of_nat (length rs)) @ ?tiers)"
    using c
    by (simp add: process_def Handle_def stage_defs handleRetrieve_def handleSensitivity_def
        wire_simps count sens_carries_def)
  moreover have "sens_decode rs (aimee_memory_put_u32 AIMEE_MEMORY_SENS_RESPONSE_MAGIC @
      aimee_memory_put_u32 (word_of_nat (length rs)) @ ?tiers) = Some (sens_decide rs)"
    using c sens_tiers_codes [of "sens_decide rs"]
    by (simp add: sens_decode_def aimee_memory_sens_response_decode_def wire_simps
        sens_decide_def sens_carries_def)
  moreover have "sens_encode rs = Some (?pre @ concat (map sens_entry rs))"
    using c
    by (auto simp: sens_encode_def aimee_memory_sens_request_encode_def sens_request_size_eq
        sens_carries_def Let_def)
  ultimately show "\<exists>m r. sens_encode rs = Some m \<and> process StageRetrieve m = Inr r \<and>
      sens_decode rs r = Some (sens_decide rs)"
    by blast
qed

subsection \<open>Extraction\<close>

definition wire_triple :: "Triple \<Rightarrow> aimee_memory_triple" where
  "wire_triple t =
     \<lparr>tr_subject_kind = go_SubjectKind t, tr_object_kind = go_ObjectKind t,
      tr_subject = go_Subject t, tr_rel_type = go_RelType t, tr_object = go_Object t\<rparr>"

type_synonym extract_question = "cptr \<times> u32"

definition extract_encode :: "extract_question \<Rightarrow> byte list option" where
  "extract_encode q =
     (case q of (t, mx) \<Rightarrow>
        aimee_memory_extract_request_encode t mx (Some (aimee_memory_extract_request_size t)))"

definition extract_decode :: "extract_question \<Rightarrow> byte list \<Rightarrow> aimee_memory_triple list option" where
  "extract_decode q r = aimee_memory_extract_response_decode (Some r) True (snd q)"

definition extract_decide :: "extract_question \<Rightarrow> aimee_memory_triple list" where
  "extract_decide q =
     (case q of (t, mx) \<Rightarrow> map wire_triple (ExtractPatterns (cptr_str t) (int (unat mx))))"

definition extract_carries :: "extract_question \<Rightarrow> bool" where
  "extract_carries q = (case q of (t, mx) \<Rightarrow> text_carries 16 t \<and> mx \<noteq> 0)"

definition extract_over_wire :: "extract_question \<Rightarrow> aimee_memory_triple list option" where
  "extract_over_wire = over_wire extract_encode (process StageExtractIndex) extract_decode"

lemma extract_field_at:
  assumes "length pre = offset" and "length f < cap" and "cap \<le> 128"
  shows "aimee_memory_extract_field (pre @ triple_field f @ rest) offset cap =
     Some (f, length (triple_field f))"
proof -
  have "unat (word_of_nat (length f) :: u32) = length f"
    using assms by (intro unat_of_nat_u32) (simp add: UINT32_MAX_def)
  with assms show ?thesis
    by (simp add: aimee_memory_extract_field_def triple_field_def wire_simps Let_def)
qed

lemma extract_triple_at:
  assumes "length pre = offset" and fits: "triple_fits t"
  shows "extract_triple (pre @ triple_bytes t @ rest) offset =
     Some (wire_triple t, offset + length (triple_bytes t))"
proof -
  let ?kinds = "aimee_memory_put_u32 (go_SubjectKind t) @ aimee_memory_put_u32 (go_ObjectKind t)"
  let ?s = "triple_field (go_Subject t)" and ?r = "triple_field (go_RelType t)"
    and ?o = "triple_field (go_Object t)"
  have 1: "aimee_memory_extract_field ((pre @ ?kinds) @ ?s @ (?r @ ?o @ rest)) (offset + 8) 128 =
      Some (go_Subject t, length ?s)"
    using assms by (intro extract_field_at) (simp_all add: wire_simps triple_fits_def)
  have 2: "aimee_memory_extract_field ((pre @ ?kinds @ ?s) @ ?r @ (?o @ rest))
      (offset + 8 + length ?s) 64 = Some (go_RelType t, length ?r)"
    using assms by (intro extract_field_at) (simp_all add: wire_simps triple_fits_def)
  have 3: "aimee_memory_extract_field ((pre @ ?kinds @ ?s @ ?r) @ ?o @ rest)
      (offset + 8 + length ?s + length ?r) 128 = Some (go_Object t, length ?o)"
    using assms by (intro extract_field_at) (simp_all add: wire_simps triple_fits_def)
  have "\<not> length (pre @ triple_bytes t @ rest) < offset + 8"
    using assms by (simp add: triple_bytes_def wire_simps)
  then show ?thesis
    using 1 2 3 assms(1)
    by (simp add: extract_triple_def triple_bytes_def wire_triple_def wire_simps Let_def)
qed

lemma extract_triples_concat:
  assumes "length pre = offset" and "list_all triple_fits ts"
  shows "extract_triples (pre @ concat (map triple_bytes ts)) (length ts) offset =
     Some (map wire_triple ts, offset + length (concat (map triple_bytes ts)))"
  using assms
proof (induction ts arbitrary: pre offset)
  case (Cons t ts)
  have "extract_triples ((pre @ triple_bytes t) @ concat (map triple_bytes ts)) (length ts)
      (offset + length (triple_bytes t)) =
      Some (map wire_triple ts, offset + length (triple_bytes t) + length (concat (map triple_bytes ts)))"
    using Cons.prems by (intro Cons.IH) simp_all
  then show ?case
    using Cons.prems extract_triple_at [of pre offset t "concat (map triple_bytes ts)"] by simp
qed simp

lemma ExtractPatterns_loop_fits:
  "list_all triple_fits (ExtractPatterns_loop s mx i n)"
proof (induction s mx i n rule: ExtractPatterns_loop.induct)
  case (1 s mx i n)
  have hit: "length a < 128 \<and> length v < 128" if "go_hit s i = Some (a, v, e)" for a v e
    using that by (auto simp: go_hit_def Let_def trimmedTo_eq cbuf_def split: option.splits)
  have fit: "triple_fits \<lparr>go_Subject = ''user'', go_RelType = normalizeRelType a, go_Object = v,
      go_SubjectKind = k, go_ObjectKind = k'\<rparr>" if "go_hit s i = Some (a, v, e)" for a v e k k'
    using hit [OF that] length_normalizeRelType [of a] by (simp add: triple_fits_def)
  show ?case
    using 1 by (subst ExtractPatterns_loop.simps) (auto simp: Let_def fit split: option.split)
qed

lemma ExtractPatterns_loop_count:
  "int n \<le> mx \<Longrightarrow> int n + int (length (ExtractPatterns_loop s mx i n)) \<le> mx"
proof (induction s mx i n rule: ExtractPatterns_loop.induct)
  case (1 s mx i n)
  then show ?case
    by (subst ExtractPatterns_loop.simps) (auto simp: Let_def algebra_simps split: option.split)
qed

lemma ExtractPatterns_fits: "list_all triple_fits (ExtractPatterns s mx)"
  by (simp add: ExtractPatterns_def ExtractPatterns_loop_fits)

lemma ExtractPatterns_count: "0 \<le> mx \<Longrightarrow> int (length (ExtractPatterns s mx)) \<le> mx"
  using ExtractPatterns_loop_count [of 0 mx s 0] by (simp add: ExtractPatterns_def)

interpretation triples: wire_seam extract_encode "process StageExtractIndex" extract_decode
  extract_decide extract_carries
proof unfold_locales
  fix q :: extract_question
  obtain t mx where q: "q = (t, mx)" by (cases q)
  show "\<not> extract_carries q \<Longrightarrow> extract_encode q = None"
    by (auto simp: q extract_encode_def extract_carries_def aimee_memory_extract_request_encode_def
        aimee_memory_extract_request_size_def text_request_size_eq Let_def)
  assume "extract_carries q"
  then have c: "text_carries 16 t" and mx: "mx \<noteq> 0"
    by (simp_all add: q extract_carries_def)
  let ?ts = "ExtractPatterns (cptr_str t) (int (unat mx))"
  let ?m = "aimee_memory_put_u32 AIMEE_MEMORY_EXTRACT_REQUEST_MAGIC @
      aimee_memory_put_u32 AIMEE_MEMORY_WIRE_VERSION @ aimee_memory_put_u32 mx @
      aimee_memory_put_u32 (word_of_nat (length (cptr_str t))) @ bytes_of (cptr_str t)"
  let ?pre = "aimee_memory_put_u32 AIMEE_MEMORY_EXTRACT_RESPONSE_MAGIC @
      aimee_memory_put_u32 (word_of_nat (length ?ts))"
  have le: "length ?ts \<le> unat mx"
    using ExtractPatterns_count [of "int (unat mx)" "cptr_str t"] by linarith
  then have count: "unat (word_of_nat (length ?ts) :: u32) = length ?ts"
    using unsigned_less [of mx, where ?'a = nat] by (intro unat_of_nat_u32) (simp add: UINT32_MAX_def)
  have "process StageExtractIndex ?m = Inr (?pre @ concat (map triple_bytes ?ts))"
    using c mx ExtractPatterns_fits [of "cptr_str t" "int (unat mx)"]
    by (simp add: process_def Handle_def stage_defs handleExtract_def wire_simps Let_def)
  moreover have "extract_decode q (?pre @ concat (map triple_bytes ?ts)) = Some (extract_decide q)"
    using le count extract_triples_concat [OF _ ExtractPatterns_fits, of ?pre 8 "cptr_str t" "int (unat mx)"]
    by (simp add: q extract_decode_def extract_decide_def aimee_memory_extract_response_decode_def
        wire_simps word_less_nat_alt not_less)
  moreover have "extract_encode q = Some ?m"
    using c mx
    by (simp add: q extract_encode_def aimee_memory_extract_request_encode_def
        aimee_memory_extract_request_size_def text_request_size_eq Let_def)
  ultimately show "\<exists>m r. extract_encode q = Some m \<and> process StageExtractIndex m = Inr r \<and>
      extract_decode q r = Some (extract_decide q)"
    by blast
qed

end
