(* ===== verification/Stage_Properties.thy ===== *)
theory Stage_Properties
  imports Seam
begin

text \<open>
  The properties of the extraction, of the two gates and of their registries.
\<close>

subsection \<open>Value shapes\<close>

lemma ipv4_octet_chars:
  "ipv4_octet p len val = Some (len', val', p') \<Longrightarrow>
     \<forall>c\<in>set p. (isdigit c \<or> c = CHR ''.'') \<or> c \<in> set p'"
  by (induction p len val rule: ipv4_octet.induct) (auto split: if_splits)

lemma ipv4_loop_chars: "ipv4_loop p octets \<Longrightarrow> c \<in> set p \<Longrightarrow> isdigit c \<or> c = CHR ''.''"
proof (induction p octets rule: ipv4_loop.induct)
  case (1 p octets)
  have p: "p \<noteq> []"
    using 1(3) by auto
  then obtain len val p' where oct: "ipv4_octet p 0 0 = Some (len, val, p')" "\<not> (len = 0 \<or> 255 < val)"
    using 1(2) by (auto simp: ipv4_loop.simps [of p] split: option.splits if_splits)
  show ?case
  proof (cases p')
    case Nil
    then show ?thesis
      using ipv4_octet_chars [OF oct(1)] 1(3) by auto
  next
    case (Cons d p'')
    then have "d = CHR ''.''" "ipv4_loop p'' (octets + 1)"
      using 1(2) p oct by (auto simp: ipv4_loop.simps [of p] split: if_splits)
    then show ?thesis
      using 1(1) [OF p oct(1) refl refl oct(2) Cons] ipv4_octet_chars [OF oct(1)] 1(3) Cons by auto
  qed
qed

lemma ipv4_chars: "is_ipv4 t \<Longrightarrow> c \<in> set t \<Longrightarrow> isdigit c \<or> c = CHR ''.''"
  unfolding is_ipv4_def by (rule ipv4_loop_chars)

lemma mac_shape:
  assumes "is_mac t"
  obtains a b c d e f g h i j k l s where
    "t = [a, b, s, c, d, s, e, f, s, g, h, s, i, j, s, k, l]" "s = CHR '':'' \<or> s = CHR ''-''"
    "list_all is_hex [a, b, c, d, e, f, g, h, i, j, k, l]"
proof -
  have len: "length t = 17"
    using assms by (simp add: is_mac_def split: if_splits)
  then have t: "t = map ((!) t) [0..<17]"
    by (metis map_nth)
  have ix: "[0..<17] = [0, 1, 2, 3, 4, 5, 6, 7, 8, 9, 10, 11, 12, 13, 14, 15, 16 :: nat]"
    and gs: "[0..<6] = [0, 1, 2, 3, 4, 5 :: nat]"
    by (simp_all add: upt_rec numeral_eq_Suc)
  show thesis
    using assms len
    by (intro that [of "t ! 0" "t ! 1" "t ! 2" "t ! 3" "t ! 4" "t ! 6" "t ! 7" "t ! 9" "t ! 10"
          "t ! 12" "t ! 13" "t ! 15" "t ! 16"])
      (subst t, auto simp: is_mac_def Let_def ix gs split: if_splits)
qed

lemma hex_separators [simp]:
  "\<not> is_hex (CHR '':'')" "\<not> is_hex (CHR ''-'')" "\<not> is_hex (CHR ''@'')" "\<not> is_hex (CHR ''.'')"
  "\<not> isdigit (CHR '':'')" "\<not> isdigit (CHR ''-'')" "\<not> isdigit (CHR ''@'')"
  by (simp_all add: is_hex_def isdigit_def)

lemma ipv6_chars: "is_ipv6 t \<Longrightarrow> CHR '':'' \<in> set t \<and> (\<forall>c\<in>set t. is_hex c \<or> c = CHR '':'')"
  by (auto simp: is_ipv6_def list_all_iff split: if_splits)

lemma email_at: "is_email t \<Longrightarrow> CHR ''@'' \<in> set t"
  using strchr_Some [of t "CHR ''@''"] by (auto simp: is_email_def in_set_conv_nth split: option.splits)

lemma date_chars:
  assumes "is_iso_date t"
  shows "CHR ''-'' \<in> set t" "length t = 10" "\<forall>c\<in>set t. isdigit c \<or> c = CHR ''-''"
proof -
  have len: "length t = 10" and dash: "t ! 4 = CHR ''-''" "t ! 7 = CHR ''-''"
    and digits: "all_digits t 4" "all_digits (drop 5 t) 2" "all_digits (drop 8 t) 2"
    using assms by (auto simp: is_iso_date_def split: if_splits)
  have "isdigit (t ! i) \<or> t ! i = CHR ''-''" if "i < 10" for i
  proof -
    have d: "isdigit (t ! j)" if "j < 4 \<or> j = 5 \<or> j = 6 \<or> j = 8 \<or> j = 9" for j
      using that digits len
      by (auto simp: all_digits_def dest: spec [of _ j] spec [of _ 0] spec [of _ "Suc 0"])
    have "(i < 4 \<or> i = 5 \<or> i = 6 \<or> i = 8 \<or> i = 9) \<or> i = 4 \<or> i = 7"
      using that by presburger
    then show ?thesis
      using d [of i] dash by blast
  qed
  then show "\<forall>c\<in>set t. isdigit c \<or> c = CHR ''-''"
    using len by (metis in_set_conv_nth)
  show "CHR ''-'' \<in> set t" "length t = 10"
    using dash len nth_mem [of 4 t] by auto
qed

lemma mac_not_ipv6: "is_mac t \<Longrightarrow> \<not> is_ipv6 t"
proof
  assume mac: "is_mac t" and "is_ipv6 t"
  obtain a b c d e f g h i j k l s where
    t: "t = [a, b, s, c, d, s, e, f, s, g, h, s, i, j, s, k, l]"
    and s: "s = CHR '':'' \<or> s = CHR ''-''" and hex: "list_all is_hex [a, b, c, d, e, f, g, h, i, j, k, l]"
    using mac by (rule mac_shape)
  have "\<forall>x\<in>set [a, b, c, d, e, f, g, h, i, j, k, l]. x \<noteq> CHR '':''"
    using hex by (metis hex_separators(1) list_all_iff)
  then have ne: "a \<noteq> CHR '':''" "b \<noteq> CHR '':''" "c \<noteq> CHR '':''" "d \<noteq> CHR '':''" "e \<noteq> CHR '':''"
    "f \<noteq> CHR '':''" "g \<noteq> CHR '':''" "h \<noteq> CHR '':''" "i \<noteq> CHR '':''" "j \<noteq> CHR '':''"
    "k \<noteq> CHR '':''" "l \<noteq> CHR '':''"
    by simp_all
  have "CHR '':'' \<in> set t"
    using ipv6_chars [OF \<open>is_ipv6 t\<close>] by simp
  then have colon: "s = CHR '':''"
    using ne s by (simp add: t eq_commute [of "CHR '':''"])
  have "\<not> ipv6_groups t 0 0"
    by (simp add: t colon ne)
  moreover have "\<not> contains t ''::''"
    by (simp add: t colon ne contains_def eq_commute [of "CHR '':''"])
  ultimately show False
    using \<open>is_ipv6 t\<close> by (simp add: is_ipv6_def split: if_splits)
qed

lemma shapes_exclusive:
  "is_ipv4 t \<Longrightarrow> \<not> is_mac t \<and> \<not> is_ipv6 t \<and> \<not> is_email t \<and> \<not> is_iso_date t"
  "is_mac t \<Longrightarrow> \<not> is_email t \<and> \<not> is_iso_date t"
  "is_ipv6 t \<Longrightarrow> \<not> is_email t \<and> \<not> is_iso_date t"
  "is_email t \<Longrightarrow> \<not> is_iso_date t"
proof -
  show "is_ipv4 t \<Longrightarrow> \<not> is_mac t \<and> \<not> is_ipv6 t \<and> \<not> is_email t \<and> \<not> is_iso_date t"
  proof (intro conjI notI)
    assume v4: "is_ipv4 t"
    have no: "CHR '':'' \<notin> set t" "CHR ''-'' \<notin> set t" "CHR ''@'' \<notin> set t"
      using ipv4_chars [OF v4, of "CHR '':''"] ipv4_chars [OF v4, of "CHR ''-''"]
        ipv4_chars [OF v4, of "CHR ''@''"] by auto
    show "is_mac t \<Longrightarrow> False"
      using no by (elim mac_shape) auto
    show "is_ipv6 t \<Longrightarrow> False" "is_email t \<Longrightarrow> False" "is_iso_date t \<Longrightarrow> False"
      using no ipv6_chars [of t] email_at [of t] date_chars(1) [of t] by auto
  qed
  show "is_mac t \<Longrightarrow> \<not> is_email t \<and> \<not> is_iso_date t"
    using email_at [of t] date_chars(2) [of t] by (auto elim!: mac_shape)
  show "is_ipv6 t \<Longrightarrow> \<not> is_email t \<and> \<not> is_iso_date t"
  proof (intro conjI notI)
    assume v6: "is_ipv6 t"
    have no: "CHR ''-'' \<notin> set t" "CHR ''@'' \<notin> set t"
      using ipv6_chars [OF v6] by auto
    show "is_email t \<Longrightarrow> False" "is_iso_date t \<Longrightarrow> False"
      using no email_at [of t] date_chars(1) [of t] by auto
  qed
  show "is_email t \<Longrightarrow> \<not> is_iso_date t"
    using email_at [of t] date_chars(3) [of t] hex_separators(7) by force
qed

text \<open>
  The order in which the value classifier tries its shapes does not matter: it answers a
  shape exactly when the token passes the test of that shape, whatever the token.
\<close>

lemma classify_value_order_free:
  "(memory_pattern_classify_value (Some t) = PAT_VAL_IPV4) = is_ipv4 t \<and>
   (memory_pattern_classify_value (Some t) = PAT_VAL_MAC) = is_mac t \<and>
   (memory_pattern_classify_value (Some t) = PAT_VAL_IPV6) = is_ipv6 t \<and>
   (memory_pattern_classify_value (Some t) = PAT_VAL_EMAIL) = is_email t \<and>
   (memory_pattern_classify_value (Some t) = PAT_VAL_DATE) = is_iso_date t"
proof (cases "t = []")
  case True
  then show ?thesis
    by (simp add: memory_pattern_classify_value_def is_ipv4_def is_mac_def is_ipv6_def is_email_def
        is_iso_date_def ipv4_loop.simps)
next
  case False
  then show ?thesis
    using shapes_exclusive(1) [of t] shapes_exclusive(2) [of t] shapes_exclusive(3) [of t]
      shapes_exclusive(4) [of t] mac_not_ipv6 [of t]
    by (auto simp: memory_pattern_classify_value_def)
qed

subsection \<open>Extraction\<close>

text \<open>
  The sentences "my A is V" of a text, stated on positions: the word "my" at \<open>j\<close>, the first
  " is " after it at \<open>p\<close>, and the end \<open>e\<close> of the value, the first line end or full stop,
  exclamation or question mark before white space or the end, behind it.
\<close>

definition sentence_end :: "string \<Rightarrow> nat \<Rightarrow> bool" where
  "sentence_end t k \<longleftrightarrow> length t \<le> k \<or> t ! k = CHR 0x0A \<or>
     (t ! k \<in> {CHR ''.'', CHR ''!'', CHR ''?''} \<and> (length t = k + 1 \<or> isspace (t ! (k + 1))))"

definition states_fact :: "string \<Rightarrow> nat \<times> nat \<times> nat \<Rightarrow> bool" where
  "states_fact t = (\<lambda>(j, p, e).
     j < length t \<and> is_my_word t j \<and>
     skip_spaces t (j + 2) \<le> p \<and> p + 4 \<le> length t \<and> ci_starts (drop p t) '' is '' \<and>
     (\<forall>k. skip_spaces t (j + 2) \<le> k \<and> k < p \<longrightarrow> \<not> ci_starts (drop k t) '' is '') \<and>
     p + 4 \<le> e \<and> sentence_end t e \<and> (\<forall>k. p + 4 \<le> k \<and> k < e \<longrightarrow> \<not> sentence_end t k))"

definition stated_attribute :: "string \<Rightarrow> nat \<times> nat \<times> nat \<Rightarrow> string" where
  "stated_attribute t = (\<lambda>(j, p, e).
     take 127 (trim (take (p - skip_spaces t (j + 2)) (drop (skip_spaces t (j + 2)) t))))"

definition stated_value :: "string \<Rightarrow> nat \<times> nat \<times> nat \<Rightarrow> string" where
  "stated_value t = (\<lambda>(j, p, e). take 127 (trim (take (e - (p + 4)) (drop (p + 4) t))))"

definition usable_fact :: "(string \<Rightarrow> nat \<Rightarrow> string) \<Rightarrow> string \<Rightarrow> nat \<times> nat \<times> nat \<Rightarrow> bool" where
  "usable_fact rel_norm t f \<longleftrightarrow> stated_attribute t f \<noteq> [] \<and> stated_value t f \<noteq> [] \<and>
     rel_norm (stated_attribute t f) REL_TYPE_NAME_MAX \<noteq> []"

definition stated_triple ::
    "(string \<Rightarrow> nat \<Rightarrow> string) \<Rightarrow> string \<Rightarrow> nat \<times> nat \<times> nat \<Rightarrow> pattern_triple" where
  "stated_triple rel_norm t f =
     \<lparr>pt_subject = ''user'',
      pt_rel_type = rel_norm (stated_attribute t f) REL_TYPE_NAME_MAX,
      pt_object = stated_value t f,
      pt_subject_kind = NODE_PERSON,
      pt_object_kind =
        memory_pattern_value_node_kind (memory_pattern_classify_value (Some (stated_value t f)))\<rparr>"

definition covers :: "(nat \<times> nat \<times> nat) list \<Rightarrow> nat \<Rightarrow> bool" where
  "covers fs i \<longleftrightarrow> (\<exists>(j, p, e)\<in>set fs. j \<le> i \<and> i \<le> e)"

definition apart :: "nat \<times> nat \<times> nat \<Rightarrow> nat \<times> nat \<times> nat \<Rightarrow> bool" where
  "apart f g \<longleftrightarrow> snd (snd f) < fst g"

lemma sentence_end_val_len:
  "k \<le> length t \<Longrightarrow> sentence_end t (k + val_len (drop k t)) \<and>
     (\<forall>l. k \<le> l \<and> l < k + val_len (drop k t) \<longrightarrow> \<not> sentence_end t l)"
proof (induction "drop k t" arbitrary: k rule: val_len.induct)
  case 1
  then show ?case
    by (simp add: sentence_end_def)
next
  case (2 c cs)
  have k: "k < length t"
    using 2(2) by (metis drop_all list.distinct(1) not_le)
  have c: "t ! k = c" "drop (Suc k) t = cs"
    using 2(2) k by (metis Cons_nth_drop_Suc list.inject)+
  have ends: "sentence_end t k \<longleftrightarrow> c = CHR 0x0A \<or>
      (c = CHR ''.'' \<or> c = CHR ''!'' \<or> c = CHR ''?'') \<and> (cs = [] \<or> isspace (char_at cs 0))"
    using k c(1) c(2) [symmetric] by (auto simp: sentence_end_def char_at_def)
  show ?case
  proof (cases "sentence_end t k")
    case True
    then have "val_len (c # cs) = 0"
      unfolding ends by auto
    then show ?thesis
      using True by (auto simp: 2(2) [symmetric])
  next
    case False
    then have len: "val_len (drop k t) = Suc (val_len (drop (Suc k) t))"
      unfolding ends 2(2) [symmetric] c(2) by auto
    have step: "sentence_end t (Suc k + val_len (drop (Suc k) t)) \<and>
        (\<forall>l. Suc k \<le> l \<and> l < Suc k + val_len (drop (Suc k) t) \<longrightarrow> \<not> sentence_end t l)"
      by (rule 2(1)) (use False k c(2) in \<open>simp_all add: ends\<close>)
    have at_k: "k \<le> l \<longleftrightarrow> l = k \<or> Suc k \<le> l" for l
      by arith
    show ?thesis
      unfolding len at_k using step False by auto
  qed
qed

lemma ci_find_first:
  "n \<noteq> [] \<Longrightarrow>
     (case ci_find t n k of
        None \<Rightarrow> \<forall>l\<ge>k. \<not> ci_starts (drop l t) n
      | Some p \<Rightarrow> \<forall>l. k \<le> l \<and> l < p \<longrightarrow> \<not> ci_starts (drop l t) n)"
proof -
  assume n: "n \<noteq> []"
  then have "case ci_find_loop t n k of
        None \<Rightarrow> \<forall>l\<ge>k. \<not> ci_starts (drop l t) n
      | Some p \<Rightarrow> \<forall>l. k \<le> l \<and> l < p \<longrightarrow> \<not> ci_starts (drop l t) n"
  proof (induction t n k rule: ci_find_loop.induct)
    case (1 t n k)
    show ?case
    proof (cases "k + length n \<le> length t")
      case False
      have "\<not> ci_starts (drop l t) n" if "k \<le> l" for l
      proof
        assume "ci_starts (drop l t) n"
        then have "length n \<le> length t - l"
          using ci_starts_length by fastforce
        moreover have "0 < length n"
          using 1(2) by simp
        ultimately show False
          using False that by linarith
      qed
      then show ?thesis
        using False by (simp add: ci_find_loop.simps)
    next
      case True
      have step: "k \<le> l \<longleftrightarrow> l = k \<or> Suc k \<le> l" for l
        by auto
      show ?thesis
      proof (cases "ci_starts (drop k t) n")
        case False
        then show ?thesis
          using 1 True by (subst ci_find_loop.simps) (auto simp: step split: option.splits)
      qed (use True in \<open>auto simp: ci_find_loop.simps\<close>)
    qed
  qed
  then show ?thesis
    using n by (simp add: ci_find_def)
qed

lemma extract_hit_states:
  assumes "i < length t" "is_my_word t i"
  shows "case extract_hit t i of
      None \<Rightarrow> \<forall>p\<ge>skip_spaces t (i + 2). \<not> ci_starts (drop p t) '' is ''
    | Some (a, v, e) \<Rightarrow> \<exists>p. states_fact t (i, p, e) \<and> a = stated_attribute t (i, p, e) \<and>
        v = stated_value t (i, p, e)"
proof (cases "ci_find t '' is '' (skip_spaces t (i + 2))")
  case None
  then show ?thesis
    using ci_find_first [of "'' is ''" "skip_spaces t (i + 2)" t] by (simp add: extract_hit_def)
next
  case (Some p)
  let ?e = "p + 4 + val_len (drop (p + 4) t)"
  have p: "skip_spaces t (i + 2) \<le> p" "p + 4 \<le> length t" "ci_starts (drop p t) '' is ''"
    "\<forall>k. skip_spaces t (i + 2) \<le> k \<and> k < p \<longrightarrow> \<not> ci_starts (drop k t) '' is ''"
    using ci_find_Some [OF Some] ci_find_first [of "'' is ''" "skip_spaces t (i + 2)" t] Some
    by simp_all
  have "states_fact t (i, p, ?e)"
    using assms p sentence_end_val_len [OF p(2)] by (simp add: states_fact_def)
  then show ?thesis
    using Some by (auto simp: extract_hit_def Let_def stated_attribute_def stated_value_def
        copy_trimmed_def cbuf_def intro!: exI [of _ p])
qed

text \<open>
  What a scan from position \<open>i\<close> with \<open>n\<close> triples already written leaves behind, in terms of
  the sentences \<open>fs\<close> it went through.
\<close>

definition scanned ::
    "(string \<Rightarrow> nat \<Rightarrow> string) \<Rightarrow> string \<Rightarrow> int \<Rightarrow> nat \<Rightarrow> nat \<Rightarrow> pattern_triple list \<Rightarrow>
     (nat \<times> nat \<times> nat) list \<Rightarrow> bool" where
  "scanned rel_norm t mx i n ts fs \<longleftrightarrow>
     (\<forall>f\<in>set fs. states_fact t f \<and> i \<le> fst f) \<and> sorted_wrt apart fs \<and>
     ts = map (stated_triple rel_norm t) (filter (usable_fact rel_norm t) fs) \<and>
     (\<forall>k<length t. i \<le> k \<and> is_my_word t k \<and>
        (\<exists>p\<ge>skip_spaces t (k + 2). ci_starts (drop p t) '' is '') \<longrightarrow>
        covers fs k \<or> (int n + int (length ts) = mx \<and> (\<forall>f\<in>set fs. snd (snd f) < k)))"

lemma scanned_skip:
  assumes "scanned rel_norm t mx (i + 1) n ts fs"
    and "\<not> is_my_word t i \<or> (\<forall>p\<ge>skip_spaces t (i + 2). \<not> ci_starts (drop p t) '' is '')"
  shows "scanned rel_norm t mx i n ts fs"
proof -
  have "k \<noteq> i" if "is_my_word t k" "p \<ge> skip_spaces t (k + 2)" "ci_starts (drop p t) '' is ''" for k p
    using that assms(2) by blast
  then show ?thesis
    using assms(1) unfolding scanned_def
    by (metis Suc_eq_plus1 Suc_leD Suc_leI le_neq_implies_less)
qed

lemma scanned_hit:
  assumes rest: "scanned rel_norm t mx (e + 1) m ts fs"
    and f: "states_fact t (i, p, e)" "us = stated_triple rel_norm t (i, p, e)"
    and use: "usable_fact rel_norm t (i, p, e) \<longleftrightarrow> b" "ts' = (if b then us # ts else ts)"
      "m = (if b then n + 1 else n)"
  shows "scanned rel_norm t mx i n ts' ((i, p, e) # fs)"
proof -
  have i: "i \<le> e"
  proof -
    have "skip_spaces t (i + 2) \<le> p" "p + 4 \<le> e"
      using f(1) by (simp_all add: states_fact_def)
    then show ?thesis
      using skip_spaces_ge [of "i + 2" t] by linarith
  qed
  have "apart (i, p, e) g \<and> i \<le> fst g" if "g \<in> set fs" for g
    using that rest i by (auto simp: scanned_def apart_def Suc_le_eq)
  moreover have "int n + int (length ts') = int m + int (length ts)"
    using use by simp
  moreover have "covers ((i, p, e) # fs) k \<longleftrightarrow> i \<le> k \<and> k \<le> e \<or> covers fs k" for k
    by (auto simp: covers_def)
  moreover have "k \<le> e \<or> e + 1 \<le> k" for k
    by auto
  ultimately show ?thesis
    using rest f use unfolding scanned_def by (auto simp: not_le)
qed

lemma extract_loop_scanned:
  "int n \<le> mx \<Longrightarrow> \<exists>fs. scanned rel_norm t mx i n (extract_loop rel_norm t mx i n) fs"
proof (induction rel_norm t mx i n rule: extract_loop.induct)
  case (1 rel_norm t mx i n)
  consider (stop) "\<not> (i < length t \<and> int n < mx)"
    | (skip) "i < length t" "int n < mx" "\<not> is_my_word t i"
    | (miss) "i < length t" "int n < mx" "is_my_word t i" "extract_hit t i = None"
    | (hit) a v e where "i < length t" "int n < mx" "is_my_word t i" "extract_hit t i = Some (a, v, e)"
    by (cases "extract_hit t i") auto
  then show ?case
  proof cases
    case stop
    then have "scanned rel_norm t mx i n [] []"
      using 1(6) by (auto simp: scanned_def)
    then show ?thesis
      using stop by (auto simp: extract_loop.simps)
  next
    case skip
    then have loop: "extract_loop rel_norm t mx i n = extract_loop rel_norm t mx (i + 1) n"
      by (subst extract_loop.simps) simp
    show ?thesis
      using "1.IH"(1) skip "1.prems" scanned_skip [OF _ disjI1 [OF skip(3)]] unfolding loop by blast
  next
    case miss
    then have loop: "extract_loop rel_norm t mx i n = extract_loop rel_norm t mx (i + 1) n"
      by (subst extract_loop.simps) simp
    have none: "\<forall>p\<ge>skip_spaces t (i + 2). \<not> ci_starts (drop p t) '' is ''"
      using extract_hit_states [of i t] miss by simp
    have "\<exists>fs. scanned rel_norm t mx (i + 1) n (extract_loop rel_norm t mx (i + 1) n) fs"
      using "1.IH"(2) miss "1.prems" by blast
    then show ?thesis
      using scanned_skip [OF _ disjI2 [OF none]] unfolding loop by blast
  next
    case hit
    obtain p where p: "states_fact t (i, p, e)" "a = stated_attribute t (i, p, e)"
      "v = stated_value t (i, p, e)"
      using extract_hit_states [of i t] hit by auto
    let ?u = "usable_fact rel_norm t (i, p, e)"
    let ?m = "if ?u then n + 1 else n"
    have triple: "make_triple rel_norm a v = stated_triple rel_norm t (i, p, e)"
      by (auto simp: make_triple_def stated_triple_def p(2,3) cbuf_def stated_value_def)
    have use: "?u \<longleftrightarrow> a \<noteq> [] \<and> v \<noteq> [] \<and> pt_rel_type (make_triple rel_norm a v) \<noteq> []"
      by (simp add: usable_fact_def p make_triple_def)
    have loop: "extract_loop rel_norm t mx i n =
        (if ?u then [make_triple rel_norm a v] else []) @ extract_loop rel_norm t mx (e + 1) ?m"
      using hit by (subst extract_loop.simps) (auto simp: use Let_def)
    obtain fs where "scanned rel_norm t mx (e + 1) ?m (extract_loop rel_norm t mx (e + 1) ?m) fs"
    proof (cases ?u)
      case True
      then show ?thesis
        using that 1(4) [of "(a, v, e)" a "(v, e)" v e "make_triple rel_norm a v"] hit use by auto
    next
      case False
      consider "a = [] \<or> v = []" | "a \<noteq> []" "v \<noteq> []" "pt_rel_type (make_triple rel_norm a v) = []"
        using False use by blast
      then show ?thesis
      proof cases
        case 1
        then show ?thesis
          using that "1.IH"(3) [of "(a, v, e)" a "(v, e)" v e] hit False "1.prems" by auto
      next
        case 2
        then show ?thesis
          using that "1.IH"(5) [of "(a, v, e)" a "(v, e)" v e "make_triple rel_norm a v"] hit False "1.prems" by auto
      qed
    qed
    then have "scanned rel_norm t mx i n (extract_loop rel_norm t mx i n) ((i, p, e) # fs)"
      by (rule scanned_hit [OF _ p(1) refl refl _ refl]) (simp add: loop triple)
    then show ?thesis
      by blast
  qed
qed

lemma extract_loop_count: "int n \<le> mx \<Longrightarrow> int n + int (length (extract_loop rel_norm s mx i n)) \<le> mx"
proof (induction rel_norm s mx i n rule: extract_loop.induct)
  case (1 rel_norm s mx i n)
  then show ?case
    by (subst extract_loop.simps) (auto simp: Let_def algebra_simps split: option.split)
qed

text \<open>
  C10. Local extraction reads exactly the sentences "my A is V" of the text: the triples are,
  in order and one to one, those of a list of such sentences that do not overlap, less the ones
  with an empty attribute, value or normalised relation.  A triple says that the user, a person,
  has the normalised attribute (the trimmed text between "my" and the first " is ", at most 127
  bytes) and the trimmed value, with the node kind of its shape.  At most \<open>max\<close> are
  written, and unless \<open>max\<close> is reached no "my" with an " is " behind it is left
  out: it stands inside one of the sentences.
\<close>

theorem extracted_triples_good:
  assumes "memory_extract_patterns rel_norm None (Some t) True mx = Some ts"
  shows "int (length ts) \<le> mx \<and>
    (\<exists>fs. (\<forall>f\<in>set fs. states_fact t f) \<and> sorted_wrt apart fs \<and>
      ts = map (stated_triple rel_norm t) (filter (usable_fact rel_norm t) fs) \<and>
      (\<forall>k<length t. is_my_word t k \<and>
        (\<exists>p\<ge>skip_spaces t (k + 2). ci_starts (drop p t) '' is '') \<longrightarrow>
        covers fs k \<or> (int (length ts) = mx \<and> (\<forall>f\<in>set fs. snd (snd f) < k))))"
proof -
  have ts: "0 < mx" "ts = extract_loop rel_norm t mx 0 0"
    using assms by (auto simp: memory_extract_patterns_def split: if_splits)
  then show ?thesis
    using extract_loop_scanned [of 0 mx rel_norm t 0] extract_loop_count [of 0 mx rel_norm t 0]
    by (auto simp: scanned_def)
qed

theorem extracted_triples_good_witness:
  "memory_extract_patterns (\<lambda>a n. cbuf n a) None (Some ''My IP is 10.0.0.7.'') True 4 =
     Some [\<lparr>pt_subject = ''user'', pt_rel_type = ''IP'', pt_object = ''10.0.0.7'',
            pt_subject_kind = NODE_PERSON, pt_object_kind = NODE_IP\<rparr>] \<and>
   (\<exists>f. states_fact ''My IP is 10.0.0.7.'' f \<and>
     stated_triple (\<lambda>a n. cbuf n a) ''My IP is 10.0.0.7.'' f =
       \<lparr>pt_subject = ''user'', pt_rel_type = ''IP'', pt_object = ''10.0.0.7'',
        pt_subject_kind = NODE_PERSON, pt_object_kind = NODE_IP\<rparr>)"
proof -
  have run: "memory_extract_patterns (\<lambda>a n. cbuf n a) None (Some ''My IP is 10.0.0.7.'') True 4 =
     Some [\<lparr>pt_subject = ''user'', pt_rel_type = ''IP'', pt_object = ''10.0.0.7'',
            pt_subject_kind = NODE_PERSON, pt_object_kind = NODE_IP\<rparr>]"
    by code_simp
  have "\<exists>fs. (\<forall>f\<in>set fs. states_fact ''My IP is 10.0.0.7.'' f) \<and>
     [\<lparr>pt_subject = ''user'', pt_rel_type = ''IP'', pt_object = ''10.0.0.7'',
       pt_subject_kind = NODE_PERSON, pt_object_kind = NODE_IP\<rparr>] =
     map (stated_triple (\<lambda>a n. cbuf n a) ''My IP is 10.0.0.7.'')
       (filter (usable_fact (\<lambda>a n. cbuf n a) ''My IP is 10.0.0.7.'') fs)"
    using extracted_triples_good [OF run] by (elim conjE exE) (intro exI conjI, assumption+)
  then obtain fs f where fs: "\<forall>f\<in>set fs. states_fact ''My IP is 10.0.0.7.'' f"
    "filter (usable_fact (\<lambda>a n. cbuf n a) ''My IP is 10.0.0.7.'') fs = [f]"
    "stated_triple (\<lambda>a n. cbuf n a) ''My IP is 10.0.0.7.'' f =
       \<lparr>pt_subject = ''user'', pt_rel_type = ''IP'', pt_object = ''10.0.0.7'',
        pt_subject_kind = NODE_PERSON, pt_object_kind = NODE_IP\<rparr>"
    by (auto simp: Cons_eq_map_conv)
  then have "f \<in> set fs"
    by (metis filter_eq_ConsD in_set_conv_decomp)
  then show ?thesis
    using run fs by blast
qed

subsection \<open>Cues\<close>

lemma ci_find_loop_sublist:
  "ci_find_loop hay needle i \<noteq> None \<longleftrightarrow> (\<exists>j\<ge>i. ci_starts (drop j hay) needle \<and> j + length needle \<le> length hay)"
proof (induction hay needle i rule: ci_find_loop.induct)
  case (1 hay needle i)
  show ?case
  proof (cases "i + length needle \<le> length hay \<and> \<not> ci_starts (drop i hay) needle")
    case True
    then have "ci_find_loop hay needle i = ci_find_loop hay needle (i + 1)"
      by (subst ci_find_loop.simps) simp
    then show ?thesis
      using 1 True by (metis Suc_eq_plus1 Suc_leD le_antisym not_less_eq_eq)
  next
    case False
    then show ?thesis
      by (subst ci_find_loop.simps) auto
  qed
qed

lemma ex_prefix_drop: "(\<exists>j. prefix n (drop j h)) \<longleftrightarrow> sublist n h"
proof
  assume "\<exists>j. prefix n (drop j h)"
  then obtain j u where "drop j h = n @ u"
    by (auto simp: prefix_def)
  then have "h = take j h @ n @ u"
    by (metis append_take_drop_id)
  then show "sublist n h"
    unfolding sublist_def by blast
next
  assume "sublist n h"
  then obtain a b where "h = a @ n @ b"
    by (auto simp: sublist_def)
  then have "prefix n (drop (length a) h)"
    by simp
  then show "\<exists>j. prefix n (drop j h)" ..
qed

lemma ci_contains_sublist:
  "ci_contains hay needle \<longleftrightarrow> sublist (map tolower needle) (map tolower hay)"
proof (cases "needle = []")
  case False
  have "ci_contains hay needle \<longleftrightarrow> (\<exists>j. ci_starts (drop j hay) needle \<and> j + length needle \<le> length hay)"
    using ci_find_loop_sublist [of hay needle 0] False by (auto simp: ci_contains_def)
  also have "\<dots> \<longleftrightarrow> (\<exists>j. prefix (map tolower needle) (drop j (map tolower hay)))"
  proof -
    have "j + length needle \<le> length hay"
      if "prefix (map tolower needle) (map tolower (drop j hay))" for j
      using False prefix_length_le [OF that] by (cases needle) auto
    then show ?thesis
      by (auto simp: ci_starts_prefix drop_map)
  qed
  also have "\<dots> \<longleftrightarrow> sublist (map tolower needle) (map tolower hay)"
    by (rule ex_prefix_drop)
  finally show ?thesis .
qed (simp add: ci_contains_def)

lemma retraction_cue_nonempty: "cue \<in> set retraction_cues \<Longrightarrow> cue \<noteq> []"
  by (auto simp: retraction_cues_def)

text \<open>
  A turn is a retraction, and a turn asks for sensitive facts, exactly when one of the
  cues occurs in it, upper and lower case being the same.
\<close>

lemma cues_ignore_case:
  "(memory_pattern_is_retraction (Some t) \<longleftrightarrow>
     (\<exists>cue\<in>set retraction_cues. sublist (map tolower cue) (map tolower t))) \<and>
   (memory_pii_turn_requests_sensitive None (Some t) \<longleftrightarrow>
     (\<exists>cue\<in>set sensitive_turn_cues. sublist (map tolower cue) (map tolower t)))"
proof
  have "ci_find t cue 0 \<noteq> None \<longleftrightarrow> sublist (map tolower cue) (map tolower t)"
    if "cue \<in> set retraction_cues" for cue
    using ci_find_0 [OF retraction_cue_nonempty [OF that]] ci_contains_sublist by simp
  then show "memory_pattern_is_retraction (Some t) \<longleftrightarrow>
     (\<exists>cue\<in>set retraction_cues. sublist (map tolower cue) (map tolower t))"
    by (cases "t = []") (auto simp: memory_pattern_is_retraction_def list_ex_iff dest: retraction_cue_nonempty)
  have "cue \<noteq> []" if "cue \<in> set sensitive_turn_cues" for cue
    using that by (auto simp: sensitive_turn_cues_def)
  then show "memory_pii_turn_requests_sensitive None (Some t) \<longleftrightarrow>
     (\<exists>cue\<in>set sensitive_turn_cues. sublist (map tolower cue) (map tolower t))"
    by (cases "t = []") (auto simp: memory_pii_turn_requests_sensitive_def list_ex_iff ci_contains_sublist)
qed

subsection \<open>The gates\<close>

text \<open>
  C7. The recall gate, for every relation and confidence: a fact is injected exactly when its
  confidence is at least 0.4 (a NaN never is) and its relation allows it.  A relation of the
  ontology allows it unless it is secret there, and a personal one only in a turn that asks.  A
  relation the ontology does not know, or that has no normalised name, is judged by the tokens
  in its name, upper and lower case being the same: never with a secret token in it, and with a
  personal one only in a turn that asks.  A missing relation is judged like a harmless one.
\<close>

theorem recall_gate_safe:
  "memory_pii_should_inject (memory_pii_rel_sensitivity rt rel) confidence requested \<longleftrightarrow>
     (confidence = PInf \<or> (\<exists>x. confidence = Fin x \<and> 4 / 10 \<le> x)) \<and>
     (nonempty rel \<longrightarrow>
       (let nm = rel_normalize rt (cptr_str rel) REL_TYPE_NAME_MAX;
            name = (if nm = [] then cptr_str rel else nm);
            has = (\<lambda>tok. sublist (map tolower tok) (map tolower name)) in
        case (if nm = [] then None else seed_lookup rt nm) of
          Some d \<Rightarrow> def_sensitivity rt d \<noteq> SENS_SECRET \<and>
            (def_sensitivity rt d = SENS_PII \<longrightarrow> requested)
        | None \<Rightarrow> (\<forall>tok\<in>set secret_tokens. \<not> has tok) \<and>
            ((\<exists>tok\<in>set pii_tokens. has tok) \<longrightarrow> requested)))"
proof -
  have floor: "double_ge confidence PII_GATE_CONFIDENCE_FLOOR \<longleftrightarrow>
      confidence = PInf \<or> (\<exists>x. confidence = Fin x \<and> 4 / 10 \<le> x)"
    by (cases confidence) (simp_all add: PII_GATE_CONFIDENCE_FLOOR_def)
  have sens: "memory_pii_should_inject sens confidence requested \<longleftrightarrow>
      double_ge confidence PII_GATE_CONFIDENCE_FLOOR \<and> sens \<noteq> SENS_SECRET \<and>
      (sens = SENS_PII \<longrightarrow> requested)" for sens
    by (cases sens) (simp_all add: memory_pii_should_inject_def)
  have unknown: "(pii_unknown_rel_sensitivity name \<noteq> SENS_SECRET \<longleftrightarrow>
        (\<forall>tok\<in>set secret_tokens. \<not> sublist (map tolower tok) (map tolower name))) \<and>
      ((\<forall>tok\<in>set secret_tokens. \<not> sublist (map tolower tok) (map tolower name)) \<longrightarrow>
        (pii_unknown_rel_sensitivity name = SENS_PII \<longleftrightarrow>
          (\<exists>tok\<in>set pii_tokens. sublist (map tolower tok) (map tolower name))))" for name
    by (auto simp: pii_unknown_rel_sensitivity_def list_ex_iff ci_contains_sublist)
  show ?thesis
  proof (cases "nonempty rel")
    case False
    then show ?thesis
      unfolding sens floor by (simp add: memory_pii_rel_sensitivity_def)
  next
    case True
    define nm where "nm = rel_normalize rt (cptr_str rel) REL_TYPE_NAME_MAX"
    define name where "name = (if nm = [] then cptr_str rel else nm)"
    show ?thesis
    proof (cases "if nm = [] then None else seed_lookup rt nm")
      case None
      then have "memory_pii_rel_sensitivity rt rel = pii_unknown_rel_sensitivity name"
        using True by (auto simp: memory_pii_rel_sensitivity_def name_def nm_def [symmetric])
      then show ?thesis
        unfolding sens floor nm_def [symmetric] Let_def name_def [symmetric] None
        using unknown [of name] True by auto
    next
      case (Some d)
      then have "memory_pii_rel_sensitivity rt rel = def_sensitivity rt d"
        using True by (auto simp: memory_pii_rel_sensitivity_def nm_def [symmetric] split: if_splits)
      then show ?thesis
        unfolding sens floor nm_def [symmetric] Let_def name_def [symmetric] Some
        using True by auto
    qed
  qed
qed

theorem recall_gate_safe_witness:
  "memory_pii_should_inject (memory_pii_rel_sensitivity go_rel_types (Some ''homePhoneNumber'')) (Fin 1) True \<and>
   \<not> sublist ''token'' (map tolower (normalizeRelType ''homePhoneNumber''))"
proof -
  have nm: "rel_normalize go_rel_types ''homePhoneNumber'' REL_TYPE_NAME_MAX = ''home_phone_number''"
    "normalizeRelType ''homePhoneNumber'' = ''home_phone_number''"
    by code_simp+
  have seed: "seed_lookup go_rel_types ''home_phone_number'' = None"
    by code_simp
  have inject: "memory_pii_should_inject
      (memory_pii_rel_sensitivity go_rel_types (Some ''homePhoneNumber'')) (Fin 1) True"
    by code_simp
  have token: "''token'' \<in> set secret_tokens" "map tolower ''token'' = ''token''"
    by code_simp+
  have tokens: "\<forall>tok\<in>set secret_tokens.
      \<not> sublist (map tolower tok) (map tolower ''home_phone_number'')"
    using iffD1 [OF recall_gate_safe inject] nm seed by (simp add: Let_def)
  show ?thesis
    using inject bspec [OF tokens token(1)] nm token(2) by simp
qed

end
