(* ===== verification/Score_Table.thy ===== *)
theory Score_Table
  imports Complex_Main C_Base
begin

text \<open>
  The contract that the module's bounded score tables share: a table is a list of at most
  \<open>limit\<close> entries; putting a value with a new key appends an entry, putting one with a known
  key keeps the better score.  The client lemmas say what a table holds after a series of
  puts: one entry a key, and, as long as it has room, the best score of each key.

  \<open>ok\<close> names the values the contract covers (those whose key fits the entry's buffer).
\<close>

locale score_table =
  fixes put :: "'e list \<Rightarrow> 'v \<Rightarrow> 'e list"
    and limit :: nat
    and key :: "'e \<Rightarrow> 'k"
    and score :: "'e \<Rightarrow> real"
    and vkey :: "'v \<Rightarrow> 'k"
    and vscore :: "'v \<Rightarrow> real"
    and ok :: "'v \<Rightarrow> bool"
  assumes put_length: "length t \<le> limit \<Longrightarrow> length (put t v) \<le> limit"
    and put_grows: "length t \<le> length (put t v)"
    and put_distinct: "ok v \<Longrightarrow> distinct (map key t) \<Longrightarrow> distinct (map key (put t v))"
    and put_source: "ok v \<Longrightarrow> e \<in> set (put t v) \<Longrightarrow>
        (\<exists>e0\<in>set t. key e = key e0 \<and> score e = score e0) \<or> key e = vkey v \<and> score e = vscore v"
    and put_keeps: "e \<in> set t \<Longrightarrow> \<exists>e'\<in>set (put t v). key e' = key e \<and> score e \<le> score e'"
    and put_covers: "ok v \<Longrightarrow> length (put t v) < limit \<Longrightarrow>
        \<exists>e\<in>set (put t v). key e = vkey v \<and> vscore v \<le> score e"
begin

lemma fold_grows: "length t \<le> length (foldl put t vs)"
  by (induction vs arbitrary: t) (auto intro: order_trans put_grows)

lemma fold_length: "length t \<le> limit \<Longrightarrow> length (foldl put t vs) \<le> limit"
  by (induction vs arbitrary: t) (simp_all add: put_length)

lemma fold_distinct:
  "list_all ok vs \<Longrightarrow> distinct (map key t) \<Longrightarrow> distinct (map key (foldl put t vs))"
  by (induction vs arbitrary: t) (simp_all add: put_distinct)

lemma fold_keeps:
  "e \<in> set t \<Longrightarrow> \<exists>e'\<in>set (foldl put t vs). key e' = key e \<and> score e \<le> score e'"
proof (induction vs arbitrary: t e)
  case (Cons v vs)
  obtain e1 where "e1 \<in> set (put t v)" "key e1 = key e" "score e \<le> score e1"
    using put_keeps [OF Cons.prems] by blast
  then show ?case
    using Cons.IH [of e1] by force
qed auto

lemma fold_source:
  "list_all ok vs \<Longrightarrow> e \<in> set (foldl put t vs) \<Longrightarrow>
     (\<exists>e0\<in>set t. key e = key e0 \<and> score e = score e0) \<or>
     (\<exists>v\<in>set vs. key e = vkey v \<and> score e = vscore v)"
proof (induction vs arbitrary: t)
  case (Cons v vs)
  then show ?case
    using put_source [of v _ t] by (simp, metis)
qed auto

lemma fold_covers:
  "list_all ok vs \<Longrightarrow> length (foldl put t vs) < limit \<Longrightarrow> v \<in> set vs \<Longrightarrow>
     \<exists>e\<in>set (foldl put t vs). key e = vkey v \<and> vscore v \<le> score e"
proof (induction vs arbitrary: t)
  case (Cons w vs)
  show ?case
  proof (cases "v = w")
    case True
    have "length (put t w) < limit"
      using fold_grows [of "put t w" vs] Cons.prems(2) by simp
    then obtain e where "e \<in> set (put t w)" "key e = vkey v" "vscore v \<le> score e"
      using put_covers Cons.prems(1) True by auto
    then show ?thesis
      using fold_keeps [of e "put t w" vs] by force
  next
    case False
    then show ?thesis
      using Cons by simp
  qed
qed simp

lemma fold_keys:
  assumes "list_all ok vs" "length (foldl put [] vs) < limit"
  shows "key ` set (foldl put [] vs) = vkey ` set vs"
proof (intro equalityI subsetI)
  fix k assume "k \<in> key ` set (foldl put [] vs)"
  then show "k \<in> vkey ` set vs"
    using fold_source [OF assms(1), of _ "[]"] by auto
next
  fix k assume "k \<in> vkey ` set vs"
  then obtain v where v: "v \<in> set vs" "k = vkey v"
    by blast
  then show "k \<in> key ` set (foldl put [] vs)"
    using fold_covers [OF assms v(1)] by force
qed

lemma fold_max:
  assumes ok: "list_all ok vs" and room: "length (foldl put [] vs) < limit"
    and e: "e \<in> set (foldl put [] vs)"
  shows "score e = Max (vscore ` {v \<in> set vs. vkey v = key e})"
proof (rule Max_eqI [symmetric])
  have "distinct (map key (foldl put [] vs))"
    using fold_distinct [OF ok, of "[]"] by simp
  then have same: "e' = e" if "e' \<in> set (foldl put [] vs)" "key e' = key e" for e'
    using that e by (auto simp: distinct_map dest: inj_onD)
  show "y \<le> score e" if y: "y \<in> vscore ` {v \<in> set vs. vkey v = key e}" for y
  proof -
    obtain v where v: "v \<in> set vs" "vkey v = key e" "y = vscore v"
      using y by blast
    obtain e' where e': "e' \<in> set (foldl put [] vs)" "key e' = vkey v" "vscore v \<le> score e'"
      using fold_covers [OF ok room v(1)] by blast
    have "e' = e"
      using same e'(1,2) v(2) by simp
    then show ?thesis
      using e'(3) v(3) by simp
  qed
  show "score e \<in> vscore ` {v \<in> set vs. vkey v = key e}"
    using fold_source [OF ok e] by auto
qed simp

end

end
