(* ===== verification/Fusion.thy ===== *)
theory Fusion
  imports Score_Table
begin

text \<open>
  \<open>src/modules/memory/memory_graph_fusion.c\<close>: relation gravity, the edge score, the code-shape
  detection, the expansion from seeds, the path credit and the fusion state of a request.

  \<open>double\<close> is the reals here: the properties are those of the exact formula, without
  rounding, infinities and NaN.  The two database reads are parameters: \<open>collect\<close> gives the
  ids \<open>db2_memory_collect_entity_matches\<close> returns for a node (at most 8 fit its buffer) and
  \<open>weighted\<close> the rows of \<open>db2_entity_edge_neighbors_weighted\<close>; an error return is the
  empty list, as it is for the loops.  \<open>via_cap\<close> is \<open>GRAPH_ENDPOINT_MAX\<close>.
\<close>

subsection \<open>Edge scores\<close>

definition memory_graph_relation_gravity :: "cptr \<Rightarrow> real" where
  "memory_graph_relation_gravity relation =
     (case relation of None \<Rightarrow> 45 / 100
      | Some r \<Rightarrow>
          (if r = [] then 45 / 100
           else if r = ''defines'' then 1
           else if r = ''contains'' then 85 / 100
           else if r = ''depends_on'' then 75 / 100
           else if r = ''routes'' then 70 / 100
           else if r = ''exports'' then 60 / 100
           else if r = ''co_edited'' then 60 / 100
           else if r = ''calls'' then 55 / 100
           else if r = ''co_discussed'' then 45 / 100
           else if r = ''imports'' then 30 / 100
           else 45 / 100))"

definition clampd :: "real \<Rightarrow> real \<Rightarrow> real \<Rightarrow> real" where
  "clampd v lo hi = (if v < lo then lo else if hi < v then hi else v)"

definition hop_decay :: "int \<Rightarrow> real" where
  "hop_decay hop = (1 / 2) ^ nat ((if 1 < hop then hop else 1) - 1)"

definition structural_factor :: "bool \<Rightarrow> int \<Rightarrow> real" where
  "structural_factor is_code_edge structural_weight =
     (if is_code_edge then 1 + clampd (of_int structural_weight) 0 3 / 3 else 1)"

definition observed_factor :: "int \<Rightarrow> real" where
  "observed_factor weight = 1 + clampd (ln (1 + of_int (if 0 < weight then weight else 0))) 0 3 / 3"

definition memory_graph_edge_score ::
    "cptr \<Rightarrow> bool \<Rightarrow> int \<Rightarrow> int \<Rightarrow> real \<Rightarrow> int \<Rightarrow> real" where
  "memory_graph_edge_score relation is_code_edge structural_weight weight effective_utility hop =
     memory_graph_relation_gravity relation * structural_factor is_code_edge structural_weight *
     observed_factor weight * (1 + clampd effective_utility (-1 / 2) 2) * hop_decay hop"

lemma gravity_bounds: "3 / 10 \<le> memory_graph_relation_gravity r \<and> memory_graph_relation_gravity r \<le> 1"
  by (simp add: memory_graph_relation_gravity_def split: option.split)

lemma clampd_bounds: "lo \<le> hi \<Longrightarrow> lo \<le> clampd v lo hi \<and> clampd v lo hi \<le> hi"
  by (simp add: clampd_def)

lemma clampd_mono: "lo \<le> hi \<Longrightarrow> v \<le> w \<Longrightarrow> clampd v lo hi \<le> clampd w lo hi"
  by (simp add: clampd_def)

lemma hop_decay_bounds: "0 < hop_decay h \<and> hop_decay h \<le> 1"
  by (simp add: hop_decay_def power_le_one)

lemma hop_decay_antimono: "h \<le> h' \<Longrightarrow> hop_decay h' \<le> hop_decay h"
  unfolding hop_decay_def by (rule power_decreasing) auto

lemma structural_bounds: "1 \<le> structural_factor c w \<and> structural_factor c w \<le> 2"
  using clampd_bounds [of 0 3 "of_int w"] by (simp add: structural_factor_def)

lemma structural_mono: "w \<le> w' \<Longrightarrow> structural_factor c w \<le> structural_factor c w'"
  by (simp add: structural_factor_def clampd_mono)

lemma observed_bounds: "1 \<le> observed_factor w \<and> observed_factor w \<le> 2"
  using clampd_bounds [of 0 3 "ln (1 + of_int (if 0 < w then w else 0))"]
  by (simp add: observed_factor_def)

lemma observed_mono:
  assumes "w \<le> w'"
  shows "observed_factor w \<le> observed_factor w'"
proof -
  have "ln (1 + of_int (if 0 < w then w else 0)) \<le> (ln (1 + of_int (if 0 < w' then w' else 0)) :: real)"
    using assms by (subst ln_le_cancel_iff) auto
  then show ?thesis
    by (simp add: observed_factor_def clampd_mono del: ln_le_cancel_iff)
qed

lemma utility_bounds: "1 / 2 \<le> 1 + clampd u (-1 / 2) 2 \<and> 1 + clampd u (-1 / 2) 2 \<le> 3"
  using clampd_bounds [of "-1 / 2" 2 u] by simp

lemma utility_mono: "u \<le> u' \<Longrightarrow> 1 + clampd u (-1 / 2) 2 \<le> 1 + clampd u' (-1 / 2) 2"
  using clampd_mono [of "-1 / 2" 2 u u'] by simp

lemmas factor_mono = structural_mono observed_mono utility_mono hop_decay_antimono

lemma product_bounds:
  fixes a b c d e :: real
  assumes "0 < a" "a \<le> 1" "1 \<le> b" "b \<le> 2" "1 \<le> c" "c \<le> 2" "0 < d" "d \<le> 3" "0 < e" "e \<le> 1"
  shows "0 < a * b * c * d * e \<and> a * b * c * d * e \<le> 12"
proof
  have "a * b \<le> 1 * 2" "a * b * c \<le> 1 * 2 * 2" "a * b * c * d \<le> 1 * 2 * 2 * 3"
    using assms by (intro mult_mono; simp)+
  then have "a * b * c * d * e \<le> 1 * 2 * 2 * 3 * 1"
    using assms by (intro mult_mono) auto
  then show "a * b * c * d * e \<le> 12"
    by simp
qed (use assms in simp)

lemma edge_score_range:
  "0 < memory_graph_edge_score r c sw w u h \<and> memory_graph_edge_score r c sw w u h \<le> 12"
  unfolding memory_graph_edge_score_def
  using gravity_bounds [of r] structural_bounds [of c sw] observed_bounds [of w]
    utility_bounds [of u] hop_decay_bounds [of h]
  by (intro product_bounds) (auto intro: less_le_trans [of 0])

lemma edge_score_monotone:
  assumes "sw \<le> sw'" "w \<le> w'" "u \<le> u'" "h' \<le> h"
  shows "memory_graph_edge_score r c sw w u h \<le> memory_graph_edge_score r c sw' w' u' h'"
proof -
  have pos: "0 \<le> memory_graph_relation_gravity r" "0 \<le> structural_factor c sw" "0 \<le> observed_factor w"
    "0 \<le> 1 + clampd u (-1 / 2) 2" "0 \<le> hop_decay h"
    using gravity_bounds [of r] structural_bounds [of c sw] observed_bounds [of w]
      utility_bounds [of u] hop_decay_bounds [of h] by linarith+
  show ?thesis
    unfolding memory_graph_edge_score_def
    using pos structural_bounds [of c sw'] observed_bounds [of w'] utility_bounds [of u']
    by (intro mult_mono factor_mono assms order_refl mult_nonneg_nonneg) auto
qed

subsection \<open>Code-shaped queries\<close>

definition code_extensions :: "string list" where
  "code_extensions =
     [''.c'', ''.h'', ''.cc'', ''.cpp'', ''.hpp'', ''.inc'', ''.py'', ''.js'', ''.ts'', ''.go'',
      ''.rs'', ''.java'', ''.rb'', ''.sh'', ''.sql'']"

definition token_is_code_shaped :: "string \<Rightarrow> bool" where
  "token_is_code_shaped q =
     (if q = [] then False
      else if CHR ''/'' \<in> set q \<and> CHR ''.'' \<in> set q then True
      else if contains q ''::'' \<or> contains q ''->'' then True
      else if list_ex (\<lambda>e. suffix e q) code_extensions then True
      else case dropWhile (\<lambda>c. c \<noteq> CHR '':'') q of
             colon # d # _ \<Rightarrow> isdigit d | _ \<Rightarrow> False)"

datatype code_seed_reason = CODE_SEED_NONE | CODE_SEED_CALLER | CODE_SEED_TOKEN

record code_plan =
  plan_reason :: code_seed_reason
  allow_code_graph :: bool

definition detect_reason :: "cptr \<Rightarrow> bool \<Rightarrow> code_seed_reason" where
  "detect_reason query caller_flag =
     (if caller_flag then CODE_SEED_CALLER
      else case query of None \<Rightarrow> CODE_SEED_NONE
           | Some q \<Rightarrow>
               (if list_ex token_is_code_shaped
                     (split_words (\<lambda>c. c \<in> {CHR '' '', CHR 0x09, CHR 0x0A}) (cbuf 1024 q))
                then CODE_SEED_TOKEN else CODE_SEED_NONE))"

definition memory_graph_detect_code_shape ::
    "cptr \<Rightarrow> bool \<Rightarrow> code_plan option \<Rightarrow> code_seed_reason \<times> code_plan option" where
  "memory_graph_detect_code_shape query caller_flag plan =
     (let reason = detect_reason query caller_flag
      in (reason, map_option (\<lambda>p. p\<lparr>plan_reason := reason,
                                     allow_code_graph := (reason \<noteq> CODE_SEED_NONE)\<rparr>) plan))"

subsection \<open>Expansion from seeds\<close>

definition node_key_is_code :: "string \<Rightarrow> bool" where
  "node_key_is_code key \<longleftrightarrow>
     prefix ''file:'' key \<or> prefix ''symbol:'' key \<or> prefix ''import:'' key \<or>
     prefix ''export:'' key \<or> prefix ''route:'' key \<or> prefix ''project:'' key"

record expansion =
  exp_id :: int
  exp_score :: real
  exp_hops :: int
  exp_via :: string

record neighbour =
  nb_node :: string
  nb_weight :: int
  nb_utility :: real

text \<open>
  The inner loops: a hit of an id already in \<open>out\<close> raises its score; a new one is appended
  while \<open>count < max\<close>.
\<close>

fun raise_score :: "int \<Rightarrow> real \<Rightarrow> expansion list \<Rightarrow> expansion list option" where
  "raise_score h score [] = None"
| "raise_score h score (d # ds) =
     (if exp_id d = h
      then Some ((if exp_score d < score then d\<lparr>exp_score := score\<rparr> else d) # ds)
      else map_option (Cons d) (raise_score h score ds))"

definition add_hit :: "nat \<Rightarrow> nat \<Rightarrow> string \<Rightarrow> real \<Rightarrow> expansion list \<Rightarrow> int \<Rightarrow> expansion list" where
  "add_hit via_cap mx via score out h =
     (if mx \<le> length out then out
      else case raise_score h score out of
             Some out' \<Rightarrow> out'
           | None \<Rightarrow> out @ [\<lparr>exp_id = h, exp_score = score, exp_hops = 1, exp_via = cbuf via_cap via\<rparr>])"

definition add_hits ::
    "nat \<Rightarrow> nat \<Rightarrow> (string \<Rightarrow> int list) \<Rightarrow> string \<Rightarrow> real \<Rightarrow> expansion list \<Rightarrow> expansion list" where
  "add_hits via_cap mx collect node score out =
     foldl (add_hit via_cap mx node score) out (take 8 (collect node))"

definition expand_neighbour ::
    "nat \<Rightarrow> nat \<Rightarrow> (string \<Rightarrow> int list) \<Rightarrow> bool \<Rightarrow> expansion list \<Rightarrow> neighbour \<Rightarrow> expansion list" where
  "expand_neighbour via_cap mx collect allow out nb =
     (if mx \<le> length out then out
      else if \<not> allow \<and> node_key_is_code (nb_node nb) then out
      else add_hits via_cap mx collect (nb_node nb)
             (memory_graph_edge_score None (node_key_is_code (nb_node nb)) 0 (nb_weight nb)
                (nb_utility nb) 1) out)"

definition seed_score :: "string \<Rightarrow> real" where
  "seed_score seed = memory_graph_edge_score None (node_key_is_code seed) 0 1 0 1"

definition expand_seed ::
    "nat \<Rightarrow> nat \<Rightarrow> (string \<Rightarrow> int list) \<Rightarrow> (string \<Rightarrow> int \<Rightarrow> bool \<Rightarrow> neighbour list) \<Rightarrow> int
     \<Rightarrow> bool \<Rightarrow> bool \<Rightarrow> expansion list \<Rightarrow> cptr \<Rightarrow> expansion list" where
  "expand_seed via_cap mx collect weighted max_neighbors allow utility out seed =
     (if mx \<le> length out then out
      else case seed of None \<Rightarrow> out
           | Some s \<Rightarrow>
               if s = [] then out
               else if \<not> allow \<and> node_key_is_code s then out
               else let out1 = add_hits via_cap mx collect s (seed_score s) out;
                        cap = if max_neighbors < 64 then max_neighbors else 64
                    in foldl (expand_neighbour via_cap mx collect allow) out1
                         (take (nat cap) (weighted s cap utility)))"

text \<open>\<open>max_hops\<close> is defaulted and then never read: the walk is one hop deep.\<close>

definition memory_graph_expand_from_seeds ::
    "nat \<Rightarrow> (string \<Rightarrow> int list) \<Rightarrow> (string \<Rightarrow> int \<Rightarrow> bool \<Rightarrow> neighbour list) \<Rightarrow> cptr list option
     \<Rightarrow> int \<Rightarrow> int \<Rightarrow> bool \<Rightarrow> bool \<Rightarrow> int \<Rightarrow> expansion list" where
  "memory_graph_expand_from_seeds via_cap collect weighted node_keys max_hops max_neighbors allow
       utility mx =
     (case node_keys of None \<Rightarrow> []
      | Some seeds \<Rightarrow>
          if seeds = [] \<or> mx \<le> 0 then []
          else let neighbors = if max_neighbors \<le> 0 then 16 else max_neighbors
               in foldl (expand_seed via_cap (nat mx) collect weighted neighbors allow utility) [] seeds)"

text \<open>
  What the walk sees, in order: an id, the score of the node that names it and the node.
  \<open>memory_graph_expand_from_seeds\<close> is the fold of \<open>add_hit\<close> over this list, since a full
  \<open>out\<close> stays as it is.
\<close>

type_synonym evidence = "int \<times> real \<times> string"

definition node_evidence :: "(string \<Rightarrow> int list) \<Rightarrow> string \<Rightarrow> real \<Rightarrow> evidence list" where
  "node_evidence collect node score = map (\<lambda>h. (h, score, node)) (take 8 (collect node))"

definition neighbour_evidence :: "(string \<Rightarrow> int list) \<Rightarrow> bool \<Rightarrow> neighbour \<Rightarrow> evidence list" where
  "neighbour_evidence collect allow nb =
     (if \<not> allow \<and> node_key_is_code (nb_node nb) then []
      else node_evidence collect (nb_node nb)
             (memory_graph_edge_score None (node_key_is_code (nb_node nb)) 0 (nb_weight nb)
                (nb_utility nb) 1))"

definition seed_evidence ::
    "(string \<Rightarrow> int list) \<Rightarrow> (string \<Rightarrow> int \<Rightarrow> bool \<Rightarrow> neighbour list) \<Rightarrow> int \<Rightarrow> bool \<Rightarrow> bool
     \<Rightarrow> cptr \<Rightarrow> evidence list" where
  "seed_evidence collect weighted max_neighbors allow utility seed =
     (case seed of None \<Rightarrow> []
      | Some s \<Rightarrow>
          if s = [] \<or> (\<not> allow \<and> node_key_is_code s) then []
          else let cap = if max_neighbors < 64 then max_neighbors else 64
               in node_evidence collect s (seed_score s) @
                  concat (map (neighbour_evidence collect allow) (take (nat cap) (weighted s cap utility))))"

definition add_evidence :: "nat \<Rightarrow> nat \<Rightarrow> expansion list \<Rightarrow> evidence \<Rightarrow> expansion list" where
  "add_evidence via_cap mx out ev = add_hit via_cap mx (snd (snd ev)) (fst (snd ev)) out (fst ev)"

definition expand_evidence ::
    "(string \<Rightarrow> int list) \<Rightarrow> (string \<Rightarrow> int \<Rightarrow> bool \<Rightarrow> neighbour list) \<Rightarrow> cptr list \<Rightarrow> int
     \<Rightarrow> bool \<Rightarrow> bool \<Rightarrow> evidence list" where
  "expand_evidence collect weighted seeds max_neighbors allow utility =
     concat (map (seed_evidence collect weighted
       (if max_neighbors \<le> 0 then 16 else max_neighbors) allow utility) seeds)"

lemma add_evidence_full: "mx \<le> length out \<Longrightarrow> foldl (add_evidence via_cap mx) out evs = out"
  by (induction evs) (simp_all add: add_evidence_def add_hit_def)

lemma add_hits_evidence:
  "add_hits via_cap mx collect node score out =
     foldl (add_evidence via_cap mx) out (node_evidence collect node score)"
  by (simp add: add_hits_def node_evidence_def foldl_map add_evidence_def)

lemma expand_neighbour_evidence:
  "expand_neighbour via_cap mx collect allow out nb =
     foldl (add_evidence via_cap mx) out (neighbour_evidence collect allow nb)"
  by (simp add: expand_neighbour_def neighbour_evidence_def add_hits_evidence add_evidence_full)

lemma foldl_concat: "foldl (\<lambda>out x. foldl f out (g x)) out xs = foldl f out (concat (map g xs))"
  by (induction xs arbitrary: out) simp_all

lemma expand_seed_evidence:
  "expand_seed via_cap mx collect weighted n allow utility out seed =
     foldl (add_evidence via_cap mx) out (seed_evidence collect weighted n allow utility seed)"
proof (cases seed)
  case (Some s)
  then show ?thesis
    by (simp add: expand_seed_def seed_evidence_def add_hits_evidence add_evidence_full Let_def
        expand_neighbour_evidence [abs_def] foldl_concat)
qed (simp add: expand_seed_def seed_evidence_def)

lemma expand_is_fold:
  assumes "0 < mx"
  shows "memory_graph_expand_from_seeds via_cap collect weighted (Some seeds) max_hops n allow utility mx =
     foldl (add_evidence via_cap (nat mx)) [] (expand_evidence collect weighted seeds n allow utility)"
proof (cases "seeds = []")
  case False
  then show ?thesis
    using assms
    by (simp add: memory_graph_expand_from_seeds_def expand_seed_evidence [abs_def] foldl_concat
        expand_evidence_def)
qed (simp add: memory_graph_expand_from_seeds_def expand_evidence_def)

text \<open>The result of the fold.\<close>

lemma raise_score_None: "raise_score h sc out = None \<longleftrightarrow> h \<notin> exp_id ` set out"
  by (induction out) auto

lemma raise_score_ids:
  "raise_score h sc out = Some out' \<Longrightarrow> map exp_id out' = map exp_id out"
  by (induction out arbitrary: out') (auto split: if_splits)

definition from_evidence :: "nat \<Rightarrow> evidence set \<Rightarrow> expansion \<Rightarrow> bool" where
  "from_evidence via_cap evs e \<longleftrightarrow>
     exp_hops e = 1 \<and> (\<exists>sc v. (exp_id e, sc, v) \<in> evs \<and> exp_via e = cbuf via_cap v) \<and>
     (\<exists>v. (exp_id e, exp_score e, v) \<in> evs)"

definition covers :: "expansion list \<Rightarrow> evidence \<Rightarrow> bool" where
  "covers out ev \<longleftrightarrow> (\<exists>e\<in>set out. exp_id e = fst ev \<and> fst (snd ev) \<le> exp_score e)"

lemma covers_simps [simp]:
  "covers [] ev = False"
  "covers (e # out) ev \<longleftrightarrow> exp_id e = fst ev \<and> fst (snd ev) \<le> exp_score e \<or> covers out ev"
  by (auto simp: covers_def)

definition well_expanded :: "nat \<Rightarrow> nat \<Rightarrow> evidence set \<Rightarrow> expansion list \<Rightarrow> bool" where
  "well_expanded via_cap mx evs out \<longleftrightarrow>
     length out \<le> mx \<and> distinct (map exp_id out) \<and>
     (\<forall>e\<in>set out. from_evidence via_cap evs e) \<and>
     (length out < mx \<longrightarrow> (\<forall>ev\<in>evs. covers out ev))"

lemma from_evidence_mono: "from_evidence via_cap evs e \<Longrightarrow> evs \<subseteq> evs' \<Longrightarrow> from_evidence via_cap evs' e"
  by (auto simp: from_evidence_def)

lemma raise_score_set:
  "raise_score h sc out = Some out' \<Longrightarrow> e' \<in> set out' \<Longrightarrow>
     e' \<in> set out \<or> (\<exists>e\<in>set out. exp_id e = h \<and> e' = e\<lparr>exp_score := sc\<rparr>)"
  by (induction out arbitrary: out') (auto split: if_splits)

lemma raise_score_keeps:
  "raise_score h sc out = Some out' \<Longrightarrow> covers out ev \<Longrightarrow> covers out' ev"
  by (induction out arbitrary: out') (auto split: if_splits intro: order_trans)

lemma raise_score_raises:
  "raise_score h sc out = Some out' \<Longrightarrow> covers out' (h, sc, v)"
  by (induction out arbitrary: out') (auto split: if_splits)

lemma well_expanded_full:
  assumes "well_expanded via_cap mx evs out" "mx \<le> length out"
  shows "well_expanded via_cap mx (insert ev evs) out"
  using assms from_evidence_mono [OF _ subset_insertI] by (auto simp: well_expanded_def)

lemma well_expanded_append:
  assumes "well_expanded via_cap mx evs out" "length out < mx" "h \<notin> exp_id ` set out"
  shows "well_expanded via_cap mx (insert (h, sc, v) evs)
           (out @ [\<lparr>exp_id = h, exp_score = sc, exp_hops = 1, exp_via = cbuf via_cap v\<rparr>])"
proof -
  let ?e = "\<lparr>exp_id = h, exp_score = sc, exp_hops = 1, exp_via = cbuf via_cap v\<rparr>"
  have "from_evidence via_cap (insert (h, sc, v) evs) ?e"
    by (auto simp: from_evidence_def)
  moreover have "covers (out @ [?e]) ev" if "ev = (h, sc, v) \<or> covers out ev" for ev
    using that by (auto simp: covers_def)
  ultimately show ?thesis
    using assms from_evidence_mono [OF _ subset_insertI] unfolding well_expanded_def by auto
qed

lemma well_expanded_raise:
  assumes inv: "well_expanded via_cap mx evs out" and room: "length out < mx"
    and raise: "raise_score h sc out = Some out'"
  shows "well_expanded via_cap mx (insert (h, sc, v) evs) out'"
proof -
  note ids = raise_score_ids [OF raise]
  have "from_evidence via_cap (insert (h, sc, v) evs) e'" if e': "e' \<in> set out'" for e'
    using raise_score_set [OF raise e']
  proof
    assume "e' \<in> set out"
    then show ?thesis
      using inv from_evidence_mono [OF _ subset_insertI] by (auto simp: well_expanded_def)
  next
    assume "\<exists>e\<in>set out. exp_id e = h \<and> e' = e\<lparr>exp_score := sc\<rparr>"
    then obtain e where "from_evidence via_cap evs e" "exp_id e = h" "e' = e\<lparr>exp_score := sc\<rparr>"
      using inv by (auto simp: well_expanded_def)
    then show ?thesis
      by (auto simp: from_evidence_def)
  qed
  moreover have "length out' = length out"
    using arg_cong [OF ids, of length] by simp
  ultimately show ?thesis
    using inv room ids raise_score_keeps [OF raise] raise_score_raises [OF raise]
    unfolding well_expanded_def by auto
qed

lemma well_expanded_step:
  assumes "well_expanded via_cap mx evs out"
  shows "well_expanded via_cap mx (insert (h, sc, v) evs) (add_evidence via_cap mx out (h, sc, v))"
  using well_expanded_full [OF assms] well_expanded_append [OF assms] well_expanded_raise [OF assms]
  by (auto simp: add_evidence_def add_hit_def raise_score_None split: option.split)

lemma well_expanded_fold:
  "well_expanded via_cap mx done out \<Longrightarrow>
     well_expanded via_cap mx (done \<union> set evs) (foldl (add_evidence via_cap mx) out evs)"
proof (induction evs arbitrary: "done" out)
  case (Cons ev evs)
  obtain h sc v where "ev = (h, sc, v)"
    by (cases ev)
  then show ?case
    using Cons.IH [OF well_expanded_step [OF Cons.prems]] by simp
qed simp

lemma expand_well_expanded:
  assumes "0 < mx"
  shows "well_expanded via_cap (nat mx) (set (expand_evidence collect weighted seeds n allow utility))
           (memory_graph_expand_from_seeds via_cap collect weighted (Some seeds) max_hops n allow utility mx)"
  unfolding expand_is_fold [OF assms]
  using well_expanded_fold [of via_cap "nat mx" "{}" "[]"] by (simp add: well_expanded_def)

lemma raise_score_source:
  "raise_score h sc out = Some out' \<Longrightarrow> e' \<in> set out' \<Longrightarrow>
     (\<exists>e\<in>set out. exp_id e' = exp_id e \<and> exp_score e' = exp_score e) \<or> exp_id e' = h \<and> exp_score e' = sc"
  using raise_score_set by fastforce

interpretation expansions: score_table "add_evidence via_cap mx" mx exp_id exp_score fst
  "\<lambda>ev. fst (snd ev)" "\<lambda>_. True" for via_cap mx
proof unfold_locales
  fix t :: "expansion list" and v :: evidence and e :: expansion
  have len: "length t' = length t" if "raise_score h sc t = Some t'" for h sc t'
    using arg_cong [OF raise_score_ids [OF that], of length] by simp
  show "length t \<le> length (add_evidence via_cap mx t v)"
    and "length t \<le> mx \<Longrightarrow> length (add_evidence via_cap mx t v) \<le> mx"
    by (auto simp: add_evidence_def add_hit_def len split: option.split)
  show "distinct (map exp_id (add_evidence via_cap mx t v))" if "distinct (map exp_id t)"
    using that raise_score_ids [of "fst v" "fst (snd v)" t] raise_score_None [of "fst v" "fst (snd v)" t]
    by (auto simp: add_evidence_def add_hit_def split: option.split)
  show "(\<exists>e0\<in>set t. exp_id e = exp_id e0 \<and> exp_score e = exp_score e0) \<or>
      exp_id e = fst v \<and> exp_score e = fst (snd v)" if "e \<in> set (add_evidence via_cap mx t v)"
    using that raise_score_source [of "fst v" "fst (snd v)" t _ e]
    by (auto simp: add_evidence_def add_hit_def split: if_splits option.splits)
  have covers: "covers t (exp_id e, exp_score e, [])" if "e \<in> set t"
    using that by (auto simp: covers_def)
  show "\<exists>e'\<in>set (add_evidence via_cap mx t v). exp_id e' = exp_id e \<and> exp_score e \<le> exp_score e'"
    if "e \<in> set t"
    using that raise_score_keeps [OF _ covers [OF that], of "fst v" "fst (snd v)"]
    by (auto simp: add_evidence_def add_hit_def covers_def split: option.split)
  show "\<exists>e\<in>set (add_evidence via_cap mx t v). exp_id e = fst v \<and> fst (snd v) \<le> exp_score e"
    if "length (add_evidence via_cap mx t v) < mx"
    using that raise_score_raises [of "fst v" "fst (snd v)" t]
    by (auto simp: add_evidence_def add_hit_def covers_def split: if_splits option.splits)
qed

lemma evidence_code_gate:
  assumes "(h, sc, v) \<in> set (expand_evidence collect weighted seeds n False utility)"
  shows "\<not> node_key_is_code v"
  using assms
  by (auto simp: expand_evidence_def seed_evidence_def neighbour_evidence_def node_evidence_def Let_def
      split: option.splits if_splits)

text \<open>The prefix of a code node survives the copy into \<open>via\<close> when the buffer holds 9 bytes.\<close>

lemma prefix_take_iff: "length p \<le> n \<Longrightarrow> prefix p (take n s) \<longleftrightarrow> prefix p s"
  by (metis prefix_def append_take_drop_id append.assoc min_def take_append take_take prefix_order.trans take_is_prefix prefix_length_prefix length_take nat_le_linear take_all)

lemma node_key_is_code_cbuf: "9 \<le> cap \<Longrightarrow> node_key_is_code (cbuf cap k) = node_key_is_code k"
  by (simp add: node_key_is_code_def cbuf_def prefix_take_iff)

subsection \<open>Path credit\<close>

record path_edge =
  pe_relation :: string
  pe_hop :: int

definition path_weight :: "path_edge \<Rightarrow> real" where
  "path_weight e = memory_graph_relation_gravity (Some (pe_relation e)) * hop_decay (pe_hop e)"

text \<open>The credits, or \<open>None\<close> for the return of -1.\<close>

definition memory_graph_distribute_path_credit :: "real \<Rightarrow> path_edge list option \<Rightarrow> real list option" where
  "memory_graph_distribute_path_credit delta edges =
     (case edges of None \<Rightarrow> None
      | Some es \<Rightarrow>
          if es = [] then None
          else let denom = foldl (\<lambda>d e. d + path_weight e) 0 es
               in if denom \<le> 0 then None
                  else Some (map (\<lambda>e. delta * path_weight e / denom) es))"

lemma path_weight_pos: "0 < path_weight e"
  using gravity_bounds [of "Some (pe_relation e)"] hop_decay_bounds [of "pe_hop e"]
  by (auto simp: path_weight_def)

lemma foldl_weights: "foldl (\<lambda>d e. d + path_weight e) d es = d + (\<Sum>e\<leftarrow>es. path_weight e)"
  by (induction es arbitrary: d) simp_all

lemma sum_weights_pos: "es \<noteq> [] \<Longrightarrow> 0 < (\<Sum>e\<leftarrow>es. path_weight e)"
  by (induction es rule: list_nonempty_induct) (simp_all add: path_weight_pos add_pos_pos)

lemma path_credit_Some:
  "es \<noteq> [] \<Longrightarrow> memory_graph_distribute_path_credit delta (Some es) =
     Some (map (\<lambda>e. delta * path_weight e / (\<Sum>e\<leftarrow>es. path_weight e)) es)"
  using sum_weights_pos [of es]
  by (simp add: memory_graph_distribute_path_credit_def foldl_weights Let_def not_le)

lemma path_credit_sum:
  assumes "memory_graph_distribute_path_credit delta (Some es) = Some cs"
  shows "sum_list cs = delta"
proof -
  have es: "es \<noteq> []"
    using assms by (auto simp: memory_graph_distribute_path_credit_def)
  define d where "d = (\<Sum>e\<leftarrow>es. path_weight e)"
  have "cs = map (\<lambda>e. (delta / d) * path_weight e) es"
    using assms by (simp add: path_credit_Some [OF es] d_def)
  then have "sum_list cs = (delta / d) * d"
    by (simp only: sum_list_const_mult d_def)
  then show ?thesis
    using sum_weights_pos [OF es] by (simp add: d_def)
qed

subsection \<open>Score parts and the fusion state\<close>

record score_parts =
  graph_score :: real
  code_proximity :: real

definition memory_graph_populate_score_parts ::
    "'a score_parts_scheme \<Rightarrow> int \<Rightarrow> expansion list option \<Rightarrow> 'a score_parts_scheme" where
  "memory_graph_populate_score_parts parts memory_id expansions =
     (case expansions of None \<Rightarrow> parts
      | Some es \<Rightarrow>
          (case find (\<lambda>e. exp_id e = memory_id) es of None \<Rightarrow> parts
           | Some e \<Rightarrow>
               if node_key_is_code (exp_via e)
               then parts\<lparr>graph_score := exp_score e, code_proximity := exp_score e\<rparr>
               else parts\<lparr>graph_score := exp_score e\<rparr>))"

record fusion_state =
  g_fusion_on :: bool
  g_fusion_exp :: "expansion list option"
  g_fusion_utility_scoring :: bool
  g_fusion_code_projection :: bool

definition fusion_initial :: fusion_state where
  "fusion_initial = \<lparr>g_fusion_on = False, g_fusion_exp = None,
     g_fusion_utility_scoring = True, g_fusion_code_projection = True\<rparr>"

definition memory_fusion_state_set :: "cptr \<Rightarrow> fusion_state \<Rightarrow> fusion_state" where
  "memory_fusion_state_set st g = g\<lparr>g_fusion_on := (st = Some ''on'')\<rparr>"

definition memory_fusion_gates_set :: "bool \<Rightarrow> bool \<Rightarrow> fusion_state \<Rightarrow> fusion_state" where
  "memory_fusion_gates_set utility_scoring code_projection g =
     g\<lparr>g_fusion_utility_scoring := utility_scoring, g_fusion_code_projection := code_projection\<rparr>"

definition memory_fusion_state_clear :: "fusion_state \<Rightarrow> fusion_state" where
  "memory_fusion_state_clear g =
     g\<lparr>g_fusion_on := False, g_fusion_exp := None,
       g_fusion_utility_scoring := True, g_fusion_code_projection := True\<rparr>"

definition memory_fusion_expansions_set :: "expansion list option \<Rightarrow> fusion_state \<Rightarrow> fusion_state" where
  "memory_fusion_expansions_set expansions g = g\<lparr>g_fusion_exp := expansions\<rparr>"

definition memory_fusion_expansions_clear :: "fusion_state \<Rightarrow> fusion_state" where
  "memory_fusion_expansions_clear g = g\<lparr>g_fusion_exp := None\<rparr>"

definition memory_fusion_expansions_apply ::
    "fusion_state \<Rightarrow> 'a score_parts_scheme \<Rightarrow> int \<Rightarrow> 'a score_parts_scheme" where
  "memory_fusion_expansions_apply g parts memory_id =
     (case g_fusion_exp g of None \<Rightarrow> parts
      | Some es \<Rightarrow> if es \<noteq> [] then memory_graph_populate_score_parts parts memory_id (Some es) else parts)"

lemma fusion_clear_initial: "memory_fusion_state_clear g = fusion_initial"
  by (simp add: memory_fusion_state_clear_def fusion_initial_def)

end
