(* ===== verification/Ontology.thy ===== *)
theory Ontology
  imports Node_Kinds
begin

text \<open>
  The relation kinds of \<open>memory_ontology.h\<close>, the label tables and the triple schema of
  \<open>src/modules/memory/memory_episodes.c\<close>.
\<close>

datatype memory_relation_kind =
  REL_DEPENDS_ON | REL_IMPLEMENTS | REL_FIXES | REL_INTRODUCED_BY | REL_TESTS | REL_CALLS
| REL_MUTATES | REL_PARTICIPATED_IN | REL_OCCURRED_AT | REL_AUTHORED_BY | REL_SUPERSEDES
| REL_CO_EDITED | REL_CO_DISCUSSED | REL_SUMMARISES | REL_OTHER

fun relation_code :: "memory_relation_kind \<Rightarrow> int" where
  "relation_code REL_DEPENDS_ON = 0"
| "relation_code REL_IMPLEMENTS = 1"
| "relation_code REL_FIXES = 2"
| "relation_code REL_INTRODUCED_BY = 3"
| "relation_code REL_TESTS = 4"
| "relation_code REL_CALLS = 5"
| "relation_code REL_MUTATES = 6"
| "relation_code REL_PARTICIPATED_IN = 7"
| "relation_code REL_OCCURRED_AT = 8"
| "relation_code REL_AUTHORED_BY = 9"
| "relation_code REL_SUPERSEDES = 10"
| "relation_code REL_CO_EDITED = 11"
| "relation_code REL_CO_DISCUSSED = 12"
| "relation_code REL_SUMMARISES = 13"
| "relation_code REL_OTHER = 99"

definition RELATION_MASK :: "int \<Rightarrow> u32" where
  "RELATION_MASK r = push_bit (nat r) 1"

definition RELATION_MASK_ALL :: u32 where
  "RELATION_MASK_ALL = NOT 0"

text \<open>The tables, without their sentinel row.\<close>

definition rel_table :: "(string \<times> memory_relation_kind) list" where
  "rel_table =
     [(''depends_on'', REL_DEPENDS_ON), (''implements'', REL_IMPLEMENTS), (''fixes'', REL_FIXES),
      (''introduced_by'', REL_INTRODUCED_BY), (''tests'', REL_TESTS), (''calls'', REL_CALLS),
      (''mutates'', REL_MUTATES), (''participated_in'', REL_PARTICIPATED_IN),
      (''occurred_at'', REL_OCCURRED_AT), (''authored_by'', REL_AUTHORED_BY),
      (''supersedes'', REL_SUPERSEDES), (''co_edited'', REL_CO_EDITED),
      (''co_discussed'', REL_CO_DISCUSSED), (''summarises'', REL_SUMMARISES)]"

definition node_table :: "(string \<times> memory_node_kind) list" where
  "node_table =
     [(''file'', NODE_FILE), (''function'', NODE_FUNCTION), (''struct'', NODE_STRUCT),
      (''module'', NODE_MODULE), (''bug'', NODE_BUG), (''commit'', NODE_COMMIT), (''pr'', NODE_PR),
      (''developer'', NODE_DEVELOPER), (''concept'', NODE_CONCEPT), (''event'', NODE_EVENT),
      (''person'', NODE_PERSON), (''place'', NODE_PLACE), (''time_expr'', NODE_TIME_EXPR),
      (''device'', NODE_DEVICE), (''org'', NODE_ORG), (''ip'', NODE_IP), (''scalar'', NODE_SCALAR)]"

definition strcasecmp_eq :: "string \<Rightarrow> string \<Rightarrow> bool" where
  "strcasecmp_eq a b \<longleftrightarrow> map tolower a = map tolower b"

definition memory_ontology_relation_from_text :: "cptr \<Rightarrow> memory_relation_kind" where
  "memory_ontology_relation_from_text label =
     (case label of None \<Rightarrow> REL_OTHER
      | Some l \<Rightarrow>
          (case find (\<lambda>e. strcasecmp_eq l (fst e)) rel_table of
             None \<Rightarrow> REL_OTHER | Some e \<Rightarrow> snd e))"

definition memory_ontology_relation_to_text :: "memory_relation_kind \<Rightarrow> string" where
  "memory_ontology_relation_to_text rel =
     (case find (\<lambda>e. snd e = rel) rel_table of None \<Rightarrow> ''other'' | Some e \<Rightarrow> fst e)"

definition memory_ontology_node_kind_from_text :: "cptr \<Rightarrow> memory_node_kind" where
  "memory_ontology_node_kind_from_text label =
     (case label of None \<Rightarrow> NODE_OTHER
      | Some l \<Rightarrow>
          (case find (\<lambda>e. strcasecmp_eq l (fst e)) node_table of
             None \<Rightarrow> NODE_OTHER | Some e \<Rightarrow> snd e))"

definition memory_ontology_node_kind_to_text :: "memory_node_kind \<Rightarrow> string" where
  "memory_ontology_node_kind_to_text kind =
     (case find (\<lambda>e. snd e = kind) node_table of None \<Rightarrow> ''other'' | Some e \<Rightarrow> fst e)"

type_synonym schema_rule = "memory_node_kind \<times> memory_relation_kind \<times> memory_node_kind"

definition schema_rules :: "schema_rule list" where
  "schema_rules =
     [(NODE_FILE, REL_CO_EDITED, NODE_FILE),
      (NODE_OTHER, REL_CO_DISCUSSED, NODE_OTHER),
      (NODE_FUNCTION, REL_DEPENDS_ON, NODE_FUNCTION),
      (NODE_MODULE, REL_DEPENDS_ON, NODE_MODULE),
      (NODE_FUNCTION, REL_CALLS, NODE_FUNCTION),
      (NODE_FUNCTION, REL_MUTATES, NODE_STRUCT),
      (NODE_FUNCTION, REL_IMPLEMENTS, NODE_CONCEPT),
      (NODE_COMMIT, REL_FIXES, NODE_BUG),
      (NODE_COMMIT, REL_INTRODUCED_BY, NODE_DEVELOPER),
      (NODE_OTHER, REL_AUTHORED_BY, NODE_DEVELOPER),
      (NODE_OTHER, REL_AUTHORED_BY, NODE_PERSON),
      (NODE_OTHER, REL_TESTS, NODE_OTHER),
      (NODE_PERSON, REL_PARTICIPATED_IN, NODE_EVENT),
      (NODE_DEVELOPER, REL_PARTICIPATED_IN, NODE_EVENT),
      (NODE_OTHER, REL_OCCURRED_AT, NODE_TIME_EXPR),
      (NODE_OTHER, REL_OCCURRED_AT, NODE_PLACE),
      (NODE_OTHER, REL_SUPERSEDES, NODE_OTHER),
      (NODE_OTHER, REL_SUMMARISES, NODE_OTHER)]"

definition memory_ontology_validate ::
    "memory_node_kind \<Rightarrow> memory_relation_kind \<Rightarrow> memory_node_kind \<Rightarrow> bool" where
  "memory_ontology_validate sk rel ok =
     (if rel = REL_OTHER then True
      else list_ex (\<lambda>(rsk, rrel, rok).
             rrel = rel \<and> (rsk = NODE_OTHER \<or> rsk = sk) \<and> (rok = NODE_OTHER \<or> rok = ok))
             schema_rules)"

subsection \<open>The tables are consistent\<close>

text \<open>
  A label table is a two-way dictionary with a default: the contract both tables keep, and
  what a client gets from it.
\<close>

locale label_table =
  fixes to_text :: "'k \<Rightarrow> string"
    and from_text :: "cptr \<Rightarrow> 'k"
    and other :: 'k
  assumes from_to: "from_text (Some (to_text k)) = k"
    and from_null: "from_text None = other"
    and ignores_case: "map tolower a = map tolower b \<Longrightarrow> from_text (Some a) = from_text (Some b)"
    and known: "from_text (Some l) \<noteq> other \<Longrightarrow> map tolower l = to_text (from_text (Some l))"
begin

lemma to_text_inject: "to_text a = to_text b \<longleftrightarrow> a = b"
  by (metis from_to)

lemma from_text_upper_case: "map tolower l = to_text k \<Longrightarrow> from_text (Some l) = k"
proof -
  assume l: "map tolower l = to_text k"
  then have "map tolower (to_text k) = map tolower l"
    by (metis (no_types, lifting) list.map_comp list.map_cong tolower_idem comp_apply)
  then show "from_text (Some l) = k"
    using ignores_case [of l "to_text k"] from_to by simp
qed

lemma from_text_iff:
  "k \<noteq> other \<Longrightarrow> from_text (Some l) = k \<longleftrightarrow> map tolower l = to_text k"
  using known from_text_upper_case by metis

end

definition lower_table :: "(string \<times> 'k) list \<Rightarrow> bool" where
  "lower_table tab \<longleftrightarrow> list_all (\<lambda>e. map tolower (fst e) = fst e) tab
     \<and> distinct (map fst tab) \<and> distinct (map snd tab)"

lemma find_label:
  assumes "lower_table tab" and "find (\<lambda>e. strcasecmp_eq l (fst e)) tab = Some e"
  shows "map tolower l = fst e \<and> e \<in> set tab"
  using assms by (induction tab) (auto simp: lower_table_def strcasecmp_eq_def split: if_splits)

lemma find_distinct:
  "distinct (map f tab) \<Longrightarrow> e \<in> set tab \<Longrightarrow> find (\<lambda>e'. f e' = f e) tab = Some e"
  by (induction tab) (auto simp: image_iff)

lemma find_label_of:
  assumes tab: "lower_table tab" and e: "e \<in> set tab"
  shows "find (\<lambda>e'. strcasecmp_eq (fst e) (fst e')) tab = Some e"
proof -
  have "find (\<lambda>e'. strcasecmp_eq (fst e) (fst e')) tab = find (\<lambda>e'. fst e' = fst e) tab"
    using tab e by (intro find_cong refl) (auto simp: lower_table_def list_all_iff strcasecmp_eq_def)
  then show ?thesis
    using tab e by (simp add: lower_table_def find_distinct)
qed

lemma find_kind_of:
  "lower_table tab \<Longrightarrow> e \<in> set tab \<Longrightarrow> find (\<lambda>e'. snd e' = snd e) tab = Some e"
  by (simp add: lower_table_def find_distinct)

lemma rel_table_lower: "lower_table rel_table"
  by (simp add: lower_table_def rel_table_def tolower_def isupper_def)

lemma node_table_lower: "lower_table node_table"
  by (simp add: lower_table_def node_table_def tolower_def isupper_def)

lemma relation_in_table: "k = REL_OTHER \<or> (\<exists>l. (l, k) \<in> set rel_table)"
  by (cases k) (simp_all add: rel_table_def)

lemma node_in_table: "k = NODE_OTHER \<or> (\<exists>l. (l, k) \<in> set node_table)"
  by (cases k) (simp_all add: node_table_def)

lemma relation_to_text_of: "e \<in> set rel_table \<Longrightarrow> memory_ontology_relation_to_text (snd e) = fst e"
  by (simp add: memory_ontology_relation_to_text_def find_kind_of [OF rel_table_lower])

lemma node_to_text_of: "e \<in> set node_table \<Longrightarrow> memory_ontology_node_kind_to_text (snd e) = fst e"
  by (simp add: memory_ontology_node_kind_to_text_def find_kind_of [OF node_table_lower])

lemma relation_other:
  "memory_ontology_relation_from_text (Some (memory_ontology_relation_to_text REL_OTHER)) = REL_OTHER"
  by (simp add: memory_ontology_relation_to_text_def memory_ontology_relation_from_text_def
      rel_table_def strcasecmp_eq_def tolower_def isupper_def)

lemma node_other:
  "memory_ontology_node_kind_from_text (Some (memory_ontology_node_kind_to_text NODE_OTHER)) = NODE_OTHER"
  by (simp add: memory_ontology_node_kind_to_text_def memory_ontology_node_kind_from_text_def
      node_table_def strcasecmp_eq_def tolower_def isupper_def)

lemma relation_from_to: "memory_ontology_relation_from_text (Some (memory_ontology_relation_to_text k)) = k"
proof (cases "k = REL_OTHER")
  case False
  then obtain l where l: "(l, k) \<in> set rel_table"
    using relation_in_table by blast
  then show ?thesis
    using find_label_of [OF rel_table_lower l] relation_to_text_of [OF l]
    by (simp add: memory_ontology_relation_from_text_def)
qed (simp add: relation_other)

lemma node_kind_from_to: "memory_ontology_node_kind_from_text (Some (memory_ontology_node_kind_to_text k)) = k"
proof (cases "k = NODE_OTHER")
  case False
  then obtain l where l: "(l, k) \<in> set node_table"
    using node_in_table by blast
  then show ?thesis
    using find_label_of [OF node_table_lower l] node_to_text_of [OF l]
    by (simp add: memory_ontology_node_kind_from_text_def)
qed (simp add: node_other)

interpretation relation_labels: label_table
  memory_ontology_relation_to_text memory_ontology_relation_from_text REL_OTHER
proof unfold_locales
  fix l assume known: "memory_ontology_relation_from_text (Some l) \<noteq> REL_OTHER"
  then obtain e where e: "find (\<lambda>e. strcasecmp_eq l (fst e)) rel_table = Some e"
    by (auto simp: memory_ontology_relation_from_text_def split: option.splits)
  then have "memory_ontology_relation_to_text (snd e) = fst e" "map tolower l = fst e"
    using find_label [OF rel_table_lower e] relation_to_text_of by auto
  then show "map tolower l = memory_ontology_relation_to_text (memory_ontology_relation_from_text (Some l))"
    by (simp add: memory_ontology_relation_from_text_def e)
next
  show "memory_ontology_relation_from_text None = REL_OTHER"
    by (simp add: memory_ontology_relation_from_text_def)
next
  fix a b :: string assume "map tolower a = map tolower b"
  then show "memory_ontology_relation_from_text (Some a) =
      memory_ontology_relation_from_text (Some b)"
    by (simp add: memory_ontology_relation_from_text_def strcasecmp_eq_def)
qed (rule relation_from_to)

interpretation node_labels: label_table
  memory_ontology_node_kind_to_text memory_ontology_node_kind_from_text NODE_OTHER
proof unfold_locales
  fix l assume known: "memory_ontology_node_kind_from_text (Some l) \<noteq> NODE_OTHER"
  then obtain e where e: "find (\<lambda>e. strcasecmp_eq l (fst e)) node_table = Some e"
    by (auto simp: memory_ontology_node_kind_from_text_def split: option.splits)
  then have "memory_ontology_node_kind_to_text (snd e) = fst e" "map tolower l = fst e"
    using find_label [OF node_table_lower e] node_to_text_of by auto
  then show "map tolower l = memory_ontology_node_kind_to_text (memory_ontology_node_kind_from_text (Some l))"
    by (simp add: memory_ontology_node_kind_from_text_def e)
next
  show "memory_ontology_node_kind_from_text None = NODE_OTHER"
    by (simp add: memory_ontology_node_kind_from_text_def)
next
  fix a b :: string assume "map tolower a = map tolower b"
  then show "memory_ontology_node_kind_from_text (Some a) =
      memory_ontology_node_kind_from_text (Some b)"
    by (simp add: memory_ontology_node_kind_from_text_def strcasecmp_eq_def)
qed (rule node_kind_from_to)

end
