(* ===== verification/Graph_Walk.thy ===== *)
theory Graph_Walk
  imports Ontology
begin

text \<open>
  \<open>memory_graph_walk\<close> of \<open>src/modules/memory/memory_episodes.c\<close>: the breadth-first walk over
  typed entity edges.  \<open>step\<close> is \<open>db2_entity_edge_walk_step_typed\<close>, of which at most 50 rows
  fit the buffer (an error is the empty list); \<open>walk_caps\<close> are the sizes of the text fields
  of \<open>graph_walk_entry_t\<close>, which are declared outside \<open>src/\<close>.
\<close>

record typed_edge =
  te_source :: string
  te_relation :: string
  te_target :: string
  te_relation_id :: int
  te_subject_kind :: int
  te_object_kind :: int
  te_weight :: int

record walk_entry =
  gw_source :: string
  gw_relation :: string
  gw_target :: string
  gw_relation_id :: int
  gw_subject_kind :: int
  gw_object_kind :: int
  gw_weight :: int
  gw_hop :: nat

record walk_caps =
  cap_source :: nat
  cap_relation :: nat
  cap_target :: nat

record walk_state =
  ws_visited :: "string list"
  ws_next :: "string list"
  ws_out :: "walk_entry list"

definition edge_rid :: "typed_edge \<Rightarrow> int" where
  "edge_rid e =
     (if te_relation_id e < 0 \<or> 100 \<le> te_relation_id e then relation_code REL_CO_DISCUSSED
      else te_relation_id e)"

definition edge_admitted :: "u32 \<Rightarrow> typed_edge \<Rightarrow> bool" where
  "edge_admitted relation_mask e =
     (let rid = edge_rid e; b = (if rid < 32 then push_bit (nat rid) 1 else 0)
      in (relation_mask AND b \<noteq> 0 \<or> relation_mask = RELATION_MASK_ALL) \<and>
         te_source e \<noteq> [] \<and> te_relation e \<noteq> [] \<and> te_target e \<noteq> [])"

definition edge_neighbour :: "string \<Rightarrow> typed_edge \<Rightarrow> string" where
  "edge_neighbour node e = (if te_source e = node then te_target e else te_source e)"

definition edge_entry :: "walk_caps \<Rightarrow> nat \<Rightarrow> typed_edge \<Rightarrow> walk_entry" where
  "edge_entry caps hop e =
     \<lparr>gw_source = cbuf (cap_source caps) (te_source e),
      gw_relation = cbuf (cap_relation caps) (te_relation e),
      gw_target = cbuf (cap_target caps) (te_target e),
      gw_relation_id = edge_rid e, gw_subject_kind = te_subject_kind e,
      gw_object_kind = te_object_kind e, gw_weight = te_weight e, gw_hop = hop + 1\<rparr>"

abbreviation WALK_MAX_FRONTIER :: nat where
  "WALK_MAX_FRONTIER \<equiv> 256"

abbreviation (input) node_buf :: "string \<Rightarrow> string" where
  "node_buf \<equiv> cbuf 256"

definition add_bounded :: "string \<Rightarrow> string list \<Rightarrow> string list" where
  "add_bounded s xs = (if length xs < WALK_MAX_FRONTIER then xs @ [node_buf s] else xs)"

definition walk_edge ::
    "walk_caps \<Rightarrow> u32 \<Rightarrow> nat \<Rightarrow> nat \<Rightarrow> string \<Rightarrow> walk_state \<Rightarrow> typed_edge \<Rightarrow> walk_state" where
  "walk_edge caps relation_mask mx hop node st e =
     (if mx \<le> length (ws_out st) then st
      else if \<not> edge_admitted relation_mask e then st
      else let neighbour = edge_neighbour node e
           in if neighbour \<in> set (ws_visited st) then st
              else \<lparr>ws_visited = add_bounded neighbour (ws_visited st),
                    ws_next = add_bounded neighbour (ws_next st),
                    ws_out = ws_out st @ [edge_entry caps hop e]\<rparr>)"

definition walk_node ::
    "walk_caps \<Rightarrow> (string \<Rightarrow> typed_edge list) \<Rightarrow> u32 \<Rightarrow> nat \<Rightarrow> nat \<Rightarrow> walk_state \<Rightarrow> string \<Rightarrow> walk_state" where
  "walk_node caps step relation_mask mx hop st node =
     (if mx \<le> length (ws_out st) then st
      else foldl (walk_edge caps relation_mask mx hop node) st (take 50 (step node)))"

text \<open>\<open>left\<close> counts the hops that remain, \<open>max_hops - hop\<close>.\<close>

fun walk_hops ::
    "walk_caps \<Rightarrow> (string \<Rightarrow> typed_edge list) \<Rightarrow> u32 \<Rightarrow> nat \<Rightarrow> nat \<Rightarrow> nat \<Rightarrow> string list \<Rightarrow> string list
     \<Rightarrow> walk_entry list \<Rightarrow> walk_entry list" where
  "walk_hops caps step relation_mask mx 0 hop frontier visited out = out"
| "walk_hops caps step relation_mask mx (Suc left) hop frontier visited out =
     (if frontier = [] \<or> mx \<le> length out then out
      else let st = foldl (walk_node caps step relation_mask mx hop)
                      \<lparr>ws_visited = visited, ws_next = [], ws_out = out\<rparr> frontier
           in walk_hops caps step relation_mask mx left (hop + 1) (ws_next st) (ws_visited st) (ws_out st))"

definition memory_graph_walk ::
    "walk_caps \<Rightarrow> (string \<Rightarrow> typed_edge list) \<Rightarrow> cptr \<Rightarrow> u32 \<Rightarrow> int \<Rightarrow> int \<Rightarrow> walk_entry list" where
  "memory_graph_walk caps step seed_entity relation_mask max_hops mx =
     (case seed_entity of None \<Rightarrow> []
      | Some seed \<Rightarrow>
          if mx \<le> 0 then []
          else walk_hops caps step relation_mask (nat mx) (nat max_hops) 0
                 [node_buf seed] [node_buf seed] [])"

subsection \<open>The nodes within reach\<close>

text \<open>
  \<open>reach k\<close>: the nodes at the end of an admitted path of \<open>k\<close> edges, as the walk reads them
  (50 rows a node, names cut at 255 bytes).
\<close>

inductive reach :: "(string \<Rightarrow> typed_edge list) \<Rightarrow> u32 \<Rightarrow> string \<Rightarrow> nat \<Rightarrow> string \<Rightarrow> bool"
  for step relation_mask seed where
  reach_seed: "reach step relation_mask seed 0 (node_buf seed)"
| reach_step: "reach step relation_mask seed k node \<Longrightarrow> e \<in> set (take 50 (step node)) \<Longrightarrow>
    edge_admitted relation_mask e \<Longrightarrow>
    reach step relation_mask seed (Suc k) (node_buf (edge_neighbour node e))"

inductive_cases reach_SucE: "reach step relation_mask seed (Suc k) node"
inductive_cases reach_0E: "reach step relation_mask seed 0 node"

definition reached_edge ::
    "(string \<Rightarrow> typed_edge list) \<Rightarrow> u32 \<Rightarrow> string \<Rightarrow> nat \<Rightarrow> string \<Rightarrow> typed_edge \<Rightarrow> bool" where
  "reached_edge step relation_mask seed hop node e \<longleftrightarrow>
     reach step relation_mask seed hop node \<and> e \<in> set (take 50 (step node)) \<and> edge_admitted relation_mask e"

definition explains ::
    "walk_caps \<Rightarrow> (string \<Rightarrow> typed_edge list) \<Rightarrow> u32 \<Rightarrow> string \<Rightarrow> nat \<Rightarrow> walk_entry \<Rightarrow> bool" where
  "explains caps step relation_mask seed hops w \<longleftrightarrow>
     (\<exists>hop node e. hop < hops \<and> reached_edge step relation_mask seed hop node e \<and> w = edge_entry caps hop e)"

lemma explains_mono: "explains caps step m seed k w \<Longrightarrow> k \<le> k' \<Longrightarrow> explains caps step m seed k' w"
  unfolding explains_def using less_le_trans by blast

text \<open>What a hop keeps, for a walk that started at \<open>seed\<close> and is at depth \<open>hop\<close>.\<close>

definition hop_inv ::
    "walk_caps \<Rightarrow> (string \<Rightarrow> typed_edge list) \<Rightarrow> u32 \<Rightarrow> string \<Rightarrow> nat \<Rightarrow> nat \<Rightarrow> walk_state \<Rightarrow> bool" where
  "hop_inv caps step m seed mx hop st \<longleftrightarrow>
     length (ws_out st) \<le> mx \<and>
     (\<forall>w\<in>set (ws_out st). explains caps step m seed (Suc hop) w) \<and>
     (\<forall>n\<in>set (ws_next st). reach step m seed (Suc hop) n)"

lemma walk_edge_inv:
  assumes "hop_inv caps step m seed mx hop st" "reach step m seed hop node" "e \<in> set (take 50 (step node))"
  shows "hop_inv caps step m seed mx hop (walk_edge caps m mx hop node st e)"
proof -
  have "explains caps step m seed (Suc hop) (edge_entry caps hop e)" if "edge_admitted m e"
    using assms that by (auto simp: explains_def reached_edge_def)
  then show ?thesis
    using assms reach_step [OF assms(2,3)]
    by (auto simp: hop_inv_def walk_edge_def Let_def add_bounded_def)
qed

lemma walk_edges_inv:
  assumes "hop_inv caps step m seed mx hop st" "reach step m seed hop node" "set es \<subseteq> set (take 50 (step node))"
  shows "hop_inv caps step m seed mx hop (foldl (walk_edge caps m mx hop node) st es)"
  using assms by (induction es arbitrary: st) (simp_all add: walk_edge_inv)

lemma walk_nodes_inv:
  assumes "hop_inv caps step m seed mx hop st" "\<forall>n\<in>set frontier. reach step m seed hop n"
  shows "hop_inv caps step m seed mx hop (foldl (walk_node caps step m mx hop) st frontier)"
  using assms by (induction frontier arbitrary: st) (simp_all add: walk_node_def walk_edges_inv)

lemma walk_hops_sound:
  assumes "length out \<le> mx" "\<forall>w\<in>set out. explains caps step m seed hop w"
    and "\<forall>n\<in>set frontier. reach step m seed hop n"
  shows "length (walk_hops caps step m mx left hop frontier visited out) \<le> mx \<and>
    (\<forall>w\<in>set (walk_hops caps step m mx left hop frontier visited out). explains caps step m seed (hop + left) w)"
  using assms
proof (induction "left" arbitrary: hop frontier visited out)
  case (Suc "left")
  define st where "st = foldl (walk_node caps step m mx hop)
                      \<lparr>ws_visited = visited, ws_next = [], ws_out = out\<rparr> frontier"
  have "hop_inv caps step m seed mx hop \<lparr>ws_visited = visited, ws_next = [], ws_out = out\<rparr>"
    using Suc.prems explains_mono [of caps step m seed hop _ "Suc hop"] by (auto simp: hop_inv_def)
  then have st: "hop_inv caps step m seed mx hop st"
    unfolding st_def using Suc.prems(3) by (rule walk_nodes_inv)
  then have "length (walk_hops caps step m mx left (Suc hop) (ws_next st) (ws_visited st) (ws_out st)) \<le> mx \<and>
    (\<forall>w\<in>set (walk_hops caps step m mx left (Suc hop) (ws_next st) (ws_visited st) (ws_out st)).
       explains caps step m seed (Suc hop + left) w)"
    by (intro Suc.IH) (auto simp: hop_inv_def)
  then show ?case
    using Suc.prems explains_mono [of caps step m seed hop _ "hop + Suc left"]
    by (auto simp: st_def Let_def)
qed simp

lemma walk_sound:
  shows "length (memory_graph_walk caps step (Some seed) m max_hops mx) \<le> nat mx"
    and "w \<in> set (memory_graph_walk caps step (Some seed) m max_hops mx) \<Longrightarrow>
           explains caps step m seed (nat max_hops) w"
  using walk_hops_sound [of "[]" "nat mx" caps step m seed 0 "[node_buf seed]" "nat max_hops" "[node_buf seed]"]
  by (auto simp: memory_graph_walk_def reach_seed split: if_splits)

subsection \<open>The walk finds each node once, and all of them\<close>

text \<open>One hop is a single fold over the edges of the frontier, in order.\<close>

definition frontier_edges :: "(string \<Rightarrow> typed_edge list) \<Rightarrow> string list \<Rightarrow> (string \<times> typed_edge) list" where
  "frontier_edges step frontier = concat (map (\<lambda>n. map (Pair n) (take 50 (step n))) frontier)"

lemma set_frontier_edges:
  "set (frontier_edges step frontier) = {(n, e). n \<in> set frontier \<and> e \<in> set (take 50 (step n))}"
  by (auto simp: frontier_edges_def)

definition walk_pair ::
    "walk_caps \<Rightarrow> u32 \<Rightarrow> nat \<Rightarrow> nat \<Rightarrow> walk_state \<Rightarrow> string \<times> typed_edge \<Rightarrow> walk_state" where
  "walk_pair caps m mx hop st p = walk_edge caps m mx hop (fst p) st (snd p)"

lemma walk_full: "mx \<le> length (ws_out st) \<Longrightarrow> foldl (walk_edge caps m mx hop node) st es = st"
  by (induction es) (simp_all add: walk_edge_def)

lemma walk_nodes_flat:
  "foldl (walk_node caps step m mx hop) st frontier =
     foldl (walk_pair caps m mx hop) st (frontier_edges step frontier)"
proof (induction frontier arbitrary: st)
  case (Cons n frontier)
  have "walk_node caps step m mx hop st n = foldl (walk_pair caps m mx hop) st (map (Pair n) (take 50 (step n)))"
    by (simp add: walk_node_def walk_full foldl_map walk_pair_def)
  then show ?case
    using Cons by (simp add: frontier_edges_def)
qed (simp add: frontier_edges_def)

definition linked ::
    "walk_caps \<Rightarrow> (string \<Rightarrow> typed_edge list) \<Rightarrow> u32 \<Rightarrow> string \<Rightarrow> walk_entry \<Rightarrow> string \<Rightarrow> bool" where
  "linked caps step m seed w n \<longleftrightarrow>
     (\<exists>hop node e. reached_edge step m seed hop node e \<and> w = edge_entry caps hop e \<and>
        n = node_buf (edge_neighbour node e))"

text \<open>The book-keeping of the visited list, as long as it has room.\<close>

definition visit_inv ::
    "walk_caps \<Rightarrow> (string \<Rightarrow> typed_edge list) \<Rightarrow> u32 \<Rightarrow> string \<Rightarrow> string list \<Rightarrow> walk_entry list \<Rightarrow> bool" where
  "visit_inv caps step m seed visited out \<longleftrightarrow>
     (\<forall>v\<in>set visited. length v < 256) \<and>
     (length out \<le> 255 \<longrightarrow>
        (\<exists>nodes. visited = node_buf seed # nodes \<and> list_all2 (linked caps step m seed) out nodes))"

definition level_inv :: "string set \<Rightarrow> walk_state \<Rightarrow> bool" where
  "level_inv before st \<longleftrightarrow>
     length (ws_next st) \<le> length (ws_out st) \<and>
     (length (ws_out st) \<le> 254 \<longrightarrow> set (ws_visited st) = before \<union> set (ws_next st))"

lemma node_buf_short: "length (node_buf s) < 256" and node_buf_id: "length s < 256 \<Longrightarrow> node_buf s = s"
  by (simp_all add: length_cbuf cbuf_fits)

lemma walk_pair_visit:
  assumes inv: "visit_inv caps step m seed (ws_visited st) (ws_out st)"
    and reach: "reach step m seed hop node" "e \<in> set (take 50 (step node))"
  shows "visit_inv caps step m seed (ws_visited (walk_pair caps m mx hop st (node, e)))
           (ws_out (walk_pair caps m mx hop st (node, e)))"
proof -
  have "linked caps step m seed (edge_entry caps hop e) (node_buf (edge_neighbour node e))"
    if "edge_admitted m e"
    using reach that by (auto simp: linked_def reached_edge_def)
  then show ?thesis
    using inv node_buf_short list_all2_lengthD
    by (fastforce simp: visit_inv_def walk_pair_def walk_edge_def Let_def add_bounded_def
        intro: list_all2_appendI)
qed

lemma walk_pair_level:
  assumes "level_inv before st" "visit_inv caps step m seed (ws_visited st) (ws_out st)"
  shows "level_inv before (walk_pair caps m mx hop st p)"
  using assms
  by (auto simp: level_inv_def visit_inv_def walk_pair_def walk_edge_def Let_def add_bounded_def
      dest!: list_all2_lengthD)

lemma walk_pair_grows:
  "prefix (ws_out st) (ws_out (walk_pair caps m mx hop st p))"
  "set (ws_visited st) \<subseteq> set (ws_visited (walk_pair caps m mx hop st p))"
  by (auto simp: walk_pair_def walk_edge_def Let_def add_bounded_def)

lemma walk_pairs_grow:
  "prefix (ws_out st) (ws_out (foldl (walk_pair caps m mx hop) st ps)) \<and>
   set (ws_visited st) \<subseteq> set (ws_visited (foldl (walk_pair caps m mx hop) st ps))"
proof (induction ps arbitrary: st)
  case (Cons p ps)
  show ?case
    using Cons [of "walk_pair caps m mx hop st p"] walk_pair_grows [of st caps m mx hop p]
    by (auto intro: prefix_order.trans)
qed simp

lemma walk_pair_covers:
  assumes "visit_inv caps step m seed (ws_visited st) (ws_out st)" "edge_admitted m e"
    and "length (ws_out (walk_pair caps m mx hop st (node, e))) < mx"
    and "length (ws_out (walk_pair caps m mx hop st (node, e))) \<le> 254"
  shows "node_buf (edge_neighbour node e) \<in> set (ws_visited (walk_pair caps m mx hop st (node, e)))"
  using assms
  by (auto simp: visit_inv_def walk_pair_def walk_edge_def Let_def add_bounded_def node_buf_id
      dest!: list_all2_lengthD split: if_splits)

text \<open>One hop: every neighbour of the frontier is visited, and the new frontier is what is new.\<close>

lemma hop_step:
  assumes "visit_inv caps step m seed (ws_visited st) (ws_out st)" "level_inv before st"
    and "\<forall>(n, e)\<in>set ps. reach step m seed hop n \<and> e \<in> set (take 50 (step n))"
    and "st' = foldl (walk_pair caps m mx hop) st ps"
  shows "visit_inv caps step m seed (ws_visited st') (ws_out st') \<and> level_inv before st' \<and>
    (length (ws_out st') < mx \<and> length (ws_out st') \<le> 254 \<longrightarrow>
       (\<forall>(n, e)\<in>set ps. edge_admitted m e \<longrightarrow> node_buf (edge_neighbour n e) \<in> set (ws_visited st')))"
  using assms
proof (induction ps arbitrary: st)
  case (Cons p ps)
  obtain n e where p: "p = (n, e)"
    by (cases p)
  define st1 where "st1 = walk_pair caps m mx hop st p"
  have inv1: "visit_inv caps step m seed (ws_visited st1) (ws_out st1)" "level_inv before st1"
    using Cons.prems walk_pair_visit walk_pair_level by (auto simp: st1_def p)
  have st': "st' = foldl (walk_pair caps m mx hop) st1 ps"
    using Cons.prems(4) by (simp add: st1_def)
  have grow: "length (ws_out st1) \<le> length (ws_out st')" "set (ws_visited st1) \<subseteq> set (ws_visited st')"
    using walk_pairs_grow [of st1 caps m mx hop ps] by (auto simp: st' prefix_length_le)
  have "node_buf (edge_neighbour n e) \<in> set (ws_visited st')"
    if "edge_admitted m e" "length (ws_out st') < mx" "length (ws_out st') \<le> 254"
    using walk_pair_covers [OF Cons.prems(1) that(1), of mx hop n] that grow
    by (auto simp: st1_def p)
  then show ?case
    using Cons.IH [OF inv1 _ st'] Cons.prems(3) by (auto simp: p)
qed simp

lemma walk_pairs_next:
  assumes "\<forall>(n, e)\<in>set ps. reach step m seed hop n \<and> e \<in> set (take 50 (step n))"
    and "\<forall>n\<in>set (ws_next st). reach step m seed (Suc hop) n"
  shows "\<forall>n\<in>set (ws_next (foldl (walk_pair caps m mx hop) st ps)). reach step m seed (Suc hop) n"
  using assms
proof (induction ps arbitrary: st)
  case (Cons p ps)
  have "\<forall>n\<in>set (ws_next (walk_pair caps m mx hop st p)). reach step m seed (Suc hop) n"
    using Cons.prems reach_step [of step m seed hop]
    by (auto simp: walk_pair_def walk_edge_def Let_def add_bounded_def)
  then show ?case
    using Cons by simp
qed simp

definition short_names :: "(string \<Rightarrow> typed_edge list) \<Rightarrow> bool" where
  "short_names step \<longleftrightarrow> (\<forall>n. \<forall>e\<in>set (step n). length (te_source e) < 256 \<and> length (te_target e) < 256)"

lemma short_neighbour:
  "short_names step \<Longrightarrow> e \<in> set (take 50 (step n)) \<Longrightarrow> node_buf (edge_neighbour m e) = edge_neighbour m e"
  by (auto simp: short_names_def edge_neighbour_def node_buf_id dest: in_set_takeD)

lemma walk_pairs_distinct:
  assumes "distinct (ws_visited st)" "short_names step" "\<forall>(n, e)\<in>set ps. e \<in> set (take 50 (step n))"
  shows "distinct (ws_visited (foldl (walk_pair caps m mx hop) st ps))"
  using assms
proof (induction ps arbitrary: st)
  case (Cons p ps)
  obtain n e where p: "p = (n, e)"
    by (cases p)
  have "distinct (ws_visited (walk_pair caps m mx hop st p))"
    using Cons.prems short_neighbour [of step e n n]
    by (auto simp: p walk_pair_def walk_edge_def Let_def add_bounded_def)
  then show ?case
    using Cons by simp
qed simp

definition closed_under ::
    "(string \<Rightarrow> typed_edge list) \<Rightarrow> u32 \<Rightarrow> string set \<Rightarrow> string set \<Rightarrow> bool" where
  "closed_under step m froms visited \<longleftrightarrow>
     (\<forall>n\<in>froms. \<forall>e\<in>set (take 50 (step n)). edge_admitted m e \<longrightarrow> node_buf (edge_neighbour n e) \<in> visited)"

lemma reach_closed:
  assumes "closed_under step m visited visited" "node_buf seed \<in> visited"
  shows "reach step m seed k n \<Longrightarrow> n \<in> visited"
  by (induction rule: reach.induct) (use assms in \<open>auto simp: closed_under_def\<close>)

definition complete_walk ::
    "walk_caps \<Rightarrow> (string \<Rightarrow> typed_edge list) \<Rightarrow> u32 \<Rightarrow> string \<Rightarrow> nat \<Rightarrow> walk_entry list \<Rightarrow> bool" where
  "complete_walk caps step m seed hops out \<longleftrightarrow>
     (\<exists>nodes. list_all2 (linked caps step m seed) out nodes \<and>
        (short_names step \<longrightarrow> distinct (node_buf seed # nodes)) \<and>
        (\<forall>k n. k \<le> hops \<and> reach step m seed k n \<longrightarrow> n = node_buf seed \<or> n \<in> set nodes))"

lemma visit_inv_complete:
  assumes "visit_inv caps step m seed visited out" "length out \<le> 254"
    and "short_names step \<longrightarrow> distinct visited"
    and "\<And>k n. k \<le> hops \<Longrightarrow> reach step m seed k n \<Longrightarrow> n \<in> set visited"
  shows "complete_walk caps step m seed hops out"
  using assms unfolding visit_inv_def complete_walk_def by fastforce

lemma walk_hops_grow: "length out \<le> length (walk_hops caps step m mx left hop frontier visited out)"
proof (induction "left" arbitrary: hop frontier visited out)
  case (Suc "left")
  define st where "st = foldl (walk_node caps step m mx hop)
                      \<lparr>ws_visited = visited, ws_next = [], ws_out = out\<rparr> frontier"
  have "length out \<le> length (ws_out st)"
    using walk_pairs_grow [of "\<lparr>ws_visited = visited, ws_next = [], ws_out = out\<rparr>" caps m mx hop]
    by (auto simp: st_def walk_nodes_flat dest: prefix_length_le)
  also have "\<dots> \<le> length (walk_hops caps step m mx left (hop + 1) (ws_next st) (ws_visited st) (ws_out st))"
    by (rule Suc)
  finally show ?case
    by (simp add: st_def Let_def)
qed simp

lemma walk_hops_complete:
  assumes "visit_inv caps step m seed visited out" "short_names step \<longrightarrow> distinct visited"
    and "set frontier \<subseteq> set visited" "\<forall>n\<in>set frontier. reach step m seed hop n"
    and "closed_under step m (set visited - set frontier) (set visited)"
    and "\<And>k n. k \<le> hop \<Longrightarrow> reach step m seed k n \<Longrightarrow> n \<in> set visited"
    and "length (walk_hops caps step m mx left hop frontier visited out) < mx"
    and "length (walk_hops caps step m mx left hop frontier visited out) \<le> 254"
  shows "complete_walk caps step m seed (hop + left) (walk_hops caps step m mx left hop frontier visited out)"
  using assms
proof (induction "left" arbitrary: hop frontier visited out)
  case 0
  then show ?case
    by (auto intro: visit_inv_complete)
next
  case (Suc "left")
  note prems = Suc.prems
  have out: "length out < mx" "length out \<le> 254"
    using prems(7,8) walk_hops_grow [of out caps step m mx "Suc left" hop frontier visited] by linarith+
  show ?case
  proof (cases "frontier = []")
    case True
    then have "n \<in> set visited" if "reach step m seed k n" for k n
      using reach_closed [of step m "set visited", OF _ _ that] prems(5) prems(6) [OF _ reach_seed]
      by simp
    then show ?thesis
      using True prems(1,2) out by (auto intro: visit_inv_complete)
  next
    case False
    define st0 where "st0 = \<lparr>ws_visited = visited, ws_next = [], ws_out = out\<rparr>"
    define st where "st = foldl (walk_pair caps m mx hop) st0 (frontier_edges step frontier)"
    let ?rest = "walk_hops caps step m mx left (hop + 1) (ws_next st) (ws_visited st) (ws_out st)"
    have rest: "walk_hops caps step m mx (Suc left) hop frontier visited out = ?rest"
      using False out by (simp add: st_def st0_def walk_nodes_flat Let_def)
    have bounds: "length ?rest < mx" "length ?rest \<le> 254"
      using prems(7,8) unfolding rest by blast+
    have small: "length (ws_out st) < mx" "length (ws_out st) \<le> 254"
      using walk_hops_grow [of "ws_out st" caps step m mx left "hop + 1" "ws_next st" "ws_visited st"]
        bounds by linarith+
    have inv0: "visit_inv caps step m seed (ws_visited st0) (ws_out st0)" "level_inv (set visited) st0"
      using prems(1) by (simp_all add: st0_def level_inv_def)
    have edges: "\<forall>(n, e)\<in>set (frontier_edges step frontier).
        reach step m seed hop n \<and> e \<in> set (take 50 (step n))"
      using prems(4) by (auto simp: set_frontier_edges)
    note hop = hop_step [OF inv0 edges st_def]
    have visited: "set (ws_visited st) = set visited \<union> set (ws_next st)"
      using hop small by (simp add: level_inv_def)
    have front: "closed_under step m (set frontier) (set (ws_visited st))"
      using hop small by (auto simp: closed_under_def set_frontier_edges)
    have closed: "closed_under step m (set visited) (set (ws_visited st))"
      using front prems(5) visited by (auto simp: closed_under_def)
    have levels: "n \<in> set (ws_visited st)" if "k \<le> hop + 1" "reach step m seed k n" for k n
    proof (cases "k \<le> hop")
      case True
      then show ?thesis
        using prems(6) that visited by blast
    next
      case False
      then have "reach step m seed (Suc hop) n"
        using that by (simp add: le_Suc_eq)
      then show ?thesis
        using closed prems(6) [of hop] by (auto simp: closed_under_def elim!: reach_SucE)
    qed
    have new: "\<forall>n\<in>set (ws_next st). reach step m seed (hop + 1) n"
      using walk_pairs_next [OF edges, of st0] by (simp add: st_def st0_def)
    have "complete_walk caps step m seed (hop + 1 + left) ?rest"
    proof (rule Suc.IH)
      show "short_names step \<longrightarrow> distinct (ws_visited st)"
        using walk_pairs_distinct [of st0 step] prems(2) edges by (fastforce simp: st_def st0_def)
      show "closed_under step m (set (ws_visited st) - set (ws_next st)) (set (ws_visited st))"
        using closed visited by (auto simp: closed_under_def)
    qed (use hop visited levels new bounds in \<open>auto\<close>)
    then show ?thesis
      unfolding rest by simp
  qed
qed

lemma walk_complete:
  assumes "length (memory_graph_walk caps step (Some seed) m max_hops mx) < nat mx"
    and "length (memory_graph_walk caps step (Some seed) m max_hops mx) \<le> 254"
  shows "complete_walk caps step m seed (nat max_hops) (memory_graph_walk caps step (Some seed) m max_hops mx)"
proof -
  have walk: "memory_graph_walk caps step (Some seed) m max_hops mx =
      walk_hops caps step m (nat mx) (nat max_hops) 0 [node_buf seed] [node_buf seed] []"
    using assms by (simp add: memory_graph_walk_def)
  have "complete_walk caps step m seed (0 + nat max_hops)
      (walk_hops caps step m (nat mx) (nat max_hops) 0 [node_buf seed] [node_buf seed] [])"
    by (rule walk_hops_complete)
      (use assms in \<open>auto simp: visit_inv_def node_buf_short reach_seed closed_under_def
         simp flip: walk elim: reach_0E\<close>)
  then show ?thesis
    by (simp add: walk)
qed

end
