(* ===== verification/Graph_Boost.thy ===== *)
theory Graph_Boost
  imports Score_Table Ontology
begin

text \<open>
  \<open>src/modules/memory/memory_graph.c\<close>: edge extraction, the boost map, the graph boost and the
  retrieval of related memories.

  The database calls are parameters: \<open>upsert\<close> answers whether
  \<open>db2_entity_edge_upsert\<close> succeeded with \<open>added\<close> set, \<open>neighbors\<close> and \<open>filtered\<close> are the
  neighbour queries (their result cut to the caller's buffer), \<open>search_pattern\<close> is
  \<open>db2_memory_search_by_pattern\<close>.  \<open>entity_cap\<close> and \<open>max_entries\<close> are the size of a boost
  entry's name and \<open>MAX_BOOST_ENTRIES\<close>, \<open>key_cap\<close> and \<open>content_cap\<close> the buffers of
  \<open>graph_related_t\<close>, all declared outside \<open>src/\<close>.  Weights are reals, as in \<open>Fusion\<close>.
\<close>

subsection \<open>Edge extraction\<close>

record edge_upsert =
  eu_source :: string
  eu_relation :: string
  eu_target :: string
  eu_window :: int
  eu_relation_id :: int
  eu_subject_kind :: int
  eu_object_kind :: int

text \<open>The nested loops \<open>i < j\<close>.\<close>

fun pairs :: "'a list \<Rightarrow> ('a \<times> 'a) list" where
  "pairs [] = []"
| "pairs (x # xs) = map (Pair x) xs @ pairs xs"

definition co_edited :: "int \<Rightarrow> cptr \<times> cptr \<Rightarrow> edge_upsert option" where
  "co_edited window_id p =
     (case p of (Some a, Some b) \<Rightarrow>
        Some \<lparr>eu_source = a, eu_relation = ''co_edited'', eu_target = b, eu_window = window_id,
          eu_relation_id = relation_code REL_CO_EDITED, eu_subject_kind = uint (node_code NODE_FILE),
          eu_object_kind = uint (node_code NODE_FILE)\<rparr>
      | _ \<Rightarrow> None)"

definition co_discussed :: "int \<Rightarrow> cptr \<times> cptr \<Rightarrow> edge_upsert option" where
  "co_discussed window_id p =
     (case p of (Some a, Some b) \<Rightarrow>
        if length a < 3 \<or> length b < 3 then None
        else Some \<lparr>eu_source = a, eu_relation = ''co_discussed'', eu_target = b,
          eu_window = window_id, eu_relation_id = relation_code REL_CO_DISCUSSED,
          eu_subject_kind = uint (node_code NODE_CONCEPT), eu_object_kind = uint (node_code NODE_CONCEPT)\<rparr>
      | _ \<Rightarrow> None)"

definition add_edge ::
    "(edge_upsert \<Rightarrow> 'db \<Rightarrow> bool \<times> 'db) \<Rightarrow> ('p \<Rightarrow> edge_upsert option) \<Rightarrow> nat \<times> 'db \<Rightarrow> 'p \<Rightarrow> nat \<times> 'db" where
  "add_edge upsert mk st p =
     (case mk p of None \<Rightarrow> st
      | Some e \<Rightarrow> let (added, db) = upsert e (snd st) in (fst st + (if added then 1 else 0), db))"

definition memory_extract_edges ::
    "(edge_upsert \<Rightarrow> 'db \<Rightarrow> bool \<times> 'db) \<Rightarrow> 'db \<Rightarrow> int \<Rightarrow> cptr list \<Rightarrow> cptr list \<Rightarrow> nat \<times> 'db" where
  "memory_extract_edges upsert db window_id file_refs terms =
     (if window_id \<le> 0 then (0, db)
      else foldl (add_edge upsert (co_discussed window_id))
             (foldl (add_edge upsert (co_edited window_id)) (0, db) (pairs file_refs))
             (pairs (take 10 terms)))"

lemma length_pairs: "2 * length (pairs xs) = length xs * (length xs - 1)"
proof (induction xs)
  case (Cons x xs)
  then show ?case
    by (cases xs) (auto simp: algebra_simps)
qed simp

lemma set_pairs: "set (pairs xs) = {(xs ! i, xs ! j) | i j. i < j \<and> j < length xs}"
proof (induction xs)
  case (Cons x xs)
  have "{((x # xs) ! i, (x # xs) ! j) | i j. i < j \<and> j < length (x # xs)} =
      {(x, xs ! j) | j. j < length xs} \<union> {(xs ! i, xs ! j) | i j. i < j \<and> j < length xs}"
    (is "?l = ?a \<union> ?b")
  proof (intro equalityI subsetI)
    fix p assume "p \<in> ?l"
    then obtain i j where "p = ((x # xs) ! i, (x # xs) ! j)" "i < j" "j < length (x # xs)"
      by blast
    then show "p \<in> ?a \<union> ?b"
      by (cases i; cases j) auto
  next
    fix p assume "p \<in> ?a \<union> ?b"
    then show "p \<in> ?l"
    proof
      assume "p \<in> ?a"
      then obtain j where "p = (x, xs ! j)" "j < length xs"
        by blast
      then show ?thesis
        by (intro CollectI exI [of _ 0] exI [of _ "Suc j"]) simp
    next
      assume "p \<in> ?b"
      then obtain i j where "p = (xs ! i, xs ! j)" "i < j" "j < length xs"
        by blast
      then show ?thesis
        by (intro CollectI exI [of _ "Suc i"] exI [of _ "Suc j"]) simp
    qed
  qed
  moreover have "set xs = {xs ! j | j. j < length xs}"
    by (auto simp: in_set_conv_nth)
  ultimately show ?case
    using Cons by (auto simp del: nth_Cons_Suc)
qed simp

text \<open>The upserts a window asks for, in order.\<close>

definition window_upserts :: "int \<Rightarrow> cptr list \<Rightarrow> cptr list \<Rightarrow> edge_upsert list" where
  "window_upserts window_id file_refs terms =
     (if window_id \<le> 0 then []
      else List.map_filter (co_edited window_id) (pairs file_refs) @
           List.map_filter (co_discussed window_id) (pairs (take 10 terms)))"

fun run_upserts :: "(edge_upsert \<Rightarrow> 'db \<Rightarrow> bool \<times> 'db) \<Rightarrow> edge_upsert list \<Rightarrow> 'db \<Rightarrow> nat \<times> 'db" where
  "run_upserts upsert [] db = (0, db)"
| "run_upserts upsert (e # es) db =
     (let (added, db1) = upsert e db; (n, db2) = run_upserts upsert es db1
      in ((if added then 1 else 0) + n, db2))"

lemma foldl_add_edge:
  "foldl (add_edge upsert mk) st ps =
     (let (n, db) = run_upserts upsert (List.map_filter mk ps) (snd st) in (fst st + n, db))"
  by (induction ps arbitrary: st)
    (auto simp: add_edge_def map_filter_simps Let_def split: option.split prod.split)

lemma run_upserts_append:
  "run_upserts upsert (es @ fs) db =
     (let (n, db1) = run_upserts upsert es db; (m, db2) = run_upserts upsert fs db1 in (n + m, db2))"
  by (induction es arbitrary: db) (auto simp: Let_def split: prod.split)

lemma extract_edges_runs:
  "memory_extract_edges upsert db window_id file_refs terms =
     run_upserts upsert (window_upserts window_id file_refs terms) db"
  by (simp add: memory_extract_edges_def window_upserts_def foldl_add_edge run_upserts_append Let_def
      split: prod.split)

lemma run_upserts_bound: "fst (run_upserts upsert es db) \<le> length es"
  by (induction es arbitrary: db) (auto simp: Let_def case_prod_beta intro: le_SucI)

lemma length_map_filter_le: "length (List.map_filter f xs) \<le> length xs"
  by (induction xs) (auto simp: map_filter_simps split: option.split)

lemma window_upserts_bound:
  "2 * length (window_upserts window_id file_refs terms) \<le> length file_refs * (length file_refs - 1) + 90"
proof -
  have "2 * length (pairs (take 10 terms)) \<le> 10 * 9"
    unfolding length_pairs by (intro mult_le_mono) auto
  moreover note length_map_filter_le [of "co_edited window_id" "pairs file_refs"]
    length_map_filter_le [of "co_discussed window_id" "pairs (take 10 terms)"] length_pairs [of file_refs]
  ultimately show ?thesis
    by (simp add: window_upserts_def)
qed

subsection \<open>The boost map\<close>

type_synonym boost_map = "(string \<times> real) list"

fun raise_entry :: "string \<Rightarrow> real \<Rightarrow> boost_map \<Rightarrow> boost_map option" where
  "raise_entry entity score [] = None"
| "raise_entry entity score (e # es) =
     (if fst e = entity then Some ((if snd e < score then (fst e, score) else e) # es)
      else map_option (Cons e) (raise_entry entity score es))"

definition boost_map_add :: "nat \<Rightarrow> nat \<Rightarrow> boost_map \<Rightarrow> string \<times> real \<Rightarrow> boost_map" where
  "boost_map_add entity_cap max_entries m v =
     (case raise_entry (fst v) (snd v) m of
        Some m' \<Rightarrow> m'
      | None \<Rightarrow> if max_entries \<le> length m then m else m @ [(cbuf entity_cap (fst v), snd v)])"

lemma raise_entry_None: "raise_entry k s m = None \<longleftrightarrow> k \<notin> fst ` set m"
  by (induction m) auto

lemma raise_entry_keys: "raise_entry k s m = Some m' \<Longrightarrow> map fst m' = map fst m"
  by (induction m arbitrary: m') (auto split: if_splits)

lemma raise_entry_source:
  "raise_entry k s m = Some m' \<Longrightarrow> e \<in> set m' \<Longrightarrow>
     (\<exists>e0\<in>set m. fst e = fst e0 \<and> snd e = snd e0) \<or> fst e = k \<and> snd e = s"
  by (induction m arbitrary: m') (auto split: if_splits)

lemma raise_entry_keeps:
  "raise_entry k s m = Some m' \<Longrightarrow> e \<in> set m \<Longrightarrow> \<exists>e'\<in>set m'. fst e' = fst e \<and> snd e \<le> snd e'"
  by (induction m arbitrary: m') (auto split: if_splits)

lemma raise_entry_raises: "raise_entry k s m = Some m' \<Longrightarrow> \<exists>e'\<in>set m'. fst e' = k \<and> s \<le> snd e'"
  by (induction m arbitrary: m') (auto split: if_splits)

interpretation boosts: score_table "boost_map_add entity_cap max_entries" max_entries fst snd fst snd
  "\<lambda>v. length (fst v) < entity_cap" for entity_cap max_entries
proof unfold_locales
  fix t :: boost_map and v e :: "string \<times> real"
  have len: "length m' = length t" if "raise_entry k s t = Some m'" for k s m'
    using arg_cong [OF raise_entry_keys [OF that], of length] by simp
  show "length t \<le> length (boost_map_add entity_cap max_entries t v)"
    and "length t \<le> max_entries \<Longrightarrow> length (boost_map_add entity_cap max_entries t v) \<le> max_entries"
    by (auto simp: boost_map_add_def len split: option.split)
  show "\<exists>e'\<in>set (boost_map_add entity_cap max_entries t v). fst e' = fst e \<and> snd e \<le> snd e'"
    if "e \<in> set t"
    using that raise_entry_keeps [of "fst v" "snd v" t _ e]
    by (auto simp: boost_map_add_def split: option.split)
  assume fits: "length (fst v) < entity_cap"
  show "distinct (map fst (boost_map_add entity_cap max_entries t v))" if "distinct (map fst t)"
    using that fits raise_entry_keys [of "fst v" "snd v" t] raise_entry_None [of "fst v" "snd v" t]
    by (auto simp: boost_map_add_def cbuf_fits split: option.split)
  show "(\<exists>e0\<in>set t. fst e = fst e0 \<and> snd e = snd e0) \<or> fst e = fst v \<and> snd e = snd v"
    if "e \<in> set (boost_map_add entity_cap max_entries t v)"
    using that fits raise_entry_source [of "fst v" "snd v" t _ e]
    by (auto simp: boost_map_add_def cbuf_fits split: if_splits option.splits)
  show "\<exists>e\<in>set (boost_map_add entity_cap max_entries t v). fst e = fst v \<and> snd v \<le> snd e"
    if "length (boost_map_add entity_cap max_entries t v) < max_entries"
    using that fits raise_entry_raises [of "fst v" "snd v" t]
    by (auto simp: boost_map_add_def cbuf_fits split: if_splits option.splits)
qed

subsection \<open>Graph boost\<close>

type_synonym weighted_node = "string \<times> int"

definition boost_neighbours ::
    "nat \<Rightarrow> nat \<Rightarrow> real \<Rightarrow> boost_map \<Rightarrow> weighted_node list \<Rightarrow> boost_map" where
  "boost_neighbours entity_cap max_entries factor m ns =
     foldl (\<lambda>m n. boost_map_add entity_cap max_entries m (fst n, of_int (snd n) * factor)) m ns"

definition graph_boost ::
    "nat \<Rightarrow> nat \<Rightarrow> (string \<Rightarrow> weighted_node list) \<Rightarrow> string list \<Rightarrow> int \<Rightarrow> boost_map" where
  "graph_boost entity_cap max_entries neighbors query_terms depth =
     (let hop0 = foldl (\<lambda>m t. boost_neighbours entity_cap max_entries 1 m (take 64 (neighbors t)))
                   [] query_terms
      in if 2 \<le> depth \<and> hop0 \<noteq> []
         then foldl (\<lambda>m t. boost_neighbours entity_cap max_entries (1 / 2) m (take 64 (neighbors t)))
                hop0 (take 50 (map fst hop0))
         else hop0)"

definition memory_graph_boost ::
    "nat \<Rightarrow> nat \<Rightarrow> (string \<Rightarrow> weighted_node list) \<Rightarrow> string list \<Rightarrow> boost_map" where
  "memory_graph_boost entity_cap max_entries neighbors query_terms =
     graph_boost entity_cap max_entries neighbors query_terms 4"

definition hop_votes :: "(string \<Rightarrow> weighted_node list) \<Rightarrow> real \<Rightarrow> string list \<Rightarrow> (string \<times> real) list" where
  "hop_votes neighbors factor ts =
     concat (map (\<lambda>t. map (\<lambda>n. (fst n, of_int (snd n) * factor)) (take 64 (neighbors t))) ts)"

lemma boost_hop_votes:
  "foldl (\<lambda>m t. boost_neighbours entity_cap max_entries factor m (take 64 (neighbors t))) m ts =
     foldl (boost_map_add entity_cap max_entries) m (hop_votes neighbors factor ts)"
  by (induction ts arbitrary: m) (simp_all add: boost_neighbours_def hop_votes_def foldl_map)

text \<open>All votes of a boost: the neighbours of the terms, and half the weight of theirs.\<close>

definition boost_votes ::
    "nat \<Rightarrow> nat \<Rightarrow> (string \<Rightarrow> weighted_node list) \<Rightarrow> string list \<Rightarrow> (string \<times> real) list" where
  "boost_votes entity_cap max_entries neighbors ts =
     hop_votes neighbors 1 ts @
     hop_votes neighbors (1 / 2)
       (take 50 (map fst (foldl (boost_map_add entity_cap max_entries) [] (hop_votes neighbors 1 ts))))"

lemma graph_boost_votes:
  "memory_graph_boost entity_cap max_entries neighbors ts =
     foldl (boost_map_add entity_cap max_entries) [] (boost_votes entity_cap max_entries neighbors ts)"
  by (auto simp: memory_graph_boost_def graph_boost_def boost_hop_votes boost_votes_def Let_def hop_votes_def)

definition names_fit :: "nat \<Rightarrow> (string \<Rightarrow> weighted_node list) \<Rightarrow> bool" where
  "names_fit entity_cap neighbors \<longleftrightarrow> (\<forall>t. \<forall>n\<in>set (neighbors t). length (fst n) < entity_cap)"

lemma hop_vote_source:
  assumes "v \<in> set (hop_votes neighbors factor ts)"
  obtains t n where "n \<in> set (neighbors t)" "v = (fst n, of_int (snd n) * factor)"
  using assms by (auto simp: hop_votes_def dest!: in_set_takeD)

lemma vote_source:
  assumes "v \<in> set (boost_votes entity_cap max_entries neighbors ts)"
  obtains t n factor where "n \<in> set (neighbors t)" "v = (fst n, of_int (snd n) * factor)"
    and "factor = 1 \<or> factor = 1 / 2"
proof -
  from assms obtain factor ts' where "v \<in> set (hop_votes neighbors factor ts')" "factor = 1 \<or> factor = 1 / 2"
    unfolding boost_votes_def set_append by blast
  then show thesis
    using that hop_vote_source by metis
qed

lemma votes_fit:
  assumes "names_fit entity_cap neighbors"
  shows "list_all (\<lambda>v. length (fst v) < entity_cap) (boost_votes entity_cap max_entries neighbors ts)"
  unfolding list_all_iff
proof
  fix v assume "v \<in> set (boost_votes entity_cap max_entries neighbors ts)"
  then obtain t n factor where "n \<in> set (neighbors t)" "v = (fst n, of_int (snd n) * factor)"
    by (rule vote_source)
  then show "length (fst v) < entity_cap"
    using assms by (simp add: names_fit_def)
qed

text \<open>A second hop never pays more than half of the largest weight.\<close>

lemma boost_score_bound:
  assumes fit: "names_fit entity_cap neighbors"
    and w: "\<And>t n. n \<in> set (neighbors t) \<Longrightarrow> of_int (snd n) \<le> w" "0 \<le> w"
    and e: "(k, s) \<in> set (memory_graph_boost entity_cap max_entries neighbors ts)"
  shows "s \<le> (w::real)"
proof -
  have "\<exists>v\<in>set (boost_votes entity_cap max_entries neighbors ts). k = fst v \<and> s = snd v"
    using boosts.fold_source [OF votes_fit [OF fit] e [unfolded graph_boost_votes]] by simp
  then obtain v where v: "v \<in> set (boost_votes entity_cap max_entries neighbors ts)" "s = snd v"
    by blast
  from v(1) obtain t n factor where n: "n \<in> set (neighbors t)" "v = (fst n, of_int (snd n) * factor)"
    and factor: "factor = 1 \<or> factor = 1 / 2"
    by (rule vote_source)
  from factor have "s = of_int (snd n) \<or> s = of_int (snd n) / 2"
    using v(2) n(2) by (elim disjE) (simp_all only: snd_conv, simp_all)
  then show ?thesis
    using w(1) [OF n(1)] w(2) by auto
qed

subsection \<open>Related memories\<close>

record memory_hit =
  mh_id :: int
  mh_key :: string
  mh_content :: string

record graph_related =
  gr_id :: int
  gr_key :: string
  gr_content :: string
  gr_score :: real

type_synonym filtered_query = "string \<Rightarrow> string \<Rightarrow> cptr \<Rightarrow> weighted_node list"

definition related_separator :: "char \<Rightarrow> bool" where
  "related_separator c \<longleftrightarrow> c \<in> {CHR '' '', CHR 0x09, CHR 0x0A, CHR ''_'', CHR ''-'', CHR ''/'', CHR ''.''}"

definition seed_tokens :: "string \<Rightarrow> string list" where
  "seed_tokens key =
     filter (\<lambda>tok. 3 \<le> length tok) (split_words related_separator (map tolower (cbuf 512 key)))"

definition related_seed ::
    "nat \<Rightarrow> nat \<Rightarrow> filtered_query \<Rightarrow> boost_map \<Rightarrow> cptr \<Rightarrow> boost_map" where
  "related_seed entity_cap max_entries filtered related seed =
     (case seed of None \<Rightarrow> related
      | Some key \<Rightarrow>
          foldl (\<lambda>m tok. boost_neighbours entity_cap max_entries 1 m
                   (take 20 (filtered tok ''co_discussed'' None)))
            related (seed_tokens key))"

text \<open>
  The bridge over \<open>co_edited\<close> and \<open>depends_on\<close>, for the first twelve entities of the first hop:
  a nameless entity skips the body, and the step still counts.
\<close>

definition related_bridge ::
    "nat \<Rightarrow> nat \<Rightarrow> filtered_query \<Rightarrow> boost_map \<Rightarrow> string \<Rightarrow> boost_map" where
  "related_bridge entity_cap max_entries filtered related src =
     (if src = [] then related
      else boost_neighbours entity_cap max_entries (1 / 2) related
             (take 15 (filtered src ''co_edited'' (Some ''depends_on''))))"

definition related_terms ::
    "nat \<Rightarrow> nat \<Rightarrow> filtered_query \<Rightarrow> cptr list \<Rightarrow> boost_map" where
  "related_terms entity_cap max_entries filtered seed_keys =
     (let hop1 = foldl (related_seed entity_cap max_entries filtered) [] (take 16 seed_keys)
      in foldl (related_bridge entity_cap max_entries filtered) hop1 (take 12 (map fst hop1)))"

definition is_seed_hit :: "cptr list \<Rightarrow> memory_hit \<Rightarrow> bool" where
  "is_seed_hit seed_keys hit \<longleftrightarrow>
     list_ex (\<lambda>s. case s of None \<Rightarrow> False | Some key \<Rightarrow> mh_key hit \<noteq> [] \<and> contains (mh_key hit) key) seed_keys"

definition add_related ::
    "nat \<Rightarrow> nat \<Rightarrow> cptr list \<Rightarrow> nat \<Rightarrow> real \<Rightarrow> graph_related list \<Rightarrow> memory_hit \<Rightarrow> graph_related list" where
  "add_related key_cap content_cap seed_keys mx score out hit =
     (if mx \<le> length out then out
      else if is_seed_hit seed_keys hit then out
      else if list_ex (\<lambda>d. gr_id d = mh_id hit) out then out
      else out @ [\<lparr>gr_id = mh_id hit, gr_key = cbuf key_cap (mh_key hit),
                   gr_content = cbuf content_cap (mh_content hit), gr_score = score\<rparr>])"

definition related_pattern :: "string \<Rightarrow> string" where
  "related_pattern entity = cbuf 256 (''%'' @ entity @ ''%'')"

definition memory_graph_related ::
    "nat \<Rightarrow> nat \<Rightarrow> nat \<Rightarrow> nat \<Rightarrow> filtered_query \<Rightarrow> (string \<Rightarrow> memory_hit list) \<Rightarrow> cptr list option \<Rightarrow> int
     \<Rightarrow> graph_related list" where
  "memory_graph_related entity_cap max_entries key_cap content_cap filtered search_pattern seeds mx =
     (case seeds of None \<Rightarrow> []
      | Some seed_keys \<Rightarrow>
          if seed_keys = [] \<or> mx \<le> 0 then []
          else foldl (\<lambda>out r. if nat mx \<le> length out then out
                        else foldl (add_related key_cap content_cap seed_keys (nat mx) (snd r)) out
                               (take 10 (search_pattern (related_pattern (fst r)))))
                 [] (related_terms entity_cap max_entries filtered seed_keys))"

definition related_ok :: "cptr list \<Rightarrow> nat \<Rightarrow> nat \<Rightarrow> nat \<Rightarrow> memory_hit set \<Rightarrow> graph_related list \<Rightarrow> bool" where
  "related_ok seed_keys mx key_cap content_cap hits out \<longleftrightarrow>
     length out \<le> mx \<and> distinct (map gr_id out) \<and>
     (\<forall>r\<in>set out. \<exists>h\<in>hits. \<not> is_seed_hit seed_keys h \<and> gr_id r = mh_id h \<and>
        gr_key r = cbuf key_cap (mh_key h) \<and> gr_content r = cbuf content_cap (mh_content h))"

lemma add_related_ok:
  "related_ok seed_keys mx key_cap content_cap hits out \<Longrightarrow> h \<in> hits \<Longrightarrow>
     related_ok seed_keys mx key_cap content_cap hits (add_related key_cap content_cap seed_keys mx s out h)"
  by (auto simp: related_ok_def add_related_def list_ex_iff)

lemma add_relateds_ok:
  "related_ok seed_keys mx key_cap content_cap hits out \<Longrightarrow> set hs \<subseteq> hits \<Longrightarrow>
     related_ok seed_keys mx key_cap content_cap hits
       (foldl (add_related key_cap content_cap seed_keys mx s) out hs)"
  by (induction hs arbitrary: out) (simp_all add: add_related_ok)

lemma related_fold_ok:
  "related_ok seed_keys mx key_cap content_cap (\<Union>p. set (search_pattern p)) out \<Longrightarrow>
     related_ok seed_keys mx key_cap content_cap (\<Union>p. set (search_pattern p))
       (foldl (\<lambda>out r. if mx \<le> length out then out
          else foldl (add_related key_cap content_cap seed_keys mx (snd r)) out
                 (take 10 (search_pattern (related_pattern (fst r))))) out rs)"
proof (induction rs arbitrary: out)
  case (Cons r rs)
  have "set (take 10 (search_pattern p)) \<subseteq> (\<Union>p. set (search_pattern p))" for p
    by (auto dest: in_set_takeD)
  then show ?case
    using Cons by (auto intro!: Cons.IH add_relateds_ok)
qed simp

lemma related_result_ok:
  "related_ok seed_keys (nat mx) key_cap content_cap (\<Union>p. set (search_pattern p))
     (memory_graph_related entity_cap max_entries key_cap content_cap filtered search_pattern
        (Some seed_keys) mx)"
  using related_fold_ok [of seed_keys "nat mx" key_cap content_cap search_pattern "[]"]
  by (auto simp: memory_graph_related_def related_ok_def)

end
