(* ===== verification/Graph_Properties.thy ===== *)
theory Graph_Properties
  imports Fusion Graph_Walk Graph_Boost
begin

text \<open>
  The properties of the ontology labels, of the graph walk, of the boost map and of the
  fusion scores.
\<close>

subsection \<open>Labels\<close>

text \<open>
  The label tables of relations and node kinds round trip: every kind is read back from
  its label, and a text is read as a given known kind exactly when it is that label in any case.
\<close>

lemma ontology_labels_round_trip:
  "memory_ontology_relation_from_text (Some (memory_ontology_relation_to_text r)) = r \<and>
   memory_ontology_node_kind_from_text (Some (memory_ontology_node_kind_to_text k)) = k \<and>
   (r \<noteq> REL_OTHER \<longrightarrow>
      (memory_ontology_relation_from_text (Some l) = r) = (map tolower l = memory_ontology_relation_to_text r)) \<and>
   (k \<noteq> NODE_OTHER \<longrightarrow>
      (memory_ontology_node_kind_from_text (Some l) = k) = (map tolower l = memory_ontology_node_kind_to_text k))"
  using relation_labels.from_to relation_labels.from_text_iff [of r l]
    node_labels.from_to node_labels.from_text_iff [of k l] by simp

lemma ontology_labels_round_trip_instance:
  "memory_ontology_relation_from_text (Some ''Depends_On'') = REL_DEPENDS_ON"
proof -
  have "map tolower ''Depends_On'' = memory_ontology_relation_to_text REL_DEPENDS_ON"
    by code_simp
  then show ?thesis
    using ontology_labels_round_trip [of REL_DEPENDS_ON NODE_FILE "''Depends_On''"] by simp
qed

subsection \<open>The walk\<close>

text \<open>
  C13. The graph walk reports at most \<open>max\<close> edges, and each reported edge is an admitted edge
  of the store whose near end is reachable from the seed over admitted edges in as many hops
  as the entry says, less one.
\<close>

theorem graph_walk_sound:
  assumes "w \<in> set (memory_graph_walk caps step (Some seed) rmask max_hops mx)"
  shows "length (memory_graph_walk caps step (Some seed) rmask max_hops mx) \<le> nat mx \<and>
    (\<exists>hop node e. hop < nat max_hops \<and> reach step rmask seed hop node \<and>
       e \<in> set (take 50 (step node)) \<and> edge_admitted rmask e \<and> w = edge_entry caps hop e)"
  using walk_sound(1) walk_sound(2) [OF assms] unfolding explains_def reached_edge_def by blast

definition sample_edge :: "string \<Rightarrow> string \<Rightarrow> typed_edge" where
  "sample_edge a b = \<lparr>te_source = a, te_relation = ''calls'', te_target = b, te_relation_id = 5,
     te_subject_kind = 1, te_object_kind = 1, te_weight = 1\<rparr>"

definition sample_step :: "string \<Rightarrow> typed_edge list" where
  "sample_step n =
     (if n = ''a'' then [sample_edge ''a'' ''b''] else if n = ''b'' then [sample_edge ''b'' ''c''] else [])"

definition sample_caps :: walk_caps where
  "sample_caps = \<lparr>cap_source = 256, cap_relation = 64, cap_target = 256\<rparr>"

lemma sample_walk:
  "memory_graph_walk sample_caps sample_step (Some ''a'') (RELATION_MASK 5) 2 10 =
     [edge_entry sample_caps 0 (sample_edge ''a'' ''b''), edge_entry sample_caps 1 (sample_edge ''b'' ''c'')]"
  by code_simp

theorem graph_walk_sound_witness:
  "\<exists>hop node e. hop < 2 \<and> reach sample_step (RELATION_MASK 5) ''a'' hop node \<and>
     e \<in> set (take 50 (sample_step node)) \<and> edge_admitted (RELATION_MASK 5) e \<and>
     edge_entry sample_caps 1 (sample_edge ''b'' ''c'') = edge_entry sample_caps hop e"
  using graph_walk_sound [of "edge_entry sample_caps 1 (sample_edge ''b'' ''c'')" sample_caps sample_step
      "''a''" "RELATION_MASK 5" 2 10] by (simp add: sample_walk)

text \<open>
  C14. A walk that did not fill its output, nor the visited list, is complete: every node
  reachable from the seed over admitted edges within \<open>max_hops\<close> hops is the far end of a
  reported edge, and (for names that fit the buffers) no node is reported twice.
\<close>

theorem graph_walk_complete:
  assumes "length (memory_graph_walk caps step (Some seed) rmask max_hops mx) < nat mx"
    and "length (memory_graph_walk caps step (Some seed) rmask max_hops mx) \<le> 254"
  shows "\<exists>nodes.
    list_all2 (linked caps step rmask seed) (memory_graph_walk caps step (Some seed) rmask max_hops mx) nodes \<and>
    (short_names step \<longrightarrow> distinct (cbuf 256 seed # nodes)) \<and>
    (\<forall>k n. k \<le> nat max_hops \<and> reach step rmask seed k n \<longrightarrow> n = cbuf 256 seed \<or> n \<in> set nodes)"
  using walk_complete [OF assms] unfolding complete_walk_def .

theorem graph_walk_complete_witness:
  "\<exists>nodes. list_all2 (linked sample_caps sample_step (RELATION_MASK 5) ''a'')
       [edge_entry sample_caps 0 (sample_edge ''a'' ''b''), edge_entry sample_caps 1 (sample_edge ''b'' ''c'')] nodes \<and>
     (\<forall>k n. k \<le> 2 \<and> reach sample_step (RELATION_MASK 5) ''a'' k n \<longrightarrow> n = ''a'' \<or> n \<in> set nodes)"
  using graph_walk_complete [of sample_caps sample_step "''a''" "RELATION_MASK 5" 2 10]
  by (auto simp: sample_walk cbuf_def)

subsection \<open>Edges, boosts and related memories\<close>

text \<open>
  Edge extraction asks the store for one upsert per pair of files of the window and per
  pair of its first ten terms of at least three bytes, in order, and counts the edges the store
  reports as added; so it adds at most \<open>n (n - 1) / 2 + 45\<close> edges for \<open>n\<close> files.
\<close>

lemma extract_edges_bounded:
  "memory_extract_edges upsert db window_id file_refs terms =
     run_upserts upsert (window_upserts window_id file_refs terms) db \<and>
   2 * fst (memory_extract_edges upsert db window_id file_refs terms)
     \<le> length file_refs * (length file_refs - 1) + 90"
  using window_upserts_bound [of window_id file_refs terms]
    run_upserts_bound [of upsert "window_upserts window_id file_refs terms" db]
  by (simp add: extract_edges_runs)

text \<open>
  The graph boost of an entity is the best vote for it: while the map has room, it holds
  one entry for every neighbour of a query term or of one of the first fifty such neighbours,
  with the largest of its votes (the edge weight at the first hop, half of it at the second).
\<close>

lemma graph_boost_best_vote:
  assumes "names_fit entity_cap neighbors"
    and "length (memory_graph_boost entity_cap max_entries neighbors terms) < max_entries"
  shows "fst ` set (memory_graph_boost entity_cap max_entries neighbors terms) =
      fst ` set (boost_votes entity_cap max_entries neighbors terms) \<and>
    distinct (map fst (memory_graph_boost entity_cap max_entries neighbors terms)) \<and>
    (\<forall>v \<in> set (memory_graph_boost entity_cap max_entries neighbors terms).
      snd v = Max (snd ` {w \<in> set (boost_votes entity_cap max_entries neighbors terms). fst w = fst v}))"
proof (intro conjI ballI)
  note fit = votes_fit [OF assms(1), of max_entries terms]
  note room = assms(2) [unfolded graph_boost_votes]
  show "fst ` set (memory_graph_boost entity_cap max_entries neighbors terms) =
      fst ` set (boost_votes entity_cap max_entries neighbors terms)"
    unfolding graph_boost_votes using boosts.fold_keys [OF fit room] .
  show "distinct (map fst (memory_graph_boost entity_cap max_entries neighbors terms))"
    unfolding graph_boost_votes using boosts.fold_distinct [OF fit, of "[]"] by simp
  show "snd v = Max (snd ` {w \<in> set (boost_votes entity_cap max_entries neighbors terms). fst w = fst v})"
    if "v \<in> set (memory_graph_boost entity_cap max_entries neighbors terms)" for v
    using boosts.fold_max [OF fit room, of v] that by (simp add: graph_boost_votes)
qed

definition sample_neighbors :: "string \<Rightarrow> weighted_node list" where
  "sample_neighbors t = (if t = ''x'' then [(''y'', 4)] else if t = ''y'' then [(''z'', 6)] else [])"

lemma graph_boost_best_vote_instance:
  "distinct (map fst (memory_graph_boost 64 10 sample_neighbors [''x''])) \<and>
   (''z'', 3) \<in> set (memory_graph_boost 64 10 sample_neighbors [''x'']) \<and>
   3 = Max (snd ` {v \<in> set (boost_votes 64 10 sample_neighbors [''x'']). fst v = ''z''})"
proof -
  have fit: "names_fit 64 sample_neighbors"
    by (simp add: names_fit_def sample_neighbors_def)
  have run: "memory_graph_boost 64 10 sample_neighbors [''x''] = [(''y'', 4), (''z'', 3)]"
    by (simp add: memory_graph_boost_def graph_boost_def boost_neighbours_def boost_map_add_def
        sample_neighbors_def cbuf_def Let_def)
  show ?thesis
    using graph_boost_best_vote [OF fit, of 10 "[''x'']"] by (simp add: run)
qed

text \<open>
  Related memories: at most \<open>max\<close> of them, each id once, none of them a seed (its key
  contains no seed key), and each one a row the store returned for a search pattern.
\<close>

lemma graph_related_well_formed:
  assumes "memory_graph_related entity_cap max_entries key_cap content_cap filtered search
      (Some seed_keys) mx = out"
  shows "length out \<le> nat mx \<and> distinct (map gr_id out) \<and>
    (\<forall>r\<in>set out. \<exists>p. \<exists>h\<in>set (search p). \<not> is_seed_hit seed_keys h \<and> gr_id r = mh_id h \<and>
       gr_key r = cbuf key_cap (mh_key h) \<and> gr_content r = cbuf content_cap (mh_content h))"
  using related_result_ok [of seed_keys mx key_cap content_cap search entity_cap max_entries filtered]
  unfolding assms related_ok_def by blast

lemma graph_related_well_formed_instance:
  "memory_graph_related 64 10 64 64
     (\<lambda>t r1 r2. if t = ''wifi'' then [(''router'', 2)] else [])
     (\<lambda>p. if p = ''%router%'' then [\<lparr>mh_id = 7, mh_key = ''router'', mh_content = ''in the hall''\<rparr>] else [])
     (Some [Some ''wifi'']) 5 =
   [\<lparr>gr_id = 7, gr_key = ''router'', gr_content = ''in the hall'', gr_score = 2\<rparr>]
   \<and> length [\<lparr>gr_id = 7, gr_key = ''router'', gr_content = ''in the hall'', gr_score = 2\<rparr>] \<le> nat 5"
proof -
  have toks: "seed_tokens ''wifi'' = [''wifi'']"
    by code_simp
  have hit: "\<not> contains ''router'' ''wifi''"
    by code_simp
  have run: "memory_graph_related 64 10 64 64
     (\<lambda>t r1 r2. if t = ''wifi'' then [(''router'', 2)] else [])
     (\<lambda>p. if p = ''%router%'' then [\<lparr>mh_id = 7, mh_key = ''router'', mh_content = ''in the hall''\<rparr>] else [])
     (Some [Some ''wifi'']) 5 =
   [\<lparr>gr_id = 7, gr_key = ''router'', gr_content = ''in the hall'', gr_score = 2\<rparr>]"
    by (simp add: memory_graph_related_def related_terms_def related_seed_def toks boost_neighbours_def
        boost_map_add_def related_bridge_def related_pattern_def add_related_def is_seed_hit_def hit
        cbuf_def Let_def)
  show ?thesis
    using run graph_related_well_formed [OF run] by blast
qed

subsection \<open>Fusion\<close>

text \<open>
  The edge score lies in (0, 12], grows with the structural weight, the observation weight
  and the utility of the edge, and falls with its distance from the seed.
\<close>

lemma edge_score_bounded_monotone:
  assumes "sw \<le> sw'" "w \<le> w'" "u \<le> u'" "h' \<le> h"
  shows "0 < memory_graph_edge_score r c sw w u h \<and>
    memory_graph_edge_score r c sw w u h \<le> memory_graph_edge_score r c sw' w' u' h' \<and>
    memory_graph_edge_score r c sw' w' u' h' \<le> 12"
  using edge_score_range edge_score_monotone [OF assms] by blast

lemma edge_score_bounded_monotone_instance:
  "memory_graph_edge_score (Some ''calls'') True 1 3 (1 / 10) 2
     \<le> memory_graph_edge_score (Some ''calls'') True 2 5 (1 / 2) 1"
  using edge_score_bounded_monotone [of 1 2 3 5 "1 / 10" "1 / 2" 1 2] by simp

text \<open>
  C19. Seed expansion: at most \<open>max\<close> memories, each id once, all at hop 1 and reached over a
  node of the walk; without the code graph none of them over a code node; and while the output
  has room, a memory is there exactly when some visited node names it, with the best score of
  those nodes.
\<close>

theorem seed_expansion_correct:
  assumes "0 < mx" "9 \<le> via_cap"
  shows "let evs = expand_evidence collect weighted seeds n allow utility;
      out = memory_graph_expand_from_seeds via_cap collect weighted (Some seeds) max_hops n allow utility mx
    in length out \<le> nat mx \<and> distinct (map exp_id out) \<and>
      (\<forall>e \<in> set out. exp_hops e = 1 \<and>
        (\<exists>sc v. (exp_id e, sc, v) \<in> set evs \<and> exp_via e = cbuf via_cap v) \<and>
        (\<not> allow \<longrightarrow> \<not> node_key_is_code (exp_via e))) \<and>
      (length out < nat mx \<longrightarrow> exp_id ` set out = fst ` set evs \<and>
        (\<forall>e \<in> set out. exp_score e = Max ((\<lambda>ev. fst (snd ev)) ` {ev \<in> set evs. fst ev = exp_id e})))"
proof -
  define evs where "evs = expand_evidence collect weighted seeds n allow utility"
  define out where
    "out = memory_graph_expand_from_seeds via_cap collect weighted (Some seeds) max_hops n allow utility mx"
  have out: "out = foldl (add_evidence via_cap (nat mx)) [] evs"
    unfolding out_def evs_def by (rule expand_is_fold [OF assms(1)])
  have well: "well_expanded via_cap (nat mx) (set evs) out"
    unfolding out_def evs_def by (rule expand_well_expanded [OF assms(1)])
  have small: "length out \<le> nat mx \<and> distinct (map exp_id out)"
    using well by (simp add: well_expanded_def)
  have via: "exp_hops e = 1 \<and> (\<exists>sc v. (exp_id e, sc, v) \<in> set evs \<and> exp_via e = cbuf via_cap v)"
    if "e \<in> set out" for e
    using well that by (auto simp: well_expanded_def from_evidence_def)
  have gate: "\<not> node_key_is_code (exp_via e)" if e: "e \<in> set out" "\<not> allow" for e
  proof -
    obtain sc v where v: "(exp_id e, sc, v) \<in> set evs" "exp_via e = cbuf via_cap v"
      using via [OF e(1)] by blast
    have "\<not> node_key_is_code v"
      using evidence_code_gate v(1) e(2) unfolding evs_def by simp
    then show ?thesis
      by (simp add: v(2) node_key_is_code_cbuf [OF assms(2)])
  qed
  have ok: "list_all (\<lambda>_. True) evs"
    by (simp add: list_all_iff)
  have keys: "exp_id ` set out = fst ` set evs" if "length out < nat mx"
    using expansions.fold_keys [OF ok that [unfolded out]] by (simp add: out)
  have best: "exp_score e = Max ((\<lambda>ev. fst (snd ev)) ` {ev \<in> set evs. fst ev = exp_id e})"
    if "length out < nat mx" "e \<in> set out" for e
    using expansions.fold_max [OF ok that(1) [unfolded out] that(2) [unfolded out]] .
  show ?thesis
    unfolding Let_def evs_def [symmetric] out_def [symmetric]
    using small via gate keys best by simp
qed

theorem seed_expansion_correct_witness:
  "distinct (map exp_id (memory_graph_expand_from_seeds 256 (\<lambda>n. if n = ''term:dns'' then [4, 9] else [])
     (\<lambda>s cap u. []) (Some [Some ''term:dns'', Some ''file:a.c'']) 2 16 False True 8))"
proof -
  have "(0::int) < 8" "(9::nat) \<le> 256"
    by simp_all
  from seed_expansion_correct [OF this, unfolded Let_def, THEN conjunct2, THEN conjunct1]
  show ?thesis .
qed

text \<open>
  Path credit is conserved: a path with at least one edge gets a credit for every edge,
  and the credits add up to the feedback.
\<close>

lemma path_credit_conserved:
  assumes "es \<noteq> []"
  shows "\<exists>cs. memory_graph_distribute_path_credit delta (Some es) = Some cs \<and>
    length cs = length es \<and> sum_list cs = delta \<and> (0 < delta \<longrightarrow> list_all (\<lambda>c. 0 < c) cs)"
proof -
  define cs where "cs = map (\<lambda>e. delta * path_weight e / (\<Sum>e\<leftarrow>es. path_weight e)) es"
  have some: "memory_graph_distribute_path_credit delta (Some es) = Some cs"
    unfolding cs_def by (rule path_credit_Some [OF assms])
  have "list_all (\<lambda>c. 0 < c) cs" if "0 < delta"
    unfolding cs_def list.pred_map comp_def list_all_iff
    using that sum_weights_pos [OF assms] path_weight_pos by (simp add: divide_pos_pos)
  then show ?thesis
    using some path_credit_sum [OF some] by (intro exI [of _ cs]) (simp add: cs_def)
qed

lemma path_credit_conserved_instance:
  "\<exists>cs. memory_graph_distribute_path_credit 1
      (Some [\<lparr>pe_relation = ''calls'', pe_hop = 1\<rparr>, \<lparr>pe_relation = ''imports'', pe_hop = 2\<rparr>]) = Some cs \<and>
    sum_list cs = 1"
  using path_credit_conserved [of "[\<lparr>pe_relation = ''calls'', pe_hop = 1\<rparr>, \<lparr>pe_relation = ''imports'', pe_hop = 2\<rparr>]" 1]
  by auto

end
