(* ===== verification/Provider.thy ===== *)
theory Provider
  imports C_Base
begin

text \<open>
  \<open>src/modules/memory/memory_provider.c\<close>: the registry of the bundled and the external memory
  provider.  The set flag of a slot and its structure are one optional value.  What a provider
  carries besides its name and its kind is the extension of the record.
\<close>

record memory_provider =
  mp_name :: cptr
  mp_is_bundled :: bool

record 'a provider_registry =
  g_bundled :: "'a memory_provider_scheme option"
  g_external :: "'a memory_provider_scheme option"

definition memory_provider_register ::
    "'a memory_provider_scheme option \<Rightarrow> 'a provider_registry \<Rightarrow> int \<times> 'a provider_registry" where
  "memory_provider_register p g =
     (case p of None \<Rightarrow> (-1, g)
      | Some pr \<Rightarrow>
          if \<not> nonempty (mp_name pr) then (-1, g)
          else if mp_is_bundled pr then (0, g\<lparr>g_bundled := Some pr\<rparr>)
          else if g_external g \<noteq> None then (-1, g)
          else (0, g\<lparr>g_external := Some pr\<rparr>))"

definition memory_provider_get_active :: "'a provider_registry \<Rightarrow> 'a memory_provider_scheme option" where
  "memory_provider_get_active g =
     (if g_external g \<noteq> None then g_external g
      else if g_bundled g \<noteq> None then g_bundled g
      else None)"

definition memory_provider_get_bundled :: "'a provider_registry \<Rightarrow> 'a memory_provider_scheme option" where
  "memory_provider_get_bundled g = g_bundled g"

definition memory_provider_get_external :: "'a provider_registry \<Rightarrow> 'a memory_provider_scheme option" where
  "memory_provider_get_external g = g_external g"

definition memory_provider_reset :: "'a provider_registry \<Rightarrow> 'a provider_registry" where
  "memory_provider_reset g = \<lparr>g_bundled = None, g_external = None\<rparr>"

subsection \<open>Histories\<close>

datatype 'a provider_call = Register "'a memory_provider_scheme option" | Reset

fun provider_step :: "'a provider_registry \<Rightarrow> 'a provider_call \<Rightarrow> 'a provider_registry" where
  "provider_step g (Register p) = snd (memory_provider_register p g)"
| "provider_step g Reset = memory_provider_reset g"

definition provider_initial :: "'a provider_registry" where
  "provider_initial = \<lparr>g_bundled = None, g_external = None\<rparr>"

definition provider_run :: "'a provider_call list \<Rightarrow> 'a provider_registry" where
  "provider_run calls = foldl provider_step provider_initial calls"

text \<open>
  What a history promises: of the registrations since the last reset, the first external one
  and the last bundled one count, and the external one is active.
\<close>

fun named_provider :: "bool \<Rightarrow> 'a provider_call \<Rightarrow> 'a memory_provider_scheme option" where
  "named_provider bundled (Register (Some p)) =
     (if nonempty (mp_name p) \<and> mp_is_bundled p = bundled then Some p else None)"
| "named_provider bundled _ = None"

definition since_reset :: "'a provider_call list \<Rightarrow> 'a provider_call list" where
  "since_reset calls = rev (takeWhile (\<lambda>c. c \<noteq> Reset) (rev calls))"

definition first_external :: "'a provider_call list \<Rightarrow> 'a memory_provider_scheme option" where
  "first_external calls =
     (case List.map_filter (named_provider False) calls of [] \<Rightarrow> None | p # _ \<Rightarrow> Some p)"

definition last_bundled :: "'a provider_call list \<Rightarrow> 'a memory_provider_scheme option" where
  "last_bundled calls =
     (case rev (List.map_filter (named_provider True) calls) of [] \<Rightarrow> None | p # _ \<Rightarrow> Some p)"

lemma map_filter_snoc:
  "List.map_filter f (xs @ [x]) = List.map_filter f xs @ (case f x of None \<Rightarrow> [] | Some y \<Rightarrow> [y])"
  by (simp add: map_filter_def split: option.split)

lemma first_external_snoc:
  "first_external (cs @ [c]) =
     (if first_external cs = None then named_provider False c else first_external cs)"
  by (auto simp: first_external_def map_filter_snoc split: list.split option.split)

lemma last_bundled_snoc:
  "last_bundled (cs @ [c]) =
     (case named_provider True c of Some p \<Rightarrow> Some p | None \<Rightarrow> last_bundled cs)"
  by (auto simp: last_bundled_def map_filter_snoc split: list.split option.split)

lemma since_reset_simps:
  "since_reset [] = []" "since_reset (cs @ [Reset]) = []"
  "since_reset (cs @ [Register p]) = since_reset cs @ [Register p]"
  by (simp_all add: since_reset_def)

lemma register_slots:
  "g_external (snd (memory_provider_register p g)) =
     (if g_external g = None then named_provider False (Register p) else g_external g)"
  "g_bundled (snd (memory_provider_register p g)) =
     (case named_provider True (Register p) of Some q \<Rightarrow> Some q | None \<Rightarrow> g_bundled g)"
  by (cases p; simp add: memory_provider_register_def)+

lemma provider_run_slots:
  "g_external (provider_run calls) = first_external (since_reset calls) \<and>
   g_bundled (provider_run calls) = last_bundled (since_reset calls)"
proof (induction calls rule: rev_induct)
  case Nil
  then show ?case
    by (simp add: provider_run_def provider_initial_def since_reset_simps first_external_def
        last_bundled_def map_filter_simps)
next
  case (snoc c calls)
  have run: "provider_run (calls @ [c]) = provider_step (provider_run calls) c" for c
    by (simp add: provider_run_def)
  show ?case
  proof (cases c)
    case (Register p)
    then show ?thesis
      using snoc by (simp add: run register_slots since_reset_simps first_external_snoc last_bundled_snoc
          split: option.split)
  next
    case Reset
    then show ?thesis
      by (simp add: run memory_provider_reset_def since_reset_simps first_external_def
          last_bundled_def map_filter_simps)
  qed
qed

end
