(* ===== verification/Lifecycle.thy ===== *)
theory Lifecycle
  imports C_Base
begin

text \<open>
  \<open>src/modules/memory/memory_lifecycle.c\<close>: commitment shapes and the lifecycle state machine.

  The labels of the states and the two horizons are macros of a header outside \<open>src/\<close>: they
  are the fields of \<open>lifecycle_config\<close>, and \<open>labels_ok\<close> says that the labels are different,
  not empty and fit the 32-byte buffer the code reads a state into.  The database calls are
  parameters: \<open>get_state\<close> (what \<open>db2_memory_lifecycle_get_state\<close> reads, \<open>None\<close> for its error),
  \<open>update_state\<close> and \<open>db_mark_pending\<close> (the new database, \<open>None\<close> for their error).
\<close>

record lifecycle_config =
  st_active :: string
  st_pending :: string
  st_fulfilled :: string
  st_superseded :: string
  st_archived :: string
  ttl_relative :: int
  ttl_open_ended :: int

subsection \<open>Commitment shapes\<close>

definition future_phrases :: "string list" where
  "future_phrases =
     [''i'' @ [CHR 0x27] @ ''ll '', ''i will '', ''we'' @ [CHR 0x27] @ ''ll '', ''we will '',
      ''i'' @ [CHR 0x27] @ ''m going to '', ''we'' @ [CHR 0x27] @ ''re going to '',
      ''i am going to '', ''we are going to '', ''i plan to '', ''we plan to '']"

definition explicit_tags :: "string list" where
  "explicit_tags = [''pending:'', ''todo:'', ''[pending]'', ''[todo]'']"

definition date_markers :: "string list" where
  "date_markers =
     [''by monday'', ''by tuesday'', ''by wednesday'', ''by thursday'', ''by friday'', ''by saturday'',
      ''by sunday'', ''by eod'', ''by end of day'', ''by noon'', ''by morning'', ''by tomorrow'',
      ''by next week'', ''by 2026'', ''by 2027'']"

definition relative_markers :: "string list" where
  "relative_markers =
     [''this week'', ''next week'', ''today'', ''tomorrow'', ''next month'', ''this month'',
      ''in a few days'']"

text \<open>\<open>lower_copy\<close> is \<open>util_lower_copy\<close>; the result is the shape and the horizon in days.\<close>

definition memory_detect_commitment_shape ::
    "lifecycle_config \<Rightarrow> (string \<Rightarrow> nat \<Rightarrow> string) \<Rightarrow> cptr \<Rightarrow> nat \<Rightarrow> (string \<times> int) option" where
  "memory_detect_commitment_shape cfg lower_copy content shape_len =
     (case content of None \<Rightarrow> None
      | Some s \<Rightarrow>
          if s = [] then None
          else let lc = lower_copy s 1024;
                   has = list_ex (contains lc)
               in if \<not> has future_phrases \<and> \<not> has explicit_tags then None
                  else if has date_markers then Some (cbuf shape_len ''date'', ttl_relative cfg)
                  else if has relative_markers then Some (cbuf shape_len ''relative'', ttl_relative cfg)
                  else Some (cbuf shape_len ''open-ended'', ttl_open_ended cfg))"

subsection \<open>The transition table\<close>

definition lc_is_valid_state :: "lifecycle_config \<Rightarrow> cptr \<Rightarrow> bool" where
  "lc_is_valid_state cfg state =
     (case state of None \<Rightarrow> False
      | Some s \<Rightarrow>
          if s = [] then False
          else s = st_active cfg \<or> s = st_pending cfg \<or> s = st_fulfilled cfg \<or>
               s = st_superseded cfg \<or> s = st_archived cfg)"

definition lc_transition_allowed :: "lifecycle_config \<Rightarrow> string \<Rightarrow> string \<Rightarrow> bool" where
  "lc_transition_allowed cfg from_state to_state =
     (if \<not> lc_is_valid_state cfg (Some from_state) \<or> \<not> lc_is_valid_state cfg (Some to_state) then False
      else if from_state = to_state then False
      else if from_state = st_active cfg
        then to_state = st_superseded cfg \<or> to_state = st_archived cfg \<or> to_state = st_pending cfg
      else if from_state = st_pending cfg then to_state = st_fulfilled cfg \<or> to_state = st_archived cfg
      else if from_state = st_fulfilled cfg then to_state = st_archived cfg
      else if from_state = st_superseded cfg then to_state = st_archived cfg
      else False)"

definition memory_transition_lifecycle ::
    "lifecycle_config \<Rightarrow> (int \<Rightarrow> 'db \<Rightarrow> string option) \<Rightarrow> (int \<Rightarrow> string \<Rightarrow> cptr \<Rightarrow> 'db \<Rightarrow> 'db option)
     \<Rightarrow> 'db \<Rightarrow> int \<Rightarrow> cptr \<Rightarrow> cptr \<Rightarrow> int \<times> 'db" where
  "memory_transition_lifecycle cfg get_state update_state db memory_id new_state archive_reason =
     (case new_state of None \<Rightarrow> (-1, db)
      | Some to_state \<Rightarrow>
          if memory_id \<le> 0 \<or> \<not> lc_is_valid_state cfg (Some to_state) then (-1, db)
          else case get_state memory_id db of None \<Rightarrow> (-1, db)
               | Some row_state \<Rightarrow>
                   let current = cbuf 32 row_state
                   in if \<not> lc_transition_allowed cfg current to_state then (-1, db)
                      else case update_state memory_id to_state archive_reason db of
                             None \<Rightarrow> (-1, db) | Some db' \<Rightarrow> (0, db'))"

definition memory_mark_pending ::
    "lifecycle_config \<Rightarrow> (int \<Rightarrow> 'db \<Rightarrow> string option) \<Rightarrow> (int \<Rightarrow> int \<Rightarrow> 'db \<Rightarrow> 'db option)
     \<Rightarrow> 'db \<Rightarrow> int \<Rightarrow> int \<Rightarrow> int \<times> 'db" where
  "memory_mark_pending cfg get_state db_mark_pending db memory_id ttl_days =
     (if memory_id \<le> 0 then (-1, db)
      else let ttl = (if ttl_days \<le> 0 then ttl_open_ended cfg else ttl_days)
           in case get_state memory_id db of None \<Rightarrow> (-1, db)
              | Some row_state \<Rightarrow>
                  if cbuf 32 row_state \<noteq> st_active cfg then (-1, db)
                  else case db_mark_pending memory_id ttl db of None \<Rightarrow> (-1, db) | Some db' \<Rightarrow> (0, db'))"

subsection \<open>The abstract state machine\<close>

datatype life = Active | Pending | Fulfilled | Superseded | Archived

inductive life_step :: "life \<Rightarrow> life \<Rightarrow> bool" where
  supersede: "life_step Active Superseded"
| archive_active: "life_step Active Archived"
| commit: "life_step Active Pending"
| fulfil: "life_step Pending Fulfilled"
| archive_pending: "life_step Pending Archived"
| archive_fulfilled: "life_step Fulfilled Archived"
| archive_superseded: "life_step Superseded Archived"

code_pred life_step .

inductive_simps life_step_simps [simp]:
  "life_step Active b" "life_step Pending b" "life_step Fulfilled b" "life_step Superseded b"
  "life_step Archived b"

fun label :: "lifecycle_config \<Rightarrow> life \<Rightarrow> string" where
  "label cfg Active = st_active cfg"
| "label cfg Pending = st_pending cfg"
| "label cfg Fulfilled = st_fulfilled cfg"
| "label cfg Superseded = st_superseded cfg"
| "label cfg Archived = st_archived cfg"

definition labels_ok :: "lifecycle_config \<Rightarrow> bool" where
  "labels_ok cfg \<longleftrightarrow>
     distinct [st_active cfg, st_pending cfg, st_fulfilled cfg, st_superseded cfg, st_archived cfg] \<and>
     list_all (\<lambda>s. s \<noteq> [] \<and> length s < 32)
       [st_active cfg, st_pending cfg, st_fulfilled cfg, st_superseded cfg, st_archived cfg]"

lemma label_inject: "labels_ok cfg \<Longrightarrow> label cfg a = label cfg b \<longleftrightarrow> a = b"
  by (cases a; cases b) (auto simp: labels_ok_def)

lemma life_ex: "(\<exists>a. P a) \<longleftrightarrow> P Active \<or> P Pending \<or> P Fulfilled \<or> P Superseded \<or> P Archived"
  by (metis life.exhaust)

lemma valid_label: "labels_ok cfg \<Longrightarrow> lc_is_valid_state cfg (Some s) \<longleftrightarrow> (\<exists>a. s = label cfg a)"
  by (auto simp: labels_ok_def lc_is_valid_state_def life_ex)

lemma label_buf: "labels_ok cfg \<Longrightarrow> cbuf 32 (label cfg a) = label cfg a"
  by (cases a) (auto simp: labels_ok_def cbuf_fits)

lemma allowed_step: "labels_ok cfg \<Longrightarrow> lc_transition_allowed cfg (label cfg a) (label cfg b) \<longleftrightarrow> life_step a b"
  by (cases a; cases b) (auto simp: labels_ok_def lc_transition_allowed_def lc_is_valid_state_def)

lemma allowed_labels:
  assumes "labels_ok cfg" "lc_transition_allowed cfg s t"
  obtains a b where "s = label cfg a" "t = label cfg b" "life_step a b"
proof -
  have "lc_is_valid_state cfg (Some s)" "lc_is_valid_state cfg (Some t)"
    using assms(2) by (simp_all add: lc_transition_allowed_def split: if_splits)
  then obtain a b where "s = label cfg a" "t = label cfg b"
    using valid_label [OF assms(1)] by blast
  then show thesis
    using that allowed_step [OF assms(1)] assms(2) by blast
qed

text \<open>Every step moves up, so a life has at most three.\<close>

fun life_rank :: "life \<Rightarrow> nat" where
  "life_rank Active = 0"
| "life_rank Pending = 1"
| "life_rank Superseded = 1"
| "life_rank Fulfilled = 2"
| "life_rank Archived = 3"

lemma life_step_rank: "life_step a b \<Longrightarrow> life_rank a < life_rank b"
  by (cases rule: life_step.cases) auto

lemma life_steps_rank: "(life_step ^^ n) a b \<Longrightarrow> life_rank a + n \<le> life_rank b"
proof (induction n arbitrary: b)
  case (Suc n)
  then obtain c where "(life_step ^^ n) a c" "life_step c b"
    by auto
  then show ?case
    using Suc.IH [of c] life_step_rank [of c b] by simp
qed simp

lemma life_rank_max: "life_rank a \<le> 3"
  by (cases a) simp_all

end
