(* ===== verification/Redirect.thy ===== *)
theory Redirect
  imports C_Base
begin

text \<open>
  \<open>src/modules/memory/memory_redirect.c\<close>: which writes of a client's file memory are allowed,
  rejected or taken over, and what the hook does with a write it takes over.

  The registry of clients (\<open>hmem_scope_for_client\<close>), the resolution of the project, the HTTP
  call, the spill file and the audit log are outside \<open>src/\<close>: the first four are parameters,
  and what the hook asks of the last three is the list of its effects.
\<close>

subsection \<open>Classification\<close>

record hmem_scope =
  projects_root :: string
  memory_seg :: string

datatype mr_verdict = MR_ALLOW | MR_REJECT string | MR_REDIRECT string

abbreviation PATH_MAX :: nat where
  "PATH_MAX \<equiv> 4096"

definition is_write_family :: "cptr \<Rightarrow> bool" where
  "is_write_family t \<longleftrightarrow> t = Some ''Write'' \<or> t = Some ''Edit'' \<or> t = Some ''MultiEdit''"

definition ends_md_ci :: "string \<Rightarrow> bool" where
  "ends_md_ci path \<longleftrightarrow>
     3 \<le> length path \<and> path ! (length path - 3) = CHR ''.'' \<and>
     tolower (path ! (length path - 2)) = CHR ''m'' \<and> tolower (path ! (length path - 1)) = CHR ''d''"

definition path_prefix :: "string \<Rightarrow> hmem_scope \<Rightarrow> string" where
  "path_prefix home scope = home @ ''/'' @ projects_root scope @ ''/''"

definition path_memseg :: "hmem_scope \<Rightarrow> string" where
  "path_memseg scope = ''/'' @ memory_seg scope @ ''/''"

definition base_name :: "string \<Rightarrow> string" where
  "base_name path = rev (takeWhile (\<lambda>c. c \<noteq> CHR ''/'') (rev path))"

definition reason_index :: string where
  "reason_index = ''MEMORY.md is auto-rendered from your memory entries; to add or change one, Write a file under memory/<name>.md.''"

definition reason_edit :: string where
  "reason_edit = ''Memory files are managed by aimee; use Write to replace the whole file rather than Edit.''"

definition reason_traversal :: string where
  "reason_traversal = ''Invalid memory path (no '' @ [CHR 0x27] @ ''..'' @ [CHR 0x27] @ '' segments).''"

text \<open>The verdict on the part of the path behind the memory segment.\<close>

definition classify_name :: "nat \<Rightarrow> string \<Rightarrow> mr_verdict" where
  "classify_name name_cap after =
     (if length after \<le> 3 \<or> after ! 0 = CHR ''/'' then MR_ALLOW
      else if contains after ''../'' \<or> contains after ''/..'' then MR_REJECT reason_traversal
      else MR_REDIRECT (cbuf name_cap (take (length after - 3) after)))"

definition memory_redirect_classify ::
    "(cptr \<Rightarrow> hmem_scope option) \<Rightarrow> cptr \<Rightarrow> cptr \<Rightarrow> cptr \<Rightarrow> cptr \<Rightarrow> nat \<Rightarrow> mr_verdict" where
  "memory_redirect_classify scope_for_client client tool path home name_cap =
     (case scope_for_client client of None \<Rightarrow> MR_ALLOW
      | Some scope \<Rightarrow>
          (case (path, home) of
             (Some p, Some h) \<Rightarrow>
               if \<not> is_write_family tool \<or> h = [] then MR_ALLOW
               else let pre = path_prefix h scope; seg = path_memseg scope
                    in if PATH_MAX \<le> length pre \<or> \<not> prefix pre p then MR_ALLOW
                       else if 80 \<le> length seg then MR_ALLOW
                       else (case strstr (drop (length pre) p) seg of
                               None \<Rightarrow> MR_ALLOW
                             | Some i \<Rightarrow>
                                 if \<not> ends_md_ci p then MR_ALLOW
                                 else if map tolower (base_name p) = map tolower ''MEMORY.md''
                                   then MR_REJECT reason_index
                                 else if tool \<noteq> Some ''Write'' then MR_REJECT reason_edit
                                 else classify_name name_cap (drop (length pre + i + length seg) p))
           | _ \<Rightarrow> MR_ALLOW))"

text \<open>What a taken-over path looks like.\<close>

lemma classify_redirectE:
  assumes "memory_redirect_classify scope_for_client client tool path home name_cap = MR_REDIRECT name"
  obtains scope h p i after where
    "scope_for_client client = Some scope" "home = Some h" "h \<noteq> []" "path = Some p" "tool = Some ''Write''"
    "prefix (path_prefix h scope) p" "strstr (drop (length (path_prefix h scope)) p) (path_memseg scope) = Some i"
    "ends_md_ci p" "map tolower (base_name p) \<noteq> map tolower ''MEMORY.md''"
    "after = drop (length (path_prefix h scope) + i + length (path_memseg scope)) p"
    "classify_name name_cap after = MR_REDIRECT name"
  using assms
  by (auto simp: memory_redirect_classify_def Let_def split: option.splits if_splits)

lemma classify_nameE:
  assumes "classify_name name_cap after = MR_REDIRECT name"
  shows "3 < length after" "after ! 0 \<noteq> CHR ''/''" "\<not> contains after ''../''" "\<not> contains after ''/..''"
    "name = cbuf name_cap (take (length after - 3) after)"
  using assms by (auto simp: classify_name_def split: if_splits)

lemma classify_name_prefix: "classify_name name_cap after = MR_REDIRECT name \<Longrightarrow> prefix name after"
  using classify_nameE(5) cbuf_prefix take_is_prefix prefix_order.trans by metis

text \<open>A name without the two patterns has no \<open>..\<close> segment, unless it is one.\<close>

definition dotdot_segment :: "string \<Rightarrow> bool" where
  "dotdot_segment name \<longleftrightarrow>
     (\<exists>a b. name = a @ ''..'' @ b \<and> (a = [] \<or> last a = CHR ''/'') \<and> (b = [] \<or> hd b = CHR ''/''))"

lemma no_dotdot:
  assumes "\<not> contains name ''../''" "\<not> contains name ''/..''" "dotdot_segment name"
  shows "name = ''..''"
proof -
  obtain a b where name: "name = a @ ''..'' @ b"
    and a: "a = [] \<or> last a = CHR ''/''" and b: "b = [] \<or> hd b = CHR ''/''"
    using assms(3) by (auto simp: dotdot_segment_def)
  have "a = []"
  proof (rule ccontr)
    assume "a \<noteq> []"
    then have "a = butlast a @ ''/''"
      using a append_butlast_last_id [of a] by simp
    then have "name = butlast a @ ''/..'' @ b"
      using name by (metis append.assoc append_Cons append_Nil)
    then have "sublist ''/..'' name"
      unfolding sublist_def by blast
    then show False
      using assms(2) by (simp add: contains_sublist)
  qed
  moreover have "b = []"
  proof (rule ccontr)
    assume "b \<noteq> []"
    then have "name = a @ ''../'' @ tl b"
      using name b by (cases b) auto
    then have "sublist ''../'' name"
      unfolding sublist_def by blast
    then show False
      using assms(1) by (simp add: contains_sublist)
  qed
  ultimately show ?thesis
    using name by simp
qed

lemma sublist_prefix_trans: "prefix xs ys \<Longrightarrow> contains xs t \<Longrightarrow> contains ys t"
  by (rule contains_mono)

subsection \<open>Shell commands\<close>

text \<open>The scan for \<open>>\<close> outside quotes and escapes.\<close>

fun unquoted_redirect :: "bool \<Rightarrow> bool \<Rightarrow> string \<Rightarrow> bool" where
  "unquoted_redirect sq dq [] = False"
| "unquoted_redirect sq dq [c] =
     (\<not> (\<not> dq \<and> c = CHR 0x27) \<and> \<not> (\<not> sq \<and> c = CHR 0x22) \<and> \<not> sq \<and> \<not> dq \<and> c = CHR ''>'')"
| "unquoted_redirect sq dq (c # d # cs) =
     (if c = CHR 0x5C then unquoted_redirect sq dq cs
      else if \<not> dq \<and> c = CHR 0x27 then unquoted_redirect (\<not> sq) dq (d # cs)
      else if \<not> sq \<and> c = CHR 0x22 then unquoted_redirect sq (\<not> dq) (d # cs)
      else if \<not> sq \<and> \<not> dq \<and> c = CHR ''>'' then True
      else unquoted_redirect sq dq (d # cs))"

definition write_keywords :: "string list" where
  "write_keywords =
     [''tee'', ''sed -i'', ''dd of='', ''truncate '', ''cp '', ''mv '', ''install '', ''perl -i'',
      ''perl -pi'', ''patch '']"

definition region_has_write_op :: "string \<Rightarrow> bool" where
  "region_has_write_op region \<longleftrightarrow>
     unquoted_redirect False False region \<or> list_ex (contains region) write_keywords"

definition token_end :: "char \<Rightarrow> bool" where
  "token_end c \<longleftrightarrow>
     c \<in> {CHR '' '', CHR 0x09, CHR '';'', CHR ''|'', CHR ''&'', CHR 0x0A, CHR 0x22, CHR 0x27, CHR 0x60,
          CHR '')'', CHR ''<'', CHR ''>''}"

definition command_separator :: "char \<Rightarrow> bool" where
  "command_separator c \<longleftrightarrow> c \<in> {CHR '';'', CHR ''|'', CHR ''&'', CHR 0x0A}"

definition path_token :: "string \<Rightarrow> nat \<Rightarrow> string" where
  "path_token command p = takeWhile (\<lambda>c. \<not> token_end c) (drop p command)"

definition command_region :: "string \<Rightarrow> nat \<Rightarrow> string" where
  "command_region command p = rev (takeWhile (\<lambda>c. \<not> command_separator c) (rev (take p command)))"

definition token_is_memory_write :: "string \<Rightarrow> string \<Rightarrow> nat \<Rightarrow> bool" where
  "token_is_memory_write command memseg p \<longleftrightarrow>
     (let tok = path_token command p
      in contains tok memseg \<and> ends_md_ci tok \<and> region_has_write_op (command_region command p))"

text \<open>The loop over \<open>strstr\<close>; the searched prefix contains a slash and so is never empty.\<close>

function bash_loop :: "string \<Rightarrow> string \<Rightarrow> string \<Rightarrow> nat \<Rightarrow> bool" where
  "bash_loop command pre memseg pos =
     (if pre = [] then False
      else case strstr (drop pos command) pre of None \<Rightarrow> False
           | Some i \<Rightarrow>
               if token_is_memory_write command memseg (pos + i) then True
               else bash_loop command pre memseg
                      (pos + i + (if path_token command (pos + i) = [] then 1
                                  else length (path_token command (pos + i)))))"
  by auto

termination bash_loop
proof (relation "measure (\<lambda>(command, pre, memseg, pos). length command - pos)", simp, goal_cases)
  case (1 command pre memseg pos i)
  then show ?case
    using strstr_bound [of "drop pos command" pre i]

    by (cases pre; cases "path_token command (pos + i)") auto
qed

declare bash_loop.simps [simp del]

definition memory_redirect_bash_targets_memory ::
    "(cptr \<Rightarrow> hmem_scope option) \<Rightarrow> cptr \<Rightarrow> cptr \<Rightarrow> cptr \<Rightarrow> bool" where
  "memory_redirect_bash_targets_memory scope_for_client client command home =
     (case (scope_for_client client, command, home) of
        (Some scope, Some cmd, Some h) \<Rightarrow>
          if h = [] then False
          else if PATH_MAX \<le> length (path_prefix h scope) then False
          else if 80 \<le> length (path_memseg scope) then False
          else bash_loop cmd (path_prefix h scope) (path_memseg scope) 0
      | _ \<Rightarrow> False)"

lemma bash_loop_sound:
  "bash_loop command pre memseg pos \<Longrightarrow>
     \<exists>p. prefix pre (drop p command) \<and> token_is_memory_write command memseg p"
proof (induction command pre memseg pos rule: bash_loop.induct)
  case (1 command pre memseg pos)
  from 1(2) obtain i where i: "pre \<noteq> []" "strstr (drop pos command) pre = Some i"
    by (subst (asm) bash_loop.simps) (auto split: if_splits option.splits)
  have found: "prefix pre (drop (pos + i) command)"
    using strstr_Some [OF i(2)] by (simp add: add.commute)
  show ?case
  proof (cases "token_is_memory_write command memseg (pos + i)")
    case False
    with 1(2) i have "bash_loop command pre memseg
        (pos + i + (if path_token command (pos + i) = [] then 1 else length (path_token command (pos + i))))"
      by (subst (asm) bash_loop.simps) simp
    then show ?thesis
      by (rule 1(1) [OF i False])
  qed (use found in blast)
qed

lemma unquoted_redirect_char: "unquoted_redirect sq dq s \<Longrightarrow> CHR ''>'' \<in> set s"
  by (induction sq dq s rule: unquoted_redirect.induct) (auto split: if_splits)

lemma region_set: "set (command_region command p) \<subseteq> set command"
  by (auto simp: command_region_def dest!: set_takeWhileD in_set_takeD)

subsection \<open>The hook\<close>

text \<open>
  The four texts the agent is shown; those with a dash are named, not spelled.
\<close>

datatype hook_msg = Msg_Bash | Msg_Reason string | Msg_No_Content | Msg_Saved

datatype hook_effect =
  Audit string "string option" "string option" "string option"
| Capture (cap_key: string) (cap_content: string)
| Spill (sp_project: string) (sp_name: string) (sp_content: string)

record hook_env =
  env_scope :: "cptr \<Rightarrow> hmem_scope option"
  env_key_ok :: "string \<Rightarrow> bool"
  env_resolve :: "cptr \<Rightarrow> string option"
  env_endpoint :: bool
  env_post :: "string \<Rightarrow> string \<Rightarrow> int option"
  env_spill :: "string \<Rightarrow> string \<Rightarrow> string \<Rightarrow> int"
  env_key_max :: nat

text \<open>
  The outcome: the return value (0 lets the write through, 2 blocks it), the message and the
  effects in order.  \<open>env_endpoint\<close> says that an endpoint is configured; \<open>env_post\<close> gives the
  status of the response, \<open>None\<close> without one.
\<close>

type_synonym hook_outcome = "int \<times> hook_msg option \<times> hook_effect list"

definition hook_project :: "hook_env \<Rightarrow> cptr \<Rightarrow> cptr \<Rightarrow> string option" where
  "hook_project env cwd project_hint =
     (case project_hint of
        Some hint \<Rightarrow> if env_key_ok env hint then Some (cbuf (env_key_max env) hint) else env_resolve env cwd
      | None \<Rightarrow> env_resolve env cwd)"

definition hook_store :: "hook_env \<Rightarrow> string \<Rightarrow> string \<Rightarrow> string \<Rightarrow> hook_outcome" where
  "hook_store env project name content =
     (let key = cbuf (env_key_max env + 600) (''archive:'' @ project @ ''/'' @ name);
          asked = (if env_endpoint env then [Capture key content] else []);
          answer = (if env_endpoint env then env_post env key content else None)
      in case answer of
           Some st \<Rightarrow>
             if 200 \<le> st \<and> st < 300
             then (2, Some Msg_Saved, asked @ [Audit ''redirect-store'' (Some project) (Some name) None])
             else (0, None, asked @
               [Spill project name content,
                Audit (if env_spill env project name content = 0 then ''spill'' else ''spill-failed'')
                  (Some project) (Some name) (Some ''store unreachable'')])
         | None \<Rightarrow> (0, None, asked @
               [Spill project name content,
                Audit (if env_spill env project name content = 0 then ''spill'' else ''spill-failed'')
                  (Some project) (Some name) (Some ''store unreachable'')]))"

definition memory_redirect_check ::
    "hook_env \<Rightarrow> cptr \<Rightarrow> cptr \<Rightarrow> cptr \<Rightarrow> (string \<Rightarrow> cptr) option \<Rightarrow> cptr \<Rightarrow> cptr \<Rightarrow> hook_outcome" where
  "memory_redirect_check env client home tool root cwd project_hint =
     (case (root, home) of
        (Some json_str, Some h) \<Rightarrow>
          if tool = Some ''Bash'' then
            (case json_str ''command'' of
               Some cmd \<Rightarrow>
                 if memory_redirect_bash_targets_memory (env_scope env) client (Some cmd) (Some h)
                 then (2, Some Msg_Bash, [Audit ''reject'' None None (Some ''bash-write-memory'')])
                 else (0, None, [])
             | None \<Rightarrow> (0, None, []))
          else
            (let path = (case json_str ''file_path'' of Some p \<Rightarrow> Some p | None \<Rightarrow> json_str ''path'')
             in if path = None then (0, None, [])
                else case memory_redirect_classify (env_scope env) client tool path (Some h) 512 of
                       MR_ALLOW \<Rightarrow> (0, None, [])
                     | MR_REJECT reason \<Rightarrow> (2, Some (Msg_Reason reason), [Audit ''reject'' None None (Some reason)])
                     | MR_REDIRECT name \<Rightarrow>
                         (case json_str ''content'' of None \<Rightarrow> (2, Some Msg_No_Content, [])
                          | Some content \<Rightarrow>
                              (case hook_project env cwd project_hint of None \<Rightarrow> (0, None, [])
                               | Some project \<Rightarrow> hook_store env project name content)))
      | _ \<Rightarrow> (0, None, []))"

lemma hook_store_safe:
  "hook_store env project name content = (rc, msg, effects) \<Longrightarrow>
     (rc = 2 \<and> (\<exists>key st. Capture key content \<in> set effects \<and> env_post env key content = Some st \<and>
                        200 \<le> st \<and> st < 300)) \<or>
     (rc = 0 \<and> Spill project name content \<in> set effects)"
  by (auto simp: hook_store_def Let_def split: option.splits if_splits)

end
