(* ===== verification/Json.thy ===== *)
theory Json
  imports C_Base
begin

text \<open>
  The part of a cJSON value the module looks at.  cJSON itself is a library outside \<open>src/\<close>:
  its parser is a parameter where the source calls it; building and reading a value is done on
  this datatype.  An object is the list of its members in order, as cJSON keeps it.
\<close>

datatype cjson =
  JNull | JBool bool | JNumber int | JString string | JArray "cjson list" | JObject "(string \<times> cjson) list"

fun is_JString :: "cjson \<Rightarrow> bool" where
  "is_JString (JString s) = True"
| "is_JString _ = False"

fun is_JArray :: "cjson \<Rightarrow> bool" where
  "is_JArray (JArray xs) = True"
| "is_JArray _ = False"

fun is_JObject :: "cjson \<Rightarrow> bool" where
  "is_JObject (JObject ms) = True"
| "is_JObject _ = False"

text \<open>\<open>cJSON_GetObjectItemCaseSensitive\<close>: the first member of that name.\<close>

fun json_get :: "cjson \<Rightarrow> string \<Rightarrow> cjson option" where
  "json_get (JObject ms) k = map_of ms k"
| "json_get _ k = None"

text \<open>\<open>cJSON_ArrayForEach\<close> visits the items of an array and the members of an object.\<close>

fun json_items :: "cjson \<Rightarrow> cjson list" where
  "json_items (JArray xs) = xs"
| "json_items (JObject ms) = map snd ms"
| "json_items _ = []"

fun json_string :: "cjson \<Rightarrow> cptr" where
  "json_string (JString s) = Some s"
| "json_string _ = None"

definition json_text :: "cjson \<Rightarrow> string \<Rightarrow> cptr" where
  "json_text j k = (case json_get j k of Some v \<Rightarrow> json_string v | None \<Rightarrow> None)"

fun json_keys :: "cjson \<Rightarrow> string list" where
  "json_keys (JObject ms) = map fst ms"
| "json_keys _ = []"

lemma is_JString_iff: "is_JString j \<longleftrightarrow> (\<exists>s. j = JString s)"
  and is_JArray_iff: "is_JArray j \<longleftrightarrow> (\<exists>xs. j = JArray xs)"
  and is_JObject_iff: "is_JObject j \<longleftrightarrow> (\<exists>ms. j = JObject ms)"
  by (cases j; simp)+

lemma json_string_Some: "json_string j = Some s \<longleftrightarrow> j = JString s"
  by (cases j) auto

end
