(* ===== verification/Effective.thy ===== *)
theory Effective
  imports Complex_Main Json
begin

text \<open>
  \<open>src/modules/memory/memory_effective.c\<close>: the effective importance of a memory and the
  canonical filter.  \<open>double\<close> is the reals (no rounding).  \<open>parse_created\<close> is the time that
  \<open>strptime\<close> and \<open>mktime\<close> make of a time stamp, which depends on the time zone of the process;
  \<open>clock\<close> is \<open>time(NULL)\<close>.
\<close>

subsection \<open>Importance\<close>

record memory_row =
  mr_kind :: string
  mr_confidence :: real
  mr_salience :: real
  mr_created_at :: string
  mr_use_count :: int

definition kind_halflife_days :: "cptr \<Rightarrow> real" where
  "kind_halflife_days kind =
     (case kind of None \<Rightarrow> 90
      | Some k \<Rightarrow>
          (if k = [] then 90
           else if k = ''scratch'' \<or> k = ''working_memory'' then 1
           else if k = ''episode'' \<or> k = ''task'' then 30
           else if k = ''preference'' \<or> k = ''rule'' \<or> k = ''policy'' \<or> k = ''procedure'' then 180
           else 90))"

definition unit_or_half :: "real \<Rightarrow> real" where
  "unit_or_half x = (let y = (if 0 < x then x else 1 / 2) in if 1 < y then 1 else y)"

definition age_seconds :: "(string \<Rightarrow> int option) \<Rightarrow> string \<Rightarrow> int \<Rightarrow> int" where
  "age_seconds parse_created created_at now =
     (if created_at = [] then 0
      else case parse_created created_at of None \<Rightarrow> 0
           | Some created \<Rightarrow> if 0 < created \<and> created \<le> now then now - created else 0)"

definition decay_factor :: "real \<Rightarrow> real \<Rightarrow> int \<Rightarrow> real" where
  "decay_factor base halflife age =
     (let decay = exp (- (of_int age / 86400) / halflife)
      in if age < 86400 \<and> decay < 1 - base then 1 - base else decay)"

definition reinforcement_factor :: "int \<Rightarrow> real" where
  "reinforcement_factor use_count =
     (let r = 1 + 3 / 10 * ln (1 + of_int (if 0 < use_count then use_count else 0))
      in if 2 < r then 2 else r)"

definition clamp_unit :: "real \<Rightarrow> real" where
  "clamp_unit x = (let y = (if 1 < x then 1 else x) in if y < 0 then 0 else y)"

definition memory_effective_importance ::
    "(string \<Rightarrow> int option) \<Rightarrow> int \<Rightarrow> memory_row option \<Rightarrow> int \<Rightarrow> real" where
  "memory_effective_importance parse_created clock m now_sec =
     (case m of None \<Rightarrow> 0
      | Some r \<Rightarrow>
          let now = (if now_sec = 0 then clock else now_sec);
              base = unit_or_half (mr_confidence r) * unit_or_half (mr_salience r);
              age = age_seconds parse_created (mr_created_at r) now
          in clamp_unit (base * decay_factor base (kind_halflife_days (Some (mr_kind r))) age *
                         reinforcement_factor (mr_use_count r)))"

lemma halflife_pos: "1 \<le> kind_halflife_days k"
  by (simp add: kind_halflife_days_def split: option.split)

lemma unit_or_half_bounds: "0 < unit_or_half x \<and> unit_or_half x \<le> 1"
  by (simp add: unit_or_half_def Let_def)

lemma base_bounds: "0 < unit_or_half x * unit_or_half y \<and> unit_or_half x * unit_or_half y \<le> 1"
  using unit_or_half_bounds [of x] unit_or_half_bounds [of y] by (simp add: mult_le_one)

lemma clamp_unit_bounds: "0 \<le> clamp_unit x \<and> clamp_unit x \<le> 1"
  by (simp add: clamp_unit_def Let_def)

lemma clamp_unit_mono: "x \<le> y \<Longrightarrow> clamp_unit x \<le> clamp_unit y"
  by (simp add: clamp_unit_def Let_def)

lemma age_mono: "now \<le> now' \<Longrightarrow> age_seconds p c now \<le> age_seconds p c now'"
  by (simp add: age_seconds_def split: option.split)

lemma decay_factor_if:
  "decay_factor base halflife age =
     (let d = exp (- (of_int age / 86400) / halflife)
      in if age < 86400 then max d (1 - base) else d)"
  by (auto simp: decay_factor_def Let_def max_def)

lemma decay_pos: "0 < decay_factor base halflife age"
  by (simp add: decay_factor_if Let_def less_max_iff_disj)

lemma decay_antimono:
  assumes "1 \<le> halflife" "age \<le> age'"
  shows "decay_factor base halflife age' \<le> decay_factor base halflife age"
proof -
  define d d' where "d = exp (- (of_int age / 86400) / halflife)"
    and "d' = exp (- (of_int age' / 86400) / halflife)"
  have "- (of_int age' / 86400) / halflife \<le> (- (of_int age / 86400) / halflife :: real)"
    using assms by (intro divide_right_mono) auto
  then have "d' \<le> d"
    unfolding d_def d'_def by (simp only: exp_le_cancel_iff)
  then show ?thesis
    using assms(2) unfolding decay_factor_if d_def [symmetric] d'_def [symmetric] Let_def by auto
qed

lemma reinforcement_bounds: "1 \<le> reinforcement_factor u \<and> reinforcement_factor u \<le> 2"
  by (simp add: reinforcement_factor_def Let_def)

lemma reinforcement_mono:
  assumes "u \<le> u'"
  shows "reinforcement_factor u \<le> reinforcement_factor u'"
proof -
  have "ln (1 + of_int (if 0 < u then u else 0)) \<le> (ln (1 + of_int (if 0 < u' then u' else 0)) :: real)"
    using assms by (subst ln_le_cancel_iff) auto
  then show ?thesis
    by (simp add: reinforcement_factor_def Let_def del: ln_le_cancel_iff)
qed

lemma importance_bounds:
  "0 \<le> memory_effective_importance p clock m now \<and> memory_effective_importance p clock m now \<le> 1"
  by (simp add: memory_effective_importance_def clamp_unit_bounds Let_def split: option.split)

lemma importance_ages:
  assumes "0 < now" "now \<le> now'"
  shows "memory_effective_importance p clock m now' \<le> memory_effective_importance p clock m now"
proof (cases m)
  case (Some r)
  let ?b = "unit_or_half (mr_confidence r) * unit_or_half (mr_salience r)"
  let ?h = "kind_halflife_days (Some (mr_kind r))"
  have "?b * decay_factor ?b ?h (age_seconds p (mr_created_at r) now') * reinforcement_factor (mr_use_count r)
      \<le> ?b * decay_factor ?b ?h (age_seconds p (mr_created_at r) now) * reinforcement_factor (mr_use_count r)"
    using base_bounds [of "mr_confidence r" "mr_salience r"] reinforcement_bounds [of "mr_use_count r"]
    by (intro mult_right_mono mult_left_mono decay_antimono age_mono assms halflife_pos) auto
  then show ?thesis
    using assms Some by (simp add: memory_effective_importance_def Let_def clamp_unit_mono)
qed (simp add: memory_effective_importance_def)

lemma importance_use:
  assumes "u \<le> u'"
  shows "memory_effective_importance p clock (Some (r\<lparr>mr_use_count := u\<rparr>)) now
       \<le> memory_effective_importance p clock (Some (r\<lparr>mr_use_count := u'\<rparr>)) now"
proof -
  let ?b = "unit_or_half (mr_confidence r) * unit_or_half (mr_salience r)"
  let ?d = "decay_factor ?b (kind_halflife_days (Some (mr_kind r)))
    (age_seconds p (mr_created_at r) (if now = 0 then clock else now))"
  have "?b * ?d * reinforcement_factor u \<le> ?b * ?d * reinforcement_factor u'"
    using base_bounds [of "mr_confidence r" "mr_salience r"] decay_pos [of ?b]
    by (intro mult_left_mono reinforcement_mono assms) (simp add: less_imp_le)
  then show ?thesis
    by (simp add: memory_effective_importance_def Let_def clamp_unit_mono)
qed

subsection \<open>Filters\<close>

datatype visibility = VISIBILITY_DEFAULT | VISIBILITY_STRICT | VISIBILITY_EXPANDED

record memory_filter =
  mf_session :: string
  mf_project :: string
  mf_workspace :: string
  mf_user :: string
  mf_visibility :: visibility
  mf_tiers :: "string list"
  mf_kinds :: "string list"
  mf_as_of :: string

record filter_caps =
  fc_session :: nat
  fc_project :: nat
  fc_workspace :: nat
  fc_user :: nat

definition filter_zero :: memory_filter where
  "filter_zero = \<lparr>mf_session = [], mf_project = [], mf_workspace = [], mf_user = [],
     mf_visibility = VISIBILITY_DEFAULT, mf_tiers = [], mf_kinds = [], mf_as_of = []\<rparr>"

definition memory_filter_from_scope :: "filter_caps \<Rightarrow> cptr \<Rightarrow> cptr \<Rightarrow> memory_filter" where
  "memory_filter_from_scope caps scope_type scope_value =
     (case (scope_type, scope_value) of
        (Some t, Some v) \<Rightarrow>
          (if v = [] then filter_zero
           else if t = ''workspace'' then filter_zero\<lparr>mf_workspace := cbuf (fc_workspace caps) v\<rparr>
           else if t = ''project'' then filter_zero\<lparr>mf_project := cbuf (fc_project caps) v\<rparr>
           else if t = ''session'' then filter_zero\<lparr>mf_session := cbuf (fc_session caps) v\<rparr>
           else if t = ''user'' then filter_zero\<lparr>mf_user := cbuf (fc_user caps) v\<rparr>
           else filter_zero\<lparr>mf_workspace := cbuf (fc_workspace caps) v\<rparr>)
      | _ \<Rightarrow> filter_zero)"

definition ambient :: "string \<Rightarrow> cjson" where
  "ambient s = JString (if s = [] then ''ambient'' else s)"

definition visibility_text :: "visibility \<Rightarrow> string" where
  "visibility_text v =
     (case v of VISIBILITY_STRICT \<Rightarrow> ''strict'' | VISIBILITY_EXPANDED \<Rightarrow> ''expanded'' | _ \<Rightarrow> ''default'')"

definition memory_filter_to_json :: "memory_filter option \<Rightarrow> cjson" where
  "memory_filter_to_json f =
     (case f of None \<Rightarrow> JNull
      | Some f \<Rightarrow>
          JObject
            ([(''scope'', JObject
                [(''session'', ambient (mf_session f)), (''project'', ambient (mf_project f)),
                 (''workspace'', ambient (mf_workspace f)), (''user'', ambient (mf_user f))]),
              (''visibility'', JString (visibility_text (mf_visibility f)))] @
             (if mf_tiers f \<noteq> [] then [(''tiers'', JArray (map JString (mf_tiers f)))] else []) @
             (if mf_kinds f \<noteq> [] then [(''kinds'', JArray (map JString (mf_kinds f)))] else []) @
             (if mf_as_of f \<noteq> [] then [(''as_of'', JString (mf_as_of f))] else [])))"

text \<open>A reader of that JSON.\<close>

definition read_slot :: "cjson \<Rightarrow> string \<Rightarrow> string" where
  "read_slot j k =
     (case json_get j ''scope'' of None \<Rightarrow> []
      | Some sc \<Rightarrow> (case json_text sc k of None \<Rightarrow> [] | Some v \<Rightarrow> if v = ''ambient'' then [] else v))"

definition read_strings :: "cjson \<Rightarrow> string \<Rightarrow> string list" where
  "read_strings j k =
     (case json_get j k of None \<Rightarrow> [] | Some v \<Rightarrow> List.map_filter json_string (json_items v))"

definition read_filter :: "cjson \<Rightarrow> memory_filter" where
  "read_filter j =
     \<lparr>mf_session = read_slot j ''session'', mf_project = read_slot j ''project'',
      mf_workspace = read_slot j ''workspace'', mf_user = read_slot j ''user'',
      mf_visibility =
        (if json_text j ''visibility'' = Some ''strict'' then VISIBILITY_STRICT
         else if json_text j ''visibility'' = Some ''expanded'' then VISIBILITY_EXPANDED
         else VISIBILITY_DEFAULT),
      mf_tiers = read_strings j ''tiers'', mf_kinds = read_strings j ''kinds'',
      mf_as_of = (case json_text j ''as_of'' of None \<Rightarrow> [] | Some s \<Rightarrow> s)\<rparr>"

lemma map_filter_JString: "List.map_filter json_string (map JString xs) = xs"
  by (induction xs) (simp_all add: map_filter_simps)

definition not_ambient :: "memory_filter \<Rightarrow> bool" where
  "not_ambient f \<longleftrightarrow> ''ambient'' \<notin> {mf_session f, mf_project f, mf_workspace f, mf_user f}"

lemma filter_members [simp]:
  "json_get (memory_filter_to_json (Some f)) ''scope'' =
     Some (JObject [(''session'', ambient (mf_session f)), (''project'', ambient (mf_project f)),
                    (''workspace'', ambient (mf_workspace f)), (''user'', ambient (mf_user f))])"
  "json_get (memory_filter_to_json (Some f)) ''visibility'' = Some (JString (visibility_text (mf_visibility f)))"
  "json_get (memory_filter_to_json (Some f)) ''tiers'' =
     (if mf_tiers f \<noteq> [] then Some (JArray (map JString (mf_tiers f))) else None)"
  "json_get (memory_filter_to_json (Some f)) ''kinds'' =
     (if mf_kinds f \<noteq> [] then Some (JArray (map JString (mf_kinds f))) else None)"
  "json_get (memory_filter_to_json (Some f)) ''as_of'' =
     (if mf_as_of f \<noteq> [] then Some (JString (mf_as_of f)) else None)"
  by (simp_all add: memory_filter_to_json_def)

lemma ambient_text: "json_string (ambient s) = Some (if s = [] then ''ambient'' else s)"
  by (simp add: ambient_def)

lemma read_slots:
  "''ambient'' \<noteq> mf_session f \<Longrightarrow> read_slot (memory_filter_to_json (Some f)) ''session'' = mf_session f"
  "''ambient'' \<noteq> mf_project f \<Longrightarrow> read_slot (memory_filter_to_json (Some f)) ''project'' = mf_project f"
  "''ambient'' \<noteq> mf_workspace f \<Longrightarrow> read_slot (memory_filter_to_json (Some f)) ''workspace'' = mf_workspace f"
  "''ambient'' \<noteq> mf_user f \<Longrightarrow> read_slot (memory_filter_to_json (Some f)) ''user'' = mf_user f"
  by (auto simp: read_slot_def json_text_def ambient_text)

lemma read_lists:
  "read_strings (memory_filter_to_json (Some f)) ''tiers'' = mf_tiers f"
  "read_strings (memory_filter_to_json (Some f)) ''kinds'' = mf_kinds f"
  by (simp_all add: read_strings_def map_filter_JString)

lemma visibility_reads:
  "(if json_text (memory_filter_to_json (Some f)) ''visibility'' = Some ''strict'' then VISIBILITY_STRICT
    else if json_text (memory_filter_to_json (Some f)) ''visibility'' = Some ''expanded'' then VISIBILITY_EXPANDED
    else VISIBILITY_DEFAULT) = mf_visibility f"
  by (cases "mf_visibility f") (simp_all add: visibility_text_def json_text_def)

lemma as_of_reads:
  "(case json_text (memory_filter_to_json (Some f)) ''as_of'' of None \<Rightarrow> [] | Some s \<Rightarrow> s) = mf_as_of f"
  by (simp add: json_text_def)

lemma read_filter_json: "not_ambient f \<Longrightarrow> read_filter (memory_filter_to_json (Some f)) = f"
  by (cases f, rule memory_filter.equality)
    (simp_all only: read_filter_def memory_filter.simps read_slots read_lists visibility_reads as_of_reads
      not_ambient_def insert_iff de_Morgan_disj simp_thms)

end
