(* ===== verification/Profile_Pack.thy ===== *)
theory Profile_Pack
  imports Json
begin

text \<open>
  \<open>src/modules/memory/memory_profile_pack.c\<close>: validation, loading, listing and selection of
  operator-authored profile packs.

  The file system is a map from paths to contents and \<open>parse\<close> is \<open>cJSON_Parse\<close>; a directory
  listing is the list of names \<open>readdir\<close> yields.  Reading is taken to succeed once a file is
  open, allocation to succeed.  \<open>path_cap\<close> is \<open>MAX_PATH_LEN\<close>, \<open>errlen\<close> the size of the caller's
  error buffer; an error is the text written there.
\<close>

type_synonym files = "string \<Rightarrow> string option"

abbreviation MEMORY_PROFILE_PACK_NAME_LEN :: nat where
  "MEMORY_PROFILE_PACK_NAME_LEN \<equiv> 64"

abbreviation MEMORY_PROFILE_PACK_DESC_LEN :: nat where
  "MEMORY_PROFILE_PACK_DESC_LEN \<equiv> 256"

abbreviation MEMORY_PROFILE_PACK_MAX_KINDS :: nat where
  "MEMORY_PROFILE_PACK_MAX_KINDS \<equiv> 16"

abbreviation MEMORY_PROFILE_PACK_MAX_TIERS :: nat where
  "MEMORY_PROFILE_PACK_MAX_TIERS \<equiv> 8"

record memory_profile_pack =
  pack_name :: string
  pack_description :: string
  pack_allowed_tiers :: "string list"
  pack_allowed_kinds :: "string list"
  pack_default_tier :: string
  pack_default_visibility :: string

definition known_tiers :: "string list" where
  "known_tiers = [''L0'', ''L1'', ''L2'', ''L3'']"

definition known_top_keys :: "string list" where
  "known_top_keys =
     [''name'', ''description'', ''extraction_hints'', ''validation_rules'', ''scope_defaults'',
      ''explain_labels'']"

definition memory_profile_pack_dir :: "nat \<Rightarrow> cptr \<Rightarrow> cptr \<Rightarrow> string" where
  "memory_profile_pack_dir path_cap env_dir aimee_home =
     (if nonempty env_dir then cbuf path_cap (the env_dir)
      else let base = (case aimee_home of None \<Rightarrow> ''/tmp/.config/aimee'' | Some b \<Rightarrow> b)
           in cbuf path_cap (base @ ''/packs''))"

definition is_known_tier :: "string \<Rightarrow> bool" where
  "is_known_tier tier \<longleftrightarrow> tier \<in> set known_tiers"

subsection \<open>Validation\<close>

text \<open>The first tier that is not a known one, if any.\<close>

fun check_tiers :: "cjson list \<Rightarrow> string option" where
  "check_tiers [] = None"
| "check_tiers (t # ts) =
     (case json_string t of
        None \<Rightarrow> Some (''unknown tier: (non-string)'')
      | Some s \<Rightarrow> if is_known_tier s then check_tiers ts else Some (''unknown tier: '' @ s))"

fun check_keys :: "string list \<Rightarrow> string option" where
  "check_keys [] = None"
| "check_keys (k # ks) = (if k \<in> set known_top_keys then check_keys ks else Some (''unknown key: '' @ k))"

definition check_rules :: "cjson \<Rightarrow> string option" where
  "check_rules root =
     (case json_get root ''validation_rules'' of None \<Rightarrow> None
      | Some vr \<Rightarrow>
          if \<not> is_JObject vr then Some ''validation_rules must be an object''
          else let kinds_error =
                 (case json_get vr ''allowed_kinds'' of
                    Some ak \<Rightarrow> if is_JArray ak then None
                               else Some ''validation_rules.allowed_kinds must be an array''
                  | None \<Rightarrow> None)
               in case json_get vr ''allowed_tiers'' of
                    None \<Rightarrow> kinds_error
                  | Some tiers \<Rightarrow>
                      if \<not> is_JArray tiers then Some ''validation_rules.allowed_tiers must be an array''
                      else case check_tiers (json_items tiers) of Some err \<Rightarrow> Some err | None \<Rightarrow> kinds_error)"

definition check_object :: "cjson \<Rightarrow> string \<Rightarrow> string option" where
  "check_object root k =
     (case json_get root k of
        Some v \<Rightarrow> if is_JObject v then None else Some (k @ '' must be an object'')
      | None \<Rightarrow> None)"

text \<open>The tests in the order of the code; the first that fails gives the error.\<close>

fun first_error :: "string option list \<Rightarrow> string option" where
  "first_error [] = None"
| "first_error (e # es) = (case e of Some err \<Rightarrow> Some err | None \<Rightarrow> first_error es)"

definition validate_json :: "cjson \<Rightarrow> string option" where
  "validate_json root =
     first_error
       [if nonempty (json_text root ''name'') then None else Some ''missing required field: name'',
        if json_text root ''description'' \<noteq> None then None
          else Some ''missing required field: description'',
        check_keys (json_keys root),
        check_rules root,
        check_object root ''scope_defaults'',
        check_object root ''extraction_hints'',
        check_object root ''explain_labels'']"

text \<open>\<open>Inl\<close>: the return of -1 with its text; \<open>Inr\<close>: the return of 0.\<close>

definition memory_profile_pack_validate_file ::
    "(string \<Rightarrow> nat \<Rightarrow> string) \<Rightarrow> (string \<Rightarrow> cjson option) \<Rightarrow> files \<Rightarrow> cptr \<Rightarrow> nat \<Rightarrow> string + unit" where
  "memory_profile_pack_validate_file size_error parse files path errlen =
     (let fail = (\<lambda>msg. Inl (cbuf errlen msg))
      in case path of None \<Rightarrow> fail ''no path given''
         | Some p \<Rightarrow>
             if p = [] then fail ''no path given''
             else case files p of None \<Rightarrow> fail (''cannot open '' @ p)
                  | Some contents \<Rightarrow>
                      if contents = [] \<or> 65536 < length contents
                      then fail (size_error ''file size out of range'' (length contents))
                      else case parse contents of None \<Rightarrow> fail ''invalid JSON''
                           | Some root \<Rightarrow>
                               (case validate_json root of Some err \<Rightarrow> fail err | None \<Rightarrow> Inr ()))"

subsection \<open>Loading\<close>

definition copy_strings :: "nat \<Rightarrow> nat \<Rightarrow> cjson list \<Rightarrow> string list" where
  "copy_strings mx cap items = map (cbuf cap) (take mx (List.map_filter json_string items))"

definition text_field :: "nat \<Rightarrow> cjson \<Rightarrow> string \<Rightarrow> string" where
  "text_field cap j k = (case json_text j k of None \<Rightarrow> [] | Some s \<Rightarrow> cbuf cap s)"

definition array_field :: "nat \<Rightarrow> nat \<Rightarrow> cjson option \<Rightarrow> string \<Rightarrow> string list" where
  "array_field mx cap j k =
     (case j of None \<Rightarrow> []
      | Some v \<Rightarrow> (case json_get v k of
                     Some xs \<Rightarrow> if is_JArray xs then copy_strings mx cap (json_items xs) else []
                   | None \<Rightarrow> []))"

definition read_pack :: "cjson \<Rightarrow> memory_profile_pack" where
  "read_pack root =
     (let rules = json_get root ''validation_rules'';
          defaults = (case json_get root ''scope_defaults'' of None \<Rightarrow> JNull | Some sd \<Rightarrow> sd)
      in \<lparr>pack_name = text_field MEMORY_PROFILE_PACK_NAME_LEN root ''name'',
          pack_description = text_field MEMORY_PROFILE_PACK_DESC_LEN root ''description'',
          pack_allowed_tiers = array_field MEMORY_PROFILE_PACK_MAX_TIERS 4 rules ''allowed_tiers'',
          pack_allowed_kinds = array_field MEMORY_PROFILE_PACK_MAX_KINDS 16 rules ''allowed_kinds'',
          pack_default_tier = text_field 4 defaults ''tier'',
          pack_default_visibility = text_field 16 defaults ''visibility''\<rparr>)"

definition pack_path :: "nat \<Rightarrow> string \<Rightarrow> string \<Rightarrow> string" where
  "pack_path path_cap dir name = cbuf path_cap (dir @ ''/'' @ name @ ''.json'')"

definition memory_profile_pack_load ::
    "nat \<Rightarrow> (string \<Rightarrow> nat \<Rightarrow> string) \<Rightarrow> (string \<Rightarrow> cjson option) \<Rightarrow> files \<Rightarrow> string \<Rightarrow> cptr \<Rightarrow> nat
     \<Rightarrow> string + memory_profile_pack" where
  "memory_profile_pack_load path_cap size_error parse files dir name errlen =
     (if \<not> nonempty name then Inl (cbuf errlen ''invalid arguments'')
      else let path = pack_path path_cap dir (the name)
           in case memory_profile_pack_validate_file size_error parse files (Some path) 256 of
                Inl valerr \<Rightarrow> Inl (cbuf errlen valerr)
              | Inr _ \<Rightarrow>
                  (case files path of None \<Rightarrow> Inl (cbuf errlen (''cannot open '' @ path))
                   | Some contents \<Rightarrow>
                       (case parse contents of None \<Rightarrow> Inl (cbuf errlen ''invalid JSON'')
                        | Some root \<Rightarrow> Inr (read_pack root))))"

text \<open>What a pack in memory satisfies.\<close>

definition well_packed :: "memory_profile_pack \<Rightarrow> bool" where
  "well_packed p \<longleftrightarrow>
     pack_name p \<noteq> [] \<and> length (pack_name p) < MEMORY_PROFILE_PACK_NAME_LEN \<and>
     length (pack_description p) < MEMORY_PROFILE_PACK_DESC_LEN \<and>
     length (pack_allowed_tiers p) \<le> MEMORY_PROFILE_PACK_MAX_TIERS \<and>
     list_all is_known_tier (pack_allowed_tiers p) \<and>
     length (pack_allowed_kinds p) \<le> MEMORY_PROFILE_PACK_MAX_KINDS \<and>
     list_all (\<lambda>k. length k < 16) (pack_allowed_kinds p) \<and>
     length (pack_default_tier p) < 4 \<and> length (pack_default_visibility p) < 16"

lemma first_error_None: "first_error es = None \<longleftrightarrow> list_all (\<lambda>e. e = None) es"
  by (induction es) (auto split: option.split)

lemma check_tiers_None:
  "check_tiers ts = None \<longleftrightarrow> (\<forall>t\<in>set ts. \<exists>s. t = JString s \<and> is_known_tier s)"
  by (induction ts) (auto simp: json_string_Some split: option.splits if_splits)

lemma check_keys_None: "check_keys ks = None \<longleftrightarrow> set ks \<subseteq> set known_top_keys"
  by (induction ks) auto

lemma validate_json_None:
  "validate_json root = None \<longleftrightarrow>
     nonempty (json_text root ''name'') \<and> json_text root ''description'' \<noteq> None \<and>
     set (json_keys root) \<subseteq> set known_top_keys \<and> check_rules root = None \<and>
     (\<forall>k\<in>{''scope_defaults'', ''extraction_hints'', ''explain_labels''}. check_object root k = None)"
  by (simp only: validate_json_def first_error_None) (auto simp: check_keys_None)

lemma check_rules_tiers:
  assumes "check_rules root = None" "json_get root ''validation_rules'' = Some vr"
    and "json_get vr ''allowed_tiers'' = Some tiers"
  shows "\<forall>t\<in>set (json_items tiers). \<exists>s. t = JString s \<and> is_known_tier s"
proof -
  have "check_tiers (json_items tiers) = None"
    using assms by (simp add: check_rules_def Let_def split: if_splits option.splits)
  then show ?thesis
    by (simp add: check_tiers_None)
qed

lemma known_tier_length: "is_known_tier s \<Longrightarrow> length s < 4"
  by (auto simp: is_known_tier_def known_tiers_def)

lemma copy_strings_known:
  assumes "\<forall>t\<in>set ts. \<exists>s. t = JString s \<and> is_known_tier s"
  shows "list_all is_known_tier (copy_strings mx 4 ts)"
proof -
  have "list_all is_known_tier (List.map_filter json_string ts)"
    using assms by (induction ts) (auto simp: map_filter_simps)
  then show ?thesis
    by (auto simp: copy_strings_def list_all_iff cbuf_fits known_tier_length dest!: in_set_takeD)
qed

lemma text_field_bound: "0 < cap \<Longrightarrow> length (text_field cap j k) < cap"
  by (simp add: text_field_def length_cbuf split: option.split)

lemma array_field_bound:
  "length (array_field mx cap j k) \<le> mx"
  "0 < cap \<Longrightarrow> list_all (\<lambda>s. length s < cap) (array_field mx cap j k)"
  by (auto simp: array_field_def copy_strings_def list_all_iff length_cbuf split: option.split)

lemma read_pack_well:
  assumes "validate_json root = None"
  shows "well_packed (read_pack root)"
proof -
  have "text_field 64 root ''name'' \<noteq> []"
    using assms by (auto simp: validate_json_None text_field_def nonempty_def cbuf_def split: option.splits)
  moreover have "list_all is_known_tier (array_field 8 4 (json_get root ''validation_rules'') ''allowed_tiers'')"
    using assms check_rules_tiers copy_strings_known
    by (auto simp: array_field_def validate_json_None split: option.split)
  ultimately show ?thesis
    by (simp add: well_packed_def read_pack_def Let_def text_field_bound array_field_bound)
qed

lemma load_valid:
  assumes "memory_profile_pack_load path_cap size_error parse files dir name errlen = Inr pack"
  obtains contents root where "files (pack_path path_cap dir (the name)) = Some contents"
    "parse contents = Some root" "validate_json root = None" "pack = read_pack root"
  using assms
  by (auto simp: memory_profile_pack_load_def memory_profile_pack_validate_file_def Let_def
      split: if_splits option.splits sum.splits)

subsection \<open>Listing and selection\<close>

definition list_entry :: "string \<Rightarrow> string option" where
  "list_entry n =
     (if length n < 5 \<or> drop (length n - 5) n \<noteq> ''.json'' then None
      else if MEMORY_PROFILE_PACK_NAME_LEN \<le> length n - 5 then None
      else Some (take (length n - 5) n))"

definition memory_profile_pack_list :: "string list option \<Rightarrow> int \<Rightarrow> string list" where
  "memory_profile_pack_list entries mx =
     (case entries of None \<Rightarrow> [] | Some ns \<Rightarrow> take (nat mx) (List.map_filter list_entry ns))"

definition active_path :: "nat \<Rightarrow> string \<Rightarrow> string" where
  "active_path path_cap dir = cbuf path_cap (dir @ ''/active-pack'')"

text \<open>\<open>fgets\<close>: the first line with its newline, at most \<open>cap - 1\<close> bytes.\<close>

fun first_line :: "string \<Rightarrow> string" where
  "first_line [] = []"
| "first_line (c # s) = (if c = CHR 0x0A then [c] else c # first_line s)"

definition strip_newlines :: "string \<Rightarrow> string" where
  "strip_newlines s = rev (dropWhile (\<lambda>c. c = CHR 0x0A \<or> c = CHR 0x0D) (rev s))"

definition memory_profile_pack_active :: "nat \<Rightarrow> files \<Rightarrow> string \<Rightarrow> nat \<Rightarrow> string" where
  "memory_profile_pack_active path_cap files dir len =
     (case files (active_path path_cap dir) of None \<Rightarrow> cbuf len ''default''
      | Some contents \<Rightarrow>
          let buf = strip_newlines (take (MEMORY_PROFILE_PACK_NAME_LEN - 1) (first_line contents))
          in cbuf len (if buf = [] then ''default'' else buf))"

text \<open>\<open>writable\<close>: whether the file can be opened for writing, once the directory is made.\<close>

definition memory_profile_pack_set_active ::
    "nat \<Rightarrow> bool \<Rightarrow> files \<Rightarrow> string \<Rightarrow> cptr \<Rightarrow> int \<times> files" where
  "memory_profile_pack_set_active path_cap writable files dir name =
     (if \<not> nonempty name then (-1, files)
      else if \<not> writable then (-1, files)
      else (0, files(active_path path_cap dir \<mapsto> the name @ [CHR 0x0A])))"

lemma first_line_newline: "CHR 0x0A \<notin> set s \<Longrightarrow> first_line (s @ CHR 0x0A # t) = s @ [CHR 0x0A]"
  by (induction s) auto

lemma strip_newlines_id: "s \<noteq> [] \<Longrightarrow> last s \<noteq> CHR 0x0A \<Longrightarrow> last s \<noteq> CHR 0x0D \<Longrightarrow> strip_newlines s = s"
  by (cases s rule: rev_cases) (auto simp: strip_newlines_def)

lemma strip_newlines_snoc: "strip_newlines (s @ [CHR 0x0A]) = strip_newlines s"
  by (simp add: strip_newlines_def)

lemma active_of_line:
  assumes "CHR 0x0A \<notin> set s" "s \<noteq> []" "last s \<noteq> CHR 0x0D" "length s < 64"
  shows "strip_newlines (take 63 (first_line (s @ [CHR 0x0A]))) = s"
proof -
  have "last s \<noteq> CHR 0x0A"
    using assms(1,2) last_in_set by metis
  moreover have "take 63 (s @ [CHR 0x0A]) = s \<or> take 63 (s @ [CHR 0x0A]) = s @ [CHR 0x0A]"
    using assms(4) by (cases "length s = 63") auto
  ultimately show ?thesis
    using assms(1-3) first_line_newline [of s "[]"] strip_newlines_id strip_newlines_snoc by auto
qed

end
