(* ===== verification/Assemble_Util.thy ===== *)
theory Assemble_Util
  imports C_Base
begin

text \<open>
  \<open>src/modules/memory/memory_assemble_util.h\<close>: the XML escaping of context items, the tag of
  a section and the near-duplicate test of two items.  \<open>escape_all\<close> is the unbounded
  escaping that \<open>xml_escape_text\<close> cuts at its buffer, \<open>tokens\<close> the words that
  \<open>assemble_token_bits\<close> hashes.
\<close>

subsection \<open>Escaping\<close>

definition xml_entity :: "char \<Rightarrow> string option" where
  "xml_entity c =
     (if c = CHR ''&'' then Some ''&amp;''
      else if c = CHR ''<'' then Some ''&lt;''
      else if c = CHR ''>'' then Some ''&gt;''
      else if c = CHR 0x22 then Some (''&quot;'')
      else None)"

fun xml_escape_loop :: "nat \<Rightarrow> nat \<Rightarrow> string \<Rightarrow> string" where
  "xml_escape_loop dst_len used [] = []"
| "xml_escape_loop dst_len used (p # ps) =
     (if used + 1 < dst_len
      then (case xml_entity p of
              Some rep \<Rightarrow>
                (if dst_len \<le> used + length rep then []
                 else rep @ xml_escape_loop dst_len (used + length rep) ps)
            | None \<Rightarrow> p # xml_escape_loop dst_len (used + 1) ps)
      else [])"

text \<open>The contents of \<open>dst\<close> afterwards; \<open>None\<close>: nothing was written.\<close>

definition xml_escape_text :: "cptr \<Rightarrow> nat \<Rightarrow> string option" where
  "xml_escape_text src dst_len =
     (if dst_len = 0 then None
      else case src of None \<Rightarrow> Some [] | Some s \<Rightarrow> Some (xml_escape_loop dst_len 0 s))"

definition escape_char :: "char \<Rightarrow> string" where
  "escape_char c = (case xml_entity c of Some rep \<Rightarrow> rep | None \<Rightarrow> [c])"

definition escape_all :: "string \<Rightarrow> string" where
  "escape_all s = concat (map escape_char s)"

lemma escape_all_simps [simp]:
  "escape_all [] = []" "escape_all (c # s) = escape_char c @ escape_all s"
  by (simp_all add: escape_all_def)

lemma escape_char_length: "0 < length (escape_char c) \<and> length (escape_char c) \<le> 6"
  by (simp add: escape_char_def xml_entity_def)

lemma escape_char_clean:
  "CHR ''<'' \<notin> set (escape_char c)" "CHR ''>'' \<notin> set (escape_char c)"
  "CHR 0x22 \<notin> set (escape_char c)"
  by (simp_all add: escape_char_def xml_entity_def)

lemma escape_all_clean:
  "CHR ''<'' \<notin> set (escape_all s)" "CHR ''>'' \<notin> set (escape_all s)"
  "CHR 0x22 \<notin> set (escape_all s)"
  by (auto simp: escape_all_def escape_char_clean)

lemma escape_loop_step:
  "used < dst_len \<Longrightarrow> xml_escape_loop dst_len used (c # s) =
     (if used + length (escape_char c) < dst_len
      then escape_char c @ xml_escape_loop dst_len (used + length (escape_char c)) s else [])"
  by (simp add: escape_char_def xml_entity_def)

lemma escape_loop_prefix:
  assumes "used < dst_len"
  obtains n where "xml_escape_loop dst_len used s = escape_all (take n s)"
    and "used + length (escape_all (take n s)) < dst_len"
    and "n < length s \<longrightarrow> dst_len \<le> used + length (escape_all (take (Suc n) s))"
    and "n \<le> length s"
  using assms
proof (induction s arbitrary: used thesis)
  case Nil
  then show ?case by simp
next
  case (Cons c s)
  show ?case
  proof (cases "used + length (escape_char c) < dst_len")
    case fits: True
    obtain n where "xml_escape_loop dst_len (used + length (escape_char c)) s = escape_all (take n s)"
      and "used + length (escape_char c) + length (escape_all (take n s)) < dst_len"
      and "n < length s \<longrightarrow>
             dst_len \<le> used + length (escape_char c) + length (escape_all (take (Suc n) s))"
      and "n \<le> length s"
      using Cons.IH [OF _ fits] by blast
    then show ?thesis
      using fits Cons.prems(2)
      by (intro Cons.prems(1) [of "Suc n"])
        (simp_all add: escape_loop_step add.assoc del: xml_escape_loop.simps)
  next
    case False
    then show ?thesis
      using Cons.prems(2)
      by (intro Cons.prems(1) [of 0]) (simp_all add: escape_loop_step del: xml_escape_loop.simps)
  qed
qed

text \<open>The reader of an escaped text; whatever is no entity stands for itself.\<close>

definition entities :: "(char \<times> string) list" where
  "entities = [(CHR ''&'', ''&amp;''), (CHR ''<'', ''&lt;''), (CHR ''>'', ''&gt;''),
               (CHR 0x22, ''&quot;'')]"

fun xml_unescape :: "string \<Rightarrow> string" where
  "xml_unescape [] = []"
| "xml_unescape (c # s) =
     (case find (\<lambda>e. prefix (snd e) (c # s)) entities of
        Some e \<Rightarrow> fst e # xml_unescape (drop (length (snd e) - 1) s)
      | None \<Rightarrow> c # xml_unescape s)"

lemma xml_unescape_char: "xml_unescape (escape_char c @ s) = c # xml_unescape s"
  by (simp add: escape_char_def xml_entity_def entities_def)

lemma xml_unescape_escape_all: "xml_unescape (escape_all s) = s"
  by (induction s) (simp_all add: xml_unescape_char del: xml_unescape.simps(2))

subsection \<open>Section tags\<close>

definition context_xml_tag_for_header :: "cptr \<Rightarrow> string" where
  "context_xml_tag_for_header header =
     (case header of None \<Rightarrow> ''memory_item''
      | Some h \<Rightarrow>
          (if h = ''Key Facts'' then ''historical_fact''
           else if h = ''Mental Models'' then ''mental_model''
           else if h = ''Constraints'' then ''constraint''
           else if h = ''Procedures'' then ''procedure_memory''
           else if h = ''Active Tasks'' then ''active_task''
           else if h = ''Recent Context'' then ''recent_event''
           else ''memory_item''))"

subsection \<open>Near duplicates\<close>

definition fnv_step :: "u64 \<Rightarrow> char \<Rightarrow> u64" where
  "fnv_step h c = (h XOR of_nat (code (tolower c))) * 1099511628211"

definition fnv_hash :: "string \<Rightarrow> u64" where
  "fnv_hash tok = foldl fnv_step 1469598103934665603 tok"

definition token_mark :: "string \<Rightarrow> u64" where
  "token_mark tok = push_bit (unat (fnv_hash tok AND 63)) 1"

function assemble_token_loop :: "string \<Rightarrow> u64 \<Rightarrow> u64" where
  "assemble_token_loop p bits =
     (if p = [] then bits
      else let start = dropWhile (\<lambda>c. \<not> isalnum c) p;
               tok = takeWhile isalnum start
           in assemble_token_loop (dropWhile isalnum start)
                (if 3 \<le> length tok then bits OR token_mark tok else bits))"
  by auto

termination assemble_token_loop
  by (relation "measure (length \<circ> fst)")
    (use split_words_shorter [where sep = "\<lambda>c. \<not> isalnum c"] in simp_all)

declare assemble_token_loop.simps [simp del]

definition assemble_token_bits :: "cptr \<Rightarrow> u64" where
  "assemble_token_bits s = assemble_token_loop (case s of None \<Rightarrow> [] | Some t \<Rightarrow> t) 0"

definition popcountll :: "u64 \<Rightarrow> nat" where
  "popcountll w = length (filter (bit w) [0..<64])"

definition assemble_texts_near_duplicate :: "cptr \<Rightarrow> cptr \<Rightarrow> bool" where
  "assemble_texts_near_duplicate a b =
     (let ba = assemble_token_bits a; bb = assemble_token_bits b
      in if ba = 0 \<or> bb = 0 then False
         else if 56 \<le> popcountll ba \<or> 56 \<le> popcountll bb then False
         else let both = popcountll (ba AND bb); uni = popcountll (ba OR bb)
              in if uni = 0 then False else uni * 85 \<le> both * 100)"

text \<open>The words of a text, and what the bit set says of them.\<close>

definition tokens :: "string \<Rightarrow> string list" where
  "tokens p = filter (\<lambda>t. 3 \<le> length t) (split_words (\<lambda>c. \<not> isalnum c) p)"

lemma tokens_simps:
  "tokens p =
     (if p = [] then []
      else let start = dropWhile (\<lambda>c. \<not> isalnum c) p;
               tok = takeWhile isalnum start
           in (if 3 \<le> length tok then [tok] else []) @ tokens (dropWhile isalnum start))"
  by (simp add: tokens_def split_words.simps [of _ p] Let_def)

lemma token_loop_fold:
  "assemble_token_loop p bits = foldl (\<lambda>b t. b OR token_mark t) bits (tokens p)"
proof (induction p bits rule: assemble_token_loop.induct)
  case (1 p bits)
  show ?case
    by (subst assemble_token_loop.simps, subst tokens_simps)
      (use 1 in \<open>simp add: Let_def\<close>)
qed

lemma bit_foldl_or:
  fixes bits :: u64
  shows "bit (foldl (\<lambda>b t. b OR f t) bits ts) i \<longleftrightarrow> bit bits i \<or> (\<exists>t\<in>set ts. bit (f t) i)"
  by (induction ts arbitrary: bits) (auto simp: bit_or_iff)

lemma and_63: "unat (w AND 63 :: u64) = unat w mod 64"
proof -
  have "unat (w AND 63) = unat w AND unat (63 :: u64)"
    by (rule unsigned_and_eq)
  also have "\<dots> = unat w AND mask 6"
    by (simp add: mask_eq_exp_minus_1)
  finally show ?thesis
    by (simp flip: take_bit_eq_mask add: take_bit_eq_mod)
qed

lemma bit_token_mark: "bit (token_mark t) i \<longleftrightarrow> i = unat (fnv_hash t) mod 64"
proof -
  have "unat (fnv_hash t) mod 64 < 64"
    by simp
  then show ?thesis
    by (auto simp: token_mark_def bit_simps and_63)
qed

lemma bit_token_bits:
  "bit (assemble_token_bits (Some s)) i \<longleftrightarrow> (\<exists>t\<in>set (tokens s). i = unat (fnv_hash t) mod 64)"
  by (simp add: assemble_token_bits_def token_loop_fold bit_foldl_or bit_token_mark)

lemma fnv_step_tolower: "fnv_step h (tolower c) = fnv_step h c"
  by (simp add: fnv_step_def)

lemma tolower_fnv [simp]: "fnv_hash (map tolower tok) = fnv_hash tok"
  by (simp add: fnv_hash_def foldl_map fnv_step_tolower)

lemma isalnum_tolower [simp]: "isalnum (tolower c) = isalnum c"
  by (auto simp: isalnum_def isdigit_def isupper_def islower_def code_tolower)

lemma tokens_tolower: "tokens (map tolower s) = map (map tolower) (tokens s)"
  by (simp add: tokens_def split_words_map filter_map comp_def)

lemma token_bits_tolower:
  "assemble_token_bits (Some (map tolower s)) = assemble_token_bits (Some s)"
  by (rule bit_word_eqI) (simp add: bit_token_bits tokens_tolower)

lemma token_bits_zero: "assemble_token_bits (Some s) = 0 \<longleftrightarrow> tokens s = []"
proof
  assume zero: "assemble_token_bits (Some s) = 0"
  show "tokens s = []"
  proof (rule ccontr)
    assume "tokens s \<noteq> []"
    then have "bit (assemble_token_bits (Some s)) (unat (fnv_hash (last (tokens s))) mod 64)"
      unfolding bit_token_bits by (metis last_in_set)
    then show False
      by (simp add: zero)
  qed
qed (simp add: assemble_token_bits_def token_loop_fold)

definition mark_set :: "string \<Rightarrow> nat set" where
  "mark_set s = (\<lambda>t. unat (fnv_hash t) mod 64) ` set (tokens s)"

lemma mark_set_bound: "mark_set s \<subseteq> {0..<64}" and finite_mark_set [simp]: "finite (mark_set s)"
  by (auto simp: mark_set_def)

lemma popcount_card: "popcountll w = card {i. i < 64 \<and> bit w i}"
  unfolding popcountll_def
  by (subst distinct_card [symmetric]) (auto intro!: arg_cong [where f = card])

lemma popcount_token_bits:
  "popcountll (assemble_token_bits (Some s)) = card (mark_set s)"
  "popcountll (assemble_token_bits (Some s) AND assemble_token_bits (Some t)) = card (mark_set s \<inter> mark_set t)"
  "popcountll (assemble_token_bits (Some s) OR assemble_token_bits (Some t)) = card (mark_set s \<union> mark_set t)"
  unfolding popcount_card
  by (auto simp: bit_simps bit_token_bits mark_set_def intro!: arg_cong [where f = card])

lemma near_duplicate_jaccard:
  "assemble_texts_near_duplicate (Some s) (Some t) \<longleftrightarrow>
     tokens s \<noteq> [] \<and> tokens t \<noteq> [] \<and> card (mark_set s) < 56 \<and> card (mark_set t) < 56 \<and>
     85 * card (mark_set s \<union> mark_set t) \<le> 100 * card (mark_set s \<inter> mark_set t)"
proof -
  have "tokens s \<noteq> [] \<Longrightarrow> card (mark_set s \<union> mark_set t) \<noteq> 0"
    by (simp add: mark_set_def)
  then show ?thesis
    by (auto simp: assemble_texts_near_duplicate_def Let_def popcount_token_bits token_bits_zero)
qed

end
