(* ===== verification/Tokens.thy ===== *)
theory Tokens
  imports C_Base
begin

text \<open>
  Token helpers of \<open>memory_core_search_b.c\<close> and \<open>memory_core_helpers.c\<close>: splitting a normalised
  text, looking a token up in it, the token tables, and reading a decimal.
\<close>

subsection \<open>Splitting and lookup\<close>

definition memory_split_tokens :: "cptr \<Rightarrow> int \<Rightarrow> string list" where
  "memory_split_tokens text max_tokens =
     (case text of None \<Rightarrow> []
      | Some s \<Rightarrow> take (nat max_tokens) (map (take 63) (split_words (\<lambda>c. c = CHR '' '') s)))"

text \<open>The search loop: the position behind each hit that is not on token borders.\<close>

function token_loop :: "string \<Rightarrow> string \<Rightarrow> nat \<Rightarrow> bool" where
  "token_loop s token p =
     (if token = [] then False
      else case strstr (drop p s) token of None \<Rightarrow> False
           | Some i \<Rightarrow>
               let q = p + i
               in if (q = 0 \<or> char_at s (q - 1) = CHR '' '') \<and>
                     (char_at s (q + length token) = NUL \<or> char_at s (q + length token) = CHR '' '')
                  then True
                  else token_loop s token (q + length token))"
  by auto

termination token_loop
proof (relation "measure (\<lambda>(s, token, p). length s - p)", simp, goal_cases)
  case (1 s token p i q)
  then show ?case
    using strstr_bound [of "drop p s" token i] by (cases token) auto
qed

declare token_loop.simps [simp del]

definition memory_token_in_norm :: "cptr \<Rightarrow> cptr \<Rightarrow> bool" where
  "memory_token_in_norm text token =
     (case (text, token) of (Some s, Some t) \<Rightarrow> token_loop s t 0 | _ \<Rightarrow> False)"

definition memory_query_has_term :: "cptr \<Rightarrow> cptr \<Rightarrow> bool" where
  "memory_query_has_term norm_query term' \<longleftrightarrow> nonempty term' \<and> memory_token_in_norm norm_query term'"

text \<open>A bounded occurrence of \<open>t\<close> at \<open>q\<close>.\<close>

definition token_at :: "string \<Rightarrow> string \<Rightarrow> nat \<Rightarrow> bool" where
  "token_at s t q \<longleftrightarrow>
     prefix t (drop q s) \<and> (q = 0 \<or> char_at s (q - 1) = CHR '' '') \<and>
     (char_at s (q + length t) = NUL \<or> char_at s (q + length t) = CHR '' '')"

lemma token_loop_unfold:
  "t \<noteq> [] \<Longrightarrow> token_loop s t p =
     (case strstr (drop p s) t of None \<Rightarrow> False
      | Some i \<Rightarrow> token_at s t (p + i) \<or> token_loop s t (p + i + length t))"
  by (subst token_loop.simps)
    (auto simp: token_at_def Let_def add.commute dest: strstr_Some split: option.split)

lemma token_loop_sound: "token_loop s t p \<Longrightarrow> \<exists>q. token_at s t q"
proof (induction s t p rule: token_loop.induct)
  case (1 s t p)
  have t: "t \<noteq> []"
    using 1(2) by (cases t) (simp_all add: token_loop.simps)
  then obtain i where i: "strstr (drop p s) t = Some i"
    using 1(2) by (auto simp: token_loop_unfold split: option.splits)
  show ?case
  proof (cases "token_at s t (p + i)")
    case False
    then have rest: "token_loop s t (p + i + length t)"
      using 1(2) i t by (simp add: token_loop_unfold)
    have "\<not> ((p + i = 0 \<or> char_at s (p + i - 1) = CHR '' '') \<and>
        (char_at s (p + i + length t) = NUL \<or> char_at s (p + i + length t) = CHR '' ''))"
      using False strstr_Some [OF i] by (auto simp: token_at_def add.commute)
    then show ?thesis
      using 1(1) [OF t i refl] rest by simp
  qed blast
qed

text \<open>
  A token without a space is not missed: the search goes on behind a hit, and a bounded
  occurrence that overlaps the hit would start behind a space inside it.
\<close>

lemma token_overlap:
  assumes "prefix t (drop p s)" "token_at s t q" "p < q" "q < p + length t" "CHR '' '' \<notin> set t"
  shows False
proof -
  obtain u where u: "drop p s = t @ u"
    using assms(1) by (auto simp: prefix_def)
  define k where "k = q - Suc p"
  have k: "q = Suc (p + k)" "k < length t"
    using assms(3,4) by (auto simp: k_def)
  have len: "p + length t \<le> length s"
    using arg_cong [OF u, of length] k by simp
  have "s ! (p + k) = drop p s ! k"
    using k len by simp
  then have "s ! (p + k) = t ! k"
    using k by (simp add: u nth_append)
  moreover have "s ! (p + k) = CHR '' ''"
    using assms(2) k len by (simp add: token_at_def)
  ultimately show False
    using assms(5) nth_mem [OF k(2)] by simp
qed

lemma token_loop_complete:
  "t \<noteq> [] \<Longrightarrow> CHR '' '' \<notin> set t \<Longrightarrow> token_at s t q \<Longrightarrow> p \<le> q \<Longrightarrow> token_loop s t p"
proof (induction s t p rule: token_loop.induct)
  case (1 s t p)
  note t = 1(2) and q = 1(4)
  have at_q: "prefix t (drop q s)"
    using q by (simp add: token_at_def)
  obtain i where i: "strstr (drop p s) t = Some i"
  proof (cases "strstr (drop p s) t")
    case None
    have "sublist t (drop p s)"
    proof -
      have "drop q s = drop (q - p) (drop p s)"
        using 1(5) by simp
      then have "sublist (drop q s) (drop p s)"
        by (metis sublist_drop)
      then show ?thesis
        using at_q by (meson prefix_imp_sublist sublist_order.order_trans)
    qed
    then show thesis
      using None by (simp flip: contains_sublist add: contains_def)
  qed
  have first: "p + i \<le> q"
  proof (rule ccontr)
    assume "\<not> p + i \<le> q"
    then have "q - p < i"
      using 1(5) by simp
    then show False
      using strstr_first [OF i, of "q - p"] at_q 1(5) by simp
  qed
  show ?case
  proof (cases "token_at s t (p + i)")
    case False
    have hit: "prefix t (drop (p + i) s)"
      using strstr_Some [OF i] by (simp add: add.commute)
    have behind: "p + i + length t \<le> q"
      using False q first token_overlap [OF hit q] 1(3) by (metis le_neq_implies_less not_le)
    have "\<not> ((p + i = 0 \<or> char_at s (p + i - 1) = CHR '' '') \<and>
        (char_at s (p + i + length t) = NUL \<or> char_at s (p + i + length t) = CHR '' ''))"
      using False hit by (auto simp: token_at_def)
    then have "token_loop s t (p + i + length t)"
      using 1(1) [OF t i refl] t 1(3) q behind by simp
    then show ?thesis
      using t i by (simp add: token_loop_unfold)
  qed (use t i in \<open>simp add: token_loop_unfold\<close>)
qed

text \<open>Bounded occurrences are the words of the text.\<close>

lemma token_at_word:
  assumes "t \<noteq> []" "CHR '' '' \<notin> set t" "cstring s"
  shows "(\<exists>q. token_at s t q) \<longleftrightarrow> t \<in> set (split_words (\<lambda>c. c = CHR '' '') s)"
proof
  assume "\<exists>q. token_at s t q"
  then obtain q where q: "token_at s t q"
    by blast
  then obtain b where b: "drop q s = t @ b"
    by (auto simp: token_at_def prefix_def)
  have len: "q + length t + length b = length s"
    using arg_cong [OF b, of length] assms(1) by (cases t) auto
  have s: "s = take q s @ t @ b"
    using b append_take_drop_id [of q s] by simp
  have "take q s = [] \<or> last (take q s) = CHR '' ''"
    using q len by (cases q) (auto simp: token_at_def take_Suc_conv_app_nth)
  moreover have "b = [] \<or> hd b = CHR '' ''"
  proof (cases b)
    case (Cons c cs)
    have "s ! (q + length t) = c"
      using len Cons by (subst s) (simp add: nth_append)
    then have "c = NUL \<or> c = CHR '' ''"
      using q len Cons by (simp add: token_at_def)
    moreover have "c \<in> set s"
      using Cons by (subst s) simp
    ultimately show ?thesis
      using assms(3) Cons by (auto simp: cstring_def)
  qed simp
  ultimately show "t \<in> set (split_words (\<lambda>c. c = CHR '' '') s)"
    using split_words_complete [of t "\<lambda>c. c = CHR '' ''" s "take q s" b] s assms(1,2) by blast
next
  assume "t \<in> set (split_words (\<lambda>c. c = CHR '' '') s)"
  then obtain a b where ab: "s = a @ t @ b" "a = [] \<or> last a = CHR '' ''" "b = [] \<or> hd b = CHR '' ''"
    using split_words_maximal by blast
  have "token_at s t (length a)"
    using ab(2,3) by (cases a rule: rev_cases; cases b) (auto simp: token_at_def ab(1) nth_append)
  then show "\<exists>q. token_at s t q" ..
qed

lemma token_in_norm_words:
  assumes "t \<noteq> []" "CHR '' '' \<notin> set t" "cstring s"
  shows "memory_token_in_norm (Some s) (Some t) \<longleftrightarrow> t \<in> set (split_words (\<lambda>c. c = CHR '' '') s)"
  using token_at_word [OF assms] token_loop_sound token_loop_complete [OF assms(1,2)]
  by (auto simp: memory_token_in_norm_def)

end
