(* ===== verification/Record_Properties.thy ===== *)
theory Record_Properties
  imports Provider Lifecycle Redirect Effective Profile_Pack Assemble_Util Tokens
begin

text \<open>
  Properties of the components around a memory row: the provider registry, the lifecycle of a
  row, the redirect hook, profile packs, the effective importance, the canonical filter, and
  the text utilities of context assembly and search.
\<close>

section \<open>Providers\<close>

text \<open>
  C21. The active provider after any history of registrations and resets is the first named
  external one since the last reset, else the last named bundled one since then, else none: a
  second external registration never displaces the first, whatever comes between.
\<close>

theorem active_provider_of_history:
  "memory_provider_get_active (provider_run calls) =
     (case first_external (since_reset calls) of
        Some p \<Rightarrow> Some p
      | None \<Rightarrow> last_bundled (since_reset calls))"
  using provider_run_slots [of calls] by (auto simp: memory_provider_get_active_def split: option.split)

section \<open>Lifecycle\<close>

text \<open>What the store promises of a state update: it is read back, and no other row changes.\<close>

definition state_store :: "(int \<Rightarrow> 'db \<Rightarrow> string option) \<Rightarrow> (int \<Rightarrow> string \<Rightarrow> cptr \<Rightarrow> 'db \<Rightarrow> 'db option) \<Rightarrow> bool" where
  "state_store get_state update_state \<longleftrightarrow>
     (\<forall>k s r db db'. update_state k s r db = Some db' \<longrightarrow>
        get_state k db' = Some s \<and> (\<forall>k'. k' \<noteq> k \<longrightarrow> get_state k' db' = get_state k' db))"

lemma transition_cases:
  assumes "memory_transition_lifecycle cfg get_state update_state db k new_state reason = (rc, db')"
  obtains (refused) "rc = -1" "db' = db"
  | (accepted) st s where "rc = 0" "new_state = Some s" "get_state k db = Some st"
      "lc_transition_allowed cfg (cbuf 32 st) s" "update_state k s reason db = Some db'"
  using assms by (auto simp: memory_transition_lifecycle_def Let_def split: option.splits if_splits)

lemma transition_step:
  assumes "labels_ok cfg" "state_store get_state update_state"
    and "memory_transition_lifecycle cfg get_state update_state db k new_state reason = (rc, db')"
  shows "(rc = -1 \<and> db' = db) \<or>
    (rc = 0 \<and> (\<exists>a b st. life_step a b \<and> get_state k db = Some st \<and> cbuf 32 st = label cfg a \<and>
       new_state = Some (label cfg b) \<and> get_state k db' = Some (label cfg b) \<and>
       (\<forall>k'. k' \<noteq> k \<longrightarrow> get_state k' db' = get_state k' db)))"
  using assms(3)
proof (cases rule: transition_cases)
  case refused
  then show ?thesis
    by simp
next
  case (accepted st s)
  obtain a b where ab: "cbuf 32 st = label cfg a" "s = label cfg b" "life_step a b"
    using allowed_labels [OF assms(1) accepted(4)] .
  moreover have "get_state k db' = Some s \<and> (\<forall>k'. k' \<noteq> k \<longrightarrow> get_state k' db' = get_state k' db)"
    using assms(2) accepted(5) unfolding state_store_def by blast
  ultimately show ?thesis
    using accepted(1-3) by blast
qed

text \<open>
  C22. A lifecycle transition refines the abstract state machine, in both directions: it is
  accepted (result 0) exactly when the identifier is positive, the row's state and the
  requested one are joined by an arrow of the machine, and the store takes the update; the row
  then reads as the new state and no other row changes.  A refused call reports -1 and leaves
  the store as it was.
\<close>

theorem lifecycle_refines_machine:
  assumes "labels_ok cfg" "state_store get_state update_state"
    and "memory_transition_lifecycle cfg get_state update_state db k new_state reason = (rc, db')"
  shows "(rc = 0 \<longleftrightarrow>
      0 < k \<and> (\<exists>a b st. life_step a b \<and> get_state k db = Some st \<and> cbuf 32 st = label cfg a \<and>
        new_state = Some (label cfg b) \<and> update_state k (label cfg b) reason db \<noteq> None)) \<and>
    (rc = 0 \<longrightarrow> get_state k db' = new_state \<and> (\<forall>k'. k' \<noteq> k \<longrightarrow> get_state k' db' = get_state k' db)) \<and>
    (rc \<noteq> 0 \<longrightarrow> rc = -1 \<and> db' = db)"
proof -
  have "rc = 0"
    if "0 < k" "life_step a b" "get_state k db = Some st" "cbuf 32 st = label cfg a"
      "new_state = Some (label cfg b)" "update_state k (label cfg b) reason db \<noteq> None" for a b st
  proof -
    have "lc_is_valid_state cfg (Some (label cfg b))" "lc_transition_allowed cfg (label cfg a) (label cfg b)"
      using valid_label [OF assms(1)] allowed_step [OF assms(1)] that(2) by blast+
    then show ?thesis
      using that assms(3) by (auto simp: memory_transition_lifecycle_def)
  qed
  moreover have "0 < k \<and> (\<exists>s. new_state = Some s \<and> update_state k s reason db \<noteq> None)" if "rc = 0"
    using assms(3) that by (auto simp: memory_transition_lifecycle_def Let_def
        split: option.splits if_splits)
  ultimately show ?thesis
    using transition_step [OF assms] by auto
qed

text \<open>A store for the witnesses: a list of rows with their states.\<close>

definition row_get :: "int \<Rightarrow> (int \<Rightarrow> string option) \<Rightarrow> string option" where
  "row_get k db = db k"

definition row_put :: "int \<Rightarrow> string \<Rightarrow> cptr \<Rightarrow> (int \<Rightarrow> string option) \<Rightarrow> (int \<Rightarrow> string option) option" where
  "row_put k s r db = Some (db(k \<mapsto> s))"

lemma row_store: "state_store row_get row_put"
  by (auto simp: state_store_def row_get_def row_put_def)

definition sample_labels :: lifecycle_config where
  "sample_labels = \<lparr>st_active = ''active'', st_pending = ''pending'', st_fulfilled = ''fulfilled'',
     st_superseded = ''superseded'', st_archived = ''archived'', ttl_relative = 7, ttl_open_ended = 30\<rparr>"

lemma sample_labels_ok: "labels_ok sample_labels"
  by (simp add: labels_ok_def sample_labels_def)

theorem lifecycle_refines_machine_witness:
  "\<exists>a b. life_step a b \<and> cbuf 32 ''active'' = label sample_labels a \<and> Some ''pending'' = Some (label sample_labels b)"
proof -
  have "memory_transition_lifecycle sample_labels row_get row_put [7 \<mapsto> ''active''] 7 (Some ''pending'') None
      = (0, [7 \<mapsto> ''pending''])"
    by (simp add: memory_transition_lifecycle_def row_get_def row_put_def sample_labels_def
        lc_is_valid_state_def lc_transition_allowed_def cbuf_def)
  from lifecycle_refines_machine [OF sample_labels_ok row_store this] show ?thesis
    by (simp add: row_get_def) blast
qed

text \<open>A run of transitions, on any rows, and how many of those on row \<open>k\<close> were accepted.\<close>

fun accepted_on :: "lifecycle_config \<Rightarrow> (int \<Rightarrow> 'db \<Rightarrow> string option) \<Rightarrow> (int \<Rightarrow> string \<Rightarrow> cptr \<Rightarrow> 'db \<Rightarrow> 'db option)
    \<Rightarrow> int \<Rightarrow> (int \<times> cptr \<times> cptr) list \<Rightarrow> 'db \<Rightarrow> nat" where
  "accepted_on cfg get_state update_state k [] db = 0"
| "accepted_on cfg get_state update_state k ((j, s, r) # calls) db =
     (let (rc, db') = memory_transition_lifecycle cfg get_state update_state db j s r
      in (if rc = 0 \<and> j = k then 1 else 0) + accepted_on cfg get_state update_state k calls db')"

lemma accepted_on_rank:
  assumes "labels_ok cfg" "state_store get_state update_state"
  shows "accepted_on cfg get_state update_state k calls db = 0 \<or>
    (\<exists>a st. get_state k db = Some st \<and> cbuf 32 st = label cfg a \<and>
       life_rank a + accepted_on cfg get_state update_state k calls db \<le> 3)"
proof (induction calls arbitrary: db)
  case (Cons call calls)
  obtain j s r where call: "call = (j, s, r)"
    by (cases call)
  obtain rc db' where run: "memory_transition_lifecycle cfg get_state update_state db j s r = (rc, db')"
    by fastforce
  let ?rest = "accepted_on cfg get_state update_state k calls db'"
  have count: "accepted_on cfg get_state update_state k (call # calls) db =
      (if rc = 0 \<and> j = k then 1 else 0) + ?rest"
    by (simp add: call run)
  note step = transition_step [OF assms run]
  show ?case
  proof (cases "rc = 0 \<and> j = k")
    case True
    then obtain a b st where ab: "life_step a b" "get_state k db = Some st" "cbuf 32 st = label cfg a"
      "get_state k db' = Some (label cfg b)"
      using step by auto
    have "?rest = 0 \<or> life_rank b + ?rest \<le> 3"
      using Cons.IH [of db'] ab(4) by (auto simp: label_buf [OF assms(1)] label_inject [OF assms(1)])
    then have "life_rank a + (1 + ?rest) \<le> 3"
      using life_step_rank [OF ab(1)] life_rank_max [of b] by auto
    then show ?thesis
      using True ab(2,3) by (auto simp: count)
  next
    case False
    then have "get_state k db' = get_state k db"
      using step by metis
    moreover have "accepted_on cfg get_state update_state k (call # calls) db = ?rest"
      using False count by auto
    ultimately show ?thesis
      using Cons.IH [of db'] by simp
  qed
qed simp

text \<open>
  No row makes more than three transitions, in any run of calls over any rows: the machine
  has no cycle, so a row that reaches the archive stays there.
\<close>

lemma lifecycle_at_most_three:
  assumes "labels_ok cfg" "state_store get_state update_state"
  shows "accepted_on cfg get_state update_state k calls db \<le> 3"
  using accepted_on_rank [OF assms, of k calls db] by auto

lemma lifecycle_at_most_three_instance:
  "accepted_on sample_labels row_get row_put 7
     [(7, Some ''pending'', None), (7, Some ''active'', None), (7, Some ''fulfilled'', None), (7, Some ''archived'', None)]
     [7 \<mapsto> ''active''] \<le> 3"
  by (rule lifecycle_at_most_three [OF sample_labels_ok row_store])

section \<open>The redirect hook\<close>

text \<open>
  C24. A write the hook takes over lies under the client's projects root and behind its memory
  segment, is not the rendered index, and gets a non-empty name that fits the buffer, does not
  start with a slash and has no \<open>..\<close> segment, unless the name as a whole is \<open>..\<close> (a file called
  \<open>...md\<close>, which the test for \<open>..\<close> segments misses).
\<close>

theorem redirected_name_confined:
  assumes "memory_redirect_classify scope_for_client client tool path home name_cap = MR_REDIRECT name"
  shows "\<exists>scope h p. scope_for_client client = Some scope \<and> home = Some h \<and> path = Some p \<and>
    tool = Some ''Write'' \<and> prefix (path_prefix h scope) p \<and>
    contains (drop (length (path_prefix h scope)) p) (path_memseg scope) \<and>
    map tolower (base_name p) \<noteq> map tolower ''MEMORY.md'' \<and>
    sublist name p \<and> length name < max 1 name_cap \<and> (1 < name_cap \<longrightarrow> name \<noteq> [] \<and> hd name \<noteq> CHR ''/'') \<and>
    (dotdot_segment name \<longrightarrow> name = ''..'')"
proof -
  obtain scope h p i after where c: "scope_for_client client = Some scope" "home = Some h" "h \<noteq> []"
    "path = Some p" "tool = Some ''Write''" "prefix (path_prefix h scope) p"
    "strstr (drop (length (path_prefix h scope)) p) (path_memseg scope) = Some i" "ends_md_ci p"
    "map tolower (base_name p) \<noteq> map tolower ''MEMORY.md''"
    "after = drop (length (path_prefix h scope) + i + length (path_memseg scope)) p"
    "classify_name name_cap after = MR_REDIRECT name"
    using classify_redirectE [OF assms] .
  note n = classify_nameE [OF c(11)]
  have pre: "prefix name after"
    by (rule classify_name_prefix [OF c(11)])
  have "suffix after p"
    using c(10) by (simp add: suffix_drop)
  then have sub: "sublist name p"
    using pre by (auto simp: prefix_def suffix_def sublist_def)
  have dots: "name = ''..''" if "dotdot_segment name"
    using no_dotdot [OF _ _ that] n(3,4) sublist_prefix_trans [OF pre] by blast
  have len: "length name < max 1 name_cap"
    using n(5) by (cases "name_cap = 0") (auto simp: cbuf_def)
  have hd: "name \<noteq> [] \<and> hd name \<noteq> CHR ''/''" if "1 < name_cap"
  proof -
    have "name \<noteq> []"
      using n(1,5) that by (auto simp: cbuf_def)
    moreover have "hd name = after ! 0"
      using pre \<open>name \<noteq> []\<close> by (auto simp: prefix_def hd_conv_nth nth_append)
    ultimately show ?thesis
      using n(2) by simp
  qed
  have "contains (drop (length (path_prefix h scope)) p) (path_memseg scope)"
    using c(7) by (simp add: contains_def)
  then show ?thesis
    using c(1,2,4,5,6,9) sub len hd dots by blast
qed

definition sample_scope :: "cptr \<Rightarrow> hmem_scope option" where
  "sample_scope c = Some \<lparr>projects_root = ''p'', memory_seg = ''m''\<rparr>"

theorem redirected_name_confined_witness:
  "memory_redirect_classify sample_scope None (Some ''Write'') (Some ''/h/p/x/m/...md'') (Some ''/h'') 512
     = MR_REDIRECT ''..'' \<and> dotdot_segment ''..'' \<and> sublist ''..'' ''/h/p/x/m/...md''"
proof -
  have run: "memory_redirect_classify sample_scope None (Some ''Write'') (Some ''/h/p/x/m/...md'') (Some ''/h'') 512
     = MR_REDIRECT ''..''"
    by code_simp
  have "dotdot_segment ''..''"
    by (auto simp: dotdot_segment_def)
  then show ?thesis
    using run redirected_name_confined [OF run] by auto
qed

text \<open>
  C25. The hook never loses a write.  It blocks a write as saved only when the store accepted
  the captured content; a write it tried to store without success is let through, and only
  after its content went to the spill file; and a write it blocks for any other reason was not
  sent anywhere and has a message.
\<close>

theorem hook_never_loses_a_write:
  assumes "memory_redirect_check env client home tool input cwd project_hint = (rc, msg, effects)"
  shows "(rc = 0 \<or> rc = 2 \<and> msg \<noteq> None) \<and>
    (msg = Some Msg_Saved \<longrightarrow> (\<exists>js content key st. input = Some js \<and> js ''content'' = Some content \<and>
       Capture key content \<in> set effects \<and> env_post env key content = Some st \<and> 200 \<le> st \<and> st < 300)) \<and>
    (rc = 0 \<longrightarrow> (\<forall>key content. Capture key content \<in> set effects \<longrightarrow>
       (\<exists>project name. Spill project name content \<in> set effects))) \<and>
    (rc = 2 \<and> msg \<noteq> Some Msg_Saved \<longrightarrow> (\<forall>key content. Capture key content \<notin> set effects))"
proof -
  have store: "?thesis" if js: "input = Some js" "js ''content'' = Some content"
    and run: "hook_store env project name content = (rc, msg, effects)" for js content project name
    using run js by (auto simp: hook_store_def Let_def split: option.splits if_splits)
  show ?thesis
    using assms store
    by (auto simp: memory_redirect_check_def Let_def split: option.splits if_splits mr_verdict.splits)
qed

definition sample_env :: hook_env where
  "sample_env = \<lparr>env_scope = sample_scope, env_key_ok = (\<lambda>k. True), env_resolve = (\<lambda>c. None),
     env_endpoint = True, env_post = (\<lambda>k c. Some 503), env_spill = (\<lambda>p n c. 0), env_key_max = 64\<rparr>"

theorem hook_never_loses_a_write_witness:
  "\<exists>project name. Spill project name ''body'' \<in> set (snd (snd (memory_redirect_check sample_env None (Some ''/h'')
     (Some ''Write'') (Some [''file_path'' \<mapsto> ''/h/p/x/m/a.md'', ''content'' \<mapsto> ''body'']) None (Some ''proj''))))"
proof -
  let ?run = "memory_redirect_check sample_env None (Some ''/h'') (Some ''Write'')
    (Some [''file_path'' \<mapsto> ''/h/p/x/m/a.md'', ''content'' \<mapsto> ''body'']) None (Some ''proj'')"
  obtain rc msg effects where run: "?run = (rc, msg, effects)"
    by (cases ?run)
  have "fst ?run = 0" "Capture ''archive:proj/a'' ''body'' \<in> set (snd (snd ?run))"
    by code_simp+
  then show ?thesis
    using hook_never_loses_a_write [OF run] unfolding run by auto
qed

text \<open>
  C26. The shell guard only fires on a write: a command it blocks names a markdown file behind
  the memory segment under the client's projects root, and the part of the simple command
  before that path has an unquoted \<open>>\<close> or one of the write keywords.  A command with neither
  is never blocked.
\<close>

theorem bash_guard_only_blocks_writes:
  assumes "memory_redirect_bash_targets_memory scope_for_client client command home"
  shows "\<exists>scope cmd h p. scope_for_client client = Some scope \<and> command = Some cmd \<and> home = Some h \<and>
    prefix (path_prefix h scope) (drop p cmd) \<and> contains (path_token cmd p) (path_memseg scope) \<and>
    ends_md_ci (path_token cmd p) \<and>
    (unquoted_redirect False False (command_region cmd p) \<or>
       (\<exists>kw\<in>set write_keywords. contains (command_region cmd p) kw)) \<and>
    (CHR ''>'' \<in> set cmd \<or> (\<exists>kw\<in>set write_keywords. contains (command_region cmd p) kw))"
proof -
  obtain scope cmd h where c: "scope_for_client client = Some scope" "command = Some cmd" "home = Some h"
    and loop: "bash_loop cmd (path_prefix h scope) (path_memseg scope) 0"
    using assms by (auto simp: memory_redirect_bash_targets_memory_def split: option.splits if_splits)
  obtain p where p: "prefix (path_prefix h scope) (drop p cmd)" "token_is_memory_write cmd (path_memseg scope) p"
    using bash_loop_sound [OF loop] by blast
  have region: "unquoted_redirect False False (command_region cmd p) \<or>
      (\<exists>kw\<in>set write_keywords. contains (command_region cmd p) kw)"
    using p(2) by (auto simp: token_is_memory_write_def region_has_write_op_def list_ex_iff Let_def)
  then have "CHR ''>'' \<in> set cmd \<or> (\<exists>kw\<in>set write_keywords. contains (command_region cmd p) kw)"
    using unquoted_redirect_char region_set by blast
  then show ?thesis
    using c p region by (auto simp: token_is_memory_write_def Let_def)
qed

theorem bash_guard_only_blocks_writes_witness:
  "memory_redirect_bash_targets_memory sample_scope None (Some ''echo x > /h/p/q/m/a.md'') (Some ''/h'') \<and>
   (CHR ''>'' \<in> set ''echo x > /h/p/q/m/a.md'' \<or> (\<exists>p. \<exists>kw\<in>set write_keywords. contains (command_region ''echo x > /h/p/q/m/a.md'' p) kw))"
proof -
  have run: "memory_redirect_bash_targets_memory sample_scope None (Some ''echo x > /h/p/q/m/a.md'') (Some ''/h'')"
    by code_simp
  then show ?thesis
    using bash_guard_only_blocks_writes [OF run] by auto
qed

section \<open>Profile packs\<close>

text \<open>
  C27. A pack that loads is well formed: a non-empty name, every string within its buffer, at
  most eight tiers, each a known one, and at most sixteen kinds; and it was read from a file
  whose parsed contents pass the validation.  A pack that does not load gives an error that
  fits the error buffer.
\<close>

theorem loaded_pack_well_formed:
  assumes "0 < errlen"
  shows "case memory_profile_pack_load path_cap size_error parse files dir name errlen of
      Inr pack \<Rightarrow> well_packed pack \<and>
        (\<exists>contents root. files (pack_path path_cap dir (the name)) = Some contents \<and>
           parse contents = Some root \<and> validate_json root = None \<and> pack = read_pack root)
    | Inl err \<Rightarrow> length err < errlen"
proof (cases "memory_profile_pack_load path_cap size_error parse files dir name errlen")
  case (Inr pack)
  then show ?thesis
    using load_valid [OF Inr] read_pack_well by (auto intro: load_valid [OF Inr])
next
  case (Inl err)
  then show ?thesis
    using assms by (auto simp: memory_profile_pack_load_def Let_def length_cbuf split: if_splits sum.splits option.splits)
qed

definition sample_pack :: cjson where
  "sample_pack = JObject [(''name'', JString ''coding''), (''description'', JString ''d'')]"

theorem loaded_pack_well_formed_witness:
  "memory_profile_pack_load 4096 (\<lambda>s n. s) (\<lambda>s. Some sample_pack) (\<lambda>p. Some ''{}'') ''/packs'' (Some ''coding'') 256
     = Inr (read_pack sample_pack) \<and> well_packed (read_pack sample_pack)"
proof -
  have run: "memory_profile_pack_load 4096 (\<lambda>s n. s) (\<lambda>s. Some sample_pack) (\<lambda>p. Some ''{}'') ''/packs''
      (Some ''coding'') 256 = Inr (read_pack sample_pack)"
    by (simp add: memory_profile_pack_load_def memory_profile_pack_validate_file_def sample_pack_def
        validate_json_def check_rules_def check_object_def known_top_keys_def json_text_def nonempty_def pack_path_def
        cbuf_def Let_def)
  have "(0::nat) < 256"
    by simp
  from loaded_pack_well_formed [OF this, where path_cap = 4096 and size_error = "\<lambda>s n. s" and
      parse = "\<lambda>s. Some sample_pack" and files = "\<lambda>p. Some ''{}''" and dir = "''/packs''" and name = "Some ''coding''"]
  show ?thesis
    using run by simp
qed

text \<open>
  Selecting a pack and asking for the active one returns the selected name, when the name
  is one line, fits the name buffer and the caller's buffer, and does not end in a carriage
  return; a selection that fails leaves the files as they were.
\<close>

lemma active_pack_round_trip:
  assumes "CHR 0x0A \<notin> set s" "s \<noteq> []" "last s \<noteq> CHR 0x0D" "length s < 64" "length s < len"
    and "memory_profile_pack_set_active path_cap writable files dir (Some s) = (rc, files')"
  shows "if writable then rc = 0 \<and> memory_profile_pack_active path_cap files' dir len = s
    else rc = -1 \<and> files' = files"
  using assms active_of_line [OF assms(1-4)]
  by (auto simp: memory_profile_pack_set_active_def memory_profile_pack_active_def Let_def cbuf_fits split: if_splits)

lemma active_pack_round_trip_instance:
  "memory_profile_pack_active 4096 (snd (memory_profile_pack_set_active 4096 True (\<lambda>p. None) ''/packs'' (Some ''coding'')))
     ''/packs'' 64 = ''coding''"
  using active_pack_round_trip [of "''coding''" 64 4096 True "\<lambda>p. None" "''/packs''"]
  by (auto simp: memory_profile_pack_set_active_def)

section \<open>Importance and filters\<close>

text \<open>
  The effective importance of a row lies in [0, 1], never rises as time passes and never
  falls when the row is used more.
\<close>

lemma importance_bounded_ages_and_use:
  assumes "0 < now" "now \<le> now'" "u \<le> u'"
  shows "0 \<le> memory_effective_importance p clock m now \<and> memory_effective_importance p clock m now \<le> 1 \<and>
    memory_effective_importance p clock m now' \<le> memory_effective_importance p clock m now \<and>
    memory_effective_importance p clock (Some (r\<lparr>mr_use_count := u\<rparr>)) now
      \<le> memory_effective_importance p clock (Some (r\<lparr>mr_use_count := u'\<rparr>)) now"
  using importance_bounds importance_ages [OF assms(1,2)] importance_use [OF assms(3)] by blast

lemma importance_bounded_ages_and_use_instance:
  "memory_effective_importance (\<lambda>s. Some 50) 0 (Some \<lparr>mr_kind = ''task'', mr_confidence = 1, mr_salience = 1,
     mr_created_at = ''t'', mr_use_count = 2\<rparr>) 900000
   \<le> memory_effective_importance (\<lambda>s. Some 50) 0 (Some \<lparr>mr_kind = ''task'', mr_confidence = 1, mr_salience = 1,
     mr_created_at = ''t'', mr_use_count = 2\<rparr>) 100"
  using importance_bounded_ages_and_use [of 100 900000 0 1] by simp

text \<open>
  The JSON of a filter says everything the filter says: reading its members back gives
  the filter, as long as no scope slot is literally \<open>ambient\<close>, the word an empty slot prints.
  The filter built from a scope has exactly the slot of its type set, and an unknown type sets
  the workspace.
\<close>

lemma filter_json_round_trip:
  assumes "not_ambient f"
  shows "read_filter (memory_filter_to_json (Some f)) = f"
  by (rule read_filter_json [OF assms])

lemma filter_json_round_trip_instance:
  "read_filter (memory_filter_to_json (Some (filter_zero\<lparr>mf_session := ''s1'', mf_tiers := [''L2'']\<rparr>))) =
     filter_zero\<lparr>mf_session := ''s1'', mf_tiers := [''L2'']\<rparr>"
  by (rule filter_json_round_trip) (simp add: not_ambient_def filter_zero_def)

section \<open>Texts\<close>

text \<open>
  C31. XML escaping into a bounded buffer: the result is the escape of the longest prefix of
  the source whose escape fits with its terminator, so it never cuts an entity; it has none of
  the characters that end a tag or a quoted attribute, and unescaping it gives that prefix.
\<close>

theorem xml_escape_is_longest_prefix:
  assumes "0 < dst_len"
  shows "\<exists>n \<le> length s. \<exists>out. xml_escape_text (Some s) dst_len = Some out \<and>
    out = escape_all (take n s) \<and> xml_unescape out = take n s \<and> length out < dst_len \<and>
    (n = length s \<or> dst_len \<le> length (escape_all (take (Suc n) s))) \<and>
    CHR ''<'' \<notin> set out \<and> CHR ''>'' \<notin> set out \<and> CHR 0x22 \<notin> set out"
proof -
  obtain n where n: "xml_escape_loop dst_len 0 s = escape_all (take n s)" "0 + length (escape_all (take n s)) < dst_len"
    "n < length s \<longrightarrow> dst_len \<le> 0 + length (escape_all (take (Suc n) s))" "n \<le> length s"
    using escape_loop_prefix [OF assms] .
  then show ?thesis
    using assms
    by (intro exI [of _ n] conjI exI [of _ "escape_all (take n s)"])
      (auto simp: xml_escape_text_def xml_unescape_escape_all escape_all_clean)
qed

theorem xml_escape_is_longest_prefix_witness:
  "\<exists>n out. xml_escape_text (Some ''a<b'') 5 = Some out \<and> out = escape_all (take n ''a<b'')"
  using xml_escape_is_longest_prefix [of 5 "''a<b''"] by auto

text \<open>
  The near-duplicate test is a Jaccard test: with \<open>mark_set\<close> the marks (hash modulo 64) of
  the words of three or more characters, two texts collide exactly when both have words, no set
  has 56 marks or more, and the sets share at least 85 per cent of their union.  It is symmetric
  and ignores case.
\<close>

lemma near_duplicate_is_jaccard:
  "(assemble_texts_near_duplicate (Some s) (Some t) \<longleftrightarrow>
     tokens s \<noteq> [] \<and> tokens t \<noteq> [] \<and> \<not> 56 \<le> card (mark_set s) \<and> \<not> 56 \<le> card (mark_set t) \<and>
     85 * card (mark_set s \<union> mark_set t) \<le> 100 * card (mark_set s \<inter> mark_set t)) \<and>
   assemble_texts_near_duplicate (Some s) (Some t) = assemble_texts_near_duplicate (Some t) (Some s) \<and>
   assemble_texts_near_duplicate (Some (map tolower s)) (Some t) = assemble_texts_near_duplicate (Some s) (Some t)"
proof (intro conjI)
  show "assemble_texts_near_duplicate (Some s) (Some t) = assemble_texts_near_duplicate (Some t) (Some s)"
    unfolding near_duplicate_jaccard by (subst Un_commute, subst Int_commute) blast
  show "assemble_texts_near_duplicate (Some (map tolower s)) (Some t) = assemble_texts_near_duplicate (Some s) (Some t)"
    unfolding assemble_texts_near_duplicate_def token_bits_tolower ..
qed (simp only: near_duplicate_jaccard not_le)

text \<open>
  A term is found in a normalized query exactly when it is one of the blank-separated words
  of the query, although the search runs over substrings and skips ahead after every miss.
\<close>

lemma query_term_is_word:
  assumes "t \<noteq> []" "CHR '' '' \<notin> set t" "cstring s"
  shows "memory_query_has_term (Some s) (Some t) \<longleftrightarrow> t \<in> set (split_words (\<lambda>c. c = CHR '' '') s)"
  using token_in_norm_words [OF assms] assms(1) by (simp add: memory_query_has_term_def)

lemma query_term_is_word_instance:
  "memory_query_has_term (Some ''what is the wifi password'') (Some ''wifi'')"
proof -
  have "''wifi'' \<in> set (split_words (\<lambda>c. c = CHR '' '') ''what is the wifi password'')"
    by code_simp
  then show ?thesis
    using query_term_is_word [of "''wifi''" "''what is the wifi password''"] by (simp add: cstring_def)
qed

end
