(* ===== verification/Term_Shapes.thy ===== *)
theory Term_Shapes
  imports Tokens Complex_Main
begin

text \<open>
  The token tables and small text helpers of \<open>src/modules/memory/memory_core_helpers.c\<close>: word
  classes (months, weekdays, stop words, actions, pronouns), the canonical form of a term, the
  phrases joined from tokens, the speaker of a turn and its named entities.

  \<open>normalize_key\<close>, \<open>is_noise_utterance\<close> and \<open>gate_has_evidence_markers\<close> are outside \<open>src/\<close> and
  parameters; \<open>nrm s n\<close> is the key written to a buffer of \<open>n\<close> bytes.
\<close>

type_synonym normalizer = "string \<Rightarrow> nat \<Rightarrow> string"

definition isalpha :: "char \<Rightarrow> bool" where
  "isalpha c \<longleftrightarrow> isupper c \<or> islower c"

subsection \<open>Word classes\<close>

definition month_table :: "string list" where
  "month_table =
     [''january'', ''february'', ''march'', ''april'', ''may'', ''june'', ''july'', ''august'', ''september'',
      ''october'', ''november'', ''december'', ''jan'', ''feb'', ''mar'', ''apr'', ''jun'', ''jul'',
      ''aug'', ''sep'', ''sept'', ''oct'', ''nov'', ''dec'']"

definition memory_is_month_token :: "string \<Rightarrow> bool" where
  "memory_is_month_token tok \<longleftrightarrow> tok \<in> set month_table"

definition memory_is_weekday_token :: "string \<Rightarrow> bool" where
  "memory_is_weekday_token tok \<longleftrightarrow>
     tok \<in> set [''monday'', ''tuesday'', ''wednesday'', ''thursday'', ''friday'', ''saturday'', ''sunday'']"

text \<open>The first position of a word in a table.\<close>

fun index_of :: "string \<Rightarrow> string list \<Rightarrow> nat option" where
  "index_of t [] = None"
| "index_of t (w # ws) = (if w = t then Some 0 else map_option Suc (index_of t ws))"

lemma index_of_None: "index_of t ws = None \<longleftrightarrow> t \<notin> set ws"
  by (induction ws) auto

lemma index_of_Some: "index_of t ws = Some i \<Longrightarrow> i < length ws \<and> ws ! i = t"
  by (induction ws arbitrary: i) (auto split: if_splits)

definition memory_month_number :: "string \<Rightarrow> int" where
  "memory_month_number tok =
     (case index_of tok month_table of None \<Rightarrow> 0
      | Some i \<Rightarrow> if i < 12 then int i + 1 else int i - 11)"

definition memory_weekday_number :: "cptr \<Rightarrow> int" where
  "memory_weekday_number tok =
     (case tok of None \<Rightarrow> -1
      | Some t \<Rightarrow>
          if t = [] then -1
          else case index_of t [''sunday'', ''monday'', ''tuesday'', ''wednesday'', ''thursday'', ''friday'',
                 ''saturday''] of None \<Rightarrow> -1 | Some i \<Rightarrow> int i)"

definition memory_is_stopword_token :: "string \<Rightarrow> bool" where
  "memory_is_stopword_token tok \<longleftrightarrow> tok \<in> set
     [''a'', ''an'', ''and'', ''are'', ''as'', ''at'', ''be'', ''but'', ''by'', ''did'', ''do'', ''for'',
      ''from'', ''had'', ''has'', ''have'', ''her'', ''him'', ''his'', ''if'', ''in'', ''is'', ''it'', ''its'',
      ''just'', ''like'', ''me'', ''my'', ''no'', ''not'', ''of'', ''on'', ''or'', ''our'', ''so'', ''also'',
      ''than'', ''that'', ''the'', ''them'', ''then'', ''there'', ''they'', ''this'', ''to'', ''was'', ''were'',
      ''what'', ''when'', ''where'', ''who'', ''why'', ''how'', ''with'', ''yes'', ''your'']"

definition memory_is_signal_token :: "cptr \<Rightarrow> bool" where
  "memory_is_signal_token tok \<longleftrightarrow>
     (case tok of None \<Rightarrow> False
      | Some t \<Rightarrow>
          t \<noteq> [] \<and> \<not> memory_is_stopword_token t \<and>
          (3 \<le> length t \<or> length t = 2 \<and> isupper (t ! 0) \<and> isupper (t ! 1)))"

definition memory_alias_is_useful_token :: "cptr \<Rightarrow> bool" where
  "memory_alias_is_useful_token token \<longleftrightarrow>
     (case token of None \<Rightarrow> False
      | Some t \<Rightarrow>
          3 \<le> length t \<and> (3 \<le> length (filter isalpha t) \<or> 4 \<le> length (filter isdigit t)))"

definition memory_is_probable_location_token :: "string \<Rightarrow> bool" where
  "memory_is_probable_location_token tok \<longleftrightarrow> tok \<in> set
     [''home'', ''office'', ''school'', ''park'', ''restaurant'', ''hospital'', ''airport'', ''hotel'', ''beach'',
      ''store'', ''room'', ''city'', ''town'', ''campus'']"

definition memory_is_relation_token :: "string \<Rightarrow> bool" where
  "memory_is_relation_token tok \<longleftrightarrow> tok \<in> set
     [''at'', ''in'', ''on'', ''to'', ''from'', ''with'', ''for'', ''into'', ''onto'', ''near'', ''by'', ''after'',
      ''before'', ''during'']"

definition action_verbs :: "string list" where
  "action_verbs =
     [''go'', ''went'', ''meet'', ''met'', ''call'', ''called'', ''visit'', ''visited'', ''join'', ''joined'',
      ''work'', ''worked'', ''start'', ''started'', ''finish'', ''finished'', ''travel'', ''traveled'', ''move'',
      ''moved'', ''buy'', ''bought'', ''learn'', ''learned'', ''study'', ''studied'', ''eat'', ''ate'', ''talk'',
      ''talked'', ''support'', ''supported'', ''plan'', ''planned'', ''celebrate'', ''celebrated'', ''install'',
      ''installed'', ''configure'', ''configured'', ''setup'', ''set'', ''deploy'', ''deployed'']"

definition memory_is_likely_action_token :: "string \<Rightarrow> bool" where
  "memory_is_likely_action_token tok \<longleftrightarrow>
     tok \<in> set action_verbs \<or> 3 < length tok \<and> (suffix ''ed'' tok \<or> suffix ''ing'' tok)"

definition memory_is_coref_pronoun_token :: "cptr \<Rightarrow> bool" where
  "memory_is_coref_pronoun_token tok \<longleftrightarrow>
     (case tok of None \<Rightarrow> False
      | Some t \<Rightarrow> t \<noteq> [] \<and> t \<in> set [''she'', ''her'', ''he'', ''him'', ''they'', ''them'', ''their''])"

definition memory_coref_has_pronoun :: "normalizer \<Rightarrow> cptr \<Rightarrow> bool" where
  "memory_coref_has_pronoun nrm content =
     list_ex (\<lambda>t. memory_is_coref_pronoun_token (Some t))
       (memory_split_tokens (Some (nrm (case content of None \<Rightarrow> [] | Some c \<Rightarrow> c) 1024)) 32)"

definition memory_content_salience :: "(string \<Rightarrow> bool) \<Rightarrow> cptr \<Rightarrow> real" where
  "memory_content_salience is_noise_utterance content =
     (case content of None \<Rightarrow> 1 / 2
      | Some c \<Rightarrow> if c = [] then 1 / 2 else if is_noise_utterance c then 1 / 20 else 1 / 2)"

subsection \<open>Token lists\<close>

fun unique_count :: "string list \<Rightarrow> string list \<Rightarrow> nat" where
  "unique_count seen [] = 0"
| "unique_count seen (t # ts) = (if t \<in> set seen then 0 else 1) + unique_count (seen @ [t]) ts"

definition memory_unique_token_count :: "string list \<Rightarrow> nat" where
  "memory_unique_token_count tokens = unique_count [] tokens"

definition memory_token_present :: "string list \<Rightarrow> cptr \<Rightarrow> bool" where
  "memory_token_present tokens token \<longleftrightarrow>
     (case token of None \<Rightarrow> False | Some t \<Rightarrow> t \<noteq> [] \<and> t \<in> set tokens)"

lemma unique_count_card: "unique_count seen ts = card (set ts - set seen)"
proof (induction ts arbitrary: seen)
  case (Cons t ts)
  have "set (t # ts) - set seen = (if t \<in> set seen then {} else {t}) \<union> (set ts - set (seen @ [t]))"
    by auto
  then show ?case
    using Cons.IH [of "seen @ [t]"] by (simp add: card_insert_if)
qed simp

lemma unique_token_count_card: "memory_unique_token_count ts = card (set ts)"
  by (simp add: memory_unique_token_count_def unique_count_card)

text \<open>
  Joining tokens with blanks into a buffer.  When a token does not fit behind its blank, the
  loop stops with the blank written over the terminator: the buffer is no string any more,
  \<open>None\<close> here.
\<close>

fun join_loop :: "nat \<Rightarrow> string \<Rightarrow> string list \<Rightarrow> string option" where
  "join_loop buf_len buf [] = Some buf"
| "join_loop buf_len buf (tok # toks) =
     (let blank = buf \<noteq> [] \<and> length buf < buf_len - 1;
          buf' = (if blank then buf @ '' '' else buf)
      in if buf_len \<le> length buf' + length tok then (if blank then None else Some buf)
         else join_loop buf_len (buf' @ tok) toks)"

definition memory_alias_join_tokens :: "nat \<Rightarrow> string list \<Rightarrow> nat \<Rightarrow> nat \<Rightarrow> string option" where
  "memory_alias_join_tokens buf_len tokens start n = join_loop buf_len [] (take n (drop start tokens))"

fun unwords :: "string list \<Rightarrow> string" where
  "unwords [] = []"
| "unwords [t] = t"
| "unwords (t # ts) = t @ '' '' @ unwords ts"

lemma join_loop_fits:
  "buf \<noteq> [] \<Longrightarrow> list_all (\<lambda>t. t \<noteq> []) ts \<Longrightarrow> length buf + (\<Sum>t\<leftarrow>ts. Suc (length t)) < buf_len \<Longrightarrow>
     join_loop buf_len buf ts = Some (concat (buf # map (\<lambda>t. '' '' @ t) ts))"
  by (induction ts arbitrary: buf) (auto simp: Let_def)

lemma unwords_Cons: "unwords (t # ts) = t @ concat (map (\<lambda>t. '' '' @ t) ts)"
  by (induction ts arbitrary: t) simp_all

lemma join_tokens_fits:
  assumes "list_all (\<lambda>t. t \<noteq> []) ts" "(\<Sum>t\<leftarrow>ts. Suc (length t)) \<le> buf_len"
  shows "join_loop buf_len [] ts = Some (unwords ts)"
proof (cases ts)
  case (Cons t us)
  then show ?thesis
    using assms join_loop_fits [of t us buf_len] by (simp add: unwords_Cons Let_def)
qed simp

subsection \<open>The canonical form of a term\<close>

definition strip_article :: "string \<Rightarrow> string" where
  "strip_article norm' =
     (if prefix ''the '' norm' then drop 4 norm'
      else if prefix ''a '' norm' then drop 2 norm'
      else if prefix ''an '' norm' then drop 3 norm'
      else norm')"

definition strip_title :: "string \<Rightarrow> string" where
  "strip_title norm' =
     (case find (\<lambda>t. prefix t norm') [''mr '', ''mrs '', ''ms '', ''dr '', ''prof '', ''sir ''] of
        None \<Rightarrow> norm' | Some t \<Rightarrow> drop (length t) norm')"

definition strip_possessive :: "string \<Rightarrow> string" where
  "strip_possessive norm' = (if suffix [CHR 0x27, CHR ''s''] norm' then take (length norm' - 2) norm' else norm')"

definition singular :: "string \<Rightarrow> string" where
  "singular norm' =
     (let n = length norm'
      in if 4 < n \<and> suffix ''ies'' norm' then take (n - 3) norm' @ ''y''
         else if 4 < n \<and> suffix ''es'' norm' then take (n - 2) norm'
         else if 4 < n \<and> norm' ! (n - 1) = CHR ''s'' \<and> norm' ! (n - 2) \<noteq> CHR ''s'' then take (n - 1) norm'
         else norm')"

definition memory_canonicalize_term :: "normalizer \<Rightarrow> cptr \<Rightarrow> nat \<Rightarrow> string" where
  "memory_canonicalize_term nrm input out_len =
     (case input of None \<Rightarrow> []
      | Some s \<Rightarrow>
          if s = [] then []
          else cbuf out_len (singular (strip_possessive (strip_title (strip_article (nrm s 256))))))"

lemma strip_lengths:
  "length (strip_article s) \<le> length s" "length (strip_title s) \<le> length s"
  "length (strip_possessive s) \<le> length s" "length (singular s) \<le> length s"
  by (auto simp: strip_article_def strip_title_def strip_possessive_def singular_def Let_def split: option.split)

lemma canonical_length:
  assumes "\<And>s n. length (nrm s n) < n" "0 < out_len"
  shows "length (memory_canonicalize_term nrm input out_len) < min 256 out_len"
proof (cases input)
  case (Some s)
  define c where "c = singular (strip_possessive (strip_title (strip_article (nrm s 256))))"
  have "length c \<le> length (nrm s 256)"
    unfolding c_def using strip_lengths by (meson order_trans)
  then have "length c < 256"
    using assms(1) [of s 256] by linarith
  then show ?thesis
    using assms(2) Some by (auto simp: memory_canonicalize_term_def c_def [symmetric] cbuf_def)
qed (use assms(2) in \<open>simp add: memory_canonicalize_term_def\<close>)

subsection \<open>The speaker of a turn\<close>

definition speaker_char :: "char \<Rightarrow> bool" where
  "speaker_char c \<longleftrightarrow> isalpha c \<or> isspace c \<or> c = CHR ''-''"

definition strip_blanks :: "string \<Rightarrow> string" where
  "strip_blanks s = rev (dropWhile (\<lambda>c. c = CHR '' '') (rev (dropWhile (\<lambda>c. c = CHR '' '') s)))"

definition memory_extract_speaker_from_content :: "cptr \<Rightarrow> nat \<Rightarrow> string option" where
  "memory_extract_speaker_from_content content out_len =
     (case content of None \<Rightarrow> None
      | Some s \<Rightarrow>
          let name = takeWhile (\<lambda>c. c \<noteq> CHR '':'') s
          in if name = s \<or> name = [] \<or> 48 < length name then None
             else if \<not> list_all speaker_char name \<or> \<not> list_ex isalpha name then None
             else let trimmed = strip_blanks name
                  in if trimmed = [] then None else Some (cbuf out_len trimmed))"

subsection \<open>Named entities\<close>

text \<open>
  A phrase of at most \<open>n\<close> more capitalised words: the phrase, the number of words taken and the
  rest of the text.  A word the buffer of 128 bytes has no room for is skipped and ends the
  phrase.
\<close>

fun phrase_loop :: "nat \<Rightarrow> string \<Rightarrow> string \<Rightarrow> nat \<Rightarrow> string \<times> nat \<times> string" where
  "phrase_loop 0 s phrase k = (phrase, k, s)"
| "phrase_loop (Suc n) s phrase k =
     (if s = [] \<or> \<not> isupper (hd s) then (phrase, k, s)
      else let word = takeWhile isalpha s; rest = dropWhile isalpha s
           in if 128 \<le> length word + length phrase + 2 then (phrase, k, rest)
              else let phrase' = (if phrase \<noteq> [] then phrase @ '' '' @ word else word);
                       rest' = dropWhile (\<lambda>c. c = CHR '' '') rest
                   in if rest' = [] \<or> \<not> isupper (hd rest') then (phrase', k + 1, rest')
                      else phrase_loop n rest' phrase' (k + 1))"

definition entity_name_ok :: "string \<Rightarrow> bool" where
  "entity_name_ok c \<longleftrightarrow>
     3 \<le> length c \<and> \<not> memory_is_stopword_token c \<and> \<not> memory_is_month_token c \<and> \<not> memory_is_weekday_token c"

definition add_entity :: "normalizer \<Rightarrow> string \<Rightarrow> string list \<Rightarrow> string list" where
  "add_entity nrm phrase names =
     (let canonical = memory_canonicalize_term nrm (Some phrase) 128
      in if \<not> entity_name_ok canonical \<or> canonical \<in> set names then names else names @ [canonical])"

lemma dropWhile_trans: "length xs \<le> n \<Longrightarrow> length (dropWhile P xs) \<le> n"
  using length_dropWhile_le [of P xs] by linarith

lemma phrase_loop_rest: "length s \<le> m \<Longrightarrow> length (snd (snd (phrase_loop n s phrase k))) \<le> m"
  by (induction n arbitrary: s phrase k) (simp_all add: Let_def dropWhile_trans)

lemma phrase_loop_less:
  assumes "s \<noteq> []" "isupper (hd s)"
  shows "length (snd (snd (phrase_loop (Suc n) s phrase k))) < length s"
proof -
  have "isalpha (hd s)"
    using assms(2) by (simp add: isalpha_def)
  then have "length (dropWhile isalpha s) \<le> length s - 1"
    using assms(1) by (cases s) (simp_all add: length_dropWhile_le)
  then have "length (snd (snd (phrase_loop (Suc n) s phrase k))) \<le> length s - 1"
    using assms by (simp add: Let_def dropWhile_trans phrase_loop_rest)
  then show ?thesis
    using assms(1) by (cases s) auto
qed

lemmas phrase_loop_3 = phrase_loop_less [of _ 2, folded numeral_3_eq_3 [unfolded numeral_2_eq_2 [symmetric]]]

declare phrase_loop.simps(2) [simp del]

lemma dropWhile_shorter: "xs \<noteq> [] \<Longrightarrow> P (hd xs) \<Longrightarrow> length (dropWhile P xs) < length xs"
  by (cases xs) (simp_all add: less_Suc_eq_le length_dropWhile_le)

function named_loop :: "normalizer \<Rightarrow> string \<Rightarrow> string list \<Rightarrow> nat \<Rightarrow> string list" where
  "named_loop nrm s names mx =
     (let s' = dropWhile (\<lambda>c. \<not> isalpha c) s
      in if s = [] \<or> mx \<le> length names \<or> s' = [] then names
         else if \<not> isupper (hd s') then named_loop nrm (dropWhile isalpha s') names mx
         else case phrase_loop 3 s' [] 0 of
                (phrase, k, rest) \<Rightarrow>
                  named_loop nrm rest (if k = 0 then names else add_entity nrm phrase names) mx)"
  by pat_completeness auto
termination
proof (relation "measure (\<lambda>(nrm, s, names, mx). length s)", goal_cases)
  case (2 nrm s names mx s')
  have "isalpha (hd s')"
    using 2 hd_dropWhile [of "\<lambda>c. \<not> isalpha c" s] by simp
  then have "length (dropWhile isalpha s') < length s'"
    using 2 by (intro dropWhile_shorter) simp_all
  then show ?case
    using 2 length_dropWhile_le [of "\<lambda>c. \<not> isalpha c" s] by simp
next
  case (3 nrm s names mx s' phrase y k rest)
  then have "s' \<noteq> []" "isupper (hd s')" "rest = snd (snd (phrase_loop 3 s' [] 0))"
    by (blast, blast, metis snd_conv)
  then have "length rest < length s'"
    using phrase_loop_3 [of s' "[]" 0] by blast
  then show ?case
    using 3(1) length_dropWhile_le [of "\<lambda>c. \<not> isalpha c" s] by simp
qed simp

declare named_loop.simps [simp del]

definition memory_extract_named_entities :: "normalizer \<Rightarrow> cptr \<Rightarrow> int \<Rightarrow> string list" where
  "memory_extract_named_entities nrm s max_names =
     (case s of None \<Rightarrow> []
      | Some t \<Rightarrow> if t = [] \<or> max_names \<le> 0 then [] else named_loop nrm t [] (nat max_names))"

lemma add_entity_ok:
  assumes "distinct names" "list_all entity_name_ok names"
  shows "distinct (add_entity nrm phrase names) \<and> list_all entity_name_ok (add_entity nrm phrase names) \<and>
    length (add_entity nrm phrase names) \<le> Suc (length names)"
  using assms by (simp add: add_entity_def Let_def)

lemma named_loop_ok:
  "distinct names \<Longrightarrow> list_all entity_name_ok names \<Longrightarrow> length names \<le> mx \<Longrightarrow>
     distinct (named_loop nrm s names mx) \<and> list_all entity_name_ok (named_loop nrm s names mx) \<and>
     length (named_loop nrm s names mx) \<le> mx"
proof (induction nrm s names mx rule: named_loop.induct)
  case (1 nrm s names mx)
  define s' where "s' = dropWhile (\<lambda>c. \<not> isalpha c) s"
  show ?case
  proof (cases "s = [] \<or> mx \<le> length names \<or> s' = []")
    case True
    then show ?thesis
      using 1(3-5) by (subst (1 2 3) named_loop.simps) (simp add: s'_def Let_def)
  next
    case False
    obtain phrase k rest where p: "phrase_loop 3 s' [] 0 = (phrase, k, rest)"
      by (cases "phrase_loop 3 s' [] 0")
    have eq: "named_loop nrm s names mx =
        (if \<not> isupper (hd s') then named_loop nrm (dropWhile isalpha s') names mx
         else named_loop nrm rest (if k = 0 then names else add_entity nrm phrase names) mx)"
      using False by (subst named_loop.simps) (simp add: s'_def [symmetric] p)
    show ?thesis
    proof (cases "isupper (hd s')")
      case True
      have "distinct (named_loop nrm rest n mx) \<and> list_all entity_name_ok (named_loop nrm rest n mx) \<and>
          length (named_loop nrm rest n mx) \<le> mx"
        if "n = (if k = 0 then names else add_entity nrm phrase names)" for n
        using 1(2) [OF s'_def _ _ p [symmetric] refl] False True add_entity_ok [OF 1(3,4), of nrm phrase] 1(3-5) that
        by (auto split: if_splits)
      then show ?thesis
        using True by (simp add: eq)
    next
      case lower: False
      then show ?thesis
        using 1(1) [OF s'_def] False 1(3-5) by (simp add: eq)
    qed
  qed
qed

end
