(* ===== verification/Dates.thy ===== *)
theory Dates
  imports C_Base
begin

text \<open>
  Calendar days, as \<open>timegm\<close> and \<open>gmtime_r\<close> count them: the proleptic Gregorian calendar, a day
  being a (year, month, day) triple.  \<open>shift_days k\<close> is the day \<open>k\<close> days later; \<open>utc_date n\<close> is
  day \<open>n\<close> of the epoch; \<open>norm_date\<close> is the normalisation both functions apply to fields out of
  range.  Years are unbounded here; the code's are \<open>int\<close>.
\<close>

type_synonym date = "int \<times> int \<times> int"

definition is_leap :: "int \<Rightarrow> bool" where
  "is_leap y \<longleftrightarrow> y mod 4 = 0 \<and> (y mod 100 \<noteq> 0 \<or> y mod 400 = 0)"

definition month_days :: "int \<Rightarrow> int \<Rightarrow> int" where
  "month_days y m =
     (if m = 2 then (if is_leap y then 29 else 28)
      else if m \<in> {4, 6, 9, 11} then 30 else 31)"

fun valid_date :: "date \<Rightarrow> bool" where
  "valid_date (y, m, d) \<longleftrightarrow> 1 \<le> m \<and> m \<le> 12 \<and> 1 \<le> d \<and> d \<le> month_days y m"

fun next_day :: "date \<Rightarrow> date" where
  "next_day (y, m, d) =
     (if d < month_days y m then (y, m, d + 1)
      else if m < 12 then (y, m + 1, 1) else (y + 1, 1, 1))"

fun prev_day :: "date \<Rightarrow> date" where
  "prev_day (y, m, d) =
     (if 1 < d then (y, m, d - 1)
      else if 1 < m then (y, m - 1, month_days y (m - 1)) else (y - 1, 12, 31))"

definition shift_days :: "int \<Rightarrow> date \<Rightarrow> date" where
  "shift_days k d = (if 0 \<le> k then (next_day ^^ nat k) d else (prev_day ^^ nat (- k)) d)"

definition epoch :: date where
  "epoch = (1970, 1, 1)"

definition utc_date :: "int \<Rightarrow> date" where
  "utc_date n = shift_days n epoch"

text \<open>\<open>tm_wday\<close>: 0 is Sunday; day 0 was a Thursday.\<close>

definition utc_weekday :: "int \<Rightarrow> int" where
  "utc_weekday n = (n + 4) mod 7"

definition norm_date :: "int \<Rightarrow> int \<Rightarrow> int \<Rightarrow> date" where
  "norm_date y m d = shift_days (d - 1) (y + (m - 1) div 12, (m - 1) mod 12 + 1, 1)"

fun date_less :: "date \<Rightarrow> date \<Rightarrow> bool" where
  "date_less (y, m, d) (y', m', d') \<longleftrightarrow> y < y' \<or> y = y' \<and> (m < m' \<or> m = m' \<and> d < d')"

lemma month_days_bounds: "28 \<le> month_days y m \<and> month_days y m \<le> 31"
  by (simp add: month_days_def)

lemma month_days_12 [simp]: "month_days y 12 = 31"
  by (simp add: month_days_def)

lemma next_day_valid: "valid_date d \<Longrightarrow> valid_date (next_day d)"
  using month_days_bounds by (cases d) (auto intro: order_trans [of _ 28])

lemma prev_day_valid: "valid_date d \<Longrightarrow> valid_date (prev_day d)"
  using month_days_bounds by (cases d) (auto intro: order_trans [of _ 28])

lemma prev_next: "valid_date d \<Longrightarrow> prev_day (next_day d) = d"
  by (cases d) (auto simp: month_days_def split: if_splits)

lemma next_prev: "valid_date d \<Longrightarrow> next_day (prev_day d) = d"
  by (cases d) auto

lemma next_day_less: "date_less d (next_day d)"
  by (cases d) auto

lemma date_less_trans: "date_less a b \<Longrightarrow> date_less b c \<Longrightarrow> date_less a c"
  by (cases a; cases b; cases c) auto

lemma date_less_irrefl: "\<not> date_less a a"
  by (cases a) auto

lemma date_less_linear: "date_less a b \<or> a = b \<or> date_less b a"
  by (cases a; cases b) auto

lemma next_pow_valid: "valid_date d \<Longrightarrow> valid_date ((next_day ^^ n) d)"
  by (induction n) (simp_all add: next_day_valid del: next_day.simps valid_date.simps)

lemma prev_pow_valid: "valid_date d \<Longrightarrow> valid_date ((prev_day ^^ n) d)"
  by (induction n) (simp_all add: prev_day_valid del: prev_day.simps valid_date.simps)

lemma shift_valid: "valid_date d \<Longrightarrow> valid_date (shift_days k d)"
  by (simp add: shift_days_def next_pow_valid prev_pow_valid del: valid_date.simps)

lemma shift_0 [simp]: "shift_days 0 d = d"
  by (simp add: shift_days_def)

lemma shift_succ:
  assumes "valid_date d"
  shows "shift_days (k + 1) d = next_day (shift_days k d)"
proof (cases "0 \<le> k")
  case True
  then show ?thesis
    by (simp add: shift_days_def nat_add_distrib)
next
  case False
  define n where "n = nat (- k - 1)"
  have k: "k = - int (Suc n)"
    using False by (simp add: n_def)
  have "next_day ((prev_day ^^ Suc n) d) = (prev_day ^^ n) d"
    using next_prev [OF prev_pow_valid [OF assms]] by simp
  moreover have "shift_days k d = (prev_day ^^ Suc n) d"
    by (simp add: shift_days_def k nat_add_distrib)
  moreover have "nat (- (k + 1)) = n" "0 \<le> k + 1 \<longleftrightarrow> n = 0"
    using k by auto
  then have "shift_days (k + 1) d = (prev_day ^^ n) d"
    using k by (auto simp: shift_days_def)
  ultimately show ?thesis
    by simp
qed

lemma shift_pred: "valid_date d \<Longrightarrow> shift_days (k - 1) d = prev_day (shift_days k d)"
  using shift_succ [of d "k - 1"] prev_next [OF shift_valid, of d "k - 1"] by simp

lemma shift_add:
  assumes "valid_date d"
  shows "shift_days a (shift_days b d) = shift_days (a + b) d"
proof (induction a rule: int_induct [where k = 0])
  case (step1 i)
  then show ?case
    using shift_succ [OF shift_valid [OF assms], of i b] shift_succ [OF assms, of "i + b"]
    by (simp add: add_ac)
next
  case (step2 i)
  then show ?case
    using shift_pred [OF shift_valid [OF assms], of i b] shift_pred [OF assms, of "i + b"]
    by (simp add: algebra_simps)
qed simp

lemma epoch_valid: "valid_date epoch"
  by (simp add: epoch_def month_days_def)

lemma utc_date_valid: "valid_date (utc_date n)"
  unfolding utc_date_def by (intro shift_valid epoch_valid)

lemma shift_utc_date: "shift_days k (utc_date n) = utc_date (n + k)"
  by (simp add: utc_date_def shift_add epoch_valid add.commute)

lemma utc_date_mono: "a < b \<Longrightarrow> date_less (utc_date a) (utc_date b)"
proof (induction b rule: int_gr_induct)
  case base
  then show ?case
    using next_day_less [of "utc_date a"] by (simp add: utc_date_def shift_succ epoch_valid)
next
  case (step b)
  then show ?case
    using next_day_less [of "utc_date b"] date_less_trans
    by (auto simp: utc_date_def shift_succ epoch_valid simp del: next_day.simps)
qed

lemma utc_date_less_iff: "date_less (utc_date a) (utc_date b) \<longleftrightarrow> a < b"
  by (metis utc_date_mono date_less_irrefl date_less_trans less_linear)

lemma utc_date_inject: "utc_date a = utc_date b \<longleftrightarrow> a = b"
  by (metis utc_date_mono date_less_irrefl less_linear)

text \<open>Normalising a valid day changes nothing, so adding days is \<open>shift_days\<close>.\<close>

lemma shift_within: "0 \<le> k \<Longrightarrow> 1 + k \<le> month_days y m \<Longrightarrow> (next_day ^^ nat k) (y, m, 1) = (y, m, 1 + k)"
proof (induction k rule: int_ge_induct)
  case (step i)
  then show ?case
    by (simp add: nat_add_distrib)
qed simp

lemma norm_date_valid:
  assumes "valid_date (y, m, d)"
  shows "norm_date y m (d + k) = shift_days k (y, m, d)"
proof -
  have first: "valid_date (y, m, 1)"
    using assms by simp
  have "shift_days (d - 1) (y, m, 1) = (y, m, d)"
    using assms shift_within [of "d - 1" y m] by (simp add: shift_days_def)
  then have "shift_days k (y, m, d) = shift_days (k + (d - 1)) (y, m, 1)"
    using shift_add [OF first, of k "d - 1"] by simp
  moreover have "(m - 1) div 12 = 0" "(m - 1) mod 12 + 1 = m"
    using assms by auto
  ultimately show ?thesis
    by (simp add: norm_date_def algebra_simps)
qed

end
