(* ===== verification/Temporal.thy ===== *)
theory Temporal
  imports Term_Shapes Dates
begin

text \<open>
  Dates in queries and in temporal references (\<open>memory_core_search.c\<close>): relative expressions,
  date tokens, the comparison of dates at their common precision and the score of a candidate
  date under a constraint.

  The clock is the day number \<open>n\<close> of the epoch: \<open>gmtime_r\<close> gives \<open>utc_date n\<close> and \<open>utc_weekday n\<close>
  (its failure, which the code tests, is not modelled).  The amounts a query names and the days
  computed with them are C \<open>int\<close>s of 32 bits (\<open>wrap32\<close>); scores are reals.
\<close>

text \<open>
  What is left of a value in a C \<open>int\<close>: conversion from \<open>long\<close>, and two's complement arithmetic
  as it is compiled.  An overflow of the arithmetic is undefined in C; the properties bound the
  amounts so that none happens.
\<close>

definition wrap32 :: "int \<Rightarrow> int" where
  "wrap32 v = (v + 2 ^ 31) mod 2 ^ 32 - 2 ^ 31"

lemma wrap32_id: "- (2 ^ 31) \<le> v \<Longrightarrow> v < 2 ^ 31 \<Longrightarrow> wrap32 v = v"
  by (simp add: wrap32_def)

text \<open>\<open>strtol\<close> stops at the ends of a \<open>long\<close>.\<close>

definition clamp64 :: "int \<Rightarrow> int" where
  "clamp64 v = max (- (2 ^ 63)) (min (2 ^ 63 - 1) v)"

subsection \<open>Dates\<close>

record parsed_date =
  pd_year :: int
  pd_month :: int
  pd_day :: int
  pd_granularity :: int
  pd_valid :: bool

definition date_zero :: parsed_date where
  "date_zero = \<lparr>pd_year = 0, pd_month = 0, pd_day = 0, pd_granularity = 0, pd_valid = False\<rparr>"

fun full_date :: "date \<Rightarrow> parsed_date" where
  "full_date (y, m, d) = \<lparr>pd_year = y, pd_month = m, pd_day = d, pd_granularity = 3, pd_valid = True\<rparr>"

definition memory_current_utc_date :: "int \<Rightarrow> parsed_date" where
  "memory_current_utc_date n = full_date (utc_date n)"

definition memory_shift_day :: "date \<Rightarrow> int \<Rightarrow> date" where
  "memory_shift_day ymd delta = (case ymd of (y, m, d) \<Rightarrow> if delta = 0 then (y, m, d) else norm_date y m (wrap32 (d + delta)))"

definition memory_add_days :: "parsed_date \<Rightarrow> int \<Rightarrow> parsed_date" where
  "memory_add_days date delta =
     (if \<not> pd_valid date then date
      else full_date (norm_date (pd_year date) (pd_month date) (wrap32 (pd_day date + delta))))"

definition memory_add_months :: "parsed_date \<Rightarrow> int \<Rightarrow> parsed_date" where
  "memory_add_months date delta =
     (if \<not> pd_valid date then date
      else let month_index = wrap32 (pd_year date * 12 + (pd_month date - 1) + delta)
           in if month_index < 0 then date
              else let d = (if pd_day date \<le> 0 then 1 else pd_day date)
                   in date\<lparr>pd_year := month_index div 12, pd_month := month_index mod 12 + 1, pd_day := d,
                        pd_granularity := (if 0 < d then 3 else 2), pd_valid := True\<rparr>)"

text \<open>A decimal number: blanks, a sign, digits; \<open>None\<close> without a digit.\<close>

definition digits_value :: "string \<Rightarrow> int" where
  "digits_value ds = foldl (\<lambda>v c. 10 * v + (int (code c) - 48)) 0 ds"

definition scan_number :: "string \<Rightarrow> int option" where
  "scan_number s =
     (let t = dropWhile isspace s;
          neg = (t \<noteq> [] \<and> hd t = CHR ''-'');
          u = (if t \<noteq> [] \<and> (hd t = CHR ''-'' \<or> hd t = CHR ''+'') then tl t else t);
          ds = takeWhile isdigit u
      in if ds = [] then None else Some (if neg then - digits_value ds else digits_value ds))"

text \<open>\<open>atoi\<close> and \<open>sscanf "%d"\<close>: the number as \<open>strtol\<close> reads it, in a C \<open>int\<close>.\<close>

definition scan_int :: "string \<Rightarrow> int option" where
  "scan_int s = map_option (\<lambda>v. wrap32 (clamp64 v)) (scan_number s)"

lemma scan_int_small:
  "scan_number s = Some v \<Longrightarrow> - (2 ^ 31) \<le> v \<Longrightarrow> v < 2 ^ 31 \<Longrightarrow> scan_int s = Some v"
  by (simp add: scan_int_def clamp64_def wrap32_id)

definition atoi :: "string \<Rightarrow> int" where
  "atoi s = (case scan_int s of None \<Rightarrow> 0 | Some v \<Rightarrow> v)"

subsection \<open>Relative expressions\<close>

datatype constraint_mode = MODE_NONE | MODE_MATCH | MODE_BEFORE | MODE_AFTER | MODE_BETWEEN

record temporal_constraint =
  tc_mode :: constraint_mode
  tc_first :: parsed_date
  tc_second :: parsed_date

definition constraint_zero :: temporal_constraint where
  "constraint_zero = \<lparr>tc_mode = MODE_NONE, tc_first = date_zero, tc_second = date_zero\<rparr>"

definition match_date :: "parsed_date \<Rightarrow> temporal_constraint \<Rightarrow> temporal_constraint" where
  "match_date d out = out\<lparr>tc_first := d, tc_mode := MODE_MATCH\<rparr>"

text \<open>\<open>last\<close> and \<open>next\<close> with the word behind them; \<open>delta\<close> is -1 or 1.\<close>

definition relative_unit :: "int \<Rightarrow> int \<Rightarrow> string \<Rightarrow> temporal_constraint \<Rightarrow> temporal_constraint option" where
  "relative_unit n delta unit' out =
     (let today = memory_current_utc_date n; weekday = utc_weekday n
      in if unit' = ''week''
         then let first = memory_add_days today (- (if weekday = 0 then 6 else weekday - 1) + delta * 7)
              in Some (out\<lparr>tc_first := first, tc_second := memory_add_days first 6, tc_mode := MODE_BETWEEN\<rparr>)
         else if unit' = ''month''
         then Some (match_date (memory_add_months (today\<lparr>pd_day := 0, pd_granularity := 2\<rparr>) delta) out)
         else if unit' = ''year''
         then Some (match_date (today\<lparr>pd_year := pd_year today + delta, pd_month := 0, pd_day := 0,
                      pd_granularity := 1\<rparr>) out)
         else if memory_is_weekday_token unit'
         then Some (match_date (memory_add_days today
                      (memory_weekday_number (Some unit') - weekday + delta * 7)) out)
         else None)"

text \<open>
  \<open>N <unit> ago\<close>: the new \<open>out\<close> and whether the expression was understood; an unknown unit has
  already set \<open>first\<close> to today.
\<close>

definition relative_ago :: "int \<Rightarrow> int \<Rightarrow> string \<Rightarrow> temporal_constraint \<Rightarrow> temporal_constraint \<times> bool" where
  "relative_ago n amount unit' out =
     (let today = memory_current_utc_date n
      in if prefix ''day'' unit' then (match_date (memory_add_days today (- amount)) out, True)
         else if prefix ''week'' unit' then (match_date (memory_add_days today (wrap32 (- amount * 7))) out, True)
         else if prefix ''month'' unit'
         then (match_date (memory_add_months (today\<lparr>pd_day := 0, pd_granularity := 2\<rparr>) (- amount)) out, True)
         else (out\<lparr>tc_first := today\<rparr>, False))"

fun parse_relative :: "int \<Rightarrow> string list \<Rightarrow> temporal_constraint \<Rightarrow> temporal_constraint \<times> bool" where
  "parse_relative n [] out = (out, False)"
| "parse_relative n (t # ts) out =
     (let today = memory_current_utc_date n
      in if t = ''today'' then (match_date today out, True)
         else if t = ''yesterday'' then (match_date (memory_add_days today (-1)) out, True)
         else if t = ''tomorrow'' then (match_date (memory_add_days today 1) out, True)
         else case (if ts \<noteq> [] \<and> (t = ''last'' \<or> t = ''next'')
                    then relative_unit n (if t = ''last'' then -1 else 1) (hd ts) out else None) of
                Some out' \<Rightarrow> (out', True)
              | None \<Rightarrow>
                  if 2 \<le> length ts \<and> isdigit (char_at t 0) \<and> 0 < atoi t \<and> ts ! 1 = ''ago''
                  then (case relative_ago n (atoi t) (hd ts) out of
                          (out', True) \<Rightarrow> (out', True)
                        | (out', False) \<Rightarrow> parse_relative n ts out')
                  else parse_relative n ts out)"

definition memory_parse_relative_temporal_constraint ::
    "int \<Rightarrow> string list \<Rightarrow> temporal_constraint \<Rightarrow> temporal_constraint \<times> bool" where
  "memory_parse_relative_temporal_constraint n qtokens out = parse_relative n qtokens out"

subsection \<open>Date tokens\<close>

definition memory_parse_iso_date_token :: "cptr \<Rightarrow> (int \<times> int \<times> int) option" where
  "memory_parse_iso_date_token token =
     (case token of None \<Rightarrow> None
      | Some t \<Rightarrow>
          if length t = 10 \<and> list_all (\<lambda>i. isdigit (t ! i)) [0, 1, 2, 3, 5, 6, 8, 9] \<and>
             t ! 4 = CHR '' '' \<and> t ! 7 = CHR '' ''
          then Some (atoi t, atoi (drop 5 t), atoi (drop 8 t)) else None)"

definition join3 :: "string \<Rightarrow> string \<Rightarrow> string \<Rightarrow> string" where
  "join3 a b c = cbuf 16 (a @ '' '' @ b @ '' '' @ c)"

text \<open>A month and a day written into \<open>out\<close>, with the year when there is one.\<close>

definition fill_date :: "parsed_date \<Rightarrow> int option \<Rightarrow> string \<Rightarrow> int \<Rightarrow> int \<Rightarrow> parsed_date" where
  "fill_date out year mtok d g =
     out\<lparr>pd_day := d, pd_year := (case year of None \<Rightarrow> pd_year out | Some y \<Rightarrow> y),
       pd_month := memory_month_number mtok, pd_granularity := g,
       pd_valid := 0 < memory_month_number mtok \<and> 0 < d \<and> d \<le> 31\<rparr>"

text \<open>
  The two orders of month and day: the new \<open>out\<close> (a failed attempt leaves what it wrote) and
  whether the date is valid.
\<close>

definition month_first :: "int option \<Rightarrow> int \<Rightarrow> string \<Rightarrow> string \<Rightarrow> parsed_date \<Rightarrow> parsed_date \<times> bool" where
  "month_first year g mtok dtok out =
     (if \<not> memory_is_month_token mtok then (out, False)
      else case scan_int dtok of None \<Rightarrow> (out, False)
           | Some d \<Rightarrow> let o' = fill_date out year mtok d g in (o', pd_valid o'))"

definition day_first :: "int option \<Rightarrow> int \<Rightarrow> string \<Rightarrow> string \<Rightarrow> parsed_date \<Rightarrow> parsed_date \<times> bool" where
  "day_first year g dtok mtok out =
     (case scan_int dtok of None \<Rightarrow> (out, False)
      | Some d \<Rightarrow>
          if \<not> memory_is_month_token mtok then (out\<lparr>pd_day := d\<rparr>, False)
          else let o' = fill_date out year mtok d g in (o', pd_valid o'))"

text \<open>A chain of attempts on one \<open>out\<close>, the first that succeeds winning.\<close>

definition orelse_date ::
    "(parsed_date \<Rightarrow> parsed_date \<times> nat option) \<Rightarrow> (parsed_date \<Rightarrow> parsed_date \<times> nat option)
     \<Rightarrow> parsed_date \<Rightarrow> parsed_date \<times> nat option" where
  "orelse_date f g out = (case f out of (o', Some k) \<Rightarrow> (o', Some k) | (o', None) \<Rightarrow> g o')"

definition attempt :: "nat \<Rightarrow> (parsed_date \<Rightarrow> parsed_date \<times> bool) \<Rightarrow> parsed_date \<Rightarrow> parsed_date \<times> nat option" where
  "attempt k f out = (case f out of (o', ok) \<Rightarrow> (o', if ok then Some k else None))"

definition iso_attempt :: "string list \<Rightarrow> parsed_date \<Rightarrow> parsed_date \<times> bool" where
  "iso_attempt ts out =
     (if length ts \<le> 2 then (out, False)
      else case memory_parse_iso_date_token (Some (join3 (ts ! 0) (ts ! 1) (ts ! 2))) of
             None \<Rightarrow> (out, False)
           | Some (y, m, d) \<Rightarrow> (full_date (y, m, d), True))"

definition dated_attempt :: "string list \<Rightarrow> parsed_date \<Rightarrow> parsed_date \<times> nat option" where
  "dated_attempt ts out =
     (if length ts \<le> 2 \<or> length (ts ! 2) \<noteq> 4 then (out, None)
      else case scan_int (ts ! 2) of None \<Rightarrow> (out, None)
           | Some y \<Rightarrow>
               orelse_date (attempt 3 (month_first (Some y) 3 (ts ! 0) (ts ! 1)))
                 (attempt 3 (day_first (Some y) 3 (ts ! 0) (ts ! 1))) out)"

definition undated_attempt :: "string list \<Rightarrow> parsed_date \<Rightarrow> parsed_date \<times> nat option" where
  "undated_attempt ts out =
     (if length ts \<le> 1 then (out, None)
      else orelse_date (attempt 2 (month_first None 2 (ts ! 0) (ts ! 1)))
             (attempt 2 (day_first None 2 (ts ! 0) (ts ! 1))) out)"

definition month_attempt :: "string list \<Rightarrow> parsed_date \<Rightarrow> parsed_date \<times> bool" where
  "month_attempt ts out =
     (if memory_is_month_token (ts ! 0)
      then let o' = out\<lparr>pd_month := memory_month_number (ts ! 0), pd_granularity := 2,
                     pd_valid := 0 < memory_month_number (ts ! 0)\<rparr> in (o', pd_valid o')
      else (out, False))"

definition year_attempt :: "string list \<Rightarrow> parsed_date \<Rightarrow> parsed_date \<times> bool" where
  "year_attempt ts out =
     (if length (ts ! 0) = 4
      then (case scan_int (ts ! 0) of None \<Rightarrow> (out, False)
            | Some y \<Rightarrow> (out\<lparr>pd_year := y, pd_granularity := 1, pd_valid := True\<rparr>, True))
      else (out, False))"

text \<open>
  \<open>Some k\<close>: a date was read from \<open>k\<close> tokens.  Outside the tokens \<open>out\<close> is not touched; within
  them it is cleared first.
\<close>

definition memory_parse_date_tokens :: "string list \<Rightarrow> nat \<Rightarrow> parsed_date \<Rightarrow> parsed_date \<times> nat option" where
  "memory_parse_date_tokens qtokens start out =
     (if length qtokens \<le> start then (out, None)
      else let ts = drop start qtokens
           in orelse_date (attempt 3 (iso_attempt ts))
                (orelse_date (dated_attempt ts)
                  (orelse_date (undated_attempt ts)
                    (orelse_date (attempt 1 (month_attempt ts)) (attempt 1 (year_attempt ts))))) date_zero)"

definition memory_parse_temporal_ref_date :: "normalizer \<Rightarrow> cptr \<Rightarrow> cptr \<Rightarrow> parsed_date option" where
  "memory_parse_temporal_ref_date nrm ref_key granularity =
     (if \<not> nonempty ref_key then None
      else let tokens = memory_split_tokens (Some (nrm (the ref_key) 128)) 8
           in if tokens = [] then None
              else case memory_parse_date_tokens tokens 0 date_zero of
                     (d, Some k) \<Rightarrow>
                       Some (if pd_granularity d = 2 \<and> granularity = Some ''month'' then d\<lparr>pd_day := 0\<rparr> else d)
                   | (d, None) \<Rightarrow> None)"

subsection \<open>Order\<close>

definition memory_date_compare :: "parsed_date option \<Rightarrow> parsed_date option \<Rightarrow> int" where
  "memory_date_compare a b =
     (case (a, b) of
        (Some x, Some y) \<Rightarrow>
          if \<not> pd_valid x \<or> \<not> pd_valid y then 0
          else let precision = (if pd_granularity x < pd_granularity y then pd_granularity x else pd_granularity y)
               in if pd_year x \<noteq> pd_year y then (if pd_year x < pd_year y then -1 else 1)
                  else if precision = 1 then 0
                  else if pd_month x \<noteq> pd_month y then (if pd_month x < pd_month y then -1 else 1)
                  else if precision = 2 then 0
                  else if pd_day x \<noteq> pd_day y then (if pd_day x < pd_day y then -1 else 1)
                  else 0
      | _ \<Rightarrow> 0)"

subsection \<open>Constraints\<close>

definition memory_query_wants_recent :: "cptr \<Rightarrow> bool" where
  "memory_query_wants_recent norm_query \<longleftrightarrow>
     list_ex (\<lambda>t. memory_query_has_term norm_query (Some t))
       [''latest'', ''recent'', ''newest'', ''current'', ''today'', ''now'']"

definition memory_query_wants_past :: "cptr \<Rightarrow> bool" where
  "memory_query_wants_past norm_query \<longleftrightarrow>
     list_ex (\<lambda>t. memory_query_has_term norm_query (Some t))
       [''before'', ''earlier'', ''earliest'', ''previous'', ''older'']"

definition memory_query_wants_future :: "cptr \<Rightarrow> bool" where
  "memory_query_wants_future norm_query \<longleftrightarrow>
     list_ex (\<lambda>t. memory_query_has_term norm_query (Some t)) [''after'', ''later'', ''next'', ''upcoming'']"

text \<open>The start of the second date of \<open>between A and B\<close>: behind every \<open>and\<close>.\<close>

fun skip_and :: "string list \<Rightarrow> nat \<Rightarrow> nat" where
  "skip_and [] i = i"
| "skip_and (t # ts) i = (if t = ''and'' then skip_and ts (Suc i) else i)"

definition between_at :: "string list \<Rightarrow> nat \<Rightarrow> temporal_constraint \<Rightarrow> temporal_constraint \<times> bool" where
  "between_at qt i out =
     (if qt ! i \<noteq> ''between'' then (out, False)
      else case memory_parse_date_tokens qt (i + 1) (tc_first out) of
             (f, None) \<Rightarrow> (out\<lparr>tc_first := f\<rparr>, False)
           | (f, Some consumed) \<Rightarrow>
               let second_start = skip_and (drop (i + 1 + consumed) qt) (i + 1 + consumed)
               in case memory_parse_date_tokens qt second_start (tc_second out) of
                    (s, None) \<Rightarrow> (out\<lparr>tc_first := f, tc_second := s\<rparr>, False)
                  | (s, Some k) \<Rightarrow> (out\<lparr>tc_first := f, tc_second := s, tc_mode := MODE_BETWEEN\<rparr>, True))"

definition bound_at :: "string list \<Rightarrow> constraint_mode \<Rightarrow> string list \<Rightarrow> nat \<Rightarrow> temporal_constraint \<Rightarrow> temporal_constraint \<times> bool" where
  "bound_at ws mode qt i out =
     (if qt ! i \<notin> set ws then (out, False)
      else case memory_parse_date_tokens qt (i + 1) (tc_first out) of
             (f, None) \<Rightarrow> (out\<lparr>tc_first := f\<rparr>, False)
           | (f, Some k) \<Rightarrow> (out\<lparr>tc_first := f, tc_mode := mode\<rparr>, True))"

definition date_at :: "string list \<Rightarrow> nat \<Rightarrow> temporal_constraint \<Rightarrow> temporal_constraint \<times> bool" where
  "date_at qt i out =
     (case memory_parse_date_tokens qt i (tc_first out) of
        (f, None) \<Rightarrow> (out\<lparr>tc_first := f\<rparr>, False)
      | (f, Some k) \<Rightarrow> (out\<lparr>tc_first := f, tc_mode := MODE_MATCH\<rparr>, True))"

text \<open>Steps that thread \<open>out\<close> until one of them succeeds.\<close>

fun first_success :: "('a \<Rightarrow> 'a \<times> bool) list \<Rightarrow> 'a \<Rightarrow> 'a \<times> bool" where
  "first_success [] out = (out, False)"
| "first_success (f # fs) out = (case f out of (o', True) \<Rightarrow> (o', True) | (o', False) \<Rightarrow> first_success fs o')"

definition bounded_dates :: "string list \<Rightarrow> (temporal_constraint \<Rightarrow> temporal_constraint \<times> bool) list" where
  "bounded_dates qt = concat (map (\<lambda>i.
     [between_at qt i, bound_at [''before'', ''until''] MODE_BEFORE qt i,
      bound_at [''after'', ''since''] MODE_AFTER qt i]) [0..<length qt])"

definition memory_parse_temporal_constraint :: "int \<Rightarrow> cptr \<Rightarrow> string list \<Rightarrow> temporal_constraint \<times> bool" where
  "memory_parse_temporal_constraint n norm_query qtokens =
     (if qtokens = [] then (constraint_zero, False)
      else case first_success
             (memory_parse_relative_temporal_constraint n qtokens # bounded_dates qtokens @
              map (date_at qtokens) [0..<length qtokens]) constraint_zero of
             (out, True) \<Rightarrow> (out, True)
           | (out, False) \<Rightarrow>
               (out, norm_query \<noteq> None \<and>
                  (memory_query_wants_past norm_query \<or> memory_query_wants_future norm_query)))"

definition memory_temporal_constraint_score :: "temporal_constraint option \<Rightarrow> parsed_date option \<Rightarrow> real" where
  "memory_temporal_constraint_score constraint candidate =
     (case (constraint, candidate) of
        (Some c, Some d) \<Rightarrow>
          if tc_mode c = MODE_NONE \<or> \<not> pd_valid d then 0
          else
            let cmp_first = (if pd_valid (tc_first c) then memory_date_compare (Some d) (Some (tc_first c)) else 0);
                cmp_second = (if pd_valid (tc_second c) then memory_date_compare (Some d) (Some (tc_second c)) else 0);
                base = (if 3 \<le> pd_granularity d then 62 / 100
                        else if pd_granularity d = 2 then 38 / 100 else 22 / 100)
            in (case tc_mode c of
                  MODE_MATCH \<Rightarrow> if cmp_first = 0 then base else - (28 / 100)
                | MODE_BEFORE \<Rightarrow> if cmp_first < 0 then base else - (30 / 100)
                | MODE_AFTER \<Rightarrow> if 0 < cmp_first then base else - (30 / 100)
                | MODE_BETWEEN \<Rightarrow>
                    if \<not> pd_valid (tc_second c) then 0
                    else if 0 \<le> cmp_first \<and> cmp_second \<le> 0 then base + 8 / 100 else - (34 / 100)
                | MODE_NONE \<Rightarrow> 0)
      | _ \<Rightarrow> 0)"

subsection \<open>Dated values and references\<close>

definition date_signal :: "string \<Rightarrow> bool" where
  "date_signal t \<longleftrightarrow> memory_is_month_token t \<or> memory_is_weekday_token t \<or> t \<noteq> [] \<and> isdigit (hd t)"

text \<open>\<open>strncat\<close> of the words that are neither dates nor stop words, blank-separated, in 1024 bytes.\<close>

definition append_word :: "string \<Rightarrow> string \<Rightarrow> string" where
  "append_word acc t = (let acc' = (if acc = [] then acc else cbuf 1024 (acc @ '' '')) in cbuf 1024 (acc' @ t))"

definition plain_words :: "string list \<Rightarrow> string" where
  "plain_words ts = foldl append_word [] (filter (\<lambda>t. \<not> date_signal t \<and> \<not> memory_is_stopword_token t) ts)"

definition memory_temporal_value_conflict ::
    "normalizer \<Rightarrow> (string \<Rightarrow> string \<Rightarrow> real) \<Rightarrow> (string \<Rightarrow> string \<Rightarrow> real) \<Rightarrow> cptr \<Rightarrow> cptr \<Rightarrow> bool" where
  "memory_temporal_value_conflict nrm word_similarity trigram_similarity a b =
     (case (a, b) of
        (Some x, Some y) \<Rightarrow>
          let na = nrm x 1024; nb = nrm y 1024;
              atok = memory_split_tokens (Some na) 24; btok = memory_split_tokens (Some nb) 24;
              a_non = plain_words atok; b_non = plain_words btok
          in if \<not> list_ex date_signal atok \<or> \<not> list_ex date_signal btok then False
             else list_ex (\<lambda>t. \<not> date_signal t \<and> memory_token_in_norm (Some b_non) (Some t)) atok \<and>
                  55 / 100 < word_similarity a_non b_non \<and> trigram_similarity na nb < 95 / 100
      | _ \<Rightarrow> False)"

definition token_triples :: "string list \<Rightarrow> (string \<times> string \<times> string) list" where
  "token_triples qt = map (\<lambda>i. (qt ! i, qt ! (i + 1), qt ! (i + 2))) [0..<length qt - 2]"

definition iso_triple :: "string \<times> string \<times> string \<Rightarrow> (int \<times> int \<times> int) option" where
  "iso_triple t = (case t of (a, b, c) \<Rightarrow> memory_parse_iso_date_token (Some (join3 a b c)))"

definition memory_temporal_query_has_explicit_date :: "string list \<Rightarrow> bool" where
  "memory_temporal_query_has_explicit_date qt \<longleftrightarrow>
     list_ex (\<lambda>t. (length t = 4 \<or> length t = 2) \<and> isdigit (hd t) \<or> memory_is_month_token t) qt \<or>
     list_ex (\<lambda>t. iso_triple t \<noteq> None) (token_triples qt)"

text \<open>The digits of a number.\<close>

fun digits :: "nat \<Rightarrow> string" where
  "digits n = (if n < 10 then [char_of (48 + n)] else digits (n div 10) @ [char_of (48 + n mod 10)])"

declare digits.simps [simp del]

text \<open>\<open>%d\<close> and \<open>%lld\<close>.\<close>

definition decimal :: "int \<Rightarrow> string" where
  "decimal v = (if v < 0 then ''-'' @ digits (nat (- v)) else digits (nat v))"

text \<open>\<open>%0<w>d\<close>: the sign counts for the width.\<close>

definition pad :: "nat \<Rightarrow> int \<Rightarrow> string" where
  "pad w v =
     (if v < 0 then let s = digits (nat (- v)) in ''-'' @ replicate (w - 1 - length s) (CHR ''0'') @ s
      else let s = digits (nat v) in replicate (w - length s) (CHR ''0'') @ s)"

definition memory_format_date :: "nat \<Rightarrow> int \<Rightarrow> int \<Rightarrow> int \<Rightarrow> string" where
  "memory_format_date buf_len year month day =
     cbuf buf_len (pad 4 year @ ''-'' @ pad 2 month @ ''-'' @ pad 2 day)"

definition memory_temporal_ref_matches_query :: "cptr \<Rightarrow> string list \<Rightarrow> bool" where
  "memory_temporal_ref_matches_query ref_key qt \<longleftrightarrow>
     nonempty ref_key \<and> qt \<noteq> [] \<and>
     (list_ex (\<lambda>t. memory_token_in_norm ref_key (Some t)) qt \<or>
      list_ex (\<lambda>t. case iso_triple t of None \<Rightarrow> False
        | Some (y, m, d) \<Rightarrow>
            memory_token_in_norm ref_key (Some (cbuf 8 (pad 4 y))) \<and>
            (memory_token_in_norm ref_key (Some (cbuf 4 (pad 2 m))) \<or>
             memory_token_in_norm ref_key (Some (cbuf 4 (pad 2 d))))) (token_triples qt))"

subsection \<open>Days of the clock\<close>

abbreviation day_date :: "int \<Rightarrow> parsed_date" where
  "day_date k \<equiv> full_date (utc_date k)"

lemma full_date_simps [simp]:
  "pd_valid (full_date d)" "pd_granularity (full_date d) = 3"
  by (cases d; simp)+

text \<open>A shift that stays within the \<open>int\<close> of the day, for which 31 days of room are enough.\<close>

definition day_shift :: "int \<Rightarrow> bool" where
  "day_shift k \<longleftrightarrow> - (2 ^ 31) \<le> k \<and> k < 2 ^ 31 - 31"

lemma utc_day_range: "utc_date n = (y, m, d) \<Longrightarrow> 1 \<le> d \<and> d \<le> 31"
  using utc_date_valid [of n] by (auto simp: month_days_def split: if_splits)

lemma add_days_day [simp]:
  assumes "day_shift k"
  shows "memory_add_days (day_date n) k = day_date (n + k)"
proof -
  obtain y m d where ymd: "utc_date n = (y, m, d)"
    by (cases "utc_date n")
  have "wrap32 (d + k) = d + k"
    using utc_day_range [OF ymd] assms by (intro wrap32_id) (auto simp: day_shift_def)
  moreover have "norm_date y m (d + k) = shift_days k (y, m, d)"
    using utc_date_valid [of n] by (intro norm_date_valid) (simp add: ymd)
  ultimately show ?thesis
    using shift_utc_date [of k n] by (simp add: memory_add_days_def ymd)
qed

lemma compare_full:
  "memory_date_compare (Some (full_date a)) (Some (full_date b)) =
     (if date_less a b then -1 else if a = b then 0 else 1)"
  by (cases a; cases b) (auto simp: memory_date_compare_def)

lemma compare_day [simp]:
  "memory_date_compare (Some (day_date a)) (Some (day_date b)) = (if a < b then -1 else if a = b then 0 else 1)"
  by (simp add: compare_full utc_date_less_iff utc_date_inject)

lemma compare_antisym: "memory_date_compare a b = - memory_date_compare b a"
  by (auto simp: memory_date_compare_def Let_def split: option.split)

lemma compare_self: "memory_date_compare a a = 0"
  by (auto simp: memory_date_compare_def Let_def split: option.split)

lemma compare_range: "memory_date_compare a b \<in> {-1, 0, 1}"
  by (auto simp: memory_date_compare_def Let_def split: option.split)

text \<open>Words the relative parser passes over.\<close>

definition quiet :: "string \<Rightarrow> bool" where
  "quiet t \<longleftrightarrow> t \<notin> {''today'', ''yesterday'', ''tomorrow'', ''last'', ''next''} \<and> \<not> isdigit (char_at t 0)"

lemma parse_relative_quiet:
  "list_all quiet pre \<Longrightarrow> parse_relative n (pre @ ts) out = parse_relative n ts out"
  by (induction pre) (auto simp: quiet_def Let_def)

lemma constraint_relative:
  assumes "list_all quiet pre" "parse_relative n ts constraint_zero = (c, True)" "ts \<noteq> []"
  shows "memory_parse_temporal_constraint n q (pre @ ts) = (c, True)"
  using assms parse_relative_quiet [OF assms(1), of n ts constraint_zero]
  by (simp add: memory_parse_temporal_constraint_def memory_parse_relative_temporal_constraint_def)

lemma score_match_day:
  "0 < memory_temporal_constraint_score (Some (match_date (day_date m) out)) (Some (day_date k)) \<longleftrightarrow> k = m"
  by (auto simp: memory_temporal_constraint_score_def match_date_def Let_def)

lemma score_between_days:
  "0 < memory_temporal_constraint_score
         (Some (out\<lparr>tc_first := day_date a, tc_second := day_date b, tc_mode := MODE_BETWEEN\<rparr>)) (Some (day_date k))
     \<longleftrightarrow> a \<le> k \<and> k \<le> b"
  by (auto simp: memory_temporal_constraint_score_def Let_def)

text \<open>Weeks from Monday to Sunday; day 0 of the epoch was a Thursday.\<close>

definition week_of :: "int \<Rightarrow> int" where
  "week_of k = (k + 3) div 7"

lemma week_start: "n - (if utc_weekday n = 0 then 6 else utc_weekday n - 1) = 7 * week_of n - 3"
  unfolding utc_weekday_def week_of_def by presburger

lemma week_days: "7 * w - 3 \<le> k \<and> k \<le> 7 * w + 3 \<longleftrightarrow> week_of k = w"
  unfolding week_of_def by presburger

lemma relative_week:
  assumes "delta \<in> {-1, 1}"
  shows "relative_unit n delta ''week'' out =
     Some (out\<lparr>tc_first := day_date (7 * (week_of n + delta) - 3), tc_second := day_date (7 * (week_of n + delta) + 3),
       tc_mode := MODE_BETWEEN\<rparr>)"
proof -
  have "n + (- (if utc_weekday n = 0 then 6 else utc_weekday n - 1) + delta * 7) = 7 * (week_of n + delta) - 3"
    using week_start [of n] by simp
  moreover have "day_shift (- (if utc_weekday n = 0 then 6 else utc_weekday n - 1) + delta * 7)"
    using assms by (auto simp: day_shift_def utc_weekday_def)
  ultimately have first: "memory_add_days (day_date n) (- (if utc_weekday n = 0 then 6 else utc_weekday n - 1) + delta * 7) =
      day_date (7 * (week_of n + delta) - 3)"
    by (simp only: add_days_day)
  show ?thesis
    unfolding relative_unit_def memory_current_utc_date_def Let_def first by (simp add: day_shift_def algebra_simps)
qed

subsection \<open>Numbers and their digits\<close>

lemma digits_value_snoc: "digits_value (ds @ [c]) = 10 * digits_value ds + (int (code c) - 48)"
  by (simp add: digits_value_def)

lemma code_digit: "(d :: nat) < 10 \<Longrightarrow> code (char_of (48 + d)) = 48 + d"
  by simp

lemma isdigit_char_of: "(d :: nat) < 10 \<Longrightarrow> isdigit (char_of (48 + d))"
  by (simp add: isdigit_def)

lemma digits_value_digits: "digits_value (digits n) = int n"
proof (induction n rule: digits.induct)
  case (1 n)
  show ?case
  proof (cases "n < 10")
    case True
    then show ?thesis
      by (subst digits.simps) (simp add: digits_value_def)
  next
    case False
    then have "digits_value (digits n) = 10 * int (n div 10) + int (n mod 10)"
      using 1 by (subst digits.simps) (simp add: digits_value_snoc)
    then show ?thesis
      by presburger
  qed
qed

lemma digits_are_digits: "list_all isdigit (digits n)"
proof (induction n rule: digits.induct)
  case (1 n)
  then show ?case
    by (subst digits.simps) (auto intro!: isdigit_char_of)
qed

lemma digits_nonempty [simp]: "digits n \<noteq> []"
  by (subst digits.simps) simp

lemma length_digits: "n < 10 ^ k \<Longrightarrow> 0 < k \<Longrightarrow> length (digits n) \<le> k"
proof (induction k arbitrary: n)
  case (Suc k)
  show ?case
  proof (cases "n < 10")
    case False
    then have "0 < k" using Suc.prems(1) by (cases k) simp_all
    moreover have "n div 10 < 10 ^ k" using Suc.prems(1) by (simp add: less_mult_imp_div_less mult.commute)
    ultimately have "length (digits (n div 10)) \<le> k" using Suc.IH by blast
    then show ?thesis using False by (subst digits.simps) simp
  qed (subst digits.simps, simp)
qed simp

end
