(* ===== verification/Temporal_Properties.thy ===== *)
theory Temporal_Properties
  imports Temporal
begin

text \<open>Properties of dates in queries.\<close>

lemma scan_digits:
  assumes "n < 2 ^ 31"
  shows "scan_int (digits n) = Some (int n)"
proof (rule scan_int_small)
  have hd: "isdigit (hd (digits n))"
    using digits_are_digits [of n] by (cases "digits n") auto
  then have "\<not> isspace (hd (digits n))" "hd (digits n) \<noteq> CHR ''-''" "hd (digits n) \<noteq> CHR ''+''"
    by (auto simp: isdigit_def isspace_def)
  moreover have "takeWhile isdigit (digits n) = digits n"
    using digits_are_digits by (simp add: takeWhile_eq_all_conv list_all_iff)
  moreover have "dropWhile isspace (digits n) = digits n"
    using calculation(1) by (cases "digits n") auto
  ultimately show "scan_number (digits n) = Some (int n)"
    by (simp add: scan_number_def Let_def digits_value_digits del: takeWhile_eq_all_conv)
qed (use assms in simp_all)

lemma char_at_digits: "isdigit (char_at (digits n) 0)"
  using digits_are_digits [of n] by (cases "digits n") (auto simp: char_at_def)

lemma digits_not_word: "isdigit (char_at w 0) = False \<Longrightarrow> digits n \<noteq> w"
  using char_at_digits [of n] by auto

text \<open>How a candidate day scores under the constraint of a query.\<close>

definition query_score :: "int \<Rightarrow> cptr \<Rightarrow> string list \<Rightarrow> int \<Rightarrow> real" where
  "query_score n q ts k =
     memory_temporal_constraint_score (Some (fst (memory_parse_temporal_constraint n q ts))) (Some (day_date k))"

lemma query_score_relative:
  assumes "list_all quiet pre" "parse_relative n ts constraint_zero = (c, True)" "ts \<noteq> []"
  shows "query_score n q (pre @ ts) k = memory_temporal_constraint_score (Some c) (Some (day_date k))"
  using constraint_relative [OF assms] by (simp add: query_score_def)

lemma parse_day_words:
  "parse_relative n (''today'' # ts) out = (match_date (day_date n) out, True)"
  "parse_relative n (''yesterday'' # ts) out = (match_date (day_date (n - 1)) out, True)"
  "parse_relative n (''tomorrow'' # ts) out = (match_date (day_date (n + 1)) out, True)"
  by (simp_all add: memory_current_utc_date_def day_shift_def)

lemma parse_week_words:
  "parse_relative n (''last'' # ''week'' # ts) out = (the (relative_unit n (-1) ''week'' out), True)"
  "parse_relative n (''next'' # ''week'' # ts) out = (the (relative_unit n 1 ''week'' out), True)"
  by (simp_all add: relative_week)

lemma score_week:
  "delta \<in> {-1, 1} \<Longrightarrow> 0 < memory_temporal_constraint_score (Some (the (relative_unit n delta ''week'' out))) (Some (day_date k))
     \<longleftrightarrow> week_of k = week_of n + delta"
  by (simp only: relative_week option.sel score_between_days week_days)

lemma parse_days_ago:
  assumes "0 < d" "7 * d < 2 ^ 31"
  shows "parse_relative n (digits d # ''days'' # ''ago'' # ts) out = (match_date (day_date (n - int d)) out, True)"
    and "parse_relative n (digits d # ''weeks'' # ''ago'' # ts) out = (match_date (day_date (n - 7 * int d)) out, True)"
proof -
  have words: "digits d \<noteq> ''today''" "digits d \<noteq> ''yesterday''" "digits d \<noteq> ''tomorrow''"
    "digits d \<noteq> ''last''" "digits d \<noteq> ''next''"
    by (rule digits_not_word, simp add: char_at_def isdigit_def)+
  have "atoi (digits d) = int d"
    using assms(2) by (simp add: atoi_def scan_digits)
  moreover have "wrap32 (- (int d * 7)) = - (int d * 7)"
    using assms(2) by (intro wrap32_id) simp_all
  ultimately show "parse_relative n (digits d # ''days'' # ''ago'' # ts) out = (match_date (day_date (n - int d)) out, True)"
    "parse_relative n (digits d # ''weeks'' # ''ago'' # ts) out = (match_date (day_date (n - 7 * int d)) out, True)"
    using words assms char_at_digits
    by (simp_all add: relative_ago_def memory_current_utc_date_def Let_def day_shift_def algebra_simps)
qed

text \<open>
  C34. Relative dates in a query select the days they name.  Behind any words that are no
  relative expression, and whatever follows, a day \<open>k\<close> scores positively on day \<open>n\<close> exactly when
  it is the same day (\<open>today\<close>), the day before or after (\<open>yesterday\<close>, \<open>tomorrow\<close>), the day \<open>d\<close>
  days or weeks before (\<open>d days ago\<close>, \<open>d weeks ago\<close>), or lies in the Monday-to-Sunday week before
  or after the current one (\<open>last week\<close>, \<open>next week\<close>).  The clock and the amount stay within
  what the C \<open>int\<close>s hold: \<open>7 d\<close> below 2 to the 31, and \<open>n\<close> within as many days of the epoch.
\<close>

theorem relative_dates_select_their_days:
  assumes "list_all quiet pre" "0 < d" "7 * d < 2 ^ 31" "\<bar>n\<bar> < 2 ^ 31"
  shows "(0 < query_score n q (pre @ ''today'' # post) k \<longleftrightarrow> k = n) \<and>
    (0 < query_score n q (pre @ ''yesterday'' # post) k \<longleftrightarrow> k = n - 1) \<and>
    (0 < query_score n q (pre @ ''tomorrow'' # post) k \<longleftrightarrow> k = n + 1) \<and>
    (0 < query_score n q (pre @ digits d # ''days'' # ''ago'' # post) k \<longleftrightarrow> k = n - int d) \<and>
    (0 < query_score n q (pre @ digits d # ''weeks'' # ''ago'' # post) k \<longleftrightarrow> k = n - 7 * int d) \<and>
    (0 < query_score n q (pre @ ''last'' # ''week'' # post) k \<longleftrightarrow> week_of k = week_of n - 1) \<and>
    (0 < query_score n q (pre @ ''next'' # ''week'' # post) k \<longleftrightarrow> week_of k = week_of n + 1)"
proof (intro conjI)
  note rel = query_score_relative [OF assms(1)]
  show "0 < query_score n q (pre @ ''today'' # post) k \<longleftrightarrow> k = n"
    "0 < query_score n q (pre @ ''yesterday'' # post) k \<longleftrightarrow> k = n - 1"
    "0 < query_score n q (pre @ ''tomorrow'' # post) k \<longleftrightarrow> k = n + 1"
    using rel parse_day_words score_match_day by simp_all
  show "0 < query_score n q (pre @ digits d # ''days'' # ''ago'' # post) k \<longleftrightarrow> k = n - int d"
    "0 < query_score n q (pre @ digits d # ''weeks'' # ''ago'' # post) k \<longleftrightarrow> k = n - 7 * int d"
    using rel [OF parse_days_ago(1) [OF assms(2,3)]] rel [OF parse_days_ago(2) [OF assms(2,3)]] score_match_day by simp_all
  show "0 < query_score n q (pre @ ''last'' # ''week'' # post) k \<longleftrightarrow> week_of k = week_of n - 1"
    "0 < query_score n q (pre @ ''next'' # ''week'' # post) k \<longleftrightarrow> week_of k = week_of n + 1"
    using rel [OF parse_week_words(1)] rel [OF parse_week_words(2)] score_week by simp_all
qed

theorem relative_dates_select_their_days_witness:
  "(0 < query_score 19797 None [''what'', ''happened'', ''yesterday''] 19796) \<and>
   (0 < query_score 19797 None [''what'', ''happened'', ''last'', ''week''] 19787 \<longleftrightarrow> week_of 19787 = week_of 19797 - 1) \<and>
   week_of 19787 = week_of 19797 - 1"
proof -
  have "list_all quiet [''what'', ''happened'']"
    by (simp add: quiet_def char_at_def isdigit_def)
  then show ?thesis
    using relative_dates_select_their_days [of "[''what'', ''happened'']" 1 19797 None "[]" 19796]
      relative_dates_select_their_days [of "[''what'', ''happened'']" 1 19797 None "[]" 19787]
    by (simp add: week_of_def)
qed

text \<open>
  C35. The score of a dated candidate under a constraint.  Comparison is antisymmetric and, on
  full dates, chronological.  With a valid first date, exactly one of match, before and after
  rewards the candidate, according to the comparison; a range rewards it exactly when it has a
  valid end and the candidate is not before its start nor behind its end; and every score lies
  between -0.34 and 0.70.
\<close>

theorem constraint_score_correct:
  assumes "pd_valid d" "pd_valid f"
  shows "let score = (\<lambda>mode. memory_temporal_constraint_score
      (Some \<lparr>tc_mode = mode, tc_first = f, tc_second = g\<rparr>) (Some d)); cmp = memory_date_compare in
    cmp a b = - cmp b a \<and>
    cmp (Some (full_date x)) (Some (full_date y)) = (if date_less x y then -1 else if x = y then 0 else 1) \<and>
    (0 < score MODE_MATCH \<longleftrightarrow> cmp (Some d) (Some f) = 0) \<and>
    (0 < score MODE_BEFORE \<longleftrightarrow> cmp (Some d) (Some f) < 0) \<and>
    (0 < score MODE_AFTER \<longleftrightarrow> 0 < cmp (Some d) (Some f)) \<and>
    (0 < score MODE_BETWEEN \<longleftrightarrow> pd_valid g \<and> 0 \<le> cmp (Some d) (Some f) \<and> cmp (Some d) (Some g) \<le> 0) \<and>
    - (34 / 100) \<le> score mode \<and> score mode \<le> 70 / 100"
  unfolding Let_def
  using assms compare_antisym [of a b] compare_full [of x y]
  by (auto simp: memory_temporal_constraint_score_def Let_def split: constraint_mode.split)

theorem constraint_score_correct_witness:
  "0 < memory_temporal_constraint_score
     (Some \<lparr>tc_mode = MODE_BEFORE, tc_first = full_date (2024, 3, 5), tc_second = date_zero\<rparr>) (Some (full_date (2024, 2, 29)))"
  using constraint_score_correct [of "full_date (2024, 2, 29)" "full_date (2024, 3, 5)" date_zero]
  by (simp add: Let_def compare_full del: full_date.simps)

text \<open>Digits followed by something else.\<close>

lemma digits_value_bound: "list_all isdigit ds \<Longrightarrow> 0 \<le> digits_value ds \<and> digits_value ds < 10 ^ length ds"
proof (induction ds rule: rev_induct)
  case (snoc c cs)
  then have "0 \<le> int (code c) - 48" "int (code c) - 48 \<le> 9" "0 \<le> digits_value cs"
    "digits_value cs + 1 \<le> 10 ^ length cs"
    by (auto simp: isdigit_def)
  then show ?case
    by (simp add: digits_value_snoc)
qed (simp add: digits_value_def)

lemma scan_digits_then:
  assumes "ds \<noteq> []" "list_all isdigit ds" "rest = [] \<or> \<not> isdigit (hd rest)" "length ds \<le> 9"
  shows "scan_int (ds @ rest) = Some (digits_value ds)"
proof (rule scan_int_small)
  obtain c cs where ds: "ds = c # cs"
    using assms(1) by (cases ds) auto
  have c: "\<not> isspace c" "c \<noteq> CHR ''-''" "c \<noteq> CHR ''+''"
    using assms(2) by (auto simp: ds isdigit_def isspace_def)
  have "takeWhile isdigit (ds @ rest) = ds"
    using assms(2,3) by (cases rest) (auto simp: list_all_iff takeWhile_append)
  then have "takeWhile isdigit (c # cs @ rest) = ds"
    by (simp add: ds)
  then show "scan_number (ds @ rest) = Some (digits_value ds)"
    using c assms(1) by (simp add: scan_number_def Let_def ds del: takeWhile.simps)
next
  have "(10::int) ^ length ds \<le> 10 ^ 9"
    by (rule power_increasing) (use assms(4) in simp_all)
  then show "- (2 ^ 31) \<le> digits_value ds" "digits_value ds < 2 ^ 31"
    using digits_value_bound [OF assms(2)] by simp_all
qed

lemma digits_value_zeros: "digits_value (replicate k (CHR ''0'') @ ds) = digits_value ds"
  by (induction k) (simp_all add: digits_value_def)

lemma pad_ok:
  assumes "0 \<le> v" "v < 10 ^ w" "0 < w"
  shows "length (pad w v) = w" "list_all isdigit (pad w v)" "digits_value (pad w v) = v"
proof -
  have "nat v < 10 ^ w"
    using assms(1,2) by (simp add: nat_less_iff)
  then have "length (digits (nat v)) \<le> w"
    using length_digits [of "nat v" w] assms(3) by simp
  then show "length (pad w v) = w"
    using assms(1) by (simp add: pad_def Let_def)
  show "list_all isdigit (pad w v)"
    using digits_are_digits assms(1) by (auto simp: pad_def Let_def list_all_iff isdigit_def)
  show "digits_value (pad w v) = v"
    using assms(1) by (simp add: pad_def Let_def digits_value_zeros digits_value_digits)
qed

lemma atoi_digits_then:
  "ds \<noteq> [] \<Longrightarrow> list_all isdigit ds \<Longrightarrow> rest = [] \<or> \<not> isdigit (hd rest) \<Longrightarrow> length ds \<le> 9 \<Longrightarrow>
    atoi (ds @ rest) = digits_value ds"
  by (simp add: atoi_def scan_digits_then)

lemma iso_join:
  assumes "length a = 4" "length b = 2" "length c = 2" "list_all isdigit a" "list_all isdigit b" "list_all isdigit c"
  shows "memory_parse_iso_date_token (Some (join3 a b c)) = Some (digits_value a, digits_value b, digits_value c)"
proof -
  have t: "join3 a b c = a @ '' '' @ b @ '' '' @ c"
    using assms(1-3) by (simp add: join3_def cbuf_fits)
  have blank: "\<not> isdigit (CHR '' '')"
    by (simp add: isdigit_def)
  have "atoi (a @ '' '' @ b @ '' '' @ c) = digits_value a" "atoi (b @ '' '' @ c) = digits_value b"
    using assms blank by (auto intro!: atoi_digits_then)
  moreover have "atoi (c @ []) = digits_value c"
    using assms by (intro atoi_digits_then) auto
  ultimately have reads: "atoi (a @ '' '' @ b @ '' '' @ c) = digits_value a" "atoi (b @ '' '' @ c) = digits_value b"
    "atoi (c @ []) = digits_value c"
    by blast+
  have drops: "drop 5 (a @ '' '' @ b @ '' '' @ c) = b @ '' '' @ c" "drop 8 (a @ '' '' @ b @ '' '' @ c) = c @ []"
    using assms(1,2) by simp_all
  have digs: "\<And>i. i < 4 \<Longrightarrow> isdigit (a ! i)" "\<And>i. i < 2 \<Longrightarrow> isdigit (b ! i)" "\<And>i. i < 2 \<Longrightarrow> isdigit (c ! i)"
    using assms by (simp_all add: list_all_length)
  have "list_all (\<lambda>i. isdigit ((a @ '' '' @ b @ '' '' @ c) ! i)) [0, 1, 2, 3, 5, 6, 8, 9]"
    "(a @ '' '' @ b @ '' '' @ c) ! 4 = CHR '' ''" "(a @ '' '' @ b @ '' '' @ c) ! 7 = CHR '' ''"
    using assms(1-3) digs by (simp_all add: nth_append)
  then show ?thesis
    unfolding t memory_parse_iso_date_token_def option.case drops reads
    using assms(1-3) by simp
qed

text \<open>
  Dates survive printing and reading.  \<open>memory_format_date\<close> writes a date with a four-digit
  year as \<open>YYYY-MM-DD\<close>; its three fields, as tokens anywhere in a query, are read back as that
  date at day precision, consuming exactly the three tokens.
\<close>

lemma printed_date_reads_back:
  assumes "0 \<le> y" "y < 10 ^ 4" "0 \<le> m" "m < 10 ^ 2" "0 \<le> d" "d < 10 ^ 2"
  shows "memory_format_date 16 y m d = pad 4 y @ ''-'' @ pad 2 m @ ''-'' @ pad 2 d \<and>
    memory_parse_date_tokens (pre @ [pad 4 y, pad 2 m, pad 2 d] @ post) (length pre) out = (full_date (y, m, d), Some 3)"
proof -
  note ok = pad_ok [OF assms(1,2)] pad_ok [OF assms(3,4)] pad_ok [OF assms(5,6)]
  have "memory_parse_iso_date_token (Some (join3 (pad 4 y) (pad 2 m) (pad 2 d))) = Some (y, m, d)"
    using iso_join [of "pad 4 y" "pad 2 m" "pad 2 d"] ok by simp
  then show ?thesis
    using ok
    by (simp add: memory_format_date_def cbuf_fits memory_parse_date_tokens_def orelse_date_def attempt_def iso_attempt_def)
qed

lemma printed_date_reads_back_instance:
  "memory_parse_date_tokens [''on'', pad 4 2024, pad 2 2, pad 2 29] 1 date_zero = (full_date (2024, 2, 29), Some 3)"
  using printed_date_reads_back [of 2024 2 29 "[''on'']" "[]" date_zero] by simp

text \<open>
  The abbreviations after \<open>apr\<close>: the table has no short form of May, so the position of \<open>jun\<close>
  to \<open>sep\<close> is one too small for the rule that turns a position into a month.
\<close>

lemma month_abbreviations:
  "map memory_month_number [''jan'', ''feb'', ''mar'', ''apr'', ''jun'', ''jul'', ''aug'', ''sep'', ''sept'', ''oct'', ''nov'', ''dec'']
     = [1, 2, 3, 4, 5, 6, 7, 8, 9, 10, 11, 12]"
  by (simp add: memory_month_number_def month_table_def)

lemma month_names:
  "map memory_month_number [''january'', ''february'', ''march'', ''april'', ''may'', ''june'', ''july'', ''august'',
     ''september'', ''october'', ''november'', ''december''] = [1, 2, 3, 4, 5, 6, 7, 8, 9, 10, 11, 12]"
  by (simp add: memory_month_number_def month_table_def)

end
