(* ===== verification/Query.thy ===== *)
theory Query
  imports Temporal
begin

text \<open>
  What the search makes of a query: its shape, route and intent, the plan of the fetch
  (\<open>memory_core_search.c\<close>), the terms it is expanded with and the subqueries it is split into
  (\<open>memory_core_search_b.c\<close>), and the names and budget factors of \<open>memory_core_helpers.c\<close>.
\<close>

subsection \<open>Shapes and routes\<close>

datatype query_shape =
  SHAPE_UNKNOWN | SHAPE_FACTOID | SHAPE_LIST | SHAPE_YES_NO | SHAPE_WHEN | SHAPE_HOW | SHAPE_WHY
| SHAPE_QUANTITATIVE | SHAPE_TEMPORAL_INTERVAL

datatype query_route = ROUTE_LEXICAL | ROUTE_SEMANTIC | ROUTE_GRAPH | ROUTE_HYBRID

datatype query_intent = QUERY_GENERAL | QUERY_TEMPORAL | QUERY_ENTITY | QUERY_PROCEDURAL

fun memory_query_route_name :: "query_route \<Rightarrow> string" where
  "memory_query_route_name ROUTE_LEXICAL = ''lexical''"
| "memory_query_route_name ROUTE_SEMANTIC = ''semantic''"
| "memory_query_route_name ROUTE_GRAPH = ''graph''"
| "memory_query_route_name ROUTE_HYBRID = ''hybrid''"

fun memory_query_shape_name :: "query_shape \<Rightarrow> string" where
  "memory_query_shape_name SHAPE_FACTOID = ''factoid''"
| "memory_query_shape_name SHAPE_LIST = ''list''"
| "memory_query_shape_name SHAPE_YES_NO = ''yes_no''"
| "memory_query_shape_name SHAPE_WHEN = ''when''"
| "memory_query_shape_name SHAPE_HOW = ''how''"
| "memory_query_shape_name SHAPE_WHY = ''why''"
| "memory_query_shape_name SHAPE_QUANTITATIVE = ''quantitative''"
| "memory_query_shape_name SHAPE_TEMPORAL_INTERVAL = ''temporal_interval''"
| "memory_query_shape_name SHAPE_UNKNOWN = ''unknown''"

definition memory_fetch_budget_factor :: "query_shape \<Rightarrow> int \<Rightarrow> real" where
  "memory_fetch_budget_factor shape ntokens =
     (let token_factor = (if ntokens \<le> 2 then 3 / 2 else if ntokens \<le> 4 then 1
                          else if ntokens \<le> 7 then 3 / 4 else 1 / 2);
          shape_factor = (if shape \<in> {SHAPE_LIST, SHAPE_QUANTITATIVE, SHAPE_TEMPORAL_INTERVAL} then 13 / 10
                          else if shape = SHAPE_WHEN then 115 / 100
                          else if shape = SHAPE_FACTOID then 9 / 10
                          else if shape = SHAPE_YES_NO then 3 / 4 else 1)
      in token_factor * shape_factor)"

text \<open>The position of a word at the start of the query, up to a blank or the end.\<close>

definition memory_query_starts_with :: "cptr \<Rightarrow> cptr \<Rightarrow> string \<Rightarrow> bool" where
  "memory_query_starts_with raw_query norm_query term' \<longleftrightarrow>
     term' \<noteq> [] \<and>
     (let n = length term'; ends = (\<lambda>s. char_at s n = NUL \<or> char_at s n = CHR '' '')
      in (case norm_query of None \<Rightarrow> False | Some q \<Rightarrow> prefix term' q \<and> ends q) \<or>
         (case raw_query of None \<Rightarrow> False
          | Some q \<Rightarrow> prefix (map tolower term') (map tolower q) \<and> ends q))"

definition memory_query_shape :: "cptr \<Rightarrow> cptr \<Rightarrow> query_shape" where
  "memory_query_shape raw_query norm_query =
     (if \<not> nonempty raw_query then SHAPE_UNKNOWN
      else let starts = memory_query_starts_with raw_query norm_query;
               has = (\<lambda>t. memory_query_has_term norm_query (Some t))
           in if starts ''when'' then SHAPE_WHEN
              else if starts ''why'' then SHAPE_WHY
              else if starts ''how'' then SHAPE_HOW
              else if list_ex starts [''is'', ''are'', ''do'', ''does'', ''did'', ''can'', ''should'', ''has'', ''have'', ''had'']
              then SHAPE_YES_NO
              else if norm_query \<noteq> None \<and> list_ex has [''list'', ''all'', ''every''] \<or> starts ''which'' then SHAPE_LIST
              else if starts ''what'' \<or> starts ''who'' then SHAPE_FACTOID
              else SHAPE_UNKNOWN)"

definition ci_has :: "string \<Rightarrow> string \<Rightarrow> bool" where
  "ci_has s t \<longleftrightarrow> contains (map tolower s) (map tolower t)"

definition profile_phrases :: "string list" where
  "profile_phrases =
     [''what kind of person'', ''what type of person'', ''what sort of person'', ''how does'', ''how do'',
      ''what are'', ''what is'', ''what'' @ [CHR 0x27] @ ''s'', ''tell me about'', ''describe'', ''personality'',
      ''character'', ''communication style'', ''food preference'', ''preferences'', ''traits'', ''routines'',
      ''habits'', ''relationships'']"

definition profile_signals :: "string list" where
  "profile_signals =
     [''communicate'', ''talk'', ''speak'', ''like'', ''loves'', ''enjoys'', ''prefer'', ''fear'', ''worry'',
      ''interested in'', ''hobby'', ''hobbies'', ''personality'', ''feel'', ''thinks'', ''believes'']"

definition memory_is_profile_query :: "cptr \<Rightarrow> bool" where
  "memory_is_profile_query query \<longleftrightarrow>
     (case query of None \<Rightarrow> False
      | Some q \<Rightarrow>
          q \<noteq> [] \<and>
          (list_ex (ci_has q) profile_phrases \<and> list_ex (ci_has q) profile_signals \<or>
           list_ex (ci_has q) [''what kind of person'', ''what type of person'', ''what sort of person''] \<or>
           list_ex (ci_has q) [''communication style'', ''communicates with''] \<or>
           list_ex (ci_has q) [''food preference'', ''dietary preference'', ''food preferences'']))"

text \<open>A lower-case letter directly before an upper-case one.\<close>

definition camel_case :: "string \<Rightarrow> bool" where
  "camel_case q \<longleftrightarrow> list_ex (\<lambda>(a, b). islower a \<and> isupper b) (zip q (tl q))"

definition memory_query_is_code_like :: "cptr \<Rightarrow> bool" where
  "memory_query_is_code_like query \<longleftrightarrow>
     (case query of None \<Rightarrow> False
      | Some q \<Rightarrow>
          q \<noteq> [] \<and>
          (list_ex (\<lambda>c. c \<in> {CHR ''_'', CHR ''/'', CHR ''.'', CHR '':'', CHR ''-'', CHR ''#''}) q \<or> camel_case q \<or>
           \<not> list_ex isspace q \<and> 1 < length (filter isupper q) \<and> 1 < length (filter islower q)))"

definition memory_query_route :: "cptr \<Rightarrow> cptr \<Rightarrow> query_shape \<Rightarrow> query_route" where
  "memory_query_route raw_query norm_query shape =
     (if memory_is_profile_query raw_query then ROUTE_HYBRID
      else if (case raw_query of None \<Rightarrow> False
               | Some q \<Rightarrow> list_ex (ci_has q) [''what calls'', ''who calls'', ''depends on'', ''fixes'']) \<or>
              (case norm_query of None \<Rightarrow> False | Some q \<Rightarrow> contains q ''callers'' \<or> contains q ''depends on'')
      then ROUTE_GRAPH
      else if (case raw_query of None \<Rightarrow> False | Some q \<Rightarrow> CHR 0x60 \<in> set q) \<or>
              memory_query_is_code_like raw_query \<or> memory_query_is_code_like norm_query
      then ROUTE_LEXICAL
      else if shape \<in> {SHAPE_HOW, SHAPE_WHY, SHAPE_WHEN, SHAPE_FACTOID} then ROUTE_SEMANTIC
      else ROUTE_HYBRID)"

subsection \<open>The plan\<close>

record lane_weights =
  lexical_weight :: real
  semantic_weight :: real
  graph_weight :: real
  temporal_weight :: real

record query_plan =
  qp_shape :: query_shape
  qp_route :: query_route
  qp_graph_hops :: int
  qp_semantic_enabled :: bool
  qp_weights :: lane_weights
  qp_fetch_multiplier :: int
  qp_min_fetch :: int
  qp_max_fetch :: int

fun route_weights :: "query_route \<Rightarrow> lane_weights" where
  "route_weights ROUTE_LEXICAL =
     \<lparr>lexical_weight = 1, semantic_weight = 10 / 100, graph_weight = 10 / 100, temporal_weight = 10 / 100\<rparr>"
| "route_weights ROUTE_SEMANTIC =
     \<lparr>lexical_weight = 45 / 100, semantic_weight = 1, graph_weight = 20 / 100, temporal_weight = 35 / 100\<rparr>"
| "route_weights ROUTE_GRAPH =
     \<lparr>lexical_weight = 35 / 100, semantic_weight = 15 / 100, graph_weight = 1, temporal_weight = 15 / 100\<rparr>"
| "route_weights ROUTE_HYBRID =
     \<lparr>lexical_weight = 80 / 100, semantic_weight = 70 / 100, graph_weight = 30 / 100, temporal_weight = 30 / 100\<rparr>"

text \<open>Multiplier and least fetch of a shape, and its effect on the weights.\<close>

definition shape_fetch :: "query_shape \<Rightarrow> int \<times> int" where
  "shape_fetch shape =
     (case shape of SHAPE_WHEN \<Rightarrow> (5, 32) | SHAPE_LIST \<Rightarrow> (6, 36) | SHAPE_YES_NO \<Rightarrow> (3, 16)
      | SHAPE_HOW \<Rightarrow> (4, 20) | SHAPE_WHY \<Rightarrow> (4, 20) | SHAPE_FACTOID \<Rightarrow> (4, 18) | _ \<Rightarrow> (4, 24))"

definition shape_weights :: "query_shape \<Rightarrow> lane_weights \<Rightarrow> lane_weights" where
  "shape_weights shape w =
     (if shape = SHAPE_WHEN then w\<lparr>temporal_weight := temporal_weight w + 55 / 100\<rparr>
      else if shape = SHAPE_HOW \<or> shape = SHAPE_WHY then w\<lparr>semantic_weight := semantic_weight w + 20 / 100\<rparr>
      else w)"

text \<open>The plan of a shape and a route.\<close>

definition plan_of :: "query_shape \<Rightarrow> query_route \<Rightarrow> int \<Rightarrow> int \<Rightarrow> query_plan" where
  "plan_of shape route limit hard_cap =
     (let (mult0, min0) = shape_fetch shape;
          max0 = (if 0 < hard_cap then hard_cap else 96);
          (mult, min_fetch, max1) =
            (if route = ROUTE_LEXICAL
             then (2, if min0 < 12 then min0 else 12, if max0 < 48 then max0 else 48)
             else if route = ROUTE_GRAPH then (mult0 + 1, min0 + 4, max0)
             else (mult0, min0, max0));
          lim = (if limit \<le> 0 then 10 else limit)
      in \<lparr>qp_shape = shape, qp_route = route, qp_graph_hops = (if route = ROUTE_GRAPH then 2 else 1),
          qp_semantic_enabled = (route \<noteq> ROUTE_LEXICAL \<and> route \<noteq> ROUTE_GRAPH),
          qp_weights = shape_weights shape (route_weights route), qp_fetch_multiplier = mult,
          qp_min_fetch = min_fetch, qp_max_fetch = (if max1 < lim then lim else max1)\<rparr>)"

definition memory_query_plan :: "normalizer \<Rightarrow> bool \<Rightarrow> cptr \<Rightarrow> int \<Rightarrow> int \<Rightarrow> query_plan option" where
  "memory_query_plan nrm routing_enabled query limit hard_cap =
     (case query of None \<Rightarrow> None
      | Some q \<Rightarrow>
          if q = [] then None
          else
            let norm_query = (if nrm q 512 = [] then cbuf 512 q else nrm q 512);
                shape = memory_query_shape (Some q) (Some norm_query)
            in Some (plan_of shape
                 (if \<not> routing_enabled then ROUTE_HYBRID
                  else memory_query_route (Some q) (Some norm_query) shape) limit hard_cap))"

definition has_any :: "cptr \<Rightarrow> string list \<Rightarrow> bool" where
  "has_any q ts \<longleftrightarrow> (case q of None \<Rightarrow> False | Some s \<Rightarrow> list_ex (contains s) ts)"

definition memory_query_intent :: "cptr \<Rightarrow> cptr \<Rightarrow> query_intent" where
  "memory_query_intent raw_query norm_query =
     (if has_any raw_query
           [''when'', ''When'', ''what time'', ''What time'', ''what day'', ''What day'', ''date'', ''dated'', ''before'',
            ''after'', ''between'', ''since'', ''until'', ''last week'', ''next week'', ''last month'', ''next month'', ''ago''] \<or>
         has_any norm_query
           [''year'', ''month'', ''day'', ''time'', ''today'', ''yesterday'', ''tomorrow'', ''latest'', ''recent'', ''earliest'']
      then QUERY_TEMPORAL
      else if has_any raw_query [''how '', ''How '', ''steps'', ''procedure''] \<or> has_any norm_query [''workflow'', ''setup'']
      then QUERY_PROCEDURAL
      else if has_any raw_query [''who '', ''Who '', ''person'', ''people''] \<or> has_any norm_query [''team'', ''owner'']
      then QUERY_ENTITY
      else QUERY_GENERAL)"

lemma query_shape_live: "memory_query_shape raw norm' \<notin> {SHAPE_QUANTITATIVE, SHAPE_TEMPORAL_INTERVAL}"
  by (simp add: memory_query_shape_def Let_def)

lemma shape_fetch_bounds: "3 \<le> fst (shape_fetch s) \<and> fst (shape_fetch s) \<le> 6 \<and> 16 \<le> snd (shape_fetch s) \<and> snd (shape_fetch s) \<le> 36"
  by (cases s) (simp_all add: shape_fetch_def)

subsection \<open>Expanded terms\<close>

definition memory_add_expanded_term :: "nat \<Rightarrow> string list \<Rightarrow> cptr \<Rightarrow> string list" where
  "memory_add_expanded_term max_terms terms term' =
     (case term' of None \<Rightarrow> terms
      | Some t \<Rightarrow> if t = [] \<or> max_terms \<le> length terms \<or> t \<in> set terms then terms else terms @ [cbuf 64 t])"

definition add_terms :: "nat \<Rightarrow> string list \<Rightarrow> string list \<Rightarrow> string list" where
  "add_terms max_terms = foldl (\<lambda>acc t. memory_add_expanded_term max_terms acc (Some t))"

definition time_words :: "string list" where
  "time_words = [''when'', ''date'', ''year'', ''month'', ''day'', ''today'', ''yesterday'', ''tomorrow'', ''last'',
     ''next'', ''week'', ''ago'']"

text \<open>A token and what it brings in.\<close>

definition token_terms :: "string \<Rightarrow> string list" where
  "token_terms t =
     [t] @
     (if t \<in> set time_words then [''date'', ''time'', ''event_time'', ''timeline'', ''occurred'', ''happened''] else []) @
     (if t \<in> {''who'', ''owner'', ''person'', ''people''} then [''actor'', ''team''] else []) @
     (if t \<in> {''setup'', ''install'', ''configure'', ''workflow''} then [''procedure'', ''steps''] else []) @
     (if t = ''went'' then [''go''] else []) @
     (if t = ''joined'' then [''join''] else []) @
     (if t = ''visited'' then [''visit''] else []) @
     (if t \<in> {''latest'', ''recent'', ''current''} then [''latest'', ''recent'', ''current''] else [])"

text \<open>The loop over the tokens: the terms and the tokens it looked at before the room ran out.\<close>

fun expand_loop :: "nat \<Rightarrow> string list \<Rightarrow> string list \<Rightarrow> string list \<Rightarrow> string list \<times> string list" where
  "expand_loop max_terms [] acc seen = (acc, seen)"
| "expand_loop max_terms (t # ts) acc seen =
     (if max_terms \<le> length acc then (acc, seen)
      else expand_loop max_terms ts (add_terms max_terms acc (token_terms t)) (seen @ [t]))"

definition memory_expand_query_terms :: "cptr \<Rightarrow> string list \<Rightarrow> int \<Rightarrow> string list" where
  "memory_expand_query_terms norm_query base_tokens max_terms =
     (let mx = nat max_terms;
          (acc, seen) = expand_loop mx base_tokens [] []
      in add_terms mx acc
           ((if ''before'' \<in> set seen then [''before''] else []) @
            (if ''after'' \<in> set seen then [''after''] else []) @
            (if ''between'' \<in> set seen then [''between''] else []) @
            (case norm_query of None \<Rightarrow> [] | Some q \<Rightarrow> if contains q ''support group'' then [''group''] else [])))"

text \<open>Terms are distinct, fit their buffers and their number; what is there stays first.\<close>

definition terms_ok :: "nat \<Rightarrow> string list \<Rightarrow> bool" where
  "terms_ok mx terms \<longleftrightarrow> distinct terms \<and> length terms \<le> mx \<and> list_all (\<lambda>t. t \<noteq> [] \<and> length t < 64) terms"

lemma add_term_ok:
  assumes "terms_ok mx terms" "length t < 64"
  shows "terms_ok mx (memory_add_expanded_term mx terms (Some t)) \<and>
    prefix terms (memory_add_expanded_term mx terms (Some t)) \<and>
    (length (memory_add_expanded_term mx terms (Some t)) < mx \<longrightarrow> t \<noteq> [] \<longrightarrow>
       t \<in> set (memory_add_expanded_term mx terms (Some t)))"
  using assms by (auto simp: terms_ok_def memory_add_expanded_term_def cbuf_fits)

lemma add_terms_simps [simp]:
  "add_terms mx acc [] = acc"
  "add_terms mx acc (t # ts) = add_terms mx (memory_add_expanded_term mx acc (Some t)) ts"
  by (simp_all add: add_terms_def)

lemma add_terms_ok:
  "terms_ok mx acc \<Longrightarrow> list_all (\<lambda>t. length t < 64) ts \<Longrightarrow>
     terms_ok mx (add_terms mx acc ts) \<and> prefix acc (add_terms mx acc ts) \<and>
     (length (add_terms mx acc ts) < mx \<longrightarrow> {t \<in> set ts. t \<noteq> []} \<subseteq> set (add_terms mx acc ts))"
proof (induction ts arbitrary: acc)
  case (Cons t ts)
  let ?acc = "memory_add_expanded_term mx acc (Some t)"
  have t: "length t < 64"
    using Cons.prems(2) by simp
  note step = add_term_ok [OF Cons.prems(1) t]
  have rest: "terms_ok mx (add_terms mx ?acc ts)" "prefix ?acc (add_terms mx ?acc ts)"
    "length (add_terms mx ?acc ts) < mx \<longrightarrow> {t \<in> set ts. t \<noteq> []} \<subseteq> set (add_terms mx ?acc ts)"
    using Cons.IH [of ?acc] step Cons.prems(2) by simp_all
  have "t \<in> set (add_terms mx ?acc ts)" if "length (add_terms mx ?acc ts) < mx" "t \<noteq> []"
    using that step rest(2) prefix_length_le [OF rest(2)] set_mono_prefix [OF rest(2)] by auto
  then show ?case
    using rest step by (auto intro: prefix_order.trans)
qed simp

lemma token_terms_length: "length t < 64 \<Longrightarrow> list_all (\<lambda>u. length u < 64) (token_terms t)"
  by (simp add: token_terms_def)

lemma token_in_terms: "t \<in> set (token_terms t)"
  by (simp add: token_terms_def)

lemma expand_loop_ok:
  "terms_ok mx acc \<Longrightarrow> list_all (\<lambda>t. t \<noteq> [] \<and> length t < 64) ts \<Longrightarrow> expand_loop mx ts acc seen = (acc', seen') \<Longrightarrow>
     terms_ok mx acc' \<and> prefix acc acc' \<and> (length acc' < mx \<longrightarrow> set ts \<subseteq> set acc')"
proof (induction ts arbitrary: acc seen)
  case (Cons t ts)
  show ?case
  proof (cases "mx \<le> length acc")
    case True
    then show ?thesis
      using Cons.prems by auto
  next
    case False
    let ?acc = "add_terms mx acc (token_terms t)"
    have step: "terms_ok mx ?acc" "prefix acc ?acc"
      "length ?acc < mx \<longrightarrow> {u \<in> set (token_terms t). u \<noteq> []} \<subseteq> set ?acc"
      using add_terms_ok [OF Cons.prems(1) token_terms_length [of t]] Cons.prems(2) by simp_all
    have run: "expand_loop mx ts ?acc (seen @ [t]) = (acc', seen')"
      using Cons.prems(3) False by simp
    have rest: "terms_ok mx acc' \<and> prefix ?acc acc' \<and> (length acc' < mx \<longrightarrow> set ts \<subseteq> set acc')"
      using Cons.IH [OF step(1) _ run] Cons.prems(2) by simp
    have "t \<in> set acc'" if "length acc' < mx"
      using that step(3) rest token_in_terms [of t] Cons.prems(2) prefix_length_le [of ?acc acc']
        set_mono_prefix [of ?acc acc'] by auto
    then show ?thesis
      using rest step(2) by (auto intro: prefix_order.trans)
  qed
qed simp

lemma expand_terms_ok:
  assumes "list_all (\<lambda>t. t \<noteq> [] \<and> length t < 64) base"
  shows "terms_ok (nat mx) (memory_expand_query_terms q base mx) \<and>
    (length (memory_expand_query_terms q base mx) < nat mx \<longrightarrow> set base \<subseteq> set (memory_expand_query_terms q base mx))"
proof -
  obtain acc seen where run: "expand_loop (nat mx) base [] [] = (acc, seen)"
    by (cases "expand_loop (nat mx) base [] []")
  have loop: "terms_ok (nat mx) acc \<and> (length acc < nat mx \<longrightarrow> set base \<subseteq> set acc)"
    using expand_loop_ok [OF _ assms run] by (simp add: terms_ok_def)
  define tail' where "tail' =
      (if ''before'' \<in> set seen then [''before''] else []) @ (if ''after'' \<in> set seen then [''after''] else []) @
      (if ''between'' \<in> set seen then [''between''] else []) @
      (case q of None \<Rightarrow> [] | Some q \<Rightarrow> if contains q ''support group'' then [''group''] else [])"
  have "list_all (\<lambda>t. length t < 64) tail'"
    by (auto simp: tail'_def list_all_iff split: option.splits if_splits)
  then have "terms_ok (nat mx) (add_terms (nat mx) acc tail')" "prefix acc (add_terms (nat mx) acc tail')"
    using add_terms_ok [of "nat mx" acc tail'] loop by simp_all
  moreover have "memory_expand_query_terms q base mx = add_terms (nat mx) acc tail'"
    by (simp add: memory_expand_query_terms_def run tail'_def)
  ultimately show ?thesis
    using loop prefix_length_le [of acc "add_terms (nat mx) acc tail'"]
      set_mono_prefix [of acc "add_terms (nat mx) acc tail'"] by auto
qed

subsection \<open>Synonyms and the text for the embedder\<close>

definition expansion_dict :: "(string \<times> string) list" where
  "expansion_dict =
     [(''deploy'', ''install setup release ship rollout''),
      (''database'', ''data store persistence storage sql''),
      (''auth'', ''login password permission access pam''),
      (''network'', ''ip port host address socket sse websocket''),
      (''build'', ''make compile install artifact''),
      (''test'', ''unit integration bench eval''),
      (''memory'', ''context fact preference L2 L3'')]"

text \<open>The buffer and the position \<open>snprintf\<close> reports, which may lie behind its end.\<close>

definition synonym_step :: "nat \<Rightarrow> string \<Rightarrow> string \<times> int \<Rightarrow> string \<times> string \<Rightarrow> string \<times> int" where
  "synonym_step out_len lower st e =
     (case (st, e) of ((out, pos), (term', expansion)) \<Rightarrow>
        if contains lower term' \<and> 0 < int out_len - pos - 8
        then (cbuf out_len (out @ '' LEX_OR '' @ expansion), pos + int (length ('' LEX_OR '' @ expansion)))
        else (out, pos))"

definition memory_expand_synonyms :: "string \<Rightarrow> nat \<Rightarrow> string" where
  "memory_expand_synonyms query out_len =
     fst (foldl (synonym_step out_len (map tolower (cbuf 512 query))) (cbuf out_len query, int (length query)) expansion_dict)"

lemma synonym_step_extends:
  assumes "length out < out_len" "pos = int (length out) \<or> int out_len \<le> pos"
    and "synonym_step out_len lower (out, pos) e = (out', pos')"
  shows "prefix out out' \<and> length out' < out_len \<and> (pos' = int (length out') \<or> int out_len \<le> pos')"
  using assms
  by (auto simp: synonym_step_def cbuf_def min_def split: prod.splits if_splits)

lemma synonym_steps_extend:
  "length out < out_len \<Longrightarrow> pos = int (length out) \<or> int out_len \<le> pos \<Longrightarrow>
     prefix out (fst (foldl (synonym_step out_len lower) (out, pos) es)) \<and>
     length (fst (foldl (synonym_step out_len lower) (out, pos) es)) < out_len"
proof (induction es arbitrary: out pos)
  case (Cons e es)
  obtain out' pos' where step: "synonym_step out_len lower (out, pos) e = (out', pos')"
    by (cases "synonym_step out_len lower (out, pos) e")
  then show ?case
    using synonym_step_extends [OF Cons.prems step] Cons.IH [of out' pos'] by (auto intro: prefix_order.trans)
qed simp

lemma synonyms_extend:
  assumes "0 < out_len"
  shows "prefix (cbuf out_len query) (memory_expand_synonyms query out_len) \<and>
    length (memory_expand_synonyms query out_len) < out_len"
  unfolding memory_expand_synonyms_def
  using assms by (intro synonym_steps_extend) (auto simp: cbuf_def min_def)

definition memory_query_bigrams :: "string list \<Rightarrow> nat \<Rightarrow> string list" where
  "memory_query_bigrams qtokens max_phrases =
     take max_phrases (map (\<lambda>(a, b). cbuf 128 (a @ '' '' @ b))
       (filter (\<lambda>(a, b). \<not> memory_is_stopword_token a \<and> \<not> memory_is_stopword_token b \<and> 3 \<le> length a \<and> 3 \<le> length b)
         (zip qtokens (tl qtokens))))"

definition intent_tag :: "query_intent \<Rightarrow> string" where
  "intent_tag intent =
     (case intent of QUERY_TEMPORAL \<Rightarrow> ''temporal'' | QUERY_ENTITY \<Rightarrow> ''entity''
      | QUERY_PROCEDURAL \<Rightarrow> ''procedural'' | QUERY_GENERAL \<Rightarrow> ''general'')"

text \<open>
  The signal terms are appended while 70 bytes are free, each term once; the expanded terms are
  distinct, so the code's search for an earlier copy finds none.
\<close>

fun append_terms :: "nat \<Rightarrow> string list \<Rightarrow> string list \<Rightarrow> string \<Rightarrow> string" where
  "append_terms out_len before [] out = out"
| "append_terms out_len before (t # ts) out =
     (if out_len \<le> length out + 70 then out
      else if \<not> memory_is_signal_token (Some t) \<or> t \<in> set before then append_terms out_len (before @ [t]) ts out
      else append_terms out_len (before @ [t]) ts (cbuf out_len (out @ '' '' @ t)))"

definition memory_build_semantic_query_text :: "normalizer \<Rightarrow> cptr \<Rightarrow> query_intent \<Rightarrow> nat \<Rightarrow> string" where
  "memory_build_semantic_query_text nrm raw_query intent out_len =
     (case raw_query of None \<Rightarrow> []
      | Some q \<Rightarrow>
          if q = [] then []
          else let n = nrm q 512;
                   tokens = memory_split_tokens (Some n) 24;
                   expanded = memory_expand_query_terms (Some n) tokens 40
               in append_terms out_len [] expanded
                    (cbuf out_len (''query intent '' @ intent_tag intent @ '' text '' @ (if n \<noteq> [] then n else q) @ '' terms'')))"

subsection \<open>The semantic lane\<close>

definition memory_semantic_dim_ok :: "int \<Rightarrow> int \<Rightarrow> bool" where
  "memory_semantic_dim_ok stored_dim qdim \<longleftrightarrow> 0 < qdim \<and> qdim = stored_dim"

definition memory_semantic_floor_scale :: "real \<Rightarrow> int \<Rightarrow> real" where
  "memory_semantic_floor_scale configured stored_dim =
     (if 0 < configured then configured
      else if stored_dim \<le> 384 then 1 else if stored_dim \<le> 1024 then 55 / 100 else if stored_dim \<le> 2560 then 75 / 100 else 65 / 100)"

definition memory_unit_semantic_type_boost :: "cptr \<Rightarrow> query_intent \<Rightarrow> real" where
  "memory_unit_semantic_type_boost unit_type intent =
     (case unit_type of None \<Rightarrow> 0
      | Some u \<Rightarrow>
          (case intent of
             QUERY_TEMPORAL \<Rightarrow> (if u = ''temporal'' then 18 / 100 else if u = ''event'' then 10 / 100
                                else if u = ''summary'' then - (3 / 100) else 0)
           | QUERY_ENTITY \<Rightarrow> (if u = ''entity'' then 18 / 100 else if u = ''event'' then 8 / 100 else 0)
           | QUERY_PROCEDURAL \<Rightarrow> (if u = ''summary'' \<or> u = ''chunk'' then 8 / 100 else 0)
           | QUERY_GENERAL \<Rightarrow> (if u = ''event'' then 5 / 100 else if u = ''summary'' then 3 / 100 else 0)))"

text \<open>The hits are pairs of an id and a similarity.\<close>

definition memory_semantic_bonus_lookup :: "int \<Rightarrow> (int \<times> real) list \<Rightarrow> real" where
  "memory_semantic_bonus_lookup memory_id hits =
     foldl (\<lambda>best (i, s). if i = memory_id \<and> best < s * (12 / 10) then s * (12 / 10) else best) 0 hits"

text \<open>\<open>sscanf "%d-%d-%d"\<close> and \<open>timegm\<close> give the second of the date, \<open>None\<close> without three numbers.\<close>

definition time_decay :: "(string \<Rightarrow> int option) \<Rightarrow> int \<Rightarrow> cptr \<Rightarrow> real" where
  "time_decay parse_day now last_used =
     (case last_used of None \<Rightarrow> 1 / 2
      | Some s \<Rightarrow>
          if s = [] then 1 / 2
          else case parse_day s of None \<Rightarrow> 1 / 2
               | Some t \<Rightarrow> let days = of_int (now - t) / 86400 in exp (- (2 / 100) * (if days < 0 then 0 else days)))"

subsection \<open>Subqueries\<close>

definition memory_query_has_separator :: "string list \<Rightarrow> int \<Rightarrow> bool" where
  "memory_query_has_separator tokens idx \<longleftrightarrow>
     0 \<le> idx \<and> idx < int (length tokens) \<and>
     tokens ! nat idx \<in> {''and'', ''or'', ''vs'', ''versus'', ''then'', ''before'', ''after''}"

text \<open>
  Words joined while the next one fits: the string and how many were kept.  A word that does
  not fit ends the string; \<open>snprintf\<close> has by then written the part of it that fits.
\<close>

fun compact_loop :: "nat \<Rightarrow> string list \<Rightarrow> string \<Rightarrow> nat \<Rightarrow> string \<times> nat" where
  "compact_loop out_len [] out kept = (out, kept)"
| "compact_loop out_len (t # ts) out kept =
     (let piece = (if out = [] then t else '' '' @ t)
      in if out_len - length out \<le> length piece then (cbuf out_len (out @ piece), kept)
         else compact_loop out_len ts (out @ piece) (Suc kept))"

definition keep_word :: "string \<Rightarrow> bool" where
  "keep_word t \<longleftrightarrow> memory_is_signal_token (Some t) \<and>
     t \<notin> {''and'', ''or'', ''vs'', ''versus'', ''then'', ''before'', ''after''}"

definition memory_compact_signal_tokens :: "string list \<Rightarrow> nat \<Rightarrow> nat \<Rightarrow> nat \<Rightarrow> string \<times> nat" where
  "memory_compact_signal_tokens tokens start end' out_len =
     (if end' \<le> start then ([], 0)
      else compact_loop out_len (filter keep_word (take (end' - start) (drop start tokens))) [] 0)"

definition memory_build_signal_query :: "string list \<Rightarrow> nat \<Rightarrow> string" where
  "memory_build_signal_query tokens out_len =
     fst (compact_loop out_len (filter (\<lambda>t. memory_is_signal_token (Some t)) tokens) [] 0)"

definition add_subquery :: "string \<times> nat \<Rightarrow> string list \<Rightarrow> string list" where
  "add_subquery r qs = (if 2 \<le> snd r then qs @ [fst r] else qs)"

text \<open>The halves around the first separator, if there is room for both.\<close>

definition split_at_separator :: "string list \<Rightarrow> nat \<Rightarrow> string list" where
  "split_at_separator tokens max_subqueries =
     (case find (\<lambda>i. memory_query_has_separator tokens (int i)) [0..<length tokens] of
        None \<Rightarrow> []
      | Some i \<Rightarrow>
          if max_subqueries \<le> 1 then []
          else add_subquery (memory_compact_signal_tokens tokens (i + 1) (length tokens) 128)
                 (add_subquery (memory_compact_signal_tokens tokens 0 i 128) []))"

text \<open>Else, of five signal words or more, a window at the start and one at the end.\<close>

definition split_windows :: "string list \<Rightarrow> nat \<Rightarrow> string list" where
  "split_windows tokens max_subqueries =
     (let signal = filter (\<lambda>t. memory_is_signal_token (Some t)) tokens; n = length signal
      in if n < 5 then []
         else let window = (if 8 \<le> n then 4 else 3);
                  qs = add_subquery (memory_compact_signal_tokens signal 0 window 128) []
              in if length qs < max_subqueries
                 then add_subquery (memory_compact_signal_tokens signal (n - window) n 128) qs else qs)"

definition memory_build_query_decomposition :: "cptr \<Rightarrow> int \<Rightarrow> string list" where
  "memory_build_query_decomposition norm_query max_subqueries =
     (if \<not> nonempty norm_query \<or> max_subqueries \<le> 0 then []
      else let tokens = memory_split_tokens norm_query 32
           in if length tokens < 4 then []
              else let halves = split_at_separator tokens (nat max_subqueries)
                   in rev (remdups (rev (if halves \<noteq> [] then halves else split_windows tokens (nat max_subqueries)))))"

end
