(* ===== verification/Query_Properties.thy ===== *)
theory Query_Properties
  imports Query
begin

text \<open>Properties of query planning and expansion.\<close>

definition weights_live :: "lane_weights \<Rightarrow> bool" where
  "weights_live w \<longleftrightarrow> list_all (\<lambda>x. 0 < x \<and> x \<le> 12 / 10)
     [lexical_weight w, semantic_weight w, graph_weight w, temporal_weight w]"

lemma weights_are_live: "weights_live (shape_weights s (route_weights r))"
  by (cases r; simp add: weights_live_def shape_weights_def)

lemma plan_of_ok:
  "max 1 limit \<le> qp_max_fetch (plan_of s r limit hard_cap) \<and> 2 \<le> qp_fetch_multiplier (plan_of s r limit hard_cap) \<and>
   qp_fetch_multiplier (plan_of s r limit hard_cap) \<le> 7 \<and>
   (0 < hard_cap \<or> qp_min_fetch (plan_of s r limit hard_cap) \<le> qp_max_fetch (plan_of s r limit hard_cap)) \<and>
   weights_live (qp_weights (plan_of s r limit hard_cap)) \<and>
   (qp_graph_hops (plan_of s r limit hard_cap) = 2 \<longleftrightarrow> r = ROUTE_GRAPH) \<and>
   (qp_semantic_enabled (plan_of s r limit hard_cap) \<longleftrightarrow> r \<notin> {ROUTE_LEXICAL, ROUTE_GRAPH}) \<and>
   qp_route (plan_of s r limit hard_cap) = r \<and> qp_shape (plan_of s r limit hard_cap) = s"
proof -
  obtain m k where f: "shape_fetch s = (m, k)"
    by (cases "shape_fetch s")
  show ?thesis
    using shape_fetch_bounds [of s] weights_are_live [of s r]
    by (cases r) (auto simp: plan_of_def f)
qed

text \<open>
  C37. A query plan exists exactly for a non-empty query and is well formed: the limit always
  fits the largest fetch, the multiplier lies between 2 and 7, and without a cap the least
  fetch is within the largest; every lane keeps a positive weight of at most 1.2; the graph
  route alone walks two hops, and the lexical and graph routes alone switch the semantic lane
  off; with routing disabled the route is hybrid; and no query gets one of the two shapes the
  budget factor prepares for but the classifier never gives.
\<close>

theorem query_plan_well_formed:
  "case memory_query_plan nrm routing query limit hard_cap of
     None \<Rightarrow> query = None \<or> query = Some []
   | Some p \<Rightarrow>
       query \<noteq> None \<and> query \<noteq> Some [] \<and>
       max 1 limit \<le> qp_max_fetch p \<and> 2 \<le> qp_fetch_multiplier p \<and> qp_fetch_multiplier p \<le> 7 \<and>
       (0 < hard_cap \<or> qp_min_fetch p \<le> qp_max_fetch p) \<and> weights_live (qp_weights p) \<and>
       (qp_graph_hops p = 2 \<longleftrightarrow> qp_route p = ROUTE_GRAPH) \<and>
       (qp_semantic_enabled p \<longleftrightarrow> qp_route p \<notin> {ROUTE_LEXICAL, ROUTE_GRAPH}) \<and>
       (routing \<or> qp_route p = ROUTE_HYBRID) \<and>
       qp_shape p \<notin> {SHAPE_QUANTITATIVE, SHAPE_TEMPORAL_INTERVAL}"
proof (cases query)
  case (Some q)
  show ?thesis
  proof (cases "q = []")
    case False
    then obtain s r where p: "memory_query_plan nrm routing query limit hard_cap = Some (plan_of s r limit hard_cap)"
      and s: "s \<notin> {SHAPE_QUANTITATIVE, SHAPE_TEMPORAL_INTERVAL}" and r: "routing \<or> r = ROUTE_HYBRID"
      using Some query_shape_live unfolding memory_query_plan_def Let_def by fastforce
    then show ?thesis
      using plan_of_ok [of limit s r hard_cap] Some False by simp
  qed (simp add: memory_query_plan_def Some)
qed (simp add: memory_query_plan_def)

theorem query_plan_well_formed_witness:
  "case memory_query_plan (\<lambda>s n. s) True (Some ''when was dns set up'') 5 0 of
     None \<Rightarrow> False | Some p \<Rightarrow> weights_live (qp_weights p)"
  using query_plan_well_formed [where nrm = "\<lambda>s n. s" and routing = True and
      query = "Some ''when was dns set up''" and limit = 5 and hard_cap = 0]
  by (simp split: option.splits)

text \<open>
  C38. Query expansion only adds: the expanded terms are distinct, non-empty, within their
  buffers and at most as many as asked for, and unless they fill the buffer every token of the
  query is among them.
\<close>

theorem expansion_keeps_query_terms:
  assumes "list_all (\<lambda>t. t \<noteq> [] \<and> length t < 64) base" "0 \<le> mx"
  shows "distinct (memory_expand_query_terms q base mx) \<and>
    int (length (memory_expand_query_terms q base mx)) \<le> mx \<and>
    list_all (\<lambda>t. t \<noteq> [] \<and> length t < 64) (memory_expand_query_terms q base mx) \<and>
    (int (length (memory_expand_query_terms q base mx)) < mx \<longrightarrow> set base \<subseteq> set (memory_expand_query_terms q base mx))"
  using expand_terms_ok [OF assms(1), of mx q] assms(2) by (auto simp: terms_ok_def)

theorem expansion_keeps_query_terms_witness:
  "distinct (memory_expand_query_terms (Some ''who joined last week'') [''who'', ''joined'', ''last'', ''week''] 40)"
  using expansion_keeps_query_terms [of "[''who'', ''joined'', ''last'', ''week'']" 40 "Some ''who joined last week''"]
  by simp

end
