(* ===== verification/Weights.thy ===== *)
theory Weights
  imports Temporal
begin

text \<open>
  The tunable side of ranking in \<open>memory_core_helpers.c\<close>: reading numbers from the environment,
  the rank weights with their profile file, and the surprise of a text.

  The environment and the files are functions from a name to a content; \<open>config_memory_*\<close>
  are outside \<open>src/\<close> and are the record \<open>rank_config\<close>.  Weights are reals: the words that
  \<open>strtod\<close> reads as an infinity or a NaN, and hexadecimal floats, are not numbers here.
\<close>

type_synonym environment = "string \<Rightarrow> cptr"

subsection \<open>Numbers of the environment\<close>

definition power10 :: "int \<Rightarrow> real" where
  "power10 e = (if 0 \<le> e then 10 ^ nat e else 1 / 10 ^ nat (- e))"

definition exponent_of :: "string \<Rightarrow> int" where
  "exponent_of s =
     (if s \<noteq> [] \<and> tolower (hd s) = CHR ''e'' \<and> \<not> isspace (char_at s 1)
      then (case scan_number (tl s) of None \<Rightarrow> 0 | Some e \<Rightarrow> e) else 0)"

text \<open>\<open>strtod\<close> on decimals: blanks, a sign, digits with a point, an exponent.\<close>

definition strtod :: "string \<Rightarrow> real option" where
  "strtod s =
     (let t = dropWhile isspace s;
          neg = (t \<noteq> [] \<and> hd t = CHR ''-'');
          u = (if t \<noteq> [] \<and> (hd t = CHR ''-'' \<or> hd t = CHR ''+'') then tl t else t);
          ds = takeWhile isdigit u;
          r = dropWhile isdigit u;
          point = (r \<noteq> [] \<and> hd r = CHR ''.'');
          fs = (if point then takeWhile isdigit (tl r) else []);
          q = (if point then dropWhile isdigit (tl r) else r);
          v = of_int (digits_value (ds @ fs)) / 10 ^ length fs * power10 (exponent_of q)
      in if ds = [] \<and> fs = [] then None else Some (if neg then - v else v))"

definition memory_env_weight :: "environment \<Rightarrow> string \<Rightarrow> real \<Rightarrow> real" where
  "memory_env_weight env name fallback =
     (case env name of None \<Rightarrow> fallback
      | Some v \<Rightarrow> if v = [] then fallback
                 else (case strtod v of None \<Rightarrow> fallback | Some d \<Rightarrow> d))"

definition memory_env_int :: "environment \<Rightarrow> string \<Rightarrow> int \<Rightarrow> int \<Rightarrow> int \<Rightarrow> int" where
  "memory_env_int env name fallback min_value max_value =
     (case env name of None \<Rightarrow> fallback
      | Some v \<Rightarrow>
          if v = [] then fallback
          else (case scan_number v of None \<Rightarrow> fallback
                | Some n \<Rightarrow> let n' = (if n < min_value then min_value else n)
                           in if max_value < n' then max_value else n'))"

lemma memory_env_int_range:
  assumes "mn \<le> mx" and "mn \<le> fallback" and "fallback \<le> mx"
  shows "mn \<le> memory_env_int env name fallback mn mx" and "memory_env_int env name fallback mn mx \<le> mx"
  using assms by (auto simp: memory_env_int_def Let_def split: option.split)

subsection \<open>The configuration\<close>

record rank_config =
  memory_weight_profile :: string
  memory_bm25_weight :: real
  memory_semantic_weight :: real
  memory_pagerank_enabled :: bool
  memory_pagerank_iterations :: int
  memory_pagerank_weight :: real
  memory_pagerank_relations :: string
  config_salience_enabled :: int
  config_salience_weight :: real
  config_surprise_enabled :: int
  config_surprise_weight :: real
  config_salience_window_size :: int
  config_rerank_mode :: cptr
  memory_scenes_enabled :: bool
  memory_negation_enabled :: bool

definition memory_surprise_enabled :: "rank_config \<Rightarrow> environment \<Rightarrow> bool" where
  "memory_surprise_enabled cfg env \<longleftrightarrow>
     memory_env_int env ''AIMEE_MEMORY_SURPRISE_ENABLED'' (config_surprise_enabled cfg) 0 1 \<noteq> 0"

definition memory_surprise_weight :: "rank_config \<Rightarrow> environment \<Rightarrow> real" where
  "memory_surprise_weight cfg env =
     memory_env_weight env ''AIMEE_MEMORY_SURPRISE_WEIGHT''
       (if 0 < config_surprise_weight cfg then config_surprise_weight cfg else 8 / 10)"

definition memory_surprise_window_size :: "rank_config \<Rightarrow> environment \<Rightarrow> int" where
  "memory_surprise_window_size cfg env =
     memory_env_int env ''AIMEE_MEMORY_SALIENCE_WINDOW_SIZE''
       (if 0 < config_salience_window_size cfg then config_salience_window_size cfg else 8) 1 64"

definition memory_salience_enabled :: "rank_config \<Rightarrow> environment \<Rightarrow> bool" where
  "memory_salience_enabled cfg env \<longleftrightarrow>
     memory_env_int env ''AIMEE_MEMORY_SALIENCE_ENABLED'' (config_salience_enabled cfg) 0 1 \<noteq> 0"

definition memory_salience_weight :: "rank_config \<Rightarrow> environment \<Rightarrow> real" where
  "memory_salience_weight cfg env =
     memory_env_weight env ''AIMEE_MEMORY_SALIENCE_WEIGHT''
       (if 0 < config_salience_weight cfg then config_salience_weight cfg else 6 / 10)"

definition memory_rerank_mode_effective :: "rank_config \<Rightarrow> environment \<Rightarrow> string" where
  "memory_rerank_mode_effective cfg env =
     (if nonempty (env ''AIMEE_MEMORY_RERANK_MODE'') then cptr_str (env ''AIMEE_MEMORY_RERANK_MODE'')
      else if nonempty (config_rerank_mode cfg) then cptr_str (config_rerank_mode cfg)
      else ''fast'')"

definition memory_rerank_is_slow :: "rank_config \<Rightarrow> environment \<Rightarrow> bool" where
  "memory_rerank_is_slow cfg env \<longleftrightarrow> memory_rerank_mode_effective cfg env = ''slow''"

subsection \<open>The rank weights\<close>

record rank_weights =
  w_lexical_key :: real
  w_lexical_content :: real
  w_lexical_long_token_bonus :: real
  w_coverage :: real
  w_entity :: real
  w_temporal :: real
  w_evidence :: real
  w_semantic :: real
  w_state :: real
  w_workflow_intent :: real
  w_entity_intent :: real
  w_temporal_intent :: real
  w_salience :: real
  w_surprise :: real
  w_speaker :: real

definition memory_apply_weight_kv :: "rank_weights \<Rightarrow> string \<Rightarrow> real \<Rightarrow> rank_weights" where
  "memory_apply_weight_kv w name v =
     (if name = ''lexical_key'' then w\<lparr>w_lexical_key := v\<rparr>
      else if name = ''lexical_content'' then w\<lparr>w_lexical_content := v\<rparr>
      else if name = ''long_token'' then w\<lparr>w_lexical_long_token_bonus := v\<rparr>
      else if name = ''coverage'' then w\<lparr>w_coverage := v\<rparr>
      else if name = ''entity'' then w\<lparr>w_entity := v\<rparr>
      else if name = ''temporal'' then w\<lparr>w_temporal := v\<rparr>
      else if name = ''evidence'' then w\<lparr>w_evidence := v\<rparr>
      else if name = ''semantic'' then w\<lparr>w_semantic := v\<rparr>
      else if name = ''state'' then w\<lparr>w_state := v\<rparr>
      else if name = ''workflow_intent'' then w\<lparr>w_workflow_intent := v\<rparr>
      else if name = ''entity_intent'' then w\<lparr>w_entity_intent := v\<rparr>
      else if name = ''temporal_intent'' then w\<lparr>w_temporal_intent := v\<rparr>
      else if name = ''salience'' then w\<lparr>w_salience := v\<rparr>
      else if name = ''surprise'' then w\<lparr>w_surprise := v\<rparr>
      else if name = ''speaker'' then w\<lparr>w_speaker := v\<rparr>
      else w)"

text \<open>What \<open>fgets\<close> reads into a buffer of \<open>n\<close> bytes, call after call.\<close>

function fgets_lines :: "nat \<Rightarrow> string \<Rightarrow> string list" where
  "fgets_lines n s =
     (if s = [] \<or> n < 2 then []
      else let line = length (takeWhile (\<lambda>c. c \<noteq> CHR 0x0A) s);
               k = min (n - 1) (if line < length s then line + 1 else line)
           in take k s # fgets_lines n (drop k s))"
  by pat_completeness auto

termination fgets_lines
proof (relation "measure (length \<circ> snd)", simp, goal_cases)
  case (1 n s line k)
  then have "s \<noteq> []" "2 \<le> n" by simp_all
  moreover have "0 < k"
    using 1 by (cases s) (auto simp: min_def)
  ultimately show ?case by simp
qed

declare fgets_lines.simps [simp del]

definition rtrim :: "string \<Rightarrow> string" where
  "rtrim s = rev (dropWhile isspace (rev s))"

text \<open>A line \<open>name = value\<close>; a comment, a line without \<open>=\<close> and one without a number are skipped.\<close>

definition weight_line :: "rank_weights \<Rightarrow> string \<Rightarrow> rank_weights" where
  "weight_line w line =
     (let p = dropWhile isspace line
      in if p = [] \<or> hd p = CHR ''#'' \<or> CHR ''='' \<notin> set p then w
         else let name = rtrim (takeWhile (\<lambda>c. c \<noteq> CHR ''='') p);
                  value_str = dropWhile isspace (rtrim (tl (dropWhile (\<lambda>c. c \<noteq> CHR ''='') p)))
              in case strtod value_str of None \<Rightarrow> w | Some v \<Rightarrow> memory_apply_weight_kv w name v)"

definition memory_apply_weight_profile ::
    "(string \<Rightarrow> string option) \<Rightarrow> rank_weights \<Rightarrow> cptr \<Rightarrow> rank_weights" where
  "memory_apply_weight_profile file w path =
     (if \<not> nonempty path then w
      else case file (cptr_str path) of None \<Rightarrow> w
           | Some content \<Rightarrow> foldl weight_line w (fgets_lines 256 content))"

definition default_weights :: rank_weights where
  "default_weights =
     \<lparr>w_lexical_key = 2, w_lexical_content = 1, w_lexical_long_token_bonus = 5 / 10, w_coverage = 26 / 10,
      w_entity = 115 / 100, w_temporal = 135 / 100, w_evidence = 1, w_semantic = 1, w_state = 12 / 10,
      w_workflow_intent = 12 / 10, w_entity_intent = 5 / 10, w_temporal_intent = 75 / 100,
      w_salience = 1, w_surprise = 1, w_speaker = 11 / 10\<rparr>"

definition env_weights :: "environment \<Rightarrow> rank_weights \<Rightarrow> rank_weights" where
  "env_weights env w =
     \<lparr>w_lexical_key = memory_env_weight env ''AIMEE_MEMORY_WEIGHT_LEXICAL_KEY'' (w_lexical_key w),
      w_lexical_content = memory_env_weight env ''AIMEE_MEMORY_WEIGHT_LEXICAL_CONTENT'' (w_lexical_content w),
      w_lexical_long_token_bonus =
        memory_env_weight env ''AIMEE_MEMORY_WEIGHT_LONG_TOKEN'' (w_lexical_long_token_bonus w),
      w_coverage = memory_env_weight env ''AIMEE_MEMORY_WEIGHT_COVERAGE'' (w_coverage w),
      w_entity = memory_env_weight env ''AIMEE_MEMORY_WEIGHT_ENTITY'' (w_entity w),
      w_temporal = memory_env_weight env ''AIMEE_MEMORY_WEIGHT_TEMPORAL'' (w_temporal w),
      w_evidence = memory_env_weight env ''AIMEE_MEMORY_WEIGHT_EVIDENCE'' (w_evidence w),
      w_semantic = memory_env_weight env ''AIMEE_MEMORY_WEIGHT_SEMANTIC'' (w_semantic w),
      w_state = memory_env_weight env ''AIMEE_MEMORY_WEIGHT_STATE'' (w_state w),
      w_workflow_intent = memory_env_weight env ''AIMEE_MEMORY_WEIGHT_WORKFLOW_INTENT'' (w_workflow_intent w),
      w_entity_intent = memory_env_weight env ''AIMEE_MEMORY_WEIGHT_ENTITY_INTENT'' (w_entity_intent w),
      w_temporal_intent = memory_env_weight env ''AIMEE_MEMORY_WEIGHT_TEMPORAL_INTENT'' (w_temporal_intent w),
      w_salience = memory_env_weight env ''AIMEE_MEMORY_WEIGHT_SALIENCE'' (w_salience w),
      w_surprise = memory_env_weight env ''AIMEE_MEMORY_WEIGHT_SURPRISE'' (w_surprise w),
      w_speaker = memory_env_weight env ''AIMEE_MEMORY_WEIGHT_SPEAKER'' (w_speaker w)\<rparr>"

definition memory_rank_weights ::
    "rank_config \<Rightarrow> (string \<Rightarrow> string option) \<Rightarrow> environment \<Rightarrow> rank_weights" where
  "memory_rank_weights cfg file env =
     (let w0 = memory_apply_weight_profile file default_weights (Some (memory_weight_profile cfg));
          w1 = memory_apply_weight_profile file w0 (env ''AIMEE_MEMORY_WEIGHT_PROFILE'');
          w2 = env_weights env w1;
          bm25 = memory_bm25_weight cfg;
          w3 = (if 0 < bm25
                then w2\<lparr>w_lexical_key := w_lexical_key w2 * bm25,
                        w_lexical_content := w_lexical_content w2 * bm25,
                        w_lexical_long_token_bonus := w_lexical_long_token_bonus w2 * bm25\<rparr> else w2)
      in if 0 < memory_semantic_weight cfg then w3\<lparr>w_semantic := memory_semantic_weight cfg\<rparr> else w3)"

subsection \<open>Surprise\<close>

text \<open>The first occurrence of each token.\<close>

fun firsts :: "string list \<Rightarrow> string list \<Rightarrow> string list" where
  "firsts before [] = []"
| "firsts before (t # ts) = (if t \<in> set before then firsts before ts else t # firsts (before @ [t]) ts)"

definition add_prior :: "string list \<Rightarrow> string \<Rightarrow> string list" where
  "add_prior prior t = (if length prior < 128 \<and> \<not> memory_token_present prior (Some t) then prior @ [t] else prior)"

definition prior_row :: "normalizer \<Rightarrow> string list \<Rightarrow> string \<Rightarrow> string list" where
  "prior_row nrm prior content =
     (if content = [] then prior
      else foldl add_prior prior (memory_split_tokens (Some (nrm content 1024)) 24))"

text \<open>\<open>prior_in_session session n\<close>: the contents of the at most \<open>n\<close> newest rows of the session.\<close>

definition memory_content_surprise ::
    "rank_config \<Rightarrow> environment \<Rightarrow> normalizer \<Rightarrow> (string \<Rightarrow> int \<Rightarrow> string list) \<Rightarrow> cptr \<Rightarrow> cptr \<Rightarrow> real" where
  "memory_content_surprise cfg env nrm prior_in_session session_id content =
     (if \<not> nonempty session_id \<or> \<not> nonempty content then 5 / 10
      else let current = memory_split_tokens (Some (nrm (cptr_str content) 1024)) 32
           in if current = [] then 5 / 10
              else let rows = take 64 (prior_in_session (cptr_str session_id) (memory_surprise_window_size cfg env));
                       prior = foldl (prior_row nrm) [] rows;
                       current_unique = memory_unique_token_count current
                   in if current_unique = 0 then 5 / 10
                      else if prior = [] then 1
                      else let seen = filter (\<lambda>t. memory_token_present prior (Some t)) (firsts [] current);
                               novel = filter (\<lambda>t. \<not> memory_token_present prior (Some t)) (firsts [] current);
                               union_count = int current_unique + int (length prior) - int (length seen)
                           in if union_count \<le> 0 then 5 / 10
                              else let jaccard_distance = 1 - real (length seen) / of_int union_count;
                                       novelty_bonus =
                                         (if novel \<noteq> [] then min (2 / 10) (5 / 100 * real (length novel)) else 0);
                                       s = jaccard_distance + novelty_bonus;
                                       s' = (if s < 5 / 100 then 5 / 100 else s)
                                   in if 1 < s' then 1 else s')"

end
