(* ===== verification/Pagerank.thy ===== *)
theory Pagerank
  imports Weights
begin

text \<open>
  The link rank of the candidates of one search (\<open>memory_core_helpers.c\<close>): its configuration,
  the neighbours it appends, the iteration and its running statistics.

  \<open>links i\<close> is what \<open>db2_memory_link_query\<close> returns for a row, of which 64 fit the buffer; a
  matrix of the code, zero at first, is a function of two indices.  Time is an argument.
\<close>

record pagerank_config =
  pc_enabled :: int
  pc_iterations :: int
  pc_weight :: real
  pc_relations :: string

record memory_link =
  ml_source :: int
  ml_target :: int
  ml_relation :: string

record pagerank_stats =
  ps_last_ms :: real
  ps_avg_ms :: real
  ps_max_ms :: real
  ps_samples :: int
  ps_last_candidates :: int
  ps_last_edges :: int

subsection \<open>Configuration and statistics\<close>

definition memory_record_pagerank_stats :: "real \<Rightarrow> int \<Rightarrow> int \<Rightarrow> pagerank_stats \<Rightarrow> pagerank_stats" where
  "memory_record_pagerank_stats elapsed_ms candidates edges s =
     (let samples = ps_samples s + 1
      in \<lparr>ps_last_ms = elapsed_ms,
          ps_avg_ms = (if samples = 1 then elapsed_ms
                       else ps_avg_ms s + (elapsed_ms - ps_avg_ms s) / of_int samples),
          ps_max_ms = (if ps_max_ms s < elapsed_ms then elapsed_ms else ps_max_ms s),
          ps_samples = samples, ps_last_candidates = candidates, ps_last_edges = edges\<rparr>)"

definition memory_load_pagerank_config :: "rank_config \<Rightarrow> environment \<Rightarrow> pagerank_config" where
  "memory_load_pagerank_config cfg env =
     (let enabled = (if memory_pagerank_enabled cfg then 1 else 0);
          iterations = (if 0 < memory_pagerank_iterations cfg then memory_pagerank_iterations cfg else 6);
          weight = (if 0 < memory_pagerank_weight cfg then memory_pagerank_weight cfg else 35 / 100);
          relations = (if memory_pagerank_relations cfg \<noteq> [] then cbuf 256 (memory_pagerank_relations cfg)
                       else cbuf 256 ''depends_on,related_to,co_edited,fixes'')
      in \<lparr>pc_enabled = memory_env_int env ''AIMEE_MEMORY_PAGERANK_ENABLED'' enabled 0 1,
          pc_iterations = memory_env_int env ''AIMEE_MEMORY_PAGERANK_ITERATIONS'' iterations 1 16,
          pc_weight = memory_env_weight env ''AIMEE_MEMORY_PAGERANK_WEIGHT'' weight,
          pc_relations = (if nonempty (env ''AIMEE_MEMORY_PAGERANK_RELATIONS'')
                          then cbuf 256 (cptr_str (env ''AIMEE_MEMORY_PAGERANK_RELATIONS'')) else relations)\<rparr>)"

lemma pagerank_config_bounds:
  "0 \<le> pc_enabled (memory_load_pagerank_config cfg env)"
  "1 \<le> pc_iterations (memory_load_pagerank_config cfg env)"
  by (simp_all add: memory_load_pagerank_config_def Let_def memory_env_int_def split: option.split)

subsection \<open>The neighbours of the candidates\<close>

definition memory_relation_allowed :: "cptr \<Rightarrow> cptr \<Rightarrow> bool" where
  "memory_relation_allowed allowed_csv relation \<longleftrightarrow>
     (if \<not> nonempty relation then False
      else if \<not> nonempty allowed_csv then True
      else cptr_str relation \<in>
        set (map (\<lambda>t. rtrim (dropWhile isspace t))
          (split_words (\<lambda>c. c = CHR '','') (cbuf 256 (cptr_str allowed_csv)))))"

text \<open>The index of the first row of that id.\<close>

definition memory_find_index_by_id :: "int list \<Rightarrow> int \<Rightarrow> nat option" where
  "memory_find_index_by_id ids memory_id =
     (if memory_id \<le> 0 then None
      else find (\<lambda>i. ids ! i = memory_id) [0..<length ids])"

definition other_end :: "int \<Rightarrow> memory_link \<Rightarrow> int" where
  "other_end memory_id l = (if ml_source l = memory_id then ml_target l else ml_source l)"

text \<open>
  The row is fetched by \<open>get\<close>; \<open>id_of\<close> is its id.  \<open>memory_get\<close> fills a row with that id or
  fails.
\<close>

definition append_link ::
    "('row \<Rightarrow> int) \<Rightarrow> (int \<Rightarrow> 'row option) \<Rightarrow> cptr \<Rightarrow> nat \<Rightarrow> int \<Rightarrow> 'row list \<Rightarrow> memory_link \<Rightarrow> 'row list" where
  "append_link id_of get allowed mx memory_id rows l =
     (let nb = other_end memory_id l
      in if mx \<le> length rows \<or> nb \<le> 0 \<or> \<not> memory_relation_allowed allowed (Some (ml_relation l)) then rows
         else if memory_find_index_by_id (map id_of rows) nb \<noteq> None then rows
         else case get nb of None \<Rightarrow> rows | Some r \<Rightarrow> rows @ [r])"

definition memory_append_linked_neighbors ::
    "('row \<Rightarrow> int) \<Rightarrow> (int \<Rightarrow> 'row option) \<Rightarrow> (int \<Rightarrow> memory_link list) \<Rightarrow> 'row list \<Rightarrow> nat \<Rightarrow> cptr \<Rightarrow> 'row list" where
  "memory_append_linked_neighbors id_of get links rows max_count allowed =
     (if rows = [] \<or> max_count \<le> length rows then rows
      else foldl (\<lambda>acc r. if max_count \<le> length acc then acc
                          else foldl (append_link id_of get allowed max_count (id_of r)) acc
                                 (take 64 (links (id_of r))))
             rows rows)"

subsection \<open>The iteration\<close>

type_synonym matrix = "nat \<Rightarrow> nat \<Rightarrow> real"

definition bump :: "nat \<Rightarrow> nat \<Rightarrow> matrix \<Rightarrow> matrix" where
  "bump i j a = a(i := (a i)(j := a i j + 1))"

definition link_edge ::
    "int list \<Rightarrow> string \<Rightarrow> nat \<Rightarrow> matrix \<times> int \<Rightarrow> memory_link \<Rightarrow> matrix \<times> int" where
  "link_edge ids relations i st l =
     (case memory_find_index_by_id ids (other_end (ids ! i) l) of
        None \<Rightarrow> st
      | Some j \<Rightarrow>
          if i = j \<or> \<not> memory_relation_allowed (Some relations) (Some (ml_relation l)) then st
          else (bump j i (bump i j (fst st)), snd st + 2))"

definition adjacency_of :: "(int \<Rightarrow> memory_link list) \<Rightarrow> int list \<Rightarrow> string \<Rightarrow> matrix \<times> int" where
  "adjacency_of links ids relations =
     foldl (\<lambda>st i. foldl (link_edge ids relations i) st (take 64 (links (ids ! i))))
       (\<lambda>i j. 0, 0) [0..<length ids]"

definition damping :: real where
  "damping = 85 / 100"

definition spread :: "matrix \<Rightarrow> real list \<Rightarrow> real list \<Rightarrow> nat \<Rightarrow> real list" where
  "spread adj scores nxt i =
     (let n = length scores;
          out_degree = sum_list (map (adj i) [0..<n])
      in if out_degree \<le> 0
         then map (\<lambda>j. nxt ! j + damping * scores ! i / real n) [0..<n]
         else map (\<lambda>j. if adj i j \<le> 0 then nxt ! j
                       else nxt ! j + damping * scores ! i * (adj i j / out_degree)) [0..<n])"

definition rank_round :: "matrix \<Rightarrow> real list \<Rightarrow> real list" where
  "rank_round adj scores =
     (let n = length scores
      in foldl (spread adj scores) (replicate n ((1 - damping) / real n)) [0..<n])"

definition rank_scores :: "matrix \<Rightarrow> nat \<Rightarrow> nat \<Rightarrow> real list" where
  "rank_scores adj n iterations = (rank_round adj ^^ iterations) (replicate n (1 / real n))"

text \<open>The scores by id, and the statistics after the call.\<close>

definition memory_compute_pagerank_scores ::
    "(int \<Rightarrow> memory_link list) \<Rightarrow> real \<Rightarrow> pagerank_stats \<Rightarrow> int list \<Rightarrow> pagerank_config \<Rightarrow> nat
     \<Rightarrow> (int \<times> real) list \<times> pagerank_stats" where
  "memory_compute_pagerank_scores links elapsed_ms stats ids cfg max_out =
     (let n = length ids
      in if n \<le> 1 \<or> pc_enabled cfg = 0 \<or> pc_weight cfg \<le> 0 \<or> max_out < n
         then ([], memory_record_pagerank_stats 0 (int n) 0 stats)
         else let (adj, edges) = adjacency_of links ids (pc_relations cfg);
                  scores = rank_scores adj n (nat (pc_iterations cfg));
                  max_score = foldl (\<lambda>m s. if m < s then s else m) 0 scores;
                  stats' = memory_record_pagerank_stats elapsed_ms (int n) edges stats
              in if max_score \<le> 0 then ([], stats')
                 else (map2 (\<lambda>i s. (i, s / max_score * pc_weight cfg)) ids scores, stats'))"

definition memory_pagerank_bonus_lookup :: "(int \<times> real) list \<Rightarrow> int \<Rightarrow> real" where
  "memory_pagerank_bonus_lookup scores memory_id =
     (if memory_id \<le> 0 then 0
      else case map_of scores memory_id of None \<Rightarrow> 0 | Some s \<Rightarrow> s)"

subsection \<open>The matrix has no negative entry\<close>

definition counts :: "matrix \<times> int \<Rightarrow> bool" where
  "counts st \<longleftrightarrow> (\<forall>i j. 0 \<le> fst st i j) \<and> (\<forall>i j. fst st i j = fst st j i)"

lemma link_edge_counts:
  assumes "counts st"
  shows "counts (link_edge ids relations i st l)"
proof -
  have "counts (bump j i (bump i j (fst st)), e)" if "i \<noteq> j" for j e
  proof -
    have "0 \<le> fst st a b" "fst st a b = fst st b a" for a b
      using assms by (auto simp: counts_def)
    then show ?thesis
      using that by (simp add: counts_def bump_def)
  qed
  then show ?thesis
    using assms by (auto simp: link_edge_def split: option.split)
qed

lemma link_edges_counts: "counts st \<Longrightarrow> counts (foldl (link_edge ids relations i) st ls)"
  by (induction ls arbitrary: st) (simp_all add: link_edge_counts)

lemma adjacency_counts: "counts (adjacency_of links ids relations)"
proof -
  have "counts st \<Longrightarrow>
      counts (foldl (\<lambda>st i. foldl (link_edge ids relations i) st (take 64 (links (ids ! i)))) st is)" for st "is"
    by (induction "is" arbitrary: st) (simp_all add: link_edges_counts)
  then show ?thesis
    by (simp add: adjacency_of_def counts_def)
qed

subsection \<open>The scores are a distribution\<close>

lemma sum_map_upt: "sum_list (map f [0..<n]) = sum f {0..<n}" for f :: "nat \<Rightarrow> real"
  by (simp add: interv_sum_list_conv_sum_set_nat)

lemma sum_list_upt: "sum_list xs = (\<Sum>j = 0..<length xs. xs ! j)" for xs :: "real list"
  by (simp add: sum_list_sum_nth)

lemma length_spread [simp]: "length (spread adj scores nxt i) = length scores"
  by (simp add: spread_def Let_def)

lemma spread_sum:
  assumes "\<And>i j. 0 \<le> adj i j" and len: "length nxt = length scores" and i: "i < length scores"
  shows "sum_list (spread adj scores nxt i) = sum_list nxt + damping * scores ! i"
proof -
  let ?n = "length scores" and ?d = "sum_list (map (adj i) [0..<length scores])"
  have nxt: "sum_list nxt = (\<Sum>j = 0..<?n. nxt ! j)"
    using sum_list_upt [of nxt] len by simp
  show ?thesis
  proof (cases "?d \<le> 0")
    case True
    have "sum_list (spread adj scores nxt i) = (\<Sum>j = 0..<?n. nxt ! j + damping * scores ! i / real ?n)"
      using True by (simp add: spread_def Let_def sum_map_upt)
    also have "\<dots> = sum_list nxt + damping * scores ! i"
      using i by (cases "scores = []") (simp_all add: sum.distrib nxt)
    finally show ?thesis .
  next
    case False
    have entry: "(if adj i j \<le> 0 then nxt ! j else nxt ! j + damping * scores ! i * (adj i j / d)) =
        nxt ! j + damping * scores ! i * (adj i j / d)" for j d
      using assms(1) [of i j] by (cases "adj i j = 0") auto
    have "sum_list (spread adj scores nxt i) =
        (\<Sum>j = 0..<?n. nxt ! j + damping * scores ! i * (adj i j / ?d))"
      using False by (simp only: spread_def Let_def entry sum_map_upt if_False)
    also have "\<dots> = sum_list nxt + damping * scores ! i * ((\<Sum>j = 0..<?n. adj i j) / ?d)"
      by (simp add: sum.distrib nxt sum_distrib_left sum_divide_distrib)
    also have "(\<Sum>j = 0..<?n. adj i j) / ?d = 1"
      using False by (simp add: sum_map_upt)
    finally show ?thesis by simp
  qed
qed

lemma spread_grows:
  assumes "\<And>i j. 0 \<le> adj i j" and "\<And>j. j < length scores \<Longrightarrow> 0 \<le> scores ! j"
    and "length nxt = length scores" and "i < length scores" and j: "j < length scores"
  shows "nxt ! j \<le> spread adj scores nxt i ! j"
  using assms(1) [of i j] assms(2) [OF assms(4)] j by (simp add: spread_def Let_def damping_def)

lemma spreads:
  assumes adj: "\<And>i j. 0 \<le> adj i j" and pos: "\<And>j. j < length scores \<Longrightarrow> 0 \<le> scores ! j"
    and "length nxt = length scores" and "k \<le> length scores"
  shows "let r = foldl (spread adj scores) nxt [0..<k] in
           length r = length scores \<and> sum_list r = sum_list nxt + damping * (\<Sum>i = 0..<k. scores ! i) \<and>
           (\<forall>j < length scores. nxt ! j \<le> r ! j)"
  using assms(4)
proof (induction k)
  case 0
  then show ?case using assms(3) by simp
next
  case (Suc k)
  let ?r = "foldl (spread adj scores) nxt [0..<k]"
  have ih: "length ?r = length scores" "sum_list ?r = sum_list nxt + damping * (\<Sum>i = 0..<k. scores ! i)"
    "\<And>j. j < length scores \<Longrightarrow> nxt ! j \<le> ?r ! j"
    using Suc by (simp_all add: Let_def)
  have "sum_list (spread adj scores ?r k) = sum_list nxt + damping * (\<Sum>i = 0..<Suc k. scores ! i)"
    using spread_sum [OF adj ih(1), of k] Suc.prems ih(2) by (simp add: algebra_simps)
  moreover have "nxt ! j \<le> spread adj scores ?r k ! j" if "j < length scores" for j
    using spread_grows [where adj = adj, OF adj pos ih(1) _ that] ih(3) [OF that] Suc.prems
    by (meson Suc_le_lessD order_trans)
  ultimately show ?case by (simp add: Let_def)
qed

definition distribution :: "real list \<Rightarrow> bool" where
  "distribution ps \<longleftrightarrow> sum_list ps = 1 \<and> (\<forall>p \<in> set ps. 0 < p)"

lemma rank_round_distribution:
  assumes adj: "\<And>i j. 0 \<le> adj i j" and ps: "distribution ps" "ps \<noteq> []"
  shows "distribution (rank_round adj ps) \<and> length (rank_round adj ps) = length ps"
proof -
  let ?n = "length ps" and ?r = "rank_round adj ps"
  have "0 < ?n" using ps(2) by simp
  have "0 \<le> ps ! j" if "j < ?n" for j
    using ps(1) nth_mem [OF that] by (fastforce simp: distribution_def)
  from spreads [OF adj this, of "replicate ?n ((1 - damping) / real ?n)" ?n]
  have r: "length ?r = ?n"
    "sum_list ?r = sum_list (replicate ?n ((1 - damping) / real ?n)) + damping * (\<Sum>i = 0..<?n. ps ! i)"
    "\<And>j. j < ?n \<Longrightarrow> (1 - damping) / real ?n \<le> ?r ! j"
    by (simp_all add: rank_round_def Let_def)
  have "sum_list ?r = 1"
    using r(2) ps \<open>0 < ?n\<close> sum_list_upt [of ps] by (simp add: sum_list_replicate distribution_def)
  moreover have "0 < ?r ! j" if "j < ?n" for j
  proof -
    have "0 < (1 - damping) / real ?n"
      using \<open>0 < ?n\<close> by (simp add: damping_def)
    then show ?thesis using r(3) [OF that] by linarith
  qed
  ultimately show ?thesis
    using r(1) by (auto simp: distribution_def in_set_conv_nth)
qed

lemma rank_scores_distribution:
  assumes "\<And>i j. 0 \<le> adj i j" and "0 < n"
  shows "distribution (rank_scores adj n k) \<and> length (rank_scores adj n k) = n"
proof (induction k)
  case 0
  then show ?case
    using assms(2) by (simp add: rank_scores_def distribution_def sum_list_replicate)
next
  case (Suc k)
  then have "rank_scores adj n k \<noteq> []" using assms(2) by auto
  then show ?case
    using rank_round_distribution [OF assms(1), of "rank_scores adj n k"] Suc
    by (simp add: rank_scores_def)
qed

text \<open>The largest score.\<close>

lemma largest_fold:
  "(let m = foldl (\<lambda>m s. if m < s then s else m) a xs in
      m \<in> insert a (set xs) \<and> (\<forall>x \<in> insert a (set xs). x \<le> m))" for a :: real
proof (induction xs arbitrary: a)
  case Nil
  then show ?case by simp
next
  case (Cons x xs)
  show ?case
    using Cons.IH [of "if a < x then x else a"] by (auto simp: Let_def split: if_splits)
qed

lemma largest_score:
  assumes "distribution ps" and "ps \<noteq> []"
  shows "foldl (\<lambda>m s. if m < s then s else m) 0 ps \<in> set ps \<and>
         (\<forall>p \<in> set ps. p \<le> foldl (\<lambda>m s. if m < s then s else m) 0 ps)"
proof -
  let ?m = "foldl (\<lambda>m s. if m < s then s else m) 0 ps"
  have m: "?m \<in> insert 0 (set ps)" "\<And>p. p \<in> set ps \<Longrightarrow> p \<le> ?m"
    using largest_fold [of 0 ps] by (simp_all add: Let_def)
  have "0 < hd ps" "hd ps \<in> set ps"
    using assms by (auto simp: distribution_def)
  then have "0 < ?m" using m(2) [of "hd ps"] by linarith
  then show ?thesis using m by auto
qed

definition pagerank_active :: "pagerank_config \<Rightarrow> nat \<Rightarrow> nat \<Rightarrow> bool" where
  "pagerank_active cfg n max_out \<longleftrightarrow> 1 < n \<and> pc_enabled cfg \<noteq> 0 \<and> 0 < pc_weight cfg \<and> n \<le> max_out"

lemma pagerank_ranks:
  assumes act: "pagerank_active cfg (length ids) max_out"
  shows "fst (memory_compute_pagerank_scores links t st ids cfg max_out) =
    (let ps = rank_scores (fst (adjacency_of links ids (pc_relations cfg))) (length ids) (nat (pc_iterations cfg))
     in map2 (\<lambda>i p. (i, p / Max (set ps) * pc_weight cfg)) ids ps)"
proof -
  let ?adj = "fst (adjacency_of links ids (pc_relations cfg))"
  let ?ps = "rank_scores ?adj (length ids) (nat (pc_iterations cfg))"
  have nonneg: "0 \<le> ?adj i j" for i j
    using adjacency_counts [of links ids "pc_relations cfg"] by (simp add: counts_def)
  have n: "0 < length ids" using act unfolding pagerank_active_def by linarith
  have ps: "distribution ?ps" "length ?ps = length ids"
    using rank_scores_distribution [OF nonneg n] by simp_all
  then have "?ps \<noteq> []" using n by auto
  note m = largest_score [OF ps(1) this]
  have max: "foldl (\<lambda>m s. if m < s then s else m) 0 ?ps = Max (set ?ps)"
    using m by (intro Max_eqI [symmetric]) auto
  have "0 < Max (set ?ps)"
    using m ps(1) unfolding max by (auto simp: distribution_def)
  then show ?thesis
    using act max unfolding memory_compute_pagerank_scores_def
    by (simp add: Let_def pagerank_active_def split_beta)
qed

subsection \<open>Appending neighbours\<close>

definition allowed_neighbour :: "(int \<Rightarrow> memory_link list) \<Rightarrow> cptr \<Rightarrow> int \<Rightarrow> int \<Rightarrow> bool" where
  "allowed_neighbour links allowed a b \<longleftrightarrow>
     (\<exists>l \<in> set (links a). other_end a l = b \<and> memory_relation_allowed allowed (Some (ml_relation l)))"

lemma find_index_None:
  "memory_find_index_by_id ids i = None \<longleftrightarrow> i \<le> 0 \<or> i \<notin> set ids"
  by (auto simp: memory_find_index_by_id_def find_None_iff in_set_conv_nth)

text \<open>What was appended to \<open>rows\<close>: fetched neighbours of the seeds, each with a new id.\<close>

definition grown ::
    "('row \<Rightarrow> int) \<Rightarrow> (int \<Rightarrow> 'row option) \<Rightarrow> (int \<Rightarrow> memory_link list) \<Rightarrow> cptr \<Rightarrow> nat \<Rightarrow> 'row list \<Rightarrow> 'row list \<Rightarrow> bool" where
  "grown id_of get links allowed mx rows out \<longleftrightarrow>
     (\<exists>new. out = rows @ new \<and> length out \<le> max mx (length rows) \<and>
        (distinct (map id_of rows) \<longrightarrow> distinct (map id_of out)) \<and>
        (\<forall>r \<in> set new. get (id_of r) = Some r \<and>
           (\<exists>s \<in> set rows. allowed_neighbour links allowed (id_of s) (id_of r))))"

lemma append_link_grown:
  assumes get: "\<And>i r. get i = Some r \<Longrightarrow> id_of r = i" and s: "s \<in> set rows"
    and l: "l \<in> set (links (id_of s))" and out: "grown id_of get links allowed mx rows out"
  shows "grown id_of get links allowed mx rows (append_link id_of get allowed mx (id_of s) out l)"
proof -
  let ?nb = "other_end (id_of s) l"
  show ?thesis
  proof (cases "append_link id_of get allowed mx (id_of s) out l = out")
    case True
    then show ?thesis using out by simp
  next
    case False
    then obtain r where r: "length out < mx" "memory_relation_allowed allowed (Some (ml_relation l))"
        "?nb \<notin> set (map id_of out)" "get ?nb = Some r"
        "append_link id_of get allowed mx (id_of s) out l = out @ [r]"
      by (auto simp: append_link_def Let_def find_index_None split: if_splits option.splits)
    have "allowed_neighbour links allowed (id_of s) (id_of r)"
      using l r(2) get [OF r(4)] by (auto simp: allowed_neighbour_def)
    then show ?thesis
      using out r s get [OF r(4)] by (fastforce simp: grown_def)
  qed
qed

lemma append_links_grown:
  assumes get: "\<And>i r. get i = Some r \<Longrightarrow> id_of r = i" and s: "s \<in> set rows"
    and "set ls \<subseteq> set (links (id_of s))" and "grown id_of get links allowed mx rows out"
  shows "grown id_of get links allowed mx rows (foldl (append_link id_of get allowed mx (id_of s)) out ls)"
  using assms(3,4)
proof (induction ls arbitrary: out)
  case (Cons l ls)
  then show ?case
    using append_link_grown [where id_of = id_of and get = get and l = l and out = out, OF get s] by simp
qed simp

lemma append_neighbours_grown:
  assumes get: "\<And>i r. get i = Some r \<Longrightarrow> id_of r = i"
  shows "grown id_of get links allowed mx rows (memory_append_linked_neighbors id_of get links rows mx allowed)"
proof -
  have "grown id_of get links allowed mx rows
      (foldl (\<lambda>acc r. if mx \<le> length acc then acc
                      else foldl (append_link id_of get allowed mx (id_of r)) acc (take 64 (links (id_of r)))) out seeds)"
    if "set seeds \<subseteq> set rows" "grown id_of get links allowed mx rows out" for seeds out
    using that
  proof (induction seeds arbitrary: out)
    case (Cons a seeds)
    then show ?case
      using append_links_grown [where id_of = id_of and get = get and s = a and rows = rows
          and ls = "take 64 (links (id_of a))" and links = links and allowed = allowed and mx = mx and out = out, OF get]
      by (simp add: set_take_subset)
  qed simp
  moreover have "grown id_of get links allowed mx rows rows"
    by (simp add: grown_def)
  ultimately show ?thesis
    by (simp add: memory_append_linked_neighbors_def)
qed

end
