(* ===== verification/Ranking.thy ===== *)
theory Ranking
  imports Pagerank Query Fusion
begin

text \<open>
  What one candidate of a search scores (\<open>memory_core_search_b.c\<close>, with the entity and speaker
  bonuses of \<open>memory_core_search.c\<close>): the bonuses of its rows in the store, the parts of the
  score and their sum.

  The reads of the store are the record \<open>rank_store\<close>; a list it returns fits the buffer the
  code passes.  The names of the kinds, the sizes of the text fields, the configuration, the
  environment, the clock and \<open>normalize_key\<close> are outside \<open>src/\<close>; with the store they are the
  record \<open>rank_context\<close>.
\<close>

record memory_t =
  m_id :: int
  m_tier :: string
  m_kind :: string
  m_key :: string
  m_content :: string
  m_use_cases :: string
  m_source_session :: string
  m_created_at :: string
  m_provenance :: string
  m_confidence :: real
  m_retrieval_score :: real
  m_hybrid_rank :: int

record temporal_ref =
  tr_ref_key :: string
  tr_granularity :: string
  tr_weight :: real

record unit_row =
  un_id :: int
  un_type :: string
  un_key :: string
  un_text :: string
  un_weight :: real

record entity_row =
  en_entity :: string
  en_role :: string
  en_weight :: real

record rank_store =
  st_temporal_refs :: "int \<Rightarrow> temporal_ref list"
  st_evidence :: "int \<Rightarrow> (real \<times> int) option"
  st_salience :: "int \<Rightarrow> real \<Rightarrow> real"
  st_surprise :: "int \<Rightarrow> real \<Rightarrow> real"
  st_units :: "int \<Rightarrow> unit_row list"
  st_unit_edge :: "int \<Rightarrow> int \<Rightarrow> bool"
  st_state :: "int \<Rightarrow> (bool \<times> int \<times> int) option"
  st_entities :: "int \<Rightarrow> entity_row list"
  st_scenes :: "int \<Rightarrow> (int \<times> real) list"
  st_scene_member :: "int \<Rightarrow> int \<Rightarrow> bool"
  st_links :: "int \<Rightarrow> memory_link list"
  st_get :: "int \<Rightarrow> memory_t option"

record rank_context =
  rc_store :: rank_store
  rc_config :: rank_config
  rc_env :: environment
  rc_file :: "string \<Rightarrow> string option"
  rc_norm :: normalizer
  rc_today :: int
  rc_fusion :: fusion_state
  kind_workflow :: string
  kind_fact :: string
  kind_preference :: string
  kind_episode :: string
  cap_kind :: nat
  cap_key :: nat
  cap_content :: nat
  cap_use_cases :: nat

subsection \<open>Entities and speakers\<close>

text \<open>A query term or its canonical form stands in a text.\<close>

definition term_in :: "normalizer \<Rightarrow> string \<Rightarrow> string \<Rightarrow> bool" where
  "term_in nrm s q \<longleftrightarrow>
     (let canonical_q = memory_canonicalize_term nrm (Some q) 64
      in (canonical_q \<noteq> [] \<and> memory_token_in_norm (Some s) (Some canonical_q)) \<or>
         memory_token_in_norm (Some s) (Some q))"

definition entity_value :: "normalizer \<Rightarrow> string list \<Rightarrow> entity_row \<Rightarrow> real" where
  "entity_value nrm qtokens e =
     (if en_entity e = [] then 0
      else let role_mult = (if en_role e = ''actor'' \<or> en_role e = ''subject'' then 15 / 10 else 1);
               matched = (list_ex (term_in nrm (en_entity e)) qtokens \<or>
                          list_ex (\<lambda>b. contains (en_entity e) b \<or> contains b (en_entity e))
                            (memory_query_bigrams qtokens 8))
           in if matched then (3 / 10 + en_weight e * (15 / 100)) * role_mult else 0)"

definition memory_entity_bonus :: "rank_context \<Rightarrow> int \<Rightarrow> string list \<Rightarrow> real" where
  "memory_entity_bonus rc memory_id qtokens =
     sum_list (map (entity_value (rc_norm rc) qtokens) (take 64 (st_entities (rc_store rc) memory_id)))"

text \<open>
  The proper nouns behind the first word: a capitalised word, cut after 63 letters (what is
  left of it is read as the next word), all of letters and at least three of them.
\<close>

function proper_nouns :: "string \<Rightarrow> nat \<Rightarrow> string list" where
  "proper_nouns s n =
     (let p = dropWhile isspace s
      in if n = 0 \<or> p = [] then []
         else if isupper (hd p)
         then let w = take 63 (takeWhile (\<lambda>c. \<not> isspace c) p); r = drop (length w) p
              in if list_all isalpha w \<and> 3 \<le> length w then map tolower w # proper_nouns r (n - 1)
                 else proper_nouns r n
         else proper_nouns (dropWhile (\<lambda>c. \<not> isspace c) p) n)"
  by pat_completeness auto

lemma word_progress:
  assumes "dropWhile isspace s \<noteq> []"
  shows "length (dropWhile (\<lambda>c. \<not> isspace c) (dropWhile isspace s)) < length s"
    and "takeWhile (\<lambda>c. \<not> isspace c) (dropWhile isspace s) \<noteq> []"
    and "length (dropWhile isspace s) \<le> length s"
proof -
  obtain c cs where p: "dropWhile isspace s = c # cs"
    using assms by (cases "dropWhile isspace s") auto
  then have "\<not> isspace c"
    using hd_dropWhile [OF assms] by simp
  moreover have "length (c # cs) \<le> length s"
    using length_dropWhile_le [of isspace s] p by simp
  ultimately show "length (dropWhile (\<lambda>c. \<not> isspace c) (dropWhile isspace s)) < length s"
    "takeWhile (\<lambda>c. \<not> isspace c) (dropWhile isspace s) \<noteq> []"
    "length (dropWhile isspace s) \<le> length s"
    using length_dropWhile_le [of "\<lambda>c. \<not> isspace c" cs] p by auto
qed

lemma word_shorter:
  assumes "p = dropWhile isspace s" and "\<not> (n = (0 :: nat) \<or> p = [])"
    and "w = take 63 (takeWhile (\<lambda>c. \<not> isspace c) p)" and "r = drop (length w) p"
  shows "length r < length s"
proof -
  have "takeWhile (\<lambda>c. \<not> isspace c) p \<noteq> []" "length p \<le> length s" "p \<noteq> []"
    using word_progress(2,3) [of s] assms(1,2) by auto
  then have "0 < length w" "0 < length p" by (simp_all add: assms(3))
  then show ?thesis
    using \<open>length p \<le> length s\<close> by (simp only: assms(4) length_drop)
qed

termination proper_nouns
proof (relation "measure (length \<circ> fst)", simp, goal_cases)
  case (1 s n p w r)
  then show ?case using word_shorter [of p s n w r] by simp
next
  case (2 s n p w r)
  then show ?case using word_shorter [of p s n w r] by simp
next
  case (3 s n p)
  then show ?case using word_progress(1) [of s] by simp
qed

declare proper_nouns.simps [simp del]

definition speaker_value :: "normalizer \<Rightarrow> string list \<Rightarrow> entity_row \<Rightarrow> real" where
  "speaker_value nrm proper e =
     (if en_role e \<noteq> ''actor'' \<or> en_entity e = [] then 0
      else let canonical_e = memory_canonicalize_term nrm (Some (en_entity e)) 64
           in if list_ex (\<lambda>p. canonical_e \<noteq> [] \<and> canonical_e = p \<or> en_entity e = p) proper
              then 45 / 100 + en_weight e * (1 / 10) else 0)"

definition memory_speaker_bonus :: "rank_context \<Rightarrow> int \<Rightarrow> cptr \<Rightarrow> real" where
  "memory_speaker_bonus rc memory_id raw_query =
     (case raw_query of None \<Rightarrow> 0
      | Some q \<Rightarrow>
          if q = [] then 0
          else let proper = proper_nouns (dropWhile (\<lambda>c. \<not> isspace c) q) 8
               in if proper = [] then 0
                  else sum_list (map (speaker_value (rc_norm rc) proper)
                         (take 64 (st_entities (rc_store rc) memory_id))))"

subsection \<open>Temporal references\<close>

text \<open>The tokens joined by blanks while 65 bytes of the buffer of 512 are free.\<close>

fun join_query :: "string \<Rightarrow> string list \<Rightarrow> string" where
  "join_query acc [] = acc"
| "join_query acc (t # ts) =
     (if 512 \<le> length acc + 65 then acc
      else join_query (acc @ (if acc \<noteq> [] then '' '' else []) @ t) ts)"

definition temporal_value ::
    "normalizer \<Rightarrow> int \<Rightarrow> query_intent \<Rightarrow> string list \<Rightarrow> temporal_ref \<Rightarrow> real" where
  "temporal_value nrm today intent qtokens r =
     (if tr_ref_key r = [] then 0
      else
        let q = Some (join_query [] qtokens);
            temporal = (intent = QUERY_TEMPORAL);
            g = tr_granularity r; w = tr_weight r;
            dated = (g = ''absolute_day'' \<or> g = ''date_phrase'');
            matched = memory_temporal_ref_matches_query (Some (tr_ref_key r)) qtokens;
            constraint = memory_parse_temporal_constraint today q qtokens
        in (if temporal then 42 / 100 + w * (18 / 100) else 0) +
           (if matched then 34 / 100 + w * (12 / 100) else 0) +
           (if \<not> matched \<and> g = ''date_phrase'' \<and> temporal then 15 / 100 else 0) +
           (if temporal \<and> (g = ''ordering'' \<or> g = ''range'') then 25 / 100 else 0) +
           (if memory_temporal_query_has_explicit_date qtokens \<and> dated then 18 / 100 else 0) +
           (if memory_query_wants_recent q \<and> dated then 8 / 100 + w * (3 / 100) else 0) +
           (if (memory_query_wants_past q \<or> memory_query_wants_future q) \<and> g = ''ordering'' then 14 / 100 else 0) +
           (if snd constraint
            then (case memory_parse_temporal_ref_date nrm (Some (tr_ref_key r)) (Some g) of
                    None \<Rightarrow> 0
                  | Some d \<Rightarrow> memory_temporal_constraint_score (Some (fst constraint)) (Some d))
            else 0))"

definition memory_temporal_bonus :: "rank_context \<Rightarrow> int \<Rightarrow> query_intent \<Rightarrow> string list \<Rightarrow> real" where
  "memory_temporal_bonus rc memory_id intent qtokens =
     sum_list (map (temporal_value (rc_norm rc) (rc_today rc) intent qtokens)
       (take 64 (st_temporal_refs (rc_store rc) memory_id)))"

subsection \<open>Evidence, salience, surprise and state\<close>

definition memory_evidence_bonus :: "rank_context \<Rightarrow> int \<Rightarrow> real" where
  "memory_evidence_bonus rc memory_id =
     (case st_evidence (rc_store rc) memory_id of None \<Rightarrow> 0
      | Some (evidence, observations) \<Rightarrow>
          evidence * (8 / 10) + (if 1 < observations then of_int (observations - 1) * (5 / 100) else 0))"

definition memory_salience_bonus :: "rank_context \<Rightarrow> int \<Rightarrow> real" where
  "memory_salience_bonus rc memory_id =
     (if \<not> memory_salience_enabled (rc_config rc) (rc_env rc) then 0
      else (st_salience (rc_store rc) memory_id (5 / 10) - 5 / 10) *
           memory_salience_weight (rc_config rc) (rc_env rc))"

definition memory_surprise_bonus :: "rank_context \<Rightarrow> int \<Rightarrow> real" where
  "memory_surprise_bonus rc memory_id =
     (if \<not> memory_surprise_enabled (rc_config rc) (rc_env rc) then 0
      else (st_surprise (rc_store rc) memory_id (5 / 10) - 5 / 10) *
           memory_surprise_weight (rc_config rc) (rc_env rc))"

definition memory_state_penalty :: "rank_context \<Rightarrow> int \<Rightarrow> real" where
  "memory_state_penalty rc memory_id =
     (case st_state (rc_store rc) memory_id of None \<Rightarrow> 0
      | Some (has_valid_until, observations, use_count) \<Rightarrow>
          0 - (if has_valid_until then 18 / 10 else 0) - (if observations \<le> 1 then 15 / 100 else 0) -
          (if use_count = 0 then 5 / 100 else 0))"

subsection \<open>Units\<close>

definition unit_matches :: "normalizer \<Rightarrow> string list \<Rightarrow> unit_row \<Rightarrow> nat" where
  "unit_matches nrm qtokens u =
     length (filter (\<lambda>q. memory_is_signal_token (Some q) \<and>
       (un_key u \<noteq> [] \<and> term_in nrm (un_key u) q \<or> un_text u \<noteq> [] \<and> term_in nrm (un_text u) q)) qtokens)"

definition unit_signal :: "normalizer \<Rightarrow> string list \<Rightarrow> unit_row \<Rightarrow> bool" where
  "unit_signal nrm qtokens u \<longleftrightarrow>
     0 < unit_matches nrm qtokens u \<and>
     (2 \<le> unit_matches nrm qtokens u \<or> un_type u \<in> {''entity'', ''temporal'', ''event''})"

definition unit_value :: "normalizer \<Rightarrow> string list \<Rightarrow> unit_row \<Rightarrow> real" where
  "unit_value nrm qtokens u =
     8 / 100 + un_weight u * (4 / 100) +
     real (if 2 < unit_matches nrm qtokens u then 2 else unit_matches nrm qtokens u) * (3 / 100)"

fun id_pairs :: "int list \<Rightarrow> (int \<times> int) list" where
  "id_pairs [] = []"
| "id_pairs (x # xs) = map (Pair x) xs @ id_pairs xs"

definition memory_unit_graph_bonus :: "rank_context \<Rightarrow> int \<Rightarrow> string list \<Rightarrow> real" where
  "memory_unit_graph_bonus rc memory_id qtokens =
     (let signals = filter (unit_signal (rc_norm rc) qtokens) (take 64 (st_units (rc_store rc) memory_id));
          saw = (\<lambda>t. list_ex (\<lambda>u. un_type u = t) signals);
          edges = filter (\<lambda>(a, b). st_unit_edge (rc_store rc) a b) (id_pairs (take 16 (map un_id signals)));
          bonus = sum_list (map (unit_value (rc_norm rc) qtokens) signals) +
            (if saw ''event'' \<and> saw ''temporal'' \<or> saw ''event'' \<and> saw ''entity'' then 14 / 100 else 0) +
            (if saw ''summary'' \<and> (saw ''event'' \<or> saw ''chunk'') then 8 / 100 else 0) +
            real (length edges) * (4 / 100)
      in if signals = [] then 0 else if 85 / 100 < bonus then 85 / 100 else bonus)"

subsection \<open>The parts of the score\<close>

record ranker_input =
  ri_id :: int
  ri_kind :: string
  ri_key :: string
  ri_content :: string
  ri_use_cases :: string

definition memory_ranker_input_from :: "rank_context \<Rightarrow> memory_t option \<Rightarrow> ranker_input" where
  "memory_ranker_input_from rc m =
     (case m of None \<Rightarrow> \<lparr>ri_id = 0, ri_kind = [], ri_key = [], ri_content = [], ri_use_cases = []\<rparr>
      | Some m \<Rightarrow>
          \<lparr>ri_id = m_id m, ri_kind = cbuf (cap_kind rc) (m_kind m), ri_key = cbuf (cap_key rc) (m_key m),
           ri_content = cbuf (cap_content rc) (m_content m),
           ri_use_cases = cbuf (cap_use_cases rc) (m_use_cases m)\<rparr>)"

record rank_parts = score_parts +
  sp_lexical :: real
  sp_coverage :: real
  sp_entity :: real
  sp_temporal :: real
  sp_evidence :: real
  sp_semantic :: real
  sp_state :: real
  sp_intent :: real
  sp_salience :: real
  sp_surprise :: real
  sp_pagerank :: real
  sp_total :: real

definition no_parts :: rank_parts where
  "no_parts = \<lparr>graph_score = 0, code_proximity = 0, sp_lexical = 0, sp_coverage = 0, sp_entity = 0,
     sp_temporal = 0, sp_evidence = 0, sp_semantic = 0, sp_state = 0, sp_intent = 0, sp_salience = 0,
     sp_surprise = 0, sp_pagerank = 0, sp_total = 0\<rparr>"

text \<open>The fields a query token occurs in, normalised: key, content, use cases.\<close>

definition token_value :: "rank_weights \<Rightarrow> string \<Rightarrow> string \<Rightarrow> string \<Rightarrow> string \<Rightarrow> real option" where
  "token_value w norm_key norm_content norm_use_cases t =
     (let in_key = memory_token_in_norm (Some norm_key) (Some t)
      in if in_key \<or> memory_token_in_norm (Some norm_content) (Some t) \<or>
            memory_token_in_norm (Some norm_use_cases) (Some t)
         then Some ((if in_key then w_lexical_key w else w_lexical_content w) +
                    (if 6 \<le> length t then w_lexical_long_token_bonus w else 0))
         else None)"

definition intent_value :: "rank_context \<Rightarrow> rank_weights \<Rightarrow> query_intent \<Rightarrow> string \<Rightarrow> real" where
  "intent_value rc w intent kind =
     (if intent = QUERY_PROCEDURAL \<and> kind = kind_workflow rc then w_workflow_intent w
      else if intent = QUERY_ENTITY \<and> (kind = kind_fact rc \<or> kind = kind_preference rc) then w_entity_intent w
      else if intent = QUERY_TEMPORAL \<and> (kind = kind_fact rc \<or> kind = kind_episode rc) then w_temporal_intent w
      else 0)"

text \<open>The parts before the test of a candidate without a lexical match.\<close>

definition raw_parts ::
    "rank_context \<Rightarrow> cptr \<Rightarrow> string \<Rightarrow> ranker_input \<Rightarrow> (int \<times> real) list \<Rightarrow> (int \<times> real) list \<Rightarrow> string list
     \<Rightarrow> real list \<Rightarrow> rank_parts" where
  "raw_parts rc raw_query norm_query m hits pagerank qtokens matched =
     (let w = memory_rank_weights (rc_config rc) (rc_file rc) (rc_env rc);
          intent = memory_query_intent raw_query (Some norm_query);
          i = ri_id m
      in \<lparr>graph_score = 0, code_proximity = 0,
          sp_lexical = sum_list matched,
          sp_coverage = real (length matched) / real (length qtokens) * w_coverage w,
          sp_entity = memory_entity_bonus rc i qtokens * w_entity w + memory_speaker_bonus rc i raw_query * w_speaker w,
          sp_temporal = memory_temporal_bonus rc i intent qtokens * w_temporal w,
          sp_evidence = (memory_evidence_bonus rc i + memory_unit_graph_bonus rc i qtokens) * w_evidence w,
          sp_semantic = memory_semantic_bonus_lookup i hits * w_semantic w,
          sp_state = memory_state_penalty rc i * w_state w,
          sp_intent = intent_value rc w intent (ri_kind m),
          sp_salience = memory_salience_bonus rc i * w_salience w,
          sp_surprise = memory_surprise_bonus rc i * w_surprise w,
          sp_pagerank = memory_pagerank_bonus_lookup pagerank i,
          sp_total = 0\<rparr>)"

definition parts_sum :: "rank_context \<Rightarrow> rank_parts \<Rightarrow> real" where
  "parts_sum rc p =
     sp_lexical p + sp_coverage p + sp_entity p + sp_temporal p + sp_evidence p + sp_semantic p +
     sp_state p + sp_intent p + sp_salience p + sp_surprise p + sp_pagerank p +
     memory_env_weight (rc_env rc) ''AIMEE_MEMORY_GRAPH_WEIGHT'' (30 / 100) * graph_score p"

definition memory_compute_score_parts ::
    "rank_context \<Rightarrow> cptr \<Rightarrow> string \<Rightarrow> ranker_input \<Rightarrow> (int \<times> real) list \<Rightarrow> (int \<times> real) list \<Rightarrow> rank_parts" where
  "memory_compute_score_parts rc raw_query norm_query m hits pagerank =
     (let qtokens = memory_split_tokens (Some norm_query) 32
      in if qtokens = [] then no_parts
         else
           let w = memory_rank_weights (rc_config rc) (rc_file rc) (rc_env rc);
               norm_key = rc_norm rc (ri_key m) (cap_key rc);
               norm_content = rc_norm rc (ri_content m) (cap_content rc);
               norm_use_cases = rc_norm rc (ri_use_cases m) (cap_use_cases rc);
               matched = List.map_filter (token_value w norm_key norm_content norm_use_cases) qtokens;
               p = raw_parts rc raw_query norm_query m hits pagerank qtokens matched;
               min_support = memory_env_weight (rc_env rc) ''AIMEE_MEMORY_NO_LEXICAL_MIN_SUPPORT'' (85 / 100);
               penalty = memory_env_weight (rc_env rc) ''AIMEE_MEMORY_NO_LEXICAL_PENALTY'' (4 / 10)
           in if matched = [] \<and> sp_semantic p + sp_entity p + sp_temporal p + sp_evidence p < min_support
              then no_parts
              else let p1 = (if matched = [] then p\<lparr>sp_state := sp_state p - penalty\<rparr> else p);
                       p2 = memory_fusion_expansions_apply (rc_fusion rc) p1 (ri_id m)
                   in p2\<lparr>sp_total := parts_sum rc p2\<rparr>)"

subsection \<open>Bounds\<close>

lemma unit_graph_bonus_bounds:
  assumes "\<And>u. u \<in> set (st_units (rc_store rc) i) \<Longrightarrow> 0 \<le> un_weight u"
  shows "0 \<le> memory_unit_graph_bonus rc i qtokens" and "memory_unit_graph_bonus rc i qtokens \<le> 85 / 100"
proof -
  have "0 \<le> sum_list (map (unit_value (rc_norm rc) qtokens)
      (filter (unit_signal (rc_norm rc) qtokens) (take 64 (st_units (rc_store rc) i))))"
    using assms by (intro sum_list_nonneg) (auto simp: unit_value_def dest!: in_set_takeD)
  then show "0 \<le> memory_unit_graph_bonus rc i qtokens" "memory_unit_graph_bonus rc i qtokens \<le> 85 / 100"
    by (auto simp: memory_unit_graph_bonus_def Let_def)
qed

lemma state_penalty_bounds:
  "- 2 \<le> memory_state_penalty rc i" "memory_state_penalty rc i \<le> 0"
  by (auto simp: memory_state_penalty_def split: option.split)

end
