(* ===== verification/Selection.thy ===== *)
theory Selection
  imports Main "HOL-Library.Multiset"
begin

text \<open>
  The sort the module writes out wherever it orders rows by a score: for every position, find
  the first best row at or behind it and exchange the two.  \<open>key\<close> is the score of a row; rows
  kept in parallel arrays are one list of tuples.
\<close>

definition best_index :: "('a \<Rightarrow> 'k::linorder) \<Rightarrow> 'a list \<Rightarrow> nat \<Rightarrow> nat" where
  "best_index key xs i =
     foldl (\<lambda>best j. if key (xs ! best) < key (xs ! j) then j else best) i [i + 1..<length xs]"

definition swap_rows :: "nat \<Rightarrow> nat \<Rightarrow> 'a list \<Rightarrow> 'a list" where
  "swap_rows i j xs = xs[i := xs ! j, j := xs ! i]"

definition selection_step :: "('a \<Rightarrow> 'k::linorder) \<Rightarrow> 'a list \<Rightarrow> nat \<Rightarrow> 'a list" where
  "selection_step key xs i =
     (let best = best_index key xs i in if best \<noteq> i then swap_rows i best xs else xs)"

definition selection_sort :: "('a \<Rightarrow> 'k::linorder) \<Rightarrow> 'a list \<Rightarrow> 'a list" where
  "selection_sort key xs = foldl (selection_step key) xs [0..<length xs - 1]"

lemma best_of_fold:
  "(let b = foldl (\<lambda>best j. if key (xs ! best) < key (xs ! j) then j else best) i js in
      b \<in> insert i (set js) \<and> (\<forall>j \<in> insert i (set js). key (xs ! j) \<le> (key (xs ! b) :: 'k::linorder)))"
proof (induction js arbitrary: i)
  case Nil
  then show ?case by simp
next
  case (Cons j js)
  show ?case
    using Cons.IH [of "if key (xs ! i) < key (xs ! j) then j else i"]
    by (auto simp: Let_def split: if_splits)
qed

lemma best_index_range: "i < length xs \<Longrightarrow> i \<le> best_index key xs i \<and> best_index key xs i < length xs"
  using best_of_fold [of key xs i "[i + 1..<length xs]"] by (auto simp: best_index_def Let_def)

lemma best_index_best:
  "i < length xs \<Longrightarrow> i \<le> j \<Longrightarrow> j < length xs \<Longrightarrow> key (xs ! j) \<le> key (xs ! best_index key xs i)"
  using best_of_fold [of key xs i "[i + 1..<length xs]"]
  by (cases "j = i") (auto simp: best_index_def Let_def)

lemma length_swap_rows [simp]: "length (swap_rows i j xs) = length xs"
  by (simp add: swap_rows_def)

lemma mset_swap_rows [simp]: "i < length xs \<Longrightarrow> j < length xs \<Longrightarrow> mset (swap_rows i j xs) = mset xs"
  by (simp add: swap_rows_def mset_swap)

lemma length_selection_step [simp]: "length (selection_step key xs i) = length xs"
  by (simp add: selection_step_def Let_def)

lemma mset_selection_step: "i < length xs \<Longrightarrow> mset (selection_step key xs i) = mset xs"
  using best_index_range [of i xs key] by (simp add: selection_step_def Let_def)

text \<open>The first \<open>i\<close> rows are in order and no row behind them is better.\<close>

definition settled :: "('a \<Rightarrow> 'k::linorder) \<Rightarrow> nat \<Rightarrow> 'a list \<Rightarrow> bool" where
  "settled key i xs \<longleftrightarrow> (\<forall>a b. a < i \<longrightarrow> a < b \<longrightarrow> b < length xs \<longrightarrow> key (xs ! b) \<le> key (xs ! a))"

lemma settled_step:
  assumes "settled key i xs" and i: "i < length xs"
  shows "settled key (Suc i) (selection_step key xs i)"
proof -
  let ?m = "best_index key xs i"
  let ?ys = "swap_rows i ?m xs"
  have m: "i \<le> ?m" "?m < length xs"
    using best_index_range [OF i, of key] by simp_all
  have step: "selection_step key xs i = ?ys"
    by (simp add: selection_step_def Let_def swap_rows_def)
  have at_i: "?ys ! i = xs ! ?m"
    using i m by (simp add: swap_rows_def nth_list_update)
  have front: "a < i \<Longrightarrow> ?ys ! a = xs ! a" for a
    using m by (simp add: swap_rows_def)
  have tail_row: "\<exists>c. i \<le> c \<and> c < length xs \<and> ?ys ! b = xs ! c" if "i \<le> b" "b < length xs" for b
    using that i m by (cases "b = ?m"; cases "b = i") (auto simp: swap_rows_def nth_list_update)
  have "key (?ys ! b) \<le> key (?ys ! a)" if ab: "a < Suc i" "a < b" "b < length xs" for a b
  proof (cases "a = i")
    case True
    then show ?thesis
      using tail_row [of b] ab at_i best_index_best [OF i, of _ key] by fastforce
  next
    case False
    then have a: "a < i" using ab by simp
    have "\<exists>c. a < c \<and> c < length xs \<and> ?ys ! b = xs ! c"
    proof (cases "b < i")
      case True
      then show ?thesis using front [of b] ab by blast
    next
      case False
      then obtain c where "i \<le> c" "c < length xs" "?ys ! b = xs ! c"
        using tail_row [of b] ab by auto
      then show ?thesis using a by (intro exI [of _ c]) simp
    qed
    then obtain c where "a < c" "c < length xs" "?ys ! b = xs ! c" by blast
    then show ?thesis
      using assms(1) a front [OF a] by (simp add: settled_def)
  qed
  then show ?thesis by (simp add: settled_def step)
qed

lemma selection_fold:
  "k \<le> length xs \<Longrightarrow>
     (let ys = foldl (selection_step key) xs [0..<k] in
        length ys = length xs \<and> mset ys = mset xs \<and> settled key k ys)"
proof (induction k)
  case 0
  then show ?case by (simp add: settled_def)
next
  case (Suc k)
  then show ?case
    using settled_step [of key k "foldl (selection_step key) xs [0..<k]"]
      mset_selection_step [of k "foldl (selection_step key) xs [0..<k]" key]
    by (simp add: Let_def)
qed

lemma mset_selection_sort [simp]: "mset (selection_sort key xs) = mset xs"
  using selection_fold [of "length xs - 1" xs key] by (simp add: selection_sort_def Let_def)

lemma length_selection_sort [simp]: "length (selection_sort key xs) = length xs"
  by (rule mset_eq_length) simp

lemma set_selection_sort [simp]: "set (selection_sort key xs) = set xs"
  by (rule mset_eq_setD) simp

lemma selection_sort_sorted: "sorted (rev (map key (selection_sort key xs)))"
proof -
  let ?ys = "selection_sort key xs"
  have "settled key (length xs - 1) ?ys"
    using selection_fold [of "length xs - 1" xs key] by (simp add: selection_sort_def Let_def)
  then have "a < b \<Longrightarrow> b < length ?ys \<Longrightarrow> key (?ys ! b) \<le> key (?ys ! a)" for a b
    by (simp add: settled_def)
  then show ?thesis
    by (auto simp: sorted_rev_iff_nth_mono le_eq_less_or_eq)
qed

end
