(* ===== verification/Rerank.thy ===== *)
theory Rerank
  imports Ranking Selection "HOL-Library.Word"
begin

unbundle bit_operations_syntax

text \<open>
  The ranking of a candidate list, \<open>memory_rerank_matches\<close> of \<open>memory_core_search_b.c\<close>: cluster,
  source and phrase bonuses, reciprocal-rank fusion, the contradiction and negation adjustments
  and the sort; and the scope filter behind it.

  \<open>is_contradiction\<close>, \<open>memory_query_polarity\<close> and \<open>extract_negation_tokens\<close> are outside \<open>src/\<close> and
  are the record \<open>text_tests\<close>; a \<open>double\<close> is a real.  The arrays of scores, matches and parts are
  one list of tuples from the sort on; \<open>parts\<close> and \<open>hybrid_total\<close> are local to the code and end
  with the call.
\<close>

subsection \<open>Cluster bonuses\<close>

text \<open>The rows of the session of row \<open>idx\<close>, itself apart.\<close>

definition session_mates :: "memory_t list \<Rightarrow> nat \<Rightarrow> memory_t list" where
  "session_mates ms idx =
     map (nth ms) (filter (\<lambda>i. i \<noteq> idx \<and> m_source_session (ms ! i) = m_source_session (ms ! idx)) [0..<length ms])"

definition memory_session_cluster_bonus :: "rank_context \<Rightarrow> memory_t list \<Rightarrow> nat \<Rightarrow> real" where
  "memory_session_cluster_bonus rc ms idx =
     (if length ms \<le> 1 \<or> length ms \<le> idx \<or> m_source_session (ms ! idx) = [] then 0
      else let mates = session_mates ms idx;
               same = length mates; kind = m_kind (ms ! idx)
           in (if 0 < same then real (if 3 < same then 3 else same) * (12 / 100) else 0) +
              (if list_ex (\<lambda>m. m_kind m \<noteq> kind) mates then 8 / 100 else 0) +
              (if list_ex (\<lambda>m. m_kind m = kind_episode rc) mates then 10 / 100 else 0) +
              (if kind = kind_episode rc \<and> 0 < same then 5 / 100 else 0))"

definition scene_step ::
    "(int \<Rightarrow> int \<Rightarrow> bool) \<Rightarrow> nat \<times> real \<Rightarrow> int \<times> int \<times> real \<Rightarrow> nat \<times> real" where
  "scene_step member st mss =
     (case mss of (mid, scene, strength) \<Rightarrow>
        if 3 \<le> fst st \<or> \<not> member mid scene then st
        else (fst st + 1, if snd st < strength then strength else snd st))"

definition memory_scene_cluster_bonus :: "rank_context \<Rightarrow> memory_t list \<Rightarrow> nat \<Rightarrow> real" where
  "memory_scene_cluster_bonus rc ms idx =
     (if length ms \<le> 1 \<or> length ms \<le> idx \<or> \<not> memory_scenes_enabled (rc_config rc) then 0
      else let memberships = take 16 (st_scenes (rc_store rc) (m_id (ms ! idx)));
               others = filter (\<lambda>i. i \<noteq> idx) [0..<length ms];
               (co_members, best) = foldl (scene_step (st_scene_member (rc_store rc))) (0, 0)
                 (concat (map (\<lambda>i. map (Pair (m_id (ms ! i))) memberships) others))
           in if memberships = [] then 0 else real co_members * (10 / 100) + best * (5 / 100))"

subsection \<open>Candidate sources\<close>

type_synonym source_mask = "32 word"

abbreviation (input) SOURCE_LEXICAL :: source_mask where "SOURCE_LEXICAL \<equiv> 1"
abbreviation (input) SOURCE_EVENT :: source_mask where "SOURCE_EVENT \<equiv> 16"
abbreviation (input) SOURCE_TEMPORAL :: source_mask where "SOURCE_TEMPORAL \<equiv> 128"
abbreviation (input) SOURCE_SEMANTIC :: source_mask where "SOURCE_SEMANTIC \<equiv> 256"
abbreviation (input) SOURCE_GRAPH :: source_mask where "SOURCE_GRAPH \<equiv> 2048"

text \<open>The entries are an id and its mask.\<close>

fun note_source :: "nat \<Rightarrow> source_mask \<Rightarrow> (int \<times> source_mask) list \<Rightarrow> int \<Rightarrow> (int \<times> source_mask) list" where
  "note_source room bits [] i = (if room = 0 then [] else [(i, bits)])"
| "note_source room bits ((j, k) # stats) i =
     (if j = i then (j, k OR bits) # stats else (j, k) # note_source (room - 1) bits stats i)"

definition memory_note_candidate_sources ::
    "nat \<Rightarrow> memory_t list \<Rightarrow> int \<Rightarrow> int \<Rightarrow> source_mask \<Rightarrow> (int \<times> source_mask) list \<Rightarrow> (int \<times> source_mask) list" where
  "memory_note_candidate_sources stats_max ms start until bits stats =
     (if bits = 0 then stats
      else let start' = (if start < 0 then 0 else start)
           in if until < start' then stats
              else foldl (note_source stats_max bits) stats
                     (map m_id (drop (nat start') (take (nat until) ms))))"

definition mask_sources :: "source_mask \<Rightarrow> nat" where
  "mask_sources bits = length (filter (bit bits) [0..<32])"

definition memory_source_fusion_bonus :: "(int \<times> source_mask) list \<Rightarrow> int \<Rightarrow> real" where
  "memory_source_fusion_bonus stats memory_id =
     (case map_of stats memory_id of None \<Rightarrow> 0
      | Some bits \<Rightarrow>
          (if 1 < mask_sources bits then real (mask_sources bits - 1) * (10 / 100) else 0) +
          (if bits AND SOURCE_SEMANTIC \<noteq> 0 \<and> bits AND SOURCE_LEXICAL \<noteq> 0 then 18 / 100 else 0) +
          (if bits AND SOURCE_GRAPH \<noteq> 0 then 14 / 100 else 0) +
          (if bits AND SOURCE_EVENT \<noteq> 0 \<or> bits AND SOURCE_TEMPORAL \<noteq> 0 then 8 / 100 else 0))"

subsection \<open>Phrases and reciprocal ranks\<close>

definition memory_phrase_bonus :: "rank_context \<Rightarrow> cptr \<Rightarrow> cptr \<Rightarrow> ranker_input option \<Rightarrow> real" where
  "memory_phrase_bonus rc raw_query norm_query m =
     (case m of None \<Rightarrow> 0
      | Some m \<Rightarrow>
          (if nonempty norm_query
           then (if contains (rc_norm rc (ri_key m) 512) (cptr_str norm_query) then 115 / 100 else 0) +
                (if contains (rc_norm rc (ri_content m) 2048) (cptr_str norm_query) then 95 / 100 else 0)
           else 0) +
          (if nonempty raw_query \<and> contains (ri_content m) (cptr_str raw_query) then 35 / 100 else 0))"

text \<open>0: not ranked.\<close>

definition memory_rank_position :: "real list \<Rightarrow> nat \<Rightarrow> real \<Rightarrow> nat" where
  "memory_rank_position xs idx min_value =
     (if length xs \<le> idx \<or> xs ! idx < min_value then 0
      else 1 + length (filter (\<lambda>i. i \<noteq> idx \<and> \<not> xs ! i < min_value \<and> xs ! idx + 1 / 10 ^ 9 < xs ! i)
             [0..<length xs]))"

definition rank_share :: "real list \<Rightarrow> nat \<Rightarrow> real \<Rightarrow> real" where
  "rank_share xs idx min_value =
     (let rank = memory_rank_position xs idx min_value in if 0 < rank then 1 / (20 + real rank) else 0)"

definition memory_rrf_bonus :: "rank_parts list \<Rightarrow> real list \<Rightarrow> real list \<Rightarrow> nat \<Rightarrow> real" where
  "memory_rrf_bonus parts phrase fusion idx =
     (if length parts \<le> idx then 0
      else let n = min (length parts) 128;
               signal = (\<lambda>f. map f [0..<n]);
               lexical = signal (\<lambda>i. sp_lexical (parts ! i) + sp_coverage (parts ! i) + phrase ! i)
           in (rank_share lexical idx (30 / 100) +
               rank_share (signal (\<lambda>i. sp_semantic (parts ! i))) idx (18 / 100) +
               rank_share (signal (\<lambda>i. sp_entity (parts ! i))) idx (12 / 100) +
               rank_share (signal (\<lambda>i. sp_temporal (parts ! i))) idx (12 / 100) +
               rank_share (signal (\<lambda>i. sp_evidence (parts ! i))) idx (12 / 100) +
               rank_share (signal (nth fusion)) idx (10 / 100)) * 3)"

subsection \<open>Adjustments\<close>

record text_tests =
  tt_contradiction :: "string \<Rightarrow> string \<Rightarrow> bool"
  tt_negative :: "string \<Rightarrow> bool"
  tt_neg_tokens :: "string \<Rightarrow> nat \<Rightarrow> int \<times> string"

text \<open>\<open>strcmp\<close>, of which the code looks at the sign.\<close>

fun strcmp :: "string \<Rightarrow> string \<Rightarrow> int" where
  "strcmp [] [] = 0"
| "strcmp [] (d # ds) = -1"
| "strcmp (c # cs) [] = 1"
| "strcmp (c # cs) (d # ds) = (if c = d then strcmp cs ds else if code c < code d then -1 else 1)"

definition contradiction_step :: "text_tests \<Rightarrow> memory_t list \<Rightarrow> real list \<Rightarrow> nat \<times> nat \<Rightarrow> real list" where
  "contradiction_step tt ms scores ij =
     (case ij of (i, j) \<Rightarrow>
        let a = ms ! i; b = ms ! j; newer = strcmp (m_created_at a) (m_created_at b)
        in if m_content a = [] \<or> m_content b = [] \<or> \<not> tt_contradiction tt (m_content a) (m_content b) \<or>
              m_created_at a = [] \<or> m_created_at b = [] \<or> newer = 0 then scores
           else let newer_idx = (if 0 < newer then i else j);
                    older_idx = (if 0 < newer then j else i);
                    shift = 18 / 100 + \<bar>scores ! newer_idx - scores ! older_idx\<bar> * (22 / 100);
                    s1 = scores[newer_idx := scores ! newer_idx + shift]
                in s1[older_idx := s1 ! older_idx - shift])"

definition index_pairs :: "nat \<Rightarrow> (nat \<times> nat) list" where
  "index_pairs n = concat (map (\<lambda>i. map (Pair i) [i + 1..<n]) [0..<n])"

definition contradiction_adjust :: "text_tests \<Rightarrow> memory_t list \<Rightarrow> real list \<Rightarrow> real list" where
  "contradiction_adjust tt ms scores =
     foldl (contradiction_step tt ms) scores (index_pairs (min (length scores) 16))"

definition neg_token_overlap :: "cptr \<Rightarrow> cptr \<Rightarrow> nat" where
  "neg_token_overlap a b =
     (if \<not> nonempty a \<or> \<not> nonempty b then 0
      else length (filter (\<lambda>t. token_loop (cptr_str b) t 0)
             (split_words (\<lambda>c. c = CHR '' '') (cbuf 1024 (cptr_str a)))))"

definition negation_boost :: "text_tests \<Rightarrow> int \<Rightarrow> string \<Rightarrow> memory_t \<Rightarrow> real" where
  "negation_boost tt qn qneg m =
     (if m_content m = [] then 0
      else let (cn, cneg) = tt_neg_tokens tt (cbuf 3072 (m_key m @ '' '' @ m_content m)) 2048;
               shared = neg_token_overlap (Some qneg) (Some cneg);
               frac0 = real shared / of_int qn;
               frac = (if 1 < frac0 then 1 else frac0);
               boost = 3 * real shared * (5 / 10 + 5 / 10 * frac)
           in if cn \<le> 0 \<or> shared = 0 then 0 else if 10 < boost then 10 else boost)"

definition negation_adjust :: "rank_context \<Rightarrow> text_tests \<Rightarrow> string \<Rightarrow> memory_t list \<Rightarrow> real list \<Rightarrow> real list" where
  "negation_adjust rc tt raw_query ms scores =
     (if \<not> memory_negation_enabled (rc_config rc) \<or> \<not> tt_negative tt raw_query then scores
      else let (qn, qneg) = tt_neg_tokens tt raw_query 1024
           in if qn \<le> 0 \<or> qneg = [] then scores
              else map (\<lambda>i. if i < min (length scores) 32
                            then scores ! i + negation_boost tt qn qneg (ms ! i) else scores ! i)
                     [0..<length scores])"

subsection \<open>The pipeline\<close>

text \<open>A candidate: its score before the phrase bonus, its parts and its source bonus.\<close>

definition base_score ::
    "rank_context \<Rightarrow> string \<Rightarrow> string \<Rightarrow> (int \<times> real) list \<Rightarrow> (int \<times> source_mask) list \<Rightarrow> (int \<times> real) list
     \<Rightarrow> memory_t list \<Rightarrow> nat \<Rightarrow> real \<times> rank_parts \<times> real" where
  "base_score rc raw norm' hits stats pagerank ms i =
     (let p = memory_compute_score_parts rc (Some raw) norm' (memory_ranker_input_from rc (Some (ms ! i))) hits pagerank;
          s = sp_total p;
          f0 = memory_source_fusion_bonus stats (m_id (ms ! i));
          fusion = (if s < 35 / 10 then f0 * (15 / 100) else if s < 55 / 10 then f0 * (45 / 100) else f0)
      in (s + fusion + memory_session_cluster_bonus rc ms i + memory_scene_cluster_bonus rc ms i, p, fusion))"

definition hybrid_scores ::
    "rank_context \<Rightarrow> string \<Rightarrow> string \<Rightarrow> (int \<times> real) list \<Rightarrow> (int \<times> source_mask) list \<Rightarrow> (int \<times> real) list
     \<Rightarrow> memory_t list \<Rightarrow> real list" where
  "hybrid_scores rc raw norm' hits stats pagerank ms =
     (let n = length ms;
          base = map (base_score rc raw norm' hits stats pagerank ms) [0..<n];
          parts = map (fst \<circ> snd) base;
          fusion = map (snd \<circ> snd) base;
          phrase = map (\<lambda>i. if memory_rerank_is_slow (rc_config rc) (rc_env rc) \<and> i < min n 16
                            then memory_phrase_bonus rc (Some raw) (Some norm')
                                   (Some (memory_ranker_input_from rc (Some (ms ! i)))) else 0) [0..<n]
      in map (\<lambda>i. let s = fst (base ! i) + phrase ! i;
                      rrf = memory_rrf_bonus parts phrase fusion i
                  in s + (if s < 35 / 10 then rrf * (35 / 100) else rrf)) [0..<n])"

definition final_scores ::
    "rank_context \<Rightarrow> text_tests \<Rightarrow> string \<Rightarrow> memory_t list \<Rightarrow> real list \<Rightarrow> real list" where
  "final_scores rc tt raw ms scores = negation_adjust rc tt raw ms (contradiction_adjust tt ms scores)"

definition set_ranks :: "memory_t list \<Rightarrow> memory_t list" where
  "set_ranks ms =
     map (\<lambda>m. m\<lparr>m_hybrid_rank :=
       1 + int (length (filter (\<lambda>m'. m_retrieval_score m < m_retrieval_score m') ms))\<rparr>) ms"

definition rerank_rows ::
    "rank_context \<Rightarrow> text_tests \<Rightarrow> string \<Rightarrow> string \<Rightarrow> (int \<times> real) list \<Rightarrow> (int \<times> source_mask) list
     \<Rightarrow> (int \<times> real) list \<Rightarrow> memory_t list \<Rightarrow> memory_t list" where
  "rerank_rows rc tt raw norm' hits stats pagerank ms =
     (let scores = hybrid_scores rc raw norm' hits stats pagerank ms;
          scored = map2 (\<lambda>m s. m\<lparr>m_retrieval_score := s, m_hybrid_rank := 0\<rparr>) ms scores
      in set_ranks (map snd (selection_sort fst (zip (final_scores rc tt raw ms scores) scored))))"

text \<open>The candidates that are ranked: at most 128, with the linked neighbours when enabled.\<close>

definition rerank_pool :: "rank_context \<Rightarrow> pagerank_config \<Rightarrow> memory_t list \<Rightarrow> memory_t list" where
  "rerank_pool rc cfg ms =
     (if pc_enabled cfg \<noteq> 0
      then memory_append_linked_neighbors m_id (st_get (rc_store rc)) (st_links (rc_store rc)) (take 128 ms) 128
             (Some (pc_relations cfg))
      else take 128 ms)"

text \<open>The returned count, the array afterwards and the link-rank statistics.\<close>

definition memory_rerank_matches ::
    "rank_context \<Rightarrow> text_tests \<Rightarrow> real \<Rightarrow> pagerank_stats \<Rightarrow> cptr \<Rightarrow> memory_t list \<Rightarrow> int
     \<Rightarrow> (int \<times> real) list \<Rightarrow> (int \<times> source_mask) list \<Rightarrow> int \<times> memory_t list \<times> pagerank_stats" where
  "memory_rerank_matches rc tt elapsed_ms st raw_query ms limit hits stats =
     (case raw_query of None \<Rightarrow> (min (int (length ms)) limit, ms, st)
      | Some raw \<Rightarrow>
          if length ms \<le> 1 then (min (int (length ms)) limit, ms, st)
          else let norm0 = rc_norm rc raw 512;
                   norm' = (if norm0 = [] then cbuf 512 raw else norm0);
                   cfg = memory_load_pagerank_config (rc_config rc) (rc_env rc);
                   pool = rerank_pool rc cfg ms;
                   (pagerank, st') = memory_compute_pagerank_scores (st_links (rc_store rc)) elapsed_ms st
                     (map m_id pool) cfg 128;
                   ranked = rerank_rows rc tt raw norm' hits stats pagerank pool
               in (min (int (length ranked)) limit, ranked @ drop (length ranked) ms, st'))"

subsection \<open>Scope\<close>

definition memory_scope_matches ::
    "(int \<Rightarrow> string \<Rightarrow> string \<Rightarrow> bool) \<Rightarrow> (int \<Rightarrow> string \<Rightarrow> bool) \<Rightarrow> int \<Rightarrow> cptr \<Rightarrow> cptr \<Rightarrow> bool" where
  "memory_scope_matches scope_matches workspace_matches memory_id scope_type scope_value \<longleftrightarrow>
     \<not> nonempty scope_type \<or> \<not> nonempty scope_value \<or>
     scope_matches memory_id (cptr_str scope_type) (cptr_str scope_value) \<or>
     cptr_str scope_type = ''workspace'' \<and> workspace_matches memory_id (cptr_str scope_value)"

definition memory_filter_scope ::
    "(int \<Rightarrow> string \<Rightarrow> string \<Rightarrow> bool) \<Rightarrow> (int \<Rightarrow> string \<Rightarrow> bool) \<Rightarrow> memory_t list \<Rightarrow> cptr \<Rightarrow> cptr \<Rightarrow> memory_t list" where
  "memory_filter_scope scope_matches workspace_matches ms scope_type scope_value =
     (if \<not> nonempty scope_type \<or> \<not> nonempty scope_value then ms
      else filter (\<lambda>m. memory_scope_matches scope_matches workspace_matches (m_id m) scope_type scope_value) ms)"

end
