(* ===== verification/Rank_Properties.thy ===== *)
theory Rank_Properties
  imports Rerank
begin

text \<open>Properties of the link rank and of the ranking of candidates.\<close>

lemma map_of_permutation: "mset ys = mset (map f xs) \<Longrightarrow> \<exists>ps. mset ps = mset xs \<and> ys = map f ps"
proof (induction ys arbitrary: xs)
  case Nil
  then show ?case by simp
next
  case (Cons y ys)
  then have "y \<in> set (map f xs)"
    by (metis list.set_intros(1) mset_eq_setD)
  then obtain x where x: "x \<in> set xs" "f x = y" by auto
  have "mset xs = add_mset x (mset (remove1 x xs))"
    using x(1) by simp
  then obtain xs' where xs: "mset xs = add_mset x (mset xs')"
    by blast
  have "add_mset y (mset ys) = image_mset f (mset xs)"
    using Cons.prems by simp
  then have "mset ys = mset (map f xs')"
    using x(2) by (simp add: xs)
  from Cons.IH [OF this] obtain ps where ps: "mset ps = mset xs'" "ys = map f ps"
    by blast
  have "mset (x # ps) = mset xs"
    by (simp only: mset.simps ps(1) xs)
  moreover have "y # ys = map f (x # ps)"
    by (simp only: list.map ps(2) x(2))
  ultimately show ?case
    by (intro exI [of _ "x # ps"] conjI)
qed

lemma length_contradiction_step [simp]: "length (contradiction_step tt ms scores ij) = length scores"
  by (cases ij) (simp add: contradiction_step_def Let_def)

lemma sum_list_put: "i < length xs \<Longrightarrow> sum_list (xs[i := v]) = sum_list xs + v - xs ! i" for v :: real
  by (induction xs arbitrary: i) (auto simp: nth_Cons split: nat.splits)

lemma sum_list_shift:
  assumes "i < length xs" and "j < length xs" and "i \<noteq> j"
  shows "sum_list (xs[i := xs ! i + d, j := xs[i := xs ! i + d] ! j - d]) = sum_list (xs :: real list)"
  using assms by (simp add: sum_list_put)

lemma contradiction_step_sum:
  assumes "i < j" and "j < length scores"
  shows "sum_list (contradiction_step tt ms scores (i, j)) = sum_list scores"
proof -
  let ?newer = "strcmp (m_created_at (ms ! i)) (m_created_at (ms ! j))"
  have i: "i < length scores" "i \<noteq> j" "j \<noteq> i" using assms by simp_all
  show ?thesis
  proof (cases "contradiction_step tt ms scores (i, j) = scores")
    case False
    then have "?newer \<noteq> 0" by (auto simp: contradiction_step_def Let_def)
    then show ?thesis
      using False sum_list_shift [OF i(1) assms(2) i(2)] sum_list_shift [OF assms(2) i(1) i(3)]
      by (cases "0 < ?newer") (simp_all only: contradiction_step_def Let_def prod.case if_True if_False simp_thms split: if_splits)
  qed simp
qed

lemma contradiction_adjust_sum:
  "sum_list (contradiction_adjust tt ms scores) = sum_list scores \<and>
   length (contradiction_adjust tt ms scores) = length scores"
proof -
  have "(\<forall>(i, j) \<in> set ps. i < j \<and> j < length xs) \<Longrightarrow>
      sum_list (foldl (contradiction_step tt ms) xs ps) = sum_list xs \<and>
      length (foldl (contradiction_step tt ms) xs ps) = length xs" for ps xs
  proof (induction ps arbitrary: xs)
    case (Cons p ps)
    obtain i j where p: "p = (i, j)" by (cases p)
    then have "sum_list (contradiction_step tt ms xs p) = sum_list xs"
      using Cons.prems contradiction_step_sum [of i j xs tt ms] by simp
    then show ?case
      using Cons.IH [of "contradiction_step tt ms xs p"] Cons.prems by simp
  qed simp
  moreover have "\<forall>(i, j) \<in> set (index_pairs (min (length scores) 16)). i < j \<and> j < length scores"
    by (auto simp: index_pairs_def)
  ultimately show ?thesis
    by (simp add: contradiction_adjust_def)
qed

lemma length_final_scores [simp]: "length (final_scores rc tt raw ms scores) = length scores"
  using contradiction_adjust_sum [of tt ms scores]
  by (simp add: final_scores_def negation_adjust_def Let_def split: prod.split)

lemma length_hybrid_scores [simp]: "length (hybrid_scores rc raw n hits stats pr ms) = length ms"
  by (simp add: hybrid_scores_def Let_def)

text \<open>A row without the two fields the ranking writes.\<close>

definition unranked :: "memory_t \<Rightarrow> memory_t" where
  "unranked m = m\<lparr>m_retrieval_score := 0, m_hybrid_rank := 0\<rparr>"

text \<open>
  \<open>out\<close> is the pool in another order: best final score first, each row with its hybrid score and
  with one more than the number of rows of a higher one as its rank.
\<close>

definition ranked_by :: "real list \<Rightarrow> real list \<Rightarrow> memory_t list \<Rightarrow> memory_t list \<Rightarrow> bool" where
  "ranked_by final hybrid pool out \<longleftrightarrow>
     (\<exists>order. mset order = mset [0..<length pool] \<and>
        sorted (rev (map (nth final) order)) \<and>
        out = map (\<lambda>i. (pool ! i)\<lparr>m_retrieval_score := hybrid ! i,
                m_hybrid_rank := 1 + int (length (filter (\<lambda>j. hybrid ! i < hybrid ! j) order))\<rparr>) order)"

lemma selection_by_index:
  assumes "length final = length xs"
  shows "\<exists>order. mset order = mset [0..<length xs] \<and> sorted (rev (map (nth final) order)) \<and>
     map snd (selection_sort fst (zip final xs)) = map (nth xs) order"
proof -
  let ?rows = "selection_sort fst (zip final xs)"
  have "zip final xs = map (\<lambda>i. (final ! i, xs ! i)) [0..<length xs]"
    using assms by (auto intro: nth_equalityI)
  then have "mset ?rows = mset (map (\<lambda>i. (final ! i, xs ! i)) [0..<length xs])"
    by (simp only: mset_selection_sort)
  from map_of_permutation [OF this] obtain order
    where order: "mset order = mset [0..<length xs]" "?rows = map (\<lambda>i. (final ! i, xs ! i)) order"
    by blast
  have "sorted (rev (map fst ?rows))"
    by (rule selection_sort_sorted)
  then show ?thesis
    using order by (intro exI [of _ order]) (simp add: comp_def rev_map)
qed

lemma rerank_rows_ranked:
  "ranked_by (final_scores rc tt raw ms (hybrid_scores rc raw n hits stats pr ms))
     (hybrid_scores rc raw n hits stats pr ms) ms (rerank_rows rc tt raw n hits stats pr ms)"
proof -
  let ?h = "hybrid_scores rc raw n hits stats pr ms"
  let ?scored = "map2 (\<lambda>m s. m\<lparr>m_retrieval_score := s, m_hybrid_rank := 0\<rparr>) ms ?h"
  let ?f = "final_scores rc tt raw ms ?h"
  have "length ?f = length ?scored" by simp
  from selection_by_index [OF this] obtain order
    where order: "mset order = mset [0..<length ms]" "sorted (rev (map (nth ?f) order))"
      "map snd (selection_sort fst (zip ?f ?scored)) = map (nth ?scored) order"
    by auto
  have "set order = {0..<length ms}"
    using mset_eq_setD [OF order(1)] by simp
  then have scored: "map (nth ?scored) order =
      map (\<lambda>i. (ms ! i)\<lparr>m_retrieval_score := ?h ! i, m_hybrid_rank := 0\<rparr>) order"
    by simp
  have "rerank_rows rc tt raw n hits stats pr ms = set_ranks (map (nth ?scored) order)"
    by (simp only: rerank_rows_def Let_def order(3))
  also have "\<dots> = map (\<lambda>i. (ms ! i)\<lparr>m_retrieval_score := ?h ! i,
      m_hybrid_rank := 1 + int (length (filter (\<lambda>j. ?h ! i < ?h ! j) order))\<rparr>) order"
    unfolding scored by (simp add: set_ranks_def filter_map comp_def)
  finally show ?thesis
    unfolding ranked_by_def using order(1,2) by blast
qed

lemma ranked_by_length: "ranked_by final hybrid pool out \<Longrightarrow> length out = length pool"
  using mset_eq_length [of _ "[0..<length pool]"] by (auto simp: ranked_by_def simp del: mset_upt)

lemma length_rerank_rows: "length (rerank_rows rc tt raw n hits stats pr ms) = length ms"
  by (rule ranked_by_length [OF rerank_rows_ranked])

subsection \<open>The link rank and its formula\<close>

text \<open>
  The links the store returns for candidate \<open>i\<close> that lead to candidate \<open>j\<close> by an allowed
  relation, the weight of the undirected edge between two candidates (every link counts, from
  whichever end the store returns it), and the share of its rank a candidate passes to
  another: in proportion to the weights, or, when it has no edge, the same to every candidate.
\<close>

definition joins :: "int list \<Rightarrow> (int \<Rightarrow> memory_link list) \<Rightarrow> string \<Rightarrow> nat \<Rightarrow> nat \<Rightarrow> memory_link \<Rightarrow> bool" where
  "joins ids links relations i j l \<longleftrightarrow>
     memory_find_index_by_id ids (other_end (ids ! i) l) = Some j \<and>
     memory_relation_allowed (Some relations) (Some (ml_relation l))"

definition link_weight :: "int list \<Rightarrow> (int \<Rightarrow> memory_link list) \<Rightarrow> string \<Rightarrow> nat \<Rightarrow> nat \<Rightarrow> real" where
  "link_weight ids links relations i j =
     (if i = j then 0
      else real (length (filter (joins ids links relations i j) (take 64 (links (ids ! i)))) +
                 length (filter (joins ids links relations j i) (take 64 (links (ids ! j))))))"

definition passed_share :: "(nat \<Rightarrow> nat \<Rightarrow> real) \<Rightarrow> nat \<Rightarrow> nat \<Rightarrow> nat \<Rightarrow> real" where
  "passed_share w n i j = (if (\<Sum>m<n. w i m) = 0 then 1 / real n else w i j / (\<Sum>m<n. w i m))"

fun link_rank :: "(nat \<Rightarrow> nat \<Rightarrow> real) \<Rightarrow> nat \<Rightarrow> nat \<Rightarrow> nat \<Rightarrow> real" where
  "link_rank w n 0 j = 1 / real n"
| "link_rank w n (Suc k) j =
     (1 - 85 / 100) / real n + 85 / 100 * (\<Sum>i<n. link_rank w n k i * passed_share w n i j)"

lemma link_edges_count:
  "fst (foldl (link_edge ids relations i) st ls) a b =
     fst st a b + (if a = b then 0
       else (if a = i then real (length (filter (joins ids links relations i b) ls)) else 0) +
            (if b = i then real (length (filter (joins ids links relations i a) ls)) else 0))"
proof (induction ls arbitrary: st)
  case (Cons l ls)
  have "fst (link_edge ids relations i st l) a b =
      fst st a b + (if a = b then 0
        else (if a = i then (if joins ids links relations i b l then 1 else 0) else 0) +
             (if b = i then (if joins ids links relations i a l then 1 else 0) else 0))"
    by (auto simp: link_edge_def joins_def bump_def split: option.split)
  then show ?case
    using Cons.IH [of "link_edge ids relations i st l"] by auto
qed simp

lemma adjacency_fold_count:
  "distinct is \<Longrightarrow>
   fst (foldl (\<lambda>st i. foldl (link_edge ids relations i) st (take 64 (links (ids ! i)))) st is) a b =
     fst st a b + (if a = b then 0
       else (if a \<in> set is then real (length (filter (joins ids links relations a b) (take 64 (links (ids ! a))))) else 0) +
            (if b \<in> set is then real (length (filter (joins ids links relations b a) (take 64 (links (ids ! b))))) else 0))"
proof (induction "is" arbitrary: st)
  case (Cons i "is")
  then show ?case
    by (auto simp: link_edges_count [where links = links])
qed simp

lemma adjacency_is_link_weight:
  assumes "a < length ids" "b < length ids"
  shows "fst (adjacency_of links ids relations) a b = link_weight ids links relations a b"
  using adjacency_fold_count [of "[0..<length ids]", where st = "(\<lambda>i j. 0, 0)" and ids = ids and
      relations = relations and links = links and a = a and b = b] assms
  by (simp add: adjacency_of_def link_weight_def)

lemma spread_nth:
  assumes "\<And>m. 0 \<le> adj i m" "length scores = n" "j < n" "\<And>m. m < n \<Longrightarrow> adj i m = w i m"
  shows "spread adj scores nxt i ! j = nxt ! j + damping * (scores ! i * passed_share w n i j)"
proof -
  have out: "sum_list (map (adj i) [0..<n]) = (\<Sum>m<n. w i m)"
    using assms(4) by (simp add: sum_map_upt atLeast0LessThan)
  have pos: "0 \<le> (\<Sum>m<n. w i m)"
    using assms(1,4) by (intro sum_nonneg) (metis lessThan_iff)
  have w: "0 \<le> w i j"
    using assms(1,3,4) by metis
  show ?thesis
    unfolding spread_def Let_def assms(2) out
    using assms(3,4) pos w by (auto simp: passed_share_def)
qed

lemma spreads_nth:
  assumes "\<And>i m. 0 \<le> adj i m" "length scores = n" "\<And>i m. i < n \<Longrightarrow> m < n \<Longrightarrow> adj i m = w i m"
    and "j < n" "length nxt = n" "k \<le> n"
  shows "length (foldl (spread adj scores) nxt [0..<k]) = n \<and>
    foldl (spread adj scores) nxt [0..<k] ! j = nxt ! j + damping * (\<Sum>i<k. scores ! i * passed_share w n i j)"
  using assms(6)
proof (induction k)
  case (Suc k)
  have step: "spread adj scores r k ! j = r ! j + damping * (scores ! k * passed_share w n k j)" for r
    using Suc.prems by (intro spread_nth assms) simp_all
  show ?case
    using Suc assms(2) by (simp add: step algebra_simps)
qed (use assms in simp)

lemma rank_scores_formula:
  assumes "\<And>i m. 0 \<le> adj i m" "\<And>i m. i < n \<Longrightarrow> m < n \<Longrightarrow> adj i m = w i m"
  shows "length (rank_scores adj n k) = n \<and> (\<forall>j<n. rank_scores adj n k ! j = link_rank w n k j)"
proof (induction k)
  case 0
  then show ?case by (simp add: rank_scores_def)
next
  case (Suc k)
  let ?p = "rank_scores adj n k"
  have round: "rank_scores adj n (Suc k) = rank_round adj ?p" by (simp add: rank_scores_def)
  have len: "length ?p = n" using Suc by simp
  have "length (rank_round adj ?p) = n"
    using spreads_nth [OF assms(1) len assms(2), where j = 0 and k = n and
        nxt = "replicate n ((1 - damping) / real n)"] len
    by (cases "n = 0") (simp_all add: rank_round_def Let_def)
  moreover have "rank_round adj ?p ! j = link_rank w n (Suc k) j" if "j < n" for j
    using spreads_nth [OF assms(1) len assms(2) that, where k = n and
        nxt = "replicate n ((1 - damping) / real n)"] len that Suc
    by (simp add: rank_round_def Let_def damping_def)
  ultimately show ?case by (simp add: round)
qed

text \<open>
  C39. The link rank, when it is enabled and has room, scores every candidate in order by the
  link rank of the formula: from an equal start, in each of the configured rounds a candidate
  gets 0.15 of an equal share and 0.85 of what the candidates pass to it, each in proportion to
  the weights of its links, a candidate without links to all alike.  The ranks are positive and
  add up to 1; the scores are the ranks divided by the largest and scaled, so each is positive
  and at most the configured weight, and some candidate has exactly that weight, whatever
  links the store returns, duplicate and dangling ones included.
\<close>

theorem pagerank_is_scaled_distribution:
  assumes "pagerank_active cfg (length ids) max_out"
  shows "let n = length ids;
      rank = link_rank (link_weight ids links (pc_relations cfg)) n (nat (pc_iterations cfg));
      out = fst (memory_compute_pagerank_scores links elapsed st ids cfg max_out) in
    out = map (\<lambda>j. (ids ! j, rank j / Max (rank ` {..<n}) * pc_weight cfg)) [0..<n] \<and>
    (\<forall>j<n. 0 < rank j) \<and> (\<Sum>j<n. rank j) = 1 \<and>
    (\<forall>(i, s) \<in> set out. 0 < s \<and> s \<le> pc_weight cfg) \<and> pc_weight cfg \<in> snd ` set out"
proof -
  let ?n = "length ids"
  let ?out = "fst (memory_compute_pagerank_scores links elapsed st ids cfg max_out)"
  let ?adj = "fst (adjacency_of links ids (pc_relations cfg))"
  let ?ps = "rank_scores ?adj ?n (nat (pc_iterations cfg))"
  let ?rank = "link_rank (link_weight ids links (pc_relations cfg)) ?n (nat (pc_iterations cfg))"
  have nonneg: "0 \<le> ?adj i j" for i j
    using adjacency_counts [of links ids "pc_relations cfg"] by (simp add: counts_def)
  have n: "0 < ?n" and w: "0 < pc_weight cfg"
    using assms unfolding pagerank_active_def by linarith+
  have ps: "distribution ?ps" "length ?ps = ?n"
    using rank_scores_distribution [OF nonneg n] by simp_all
  have "length ?ps = ?n \<and> (\<forall>j<?n. ?ps ! j = ?rank j)"
    by (rule rank_scores_formula [OF nonneg adjacency_is_link_weight])
  then have rank: "?ps = map ?rank [0..<?n]"
    by (intro nth_equalityI) simp_all
  have ranks: "set ?ps = ?rank ` {..<?n}"
    unfolding rank by auto
  have pos: "0 < ?rank j" if "j < ?n" for j
    using ps(1) that unfolding distribution_def ranks by blast
  have ne: "?rank ` {..<?n} \<noteq> {}" using n by auto
  have out: "?out = map (\<lambda>j. (ids ! j, ?rank j / Max (?rank ` {..<?n}) * pc_weight cfg)) [0..<?n]"
    unfolding pagerank_ranks [OF assms] Let_def ranks [symmetric]
    by (rule nth_equalityI) (simp_all add: rank)
  have top: "?rank j \<le> Max (?rank ` {..<?n})" if "j < ?n" for j
    using that by (intro Max_ge) auto
  have bounds: "0 < s \<and> s \<le> pc_weight cfg" if mem: "(i, s) \<in> set ?out" for i s
  proof -
    have "s \<in> (\<lambda>j. ?rank j / Max (?rank ` {..<?n}) * pc_weight cfg) ` {..<?n}"
      using mem unfolding out by auto
    then obtain j where j: "j < ?n" "s = ?rank j / Max (?rank ` {..<?n}) * pc_weight cfg"
      by blast
    have "0 < Max (?rank ` {..<?n})"
      using pos [OF j(1)] top [OF j(1)] by linarith
    then have "0 < ?rank j / Max (?rank ` {..<?n})" "?rank j / Max (?rank ` {..<?n}) \<le> 1"
      using pos [OF j(1)] top [OF j(1)] by simp_all
    then show ?thesis
      using w j(2) mult_right_mono [of "?rank j / Max (?rank ` {..<?n})" 1 "pc_weight cfg"]
        mult_pos_pos [of "?rank j / Max (?rank ` {..<?n})" "pc_weight cfg"] by simp
  qed
  obtain m where m: "m < ?n" "?rank m = Max (?rank ` {..<?n})"
    using Max_in [OF _ ne] by auto
  have "pc_weight cfg = ?rank m / Max (?rank ` {..<?n}) * pc_weight cfg"
    using pos [OF m(1)] m(2) by simp
  then have "(ids ! m, pc_weight cfg) \<in> set ?out"
    using m(1) unfolding out by auto
  then have attained: "pc_weight cfg \<in> snd ` set ?out" by force
  have "sum_list ?ps = 1" using ps(1) by (simp add: distribution_def)
  then have "(\<Sum>j<?n. ?rank j) = 1"
    unfolding rank by (simp add: sum_map_upt atLeast0LessThan)
  then show ?thesis
    unfolding Let_def using out pos bounds attained by blast
qed

definition three_links :: "int \<Rightarrow> memory_link list" where
  "three_links i = (if i = 1 then [\<lparr>ml_source = 1, ml_target = 2, ml_relation = ''fixes''\<rparr>] else [])"

definition two_rounds :: pagerank_config where
  "two_rounds = \<lparr>pc_enabled = 1, pc_iterations = 2, pc_weight = 35 / 100, pc_relations = ''fixes''\<rparr>"

theorem pagerank_is_scaled_distribution_witness:
  "map fst (fst (memory_compute_pagerank_scores three_links 0 \<lparr>ps_last_ms = 0, ps_avg_ms = 0, ps_max_ms = 0,
      ps_samples = 0, ps_last_candidates = 0, ps_last_edges = 0\<rparr> [1, 2, 3] two_rounds 128)) = [1, 2, 3]"
  using pagerank_is_scaled_distribution [of two_rounds "[1, 2, 3]" 128 three_links 0
      "\<lparr>ps_last_ms = 0, ps_avg_ms = 0, ps_max_ms = 0, ps_samples = 0, ps_last_candidates = 0, ps_last_edges = 0\<rparr>"]
  by (simp add: Let_def pagerank_active_def two_rounds_def map_nth [symmetric])

text \<open>
  C40. Reranking loses and repeats no candidate: the array afterwards is the ranked pool (at
  most 128 candidates, with their linked neighbours when the link rank is enabled) in another
  order, followed by the rows it did not look at; the best final score comes first, every row
  carries its score before the contradiction and negation adjustments and the rank of that
  score, the contradiction adjustment only moves score between rows, and the returned count is
  the smaller of the pool and the limit.
\<close>

theorem rerank_orders_the_pool:
  "let n = (if rc_norm rc raw 512 = [] then cbuf 512 raw else rc_norm rc raw 512);
       cfg = memory_load_pagerank_config (rc_config rc) (rc_env rc);
       pool = rerank_pool rc cfg ms;
       pr = fst (memory_compute_pagerank_scores (st_links (rc_store rc)) t st (map m_id pool) cfg 128);
       hybrid = hybrid_scores rc raw n hits stats pr pool;
       (kept, rows, st') = memory_rerank_matches rc tt t st (Some raw) ms limit hits stats
   in if length ms \<le> 1 then kept = min (int (length ms)) limit \<and> rows = ms
      else \<exists>out. rows = out @ drop (length pool) ms \<and> kept = min (int (length pool)) limit \<and>
             ranked_by (final_scores rc tt raw pool hybrid) hybrid pool out \<and>
             sum_list (contradiction_adjust tt pool hybrid) = sum_list hybrid"
proof -
  define n where "n = (if rc_norm rc raw 512 = [] then cbuf 512 raw else rc_norm rc raw 512)"
  define cfg where "cfg = memory_load_pagerank_config (rc_config rc) (rc_env rc)"
  define pool where "pool = rerank_pool rc cfg ms"
  define pr where "pr = fst (memory_compute_pagerank_scores (st_links (rc_store rc)) t st (map m_id pool) cfg 128)"
  define hybrid where "hybrid = hybrid_scores rc raw n hits stats pr pool"
  have "length ms \<le> 1 \<Longrightarrow>
      memory_rerank_matches rc tt t st (Some raw) ms limit hits stats = (min (int (length ms)) limit, ms, st)"
    by (simp add: memory_rerank_matches_def)
  moreover have "\<exists>st'. memory_rerank_matches rc tt t st (Some raw) ms limit hits stats =
      (min (int (length pool)) limit, rerank_rows rc tt raw n hits stats pr pool @ drop (length pool) ms, st')"
    if "\<not> length ms \<le> 1"
    using that length_rerank_rows [of rc tt raw n hits stats pr pool]
    by (simp add: memory_rerank_matches_def Let_def split_beta n_def cfg_def pool_def pr_def)
  moreover have "ranked_by (final_scores rc tt raw pool hybrid) hybrid pool (rerank_rows rc tt raw n hits stats pr pool)"
    unfolding hybrid_def by (rule rerank_rows_ranked)
  ultimately show ?thesis
    unfolding Let_def n_def [symmetric] cfg_def [symmetric] pool_def [symmetric] pr_def [symmetric]
      hybrid_def [symmetric]
    using contradiction_adjust_sum [of tt pool hybrid] by auto
qed

end
