(* ===== verification/Candidates.thy ===== *)
theory Candidates
  imports Rerank "HOL-Library.Product_Lexorder"
begin

text \<open>
  Candidate collection for one search: the collectors of \<open>memory_core_search.c\<close> and
  \<open>memory_core_search_b.c\<close> and \<open>memory_generate_candidates\<close> of \<open>memory_core_search_c.c\<close>.

  The reads of the store, the embedder (\<open>'v\<close> is a vector with its dimension) and the vector
  index are the record \<open>retrieval\<close>.  A list it returns fits the buffer of the call; \<open>None\<close> of a
  vector search is an error.  The state of a collection is the record \<open>pool\<close>: the candidates,
  their sources, the semantic hits and the two static lane lists.
\<close>

record 'v retrieval =
  rv_alias :: "string \<Rightarrow> int \<Rightarrow> memory_t list"
  rv_entity :: "string \<Rightarrow> int \<Rightarrow> memory_t list"
  rv_temporal :: "string \<Rightarrow> int \<Rightarrow> memory_t list"
  rv_summary :: "string \<Rightarrow> int \<Rightarrow> memory_t list"
  rv_event :: "string \<Rightarrow> int \<Rightarrow> memory_t list"
  rv_relation :: "string \<Rightarrow> int \<Rightarrow> memory_t list"
  rv_edges :: "string \<Rightarrow> int \<Rightarrow> (string \<times> string) list"
  rv_negation :: "string \<Rightarrow> int \<Rightarrow> memory_t list"
  rv_like :: "string \<Rightarrow> int \<Rightarrow> memory_t list option"
  rv_embed :: "string \<Rightarrow> ('v \<times> int) option"
  rv_search :: "string \<Rightarrow> 'v \<Rightarrow> int \<Rightarrow> (int \<times> real) list option"
  rv_search_kinds :: "'v \<Rightarrow> string list \<Rightarrow> int \<Rightarrow> (int \<times> real) list option"
  rv_row :: "int \<Rightarrow> memory_t option"
  rv_unit_row :: "int \<Rightarrow> memory_t option"
  rv_unit_meta :: "int \<Rightarrow> (real \<times> string \<times> string) option"
  rv_stored_dim :: int
  rv_unit_offset :: int
  rv_floor_scale :: real
  rv_norm :: normalizer
  kind_episodic :: string
  kind_semantic :: string
  kind_procedural :: string

record lane_config =
  lc_expansion_mode :: string
  lc_expansion_k :: int
  lc_config_present :: bool
  lc_lanes_enabled :: bool
  lc_summary_kinds :: string
  lc_fact_kinds :: string
  lc_k_summary :: int
  lc_k_fact :: int
  lc_negation_enabled :: bool

record pool =
  po_rows :: "memory_t list"
  po_stats :: "(int \<times> source_mask) list"
  po_hits :: "(int \<times> real) list"
  po_lane_summary :: "int list"
  po_lane_fact :: "int list"

subsection \<open>Appending and the term collectors\<close>

definition memory_append_unique :: "nat \<Rightarrow> memory_t list \<Rightarrow> memory_t \<Rightarrow> memory_t list" where
  "memory_append_unique mx out c =
     (if mx \<le> length out \<or> list_ex (\<lambda>m. m_id m = m_id c) out then out else out @ [c])"

definition append_all :: "nat \<Rightarrow> memory_t list \<Rightarrow> memory_t list \<Rightarrow> memory_t list" where
  "append_all mx = foldl (memory_append_unique mx)"

definition memory_collect_via ::
    "(string \<Rightarrow> int \<Rightarrow> memory_t list) \<Rightarrow> cptr \<Rightarrow> int \<Rightarrow> nat \<Rightarrow> memory_t list \<Rightarrow> memory_t list" where
  "memory_collect_via collect t limit mx out =
     (if \<not> nonempty t \<or> mx \<le> length out then out
      else append_all mx out (take 64 (collect (cptr_str t) limit)))"

definition memory_collect_alias_matches :: "'v retrieval \<Rightarrow> cptr \<Rightarrow> int \<Rightarrow> nat \<Rightarrow> memory_t list \<Rightarrow> memory_t list" where
  "memory_collect_alias_matches rv = memory_collect_via (rv_alias rv)"

definition memory_collect_entity_matches :: "'v retrieval \<Rightarrow> cptr \<Rightarrow> int \<Rightarrow> nat \<Rightarrow> memory_t list \<Rightarrow> memory_t list" where
  "memory_collect_entity_matches rv = memory_collect_via (rv_entity rv)"

definition memory_collect_temporal_matches :: "'v retrieval \<Rightarrow> cptr \<Rightarrow> int \<Rightarrow> nat \<Rightarrow> memory_t list \<Rightarrow> memory_t list" where
  "memory_collect_temporal_matches rv = memory_collect_via (rv_temporal rv)"

definition memory_collect_summary_matches :: "'v retrieval \<Rightarrow> cptr \<Rightarrow> int \<Rightarrow> nat \<Rightarrow> memory_t list \<Rightarrow> memory_t list" where
  "memory_collect_summary_matches rv = memory_collect_via (rv_summary rv)"

definition memory_collect_event_frame_matches :: "'v retrieval \<Rightarrow> cptr \<Rightarrow> int \<Rightarrow> nat \<Rightarrow> memory_t list \<Rightarrow> memory_t list" where
  "memory_collect_event_frame_matches rv = memory_collect_via (rv_event rv)"

subsection \<open>The vector collectors\<close>

text \<open>The hits of a search; an error and no hit are the empty list.\<close>

definition hits_of :: "(int \<times> real) list option \<Rightarrow> (int \<times> real) list" where
  "hits_of r = (case r of None \<Rightarrow> [] | Some hs \<Rightarrow> hs)"

definition fetch_rows :: "'v retrieval \<Rightarrow> nat \<Rightarrow> (int \<times> real) list \<Rightarrow> memory_t list" where
  "fetch_rows rv mx hits = take mx (List.map_filter (rv_row rv \<circ> fst) hits)"

definition memory_collect_memory_matches_via_vector ::
    "'v retrieval \<Rightarrow> cptr \<Rightarrow> int \<Rightarrow> nat \<Rightarrow> memory_t list" where
  "memory_collect_memory_matches_via_vector rv query limit mx =
     (if \<not> nonempty query \<or> limit \<le> 0 \<or> mx = 0 then []
      else case rv_embed rv (cptr_str query) of None \<Rightarrow> []
           | Some (v, qdim) \<Rightarrow>
               fetch_rows rv mx (hits_of (rv_search rv ''memory'' v (min (min limit (int mx)) 64))))"

definition memory_collect_memory_matches_via_vector_with_kinds ::
    "'v retrieval \<Rightarrow> cptr \<Rightarrow> int \<Rightarrow> string list \<Rightarrow> nat \<Rightarrow> memory_t list" where
  "memory_collect_memory_matches_via_vector_with_kinds rv query limit kinds mx =
     (if \<not> nonempty query \<or> limit \<le> 0 \<or> mx = 0 then []
      else if kinds = [] then memory_collect_memory_matches_via_vector rv query limit mx
      else case rv_embed rv (cptr_str query) of None \<Rightarrow> []
           | Some (v, qdim) \<Rightarrow>
               fetch_rows rv mx (hits_of (rv_search_kinds rv v kinds (min (min limit (int mx)) 64))))"

definition memory_collect_chunk_matches ::
    "'v retrieval \<Rightarrow> cptr \<Rightarrow> int \<Rightarrow> nat \<Rightarrow> memory_t list \<Rightarrow> memory_t list" where
  "memory_collect_chunk_matches rv query limit mx out =
     (if \<not> nonempty query \<or> mx \<le> length out then out
      else append_all mx out (memory_collect_memory_matches_via_vector rv query limit 64))"

definition memory_collect_code_matches ::
    "'v retrieval \<Rightarrow> cptr \<Rightarrow> int \<Rightarrow> nat \<Rightarrow> memory_t list \<Rightarrow> memory_t list" where
  "memory_collect_code_matches rv query fetch_limit mx out =
     (if \<not> nonempty query \<or> mx \<le> length out \<or> fetch_limit \<le> 0 then out
      else append_all mx out (memory_collect_memory_matches_via_vector rv query fetch_limit 64))"

text \<open>Unit hits grouped by their memory: its id, the number of its hits and the best score.\<close>

type_synonym hit_group = "int \<times> nat \<times> real"

fun group_hit :: "nat \<Rightarrow> int \<Rightarrow> real \<Rightarrow> hit_group list \<Rightarrow> hit_group list" where
  "group_hit room i s [] = (if room = 0 then [] else [(i, 1, s)])"
| "group_hit room i s ((j, n, b) # gs) =
     (if j = i then (j, n + 1, if b < s then s else b) # gs else (j, n, b) # group_hit (room - 1) i s gs)"

definition group_hits :: "'v retrieval \<Rightarrow> (int \<times> real) list \<Rightarrow> hit_group list" where
  "group_hits rv hits =
     foldl (\<lambda>gs (point, s).
       let unit_id = point - rv_unit_offset rv
       in if unit_id \<le> 0 then gs
          else case rv_unit_row rv unit_id of None \<Rightarrow> gs | Some parent \<Rightarrow> group_hit 64 (m_id parent) s gs) [] hits"

definition memory_collect_unit_matches_via_vector ::
    "'v retrieval \<Rightarrow> cptr \<Rightarrow> int \<Rightarrow> nat \<Rightarrow> memory_t list" where
  "memory_collect_unit_matches_via_vector rv query limit mx =
     (if \<not> nonempty query \<or> limit \<le> 0 \<or> mx = 0 then []
      else case rv_embed rv (cptr_str query) of None \<Rightarrow> []
           | Some (v, qdim) \<Rightarrow>
               let gs = selection_sort snd (group_hits rv (hits_of (rv_search rv ''unit'' v (min (limit * 4) 256))))
               in take mx (List.map_filter (\<lambda>(i, n, b). if n < 2 then None else rv_row rv i) gs))"

definition memory_collect_unit_matches ::
    "'v retrieval \<Rightarrow> cptr \<Rightarrow> int \<Rightarrow> nat \<Rightarrow> memory_t list \<Rightarrow> memory_t list" where
  "memory_collect_unit_matches rv query limit mx out =
     (if \<not> nonempty query \<or> mx \<le> length out then out
      else let tokens = memory_split_tokens (Some (rv_norm rv (cptr_str query) 256)) 16
           in if length (filter (\<lambda>t. memory_is_signal_token (Some t)) tokens) < 2 then out
              else append_all mx out (memory_collect_unit_matches_via_vector rv query limit 64))"

subsection \<open>Expansion along the vector index\<close>

definition expansion_hits :: "'v retrieval \<Rightarrow> string \<Rightarrow> int \<Rightarrow> (int \<times> real) list option option" where
  "expansion_hits rv query k =
     (case rv_embed rv query of None \<Rightarrow> None
      | Some (v, qdim) \<Rightarrow> Some (rv_search rv ''memory'' v (if 0 < k \<and> k < 16 then k else 5)))"

definition key_tokens :: "'v retrieval \<Rightarrow> int \<times> real \<Rightarrow> string list" where
  "key_tokens rv hit =
     (case rv_row rv (fst hit) of None \<Rightarrow> []
      | Some m \<Rightarrow> if m_key m = [] then [] else memory_split_tokens (Some (rv_norm rv (m_key m) 256)) 8)"

definition memory_expand_query_terms_semantic ::
    "'v retrieval \<Rightarrow> cptr \<Rightarrow> int \<Rightarrow> nat \<Rightarrow> string list \<Rightarrow> string list" where
  "memory_expand_query_terms_semantic rv query k max_terms terms =
     (if \<not> nonempty query \<or> max_terms \<le> length terms then terms
      else case expansion_hits rv (cptr_str query) k of
             Some (Some hits) \<Rightarrow>
               foldl (\<lambda>acc t. if length t < 3 \<or> \<not> memory_is_signal_token (Some t) then acc
                              else memory_add_expanded_term max_terms acc (Some t))
                 terms (concat (map (key_tokens rv) hits))
           | _ \<Rightarrow> terms)"

text \<open>\<open>None\<close>: the search failed.\<close>

definition memory_expand_query_semantic ::
    "'v retrieval \<Rightarrow> cptr \<Rightarrow> int \<Rightarrow> nat \<Rightarrow> string \<Rightarrow> string option" where
  "memory_expand_query_semantic rv query k out_len out =
     (if \<not> nonempty query \<or> out_len = 0 then Some out
      else case expansion_hits rv (cptr_str query) k of
             None \<Rightarrow> Some out
           | Some None \<Rightarrow> None
           | Some (Some hits) \<Rightarrow>
               Some (foldl (\<lambda>acc t. if length acc + 72 < out_len \<and> memory_is_signal_token (Some t)
                                    then acc @ '' OR '' @ t else acc)
                       out (concat (map (key_tokens rv) hits))))"

subsection \<open>The semantic collectors\<close>

definition add_hit_score :: "nat \<Rightarrow> (int \<times> real) list \<Rightarrow> int \<Rightarrow> real \<Rightarrow> (int \<times> real) list" where
  "add_hit_score mx hits i s = (if length hits < mx then hits @ [(i, s)] else hits)"

definition semantic_vector :: "'v retrieval \<Rightarrow> string \<Rightarrow> query_intent \<Rightarrow> ('v \<times> int) option" where
  "semantic_vector rv query intent =
     (let sq = memory_build_semantic_query_text (rv_norm rv) (Some query) intent 1024
      in rv_embed rv (if sq \<noteq> [] then sq else query))"

text \<open>The rows, the hits and the number appended so far.\<close>

definition semantic_step ::
    "'v retrieval \<Rightarrow> real \<Rightarrow> int \<Rightarrow> nat \<Rightarrow> memory_t list \<times> (int \<times> real) list \<times> nat \<Rightarrow> int \<times> real
     \<Rightarrow> memory_t list \<times> (int \<times> real) list \<times> nat" where
  "semantic_step rv scale limit mx st hit =
     (case st of (out, hits, n) \<Rightarrow>
        if mx \<le> length out \<or> limit \<le> int n \<or> snd hit < 62 / 100 * scale then st
        else case rv_row rv (fst hit) of None \<Rightarrow> st
             | Some c \<Rightarrow> (memory_append_unique mx out c, add_hit_score 128 hits (m_id c) (snd hit), n + 1))"

definition memory_collect_semantic_matches ::
    "'v retrieval \<Rightarrow> cptr \<Rightarrow> int \<Rightarrow> nat \<Rightarrow> memory_t list \<Rightarrow> (int \<times> real) list
     \<Rightarrow> (memory_t list \<times> (int \<times> real) list) option" where
  "memory_collect_semantic_matches rv query limit mx out hits =
     (if \<not> nonempty query \<or> mx \<le> length out then Some (out, hits)
      else case semantic_vector rv (cptr_str query) (memory_query_intent query query) of
             None \<Rightarrow> Some (out, hits)
           | Some (v, qdim) \<Rightarrow>
               if \<not> memory_semantic_dim_ok (rv_stored_dim rv) qdim then Some (out, hits)
               else case rv_search rv ''memory'' v (if 32 < limit then limit else 32) of
                      None \<Rightarrow> None
                    | Some found \<Rightarrow>
                        let scale = memory_semantic_floor_scale (rv_floor_scale rv) (rv_stored_dim rv);
                            (out', hits', n) = foldl (semantic_step rv scale limit mx) (out, hits, 0) found
                        in Some (out', hits'))"

definition memory_unit_kind_intent_boost :: "'v retrieval \<Rightarrow> cptr \<Rightarrow> query_intent \<Rightarrow> real" where
  "memory_unit_kind_intent_boost rv memory_kind intent =
     (case memory_kind of None \<Rightarrow> 0
      | Some k \<Rightarrow>
          (case intent of
             QUERY_TEMPORAL \<Rightarrow> (if k = kind_episodic rv then 18 / 100 else if k = kind_semantic rv then - (6 / 100) else 0)
           | QUERY_PROCEDURAL \<Rightarrow> (if k = kind_procedural rv then 22 / 100 else - (8 / 100))
           | _ \<Rightarrow> (if k = kind_semantic rv then 12 / 100 else if k = kind_episodic rv then - (3 / 100) else 0)))"

text \<open>A unit hit that passes its threshold: the similarity after the boosts and the memory.\<close>

definition unit_hit ::
    "'v retrieval \<Rightarrow> real \<Rightarrow> query_intent \<Rightarrow> int \<times> real \<Rightarrow> (real \<times> memory_t) option" where
  "unit_hit rv scale intent hit =
     (if fst hit < rv_unit_offset rv then None
      else let unit_id = fst hit - rv_unit_offset rv
           in case rv_unit_meta rv unit_id of None \<Rightarrow> None
              | Some (weight, utype, kind) \<Rightarrow>
                  let k = (if kind = [] then cbuf 32 (kind_episodic rv) else kind);
                      sim = snd hit + weight * (3 / 100) + memory_unit_semantic_type_boost (Some utype) intent +
                            memory_unit_kind_intent_boost rv (Some k) intent;
                      threshold = (if intent = QUERY_TEMPORAL \<and> utype = ''summary'' then 58 / 100
                                   else if intent = QUERY_TEMPORAL \<and> (utype = ''temporal'' \<or> utype = ''event'')
                                   then 46 / 100 else 52 / 100) * scale
                  in if sim < threshold then None
                     else map_option (Pair sim) (rv_unit_row rv unit_id))"

fun best_hit :: "nat \<Rightarrow> real \<Rightarrow> memory_t \<Rightarrow> (real \<times> memory_t) list \<Rightarrow> (real \<times> memory_t) list" where
  "best_hit room sim c [] = (if room = 0 then [] else [(sim, c)])"
| "best_hit room sim c ((s, m) # hs) =
     (if m_id m = m_id c then (if s < sim then sim else s, m) # hs else (s, m) # best_hit (room - 1) sim c hs)"

definition memory_collect_unit_semantic_matches ::
    "'v retrieval \<Rightarrow> cptr \<Rightarrow> int \<Rightarrow> nat \<Rightarrow> memory_t list \<Rightarrow> (int \<times> real) list
     \<Rightarrow> (memory_t list \<times> (int \<times> real) list) option" where
  "memory_collect_unit_semantic_matches rv query limit mx out hits =
     (if \<not> nonempty query \<or> mx \<le> length out then Some (out, hits)
      else let intent = memory_query_intent query (Some (rv_norm rv (cptr_str query) 512))
           in case semantic_vector rv (cptr_str query) intent of
             None \<Rightarrow> Some (out, hits)
           | Some (v, qdim) \<Rightarrow>
               if \<not> memory_semantic_dim_ok (rv_stored_dim rv) qdim then Some (out, hits)
               else case rv_search rv ''unit'' v (if 64 < limit then limit else 64) of
                      None \<Rightarrow> None
                    | Some found \<Rightarrow>
                        let scale = memory_semantic_floor_scale (rv_floor_scale rv) (rv_stored_dim rv);
                            best = foldl (\<lambda>hs (s, c). best_hit 128 s c hs) []
                                     (List.map_filter (unit_hit rv scale intent) found);
                            top = take (nat limit) (selection_sort fst best)
                        in Some (foldl (\<lambda>(o', h') (s, c).
                             if mx \<le> length o' then (o', h')
                             else (memory_append_unique mx o' c, add_hit_score 128 h' (m_id c) (s * (105 / 100))))
                             (out, hits) top))"

end
