(* ===== verification/Generate.thy ===== *)
theory Generate
  imports Candidates
begin

unbundle bit_operations_syntax

text \<open>
  \<open>memory_collect_variant_candidates\<close> (\<open>memory_core_search_b.c\<close>),
  \<open>memory_collect_graph_candidates\<close> and \<open>memory_generate_candidates\<close>
  (\<open>memory_core_search_c.c\<close>): the collectors in their order, each noting the rows it appended
  with its source.  Stage counters and logging are not modelled; a limit is not negative.
\<close>

abbreviation (input) SOURCE_ALIAS :: source_mask where "SOURCE_ALIAS \<equiv> 2"
abbreviation (input) SOURCE_ENTITY :: source_mask where "SOURCE_ENTITY \<equiv> 4"
abbreviation (input) SOURCE_SUMMARY :: source_mask where "SOURCE_SUMMARY \<equiv> 8"
abbreviation (input) SOURCE_CHUNK :: source_mask where "SOURCE_CHUNK \<equiv> 32"
abbreviation (input) SOURCE_UNIT :: source_mask where "SOURCE_UNIT \<equiv> 64"
abbreviation (input) SOURCE_LIKE :: source_mask where "SOURCE_LIKE \<equiv> 512"
abbreviation (input) SOURCE_CODE :: source_mask where "SOURCE_CODE \<equiv> 1024"

text \<open>A collector followed by the note of what it appended.\<close>

definition noted :: "source_mask \<Rightarrow> (memory_t list \<Rightarrow> memory_t list) \<Rightarrow> pool \<Rightarrow> pool" where
  "noted bits f p =
     (let before = length (po_rows p); out = f (po_rows p)
      in p\<lparr>po_rows := out,
           po_stats := memory_note_candidate_sources 128 out (int before) (int (length out)) bits (po_stats p)\<rparr>)"

definition noted_rows :: "nat \<Rightarrow> source_mask \<Rightarrow> memory_t list \<Rightarrow> pool \<Rightarrow> pool" where
  "noted_rows mx bits cs p = foldl (\<lambda>p c. noted bits (\<lambda>out. memory_append_unique mx out c) p) p cs"

subsection \<open>Lanes\<close>

text \<open>A kind has at most 15 characters; what is left of a longer one is read as the next.\<close>

function kinds_loop :: "nat \<Rightarrow> string \<Rightarrow> string list" where
  "kinds_loop n s =
     (let p = dropWhile (\<lambda>c. c = CHR '','' \<or> c = CHR '' '') s
      in if n = 0 \<or> p = [] then []
         else let k = take 15 (takeWhile (\<lambda>c. c \<noteq> CHR '','') p)
              in k # kinds_loop (n - 1) (drop (length k) p))"
  by pat_completeness auto

termination by (relation "measure fst") simp_all

declare kinds_loop.simps [simp del]

definition memory_parse_kinds_csv :: "cptr \<Rightarrow> nat \<Rightarrow> string list" where
  "memory_parse_kinds_csv csv mx = (if \<not> nonempty csv then [] else kinds_loop mx (cptr_str csv))"

definition lane ::
    "'v retrieval \<Rightarrow> nat \<Rightarrow> string \<Rightarrow> int \<Rightarrow> string list \<Rightarrow> pool \<Rightarrow> pool \<times> int list" where
  "lane rv mx query k kinds p =
     (let got = memory_collect_memory_matches_via_vector_with_kinds rv (Some query) k kinds 64
      in (noted_rows mx SOURCE_LEXICAL got p, map m_id (take 96 got)))"

definition lexical_lanes :: "'v retrieval \<Rightarrow> lane_config \<Rightarrow> nat \<Rightarrow> string \<Rightarrow> int \<Rightarrow> pool \<Rightarrow> pool" where
  "lexical_lanes rv lc mx lexical_query fetch_limit p =
     (if lc_lanes_enabled lc
      then let sum_kinds = memory_parse_kinds_csv
                 (Some (if lc_summary_kinds lc \<noteq> [] then lc_summary_kinds lc else ''episode'')) 16;
               fact_kinds = memory_parse_kinds_csv
                 (Some (if lc_fact_kinds lc \<noteq> [] then lc_fact_kinds lc else ''fact,preference'')) 16;
               k_sum = (if 0 < lc_k_summary lc then lc_k_summary lc else 40);
               k_fact = (if 0 < lc_k_fact lc then lc_k_fact lc else 40);
               (p1, sum_ids) = lane rv mx lexical_query k_sum sum_kinds p;
               (p2, fact_ids) = lane rv mx lexical_query k_fact fact_kinds p1
           in p2\<lparr>po_lane_summary := sum_ids, po_lane_fact := fact_ids\<rparr>
      else noted_rows mx SOURCE_LEXICAL
             (memory_collect_memory_matches_via_vector rv (Some lexical_query) fetch_limit 64)
             (p\<lparr>po_lane_summary := [], po_lane_fact := []\<rparr>))"

subsection \<open>Variants of the query\<close>

text \<open>The structured query, the lexical query and the terms; \<open>None\<close> when the expansion failed.\<close>

definition variant_queries :: "'v retrieval \<Rightarrow> lane_config \<Rightarrow> string \<Rightarrow> (string \<times> string \<times> string list) option" where
  "variant_queries rv lc norm_variant =
     (let qtokens = memory_split_tokens (Some norm_variant) 32;
          signal = memory_build_signal_query qtokens 256;
          structured = (if signal \<noteq> [] then signal else norm_variant);
          mode = (if lc_expansion_mode lc \<noteq> [] then lc_expansion_mode lc else ''lexical'');
          semantic = (mode = ''semantic'' \<or> mode = ''hybrid'');
          lexical = (mode = ''lexical'' \<or> mode = ''hybrid'');
          k = (if 0 < lc_expansion_k lc then lc_expansion_k lc else 5);
          expanded = memory_expand_synonyms structured 1024
      in case (if semantic then memory_expand_query_semantic rv (Some structured) k 1024 expanded else Some expanded) of
           None \<Rightarrow> None
         | Some lexical_query \<Rightarrow>
             let terms = (if lexical then memory_expand_query_terms (Some norm_variant) qtokens 48
                          else foldl (\<lambda>acc t. memory_add_expanded_term 48 acc (Some t)) [] qtokens);
                 terms' = (if semantic then memory_expand_query_terms_semantic rv (Some structured) k 48 terms else terms)
             in Some (structured, lexical_query, terms'))"

definition term_lanes :: "'v retrieval \<Rightarrow> query_intent \<Rightarrow> int \<Rightarrow> nat \<Rightarrow> pool \<Rightarrow> string \<Rightarrow> pool" where
  "term_lanes rv intent fetch_limit mx p t =
     (if mx \<le> length (po_rows p) \<or> length t < 3 then p
      else
        let run = (\<lambda>bits collect. noted bits (collect rv (Some t) fetch_limit mx));
            p1 = run SOURCE_ALIAS memory_collect_alias_matches p;
            p2 = run SOURCE_ENTITY memory_collect_entity_matches p1;
            p3 = run SOURCE_SUMMARY memory_collect_summary_matches p2;
            p4 = run SOURCE_EVENT memory_collect_event_frame_matches p3;
            p5 = run SOURCE_CHUNK memory_collect_chunk_matches p4;
            p6 = run SOURCE_UNIT memory_collect_unit_matches p5
        in if intent = QUERY_TEMPORAL then run SOURCE_TEMPORAL memory_collect_temporal_matches p6 else p6)"

definition memory_collect_variant_candidates ::
    "'v retrieval \<Rightarrow> lane_config \<Rightarrow> cptr \<Rightarrow> cptr \<Rightarrow> query_intent \<Rightarrow> int \<Rightarrow> nat \<Rightarrow> pool \<Rightarrow> pool option" where
  "memory_collect_variant_candidates rv lc raw_query norm_variant intent fetch_limit mx p =
     (if \<not> nonempty raw_query \<or> \<not> nonempty norm_variant \<or> mx = 0 \<or> \<not> lc_config_present lc then Some p
      else case variant_queries rv lc (cptr_str norm_variant) of
             None \<Rightarrow> None
           | Some (structured, lexical_query, terms) \<Rightarrow>
               let run = (\<lambda>bits collect q. noted bits (collect rv (Some q) fetch_limit mx));
                   p1 = run SOURCE_UNIT memory_collect_unit_matches lexical_query p;
                   p2 = lexical_lanes rv lc mx lexical_query fetch_limit p1;
                   p3 = (if memory_query_is_code_like raw_query \<or> memory_query_is_code_like (Some structured)
                         then run SOURCE_CODE memory_collect_code_matches structured p2 else p2);
                   p4 = run SOURCE_ALIAS memory_collect_alias_matches structured p3;
                   p5 = foldl (term_lanes rv intent fetch_limit mx) p4 terms;
                   p6 = (if intent = QUERY_ENTITY \<or> intent = QUERY_GENERAL
                         then run SOURCE_ENTITY memory_collect_entity_matches structured p5 else p5);
                   p7 = run SOURCE_SUMMARY memory_collect_summary_matches structured p6;
                   p8 = run SOURCE_EVENT memory_collect_event_frame_matches (cptr_str norm_variant) p7;
                   p9 = run SOURCE_CHUNK memory_collect_chunk_matches lexical_query p8;
                   p10 = run SOURCE_UNIT memory_collect_unit_matches lexical_query p9
               in Some (if intent = QUERY_TEMPORAL
                        then run SOURCE_TEMPORAL memory_collect_temporal_matches (cptr_str norm_variant) p10
                        else p10))"

subsection \<open>The graph lane\<close>

definition graph_edge :: "'v retrieval \<Rightarrow> int \<Rightarrow> nat \<Rightarrow> pool \<Rightarrow> string \<times> string \<Rightarrow> pool" where
  "graph_edge rv fetch_limit mx p e =
     (let run = (\<lambda>t p. if t \<noteq> [] \<and> length (po_rows p) < mx
                       then noted SOURCE_GRAPH (memory_collect_entity_matches rv (Some t) (min fetch_limit 4) mx) p
                       else p)
      in run (snd e) (run (fst e) p))"

definition graph_token :: "'v retrieval \<Rightarrow> int \<Rightarrow> nat \<Rightarrow> pool \<Rightarrow> string \<Rightarrow> pool" where
  "graph_token rv fetch_limit mx p t =
     (if mx \<le> length (po_rows p) \<or> length t < 3 then p
      else let p1 = noted_rows mx SOURCE_GRAPH (take 32 (rv_relation rv t (min fetch_limit 8))) p
           in if length (po_rows p1) < mx
              then foldl (graph_edge rv fetch_limit mx) p1 (take 6 (rv_edges rv t (min fetch_limit 6)))
              else p1)"

definition memory_collect_graph_candidates ::
    "'v retrieval \<Rightarrow> cptr \<Rightarrow> cptr \<Rightarrow> int \<Rightarrow> nat \<Rightarrow> pool \<Rightarrow> pool" where
  "memory_collect_graph_candidates rv raw_query norm_query fetch_limit mx p =
     (if \<not> nonempty raw_query \<or> \<not> nonempty norm_query \<or> mx = 0 then p
      else foldl (graph_token rv fetch_limit mx) p (memory_split_tokens norm_query 24))"

subsection \<open>Generation\<close>

text \<open>The limits of the variants and of the semantic lanes.\<close>

definition generation_limits :: "query_plan option \<Rightarrow> query_intent \<Rightarrow> int \<Rightarrow> int \<times> int" where
  "generation_limits plan intent fetch_limit =
     (let route = map_option qp_route plan;
          v0 = (if route = Some ROUTE_HYBRID then (fetch_limit * 2) div 3
                else if route = Some ROUTE_GRAPH then fetch_limit div 2 else fetch_limit);
          s0 = (if route = Some ROUTE_HYBRID then (fetch_limit * 3) div 4
                else if route = Some ROUTE_GRAPH then 0 else fetch_limit);
          v1 = (if v0 < 6 then min fetch_limit 6 else v0);
          s1 = (if route = Some ROUTE_SEMANTIC then fetch_limit
                else if route \<noteq> Some ROUTE_HYBRID \<and> intent = QUERY_TEMPORAL then (fetch_limit * 3) div 4
                else s0);
          s2 = (if s1 < 8 then min fetch_limit 8 else s1);
          s3 = (if intent = QUERY_TEMPORAL \<and> s2 < 12 then min fetch_limit 12 else s2)
      in (v1, s3))"

text \<open>A semantic collector and its note.\<close>

definition semantic_lane ::
    "source_mask \<Rightarrow> (memory_t list \<Rightarrow> (int \<times> real) list \<Rightarrow> (memory_t list \<times> (int \<times> real) list) option)
     \<Rightarrow> pool \<Rightarrow> pool option" where
  "semantic_lane bits collect p =
     (case collect (po_rows p) (po_hits p) of None \<Rightarrow> None
      | Some (out, hits) \<Rightarrow> Some ((noted bits (\<lambda>_. out) p)\<lparr>po_hits := hits\<rparr>))"

definition subquery_lanes ::
    "'v retrieval \<Rightarrow> lane_config \<Rightarrow> cptr \<Rightarrow> query_intent \<Rightarrow> int \<Rightarrow> nat \<Rightarrow> pool \<Rightarrow> string list \<Rightarrow> pool option" where
  "subquery_lanes rv lc query intent limit mx p subs =
     foldl (\<lambda>r sub. case r of None \<Rightarrow> None
        | Some p \<Rightarrow> if mx \<le> length (po_rows p) then Some p
                    else memory_collect_variant_candidates rv lc query (Some sub) intent
                           (if 0 < limit div 2 then limit div 2 else 1) mx p) (Some p) subs"

definition negation_lane ::
    "'v retrieval \<Rightarrow> text_tests \<Rightarrow> lane_config \<Rightarrow> string \<Rightarrow> int \<Rightarrow> nat \<Rightarrow> pool \<Rightarrow> pool" where
  "negation_lane rv tt lc query fetch_limit mx p =
     (if \<not> lc_negation_enabled lc \<or> \<not> tt_negative tt query then p
      else let (n, neg_q) = tt_neg_tokens tt query 1024
           in if n \<le> 0 \<or> neg_q = [] then p
              else noted_rows mx SOURCE_LEXICAL
                     (memory_collect_memory_matches_via_vector rv (Some neg_q) fetch_limit 64)
                     (noted_rows mx SOURCE_LEXICAL (take 64 (rv_negation rv neg_q fetch_limit)) p))"

definition like_lane :: "'v retrieval \<Rightarrow> string \<Rightarrow> int \<Rightarrow> nat \<Rightarrow> pool \<Rightarrow> pool" where
  "like_lane rv norm_query fetch_limit mx p =
     (case rv_like rv norm_query fetch_limit of None \<Rightarrow> p
      | Some ms \<Rightarrow> noted_rows mx SOURCE_LIKE (take 128 ms) p)"

definition semantic_lanes :: "'v retrieval \<Rightarrow> cptr \<Rightarrow> int \<Rightarrow> nat \<Rightarrow> pool \<Rightarrow> pool option" where
  "semantic_lanes rv query limit mx p =
     (case semantic_lane (SOURCE_UNIT OR SOURCE_SEMANTIC) (memory_collect_unit_semantic_matches rv query limit mx) p of
        None \<Rightarrow> None
      | Some p' \<Rightarrow> semantic_lane SOURCE_SEMANTIC (memory_collect_semantic_matches rv query limit mx) p')"

text \<open>\<open>None\<close> is the code's \<open>-1\<close>; the lane lists of the last generation are in \<open>p\<close>.\<close>

definition memory_generate_candidates ::
    "'v retrieval \<Rightarrow> text_tests \<Rightarrow> lane_config \<Rightarrow> cptr \<Rightarrow> cptr \<Rightarrow> query_intent \<Rightarrow> query_plan option \<Rightarrow> int \<Rightarrow> nat
     \<Rightarrow> pool \<Rightarrow> pool option" where
  "memory_generate_candidates rv tt lc query norm_query intent plan fetch_limit mx p =
     (if \<not> nonempty query \<or> \<not> nonempty norm_query \<or> mx = 0 then Some (p\<lparr>po_rows := []\<rparr>)
      else
        let p0 = p\<lparr>po_rows := [], po_stats := [], po_hits := []\<rparr>;
            (variant_limit, semantic_limit) = generation_limits plan intent fetch_limit;
            p1 = (if map_option qp_route plan = Some ROUTE_GRAPH
                  then memory_collect_graph_candidates rv query norm_query fetch_limit mx p0 else p0)
        in case memory_collect_variant_candidates rv lc query norm_query intent variant_limit mx p1 of
             None \<Rightarrow> None
           | Some p2 \<Rightarrow>
             (case subquery_lanes rv lc query intent variant_limit mx p2
                     (memory_build_query_decomposition norm_query 3) of
                None \<Rightarrow> None
              | Some p3 \<Rightarrow>
                (case (if plan = None \<or> map_option qp_semantic_enabled plan = Some True
                       then semantic_lanes rv query semantic_limit mx p3 else Some p3) of
                   None \<Rightarrow> None
                 | Some p4 \<Rightarrow>
                     Some (like_lane rv (cptr_str norm_query) fetch_limit mx
                       (negation_lane rv tt lc (cptr_str query) fetch_limit mx p4)))))"

end
