(* ===== verification/Sorts.thy ===== *)
theory Sorts
  imports Selection
begin

text \<open>
  The contract of the module's sorts, best row first, and its three providers: the selection
  sort, the exchange sort of \<open>memory_search_impl\<close> and the insertion sort of
  \<open>memory_sort_scope_buckets\<close>, which keeps the order of equal rows.
\<close>

locale descending_sort =
  fixes key :: "'a \<Rightarrow> 'k::linorder" and srt :: "'a list \<Rightarrow> 'a list"
  assumes mset_srt: "mset (srt xs) = mset xs"
    and sorted_srt: "sorted (rev (map key (srt xs)))"
begin

lemma length_srt: "length (srt xs) = length xs"
  using mset_srt by (rule mset_eq_length)

lemma set_srt: "set (srt xs) = set xs"
  using mset_srt by (rule mset_eq_setD)

lemma srt_mono: "i \<le> j \<Longrightarrow> j < length xs \<Longrightarrow> key (srt xs ! j) \<le> key (srt xs ! i)"
  using sorted_srt [of xs] by (auto simp: sorted_rev_iff_nth_mono length_srt)

text \<open>A row that is cut off is no better than a row that is kept.\<close>

lemma kept_best:
  assumes "x \<in> set (take n (srt xs))" and "y \<in> set (drop n (srt xs))"
  shows "key y \<le> key x"
proof -
  obtain i where "i < n" "i < length xs" "x = srt xs ! i"
    using assms(1) by (auto simp: in_set_conv_nth length_srt)
  moreover obtain j where "j < length (drop n (srt xs))" "y = drop n (srt xs) ! j"
    using assms(2) by (metis in_set_conv_nth)
  then have "n + j < length xs" "y = srt xs ! (n + j)" by (simp_all add: length_srt)
  ultimately show ?thesis using srt_mono by simp
qed

lemma first_best: "x \<in> set xs \<Longrightarrow> key x \<le> key (srt xs ! 0)"
  using srt_mono [of 0] by (metis in_set_conv_nth le0 length_srt set_srt)

end

text \<open>A stable sort: rows of the same key stay in their order.\<close>

locale stable_descending_sort = descending_sort +
  assumes stable: "filter (\<lambda>x. key x = k) (srt xs) = filter (\<lambda>x. key x = k) xs"

interpretation selection: descending_sort key "selection_sort key" for key :: "'a \<Rightarrow> 'k::linorder"
  by unfold_locales (simp_all add: selection_sort_sorted)

subsection \<open>The exchange sort\<close>

definition exchange_step :: "('a \<Rightarrow> 'k::linorder) \<Rightarrow> nat \<Rightarrow> 'a list \<Rightarrow> nat \<Rightarrow> 'a list" where
  "exchange_step key i xs j = (if key (xs ! i) < key (xs ! j) then swap_rows i j xs else xs)"

definition exchange_pass :: "('a \<Rightarrow> 'k::linorder) \<Rightarrow> 'a list \<Rightarrow> nat \<Rightarrow> 'a list" where
  "exchange_pass key xs i = foldl (exchange_step key i) xs [i + 1..<length xs]"

definition exchange_sort :: "('a \<Rightarrow> 'k::linorder) \<Rightarrow> 'a list \<Rightarrow> 'a list" where
  "exchange_sort key xs = foldl (exchange_pass key) xs [0..<length xs - 1]"

lemma exchange_step_mset:
  "i < length xs \<Longrightarrow> j < length xs \<Longrightarrow> mset (exchange_step key i xs j) = mset xs"
  by (simp add: exchange_step_def)

lemma length_exchange_step [simp]: "length (exchange_step key i xs j) = length xs"
  by (simp add: exchange_step_def)

text \<open>After rows \<open>i + 1\<close> to \<open>k - 1\<close> were compared, row \<open>i\<close> is the best of them.\<close>

lemma exchange_scan:
  assumes "i < length xs"
  shows "i < k \<Longrightarrow> k \<le> length xs \<Longrightarrow>
     (let ys = foldl (exchange_step key i) xs [i + 1..<k] in
        length ys = length xs \<and> mset ys = mset xs \<and> take i ys = take i xs \<and>
        (\<forall>j. i < j \<longrightarrow> j < k \<longrightarrow> key (ys ! j) \<le> key (ys ! i)))"
proof (induction k)
  case (Suc k)
  show ?case
  proof (cases "i < k")
    case True
    define ys where "ys = foldl (exchange_step key i) xs [i + 1..<k]"
    from Suc.IH [OF True] Suc.prems have IH: "length ys = length xs" "mset ys = mset xs" "take i ys = take i xs"
      and best: "\<And>j. i < j \<Longrightarrow> j < k \<Longrightarrow> key (ys ! j) \<le> key (ys ! i)"
      by (simp_all add: Let_def ys_def)
    define zs where "zs = exchange_step key i ys k"
    have k: "k < length ys" "i < length ys" using Suc.prems IH(1) assms by simp_all
    have top_row: "key (zs ! i) = max (key (ys ! i)) (key (ys ! k))" and
      row_k: "key (zs ! k) = min (key (ys ! i)) (key (ys ! k))" and
      row: "\<And>j. j \<noteq> i \<Longrightarrow> j \<noteq> k \<Longrightarrow> zs ! j = ys ! j"
      using k True by (auto simp: zs_def exchange_step_def swap_rows_def nth_list_update max_def min_def)
    have "key (zs ! j) \<le> key (zs ! i)" if "i < j" "j < Suc k" for j
    proof (cases "j = k")
      case True
      then show ?thesis by (simp add: top_row row_k min_le_iff_disj)
    next
      case False
      then have "key (zs ! j) \<le> key (ys ! i)" using best [of j] row [of j] that by simp
      then show ?thesis by (simp only: top_row max.coboundedI1)
    qed
    moreover have "mset zs = mset xs" using exchange_step_mset [OF k(2,1)] IH(2) by (simp add: zs_def)
    moreover have "take i zs = take i xs"
      using IH(3) True by (simp add: zs_def exchange_step_def swap_rows_def)
    moreover have "foldl (exchange_step key i) xs [i + 1..<Suc k] = zs"
      using True by (simp add: zs_def ys_def)
    ultimately show ?thesis using IH(1) by (simp add: Let_def zs_def)
  next
    case False
    then have "k = i" using Suc.prems by simp
    then show ?thesis by simp
  qed
qed simp

lemma exchange_pass_scan:
  assumes "i < length xs"
  shows "length (exchange_pass key xs i) = length xs" "mset (exchange_pass key xs i) = mset xs"
    "take i (exchange_pass key xs i) = take i xs"
    "i < j \<Longrightarrow> j < length xs \<Longrightarrow> key (exchange_pass key xs i ! j) \<le> key (exchange_pass key xs i ! i)"
  using exchange_scan [OF assms assms order_refl, where key = key] by (simp_all add: exchange_pass_def Let_def)

lemma exchange_pass_settled:
  assumes "settled key i xs" and i: "i < length xs"
  shows "settled key (Suc i) (exchange_pass key xs i)"
proof -
  define ys where "ys = exchange_pass key xs i"
  note pass = exchange_pass_scan [OF i, where key = key, folded ys_def]
  have "mset (take i ys) + mset (drop i ys) = mset (take i xs) + mset (drop i xs)"
    using pass(2) by (simp flip: mset_append)
  then have "mset (drop i ys) = mset (drop i xs)" using pass(3) by simp
  then have tail_rows: "set (drop i ys) = set (drop i xs)" by (rule mset_eq_setD)
  have front: "ys ! a = xs ! a" if "a < i" for a
    using arg_cong [OF pass(3), of "\<lambda>l. l ! a"] that by simp
  have "key (ys ! b) \<le> key (ys ! a)" if ab: "a < Suc i" "a < b" "b < length ys" for a b
  proof (cases "a = i")
    case True
    then show ?thesis using pass(1,4) ab by simp
  next
    case False
    then have a: "a < i" using ab by simp
    show ?thesis
    proof (cases "b < i")
      case True
      then show ?thesis using front a assms(1) ab pass(1) by (simp add: settled_def)
    next
      case False
      then have "ys ! b \<in> set (drop i ys)"
        using ab(3) by (auto simp: in_set_conv_nth intro!: exI [of _ "b - i"])
      then obtain c where "c < length (drop i xs)" "ys ! b = drop i xs ! c"
        unfolding tail_rows by (metis in_set_conv_nth)
      then have "i + c < length xs" "ys ! b = xs ! (i + c)" by simp_all
      then show ?thesis using assms(1) a front by (simp add: settled_def)
    qed
  qed
  then show ?thesis by (simp add: settled_def ys_def)
qed

lemma exchange_fold:
  "k \<le> length xs \<Longrightarrow>
     (let ys = foldl (exchange_pass key) xs [0..<k] in
        length ys = length xs \<and> mset ys = mset xs \<and> settled key k ys)"
proof (induction k)
  case 0
  then show ?case by (simp add: settled_def)
next
  case (Suc k)
  then show ?case
    using exchange_pass_settled [of key k "foldl (exchange_pass key) xs [0..<k]"]
      exchange_pass_scan [where i = k and xs = "foldl (exchange_pass key) xs [0..<k]" and key = key]
    by (simp add: Let_def)
qed

lemma settled_sorted: "settled key (length xs - 1) xs \<Longrightarrow> sorted (rev (map key xs))"
  by (auto simp: settled_def sorted_rev_iff_nth_mono le_eq_less_or_eq)

interpretation exchange: descending_sort key "exchange_sort key" for key :: "'a \<Rightarrow> 'k::linorder"
proof
  fix xs
  have "let ys = exchange_sort key xs in
      length ys = length xs \<and> mset ys = mset xs \<and> settled key (length xs - 1) ys"
    unfolding exchange_sort_def by (rule exchange_fold) simp
  then show "mset (exchange_sort key xs) = mset xs" "sorted (rev (map key (exchange_sort key xs)))"
    using settled_sorted [of key "exchange_sort key xs"] by (simp_all add: Let_def)
qed

subsection \<open>The insertion sort\<close>

text \<open>The row goes in front of the rows at the end that are worse.\<close>

definition insert_row :: "('a \<Rightarrow> 'k::linorder) \<Rightarrow> 'a list \<Rightarrow> 'a \<Rightarrow> 'a list" where
  "insert_row key ys x =
     (let worse = rev (takeWhile (\<lambda>y. key y < key x) (rev ys))
      in take (length ys - length worse) ys @ x # worse)"

definition insertion_sort :: "('a \<Rightarrow> 'k::linorder) \<Rightarrow> 'a list \<Rightarrow> 'a list" where
  "insertion_sort key = foldl (insert_row key) []"

lemma insert_row_split:
  obtains a b where "ys = a @ b" "insert_row key ys x = a @ x # b" "\<forall>y \<in> set b. key y < key x"
    "a \<noteq> [] \<Longrightarrow> key x \<le> key (last a)"
proof -
  define a where "a = rev (dropWhile (\<lambda>y. key y < key x) (rev ys))"
  define b where "b = rev (takeWhile (\<lambda>y. key y < key x) (rev ys))"
  have ys: "ys = a @ b"
    unfolding a_def b_def by (metis rev_append rev_rev_ident takeWhile_dropWhile_id)
  have "insert_row key ys x = take (length ys - length b) ys @ x # b"
    by (simp add: insert_row_def Let_def b_def)
  then have "insert_row key ys x = a @ x # b"
    using ys by (metis add_diff_cancel_right' append_eq_conv_conj length_append)
  moreover have "key x \<le> key (last a)" if "a \<noteq> []"
    using that hd_dropWhile [of "\<lambda>y. key y < key x" "rev ys"] by (simp add: a_def last_rev not_less)
  moreover have "\<forall>y \<in> set b. key y < key x"
    by (auto simp: b_def dest: set_takeWhileD)
  ultimately show ?thesis using that ys by blast
qed

lemma insert_row_sorted:
  assumes "sorted (rev (map key ys))"
  shows "sorted (rev (map key (insert_row key ys x)))"
proof -
  obtain a b where ab: "ys = a @ b" "insert_row key ys x = a @ x # b" "\<forall>y \<in> set b. key y < key x"
    "a \<noteq> [] \<Longrightarrow> key x \<le> key (last a)" by (rule insert_row_split [where key = key and ys = ys and x = x]) blast
  have "key x \<le> key y" if "y \<in> set a" for y
  proof (cases a rule: rev_cases)
    case (snoc as z)
    have "y = z \<or> key z \<le> key y" using assms that by (auto simp: ab(1) snoc sorted_append)
    then show ?thesis using ab(4) snoc by auto
  qed (use that in simp)
  then show ?thesis
    using assms ab(3) unfolding ab(2) by (fastforce simp: ab(1) sorted_append less_imp_le)
qed

lemma insertion_sort_snoc: "insertion_sort key (xs @ [x]) = insert_row key (insertion_sort key xs) x"
  by (simp add: insertion_sort_def)

interpretation insertion: stable_descending_sort key "insertion_sort key" for key :: "'a \<Rightarrow> 'k::linorder"
proof
  fix xs k
  show "mset (insertion_sort key xs) = mset xs"
  proof (induction xs rule: rev_induct)
    case (snoc x xs)
    obtain a b where "insertion_sort key xs = a @ b" "insert_row key (insertion_sort key xs) x = a @ x # b"
      by (rule insert_row_split [where key = key and x = x]) blast
    then show ?case using snoc by (simp add: insertion_sort_snoc)
  qed (simp add: insertion_sort_def)
  show "sorted (rev (map key (insertion_sort key xs)))"
    by (induction xs rule: rev_induct)
      (simp_all add: insertion_sort_snoc insert_row_sorted, simp add: insertion_sort_def)
  show "filter (\<lambda>x. key x = k) (insertion_sort key xs) = filter (\<lambda>x. key x = k) xs"
  proof (induction xs rule: rev_induct)
    case (snoc x xs)
    obtain a b where ab: "insertion_sort key xs = a @ b" "insert_row key (insertion_sort key xs) x = a @ x # b"
      and b: "\<forall>y \<in> set b. key y < key x"
      by (rule insert_row_split [where key = key and x = x]) blast
    have "filter (\<lambda>y. key y = k) b = []" if "key x = k"
      using b that by (auto simp: filter_empty_conv)
    then show ?case using snoc ab by (auto simp: insertion_sort_snoc)
  qed (simp add: insertion_sort_def)
qed

end
