(* ===== verification/Aggregation.thy ===== *)
theory Aggregation
  imports Ranking Term_Shapes
begin

text \<open>
  Coverage queries ("list all X", "every Y"), the last part of \<open>memory_advanced.c\<close>: the
  recogniser \<open>memory_detect_aggregation_shape\<close> and \<open>memory_aggregate\<close>, which asks the store for
  every row of an entity or a keyword.  The store's query and the sizes of the hint's fields and
  the default number of items, which \<open>memory.h\<close> outside \<open>src/\<close> fixes, are parameters.
\<close>

subsection \<open>Words of the query\<close>

definition agg_break :: "char \<Rightarrow> bool" where
  "agg_break c \<longleftrightarrow> c \<in> {CHR '' '', CHR 0x09, CHR 0x0A, CHR 0x0D, CHR '','', CHR ''.'', CHR ''?'',
     CHR ''!'', CHR '';'', CHR '':'', CHR ''('', CHR '')'', CHR 0x27, CHR 0x22}"

fun agg_fill :: "nat \<Rightarrow> bool \<Rightarrow> string \<Rightarrow> string \<Rightarrow> string" where
  "agg_fill cap in_space out [] = out"
| "agg_fill cap in_space out (c # cs) =
     (if cap \<le> length out + 1 then out
      else if agg_break c
           then agg_fill cap True (if in_space then out else out @ '' '') cs
           else agg_fill cap False (out @ [tolower c]) cs)"

definition agg_normalize :: "cptr \<Rightarrow> nat \<Rightarrow> string" where
  "agg_normalize src cap = rev (dropWhile (\<lambda>c. c = CHR '' '') (rev (agg_fill cap True [] (cptr_str src))))"

text \<open>An occurrence of \<open>needle\<close> with a space or an end on both sides.\<close>

definition agg_word_at :: "string \<Rightarrow> string \<Rightarrow> nat \<Rightarrow> bool" where
  "agg_word_at hay needle i \<longleftrightarrow>
     prefix needle (drop i hay) \<and> (i = 0 \<or> hay ! (i - 1) = CHR '' '') \<and>
     char_at hay (i + length needle) \<in> {NUL, CHR '' ''}"

definition agg_has_word :: "string \<Rightarrow> string \<Rightarrow> bool" where
  "agg_has_word hay needle \<longleftrightarrow> needle \<noteq> [] \<and> list_ex (agg_word_at hay needle) [0..<length hay]"

definition agg_starts_with :: "string \<Rightarrow> string \<Rightarrow> bool" where
  "agg_starts_with nrm p \<longleftrightarrow> prefix p nrm \<and> char_at nrm (length p) \<in> {NUL, CHR '' ''}"

definition singular_words :: "string list" where
  "singular_words =
     [''is'', ''has'', ''was'', ''its'', ''his'', ''its'', ''us'', ''this'', ''yes'', ''does'', ''gas'', ''plus'',
      ''minus'', ''thus'', ''says'', ''let'' @ [CHR 0x27] @ ''s'', ''there'' @ [CHR 0x27] @ ''s'',
      ''what'' @ [CHR 0x27] @ ''s'', ''who'' @ [CHR 0x27] @ ''s'', ''it'' @ [CHR 0x27] @ ''s'']"

definition agg_token_is_plural_noun :: "string \<Rightarrow> bool" where
  "agg_token_is_plural_noun tok \<longleftrightarrow>
     3 \<le> length tok \<and> last tok = CHR ''s'' \<and> tok \<notin> set singular_words"

definition agg_words :: "string \<Rightarrow> string list" where
  "agg_words = split_words (\<lambda>c. c = CHR '' '')"

definition agg_has_plural_noun :: "string \<Rightarrow> bool" where
  "agg_has_plural_noun nrm \<longleftrightarrow> list_ex agg_token_is_plural_noun (agg_words nrm)"

subsection \<open>The entity of the query\<close>

definition seed_char :: "char \<Rightarrow> bool" where
  "seed_char c \<longleftrightarrow> isalnum c \<or> c = CHR ''-'' \<or> c = CHR 0x27"

text \<open>The words: a letter and what follows it of letters, digits, hyphens and apostrophes.\<close>

definition seed_words :: "string \<Rightarrow> string list" where
  "seed_words s = lead_words isalpha seed_char s"

definition seed_ok :: "string \<Rightarrow> bool" where
  "seed_ok w \<longleftrightarrow> 2 \<le> length w \<and> isupper (hd w) \<and> \<not> (length w \<le> 3 \<and> hd w \<in> {CHR ''I'', CHR ''i''})"

definition agg_extract_entity_seed :: "cptr \<Rightarrow> nat \<Rightarrow> string" where
  "agg_extract_entity_seed raw cap =
     (case List.find seed_ok (drop 1 (seed_words (cptr_str raw))) of None \<Rightarrow> []
      | Some w \<Rightarrow> cbuf cap (map tolower w))"

subsection \<open>The shape\<close>

definition agg_stop_phrases :: "string list" where
  "agg_stop_phrases =
     [''all at once'', ''all right'', ''all good'', ''all day long'', ''all of a sudden'', ''every time'',
      ''every now and'', ''every so often'', ''every once in'', ''each other'', ''each of us'']"

definition agg_is_stop_phrase :: "string \<Rightarrow> bool" where
  "agg_is_stop_phrase nrm \<longleftrightarrow> list_ex (contains nrm) agg_stop_phrases"

record aggregation_hint =
  ag_status_word :: cptr
  ag_entity_seed :: string

definition status_words :: "string list" where
  "status_words = [''open'', ''pending'', ''unresolved'', ''past'', ''completed'', ''done'', ''overdue'']"

text \<open>The quantifiers apart from "all", and that one.\<close>

definition strong_quantifier :: "string \<Rightarrow> bool" where
  "strong_quantifier nrm \<longleftrightarrow>
     (agg_starts_with nrm ''list'' \<or> agg_has_word nrm ''enumerate'') \<or>
     (agg_has_word nrm ''every'' \<or> agg_has_word nrm ''each'') \<or>
     agg_starts_with nrm ''which'' \<or>
     agg_starts_with nrm ''what'' \<and> agg_has_plural_noun nrm \<or>
     (agg_starts_with nrm ''show me all'' \<or> agg_starts_with nrm ''show all'')"

text \<open>\<open>None\<close> is the return of 0; \<open>detected\<close> and \<open>has_quantifier\<close> are 1 otherwise.\<close>

definition memory_detect_aggregation_shape :: "nat \<Rightarrow> nat \<Rightarrow> cptr \<Rightarrow> aggregation_hint option" where
  "memory_detect_aggregation_shape status_cap seed_cap query =
     (if \<not> nonempty query then None
      else let nrm = agg_normalize query 1024
           in if nrm = [] \<or> agg_is_stop_phrase nrm then None
              else if \<not> (strong_quantifier nrm \<or> agg_has_word nrm ''all'') then None
              else if agg_has_word nrm ''all'' \<and> \<not> strong_quantifier nrm \<and> \<not> agg_has_plural_noun nrm then None
              else Some \<lparr>ag_status_word = map_option (cbuf status_cap) (List.find (agg_has_word nrm) status_words),
                         ag_entity_seed = agg_extract_entity_seed query seed_cap\<rparr>)"

subsection \<open>The keyword and the query of the store\<close>

definition agg_skip_words :: "string list" where
  "agg_skip_words =
     [''the'', ''a'', ''an'', ''and'', ''or'', ''of'', ''to'', ''is'', ''are'', ''was'', ''has'', ''have'',
      ''all'', ''every'', ''each'', ''any'', ''list'', ''show'', ''me'', ''us'', ''which'', ''what'', ''who'', ''when'',
      ''how'', ''why'', ''did'', ''do'', ''does'', ''been'', ''be'', ''it'', ''its'', ''this'', ''about'']"

definition longer :: "string \<Rightarrow> string \<Rightarrow> string" where
  "longer best w = (if length best < length w then w else best)"

definition agg_extract_fallback_keyword :: "cptr \<Rightarrow> nat \<Rightarrow> string" where
  "agg_extract_fallback_keyword query cap =
     (case query of None \<Rightarrow> []
      | Some q \<Rightarrow>
          let ws = filter (\<lambda>w. 4 \<le> length w \<and> w \<notin> set agg_skip_words) (agg_words (agg_normalize query 1024));
              best = foldl longer [] (filter (\<lambda>w. last w \<noteq> CHR ''s'') ws);
              plural = foldl longer [] (filter (\<lambda>w. last w = CHR ''s'') ws)
          in cbuf cap (if best = [] then plural else best))"

text \<open>The store returns the rows and whether it left some out.\<close>

definition memory_aggregate ::
    "(cptr \<Rightarrow> cptr \<Rightarrow> int \<Rightarrow> memory_t list \<times> bool) \<Rightarrow> int \<Rightarrow> aggregation_hint option \<Rightarrow> cptr \<Rightarrow> int \<Rightarrow> int
     \<Rightarrow> memory_t list \<times> bool" where
  "memory_aggregate aggregate default_items hint query max_items mx =
     (case hint of None \<Rightarrow> ([], False)
      | Some h \<Rightarrow>
          if mx \<le> 0 then ([], False)
          else let n0 = (if max_items \<le> 0 then default_items else max_items);
                   n = (if mx < n0 then mx else n0);
                   keyword = (if ag_entity_seed h = [] then agg_extract_fallback_keyword query 128 else [])
               in aggregate (if ag_entity_seed h \<noteq> [] then Some (ag_entity_seed h) else None)
                    (if keyword \<noteq> [] then Some keyword else None) n)"

subsection \<open>Properties\<close>

lemma agg_fill_length: "length out < cap \<Longrightarrow> length (agg_fill cap b out cs) < cap"
  by (induction cs arbitrary: b out) auto

lemma agg_normalize_fits: "0 < cap \<Longrightarrow> length (agg_normalize src cap) < cap"
  using agg_fill_length [of "[]" cap True "cptr_str src"]
    length_dropWhile_le [of "\<lambda>c. c = CHR '' ''" "rev (agg_fill cap True [] (cptr_str src))"]
  by (simp add: agg_normalize_def)

lemma agg_word_at_split:
  assumes "CHR '' '' \<notin> set w" and "cstring hay" and "agg_word_at hay w i" and "w \<noteq> []" and "i \<le> length hay"
  shows "w \<in> set (agg_words hay)"
proof -
  obtain b where "drop i hay = w @ b" using assms(3) by (auto simp: agg_word_at_def prefix_def)
  then have split: "hay = take i hay @ w @ b" using append_take_drop_id [of i hay] by simp
  obtain a where a: "a = take i hay" "length a = i" using assms(5) by simp
  note split = split [folded a(1)]
  have last_a: "hay ! (i - 1) = last a" if "a \<noteq> []"
    using that by (subst split) (cases a rule: rev_cases; simp add: nth_append flip: a(2))
  have "i = 0 \<or> hay ! (i - 1) = CHR '' ''" using assms(3) unfolding agg_word_at_def by blast
  then have left: "a = [] \<or> last a = CHR '' ''" using a(2) last_a by force
  have "char_at hay (i + length w) = hd b" if "b \<noteq> []"
    using that a(2) by (subst split, cases b) (simp_all add: char_at_def nth_append)
  moreover have "hd b \<noteq> NUL" if "b \<noteq> []"
    using that assms(2) split by (cases b) (auto simp: cstring_def)
  ultimately have right: "b = [] \<or> hd b = CHR '' ''"
    using assms(3) by (cases "b = []") (auto simp: agg_word_at_def)
  show ?thesis
    unfolding agg_words_def
    by (rule split_words_complete [OF assms(4) _ split]) (use assms(1) left right in auto)
qed

lemma agg_split_word_at:
  assumes "w \<in> set (agg_words hay)"
  shows "\<exists>i<length hay. agg_word_at hay w i"
proof -
  have ne: "w \<noteq> []" using assms split_words_sublist by (auto simp: agg_words_def)
  obtain a b where ab: "hay = a @ w @ b" "a = [] \<or> last a = CHR '' ''" "b = [] \<or> hd b = CHR '' ''"
    using split_words_maximal assms unfolding agg_words_def by blast
  have "char_at hay (length a + length w) \<in> {NUL, CHR '' ''}"
    using ab(1,3) by (cases b) (auto simp: char_at_def nth_append)
  moreover have "length a = 0 \<or> hay ! (length a - 1) = CHR '' ''"
    using ab(1,2) by (cases a rule: rev_cases) (auto simp: nth_append)
  ultimately have "agg_word_at hay w (length a)" using ab(1) by (simp add: agg_word_at_def)
  then show ?thesis using ab(1) ne by (intro exI [of _ "length a"]) auto
qed

text \<open>The loop over \<open>strstr\<close> recognises the words of the normalised query.\<close>

lemma agg_has_word_iff:
  assumes "CHR '' '' \<notin> set w" and "cstring hay" and "w \<noteq> []"
  shows "agg_has_word hay w \<longleftrightarrow> w \<in> set (agg_words hay)"
proof
  assume "agg_has_word hay w"
  then obtain i where "i < length hay" "agg_word_at hay w i"
    by (auto simp: agg_has_word_def list_ex_iff)
  then show "w \<in> set (agg_words hay)" using agg_word_at_split [OF assms(1,2)] assms(3) by simp
next
  assume "w \<in> set (agg_words hay)"
  then show "agg_has_word hay w"
    using agg_split_word_at [of w hay] assms(3) by (force simp: agg_has_word_def list_ex_iff)
qed

end
