(* ===== verification/Find_Parts.thy ===== *)
theory Find_Parts
  imports Generate Sorts Aggregation
begin

text \<open>
  The steps of \<open>memory_find_facts_scoped\<close> and \<open>memory_find_facts_visible_ex\<close> of
  \<open>memory_core_search_c.c\<close> around the generation and the ranking: the fetch limit, the merge of
  passes, the archive filter, the rows of the graph fusion, the lane floor
  (\<open>memory_core_search_b.c\<close>), the session window and the order by scope; and the lexical fallbacks
  of \<open>memory_core_search_b.c\<close>.
\<close>

record find_config =
  fc_routing :: bool
  fc_aggregation :: bool
  fc_aggregation_max :: int
  fc_aggregation_default :: int
  fc_budget :: bool
  fc_budget_base :: int
  fc_shape_aware :: bool
  fc_lifecycle :: bool
  fc_hide_archived :: bool
  fc_floor_summary :: int
  fc_floor_fact :: int
  fc_window_radius :: int
  fc_status_cap :: nat
  fc_seed_cap :: nat
  fc_endpoint_cap :: nat
  fc_shared_workspace :: string

text \<open>The store, and the request's scope it keeps; who sets the scope reads it back.\<close>

record scope_context =
  sc_active :: bool
  sc_include_all :: bool
  sc_workspace :: cptr
  sc_project :: cptr

record find_store =
  fs_vector_ready :: bool
  fs_aggregate :: "cptr \<Rightarrow> cptr \<Rightarrow> int \<Rightarrow> memory_t list \<times> bool"
  fs_archived :: "int list \<Rightarrow> int list"
  fs_collect :: "string \<Rightarrow> int list"
  fs_weighted :: "string \<Rightarrow> int \<Rightarrow> bool \<Rightarrow> neighbour list"
  fs_before :: "string \<Rightarrow> int \<Rightarrow> int \<Rightarrow> memory_t list"
  fs_after :: "string \<Rightarrow> int \<Rightarrow> int \<Rightarrow> memory_t list"
  fs_scope_matches :: "int \<Rightarrow> string \<Rightarrow> string \<Rightarrow> bool"
  fs_workspace_matches :: "int \<Rightarrow> string \<Rightarrow> bool"
  fs_any_scope :: "int \<Rightarrow> bool"
  fs_context_rank :: "scope_context \<Rightarrow> int \<Rightarrow> int"
  fs_context_set :: "cptr \<Rightarrow> cptr \<Rightarrow> bool \<Rightarrow> scope_context"
  fs_context_clear :: scope_context

text \<open>
  What the steps read: retrieval, ranking, tests, lanes, configuration and store.  The workspace
  and project hint of the vector index narrows what it finds; \<open>None\<close> is the cleared hint.
\<close>

type_synonym scope_hint = "(cptr \<times> cptr) option"

record 'v search_env =
  se_rv :: "scope_hint \<Rightarrow> 'v retrieval"
  se_rc :: rank_context
  se_tt :: text_tests
  se_lc :: lane_config
  se_cfg :: find_config
  se_fs :: find_store

subsection \<open>The fetch limit\<close>

definition budget_factor :: "bool \<Rightarrow> query_shape \<Rightarrow> int \<Rightarrow> real" where
  "budget_factor shape_aware shape ntok =
     (if shape_aware then memory_fetch_budget_factor shape ntok
      else if ntok \<le> 2 then 3 / 2 else if ntok \<le> 4 then 1 else if ntok \<le> 7 then 3 / 4 else 1 / 2)"

definition dynamic_fetch_max :: "find_config \<Rightarrow> query_plan \<Rightarrow> string \<Rightarrow> int \<Rightarrow> int \<Rightarrow> int" where
  "dynamic_fetch_max cfg plan norm_query fetch_min fetch_max =
     (if \<not> fc_budget cfg \<or> fc_budget_base cfg \<le> 0 then fetch_max
      else let ntok = int (length (memory_split_tokens (Some norm_query) 24));
               d0 = \<lfloor>of_int (fc_budget_base cfg) * budget_factor (fc_shape_aware cfg) (qp_shape plan) ntok\<rfloor>;
               d1 = (if d0 < fetch_min then fetch_min else d0);
               d2 = (if 96 < d1 then 96 else d1)
           in if fc_shape_aware cfg \<or> d2 < fetch_max then d2 else fetch_max)"

text \<open>Multiplier, least and greatest fetch from the plan and the environment.\<close>

definition fetch_bounds :: "environment \<Rightarrow> query_plan \<Rightarrow> int \<Rightarrow> int \<times> int \<times> int" where
  "fetch_bounds env plan limit =
     (let mul = memory_env_int env ''AIMEE_MEMORY_FETCH_MULTIPLIER''
                   (if 0 < qp_fetch_multiplier plan then qp_fetch_multiplier plan else 4) 1 16;
          fmin = memory_env_int env ''AIMEE_MEMORY_FETCH_MIN''
                   (if 0 < qp_min_fetch plan then qp_min_fetch plan else 24) limit 96;
          fmax = memory_env_int env ''AIMEE_MEMORY_FETCH_MAX''
                   (if 0 < qp_max_fetch plan then qp_max_fetch plan else 96) limit 96
      in (mul, fmin, if fmax < fmin then fmin else fmax))"

definition clamp_fetch :: "int \<Rightarrow> int \<Rightarrow> int \<Rightarrow> int \<Rightarrow> int" where
  "clamp_fetch limit mul fmin fmax =
     (let f0 = limit * mul;
          f1 = (if f0 < limit then limit else f0);
          f2 = (if f1 < fmin then fmin else f1)
      in if fmax < f2 then fmax else f2)"

definition scoped_fetch_limit :: "find_config \<Rightarrow> environment \<Rightarrow> query_plan \<Rightarrow> string \<Rightarrow> int \<Rightarrow> int" where
  "scoped_fetch_limit cfg env plan norm_query limit =
     (case fetch_bounds env plan limit of (mul, fmin, fmax) \<Rightarrow>
        clamp_fetch limit mul fmin (dynamic_fetch_max cfg plan norm_query fmin fmax))"

definition visible_fetch_limit :: "environment \<Rightarrow> query_plan \<Rightarrow> int \<Rightarrow> int" where
  "visible_fetch_limit env plan limit =
     (case fetch_bounds env plan limit of (mul, fmin, fmax) \<Rightarrow> clamp_fetch limit mul fmin fmax)"

definition start_limit :: "int \<Rightarrow> int \<Rightarrow> int" where
  "start_limit limit mx = (let l = (if limit \<le> 0 then 20 else limit) in if mx < l then mx else l)"

definition normalized :: "normalizer \<Rightarrow> string \<Rightarrow> string" where
  "normalized nrm q = (if nrm q 512 = [] then cbuf 512 q else nrm q 512)"

subsection \<open>Merging and filtering\<close>

definition memory_candidates_merge :: "nat \<Rightarrow> memory_t list \<Rightarrow> memory_t list \<Rightarrow> memory_t list" where
  "memory_candidates_merge cap primary extra =
     foldl (\<lambda>out e. if cap \<le> length out \<or> list_ex (\<lambda>p. m_id p = m_id e) out then out else out @ [e]) primary extra"

definition drop_archived :: "find_config \<Rightarrow> find_store \<Rightarrow> memory_t list \<Rightarrow> memory_t list" where
  "drop_archived cfg fs ms =
     (if \<not> fc_lifecycle cfg \<or> \<not> fc_hide_archived cfg \<or> ms = [] then ms
      else let archived = take 96 (fs_archived fs (map m_id (take 96 ms)))
           in filter (\<lambda>m. m_id m \<notin> set archived) ms)"

subsection \<open>Graph fusion\<close>

text \<open>The seeds: at most 48 entities of the first 12 candidates, each once.\<close>

definition add_seed :: "nat \<Rightarrow> string list \<Rightarrow> string \<Rightarrow> string list" where
  "add_seed cap seeds e = (if 48 \<le> length seeds \<or> e \<in> set seeds then seeds else seeds @ [cbuf cap e])"

definition fusion_seeds :: "find_config \<Rightarrow> rank_context \<Rightarrow> memory_t list \<Rightarrow> string list" where
  "fusion_seeds cfg rc ms =
     foldl (add_seed (fc_endpoint_cap cfg)) []
       (concat (map (\<lambda>m. map en_entity (take 8 (st_entities (rc_store rc) (m_id m)))) (take 12 ms)))"

definition fusion_expansion :: "find_config \<Rightarrow> find_store \<Rightarrow> rank_context \<Rightarrow> string \<Rightarrow> string list \<Rightarrow> expansion list" where
  "fusion_expansion cfg fs rc query seeds =
     (let plan = snd (memory_graph_detect_code_shape (Some query) False
                        (Some \<lparr>plan_reason = CODE_SEED_NONE, allow_code_graph = False\<rparr>));
          allow = (case plan of Some p \<Rightarrow> allow_code_graph p \<and> g_fusion_code_projection (rc_fusion rc) | None \<Rightarrow> False)
      in memory_graph_expand_from_seeds (fc_endpoint_cap cfg) (fs_collect fs) (fs_weighted fs) (Some (map Some seeds))
           2 16 allow (g_fusion_utility_scoring (rc_fusion rc)) 96)"

definition bridge_row :: "rank_context \<Rightarrow> memory_t list \<Rightarrow> expansion \<Rightarrow> memory_t list" where
  "bridge_row rc ms e =
     (if 96 \<le> length ms \<or> list_ex (\<lambda>m. m_id m = exp_id e) ms then ms
      else case st_get (rc_store rc) (exp_id e) of None \<Rightarrow> ms
           | Some row \<Rightarrow> if 0 < m_id row then ms @ [row] else ms)"

text \<open>The candidates with the bridge rows, and the expansion the ranking reads.\<close>

definition fusion_rows :: "find_config \<Rightarrow> find_store \<Rightarrow> rank_context \<Rightarrow> string \<Rightarrow> memory_t list \<Rightarrow> memory_t list \<times> rank_context" where
  "fusion_rows cfg fs rc query ms =
     (if \<not> g_fusion_on (rc_fusion rc) \<or> ms = [] then (ms, rc)
      else let seeds = fusion_seeds cfg rc ms
           in if seeds = [] then (ms, rc)
              else let es = fusion_expansion cfg fs rc query seeds
                   in (foldl (bridge_row rc) ms es,
                       rc\<lparr>rc_fusion := memory_fusion_expansions_set (Some es) (rc_fusion rc)\<rparr>))"

subsection \<open>The lane floor\<close>

text \<open>\<open>None\<close>: the row in front of the array is written.\<close>

fun lane_swaps :: "int list \<Rightarrow> nat list \<Rightarrow> nat \<Rightarrow> nat \<Rightarrow> memory_t list \<Rightarrow> (memory_t list \<times> nat) option" where
  "lane_swaps ids [] needed window ms = Some (ms, window)"
| "lane_swaps ids (t # ts) needed window ms =
     (if needed = 0 then Some (ms, window)
      else if m_id (ms ! t) \<notin> set ids then lane_swaps ids ts needed window ms
      else if window = 0 then None
      else lane_swaps ids ts (needed - 1) (window - 1) (swap_rows (window - 1) t ms))"

definition in_lane :: "int list \<Rightarrow> memory_t list \<Rightarrow> nat" where
  "in_lane ids ms = length (filter (\<lambda>m. m_id m \<in> set ids) ms)"

definition memory_apply_lane_floor ::
    "memory_t list \<Rightarrow> nat \<Rightarrow> int list \<Rightarrow> int \<Rightarrow> int \<Rightarrow> (memory_t list \<times> int) option" where
  "memory_apply_lane_floor ms rows ids floor_n window =
     (if floor_n \<le> 0 \<or> rows = 0 \<or> ids = [] \<or> window \<le> 0 then Some (ms, window)
      else let w = min (nat window) rows;
               inside = in_lane ids (take w ms)
           in if floor_n \<le> int inside then Some (ms, int w)
              else map_option (map_prod id int) (lane_swaps ids [w..<rows] (nat floor_n - inside) w ms))"

text \<open>Both floors, when the lanes are enabled.\<close>

definition lane_floors ::
    "find_config \<Rightarrow> lane_config \<Rightarrow> pool \<Rightarrow> nat \<Rightarrow> int \<Rightarrow> memory_t list \<Rightarrow> memory_t list option" where
  "lane_floors cfg lc p rows window ms =
     (if \<not> lc_lanes_enabled lc then Some ms
      else case memory_apply_lane_floor ms rows (po_lane_summary p) (fc_floor_summary cfg) window of
             None \<Rightarrow> None
           | Some (ms', eff) \<Rightarrow>
               map_option fst (memory_apply_lane_floor ms' rows (po_lane_fact p) (fc_floor_fact cfg) eff))"

subsection \<open>The session window\<close>

definition window_step :: "find_store \<Rightarrow> nat \<Rightarrow> int \<Rightarrow> memory_t list \<Rightarrow> memory_t \<Rightarrow> memory_t list" where
  "window_step fs mx radius out m =
     (if mx \<le> length out \<or> m_source_session m = [] then out
      else append_all mx (append_all mx out (take 32 (fs_before fs (m_source_session m) (m_id m) radius)))
             (take 32 (fs_after fs (m_source_session m) (m_id m) radius)))"

definition memory_expand_to_session_window :: "find_store \<Rightarrow> memory_t list \<Rightarrow> nat \<Rightarrow> int \<Rightarrow> memory_t list" where
  "memory_expand_to_session_window fs out mx radius =
     (if out = [] \<or> mx = 0 \<or> radius \<le> 0 then out else foldl (window_step fs mx radius) out out)"

subsection \<open>Scope\<close>

definition memory_scope_visibility_rank :: "find_config \<Rightarrow> find_store \<Rightarrow> int \<Rightarrow> cptr \<Rightarrow> cptr \<Rightarrow> int" where
  "memory_scope_visibility_rank cfg fs memory_id workspace project =
     (let matches = (\<lambda>t v. memory_scope_matches (fs_scope_matches fs) (fs_workspace_matches fs) memory_id (Some t) v)
      in if memory_id \<le> 0 then 0
         else if nonempty project \<and> matches ''project'' project then 3
         else if nonempty workspace \<and> matches ''workspace'' workspace then 2
         else if matches ''global'' (Some ''_global'') \<or> matches ''workspace'' (Some (fc_shared_workspace cfg)) \<or>
                 \<not> fs_any_scope fs memory_id then 1
         else 0)"

definition memory_sort_scope_buckets :: "(int \<Rightarrow> int) \<Rightarrow> memory_t list \<Rightarrow> memory_t list" where
  "memory_sort_scope_buckets rank = insertion_sort (rank \<circ> m_id)"

subsection \<open>The lexical fallbacks\<close>

definition fallback_fetch :: "int \<Rightarrow> int" where
  "fallback_fetch limit = (let f = limit * 4; f' = (if f < limit then limit else f) in if 64 < f' then 64 else f')"

text \<open>The rows of the whole query and of its signal tokens, and what is made of them; an error of
  the search is \<open>None\<close>, the code's negative return.\<close>

definition like_rows :: "'v retrieval \<Rightarrow> string \<Rightarrow> int \<Rightarrow> memory_t list option" where
  "like_rows rv t limit = map_option (take 64) (rv_like rv t limit)"

definition fallback_terms :: "'v retrieval \<Rightarrow> string \<Rightarrow> string list" where
  "fallback_terms rv query =
     filter (\<lambda>t. memory_is_signal_token (Some t)) (memory_split_tokens (Some (rv_norm rv query 512)) 24)"

definition fallback_collect ::
    "'v retrieval \<Rightarrow> (memory_t list \<Rightarrow> memory_t list) \<Rightarrow> nat \<Rightarrow> nat \<Rightarrow> string \<Rightarrow> string list \<Rightarrow> int \<Rightarrow> memory_t list option" where
  "fallback_collect rv keep stop cap query terms fetch =
     foldl (\<lambda>r t. case r of None \<Rightarrow> None
        | Some out \<Rightarrow> if t \<noteq> None \<and> stop \<le> length out then Some out
            else case like_rows rv (case t of None \<Rightarrow> query | Some w \<Rightarrow> w) fetch of None \<Rightarrow> None
                 | Some got \<Rightarrow> Some (foldl (\<lambda>o' m. if stop \<le> length o' then o' else memory_append_unique cap o' m)
                                     out (keep got)))
       (Some []) (None # map Some terms)"

definition memory_find_facts_lexical_fallback ::
    "'v search_env \<Rightarrow> cptr \<Rightarrow> cptr \<Rightarrow> cptr \<Rightarrow> int \<Rightarrow> int \<Rightarrow> memory_t list option" where
  "memory_find_facts_lexical_fallback se query scope_type scope_value limit mx =
     (if \<not> nonempty query \<or> mx \<le> 0 then Some []
      else let l = start_limit limit mx; rv = se_rv se None; fs = se_fs se
           in fallback_collect rv
                (\<lambda>ms. memory_filter_scope (fs_scope_matches fs) (fs_workspace_matches fs) ms scope_type scope_value)
                (nat l) (nat mx) (cptr_str query) (fallback_terms rv (cptr_str query)) (fallback_fetch l))"

definition memory_find_facts_visible_lexical_fallback ::
    "'v search_env \<Rightarrow> scope_context \<Rightarrow> cptr \<Rightarrow> cptr \<Rightarrow> cptr \<Rightarrow> int \<Rightarrow> int \<Rightarrow> memory_t list option" where
  "memory_find_facts_visible_lexical_fallback se ctx query workspace project limit mx =
     (if \<not> nonempty query \<or> mx \<le> 0 then Some []
      else let l = start_limit limit mx; rv = se_rv se None; fs = se_fs se;
               rank = (\<lambda>i. if sc_active ctx then fs_context_rank fs ctx i
                           else memory_scope_visibility_rank (se_cfg se) fs i workspace project)
           in case fallback_collect rv id 64 64 (cptr_str query) (fallback_terms rv (cptr_str query)) (fallback_fetch l) of
                None \<Rightarrow> None
              | Some rows \<Rightarrow>
                  let kept = filter (\<lambda>m. 0 < rank (m_id m) \<or> sc_active ctx \<and> sc_include_all ctx) rows
                  in Some (take (nat l) (map snd (selection_sort fst (map (\<lambda>m. (rank (m_id m), m)) kept)))))"

end
