(* ===== verification/Rewrite.thy ===== *)
theory Rewrite
  imports Query Temporal Json
begin

text \<open>
  \<open>memory_query_rewrite\<close> of \<open>memory_core_search_c.c\<close>: when a query is rewritten, the prompt or the
  sidecar's request, and how the response is read.

  The language model, the sidecar process and cJSON's parser are parameters, as are the sizes of
  \<open>memory_query_rewrite_t\<close>, which is declared outside \<open>src/\<close>; all of them and the configuration are
  the record \<open>rewrite_config\<close>.
\<close>

record rewrite_config =
  rw_enabled :: bool
  rw_inproc :: "(string \<Rightarrow> string \<Rightarrow> cptr) option"
  rw_command :: string
  rw_hyde :: bool
  rw_decompose :: bool
  rw_max_sub :: int
  rw_exec :: "string \<Rightarrow> cjson \<Rightarrow> cptr"
  rw_parse :: "string \<Rightarrow> cjson option"
  rw_routing :: bool
  rw_norm :: normalizer
  rw_cap_hyde :: nat
  rw_cap_sub :: nat
  rw_max_subqueries :: nat

record rewrite =
  rq_hyde :: cptr
  rq_subs :: "string list"

definition no_rewrite :: rewrite where
  "no_rewrite = \<lparr>rq_hyde = None, rq_subs = []\<rparr>"

subsection \<open>The request\<close>

definition newline :: string where
  "newline = [CHR 0x0A]"

definition quoted :: "string \<Rightarrow> string" where
  "quoted s = CHR 0x22 # s @ [CHR 0x22]"

definition max_sub :: "rewrite_config \<Rightarrow> int" where
  "max_sub cfg = (if 0 < rw_max_sub cfg then rw_max_sub cfg else 4)"

definition hyde_line :: "rewrite_config \<Rightarrow> string" where
  "hyde_line cfg =
     (if rw_hyde cfg
      then ''- hyde_answer: a single short hypothetical answer to the query, as if you knew '' @
           ''the fact. 1-3 sentences, declarative prose, no caveats.'' @ newline
      else [])"

definition decomp_line :: "rewrite_config \<Rightarrow> string" where
  "decomp_line cfg =
     (if rw_decompose cfg
      then cbuf 192 (''- sub_questions: up to '' @ digits (nat (max_sub cfg)) @
             '' simpler sub-queries that together cover the original '' @
             ''(array of strings, may be empty if already atomic).'' @ newline)
      else [])"

definition sys_prompt :: "rewrite_config \<Rightarrow> string" where
  "sys_prompt cfg =
     cbuf 1024 (''You are a query-rewrite assistant for a retrieval system. Given the user'' @ [CHR 0x27] @
       ''s query, produce these fields:'' @ newline @ hyde_line cfg @ decomp_line cfg @
       ''Respond with a single JSON object, no prose and no code fences. Schema: {'' @
       quoted ''hyde_answer'' @ '': '' @ quoted ''...'' @ '' (or '' @ quoted [] @ ''), '' @
       quoted ''sub_questions'' @ '': [...] (or [])}'')"

definition rewrite_request :: "rewrite_config \<Rightarrow> string \<Rightarrow> cjson" where
  "rewrite_request cfg query =
     JObject [(''query'', JString query), (''hyde'', JBool (rw_hyde cfg)),
              (''decompose'', JBool (rw_decompose cfg)), (''max_subqueries'', JNumber (max_sub cfg))]"

definition rewrite_response :: "rewrite_config \<Rightarrow> string \<Rightarrow> cptr" where
  "rewrite_response cfg query =
     (case rw_inproc cfg of
        Some llm \<Rightarrow> llm (sys_prompt cfg) query
      | None \<Rightarrow> rw_exec cfg (rw_command cfg) (rewrite_request cfg query))"

subsection \<open>The response\<close>

text \<open>From the first brace to the last, if they stand in that order.\<close>

definition object_span :: "string \<Rightarrow> cptr" where
  "object_span resp =
     (let opened = dropWhile (\<lambda>c. c \<noteq> CHR ''{'') resp;
          body = rev (dropWhile (\<lambda>c. c \<noteq> CHR ''}'') (rev opened))
      in if opened = [] \<or> body = [] then None else Some body)"

definition text_items :: "cjson \<Rightarrow> string list" where
  "text_items j = List.map_filter (\<lambda>e. case e of JString s \<Rightarrow> if s = [] then None else Some s | _ \<Rightarrow> None) (json_items j)"

definition read_rewrite :: "rewrite_config \<Rightarrow> cjson \<Rightarrow> rewrite" where
  "read_rewrite cfg j =
     \<lparr>rq_hyde = (if rw_hyde cfg \<and> nonempty (json_text j ''hyde_answer'')
                 then Some (cbuf (rw_cap_hyde cfg) (cptr_str (json_text j ''hyde_answer''))) else None),
      rq_subs = (case json_get j ''sub_questions'' of
                   Some sq \<Rightarrow> if rw_decompose cfg \<and> is_JArray sq
                              then map (cbuf (rw_cap_sub cfg)) (take (rw_max_subqueries cfg) (text_items sq)) else []
                 | None \<Rightarrow> [])\<rparr>"

definition memory_query_rewrite :: "rewrite_config \<Rightarrow> cptr \<Rightarrow> rewrite" where
  "memory_query_rewrite cfg query =
     (if \<not> nonempty query \<or> \<not> rw_enabled cfg \<or> (rw_inproc cfg = None \<and> rw_command cfg = []) \<or>
         \<not> rw_hyde cfg \<and> \<not> rw_decompose cfg then no_rewrite
      else if map_option qp_route (memory_query_plan (rw_norm cfg) (rw_routing cfg) query 10 96)
              \<in> {Some ROUTE_LEXICAL, Some ROUTE_GRAPH} then no_rewrite
      else let resp = rewrite_response cfg (cptr_str query)
           in if \<not> nonempty resp then no_rewrite
              else case object_span (cptr_str resp) of None \<Rightarrow> no_rewrite
                   | Some obj \<Rightarrow> (case rw_parse cfg obj of None \<Rightarrow> no_rewrite | Some j \<Rightarrow> read_rewrite cfg j))"

subsection \<open>Properties\<close>

lemma object_span_braces:
  assumes "object_span resp = Some obj"
  shows "\<exists>a b. resp = a @ obj @ b \<and> hd obj = CHR ''{'' \<and> last obj = CHR ''}'' \<and> 2 \<le> length obj"
proof -
  define opened where "opened = dropWhile (\<lambda>c. c \<noteq> CHR ''{'') resp"
  define closed where "closed = dropWhile (\<lambda>c. c \<noteq> CHR ''}'') (rev opened)"
  have obj: "opened \<noteq> []" "closed \<noteq> []" "obj = rev closed"
    using assms by (auto simp: object_span_def Let_def opened_def closed_def split: if_splits)
  have first: "hd opened = CHR ''{''" and last': "hd closed = CHR ''}''"
    using obj(1,2) hd_dropWhile unfolding opened_def closed_def by blast+
  obtain b where "rev opened = b @ closed"
    unfolding closed_def by (metis takeWhile_dropWhile_id)
  then have o: "opened = obj @ rev b" using obj(3) by (metis rev_append rev_rev_ident)
  obtain a where "resp = a @ opened" unfolding opened_def by (metis takeWhile_dropWhile_id)
  moreover have "hd obj = CHR ''{''" using first o obj(2,3) by (simp add: hd_append)
  moreover have "last obj = CHR ''}''" using last' obj(2,3) by (simp add: last_rev)
  moreover have "2 \<le> length obj"
  proof (cases obj)
    case (Cons c cs)
    then show ?thesis using calculation(2,3) by (cases cs) auto
  qed (use obj(2,3) in simp)
  ultimately show ?thesis using o by auto
qed

text \<open>A rewrite fits its buffers, and a hypothetical answer is not empty.\<close>

definition rewrite_ok :: "rewrite_config \<Rightarrow> rewrite \<Rightarrow> bool" where
  "rewrite_ok cfg r \<longleftrightarrow>
     length (rq_subs r) \<le> rw_max_subqueries cfg \<and> list_all (\<lambda>s. s \<noteq> [] \<and> length s < rw_cap_sub cfg) (rq_subs r) \<and>
     (\<forall>h. rq_hyde r = Some h \<longrightarrow> h \<noteq> [] \<and> length h < rw_cap_hyde cfg)"

lemma nonempty_str: "nonempty p \<Longrightarrow> cptr_str p \<noteq> []"
  by (cases p) simp_all

lemma text_items_nonempty: "s \<in> set (text_items j) \<Longrightarrow> s \<noteq> []"
  by (auto simp: text_items_def List.map_filter_def split: cjson.splits if_splits)

lemma rewrite_fits:
  assumes "1 < rw_cap_hyde cfg" and "1 < rw_cap_sub cfg"
  shows "rewrite_ok cfg (memory_query_rewrite cfg query)"
proof -
  have "rewrite_ok cfg (read_rewrite cfg j)" for j
    using assms text_items_nonempty nonempty_str [of "json_text j ''hyde_answer''"]
    by (auto simp: rewrite_ok_def read_rewrite_def list_all_iff cbuf_def
        dest!: in_set_takeD split: option.splits)
  moreover have "rewrite_ok cfg no_rewrite" by (simp add: rewrite_ok_def no_rewrite_def)
  ultimately show ?thesis
    by (auto simp: memory_query_rewrite_def Let_def split: option.split)
qed

end
