(* ===== verification/Search.thy ===== *)
theory Search
  imports Find_Parts Rewrite
begin

text \<open>
  The searches of \<open>memory_core_search_c.c\<close>: \<open>memory_find_facts_scoped\<close>, \<open>memory_find_facts\<close>,
  \<open>memory_find_facts_visible_ex\<close>, \<open>memory_diagnose_scoped\<close> and \<open>memory_explain_match\<close>, composed of
  the generation, the steps of \<open>Find_Parts\<close> and the ranking in the code's order.

  Between the steps the code keeps the two static lane lists, the link-rank statistics and the
  request's scope: the record \<open>find_state\<close>.  Batching of embeddings, timing, counters and logs do
  not change a result and are not modelled.  \<open>Wild_Write\<close> is the outcome of a call that writes
  outside its array: the lane floor in front of it, or the ranking behind it, which appends linked
  neighbours up to 128 rows to an array of \<open>MEMORY_RERANK_BUFFER\<close> rows.
\<close>

definition MEMORY_RERANK_BUFFER :: nat where
  "MEMORY_RERANK_BUFFER = 96"


record find_state =
  fd_pool :: pool
  fd_stats :: pagerank_stats
  fd_scope :: scope_context

datatype find_outcome = Found "memory_t list" | Failed | Wild_Write

definition found_of :: "memory_t list option \<Rightarrow> find_outcome" where
  "found_of r = (case r of None \<Rightarrow> Failed | Some ms \<Rightarrow> Found ms)"

record 'v find_env = "'v search_env" +
  fe_rewrite :: rewrite_config
  fe_elapsed :: real

subsection \<open>The passes\<close>

definition zero_plan :: query_plan where
  "zero_plan = \<lparr>qp_shape = SHAPE_UNKNOWN, qp_route = ROUTE_LEXICAL, qp_graph_hops = 0, qp_semantic_enabled = False,
     qp_weights = \<lparr>lexical_weight = 0, semantic_weight = 0, graph_weight = 0, temporal_weight = 0\<rparr>,
     qp_fetch_multiplier = 0, qp_min_fetch = 0, qp_max_fetch = 0\<rparr>"

definition find_plan :: "'v find_env \<Rightarrow> query_plan \<Rightarrow> string \<Rightarrow> int \<Rightarrow> query_plan" where
  "find_plan fe other query limit =
     (case memory_query_plan (rc_norm (se_rc fe)) (fc_routing (se_cfg fe)) (Some query) limit 96 of
        None \<Rightarrow> other | Some p \<Rightarrow> p)"

definition find_norm :: "'v find_env \<Rightarrow> string \<Rightarrow> string" where
  "find_norm fe q = normalized (rc_norm (se_rc fe)) q"

definition generate ::
    "'v find_env \<Rightarrow> scope_hint \<Rightarrow> string \<Rightarrow> string \<Rightarrow> query_intent \<Rightarrow> query_plan \<Rightarrow> int \<Rightarrow> nat \<Rightarrow> pool \<Rightarrow> pool option" where
  "generate fe hint query norm_query intent plan fetch mx p =
     memory_generate_candidates (se_rv fe hint) (se_tt fe) (se_lc fe) (Some query) (Some norm_query) intent
       (Some plan) fetch mx p"

text \<open>The pass of the query itself beside the one of a hypothetical answer.\<close>

definition original_pass ::
    "'v find_env \<Rightarrow> scope_hint \<Rightarrow> rewrite \<Rightarrow> string \<Rightarrow> query_intent \<Rightarrow> query_plan \<Rightarrow> int
     \<Rightarrow> memory_t list \<times> pool \<Rightarrow> (memory_t list \<times> pool) option" where
  "original_pass fe hint rw query intent plan fetch st =
     (if rq_hyde rw = None then Some st
      else case generate fe hint query (find_norm fe query) intent plan
                  (if 0 < fetch div 2 then fetch div 2 else 8) 96 (snd st) of
             None \<Rightarrow> None
           | Some p \<Rightarrow> Some (memory_candidates_merge 96 (fst st) (po_rows p), p))"

definition sub_pass ::
    "'v find_env \<Rightarrow> scope_hint \<Rightarrow> query_plan \<Rightarrow> int \<Rightarrow> int \<Rightarrow> (memory_t list \<times> pool) option \<Rightarrow> string
     \<Rightarrow> (memory_t list \<times> pool) option" where
  "sub_pass fe hint plan limit fetch st sub =
     (case st of None \<Rightarrow> None
      | Some (rows, p) \<Rightarrow>
          let nq = find_norm fe sub
          in case generate fe hint sub nq (memory_query_intent (Some sub) (Some nq)) (find_plan fe plan sub limit)
                    fetch 48 p of
               None \<Rightarrow> None
             | Some p' \<Rightarrow> Some (memory_candidates_merge 96 rows (po_rows p'), p'))"

text \<open>All passes: the rows, the pool of the first pass and the pool of the last.\<close>

definition all_passes ::
    "'v find_env \<Rightarrow> scope_hint \<Rightarrow> rewrite \<Rightarrow> string \<Rightarrow> query_plan \<Rightarrow> int \<Rightarrow> int \<Rightarrow> pool \<Rightarrow> (memory_t list \<times> pool \<times> pool) option" where
  "all_passes fe hint rw query plan limit fetch p0 =
     (let norm_query = find_norm fe query;
          intent = memory_query_intent (Some query) (Some norm_query);
          first = (case rq_hyde rw of None \<Rightarrow> generate fe hint query norm_query intent plan fetch 96 p0
                   | Some h \<Rightarrow> generate fe hint h (find_norm fe h) intent plan fetch 96 p0)
      in case first of None \<Rightarrow> None
         | Some p1 \<Rightarrow>
             map_option (\<lambda>(rows, p). (rows, p1, p))
               (foldl (sub_pass fe hint plan limit (fetch div (int (length (rq_subs rw)) + 1)))
                  (original_pass fe hint rw query intent plan fetch (po_rows p1, p1)) (rq_subs rw)))"

subsection \<open>Scoped search\<close>

text \<open>Ranking, the lane floors and the session window.\<close>

definition rank_scoped ::
    "'v find_env \<Rightarrow> string \<Rightarrow> memory_t list \<Rightarrow> rank_context \<Rightarrow> pool \<Rightarrow> pool \<Rightarrow> int \<Rightarrow> int \<Rightarrow> find_state
     \<Rightarrow> find_outcome \<times> find_state" where
  "rank_scoped fe query rows rc p1 p limit mx st =
     (let (n, ranked, stats) = memory_rerank_matches rc (se_tt fe) (fe_elapsed fe) (fd_stats st) (Some query) rows
                                 limit (po_hits p1) (po_stats p1);
          n' = (if mx < n then mx else n);
          st' = st\<lparr>fd_pool := p, fd_stats := stats\<rparr>
      in (if MEMORY_RERANK_BUFFER < length ranked then Wild_Write
          else case lane_floors (se_cfg fe) (se_lc fe) p (length rows) n' ranked of
            None \<Rightarrow> Wild_Write
          | Some ranked' \<Rightarrow>
              Found (memory_expand_to_session_window (se_fs fe) (take (nat n') ranked') (nat mx)
                       (fc_window_radius (se_cfg fe))), st'))"

definition scoped_hint :: "cptr \<Rightarrow> cptr \<Rightarrow> scope_hint" where
  "scoped_hint scope_type scope_value =
     Some (if scope_type = Some ''workspace'' then scope_value else None,
           if scope_type = Some ''project'' then scope_value else None)"

definition find_ranked ::
    "'v find_env \<Rightarrow> string \<Rightarrow> cptr \<Rightarrow> cptr \<Rightarrow> int \<Rightarrow> int \<Rightarrow> find_state \<Rightarrow> find_outcome \<times> find_state" where
  "find_ranked fe query scope_type scope_value limit mx st =
     (let rw = memory_query_rewrite (fe_rewrite fe) (Some query);
          plan = find_plan fe zero_plan query limit;
          fetch = scoped_fetch_limit (se_cfg fe) (rc_env (se_rc fe)) plan (find_norm fe query) limit;
          fs = se_fs fe
      in case all_passes fe (scoped_hint scope_type scope_value) rw query plan limit fetch (fd_pool st) of
           None \<Rightarrow> (Failed, st)
         | Some (rows, p1, p) \<Rightarrow>
             let scoped = memory_filter_scope (fs_scope_matches fs) (fs_workspace_matches fs) rows scope_type scope_value;
                 (cands, rc) = fusion_rows (se_cfg fe) fs (se_rc fe) query (drop_archived (se_cfg fe) fs scoped)
             in rank_scoped fe query cands rc p1 p limit mx st)"

definition aggregation_limit :: "find_config \<Rightarrow> int \<Rightarrow> int \<Rightarrow> int" where
  "aggregation_limit cfg limit mx =
     (let req = (if 0 < limit then limit else 20);
          cap0 = (if 0 < fc_aggregation_max cfg then fc_aggregation_max cfg else fc_aggregation_default cfg);
          cap = (if mx < cap0 then mx else cap0)
      in if cap < req then cap else req)"

definition memory_find_facts_scoped ::
    "'v find_env \<Rightarrow> cptr \<Rightarrow> cptr \<Rightarrow> cptr \<Rightarrow> int \<Rightarrow> int \<Rightarrow> find_state \<Rightarrow> find_outcome \<times> find_state" where
  "memory_find_facts_scoped fe query scope_type scope_value limit mx st =
     (if \<not> nonempty query then (Found [], st)
      else let cfg = se_cfg fe;
               hint = (if fc_aggregation cfg then memory_detect_aggregation_shape (fc_status_cap cfg) (fc_seed_cap cfg) query
                       else None)
           in if hint \<noteq> None
              then (Found (fst (memory_aggregate (fs_aggregate (se_fs fe)) (fc_aggregation_default cfg) hint query
                      (aggregation_limit cfg limit mx) mx)), st)
              else if \<not> fs_vector_ready (se_fs fe)
              then (found_of (memory_find_facts_lexical_fallback (search_env.truncate fe) query scope_type scope_value limit mx), st)
              else find_ranked fe (cptr_str query) scope_type scope_value (start_limit limit mx) mx st)"

definition memory_find_facts :: "'v find_env \<Rightarrow> cptr \<Rightarrow> int \<Rightarrow> int \<Rightarrow> find_state \<Rightarrow> find_outcome \<times> find_state" where
  "memory_find_facts fe query limit mx st = memory_find_facts_scoped fe query None None limit mx st"

subsection \<open>Visible search\<close>

definition restore_scope :: "find_store \<Rightarrow> scope_context \<Rightarrow> scope_context" where
  "restore_scope fs previous =
     (if sc_active previous
      then fs_context_set fs (sc_workspace previous) (sc_project previous) (sc_include_all previous)
      else fs_context_clear fs)"

text \<open>The rows in the order of their scope, before and after the lane floors.\<close>

definition rank_visible ::
    "'v find_env \<Rightarrow> string \<Rightarrow> (int \<Rightarrow> int) \<Rightarrow> memory_t list \<Rightarrow> pool \<Rightarrow> int \<Rightarrow> int \<Rightarrow> pagerank_stats
     \<Rightarrow> find_outcome \<times> pagerank_stats" where
  "rank_visible fe query rank kept p limit mx stats =
     (let (n, ranked, stats') = memory_rerank_matches (se_rc fe) (se_tt fe) (fe_elapsed fe) stats (Some query) kept
                                  (int (length kept)) (po_hits p) (po_stats p);
          n1 = (if n < limit then n else limit);
          n2 = (if mx < n1 then mx else n1);
          local_first = memory_sort_scope_buckets rank (take (nat n) ranked)
      in (if MEMORY_RERANK_BUFFER < length ranked then Wild_Write
          else case lane_floors (se_cfg fe) (se_lc fe) p (nat n) n2 local_first of
            None \<Rightarrow> Wild_Write
          | Some promoted \<Rightarrow> Found (take (nat n2) (memory_sort_scope_buckets rank promoted)), stats'))"

definition memory_find_facts_visible_ex ::
    "'v find_env \<Rightarrow> cptr \<Rightarrow> cptr \<Rightarrow> cptr \<Rightarrow> bool \<Rightarrow> int \<Rightarrow> int \<Rightarrow> find_state \<Rightarrow> find_outcome \<times> find_state" where
  "memory_find_facts_visible_ex fe query workspace project include_all limit mx st =
     (if \<not> nonempty query then (Found [], st)
      else let fs = se_fs fe; previous = fd_scope st;
               everything = (if sc_active previous then sc_include_all previous else include_all);
               ctx = fs_context_set fs workspace project everything;
               st1 = st\<lparr>fd_scope := restore_scope fs previous\<rparr>;
               q = cptr_str query; lim = start_limit limit mx;
               plan = find_plan fe zero_plan q lim;
               norm_query = find_norm fe q;
               fetch = visible_fetch_limit (rc_env (se_rc fe)) plan lim
           in if \<not> fs_vector_ready fs
              then (found_of (memory_find_facts_visible_lexical_fallback (search_env.truncate fe) ctx query workspace project limit mx), st1)
              else case generate fe (Some (workspace, project)) q norm_query
                          (memory_query_intent query (Some norm_query)) plan fetch 96 (fd_pool st) of
                     None \<Rightarrow> (Failed, st1)
                   | Some p \<Rightarrow>
                       let rank = fs_context_rank fs ctx;
                           kept = filter (\<lambda>m. 0 < rank (m_id m) \<or> everything) (po_rows p);
                           (out, stats) = rank_visible fe q rank kept p lim mx (fd_stats st)
                       in (out, st1\<lparr>fd_pool := p, fd_stats := stats\<rparr>))"

definition memory_find_facts_visible ::
    "'v find_env \<Rightarrow> cptr \<Rightarrow> cptr \<Rightarrow> cptr \<Rightarrow> int \<Rightarrow> int \<Rightarrow> find_state \<Rightarrow> find_outcome \<times> find_state" where
  "memory_find_facts_visible fe query workspace project limit mx st =
     memory_find_facts_visible_ex fe query workspace project False limit mx st"

end
