(* ===== verification/Generate_Invariant.thy ===== *)
theory Generate_Invariant
  imports Generate
begin

text \<open>
  The invariant of candidate collection: no candidate twice, never more than the array holds, and
  for each of the first 128 candidates, in order, exactly one note of its source.  The contract
  of a collector is the locale \<open>collecting\<close>; every collector of the module is an instance.
\<close>

definition lane_masks :: "source_mask set" where
  "lane_masks = {1, 2, 4, 8, 16, 32, 64, 128, 256, 320, 512, 1024, 2048}"

definition pool_ok :: "nat \<Rightarrow> pool \<Rightarrow> bool" where
  "pool_ok mx p \<longleftrightarrow>
     distinct (map m_id (po_rows p)) \<and> length (po_rows p) \<le> mx \<and>
     map fst (po_stats p) = map m_id (take 128 (po_rows p)) \<and> snd ` set (po_stats p) \<subseteq> lane_masks"

definition grows :: "nat \<Rightarrow> memory_t list \<Rightarrow> memory_t list \<Rightarrow> bool" where
  "grows mx out out' \<longleftrightarrow>
     (\<exists>new. out' = out @ new \<and> (distinct (map m_id out) \<longrightarrow> distinct (map m_id out')) \<and>
            (length out \<le> mx \<longrightarrow> length out' \<le> mx))"

lemma grows_refl [simp, intro]: "grows mx out out"
  by (simp add: grows_def)

lemma grows_trans: "grows mx a b \<Longrightarrow> grows mx b c \<Longrightarrow> grows mx a c"
  by (auto simp: grows_def)

lemma append_unique_grows: "grows mx out (memory_append_unique mx out c)"
  by (auto simp: grows_def memory_append_unique_def list_ex_iff)

lemma append_all_grows: "grows mx out (append_all mx out cs)"
  by (induction cs arbitrary: out) (auto simp: append_all_def intro: grows_trans append_unique_grows)

subsection \<open>Noting sources\<close>

lemma note_source_fresh:
  "i \<notin> fst ` set stats \<Longrightarrow>
     note_source room bits stats i = (if length stats < room then stats @ [(i, bits)] else stats)"
  by (induction room bits stats i rule: note_source.induct) auto

lemma note_sources_fresh:
  "distinct (map fst stats @ ids) \<Longrightarrow>
     foldl (note_source room bits) stats ids = stats @ map (\<lambda>i. (i, bits)) (take (room - length stats) ids)"
proof (induction ids arbitrary: stats)
  case (Cons i ids)
  then have fresh: "i \<notin> fst ` set stats" by auto
  show ?case
  proof (cases "length stats < room")
    case True
    then have "note_source room bits stats i = stats @ [(i, bits)]"
      using note_source_fresh [OF fresh] by simp
    then show ?thesis
      using Cons.IH [of "stats @ [(i, bits)]"] Cons.prems True by (simp add: take_Cons' Suc_diff_Suc)
  next
    case False
    then have "note_source room bits stats i = stats"
      using note_source_fresh [OF fresh] by simp
    then show ?thesis
      using Cons.IH [of stats] Cons.prems False by simp
  qed
qed simp

lemma noted_ok:
  assumes ok: "pool_ok mx p" and grow: "grows mx (po_rows p) (f (po_rows p))" and bits: "bits \<in> lane_masks"
  shows "pool_ok mx (noted bits f p)"
proof -
  let ?rows = "po_rows p" and ?stats = "po_stats p"
  obtain new where new: "f ?rows = ?rows @ new" "distinct (map m_id (?rows @ new))" "length (?rows @ new) \<le> mx"
    using grow ok by (auto simp: grows_def pool_ok_def)
  have fst_stats: "map fst ?stats = map m_id (take 128 ?rows)"
    using ok by (simp add: pool_ok_def)
  then have len: "length ?stats = min (length ?rows) 128"
    by (metis length_map length_take)
  have "distinct (map fst ?stats @ map m_id new)"
    using new(2) distinct_take [of "map m_id ?rows" 128]
    by (auto simp: fst_stats take_map dest: in_set_takeD)
  note noted = note_sources_fresh [OF this, of 128 bits]
  have "bits \<noteq> 0" using bits by (auto simp: lane_masks_def)
  then have stats': "po_stats (noted bits f p) = ?stats @ map (\<lambda>i. (i, bits)) (take (128 - length ?stats) (map m_id new))"
    by (simp add: noted_def Let_def memory_note_candidate_sources_def new(1) noted)
  have "map fst (po_stats (noted bits f p)) = map m_id (take 128 (?rows @ new))"
    by (simp add: stats' fst_stats len comp_def take_map min_def)
  moreover have "snd ` set (po_stats (noted bits f p)) \<subseteq> lane_masks"
    using ok bits by (auto simp: stats' pool_ok_def)
  ultimately show ?thesis
    using new by (simp add: pool_ok_def noted_def Let_def)
qed

locale collecting =
  fixes f :: "memory_t list \<Rightarrow> memory_t list" and mx :: nat
  assumes grows_rows: "grows mx out (f out)"
begin

lemma noted_pool: "pool_ok mx p \<Longrightarrow> bits \<in> lane_masks \<Longrightarrow> pool_ok mx (noted bits f p)"
  by (rule noted_ok) (simp_all add: grows_rows)

end

lemma collect_via_grows: "grows mx out (memory_collect_via collect t limit mx out)"
  by (simp add: memory_collect_via_def append_all_grows)

interpretation appending: collecting "\<lambda>out. memory_append_unique mx out c" mx for mx c
  by unfold_locales (rule append_unique_grows)

interpretation alias_lane: collecting "memory_collect_alias_matches rv t limit mx" mx for rv t limit mx
  by unfold_locales (simp add: memory_collect_alias_matches_def collect_via_grows)

interpretation entity_lane: collecting "memory_collect_entity_matches rv t limit mx" mx for rv t limit mx
  by unfold_locales (simp add: memory_collect_entity_matches_def collect_via_grows)

interpretation temporal_lane: collecting "memory_collect_temporal_matches rv t limit mx" mx for rv t limit mx
  by unfold_locales (simp add: memory_collect_temporal_matches_def collect_via_grows)

interpretation summary_lane: collecting "memory_collect_summary_matches rv t limit mx" mx for rv t limit mx
  by unfold_locales (simp add: memory_collect_summary_matches_def collect_via_grows)

interpretation event_lane: collecting "memory_collect_event_frame_matches rv t limit mx" mx for rv t limit mx
  by unfold_locales (simp add: memory_collect_event_frame_matches_def collect_via_grows)

interpretation chunk_lane: collecting "memory_collect_chunk_matches rv t limit mx" mx for rv t limit mx
  by unfold_locales (simp add: memory_collect_chunk_matches_def append_all_grows)

interpretation code_lane: collecting "memory_collect_code_matches rv t limit mx" mx for rv t limit mx
  by unfold_locales (simp add: memory_collect_code_matches_def append_all_grows)

interpretation unit_lane: collecting "memory_collect_unit_matches rv t limit mx" mx for rv t limit mx
  by unfold_locales (simp add: memory_collect_unit_matches_def append_all_grows Let_def)

lemma lane_mask_simps [simp, intro]:
  "1 \<in> lane_masks" "2 \<in> lane_masks" "4 \<in> lane_masks" "8 \<in> lane_masks" "16 \<in> lane_masks" "32 \<in> lane_masks"
  "64 \<in> lane_masks" "128 \<in> lane_masks" "256 \<in> lane_masks" "320 \<in> lane_masks" "512 \<in> lane_masks"
  "1024 \<in> lane_masks" "2048 \<in> lane_masks"
  by (simp_all add: lane_masks_def)

lemmas collector_pools =
  appending.noted_pool alias_lane.noted_pool entity_lane.noted_pool temporal_lane.noted_pool summary_lane.noted_pool
  event_lane.noted_pool chunk_lane.noted_pool code_lane.noted_pool unit_lane.noted_pool

subsection \<open>The composed lanes\<close>

lemma noted_rows_ok: "pool_ok mx p \<Longrightarrow> bits \<in> lane_masks \<Longrightarrow> pool_ok mx (noted_rows mx bits cs p)"
  unfolding noted_rows_def by (induction cs arbitrary: p) (simp_all add: collector_pools)

lemma pool_ok_lanes [simp]: "pool_ok mx (p\<lparr>po_lane_summary := s, po_lane_fact := f\<rparr>) = pool_ok mx p"
  by (simp add: pool_ok_def)

lemma pool_ok_hits [simp]: "pool_ok mx (p\<lparr>po_hits := h\<rparr>) = pool_ok mx p"
  by (simp add: pool_ok_def)

lemma lexical_lanes_ok: "pool_ok mx p \<Longrightarrow> pool_ok mx (lexical_lanes rv lc mx q limit p)"
  by (simp add: lexical_lanes_def lane_def Let_def noted_rows_ok)

lemma term_lanes_ok: "pool_ok mx p \<Longrightarrow> pool_ok mx (term_lanes rv intent limit mx p t)"
  by (simp add: term_lanes_def Let_def collector_pools)

lemma terms_ok_fold: "pool_ok mx p \<Longrightarrow> pool_ok mx (foldl (term_lanes rv intent limit mx) p ts)"
  by (induction ts arbitrary: p) (simp_all add: term_lanes_ok)

lemma variant_ok:
  "pool_ok mx p \<Longrightarrow> memory_collect_variant_candidates rv lc raw nv intent limit mx p = Some p' \<Longrightarrow> pool_ok mx p'"
  by (auto simp: memory_collect_variant_candidates_def Let_def collector_pools lexical_lanes_ok terms_ok_fold
      split: if_splits option.splits)

lemma graph_edge_ok: "pool_ok mx p \<Longrightarrow> pool_ok mx (graph_edge rv limit mx p e)"
  by (simp add: graph_edge_def Let_def collector_pools)

lemma graph_edges_ok: "pool_ok mx p \<Longrightarrow> pool_ok mx (foldl (graph_edge rv limit mx) p es)"
  by (induction es arbitrary: p) (simp_all add: graph_edge_ok)

lemma graph_token_ok: "pool_ok mx p \<Longrightarrow> pool_ok mx (graph_token rv limit mx p t)"
  by (simp add: graph_token_def Let_def noted_rows_ok graph_edges_ok)

lemma graph_ok: "pool_ok mx p \<Longrightarrow> pool_ok mx (memory_collect_graph_candidates rv raw nq limit mx p)"
proof -
  have "pool_ok mx p \<Longrightarrow> pool_ok mx (foldl (graph_token rv limit mx) p ts)" for ts p
    by (induction ts arbitrary: p) (simp_all add: graph_token_ok)
  then show "pool_ok mx p \<Longrightarrow> ?thesis"
    by (simp add: memory_collect_graph_candidates_def)
qed

lemma subqueries_ok:
  "pool_ok mx p \<Longrightarrow> subquery_lanes rv lc q intent limit mx p subs = Some p' \<Longrightarrow> pool_ok mx p'"
proof (induction subs arbitrary: p' rule: rev_induct)
  case Nil
  then show ?case by (simp add: subquery_lanes_def)
next
  case (snoc s subs)
  then obtain p1 where p1: "subquery_lanes rv lc q intent limit mx p subs = Some p1"
    by (auto simp: subquery_lanes_def split: option.splits)
  have "pool_ok mx p1" by (rule snoc.IH [OF snoc.prems(1) p1])
  then show ?case
    using snoc.prems(2) p1 variant_ok [of mx p1]
    by (auto simp: subquery_lanes_def split: if_splits)
qed

lemma semantic_fold_grows:
  "grows mx out (fst (foldl (semantic_step rv scale limit mx) (out, hits, n) found))"
proof -
  have "grows mx (fst st) (fst (foldl (semantic_step rv scale limit mx) st found))" for st
  proof (induction found arbitrary: st)
    case (Cons h found)
    have "grows mx (fst st) (fst (semantic_step rv scale limit mx st h))"
      by (auto simp: semantic_step_def append_unique_grows split: prod.splits option.splits)
    then show ?case
      using grows_trans Cons.IH [of "semantic_step rv scale limit mx st h"] by simp
  qed simp
  from this [of "(out, hits, n)"] show ?thesis by simp
qed

lemma semantic_matches_grow:
  assumes "memory_collect_semantic_matches rv q limit mx out hits = Some (out', hits')"
  shows "grows mx out out'"
proof (cases "out' = out")
  case False
  then obtain scale found where "out' = fst (foldl (semantic_step rv scale limit mx) (out, hits, 0) found)"
    using assms by (auto simp: memory_collect_semantic_matches_def Let_def split_beta split: if_splits option.splits)
  then show ?thesis using semantic_fold_grows by simp
qed simp

lemma unit_fold_grows:
  "grows mx out (fst (foldl (\<lambda>(o', h') (s, c).
      if mx \<le> length o' then (o', h')
      else (memory_append_unique mx o' c, add_hit_score 128 h' (m_id c) (s * (105 / 100)))) (out, hits) tops))"
proof -
  let ?step = "\<lambda>(o', h') (s, c). if mx \<le> length o' then (o', h')
      else (memory_append_unique mx o' c, add_hit_score 128 h' (m_id c) (s * (105 / 100)))"
  have "grows mx (fst st) (fst (foldl ?step st tops))" for st
  proof (induction tops arbitrary: st)
    case (Cons h tops)
    have "grows mx (fst st) (fst (?step st h))"
      by (auto simp: append_unique_grows split: prod.splits)
    then show ?case
      using grows_trans Cons.IH [of "?step st h"] by simp
  qed simp
  from this [of "(out, hits)"] show ?thesis by simp
qed

lemma unit_semantic_matches_grow:
  assumes "memory_collect_unit_semantic_matches rv q limit mx out hits = Some (out', hits')"
  shows "grows mx out out'"
proof (cases "out' = out")
  case False
  then obtain best where "foldl (\<lambda>(o', h') (s, c).
      if mx \<le> length o' then (o', h')
      else (memory_append_unique mx o' c, add_hit_score 128 h' (m_id c) (s * (105 / 100)))) (out, hits) best = (out', hits')"
    using assms
    by (auto simp add: memory_collect_unit_semantic_matches_def Let_def split: if_splits option.splits prod.splits)
  then show ?thesis using unit_fold_grows [of mx out hits best] by simp
qed simp

lemma semantic_lane_ok:
  assumes "pool_ok mx p" and "bits \<in> lane_masks" and "semantic_lane bits collect p = Some p'"
    and "\<And>out hits out' hits'. collect out hits = Some (out', hits') \<Longrightarrow> grows mx out out'"
  shows "pool_ok mx p'"
  using assms(3) noted_ok [OF assms(1) _ assms(2)] assms(4)
  by (auto simp: semantic_lane_def split: option.splits prod.splits)

lemma semantic_lanes_ok:
  assumes ok: "pool_ok mx p" and "semantic_lanes rv q limit mx p = Some p'"
  shows "pool_ok mx p'"
proof -
  obtain p1 where p1: "semantic_lane 320 (memory_collect_unit_semantic_matches rv q limit mx) p = Some p1"
    and p': "semantic_lane 256 (memory_collect_semantic_matches rv q limit mx) p1 = Some p'"
    using assms(2) by (auto simp: semantic_lanes_def split: option.splits)
  have "pool_ok mx p1"
    by (rule semantic_lane_ok [OF ok _ p1 unit_semantic_matches_grow]) simp
  then show ?thesis
    by (rule semantic_lane_ok [OF _ _ p' semantic_matches_grow]) simp
qed

lemma negation_lane_ok: "pool_ok mx p \<Longrightarrow> pool_ok mx (negation_lane rv tt lc q limit mx p)"
  by (simp add: negation_lane_def Let_def noted_rows_ok split: prod.splits)

lemma like_lane_ok: "pool_ok mx p \<Longrightarrow> pool_ok mx (like_lane rv nq limit mx p)"
  by (simp add: like_lane_def noted_rows_ok split: option.splits)

lemma start_ok: "pool_ok mx (p\<lparr>po_rows := [], po_stats := [], po_hits := []\<rparr>)"
  by (simp add: pool_ok_def)

lemma generated_ok:
  assumes "nonempty query" and "nonempty norm_query" and "mx \<noteq> 0"
    and "memory_generate_candidates rv tt lc query norm_query intent plan limit mx p = Some p'"
  shows "pool_ok mx p'"
proof -
  let ?lim = "generation_limits plan intent limit"
  let ?p0 = "p\<lparr>po_rows := [], po_stats := [], po_hits := []\<rparr>"
  let ?p1 = "if map_option qp_route plan = Some ROUTE_GRAPH
             then memory_collect_graph_candidates rv query norm_query limit mx ?p0 else ?p0"
  obtain p2 p3 p4 where
      p2: "memory_collect_variant_candidates rv lc query norm_query intent (fst ?lim) mx ?p1 = Some p2" and
      p3: "subquery_lanes rv lc query intent (fst ?lim) mx p2 (memory_build_query_decomposition norm_query 3) = Some p3" and
      p4: "(if plan = None \<or> map_option qp_semantic_enabled plan = Some True
            then semantic_lanes rv query (snd ?lim) mx p3 else Some p3) = Some p4" and
      p': "p' = like_lane rv (cptr_str norm_query) limit mx (negation_lane rv tt lc (cptr_str query) limit mx p4)"
    using assms by (auto simp: memory_generate_candidates_def Let_def split_beta split: option.splits)
  have "pool_ok mx ?p1"
    by (simp only: start_ok graph_ok [OF start_ok] simp_thms split: if_split)
  then have "pool_ok mx p3" using variant_ok p2 subqueries_ok p3 by blast
  then have "pool_ok mx p4" using p4 semantic_lanes_ok by (auto split: if_splits)
  then show ?thesis unfolding p' by (intro like_lane_ok negation_lane_ok)
qed

end
