(* ===== verification/Find_Invariants.thy ===== *)
theory Find_Invariants
  imports Search Generate_Invariant Rank_Properties
begin

text \<open>
  What the steps of a search keep: no row twice and no more rows than the buffer, through the
  passes, the filters, the fusion, the ranking, the lane floors and the session window.
\<close>

definition tidy :: "nat \<Rightarrow> memory_t list \<Rightarrow> bool" where
  "tidy mx ms \<longleftrightarrow> distinct (map m_id ms) \<and> length ms \<le> mx"

lemma grows_tidy: "grows mx out out' \<Longrightarrow> tidy mx out \<Longrightarrow> tidy mx out'"
  by (auto simp: grows_def tidy_def)

lemma filter_tidy [simp]: "tidy mx ms \<Longrightarrow> tidy mx (filter P ms)"
  by (auto simp: tidy_def distinct_map inj_on_def intro: le_trans [OF length_filter_le])

lemma take_tidy: "tidy mx ms \<Longrightarrow> tidy (min n mx) (take n ms)"
  by (auto simp: tidy_def simp flip: take_map)

subsection \<open>Passes and filters\<close>

lemma merge_append_all: "memory_candidates_merge cap primary extra = append_all cap primary extra"
  by (simp add: memory_candidates_merge_def append_all_def memory_append_unique_def [abs_def])

lemma generate_tidy: "generate fe hint q nq intent plan fetch mx p = Some p' \<Longrightarrow> tidy mx (po_rows p')"
proof (cases "nonempty (Some q) \<and> nonempty (Some nq) \<and> mx \<noteq> 0")
  case True
  assume "generate fe hint q nq intent plan fetch mx p = Some p'"
  then have "pool_ok mx p'"
    using True generated_ok [where query = "Some q" and norm_query = "Some nq" and mx = mx] by (simp add: generate_def)
  then show ?thesis by (simp add: pool_ok_def tidy_def)
next
  case False
  assume "generate fe hint q nq intent plan fetch mx p = Some p'"
  moreover have "\<not> nonempty (Some q) \<or> \<not> nonempty (Some nq) \<or> mx = 0" using False by blast
  ultimately have "Some (p\<lparr>po_rows := []\<rparr>) = Some p'"
    by (simp only: generate_def memory_generate_candidates_def if_True)
  then have "po_rows p' = []" by auto
  then show ?thesis by (simp add: tidy_def)
qed

lemma merge_tidy: "tidy cap primary \<Longrightarrow> tidy cap (memory_candidates_merge cap primary extra)"
  unfolding merge_append_all by (rule grows_tidy [OF append_all_grows])

lemma original_pass_tidy:
  "original_pass fe hint rw q intent plan fetch st = Some st' \<Longrightarrow> tidy 96 (fst st) \<Longrightarrow> tidy 96 (fst st')"
  by (auto simp: original_pass_def merge_tidy split: if_splits option.splits)

lemma sub_passes_tidy:
  "foldl (sub_pass fe hint plan limit fetch) st subs = Some st' \<Longrightarrow>
   (\<And>s. st = Some s \<Longrightarrow> tidy 96 (fst s)) \<Longrightarrow> tidy 96 (fst st')"
proof (induction subs arbitrary: st' rule: rev_induct)
  case (snoc sub subs)
  then obtain s where s: "foldl (sub_pass fe hint plan limit fetch) st subs = Some s"
    by (cases "foldl (sub_pass fe hint plan limit fetch) st subs") (simp_all add: sub_pass_def [where st = None])
  have "tidy 96 (fst s)" by (rule snoc.IH [OF s snoc.prems(2)])
  moreover have "sub_pass fe hint plan limit fetch (Some s) sub = Some st'"
    using snoc.prems(1) s by simp
  ultimately show ?case
    by (cases s) (auto simp: sub_pass_def Let_def merge_tidy split: option.splits)
qed auto

lemma all_passes_tidy:
  assumes "all_passes fe hint rw q plan limit fetch p0 = Some (rows, p1, p)"
  shows "tidy 96 rows"
proof -
  let ?intent = "memory_query_intent (Some q) (Some (find_norm fe q))"
  let ?first = "case rq_hyde rw of None \<Rightarrow> generate fe hint q (find_norm fe q) ?intent plan fetch 96 p0
                | Some h \<Rightarrow> generate fe hint h (find_norm fe h) ?intent plan fetch 96 p0"
  obtain first where first: "?first = Some first" and
    rest: "foldl (sub_pass fe hint plan limit (fetch div (int (length (rq_subs rw)) + 1)))
       (original_pass fe hint rw q ?intent plan fetch (po_rows first, first)) (rq_subs rw) = Some (rows, p)"
    using assms by (cases ?first) (auto simp: all_passes_def Let_def)
  have "tidy 96 (po_rows first)"
    using first generate_tidy by (cases "rq_hyde rw") auto
  then show ?thesis
    using sub_passes_tidy [OF rest] original_pass_tidy by fastforce
qed

lemma filter_scope_tidy [simp]: "tidy mx ms \<Longrightarrow> tidy mx (memory_filter_scope sm wm ms t v)"
  by (simp add: memory_filter_scope_def)

lemma drop_archived_tidy [simp]: "tidy mx ms \<Longrightarrow> tidy mx (drop_archived cfg fs ms)"
  by (simp add: drop_archived_def Let_def)

text \<open>\<open>memory_get\<close> fills a row with the id it was asked for.\<close>

definition get_law :: "rank_context \<Rightarrow> bool" where
  "get_law rc \<longleftrightarrow> (\<forall>i r. st_get (rc_store rc) i = Some r \<longrightarrow> m_id r = i)"

lemma bridge_row_tidy: "get_law rc \<Longrightarrow> tidy 96 ms \<Longrightarrow> tidy 96 (bridge_row rc ms e)"
  by (auto simp: bridge_row_def tidy_def get_law_def list_ex_iff split: option.splits)

lemma fusion_tidy:
  assumes "get_law rc" and "tidy 96 ms"
  shows "tidy 96 (fst (fusion_rows cfg fs rc q ms))"
proof -
  have "tidy 96 (foldl (bridge_row rc) ms es)" for es
    using assms by (induction es arbitrary: ms) (simp_all add: bridge_row_tidy)
  then show ?thesis using assms(2) by (simp add: fusion_rows_def Let_def)
qed

lemma fusion_store: "snd (fusion_rows cfg fs rc q ms) = rc \<or> rc_store (snd (fusion_rows cfg fs rc q ms)) = rc_store rc"
  by (simp add: fusion_rows_def Let_def)

subsection \<open>Ranking\<close>

lemma rerank_rows_ids:
  "mset (map m_id (rerank_rows rc tt raw n hits stats pr ms)) = mset (map m_id ms)"
proof -
  obtain order where order: "mset order = mset [0..<length ms]" and
    out: "map m_id (rerank_rows rc tt raw n hits stats pr ms) = map (\<lambda>i. m_id (ms ! i)) order"
    using rerank_rows_ranked [of rc tt raw ms n hits stats pr] by (force simp: ranked_by_def)
  have "mset (map (\<lambda>i. m_id (ms ! i)) order) = mset (map (\<lambda>i. m_id (ms ! i)) [0..<length ms])"
    using order by (metis mset_map)
  also have "map (\<lambda>i. m_id (ms ! i)) [0..<length ms] = map m_id ms"
    by (auto intro: nth_equalityI)
  finally show ?thesis unfolding out .
qed

text \<open>The ranked array: the candidates in another order, with neighbours when the link rank is on.\<close>

lemma rerank_pool_grown:
  assumes "get_law rc" and "length ms \<le> 128"
  shows "grown m_id (st_get (rc_store rc)) (st_links (rc_store rc)) (Some (pc_relations cfg)) 128 ms (rerank_pool rc cfg ms)"
  using assms append_neighbours_grown [where id_of = m_id and get = "st_get (rc_store rc)"]
  by (auto simp: rerank_pool_def get_law_def) (simp add: grown_def)

lemma rerank_tidy:
  assumes "get_law rc" and "tidy mx ms" and "mx \<le> 128"
    and out: "memory_rerank_matches rc tt t st q ms limit hits stats = (n, ranked, st')"
  shows "distinct (map m_id ranked)" "length ms \<le> length ranked" "n \<le> int (length ranked)" "n \<le> limit"
proof -
  have len: "length ms \<le> 128" and dist: "distinct (map m_id ms)" using assms(2,3) by (auto simp: tidy_def)
  consider (same) "ranked = ms" "n = min (int (length ms)) limit"
    | (ranked) raw nq pr where "ranked = rerank_rows rc tt raw nq hits stats pr (rerank_pool rc (memory_load_pagerank_config (rc_config rc) (rc_env rc)) ms)
          @ drop (length (rerank_pool rc (memory_load_pagerank_config (rc_config rc) (rc_env rc)) ms)) ms"
        "n = min (int (length (rerank_pool rc (memory_load_pagerank_config (rc_config rc) (rc_env rc)) ms))) limit"
    using out by (auto simp: memory_rerank_matches_def Let_def length_rerank_rows split: option.splits if_splits prod.splits)
  then have "distinct (map m_id ranked) \<and> length ms \<le> length ranked \<and> n \<le> int (length ranked) \<and> n \<le> limit"
  proof cases
    case ranked
    let ?pool = "rerank_pool rc (memory_load_pagerank_config (rc_config rc) (rc_env rc)) ms"
    obtain new where "?pool = ms @ new" "distinct (map m_id ?pool)"
      using rerank_pool_grown [OF assms(1) len] dist unfolding grown_def by blast
    then have "length ms \<le> length ?pool" "distinct (map m_id ?pool)" by simp_all
    then have r: "ranked = rerank_rows rc tt raw nq hits stats pr ?pool" "distinct (map m_id ranked)"
      using ranked(1) mset_eq_imp_distinct_iff [OF rerank_rows_ids] by simp_all
    have "length ms \<le> length ranked" "n \<le> int (length ranked)"
      using \<open>length ms \<le> length ?pool\<close> ranked(2) by (simp_all add: r(1) length_rerank_rows)
    then show ?thesis using r(2) ranked(2) by simp
  qed (use dist in auto)
  then show "distinct (map m_id ranked)" "length ms \<le> length ranked" "n \<le> int (length ranked)" "n \<le> limit"
    by blast+
qed

text \<open>Without the link rank no row is added.\<close>

lemma rerank_ids:
  assumes "pc_enabled (memory_load_pagerank_config (rc_config rc) (rc_env rc)) = 0" and "length ms \<le> 128"
    and out: "memory_rerank_matches rc tt t st q ms limit hits stats = (n, ranked, st')"
  shows "mset (map m_id ranked) = mset (map m_id ms)" "n = min (int (length ms)) limit"
proof -
  have pool: "rerank_pool rc (memory_load_pagerank_config (rc_config rc) (rc_env rc)) ms = ms"
    using assms(1,2) by (simp add: rerank_pool_def)
  consider (same) "ranked = ms" "n = min (int (length ms)) limit"
    | (ranked) raw nq pr where "ranked = rerank_rows rc tt raw nq hits stats pr ms" "n = min (int (length ms)) limit"
    using out by (auto simp: memory_rerank_matches_def Let_def pool length_rerank_rows split: option.splits if_splits prod.splits)
  then have "mset (map m_id ranked) = mset (map m_id ms) \<and> n = min (int (length ms)) limit"
    by cases (simp_all only: rerank_rows_ids simp_thms)
  then show "mset (map m_id ranked) = mset (map m_id ms)" "n = min (int (length ms)) limit"
    by blast+
qed

end
