(* ===== verification/Diagnose.thy ===== *)
theory Diagnose
  imports Search
begin

text \<open>
  \<open>memory_diagnose_scoped\<close> and \<open>memory_explain_match\<close> of \<open>memory_core_search_c.c\<close>: a search with
  the parts of every row's score.  The table of promoted shortcuts is outside \<open>src/\<close>: its lookup
  is a parameter, and what the code tells it to observe is part of the result.
\<close>

record diagnostic =
  dg_memory :: memory_t
  dg_parts :: rank_parts
  dg_confidence :: real

definition diagnostic_of ::
    "'v find_env \<Rightarrow> string \<Rightarrow> (int \<times> real) list \<Rightarrow> (int \<times> real) list \<Rightarrow> memory_t \<Rightarrow> diagnostic" where
  "diagnostic_of fe query hits pagerank m =
     \<lparr>dg_memory = m,
      dg_parts = memory_compute_score_parts (se_rc fe) (Some query) (find_norm fe query)
                   (memory_ranker_input_from (se_rc fe) (Some m)) hits pagerank,
      dg_confidence = m_confidence m\<rparr>"

datatype diagnose_outcome =
  Diagnosed "diagnostic list" "(string \<times> int list) option" | Diagnose_Failed | Diagnose_Wild_Write

definition diagnose_search ::
    "'v find_env \<Rightarrow> cptr \<Rightarrow> cptr \<Rightarrow> cptr \<Rightarrow> int \<Rightarrow> find_state \<Rightarrow> find_outcome \<times> find_state" where
  "diagnose_search fe query scope_type scope_value limit st =
     (let scope = fd_scope st; l = (if 0 < limit then limit else 10)
      in if sc_active scope \<and> \<not> nonempty scope_type
         then memory_find_facts_visible_ex fe query (sc_workspace scope) (sc_project scope) (sc_include_all scope) l 64 st
         else memory_find_facts_scoped fe query scope_type scope_value l 64 st)"

text \<open>The promoted rows of the query; only a request without a scope of any kind may use them.\<close>

definition shortcut_rows ::
    "'v find_env \<Rightarrow> (string \<Rightarrow> int list \<times> bool) \<Rightarrow> string \<Rightarrow> cptr \<Rightarrow> find_state \<Rightarrow> memory_t list" where
  "shortcut_rows fe lookup query scope_type st =
     (if sc_active (fd_scope st) \<or> nonempty scope_type then []
      else let (ids, promoted) = lookup (find_norm fe query)
           in if promoted then List.map_filter (st_get (rc_store (se_rc fe))) (take 8 ids) else [])"

definition memory_diagnose_scoped ::
    "'v find_env \<Rightarrow> (string \<Rightarrow> int list \<times> bool) \<Rightarrow> cptr \<Rightarrow> cptr \<Rightarrow> cptr \<Rightarrow> int \<Rightarrow> nat \<Rightarrow> find_state
     \<Rightarrow> diagnose_outcome \<times> find_state" where
  "memory_diagnose_scoped fe lookup query scope_type scope_value limit mx st =
     (if \<not> nonempty query \<or> mx = 0 then (Diagnosed [] None, st)
      else let q = cptr_str query
           in case diagnose_search fe query scope_type scope_value limit st of
                (Failed, st1) \<Rightarrow> (Diagnose_Failed, st1)
              | (Wild_Write, st1) \<Rightarrow> (Diagnose_Wild_Write, st1)
              | (Found found, st1) \<Rightarrow>
                  let rows = take mx found
                  in (case memory_collect_semantic_matches (se_rv fe None) query 32 64 rows [] of
                        None \<Rightarrow> (Diagnose_Failed, st1)
                      | Some (ignored, hits) \<Rightarrow>
                          let rc = se_rc fe;
                              (pagerank, stats) = memory_compute_pagerank_scores (st_links (rc_store rc)) (fe_elapsed fe)
                                (fd_stats st1) (map m_id rows) (memory_load_pagerank_config (rc_config rc) (rc_env rc)) 64;
                              observed = Some (find_norm fe q, map m_id (take 8 rows));
                              promoted = shortcut_rows fe lookup q scope_type st
                          in (Diagnosed (map (diagnostic_of fe q hits pagerank)
                                           (if promoted \<noteq> [] then take mx promoted else rows)) observed,
                              st1\<lparr>fd_stats := stats\<rparr>)))"

definition memory_diagnose ::
    "'v find_env \<Rightarrow> (string \<Rightarrow> int list \<times> bool) \<Rightarrow> cptr \<Rightarrow> int \<Rightarrow> nat \<Rightarrow> find_state \<Rightarrow> diagnose_outcome \<times> find_state" where
  "memory_diagnose fe lookup query limit mx st = memory_diagnose_scoped fe lookup query None None limit mx st"

text \<open>\<open>None\<close> is the return of -1.\<close>

definition memory_explain_match :: "'v find_env \<Rightarrow> cptr \<Rightarrow> int \<Rightarrow> diagnostic option" where
  "memory_explain_match fe query memory_id =
     (if \<not> nonempty query \<or> memory_id \<le> 0 \<or> \<not> fs_vector_ready (se_fs fe) then None
      else case st_get (rc_store (se_rc fe)) memory_id of None \<Rightarrow> None
           | Some m \<Rightarrow>
               case memory_collect_semantic_matches (se_rv fe None) query 16 1 [m] [] of None \<Rightarrow> None
               | Some (ignored, hits) \<Rightarrow> Some (diagnostic_of fe (cptr_str query) hits [] m))"

text \<open>
  The collector is given a full buffer, returns at once and finds no hit: an explanation never has
  a semantic part, whatever the embedder and the vector index hold.
\<close>

lemma explain_has_no_hits:
  assumes "nonempty query" and "0 < memory_id" and "fs_vector_ready (se_fs fe)"
    and "st_get (rc_store (se_rc fe)) memory_id = Some m"
  shows "memory_explain_match fe query memory_id = Some (diagnostic_of fe (cptr_str query) [] [] m)"
  using assms by (simp add: memory_explain_match_def memory_collect_semantic_matches_def)

text \<open>A promoted shortcut is never used under a scope.\<close>

lemma scoped_no_shortcut:
  assumes "sc_active (fd_scope st) \<or> nonempty scope_type"
  shows "shortcut_rows fe lookup query scope_type st = []"
  using assms by (auto simp: shortcut_rows_def)

end
