(* ===== verification/Window_Search.thy ===== *)
theory Window_Search
  imports Query Sorts
begin

text \<open>
  The search of conversation windows, \<open>memory_search_impl\<close> and \<open>memory_search\<close> of
  \<open>memory_core_search.c\<close>: terms, stopwords, candidates, the lexical and the graph boost and the
  two sorts.

  The tokenizer, the stopword list, the window index, the entity edges and the sizes of the
  result's fields are outside \<open>src/\<close> and are the record \<open>window_store\<close>; a list it returns fits the
  buffer of the call.  Timing and the log line are not modelled.
\<close>

record window =
  w_id :: int
  w_session :: string
  w_seq :: int
  w_summary :: string
  w_created_at :: string
  w_matches :: int

record window_store =
  ws_tokenize :: "cptr \<Rightarrow> string list"
  ws_stopwords :: "string list"
  ws_linked :: bool
  ws_candidates :: "string list \<Rightarrow> window list option"
  ws_lexical_hits :: "string list \<Rightarrow> (int \<times> real) list"
  ws_files :: "int \<Rightarrow> string list option"
  ws_neighbors :: "string \<Rightarrow> (string \<times> real) list"
  ws_day :: "string \<Rightarrow> int option"
  ws_now :: int
  ws_cap_session :: nat
  ws_cap_summary :: nat

record search_result =
  sr_session_id :: string
  sr_seq :: int
  sr_summary :: string
  sr_score :: real
  sr_start_line :: int
  sr_end_line :: int
  sr_file_path :: string
  sr_files :: "string list"

subsection \<open>Terms\<close>

definition cluster_terms :: "window_store \<Rightarrow> cptr list \<Rightarrow> string list" where
  "cluster_terms ws clusters = take 256 (concat (map (\<lambda>c. take 64 (ws_tokenize ws c)) clusters))"

definition filtered_terms :: "window_store \<Rightarrow> string list \<Rightarrow> string list" where
  "filtered_terms ws terms =
     filter (\<lambda>t. \<not> list_ex (\<lambda>s. map tolower t = map tolower s) (take 256 (ws_stopwords ws))) terms"

subsection \<open>Scores\<close>

type_synonym scored_window = "window \<times> real"

definition window_row :: "window_store \<Rightarrow> nat \<Rightarrow> window \<Rightarrow> scored_window" where
  "window_row ws fcount w =
     (let c = w\<lparr>w_session := cbuf 128 (w_session w), w_summary := cbuf 1024 (w_summary w),
                w_created_at := cbuf 32 (w_created_at w)\<rparr>
      in (c, of_int (w_matches w) / real fcount * 2 * time_decay (ws_day ws) (ws_now ws) (Some (w_created_at c))))"

definition lexical_score :: "real \<Rightarrow> real" where
  "lexical_score rank = 1 / (if 1 - rank < 1 / 1000 then 1 / 1000 else 1 - rank)"

fun add_lexical :: "scored_window list \<Rightarrow> int \<times> real \<Rightarrow> scored_window list" where
  "add_lexical [] hit = []"
| "add_lexical ((w, s) # ws) hit =
     (if w_id w = fst hit then (w, s + lexical_score (snd hit)) # ws else (w, s) # add_lexical ws hit)"

definition graph_term_boost :: "window_store \<Rightarrow> string list \<Rightarrow> string \<Rightarrow> real" where
  "graph_term_boost ws terms summary =
     sum_list (concat (map (\<lambda>t. map (\<lambda>(node, weight). 1 / 10 * weight)
       (filter (\<lambda>(node, weight). contains summary node) (take 50 (ws_neighbors ws t)))) terms))"

subsection \<open>The search\<close>

definition search_limit :: "int \<Rightarrow> int \<Rightarrow> nat" where
  "search_limit limit mx = nat (let l = (if limit \<le> 0 then 20 else limit) in if mx < l then mx else l)"

definition window_result :: "window_store \<Rightarrow> scored_window \<times> string list \<Rightarrow> search_result" where
  "window_result ws r =
     (case r of ((w, s), files) \<Rightarrow>
        \<lparr>sr_session_id = cbuf (ws_cap_session ws) (w_session w), sr_seq = w_seq w,
         sr_summary = cbuf (ws_cap_summary ws) (w_summary w), sr_score = s, sr_start_line = 0,
         sr_end_line = 0, sr_file_path = [], sr_files = files\<rparr>)"

definition first_rows :: "window_store \<Rightarrow> string list \<Rightarrow> nat \<Rightarrow> scored_window list" where
  "first_rows ws terms n =
     (let rows = map (window_row ws (length terms))
                   (case ws_candidates ws terms of None \<Rightarrow> [] | Some ws' \<Rightarrow> take 200 ws')
      in take n (exchange_sort snd (foldl add_lexical rows (take 200 (ws_lexical_hits ws terms)))))"

definition boosted_rows :: "window_store \<Rightarrow> string list \<Rightarrow> scored_window list \<Rightarrow> (scored_window \<times> string list) list" where
  "boosted_rows ws terms rows =
     exchange_sort (snd \<circ> fst)
       (map (\<lambda>(w, s). ((w, s + graph_term_boost ws terms (w_summary w)),
                       case ws_files ws (w_id w) of None \<Rightarrow> [] | Some fs \<Rightarrow> take 32 fs)) rows)"

text \<open>\<open>scoped\<close>: a request scope is active and does not include everything.\<close>

definition memory_search_impl ::
    "window_store \<Rightarrow> bool \<Rightarrow> cptr list option \<Rightarrow> int \<Rightarrow> int \<Rightarrow> search_result list" where
  "memory_search_impl ws scoped clusters limit mx =
     (case clusters of None \<Rightarrow> []
      | Some cs \<Rightarrow>
          let terms = filtered_terms ws (cluster_terms ws cs)
          in if cs = [] \<or> scoped \<or> terms = [] \<or> \<not> ws_linked ws then []
             else map (window_result ws) (boosted_rows ws terms (first_rows ws terms (search_limit limit mx))))"

definition memory_search ::
    "window_store \<Rightarrow> bool \<Rightarrow> cptr list option \<Rightarrow> int \<Rightarrow> int \<Rightarrow> search_result list" where
  "memory_search = memory_search_impl"

subsection \<open>Properties\<close>

lemma length_boosted_rows [simp]: "length (boosted_rows ws terms rows) = length rows"
  by (simp add: boosted_rows_def exchange.length_srt)

lemma first_rows_limit: "length (first_rows ws terms n) \<le> n"
  by (simp add: first_rows_def Let_def)

lemma search_bounded: "length (memory_search_impl ws scoped clusters limit mx) \<le> search_limit limit mx"
  using first_rows_limit by (simp add: memory_search_impl_def Let_def split: option.split)

lemma score_of_result: "sr_score \<circ> window_result ws = snd \<circ> fst"
  by (simp add: window_result_def fun_eq_iff)

lemma search_sorted: "sorted (rev (map sr_score (memory_search_impl ws scoped clusters limit mx)))"
  by (simp add: memory_search_impl_def boosted_rows_def Let_def score_of_result exchange.sorted_srt
      del: o_apply split: option.split)

text \<open>
  The lexical index ranks the best hit lowest, below zero.  The score of a hit falls with it: the
  better the hit, the less it adds.
\<close>

lemma lexical_score_inverted:
  assumes "r < r'" and "r' \<le> 0"
  shows "lexical_score r < lexical_score r'"
  using assms by (simp add: lexical_score_def frac_less2)

lemma search_scoped_empty: "memory_search_impl ws True clusters limit mx = []"
  by (simp add: memory_search_impl_def split: option.split)

end
