(* ===== verification/Find_Properties.thy ===== *)
theory Find_Properties
  imports Find_Invariants Diagnose Window_Search
begin

text \<open>
  Properties of candidate generation and of the searches built on it.
\<close>

subsection \<open>The lane floor\<close>

text \<open>
  What the swaps do: the rows in front of the new window stay, the slots between the new and the
  old window are lane members, and a slot is taken for every lane member of the tail until
  enough are in.
\<close>

definition promoted ::
    "int list \<Rightarrow> nat \<Rightarrow> memory_t list \<Rightarrow> nat \<Rightarrow> memory_t list \<Rightarrow> bool" where
  "promoted ids w ms w' ms' \<longleftrightarrow>
     mset ms' = mset ms \<and> w' \<le> w \<and> take w' ms' = take w' ms \<and>
     (\<forall>i. w' \<le> i \<longrightarrow> i < w \<longrightarrow> m_id (ms' ! i) \<in> set ids)"

lemma lane_swaps_promote:
  assumes "sorted ts" and "distinct ts" and "\<forall>t \<in> set ts. w0 \<le> t \<and> t < length ms"
    and "w \<le> w0" and "needed \<le> w" and "\<forall>i. w \<le> i \<longrightarrow> i < w0 \<longrightarrow> m_id (ms ! i) \<in> set ids"
  shows "\<exists>ms' w'. lane_swaps ids ts needed w ms = Some (ms', w') \<and>
     w' = w - min needed (length (filter (\<lambda>t. m_id (ms ! t) \<in> set ids) ts)) \<and>
     mset ms' = mset ms \<and> take w' ms' = take w' ms \<and> w' \<le> w \<and>
     (\<forall>i. w' \<le> i \<longrightarrow> i < w0 \<longrightarrow> m_id (ms' ! i) \<in> set ids)"
  using assms
proof (induction ts arbitrary: needed w ms)
  case (Cons t ts)
  consider (enough) "needed = 0" | (other) "needed \<noteq> 0" "m_id (ms ! t) \<notin> set ids"
    | (swap) "needed \<noteq> 0 \<and> m_id (ms ! t) \<in> set ids" by blast
  then show ?case
  proof cases
    case enough
    then show ?thesis using Cons.prems(6) by simp
  next
    case other
    have "sorted ts" "distinct ts" "\<forall>t \<in> set ts. w0 \<le> t \<and> t < length ms" using Cons.prems(1-3) by simp_all
    from Cons.IH [OF this Cons.prems(4-6)] show ?thesis using other by simp
  next
    case swap
    then have False: "\<not> (needed = 0 \<or> m_id (ms ! t) \<notin> set ids)" by simp
    let ?ms = "swap_rows (w - 1) t ms"
    have w: "0 < w" "w - 1 < length ms" "t < length ms" "w0 \<le> t" "w - 1 < t"
      using False Cons.prems(3-5) by auto
    have slot: "?ms ! (w - 1) = ms ! t" and other: "\<And>i. i \<noteq> w - 1 \<Longrightarrow> i \<noteq> t \<Longrightarrow> ?ms ! i = ms ! i"
      using w by (simp_all add: swap_rows_def nth_list_update)
    have later: "\<And>u. u \<in> set ts \<Longrightarrow> ?ms ! u = ms ! u"
      using Cons.prems(1,2,3) w by (intro other) auto
    have "m_id (?ms ! i) \<in> set ids" if "w - 1 \<le> i" "i < w0" for i
    proof (cases "i = w - 1")
      case False
      then show ?thesis using that other [of i] w Cons.prems(6) by simp
    qed (use slot False in simp)
    moreover have "sorted ts" "distinct ts" "\<forall>t \<in> set ts. w0 \<le> t \<and> t < length ?ms" "w - 1 \<le> w0" "needed - 1 \<le> w - 1"
      using Cons.prems(1-5) by (auto simp: swap_rows_def)
    ultimately obtain ms' w' where IH: "lane_swaps ids ts (needed - 1) (w - 1) ?ms = Some (ms', w')"
      "w' = w - 1 - min (needed - 1) (length (filter (\<lambda>t. m_id (?ms ! t) \<in> set ids) ts))"
      "mset ms' = mset ?ms" "take w' ms' = take w' ?ms" "w' \<le> w - 1"
      "\<forall>i. w' \<le> i \<longrightarrow> i < w0 \<longrightarrow> m_id (ms' ! i) \<in> set ids"
      using Cons.IH [of ?ms "w - 1" "needed - 1"] by blast
    have "filter (\<lambda>t. m_id (?ms ! t) \<in> set ids) ts = filter (\<lambda>t. m_id (ms ! t) \<in> set ids) ts"
      using later by (intro filter_cong) simp_all
    then have "w' = w - min needed (length (filter (\<lambda>t. m_id (ms ! t) \<in> set ids) (t # ts)))"
      using IH(2) False w(1) by (simp add: min_def)
    moreover have "take w' ?ms = take w' ms"
      using IH(5) w by (simp add: swap_rows_def)
    moreover have "lane_swaps ids (t # ts) needed w ms = Some (ms', w')" using IH(1) False w(1) by simp
    moreover have "mset ms' = mset ms" using IH(3) w(2,3) by simp
    moreover have "w' \<le> w" using IH(5) by simp
    moreover have "take w' ms' = take w' ms" using IH(4) calculation(2) by simp
    ultimately show ?thesis using IH(6) by blast
  qed
qed simp

lemma tail_members:
  assumes "w \<le> rows" and "rows \<le> length ms"
  shows "length (filter (\<lambda>t. m_id (ms ! t) \<in> set ids) [w..<rows]) = in_lane ids (take (rows - w) (drop w ms))"
proof -
  have "take (rows - w) (drop w ms) = map (nth ms) [w..<rows]"
    using assms by (auto intro: nth_equalityI)
  then show ?thesis by (simp add: in_lane_def filter_map comp_def)
qed

lemma in_lane_append [simp]: "in_lane ids (xs @ ys) = in_lane ids xs + in_lane ids ys"
  by (simp add: in_lane_def)

lemma in_lane_split:
  assumes "w' \<le> w"
  shows "in_lane ids (take w ms) = in_lane ids (take w' ms) + in_lane ids (drop w' (take w ms))"
proof -
  have "take w ms = take w' ms @ drop w' (take w ms)"
    using append_take_drop_id [of w' "take w ms"] assms by (simp add: min_def)
  then show ?thesis using in_lane_append by metis
qed

lemma promoted_count:
  assumes "promoted ids w ms w' ms'" "w \<le> length ms"
  shows "in_lane ids (take w ms') + in_lane ids (drop w' (take w ms)) = in_lane ids (take w ms) + (w - w')"
proof -
  have p: "take w' ms' = take w' ms" "w' \<le> w" "\<forall>i. w' \<le> i \<longrightarrow> i < w \<longrightarrow> m_id (ms' ! i) \<in> set ids"
    "length ms' = length ms"
    using assms(1) by (auto simp: promoted_def dest: mset_eq_length)
  have "m_id m \<in> set ids" if "m \<in> set (drop w' (take w ms'))" for m
    using that p(3) assms(2) p(4) by (auto simp: in_set_conv_nth)
  then have "in_lane ids (drop w' (take w ms')) = w - w'"
    using assms(2) p(4) by (simp add: in_lane_def filter_True)
  then show ?thesis
    using in_lane_split [OF p(2), of ids ms'] in_lane_split [OF p(2), of ids ms] p(1) by simp
qed

text \<open>
  C11. The lane floor, when it is no larger than the window and the lane rows already inside
  leave room for it, writes no row outside the array, only exchanges rows, leaves the rows in front of the
  window it returns as they are, fills every slot between that window and the old one with a row of
  the lane, and gives up one slot for each lane row it finds behind the window, at most as many as
  the floor lacks.  So the lane rows in the window grow by the slots given up, less the lane rows
  that those slots held before: the floor is reached when there are enough rows behind the window
  and no lane row is exchanged for another.
\<close>

theorem lane_floor_promotes:
  assumes "0 < window" and "window \<le> int rows" and "rows \<le> length ms" and "floor_n \<le> window + int (in_lane ids (take (nat window) ms))"
  shows "\<exists>ms' w'. memory_apply_lane_floor ms rows ids floor_n window = Some (ms', int w') \<and>
     promoted ids (nat window) ms w' ms' \<and>
     w' = nat window - min (nat floor_n - in_lane ids (take (nat window) ms))
                           (in_lane ids (take (rows - nat window) (drop (nat window) ms))) \<and>
     in_lane ids (take (nat window) ms') + in_lane ids (drop w' (take (nat window) ms)) =
       in_lane ids (take (nat window) ms) + (nat window - w')"
proof -
  let ?w = "nat window"
  let ?in = "in_lane ids (take ?w ms)"
  have w: "min ?w rows = ?w" "?w \<le> rows" using assms(1,2) by simp_all
  show ?thesis
  proof (cases "floor_n \<le> 0 \<or> ids = [] \<or> floor_n \<le> int ?in")
    case True
    have "in_lane [] xs = 0" for xs by (simp add: in_lane_def)
    then have none: "min (nat floor_n - ?in) (in_lane ids (take (rows - ?w) (drop ?w ms))) = 0"
      using True by auto
    have "memory_apply_lane_floor ms rows ids floor_n window = Some (ms, int ?w)"
      using True assms w by (auto simp: memory_apply_lane_floor_def Let_def)
    then show ?thesis
      using none by (intro exI [of _ ms] exI [of _ ?w]) (simp add: promoted_def, simp add: in_lane_def)
  next
    case False
    have prem: "sorted [?w..<rows]" "distinct [?w..<rows]" "\<forall>t \<in> set [?w..<rows]. ?w \<le> t \<and> t < length ms"
        "nat floor_n - ?in \<le> ?w" "\<forall>i. ?w \<le> i \<longrightarrow> i < ?w \<longrightarrow> m_id (ms ! i) \<in> set ids"
      using assms(1,3,4) by auto
    obtain ms' w' where swaps: "lane_swaps ids [?w..<rows] (nat floor_n - ?in) ?w ms = Some (ms', w')"
      "w' = ?w - min (nat floor_n - ?in) (length (filter (\<lambda>t. m_id (ms ! t) \<in> set ids) [?w..<rows]))"
      "mset ms' = mset ms" "take w' ms' = take w' ms" "w' \<le> ?w"
      "\<forall>i. w' \<le> i \<longrightarrow> i < ?w \<longrightarrow> m_id (ms' ! i) \<in> set ids"
      using lane_swaps_promote [OF prem(1,2,3) order_refl prem(4,5)] by blast
    have "memory_apply_lane_floor ms rows ids floor_n window = Some (ms', int w')"
      using False assms w swaps(1) by (simp add: memory_apply_lane_floor_def Let_def)
    moreover have "promoted ids ?w ms w' ms'" using swaps(3-6) unfolding promoted_def by blast
    moreover have "?w \<le> length ms" using w(2) assms(3) by simp
    ultimately show ?thesis
      using swaps(2) promoted_count unfolding tail_members [OF w(2) assms(3)] by blast
  qed
qed

definition row_of :: "int \<Rightarrow> memory_t" where
  "row_of i = \<lparr>m_id = i, m_tier = [], m_kind = [], m_key = [], m_content = [], m_use_cases = [], m_source_session = [],
     m_created_at = [], m_provenance = [], m_confidence = 0, m_retrieval_score = 0, m_hybrid_rank = 0\<rparr>"

lemma row_of_id [simp]: "m_id (row_of i) = i"
  by (simp add: row_of_def)

theorem lane_floor_promotes_witness:
  "\<exists>ms' w'. memory_apply_lane_floor (map row_of [1, 2, 3, 4]) 4 [4] 1 2 = Some (ms', int w') \<and>
     promoted [4] 2 (map row_of [1, 2, 3, 4]) w' ms' \<and> w' = 1 \<and> in_lane [4] (take 2 ms') = 1"
proof -
  have "in_lane [4] (take (nat 2) (map row_of [1, 2, 3, 4])) = 0"
    "in_lane [4] (take (4 - nat 2) (drop (nat 2) (map row_of [1, 2, 3, 4]))) = 1"
    "in_lane [4] (drop 1 (take 2 (map row_of [1, 2, 3, 4]))) = 0"
    by (simp_all add: in_lane_def)
  then show ?thesis
    using lane_floor_promotes [of 2 4 "map row_of [1, 2, 3, 4]" 1 "[4]"] by fastforce
qed

text \<open>
  The slot given up may itself be a lane row: here the floor is two, two lane rows are there, and
  one of them is in the result.  A floor larger than the window writes in front of the array.
\<close>

lemma lane_floor_missed:
  "memory_apply_lane_floor (map row_of [1, 2, 3]) 3 [2, 3] 2 2 = Some (map row_of [1, 3, 2], 1)"
  by (simp add: memory_apply_lane_floor_def in_lane_def swap_rows_def upt_rec numeral_eq_Suc)

lemma lane_floor_wild_write:
  "memory_apply_lane_floor (map row_of [1, 2, 3]) 3 [2, 3] 2 1 = None"
  by (simp add: memory_apply_lane_floor_def in_lane_def swap_rows_def upt_rec numeral_eq_Suc)

subsection \<open>Generated candidates\<close>

definition search_failed :: "'v retrieval \<Rightarrow> bool" where
  "search_failed rv \<longleftrightarrow> (\<exists>t v k. rv_search rv t v k = None)"

lemma expand_failed: "memory_expand_query_semantic rv q k cap out = None \<Longrightarrow> search_failed rv"
  by (auto simp: memory_expand_query_semantic_def expansion_hits_def search_failed_def
      split: if_splits option.splits)

lemma variant_failed: "memory_collect_variant_candidates rv lc raw nv intent limit mx p = None \<Longrightarrow> search_failed rv"
  by (auto simp: memory_collect_variant_candidates_def variant_queries_def Let_def
      split: if_splits option.splits intro: expand_failed)

lemma subqueries_failed: "subquery_lanes rv lc q intent limit mx p subs = None \<Longrightarrow> search_failed rv"
proof (induction subs rule: rev_induct)
  case (snoc s subs)
  show ?case
  proof (cases "subquery_lanes rv lc q intent limit mx p subs")
    case (Some p1)
    then show ?thesis
      using snoc.prems variant_failed by (auto simp: subquery_lanes_def split: if_splits)
  qed (rule snoc.IH)
qed (simp add: subquery_lanes_def)

lemma semantic_failed:
  "memory_collect_semantic_matches rv q limit mx out hits = None \<Longrightarrow> search_failed rv"
  "memory_collect_unit_semantic_matches rv q limit mx out hits = None \<Longrightarrow> search_failed rv"
  by (auto simp: memory_collect_semantic_matches_def memory_collect_unit_semantic_matches_def Let_def search_failed_def
      split: if_splits option.splits prod.splits)

lemma lanes_failed: "semantic_lanes rv q limit mx p = None \<Longrightarrow> search_failed rv"
  by (auto simp: semantic_lanes_def semantic_lane_def split: option.splits prod.splits intro: semantic_failed)

lemma generate_failed:
  assumes "memory_generate_candidates rv tt lc q n intent plan limit mx p = None"
  shows "search_failed rv"
  using assms
  by (auto simp: memory_generate_candidates_def Let_def split_beta split: if_splits option.splits
      intro: variant_failed subqueries_failed lanes_failed)

text \<open>The masks one by one: their number of sources, and which of them are which.\<close>

definition mask_list :: "source_mask list" where
  "mask_list = [1, 2, 4, 8, 16, 32, 64, 128, 256, 320, 512, 1024, 2048]"

lemma lane_masks_list: "lane_masks = set mask_list"
  by (simp add: lane_masks_def mask_list_def)

lemma mask_list_sources: "list_all (\<lambda>b. mask_sources b = (if b = 320 then 2 else 1)) mask_list"
  by code_simp

lemma mask_list_kinds:
  "list_all (\<lambda>b. (b AND 256 \<noteq> 0 \<longrightarrow> b AND 1 = 0) \<and> (b AND 2048 \<noteq> 0 \<longleftrightarrow> b = 2048) \<and>
     (b AND 16 \<noteq> 0 \<or> b AND 128 \<noteq> 0 \<longleftrightarrow> b = 16 \<or> b = 128)) mask_list"
  by code_simp

lemma lane_mask_bonus:
  assumes "bits \<in> lane_masks" and "map_of stats i = Some bits"
  shows "memory_source_fusion_bonus stats i \<in> {0, 8 / 100, 1 / 10, 14 / 100}"
proof -
  have b: "bits \<in> set mask_list" using assms(1) lane_masks_list by simp
  have n: "mask_sources bits = (if bits = 320 then 2 else 1)"
    using mask_list_sources b by (simp add: list_all_iff)
  have k: "bits AND 256 \<noteq> 0 \<longrightarrow> bits AND 1 = 0" "bits AND 2048 \<noteq> 0 \<longleftrightarrow> bits = 2048"
      "bits AND 16 \<noteq> 0 \<or> bits AND 128 \<noteq> 0 \<longleftrightarrow> bits = 16 \<or> bits = 128"
    using mask_list_kinds b by (simp_all add: list_all_iff)
  have parts: "(if 1 < mask_sources bits then real (mask_sources bits - 1) * (10 / 100) else 0) = (if bits = 320 then 1 / 10 else 0)"
      "\<not> (bits AND 256 \<noteq> 0 \<and> bits AND 1 \<noteq> 0)"
    using n k(1) by auto
  have "memory_source_fusion_bonus stats i =
      (if bits = 320 then 1 / 10 else 0) + (if bits = 2048 then 14 / 100 else 0) +
      (if bits = 16 \<or> bits = 128 then 8 / 100 else 0)"
    unfolding memory_source_fusion_bonus_def assms(2) option.case parts(1) k(2,3)
    using parts(2) by (simp only: if_False add_0_right)
  then show ?thesis by auto
qed

text \<open>
  C15. Candidate generation fails only when the vector index does.  Otherwise no candidate is there
  twice, there are no more than the array holds, and each of the first 128 has exactly the one
  note of the lane that brought it, in the order of the candidates: since a lane notes the rows it
  appended and a row is appended once, a candidate that several lanes find is never noted twice.
  So the bonus for a candidate found by several sources is the same as for one source: 0.10 for
  the semantic search of units (two bits), 0.14 for the graph, 0.08 for events and times, else
  nothing, and the 0.18 for a row found both by words and by meaning is never given.
\<close>

theorem candidates_have_one_source:
  "case memory_generate_candidates rv tt lc (Some (c # query)) (Some (d # norm_query)) intent plan limit (Suc k) p of
     None \<Rightarrow> search_failed rv
   | Some p' \<Rightarrow>
       tidy (Suc k) (po_rows p') \<and> map fst (po_stats p') = map m_id (take 128 (po_rows p')) \<and>
       range (memory_source_fusion_bonus (po_stats p')) \<subseteq> {0, 8 / 100, 1 / 10, 14 / 100}"
proof (cases "memory_generate_candidates rv tt lc (Some (c # query)) (Some (d # norm_query)) intent plan limit (Suc k) p")
  case None
  then show ?thesis using generate_failed by simp
next
  case (Some p')
  have ok: "pool_ok (Suc k) p'"
    by (rule generated_ok [OF _ _ _ Some]) simp_all
  have "memory_source_fusion_bonus (po_stats p') i \<in> {0, 8 / 100, 1 / 10, 14 / 100}" for i
  proof (cases "map_of (po_stats p') i")
    case None
    then show ?thesis by (simp add: memory_source_fusion_bonus_def)
  next
    case (Some bits)
    then have "bits \<in> lane_masks" using ok map_of_SomeD [OF Some] by (force simp: pool_ok_def)
    then show ?thesis using Some by (rule lane_mask_bonus)
  qed
  then have "range (memory_source_fusion_bonus (po_stats p')) \<subseteq> {0, 8 / 100, 1 / 10, 14 / 100}" by blast
  then show ?thesis using ok unfolding Some option.case pool_ok_def tidy_def by blast
qed

subsection \<open>Results of a search\<close>

lemma lane_swaps_mset:
  "lane_swaps ids ts needed w ms = Some (ms', w') \<Longrightarrow> \<forall>t \<in> set ts. t < length ms \<Longrightarrow> w \<le> length ms \<Longrightarrow>
     mset ms' = mset ms"
proof (induction ids ts needed w ms rule: lane_swaps.induct)
  case (2 ids t ts needed w ms)
  show ?case
  proof (cases "needed = 0 \<or> m_id (ms ! t) \<notin> set ids")
    case True
    then show ?thesis using 2 by (auto split: if_splits)
  next
    case False
    then have w: "w \<noteq> 0" and rest: "lane_swaps ids ts (needed - 1) (w - 1) (swap_rows (w - 1) t ms) = Some (ms', w')"
      using "2.prems"(1) by (auto split: if_splits)
    have "mset ms' = mset (swap_rows (w - 1) t ms)"
      by (rule "2.IH"(2) [OF _ _ w rest]) (use False "2.prems"(2,3) in auto)
    then show ?thesis using "2.prems"(2,3) w by simp
  qed
qed simp

lemma lane_floor_mset:
  assumes "memory_apply_lane_floor ms rows ids f w = Some (ms', w')" and "rows \<le> length ms"
  shows "mset ms' = mset ms"
proof -
  have swaps: "mset out = mset ms" if "lane_swaps ids [min (nat w) rows..<rows] n (min (nat w) rows) ms = Some (out, k)" for n out k
    by (rule lane_swaps_mset [OF that]) (use assms(2) in auto)
  show ?thesis
    using assms(1) swaps by (auto simp: memory_apply_lane_floor_def Let_def split: if_splits)
qed

lemma lane_floors_mset:
  assumes "lane_floors cfg lc p rows w ms = Some ms'" and "rows \<le> length ms"
  shows "mset ms' = mset ms"
proof (cases "lc_lanes_enabled lc")
  case True
  then obtain ms1 eff w2 where
      first: "memory_apply_lane_floor ms rows (po_lane_summary p) (fc_floor_summary cfg) w = Some (ms1, eff)" and
      second: "memory_apply_lane_floor ms1 rows (po_lane_fact p) (fc_floor_fact cfg) eff = Some (ms', w2)"
    using assms(1) by (auto simp: lane_floors_def split: option.splits)
  have m: "mset ms1 = mset ms" by (rule lane_floor_mset [OF first assms(2)])
  then have "rows \<le> length ms1" using assms(2) mset_eq_length by fastforce
  then show ?thesis using lane_floor_mset [OF second] m by simp
qed (use assms(1) in \<open>simp add: lane_floors_def\<close>)

lemma window_grows: "grows mx out (memory_expand_to_session_window fs out mx radius)"
proof -
  have "grows mx out (foldl (window_step fs mx radius) out ms)" for out ms
  proof (induction ms arbitrary: out)
    case (Cons m ms)
    have "grows mx out (window_step fs mx radius out m)"
      by (auto simp: window_step_def intro: grows_trans append_all_grows)
    then show ?case using Cons grows_trans by simp
  qed simp
  then show ?thesis by (simp add: memory_expand_to_session_window_def)
qed

lemma ids_mset: "mset ms' = mset ms \<Longrightarrow> mset (map f ms') = mset (map f ms)"
  by simp

lemma ranked_result_tidy:
  assumes "get_law rc" and "tidy 96 rows" and out: "fst (rank_scoped fe q rows rc p1 p limit mx st) = Found out"
  shows "tidy (nat mx) out"
proof -
  obtain n ranked stats where r: "memory_rerank_matches rc (se_tt fe) (fe_elapsed fe) (fd_stats st) (Some q) rows
      limit (po_hits p1) (po_stats p1) = (n, ranked, stats)"
    by (metis prod_cases3)
  define n' where "n' = (if mx < n then mx else n)"
  obtain ranked' where floors: "lane_floors (se_cfg fe) (se_lc fe) p (length rows) n' ranked = Some ranked'" and
    o: "out = memory_expand_to_session_window (se_fs fe) (take (nat n') ranked') (nat mx) (fc_window_radius (se_cfg fe))"
    using out r by (auto simp: rank_scoped_def Let_def n'_def split: option.splits if_splits)
  have d: "distinct (map m_id ranked)" "length rows \<le> length ranked"
    using rerank_tidy [OF assms(1,2) _ r] by simp_all
  have "mset (map m_id ranked') = mset (map m_id ranked)"
    by (rule ids_mset [OF lane_floors_mset [OF floors d(2)]])
  then have "distinct (map m_id ranked')"
    using d(1) mset_eq_imp_distinct_iff by blast
  then have "tidy (nat mx) (take (nat n') ranked')"
    by (auto simp: tidy_def n'_def simp flip: take_map)
  then show ?thesis unfolding o by (rule grows_tidy [OF window_grows])
qed

text \<open>Only the link rank and the lane floors write outside the array.\<close>

definition link_rank_on :: "rank_context \<Rightarrow> bool" where
  "link_rank_on rc \<longleftrightarrow> pc_enabled (memory_load_pagerank_config (rc_config rc) (rc_env rc)) \<noteq> 0"

lemma lane_floors_off: "\<not> lc_lanes_enabled lc \<Longrightarrow> lane_floors cfg lc p rows w ms = Some ms"
  by (simp add: lane_floors_def)

lemma rerank_no_overflow:
  assumes "\<not> link_rank_on rc" and "length rows \<le> 96"
    and "memory_rerank_matches rc tt t st (Some q) rows limit hits stats = (n, ranked, st')"
  shows "\<not> MEMORY_RERANK_BUFFER < length ranked"
proof -
  have "mset (map m_id ranked) = mset (map m_id rows)"
    using rerank_ids [OF _ _ assms(3)] assms(1,2) by (simp add: link_rank_on_def)
  then have "length ranked = length rows" using mset_eq_length by fastforce
  then show ?thesis using assms(2) by (simp add: MEMORY_RERANK_BUFFER_def)
qed

lemma ranked_result_wild:
  assumes "tidy 96 rows" and "fst (rank_scoped fe q rows rc p1 p limit mx st) = Wild_Write"
  shows "link_rank_on rc \<or> lc_lanes_enabled (se_lc fe)"
proof (rule ccontr)
  assume off: "\<not> ?thesis"
  obtain n ranked stats where r: "memory_rerank_matches rc (se_tt fe) (fe_elapsed fe) (fd_stats st) (Some q) rows
      limit (po_hits p1) (po_stats p1) = (n, ranked, stats)"
    by (metis prod_cases3)
  have "\<not> MEMORY_RERANK_BUFFER < length ranked"
    using rerank_no_overflow [OF _ _ r] off assms(1) by (simp add: tidy_def)
  then show False using assms(2) r off by (simp add: rank_scoped_def lane_floors_off)
qed

lemma find_ranked_wild:
  assumes law: "get_law (se_rc fe)" and out: "fst (find_ranked fe q t v limit mx st) = Wild_Write"
  shows "link_rank_on (se_rc fe) \<or> lc_lanes_enabled (se_lc fe)"
proof -
  define rw where "rw = memory_query_rewrite (fe_rewrite fe) (Some q)"
  define plan where "plan = find_plan fe zero_plan q limit"
  define fetch where "fetch = scoped_fetch_limit (se_cfg fe) (rc_env (se_rc fe)) plan (find_norm fe q) limit"
  obtain rows p1 p where passes: "all_passes fe (scoped_hint t v) rw q plan limit fetch (fd_pool st) = Some (rows, p1, p)"
    using out by (auto simp: find_ranked_def Let_def rw_def plan_def fetch_def split: option.splits)
  define kept where "kept = drop_archived (se_cfg fe) (se_fs fe)
     (memory_filter_scope (fs_scope_matches (se_fs fe)) (fs_workspace_matches (se_fs fe)) rows t v)"
  obtain cands rc where c: "fusion_rows (se_cfg fe) (se_fs fe) (se_rc fe) q kept = (cands, rc)"
    by force
  have f: "fst (rank_scoped fe q cands rc p1 p limit mx st) = Wild_Write"
    using out passes c by (simp add: find_ranked_def Let_def rw_def plan_def fetch_def kept_def)
  have "tidy 96 kept" using all_passes_tidy [OF passes] by (simp add: kept_def)
  then have "tidy 96 cands" using fusion_tidy [OF law] c by (metis fst_conv)
  moreover have "link_rank_on rc = link_rank_on (se_rc fe)"
    using c by (auto simp: fusion_rows_def Let_def link_rank_on_def split: if_splits)
  ultimately show ?thesis using ranked_result_wild f by blast
qed

lemma find_ranked_tidy:
  assumes law: "get_law (se_rc fe)" and out: "fst (find_ranked fe q t v limit mx st) = Found out"
  shows "tidy (nat mx) out"
proof -
  define rw where "rw = memory_query_rewrite (fe_rewrite fe) (Some q)"
  define plan where "plan = find_plan fe zero_plan q limit"
  define fetch where "fetch = scoped_fetch_limit (se_cfg fe) (rc_env (se_rc fe)) plan (find_norm fe q) limit"
  obtain rows p1 p where passes: "all_passes fe (scoped_hint t v) rw q plan limit fetch (fd_pool st) = Some (rows, p1, p)"
    using out by (auto simp: find_ranked_def Let_def rw_def plan_def fetch_def split: option.splits)
  define kept where "kept = drop_archived (se_cfg fe) (se_fs fe)
     (memory_filter_scope (fs_scope_matches (se_fs fe)) (fs_workspace_matches (se_fs fe)) rows t v)"
  obtain cands rc where c: "fusion_rows (se_cfg fe) (se_fs fe) (se_rc fe) q kept = (cands, rc)"
    by force
  have f: "fst (rank_scoped fe q cands rc p1 p limit mx st) = Found out"
    using out passes c by (simp add: find_ranked_def Let_def rw_def plan_def fetch_def kept_def)
  have "tidy 96 kept" using all_passes_tidy [OF passes] by (simp add: kept_def)
  then have "tidy 96 cands" using fusion_tidy [OF law] c by (metis fst_conv)
  moreover have "get_law rc"
    using fusion_store [of "se_cfg fe" "se_fs fe" "se_rc fe" q kept] c law by (auto simp: get_law_def)
  ultimately show ?thesis using ranked_result_tidy f by blast
qed

lemma fallback_collect_tidy:
  assumes "fallback_collect rv keep stop cap q terms fetch = Some out" and "stop \<le> cap"
  shows "tidy stop out"
proof -
  let ?add = "\<lambda>o' m. if stop \<le> length o' then o' else memory_append_unique cap o' m"
  have add: "tidy stop o' \<Longrightarrow> tidy stop (foldl ?add o' ms)" for o' ms
  proof (induction ms arbitrary: o')
    case (Cons m ms)
    then have "tidy stop (?add o' m)"
      using assms(2) by (auto simp: tidy_def memory_append_unique_def list_ex_iff)
    then show ?case using Cons.IH by simp
  qed simp
  let ?step = "\<lambda>r t. case r of None \<Rightarrow> None
        | Some out \<Rightarrow> if t \<noteq> None \<and> stop \<le> length out then Some out
            else case like_rows rv (case t of None \<Rightarrow> q | Some w \<Rightarrow> w) fetch of None \<Rightarrow> None
                 | Some got \<Rightarrow> Some (foldl ?add out (keep got))"
  have "foldl ?step (Some []) ts = Some out \<Longrightarrow> tidy stop out" for ts out
  proof (induction ts arbitrary: out rule: rev_induct)
    case (snoc t ts)
    show ?case
    proof (cases "foldl ?step (Some []) ts")
      case (Some o1)
      have "tidy stop o1" by (rule snoc.IH [OF Some])
      moreover have "?step (Some o1) t = Some out" using snoc.prems Some by simp
      ultimately show ?thesis using add [of o1] by (auto split: if_splits option.splits)
    next
      case None
      then show ?thesis using snoc.prems by simp
    qed
  qed (simp add: tidy_def)
  from this [OF assms(1) [unfolded fallback_collect_def]] show ?thesis .
qed

lemma fallback_tidy:
  assumes "memory_find_facts_lexical_fallback se q t v limit mx = Some out"
  shows "tidy (nat mx) out"
proof (cases "\<not> nonempty q \<or> mx \<le> 0")
  case True
  then have "out = []" using assms unfolding memory_find_facts_lexical_fallback_def by auto
  then show ?thesis by (simp add: tidy_def)
next
  case False
  have "nat (start_limit limit mx) \<le> nat mx" by (auto simp: start_limit_def Let_def)
  moreover from this have "tidy (nat (start_limit limit mx)) out"
    using assms False fallback_collect_tidy
    unfolding memory_find_facts_lexical_fallback_def Let_def by (simp only: if_False) blast
  ultimately show ?thesis by (auto simp: tidy_def)
qed

text \<open>A small store to instantiate the properties with: no vector index, and a search by words that
  finds the first row twice.\<close>

definition sample_store :: rank_store where
  "sample_store = \<lparr>st_temporal_refs = (\<lambda>_. []), st_evidence = (\<lambda>_. None), st_salience = (\<lambda>_ d. d), st_surprise = (\<lambda>_ d. d),
     st_units = (\<lambda>_. []), st_unit_edge = (\<lambda>_ _. False), st_state = (\<lambda>_. None), st_entities = (\<lambda>_. []),
     st_scenes = (\<lambda>_. []), st_scene_member = (\<lambda>_ _. False), st_links = (\<lambda>_. []),
     st_get = (\<lambda>i. if i \<in> {1, 2} then Some (row_of i) else None)\<rparr>"

definition sample_rank_config :: rank_config where
  "sample_rank_config = \<lparr>memory_weight_profile = [], memory_bm25_weight = 0, memory_semantic_weight = 0,
     memory_pagerank_enabled = False, memory_pagerank_iterations = 0, memory_pagerank_weight = 0,
     memory_pagerank_relations = [], config_salience_enabled = 0, config_salience_weight = 0,
     config_surprise_enabled = 0, config_surprise_weight = 0, config_salience_window_size = 0,
     config_rerank_mode = None, memory_scenes_enabled = False, memory_negation_enabled = False\<rparr>"

definition sample_rank_context :: rank_context where
  "sample_rank_context = \<lparr>rc_store = sample_store, rc_config = sample_rank_config, rc_env = (\<lambda>_. None),
     rc_file = (\<lambda>_. None), rc_norm = (\<lambda>s n. []), rc_today = 0, rc_fusion = fusion_initial,
     kind_workflow = ''workflow'', kind_fact = ''fact'', kind_preference = ''preference'', kind_episode = ''episode'',
     cap_kind = 16, cap_key = 256, cap_content = 2048, cap_use_cases = 256\<rparr>"

definition sample_retrieval :: "unit retrieval" where
  "sample_retrieval = \<lparr>rv_alias = (\<lambda>_ _. []), rv_entity = (\<lambda>_ _. []), rv_temporal = (\<lambda>_ _. []), rv_summary = (\<lambda>_ _. []),
     rv_event = (\<lambda>_ _. []), rv_relation = (\<lambda>_ _. []), rv_edges = (\<lambda>_ _. []), rv_negation = (\<lambda>_ _. []),
     rv_like = (\<lambda>_ _. Some [row_of 1, row_of 1, row_of 2]), rv_embed = (\<lambda>_. None), rv_search = (\<lambda>_ _ _. None),
     rv_search_kinds = (\<lambda>_ _ _. None), rv_row = (\<lambda>_. None), rv_unit_row = (\<lambda>_. None), rv_unit_meta = (\<lambda>_. None),
     rv_stored_dim = 0, rv_unit_offset = 0, rv_floor_scale = 1, rv_norm = (\<lambda>s n. []), kind_episodic = ''episodic'',
     kind_semantic = ''semantic'', kind_procedural = ''procedural''\<rparr>"

definition sample_find_config :: find_config where
  "sample_find_config = \<lparr>fc_routing = False, fc_aggregation = False, fc_aggregation_max = 0, fc_aggregation_default = 20,
     fc_budget = False, fc_budget_base = 0, fc_shape_aware = False, fc_lifecycle = False, fc_hide_archived = False,
     fc_floor_summary = 0, fc_floor_fact = 0, fc_window_radius = 0, fc_status_cap = 16, fc_seed_cap = 64,
     fc_endpoint_cap = 256, fc_shared_workspace = ''shared''\<rparr>"

text \<open>The second row is the project's, the first one global.\<close>

definition sample_find_store :: find_store where
  "sample_find_store = \<lparr>fs_vector_ready = False, fs_aggregate = (\<lambda>_ _ _. ([], False)), fs_archived = (\<lambda>_. []),
     fs_collect = (\<lambda>_. []), fs_weighted = (\<lambda>_ _ _. []), fs_before = (\<lambda>_ _ _. []), fs_after = (\<lambda>_ _ _. []),
     fs_scope_matches = (\<lambda>_ _ _. True), fs_workspace_matches = (\<lambda>_ _. True), fs_any_scope = (\<lambda>_. True),
     fs_context_rank = (\<lambda>_ i. if i = 2 then 3 else 1),
     fs_context_set = (\<lambda>w p i. \<lparr>sc_active = True, sc_include_all = i, sc_workspace = w, sc_project = p\<rparr>),
     fs_context_clear = \<lparr>sc_active = False, sc_include_all = False, sc_workspace = None, sc_project = None\<rparr>\<rparr>"

definition sample_env :: "unit find_env" where
  "sample_env = \<lparr>se_rv = (\<lambda>_. sample_retrieval), se_rc = sample_rank_context,
     se_tt = \<lparr>tt_contradiction = (\<lambda>_ _. False), tt_negative = (\<lambda>_. False), tt_neg_tokens = (\<lambda>_ _. (0, []))\<rparr>,
     se_lc = \<lparr>lc_expansion_mode = [], lc_expansion_k = 0, lc_config_present = True, lc_lanes_enabled = False,
       lc_summary_kinds = [], lc_fact_kinds = [], lc_k_summary = 0, lc_k_fact = 0, lc_negation_enabled = False\<rparr>,
     se_cfg = sample_find_config, se_fs = sample_find_store,
     fe_rewrite = \<lparr>rw_enabled = False, rw_inproc = None, rw_command = [], rw_hyde = False, rw_decompose = False,
       rw_max_sub = 0, rw_exec = (\<lambda>_ _. None), rw_parse = (\<lambda>_. None), rw_routing = False, rw_norm = (\<lambda>s n. []),
       rw_cap_hyde = 1024, rw_cap_sub = 256, rw_max_subqueries = 4\<rparr>,
     fe_elapsed = 0\<rparr>"

definition sample_state :: find_state where
  "sample_state = \<lparr>fd_pool = \<lparr>po_rows = [], po_stats = [], po_hits = [], po_lane_summary = [], po_lane_fact = []\<rparr>,
     fd_stats = \<lparr>ps_last_ms = 0, ps_avg_ms = 0, ps_max_ms = 0, ps_samples = 0, ps_last_candidates = 0, ps_last_edges = 0\<rparr>,
     fd_scope = fs_context_clear sample_find_store\<rparr>"

lemmas sample_simps = sample_env_def sample_find_config_def sample_find_store_def sample_rank_context_def
  sample_rank_config_def sample_store_def sample_retrieval_def sample_state_def

lemma sample_get_law: "get_law (se_rc sample_env)"
  by (auto simp: get_law_def sample_simps split: if_splits)

lemma split_no_word [simp]: "memory_split_tokens (Some []) n = []"
  by (simp add: memory_split_tokens_def)

lemma sample_search:
  "memory_find_facts_scoped sample_env (Some ''dns'') None None 5 8 sample_state = (Found [row_of 1, row_of 2], sample_state)"
  by (simp add: memory_find_facts_scoped_def sample_simps found_of_def memory_find_facts_lexical_fallback_def
      search_env.truncate_def start_limit_def fallback_terms_def fallback_collect_def like_rows_def fallback_fetch_def
      memory_filter_scope_def memory_append_unique_def Let_def)

text \<open>
  C30. A search by similarity, or by words when there is no vector index, returns no row twice and
  never more rows than the caller's array holds, whatever the passes of the rewritten query found,
  and with the filters, the bridge rows of the graph fusion and the session windows each switched on
  or off.  It writes outside its array of candidates only with the linked neighbours of the ranking
  or the lane floors switched on; of such a run nothing is said.
\<close>

theorem search_results_distinct:
  assumes "get_law (se_rc fe)" and "\<not> fc_aggregation (se_cfg fe)"
  shows "case fst (memory_find_facts_scoped fe query scope_type scope_value limit mx st) of
     Found out \<Rightarrow> distinct (map m_id out) \<and> length out \<le> nat mx
   | Wild_Write \<Rightarrow> link_rank_on (se_rc fe) \<or> lc_lanes_enabled (se_lc fe)
   | Failed \<Rightarrow> True"
proof -
  let ?r = "fst (memory_find_facts_scoped fe query scope_type scope_value limit mx st)"
  have "tidy (nat mx) out" if "?r = Found out" for out
    using that assms(2)
    by (auto simp: memory_find_facts_scoped_def Let_def found_of_def split: if_splits option.splits
        intro: fallback_tidy find_ranked_tidy [OF assms(1)]) (simp add: tidy_def)
  moreover have "link_rank_on (se_rc fe) \<or> lc_lanes_enabled (se_lc fe)" if "?r = Wild_Write"
    using that assms(2) find_ranked_wild [OF assms(1)]
    by (auto simp: memory_find_facts_scoped_def Let_def found_of_def split: if_splits option.splits)
  ultimately show ?thesis by (auto simp: tidy_def split: find_outcome.splits)
qed

theorem search_results_distinct_witness:
  "fst (memory_find_facts_scoped sample_env (Some ''dns'') None None 5 8 sample_state) = Found [row_of 1, row_of 2] \<and>
   distinct (map m_id [row_of 1, row_of 2])"
proof -
  have "\<not> fc_aggregation (se_cfg sample_env)" by (simp add: sample_simps)
  then show ?thesis
    using search_results_distinct [OF sample_get_law, where query = "Some ''dns''" and scope_type = None
        and scope_value = None and limit = 5 and mx = 8 and st = sample_state]
    unfolding sample_search by simp
qed

subsection \<open>Visible rows\<close>

lemma sorted_take: "sorted (rev (map f xs)) \<Longrightarrow> sorted (rev (map f (take n xs)))"
  by (simp add: sorted_rev_iff_nth_mono)

text \<open>Who sets the request's scope reads it back.\<close>

definition scope_laws :: "find_store \<Rightarrow> bool" where
  "scope_laws fs \<longleftrightarrow>
     (\<forall>w p i. fs_context_set fs w p i = \<lparr>sc_active = True, sc_include_all = i, sc_workspace = w, sc_project = p\<rparr>) \<and>
     \<not> sc_active (fs_context_clear fs)"

definition visible_row :: "(int \<Rightarrow> int) \<Rightarrow> bool \<Rightarrow> memory_t \<Rightarrow> bool" where
  "visible_row rank everything m \<longleftrightarrow> 0 < rank (m_id m) \<or> everything"

lemma rank_visible_ok:
  assumes out: "fst (rank_visible fe q rank kept p limit mx stats) = Found rows"
  shows "sorted (rev (map (rank \<circ> m_id) rows))" and "length rows \<le> nat mx"
    and "pc_enabled (memory_load_pagerank_config (rc_config (se_rc fe)) (rc_env (se_rc fe))) = 0 \<Longrightarrow> length kept \<le> 128 \<Longrightarrow>
      list_all (visible_row rank everything) kept \<Longrightarrow> list_all (visible_row rank everything) rows"
proof -
  obtain n ranked stats' where r: "memory_rerank_matches (se_rc fe) (se_tt fe) (fe_elapsed fe) stats (Some q) kept
      (int (length kept)) (po_hits p) (po_stats p) = (n, ranked, stats')"
    by (metis prod_cases3)
  define n2 where "n2 = (let n1 = (if n < limit then n else limit) in if mx < n1 then mx else n1)"
  define local_first where "local_first = memory_sort_scope_buckets rank (take (nat n) ranked)"
  obtain promoted where floors: "lane_floors (se_cfg fe) (se_lc fe) p (nat n) n2 local_first = Some promoted" and
    rows: "rows = take (nat n2) (memory_sort_scope_buckets rank promoted)"
    using out r by (auto simp: rank_visible_def Let_def n2_def local_first_def split: option.splits if_splits)
  show "sorted (rev (map (rank \<circ> m_id) rows))"
    unfolding rows memory_sort_scope_buckets_def by (rule sorted_take [OF insertion.sorted_srt])
  show "length rows \<le> nat mx" by (auto simp: rows n2_def Let_def)
  assume off: "pc_enabled (memory_load_pagerank_config (rc_config (se_rc fe)) (rc_env (se_rc fe))) = 0"
    and len: "length kept \<le> 128" and kept: "list_all (visible_row rank everything) kept"
  have ids: "mset (map m_id ranked) = mset (map m_id kept)" and n: "n = int (length kept)"
    using rerank_ids [OF off len r] by simp_all
  have "length local_first = nat n"
    using mset_eq_length [OF ids] by (simp add: local_first_def memory_sort_scope_buckets_def insertion.length_srt n)
  then have "mset promoted = mset local_first" using lane_floors_mset [OF floors] by simp
  then have "set promoted \<subseteq> set ranked"
    by (metis local_first_def memory_sort_scope_buckets_def insertion.set_srt mset_eq_setD set_take_subset)
  then have "set rows \<subseteq> set ranked"
    unfolding rows by (metis memory_sort_scope_buckets_def insertion.set_srt order_trans set_take_subset)
  moreover have "visible_row rank everything m" if "m \<in> set ranked" for m
  proof -
    have "m_id m \<in> set (map m_id kept)" using that mset_eq_setD [OF ids] by force
    then show ?thesis using kept by (auto simp: visible_row_def list_all_iff)
  qed
  ultimately show "list_all (visible_row rank everything) rows" by (auto simp: list_all_iff)
qed

lemma rank_visible_wild:
  assumes "length kept \<le> 96" and "fst (rank_visible fe q rank kept p limit mx stats) = Wild_Write"
  shows "link_rank_on (se_rc fe) \<or> lc_lanes_enabled (se_lc fe)"
proof (rule ccontr)
  assume off: "\<not> ?thesis"
  obtain n ranked stats' where r: "memory_rerank_matches (se_rc fe) (se_tt fe) (fe_elapsed fe) stats (Some q) kept
      (int (length kept)) (po_hits p) (po_stats p) = (n, ranked, stats')"
    by (metis prod_cases3)
  have "\<not> MEMORY_RERANK_BUFFER < length ranked"
    using rerank_no_overflow [OF _ assms(1) r] off by simp
  then show False using assms(2) r off by (simp add: rank_visible_def Let_def lane_floors_off)
qed

lemma visible_fallback_ok:
  assumes "memory_find_facts_visible_lexical_fallback se ctx q ws pj limit mx = Some rows" and "sc_active ctx"
  shows "sorted (rev (map (fs_context_rank (se_fs se) ctx \<circ> m_id) rows)) \<and> length rows \<le> nat mx \<and>
     list_all (visible_row (fs_context_rank (se_fs se) ctx) (sc_include_all ctx)) rows"
proof (cases "\<not> nonempty q \<or> mx \<le> 0")
  case True
  then have "rows = []" using assms(1) unfolding memory_find_facts_visible_lexical_fallback_def by auto
  then show ?thesis by simp
next
  case False
  let ?rank = "fs_context_rank (se_fs se) ctx"
  let ?l = "start_limit limit mx"
  obtain all where rows: "rows = take (nat ?l) (map snd (selection_sort fst
      (map (\<lambda>m. (?rank (m_id m), m)) (filter (\<lambda>m. 0 < ?rank (m_id m) \<or> sc_include_all ctx) all))))"
    using assms False by (auto simp: memory_find_facts_visible_lexical_fallback_def Let_def split: option.splits)
  define pairs where "pairs = map (\<lambda>m. (?rank (m_id m), m)) (filter (\<lambda>m. 0 < ?rank (m_id m) \<or> sc_include_all ctx) all)"
  have pair: "\<forall>x \<in> set (selection_sort fst pairs). fst x = ?rank (m_id (snd x)) \<and> visible_row ?rank (sc_include_all ctx) (snd x)"
    unfolding selection.set_srt pairs_def by (auto simp: visible_row_def)
  then have ranks: "map (?rank \<circ> m_id) (map snd (selection_sort fst pairs)) = map fst (selection_sort fst pairs)"
    by simp
  have "sorted (rev (map (?rank \<circ> m_id) (map snd (selection_sort fst pairs))))"
    unfolding ranks by (rule selection.sorted_srt)
  then have "sorted (rev (map (?rank \<circ> m_id) rows))"
    unfolding rows pairs_def [symmetric] by (rule sorted_take)
  moreover have "length rows \<le> nat mx" by (auto simp: rows start_limit_def Let_def)
  moreover have "list_all (visible_row ?rank (sc_include_all ctx)) rows"
    using pair unfolding rows pairs_def [symmetric] by (auto simp: list_all_iff dest!: in_set_takeD)
  ultimately show ?thesis by blast
qed

text \<open>
  C33. A visible search returns at most the caller's number of rows, the rows of the request's
  project first, then those of its workspace, then the global ones, whatever the ranking and the
  lane floors did; a row outside the scope comes back only when the request includes everything
  or the link rank, which follows links without looking at the scope, is on.  The search writes
  outside its arrays only with the link rank or the lane floors on.  And it leaves the request's
  scope as it found it, on every path, failures included.
\<close>

theorem visible_search_local_first:
  assumes "scope_laws (se_fs fe)" and "sc_active (fd_scope st) \<or> fd_scope st = fs_context_clear (se_fs fe)"
  shows "let everything = (if sc_active (fd_scope st) then sc_include_all (fd_scope st) else include_all);
             rank = fs_context_rank (se_fs fe) (fs_context_set (se_fs fe) workspace project everything);
             (out, st') = memory_find_facts_visible_ex fe query workspace project include_all limit mx st
         in fd_scope st' = fd_scope st \<and>
            (case out of Found rows \<Rightarrow>
               sorted (rev (map (rank \<circ> m_id) rows)) \<and> length rows \<le> nat mx \<and>
               (link_rank_on (se_rc fe) \<or> list_all (visible_row rank everything) rows)
             | Wild_Write \<Rightarrow> link_rank_on (se_rc fe) \<or> lc_lanes_enabled (se_lc fe)
             | Failed \<Rightarrow> True)"
proof -
  define everything where "everything = (if sc_active (fd_scope st) then sc_include_all (fd_scope st) else include_all)"
  define ctx where "ctx = fs_context_set (se_fs fe) workspace project everything"
  define rank where "rank = fs_context_rank (se_fs fe) ctx"
  have ctx: "sc_active ctx" "sc_include_all ctx = everything" using assms(1) by (simp_all add: ctx_def scope_laws_def)
  have restored: "restore_scope (se_fs fe) (fd_scope st) = fd_scope st"
    using assms by (auto simp: restore_scope_def scope_laws_def)
  have fs: "se_fs (search_env.truncate fe) = se_fs fe" by (simp add: search_env.truncate_def)
  let ?r = "memory_find_facts_visible_ex fe query workspace project include_all limit mx st"
  have scope: "fd_scope (snd ?r) = fd_scope st"
    by (simp add: memory_find_facts_visible_ex_def Let_def restored split: option.split prod.split)
  have found: "sorted (rev (map (rank \<circ> m_id) rows)) \<and> length rows \<le> nat mx \<and>
      (link_rank_on (se_rc fe) \<or> list_all (visible_row rank everything) rows)" if r: "fst ?r = Found rows" for rows
  proof -
    consider (none) "rows = []"
      | (fallback) "memory_find_facts_visible_lexical_fallback (search_env.truncate fe) ctx query workspace project limit mx = Some rows"
      | (vector) p q lim stats hint nq intent plan fetch p0
        where "fst (rank_visible fe q rank (filter (\<lambda>m. 0 < rank (m_id m) \<or> everything) (po_rows p)) p lim mx stats) = Found rows"
          "generate fe hint q nq intent plan fetch 96 p0 = Some p"
      using r unfolding memory_find_facts_visible_ex_def Let_def everything_def [symmetric] ctx_def [symmetric]
        rank_def [symmetric] found_of_def split_beta
      by (auto split: if_splits option.splits)
    then show ?thesis
    proof cases
      case fallback
      then show ?thesis using visible_fallback_ok [OF fallback ctx(1)] by (simp add: fs rank_def ctx)
    next
      case vector
      let ?kept = "filter (\<lambda>m. 0 < rank (m_id m) \<or> everything) (po_rows p)"
      have "list_all (visible_row rank everything) ?kept" by (auto simp: list_all_iff visible_row_def)
      moreover have "length ?kept \<le> 128" using filter_tidy [OF generate_tidy [OF vector(2)], of "\<lambda>m. 0 < rank (m_id m) \<or> everything"] by (simp add: tidy_def)
      ultimately show ?thesis using rank_visible_ok [OF vector(1)] unfolding link_rank_on_def by blast
    qed simp
  qed
  have wild: "link_rank_on (se_rc fe) \<or> lc_lanes_enabled (se_lc fe)" if r: "fst ?r = Wild_Write"
  proof -
    obtain p lim stats hint nq intent plan fetch p0
      where "fst (rank_visible fe (cptr_str query) rank (filter (\<lambda>m. 0 < rank (m_id m) \<or> everything) (po_rows p)) p lim mx stats) = Wild_Write"
        and gen: "generate fe hint (cptr_str query) nq intent plan fetch 96 p0 = Some p"
      using r unfolding memory_find_facts_visible_ex_def Let_def everything_def [symmetric] ctx_def [symmetric]
        rank_def [symmetric] found_of_def split_beta
      by (auto split: if_splits option.splits)
    moreover have "length (filter (\<lambda>m. 0 < rank (m_id m) \<or> everything) (po_rows p)) \<le> 96"
      using filter_tidy [OF generate_tidy [OF gen], of "\<lambda>m. 0 < rank (m_id m) \<or> everything"] by (simp add: tidy_def)
    ultimately show ?thesis using rank_visible_wild by blast
  qed
  show ?thesis
    using scope found wild
    by (simp add: Let_def split_beta everything_def [symmetric] ctx_def [symmetric] rank_def [symmetric] split: find_outcome.split)
qed

lemma sample_scope_laws: "scope_laws (se_fs sample_env)"
  by (simp add: scope_laws_def sample_simps)

lemma sort_two: "selection_sort fst [(1 :: int, a), (3, b)] = [(3, b), (1, a)]"
  by (simp add: selection_sort_def selection_step_def best_index_def swap_rows_def upt_conv_Cons)

lemma sample_visible:
  "memory_find_facts_visible_ex sample_env (Some ''dns'') None (Some ''p'') False 5 8 sample_state =
     (Found [row_of 2, row_of 1], sample_state)"
  by (simp add: memory_find_facts_visible_ex_def sample_simps found_of_def memory_find_facts_visible_lexical_fallback_def
      search_env.truncate_def start_limit_def fallback_terms_def fallback_collect_def like_rows_def fallback_fetch_def
      restore_scope_def memory_append_unique_def Let_def sort_two)

theorem visible_search_local_first_witness:
  "memory_find_facts_visible_ex sample_env (Some ''dns'') None (Some ''p'') False 5 8 sample_state =
     (Found [row_of 2, row_of 1], sample_state) \<and>
   sorted (rev (map ((\<lambda>i. if i = 2 then 3 else 1 :: int) \<circ> m_id) [row_of 2, row_of 1]))"
proof -
  have "fd_scope sample_state = fs_context_clear (se_fs sample_env)" by (simp add: sample_simps)
  then show ?thesis
    using visible_search_local_first [OF sample_scope_laws, where st = sample_state and include_all = False
        and workspace = None and project = "Some ''p''" and query = "Some ''dns''" and limit = 5 and mx = 8]
    by (simp add: sample_visible)
qed

end
