(* ===== verification/Context.thy ===== *)
theory Context
  imports Term_Shapes
begin

text \<open>
  The query side of \<open>memory_context.c\<close>: the intent of a task and the retrieval plan for it, the
  shapes the deriver answers, the pivot of a topic and the confidence of a retrieval.

  \<open>strncasecmp\<close> at the keyword's length is \<open>ci_starts\<close>; the enumerations are datatypes and the
  weights of a plan are reals.
\<close>

subsection \<open>Keywords\<close>

definition debug_keywords :: "string list" where
  "debug_keywords =
     [''fix'', ''bug'', ''error'', ''fail'', ''broken'', ''crash'', ''debug'', ''issue'', ''wrong'', ''stacktrace'',
      ''panic'', ''segfault'', ''exception'']"

definition plan_keywords :: "string list" where
  "plan_keywords =
     [''plan'', ''design'', ''architect'', ''propose'', ''new'', ''feature'', ''create'', ''build'', ''implement'', ''add'']"

definition review_keywords :: "string list" where
  "review_keywords =
     [''review'', ''check'', ''audit'', ''convention'', ''style'', ''verify'', ''lint'', ''inspect'']"

definition deploy_keywords :: "string list" where
  "deploy_keywords =
     [''deploy'', ''release'', ''ship'', ''rollout'', ''migrate'', ''upgrade'', ''install'', ''publish'']"

definition session_keywords :: "string list" where
  "session_keywords =
     [''what happened'', ''how did'', ''tell me about'', ''recap'', ''summary of'', ''session summary'',
      ''what went on'', ''what was discussed'', ''what did we do'']"

text \<open>A keyword counts once, where it starts a word: the character before it is not a letter.\<close>

fun keyword_in :: "bool \<Rightarrow> string \<Rightarrow> string \<Rightarrow> bool" where
  "keyword_in after_letter [] kw = False"
| "keyword_in after_letter (c # cs) kw =
     (\<not> after_letter \<and> ci_starts (c # cs) kw \<or> keyword_in (isalpha c) cs kw)"

definition count_keyword_matches :: "string \<Rightarrow> string list \<Rightarrow> nat" where
  "count_keyword_matches t keywords = length (filter (keyword_in False t) keywords)"

lemma count_keyword_matches_le: "count_keyword_matches t kws \<le> length kws"
  by (simp add: count_keyword_matches_def)

definition temporal_phrases :: "string list" where
  "temporal_phrases =
     [''yesterday'', ''last week'', ''last month'', ''before we'', ''before the'', ''after we'', ''after the'',
      ''previously'', ''used to'', ''when we'', ''at the time'', ''back when'', ''prior to'', ''earlier today'',
      ''this morning'', ''this week'', ''recently'', ''lately'', ''since we'', ''once we'']"

definition has_temporal_markers :: "cptr \<Rightarrow> bool" where
  "has_temporal_markers t \<longleftrightarrow> list_ex (contains (map tolower (cbuf 2048 (cptr_str t)))) temporal_phrases"

definition memory_is_session_query :: "cptr \<Rightarrow> bool" where
  "memory_is_session_query t \<longleftrightarrow> list_ex (contains (map tolower (cbuf 512 (cptr_str t)))) session_keywords"

definition quantitative_keywords :: "string list" where
  "quantitative_keywords =
     [''how many'', ''how often'', ''how much'', ''count'', ''number of'', ''total'', ''times'', ''frequency'',
      ''how frequent'']"

definition interval_keywords :: "string list" where
  "interval_keywords =
     [''how long ago'', ''how long since'', ''how long until'', ''days between'', ''days since'', ''days ago'',
      ''weeks ago'', ''months ago'', ''years ago'', ''time between'', ''time since'', ''interval'', ''duration'',
      ''elapsed'']"

datatype deriver_shape = DERIVE_UNKNOWN | DERIVE_QUANTITATIVE | DERIVE_INTERVAL

definition memory_classify_deriver_shape :: "cptr \<Rightarrow> deriver_shape" where
  "memory_classify_deriver_shape query =
     (let lower = map tolower (cbuf 512 (cptr_str query))
      in if list_ex (contains lower) quantitative_keywords then DERIVE_QUANTITATIVE
         else if list_ex (contains lower) interval_keywords then DERIVE_INTERVAL
         else DERIVE_UNKNOWN)"

text \<open>No phrase of the three lists is empty, so an absent or an empty text has no shape.\<close>

lemma contains_Nil: "contains [] kw \<longleftrightarrow> kw = []"
  by (simp add: contains_def)

lemma no_text_no_shape:
  "\<not> nonempty t \<Longrightarrow> \<not> has_temporal_markers t"
  "\<not> nonempty t \<Longrightarrow> \<not> memory_is_session_query t"
  "\<not> nonempty t \<Longrightarrow> memory_classify_deriver_shape t = DERIVE_UNKNOWN"
  by (cases t; simp add: has_temporal_markers_def memory_is_session_query_def memory_classify_deriver_shape_def
      temporal_phrases_def session_keywords_def quantitative_keywords_def interval_keywords_def contains_Nil
      cbuf_def Let_def)+

subsection \<open>Intent and retrieval plan\<close>

datatype task_intent = INTENT_DEBUG | INTENT_PLAN | INTENT_REVIEW | INTENT_DEPLOY | INTENT_GENERAL

text \<open>The first of the largest scores: a later one replaces it only when it is larger.\<close>

fun best_intent :: "task_intent \<times> nat \<Rightarrow> (task_intent \<times> nat) list \<Rightarrow> task_intent \<times> nat" where
  "best_intent b [] = b"
| "best_intent b (s # ss) = best_intent (if snd b < snd s then s else b) ss"

definition intent_scores :: "string \<Rightarrow> (task_intent \<times> nat) list" where
  "intent_scores hint =
     [(INTENT_DEBUG, count_keyword_matches hint debug_keywords), (INTENT_PLAN, count_keyword_matches hint plan_keywords),
      (INTENT_REVIEW, count_keyword_matches hint review_keywords), (INTENT_DEPLOY, count_keyword_matches hint deploy_keywords)]"

definition classify_intent :: "cptr \<Rightarrow> task_intent" where
  "classify_intent task_hint =
     (if \<not> nonempty task_hint then INTENT_GENERAL
      else let ss = intent_scores (cptr_str task_hint);
               (best, score) = best_intent (hd ss) (tl ss)
           in if score = 0 then if has_temporal_markers task_hint then INTENT_REVIEW else INTENT_GENERAL
              else best)"

lemma best_intent_max: "best_intent b ss \<in> set (b # ss) \<and> (\<forall>s \<in> set (b # ss). snd s \<le> snd (best_intent b ss))"
proof (induction ss arbitrary: b)
  case (Cons s ss)
  from Cons.IH [of "if snd b < snd s then s else b"] show ?case
    by (auto split: if_splits)
qed simp

lemma classify_intent_best:
  assumes "s \<in> set (intent_scores hint)" and "0 < snd s" and "hint \<noteq> []"
  shows "\<exists>n. (classify_intent (Some hint), n) \<in> set (intent_scores hint) \<and> snd s \<le> n"
proof -
  let ?ss = "intent_scores hint"
  let ?b = "best_intent (hd ?ss) (tl ?ss)"
  have "?ss \<noteq> []" by (simp add: intent_scores_def)
  then have cons: "hd ?ss # tl ?ss = ?ss" by simp
  have b: "?b \<in> set ?ss" "snd s \<le> snd ?b"
    using best_intent_max [of "hd ?ss" "tl ?ss"] assms(1) unfolding cons by auto
  obtain i n where bi: "?b = (i, n)" by (rule prod.exhaust)
  then have i: "?b = (i, n)" "n \<noteq> 0" using b(2) assms(2) by simp_all
  then have "classify_intent (Some hint) = fst ?b"
    using assms(3) by (simp add: classify_intent_def Let_def)
  then show ?thesis using b by (metis prod.collapse)
qed

text \<open>The budget of each kind: fact, preference, decision, episode, task, scratch, procedure, policy.\<close>

record retrieval_plan =
  rp_intent :: task_intent
  rp_budget :: "real list"
  rp_include_l3 :: bool
  rp_recency :: real

fun plan_budgets :: "task_intent \<Rightarrow> real list" where
  "plan_budgets INTENT_DEBUG = [0.14, 0.12, 0.10, 0.23, 0.05, 0, 0.26, 0.10]"
| "plan_budgets INTENT_PLAN = [0.23, 0.12, 0.23, 0.05, 0.09, 0, 0.05, 0.23]"
| "plan_budgets INTENT_REVIEW = [0.13, 0.15, 0.18, 0.09, 0, 0, 0.10, 0.35]"
| "plan_budgets INTENT_DEPLOY = [0.13, 0.12, 0.10, 0.14, 0.05, 0, 0.27, 0.19]"
| "plan_budgets INTENT_GENERAL = [0.18, 0.12, 0.14, 0.14, 0.10, 0, 0.15, 0.17]"

definition retrieval_plan_for_intent :: "task_intent \<Rightarrow> retrieval_plan" where
  "retrieval_plan_for_intent i =
     \<lparr>rp_intent = i, rp_budget = plan_budgets i, rp_include_l3 = (i = INTENT_DEBUG \<or> i = INTENT_DEPLOY),
      rp_recency = (case i of INTENT_DEBUG \<Rightarrow> 0.7 | INTENT_PLAN \<Rightarrow> 0.2 | INTENT_REVIEW \<Rightarrow> 0.3
        | INTENT_DEPLOY \<Rightarrow> 0.5 | INTENT_GENERAL \<Rightarrow> 0.3)\<rparr>"

lemma budgets_sum: "sum_list (plan_budgets i) = 1"
  and budgets_nonneg: "b \<in> set (plan_budgets i) \<Longrightarrow> 0 \<le> b"
  and budgets_reserved: "0.12 \<le> plan_budgets i ! 1" "0.15 \<le> plan_budgets i ! 1 + plan_budgets i ! 7"
    "length (plan_budgets i) = 8"
  by (cases i; auto)+

subsection \<open>Topic pivot\<close>

definition coverage_stopwords :: "string list" where
  "coverage_stopwords =
     [''a'', ''an'', ''the'', ''is'', ''in'', ''on'', ''at'', ''to'', ''for'', ''of'', ''and'', ''or'', ''but'', ''it'',
      ''its'', ''was'', ''are'', ''be'', ''been'', ''has'', ''have'', ''had'', ''do'', ''does'', ''did'', ''will'', ''would'',
      ''could'', ''should'', ''may'', ''might'', ''me'', ''my'', ''we'', ''us'', ''our'', ''you'', ''your'', ''he'', ''she'',
      ''they'', ''them'', ''what'', ''when'', ''where'', ''who'', ''how'', ''why'', ''which'', ''that'', ''this'']"

definition is_coverage_stopword :: "string \<Rightarrow> bool" where
  "is_coverage_stopword w \<longleftrightarrow> list_ex (\<lambda>s. map tolower w = map tolower s) coverage_stopwords"

text \<open>
  The tokens of a turn: lower-case words of 3 to 31 letters and underscores that are no stop
  words, each once, at most 64.
\<close>

definition pivot_step :: "string list \<Rightarrow> string \<Rightarrow> string list" where
  "pivot_step out w =
     (let tok = map tolower w
      in if 64 \<le> length out \<or> length w < 3 \<or> 32 \<le> length w \<or> is_coverage_stopword tok \<or> tok \<in> set out
         then out else out @ [tok])"

definition pivot_extract_tokens :: "cptr \<Rightarrow> string list" where
  "pivot_extract_tokens t =
     foldl pivot_step [] (lead_words isalpha (\<lambda>c. isalpha c \<or> c = CHR ''_'') (cptr_str t))"

definition pivot_contains :: "string list \<Rightarrow> string \<Rightarrow> bool" where
  "pivot_contains ts w \<longleftrightarrow> w \<in> set ts"

definition clamp_threshold :: "real \<Rightarrow> real \<Rightarrow> real" where
  "clamp_threshold dflt threshold =
     (let t = (if threshold \<le> 0 then dflt else threshold) in if 1 < t then 1 else t)"

definition memory_recall_topic_pivot :: "real \<Rightarrow> cptr \<Rightarrow> cptr \<Rightarrow> real \<Rightarrow> bool" where
  "memory_recall_topic_pivot dflt prev_text cur_text threshold \<longleftrightarrow>
     nonempty prev_text \<and> nonempty cur_text \<and>
     (let a = pivot_extract_tokens prev_text; b = pivot_extract_tokens cur_text
      in if a = [] \<or> b = [] then False
         else let intersect = length (filter (pivot_contains b) a);
                  u = int (length a) + int (length b) - int intersect
              in 0 < u \<and> real intersect / real_of_int u < clamp_threshold dflt threshold)"

lemma pivot_step_ok: "distinct out \<and> length out \<le> 64 \<Longrightarrow> distinct (pivot_step out w) \<and> length (pivot_step out w) \<le> 64"
  by (simp add: pivot_step_def Let_def)

lemma pivot_tokens_ok: "distinct (pivot_extract_tokens t) \<and> length (pivot_extract_tokens t) \<le> 64"
proof -
  have "distinct (foldl pivot_step out ws) \<and> length (foldl pivot_step out ws) \<le> 64"
    if "distinct out \<and> length out \<le> 64" for out ws
    using that by (induction ws arbitrary: out) (simp_all add: pivot_step_ok)
  then show ?thesis by (simp add: pivot_extract_tokens_def)
qed

text \<open>The quotient is the Jaccard index of the two token sets, so the test is symmetric.\<close>

definition jaccard :: "string set \<Rightarrow> string set \<Rightarrow> real" where
  "jaccard A B = real (card (A \<inter> B)) / real (card (A \<union> B))"

lemma jaccard_commute: "jaccard A B = jaccard B A"
  by (simp add: jaccard_def Int_commute Un_commute)

lemma jaccard_counts:
  assumes "distinct a" and "distinct b"
  shows "length (filter (pivot_contains b) a) = card (set a \<inter> set b)"
    and "int (length a) + int (length b) - int (card (set a \<inter> set b)) = int (card (set a \<union> set b))"
proof -
  show "length (filter (pivot_contains b) a) = card (set a \<inter> set b)"
    using distinct_card [OF distinct_filter [OF assms(1), of "pivot_contains b"]]
    by (simp add: pivot_contains_def Int_def)
  have "card (set a) + card (set b) = card (set a \<union> set b) + card (set a \<inter> set b)"
    by (rule card_Un_Int) simp_all
  then show "int (length a) + int (length b) - int (card (set a \<inter> set b)) = int (card (set a \<union> set b))"
    by (simp add: distinct_card assms)
qed

lemma topic_pivot_jaccard:
  "memory_recall_topic_pivot dflt (Some p) (Some c) th \<longleftrightarrow>
     (let A = set (pivot_extract_tokens (Some p)); B = set (pivot_extract_tokens (Some c))
      in p \<noteq> [] \<and> c \<noteq> [] \<and> A \<noteq> {} \<and> B \<noteq> {} \<and> jaccard A B < clamp_threshold dflt th)"
proof -
  let ?a = "pivot_extract_tokens (Some p)" and ?b = "pivot_extract_tokens (Some c)"
  have d: "distinct ?a" "distinct ?b" using pivot_tokens_ok by blast+
  have pos: "?a \<noteq> [] \<Longrightarrow> 0 < card (set ?a \<union> set ?b)" by (simp add: card_gt_0_iff)
  show ?thesis
    unfolding memory_recall_topic_pivot_def Let_def jaccard_counts(1) [OF d] jaccard_counts(2) [OF d] jaccard_def
    using pos by auto
qed

subsection \<open>Confidence of a retrieval\<close>

record context_candidate =
  cc_id :: int
  cc_key :: string
  cc_content :: string
  cc_score :: real

record retrieval_confidence =
  cf_coverage :: real
  cf_separation :: real
  cf_score :: real
  cf_below :: bool

definition significant_term :: "string \<Rightarrow> bool" where
  "significant_term w \<longleftrightarrow> \<not> (length w < 3 \<or> is_coverage_stopword w)"

definition lower_in :: "nat \<Rightarrow> string \<Rightarrow> string \<Rightarrow> bool" where
  "lower_in cap t w \<longleftrightarrow> contains (map tolower (cbuf cap t)) (map tolower (cbuf 128 w))"

definition covered_by :: "context_candidate list \<Rightarrow> string \<Rightarrow> bool" where
  "covered_by cands w \<longleftrightarrow> list_ex (\<lambda>c. lower_in 512 (cc_key c) w \<or> lower_in 2048 (cc_content c) w) (take 10 cands)"

definition share_of :: "nat \<Rightarrow> nat \<Rightarrow> real" where
  "share_of covered significant = (if 0 < significant then real covered / real significant else 0)"

definition separation :: "context_candidate list \<Rightarrow> real" where
  "separation cands =
     (if 2 \<le> length cands
      then let top1 = cc_score (cands ! 0);
               gap = top1 - cc_score (cands ! (if 3 \<le> length cands then 2 else 1))
           in if 1 / 10 ^ 9 < top1 then if gap / top1 < 1 then gap / top1 else 1 else 0
      else 0.5)"

definition memory_retrieval_confidence :: "string list \<Rightarrow> context_candidate list \<Rightarrow> real \<Rightarrow> retrieval_confidence" where
  "memory_retrieval_confidence terms cands threshold =
     (if terms = [] \<or> cands = []
      then \<lparr>cf_coverage = 0, cf_separation = 0, cf_score = 0, cf_below = (0 < threshold)\<rparr>
      else let sig = filter significant_term terms;
               coverage = share_of (length (filter (covered_by cands) sig)) (length sig);
               sep = separation cands;
               score = 0.6 * coverage + 0.4 * sep
           in \<lparr>cf_coverage = coverage, cf_separation = sep, cf_score = score,
               cf_below = (score < (if 0 < threshold then threshold else 0.35))\<rparr>)"

lemma share_of_bounds: "c \<le> s \<Longrightarrow> 0 \<le> share_of c s \<and> share_of c s \<le> 1"
  by (simp add: share_of_def)

lemma share_of_filter: "0 \<le> share_of (length (filter P xs)) (length xs) \<and> share_of (length (filter P xs)) (length xs) \<le> 1"
  by (intro share_of_bounds length_filter_le)

lemma separation_le_1: "separation cands \<le> 1"
  by (simp add: separation_def Let_def)

lemma separation_nonneg:
  assumes "\<forall>c \<in> set cands. cc_score c \<le> cc_score (cands ! 0)"
  shows "0 \<le> separation cands"
  using assms by (auto simp: separation_def Let_def)

lemma confidence_bounds:
  "0 \<le> cf_coverage (memory_retrieval_confidence ts cs th)" "cf_coverage (memory_retrieval_confidence ts cs th) \<le> 1"
  "cf_score (memory_retrieval_confidence ts cs th) \<le> 1"
proof -
  let ?sig = "filter significant_term ts"
  have "0 \<le> share_of (length (filter (covered_by cs) ?sig)) (length ?sig)"
    "share_of (length (filter (covered_by cs) ?sig)) (length ?sig) \<le> 1"
    using share_of_filter [of "covered_by cs" ?sig] by blast+
  then show "0 \<le> cf_coverage (memory_retrieval_confidence ts cs th)"
    "cf_coverage (memory_retrieval_confidence ts cs th) \<le> 1"
    "cf_score (memory_retrieval_confidence ts cs th) \<le> 1"
    using separation_le_1 [of cs] by (simp_all add: memory_retrieval_confidence_def Let_def)
qed

end
