(* ===== verification/Answers.thy ===== *)
theory Answers
  imports Search Context
begin

text \<open>
  Answers from what a search found (the last third of \<open>memory_core_search_c.c\<close>): the anchor and
  its cluster, the extraction of an answer, its citations and confidence, and the gate that
  abstains when the evidence does not carry the answer.

  The store's rows of a memory are the record \<open>answer_store\<close>; the configuration, the environment
  variables and the sizes of the buffers are \<open>answer_config\<close>.  The counters of the runtime state
  are the list of the names incremented, in order.  Scores are reals.
\<close>

record event_row =
  ev_actor :: string
  ev_action :: string
  ev_object :: string
  ev_location :: string
  ev_time :: string

record answer_store =
  as_event :: "int \<Rightarrow> event_row option"
  as_temporal_ref :: "int \<Rightarrow> cptr"
  as_summary :: "int \<Rightarrow> cptr"

record answer_config =
  aw_citations_env :: cptr
  aw_citations_mode :: string
  aw_strip_env :: cptr
  aw_strip :: bool
  aw_reprompt :: bool
  aw_abstain_gate :: real
  aw_abstain_enabled :: bool
  aw_chunk_min :: real
  aw_max_citations :: nat
  aw_trace_ids :: nat
  aw_answer_size :: nat
  aw_mode_size :: nat
  aw_error_size :: nat
  aw_tier_size :: nat
  aw_kind_size :: nat
  aw_provenance_size :: nat
  aw_key_size :: nat
  aw_content_size :: nat

subsection \<open>Tiers\<close>

definition memory_tier_priority :: "cptr \<Rightarrow> int" where
  "memory_tier_priority tier =
     (case tier of None \<Rightarrow> 0
      | Some t \<Rightarrow> if t = ''L5'' then 5 else if t = ''L4'' then 4 else if t = ''L3'' then 3 else if t = ''L2'' then 2
          else if t = ''L1'' then 1 else 0)"

subsection \<open>The anchor and its cluster\<close>

definition memory_cluster_member :: "memory_t list \<Rightarrow> nat \<Rightarrow> nat \<Rightarrow> bool" where
  "memory_cluster_member ms anchor i \<longleftrightarrow>
     anchor < length ms \<and> i < length ms \<and>
     (anchor = i \<or>
      m_source_session (ms ! anchor) \<noteq> [] \<and> m_source_session (ms ! i) \<noteq> [] \<and>
      m_source_session (ms ! anchor) = m_source_session (ms ! i))"

definition cluster_indices :: "memory_t list \<Rightarrow> nat \<Rightarrow> nat list" where
  "cluster_indices ms anchor = filter (memory_cluster_member ms anchor) [0..<length ms]"

definition memory_answer_cluster_score :: "rank_context \<Rightarrow> memory_t list \<Rightarrow> nat \<Rightarrow> real" where
  "memory_answer_cluster_score rc ms anchor =
     (if length ms \<le> anchor then -1
      else let is = cluster_indices ms anchor;
               n = length is
           in 1 / real (anchor + 1) + (\<Sum>i\<leftarrow>is. 0.35 / real (i + 1))
              + (if 1 < n then real (min 4 n) * 0.08 else 0)
              + (if list_ex (\<lambda>i. m_kind (ms ! i) \<noteq> m_kind (ms ! anchor)) is then 0.10 else 0)
              + (if list_ex (\<lambda>i. m_kind (ms ! i) = kind_episode rc) is then 0.12 else 0)
              + (if list_ex (\<lambda>i. m_kind (ms ! i) = kind_fact rc) is then 0.08 else 0))"

text \<open>The first row whose cluster scores highest.\<close>

definition memory_answer_anchor_index :: "rank_context \<Rightarrow> memory_t list \<Rightarrow> nat" where
  "memory_answer_anchor_index rc ms =
     foldl (\<lambda>a i. if memory_answer_cluster_score rc ms a < memory_answer_cluster_score rc ms i then i else a)
       0 [1..<length ms]"

subsection \<open>Extraction\<close>

definition memory_pick_answer_from_event :: "answer_store \<Rightarrow> query_intent \<Rightarrow> nat \<Rightarrow> int \<Rightarrow> cptr" where
  "memory_pick_answer_from_event db intent cap i =
     (case as_event db i of None \<Rightarrow> None
      | Some e \<Rightarrow>
          if intent = QUERY_TEMPORAL \<and> ev_time e \<noteq> [] then Some (cbuf cap (ev_time e))
          else if intent = QUERY_ENTITY \<and> ev_actor e \<noteq> [] then Some (cbuf cap (ev_actor e))
          else if ev_location e \<noteq> [] \<and> (contains (ev_action e) ''move'' \<or> contains (ev_action e) ''visit'')
          then Some (cbuf cap (ev_location e))
          else if ev_object e \<noteq> [] then Some (cbuf cap (ev_object e))
          else None)"

definition pick_temporal_ref :: "answer_store \<Rightarrow> nat \<Rightarrow> int \<Rightarrow> cptr" where
  "pick_temporal_ref db cap i = map_option (cbuf cap) (as_temporal_ref db i)"

definition pick_summary :: "answer_store \<Rightarrow> nat \<Rightarrow> int \<Rightarrow> cptr" where
  "pick_summary db cap i = (if nonempty (as_summary db i) then map_option (cbuf cap) (as_summary db i) else None)"

text \<open>A scan writes until the buffer is not empty: over the cluster first, then the anchor.\<close>

fun first_write :: "(int \<Rightarrow> cptr) \<Rightarrow> int list \<Rightarrow> string \<Rightarrow> string" where
  "first_write w [] buf = buf"
| "first_write w (i # is) buf =
     (if buf \<noteq> [] then buf else first_write w is (case w i of None \<Rightarrow> buf | Some s \<Rightarrow> s))"

definition pick_passes :: "(int \<Rightarrow> cptr) \<Rightarrow> memory_t list \<Rightarrow> nat \<Rightarrow> string \<Rightarrow> string" where
  "pick_passes w ms anchor buf =
     first_write w (map (\<lambda>i. m_id (ms ! i)) (filter (\<lambda>i. i = anchor) [0..<length ms]))
       (first_write w (map (\<lambda>i. m_id (ms ! i)) (cluster_indices ms anchor)) buf)"

definition memory_pick_answer_from_cluster ::
    "rank_context \<Rightarrow> answer_store \<Rightarrow> memory_t list \<Rightarrow> query_intent \<Rightarrow> nat \<Rightarrow> string \<Rightarrow> string" where
  "memory_pick_answer_from_cluster rc db ms intent cap buf =
     (if ms = [] \<or> cap = 0 then buf
      else let anchor = memory_answer_anchor_index rc ms;
               b1 = pick_passes (memory_pick_answer_from_event db intent cap) ms anchor buf;
               b2 = (if intent = QUERY_TEMPORAL then pick_passes (pick_temporal_ref db cap) ms anchor b1 else b1);
               b3 = pick_passes (pick_summary db cap) ms anchor b2;
               m = ms ! anchor
           in if b3 \<noteq> [] then b3
              else cbuf cap (take 180 (if m_content m \<noteq> [] then m_content m else m_key m)))"

subsection \<open>Citations\<close>

definition add_citation :: "nat \<Rightarrow> int list \<Rightarrow> int \<Rightarrow> int list" where
  "add_citation mx out i = (if length out < mx \<and> i \<notin> set out then out @ [i] else out)"

definition memory_collect_answer_citation_ids :: "memory_t list \<Rightarrow> nat \<Rightarrow> nat \<Rightarrow> int list" where
  "memory_collect_answer_citation_ids ms anchor mx =
     foldl (add_citation mx) []
       (map (\<lambda>i. m_id (ms ! i)) (cluster_indices ms anchor @ filter (\<lambda>i. i = anchor) [0..<length ms]))"

text \<open>
  The rendered answer.  \<open>pos\<close> is the length written so far; a reference that does not fit gives
  the answer up, unrendered.
\<close>

fun render_refs :: "nat \<Rightarrow> bool \<Rightarrow> int list \<Rightarrow> string \<Rightarrow> string option" where
  "render_refs cap later [] out = Some out"
| "render_refs cap later (i # is) out =
     (let t = (if later then '', '' else []) @ ''#'' @ decimal i
      in if cap - length out \<le> length t then None else render_refs cap True is (out @ t))"

definition memory_render_cited_answer :: "cptr \<Rightarrow> int list \<Rightarrow> string" where
  "memory_render_cited_answer answer ids =
     (let a = cptr_str answer
      in if ids = [] then a
         else case render_refs (length a + 64 + length ids * 28) False ids (a @ '' ['') of
                None \<Rightarrow> a | Some out \<Rightarrow> out @ '']'')"

subsection \<open>Confidence\<close>

definition memory_answer_confidence ::
    "rank_context \<Rightarrow> memory_t list \<Rightarrow> nat \<Rightarrow> nat \<Rightarrow> bool \<Rightarrow> bool \<Rightarrow> real" where
  "memory_answer_confidence rc ms anchor citations no_answer low_confidence =
     (if no_answer \<or> length ms \<le> anchor then 0
      else let cluster = max 0 (memory_answer_cluster_score rc ms anchor);
               cluster_norm = min 1 (cluster / 2);
               rank_norm = 1 / real (anchor + 1);
               support_norm = real (min 4 (length ms)) / 4;
               citation_norm = (if 0 < citations then 1 else if low_confidence then 0 else 0.35);
               conf = 0.45 * cluster_norm + 0.20 * rank_norm + 0.20 * support_norm + 0.15 * citation_norm;
               conf' = (if low_confidence then conf * 0.45 else conf)
           in min 1 (max 0 conf'))"

subsection \<open>The evidence trace\<close>

datatype answer_decision = ANSWERABLE | ABSTAIN | EXEMPT

datatype answer_reason =
  REASON_OK | STRUCTURAL_EMPTY | STRUCTURAL_NO_EXTRACT | CITATION_REQUIRED | GROUNDING_LOW | CHUNK_FLOOR
| CURATED_EXEMPT | DB_UNAVAILABLE

fun memory_answer_decision_name :: "answer_decision \<Rightarrow> string" where
  "memory_answer_decision_name ANSWERABLE = ''answerable''"
| "memory_answer_decision_name ABSTAIN = ''abstain''"
| "memory_answer_decision_name EXEMPT = ''exempt''"

fun memory_answer_reason_name :: "answer_reason \<Rightarrow> string" where
  "memory_answer_reason_name REASON_OK = ''ok''"
| "memory_answer_reason_name STRUCTURAL_EMPTY = ''structural_empty''"
| "memory_answer_reason_name STRUCTURAL_NO_EXTRACT = ''structural_no_extract''"
| "memory_answer_reason_name CITATION_REQUIRED = ''citation_required''"
| "memory_answer_reason_name GROUNDING_LOW = ''grounding_low''"
| "memory_answer_reason_name CHUNK_FLOOR = ''chunk_floor''"
| "memory_answer_reason_name CURATED_EXEMPT = ''curated_exempt''"
| "memory_answer_reason_name DB_UNAVAILABLE = ''db_unavailable''"

record evidence =
  ae_decision :: answer_decision
  ae_reason :: answer_reason
  ae_structural :: bool
  ae_exempt :: bool
  ae_anchor_id :: int
  ae_anchor_rank :: int
  ae_ranked_count :: nat
  ae_candidate_ids :: "int list"
  ae_truncated :: bool
  ae_threshold :: real
  ae_chunk_floor :: real
  ae_topk_grounding :: real
  ae_anchor_coverage :: real
  ae_cluster_coverage :: real

definition memory_answer_evidence_decision_str :: "evidence option \<Rightarrow> string" where
  "memory_answer_evidence_decision_str trace =
     memory_answer_decision_name (case trace of None \<Rightarrow> ABSTAIN | Some t \<Rightarrow> ae_decision t)"

definition memory_answer_evidence_reason_str :: "evidence option \<Rightarrow> string" where
  "memory_answer_evidence_reason_str trace =
     memory_answer_reason_name (case trace of None \<Rightarrow> DB_UNAVAILABLE | Some t \<Rightarrow> ae_reason t)"

definition memory_fixed_field_eq :: "string \<Rightarrow> nat \<Rightarrow> string \<Rightarrow> bool" where
  "memory_fixed_field_eq field len v \<longleftrightarrow>
     length v < len \<and> take (length v) field = v \<and> char_at field (length v) = NUL"

definition memory_answer_mode_for_anchor :: "answer_config \<Rightarrow> memory_t list \<Rightarrow> nat \<Rightarrow> string" where
  "memory_answer_mode_for_anchor aw ms anchor =
     (if length ms \<le> anchor then []
      else let m = ms ! anchor
           in if memory_fixed_field_eq (m_tier m) (aw_tier_size aw) ''L5''
               \<or> memory_fixed_field_eq (m_kind m) (aw_kind_size aw) ''synthesis''
               \<or> memory_fixed_field_eq (m_kind m) (aw_kind_size aw) ''restoration''
               \<or> memory_fixed_field_eq (m_provenance m) (aw_provenance_size aw) ''synthesis''
               \<or> memory_fixed_field_eq (m_provenance m) (aw_provenance_size aw) ''restoration''
              then ''synthesised'' else ''verbatim'')"

definition text_covers :: "string \<Rightarrow> string \<Rightarrow> string \<Rightarrow> bool" where
  "text_covers a b w \<longleftrightarrow> lower_in 2048 a w \<or> lower_in 2048 b w"

definition memory_text_term_coverage :: "string list \<Rightarrow> string \<Rightarrow> string \<Rightarrow> real" where
  "memory_text_term_coverage terms a b =
     (let sig = filter significant_term terms
      in share_of (length (filter (text_covers a b) sig)) (length sig))"

definition memory_answer_trace_init :: "answer_config \<Rightarrow> memory_t list \<Rightarrow> nat \<Rightarrow> evidence" where
  "memory_answer_trace_init aw ms anchor =
     \<lparr>ae_decision = ANSWERABLE, ae_reason = REASON_OK, ae_structural = False, ae_exempt = False,
      ae_anchor_id = (if anchor < length ms then m_id (ms ! anchor) else 0),
      ae_anchor_rank =
        (if anchor < length ms
         then if 0 < m_hybrid_rank (ms ! anchor) then m_hybrid_rank (ms ! anchor) else int anchor + 1
         else -1),
      ae_ranked_count = length ms,
      ae_candidate_ids = map m_id (take (aw_trace_ids aw) ms),
      ae_truncated = (aw_trace_ids aw < length ms),
      ae_threshold = 0, ae_chunk_floor = 0, ae_topk_grounding = 0, ae_anchor_coverage = 0, ae_cluster_coverage = 0\<rparr>"

definition memory_answer_anchor_exempt :: "memory_t list \<Rightarrow> nat \<Rightarrow> bool" where
  "memory_answer_anchor_exempt ms anchor \<longleftrightarrow>
     anchor < length ms \<and> 4 \<le> memory_tier_priority (Some (m_tier (ms ! anchor)))"

definition memory_answer_trace_set ::
    "answer_decision \<Rightarrow> answer_reason \<Rightarrow> bool \<Rightarrow> bool \<Rightarrow> evidence \<Rightarrow> evidence" where
  "memory_answer_trace_set decision reason structural exempt trace =
     trace\<lparr>ae_decision := decision, ae_reason := reason, ae_structural := structural, ae_exempt := exempt\<rparr>"

subsection \<open>The gate\<close>

definition gate_candidate :: "answer_config \<Rightarrow> nat \<Rightarrow> nat \<times> memory_t \<Rightarrow> context_candidate" where
  "gate_candidate aw n im =
     (case im of (i, m) \<Rightarrow>
        \<lparr>cc_id = m_id m, cc_key = cbuf (aw_key_size aw) (m_key m), cc_content = cbuf (aw_content_size aw) (m_content m),
         cc_score = (if 0 < m_retrieval_score m then m_retrieval_score m else real (n - i))\<rparr>)"

definition gate_candidates :: "answer_config \<Rightarrow> real \<Rightarrow> memory_t list \<Rightarrow> context_candidate list" where
  "gate_candidates aw chunk_floor ms =
     map (gate_candidate aw (min 16 (length ms)))
       (filter (\<lambda>(i, m). \<not> (0 < chunk_floor \<and> m_retrieval_score m < chunk_floor)) (enumerate 0 (take 16 ms)))"

definition cluster_covers :: "memory_t list \<Rightarrow> nat \<Rightarrow> string \<Rightarrow> bool" where
  "cluster_covers ms anchor w \<longleftrightarrow>
     list_ex (\<lambda>i. 0 < memory_text_term_coverage [w] (m_key (ms ! i)) (m_content (ms ! i))) (cluster_indices ms anchor)"

definition cluster_coverage :: "string list \<Rightarrow> memory_t list \<Rightarrow> nat \<Rightarrow> real" where
  "cluster_coverage terms ms anchor =
     (let sig = filter significant_term terms
      in share_of (length (filter (cluster_covers ms anchor) sig)) (length sig))"

definition memory_answerable ::
    "answer_config \<Rightarrow> memory_t list \<Rightarrow> nat \<Rightarrow> string list \<Rightarrow> nat \<Rightarrow> bool \<Rightarrow> bool \<Rightarrow> answer_reason \<Rightarrow> real \<Rightarrow> real \<Rightarrow> bool
     \<Rightarrow> real \<Rightarrow> evidence" where
  "memory_answerable aw ms anchor terms citations citations_required structural_failure structural_reason
       threshold chunk_floor abstain_enabled confidence =
     (let t0 = (memory_answer_trace_init aw ms anchor)\<lparr>ae_threshold := threshold, ae_chunk_floor := chunk_floor\<rparr>
      in if memory_answer_anchor_exempt ms anchor then memory_answer_trace_set EXEMPT CURATED_EXEMPT False True t0
         else if structural_failure then memory_answer_trace_set ABSTAIN structural_reason True False t0
         else if citations_required \<and> citations = 0
         then memory_answer_trace_set ABSTAIN CITATION_REQUIRED True False t0
         else let cands = gate_candidates aw chunk_floor ms
              in if 0 < chunk_floor \<and> cands = [] then memory_answer_trace_set ABSTAIN CHUNK_FLOOR False False t0
                 else let topk = cf_score (memory_retrieval_confidence terms cands threshold);
                          anchor_cov = (if anchor < length ms
                                        then memory_text_term_coverage terms (m_key (ms ! anchor)) (m_content (ms ! anchor))
                                        else 0);
                          cluster_cov = cluster_coverage terms ms anchor;
                          t1 = t0\<lparr>ae_topk_grounding := topk, ae_anchor_coverage := anchor_cov, ae_cluster_coverage := cluster_cov\<rparr>;
                          floored = min (min anchor_cov cluster_cov) topk
                      in if \<not> abstain_enabled then memory_answer_trace_set ANSWERABLE REASON_OK False False t1
                         else if floored < threshold \<and> \<not> (threshold - floored < 0.02 \<and> threshold \<le> confidence)
                         then memory_answer_trace_set ABSTAIN GROUNDING_LOW False False t1
                         else memory_answer_trace_set ANSWERABLE REASON_OK False False t1)"

subsection \<open>Asking\<close>

record answer_result =
  ar_answer :: string
  ar_error :: string
  ar_no_answer :: bool
  ar_low_confidence :: bool
  ar_confidence :: real
  ar_retrieval_count :: nat
  ar_mode :: string
  ar_citations :: "int list"
  ar_evidence :: evidence

text \<open>
  The zeroed result, whose decision and reason are the first of their enumerations.  The outcome
  of a call has the return value, the result, the search state and the counters;
  \<open>Ask_Undefined\<close> follows a search that wrote in front of its array.
\<close>

definition zero_result :: "answer_config \<Rightarrow> answer_result" where
  "zero_result aw =
     \<lparr>ar_answer = [], ar_error = [], ar_no_answer = False, ar_low_confidence = False, ar_confidence = 0,
      ar_retrieval_count = 0, ar_mode = [], ar_citations = [],
      ar_evidence = (memory_answer_trace_init aw [] 0)\<lparr>ae_anchor_rank := 0\<rparr>\<rparr>"

datatype ask_outcome = Asked int answer_result find_state "string list" | Ask_Undefined

definition index_error :: string where
  "index_error = ''error: memory retrieval index unavailable; server-side maintenance is required''"

definition abstained :: "answer_config \<Rightarrow> memory_t list \<Rightarrow> nat \<Rightarrow> answer_reason \<Rightarrow> evidence" where
  "abstained aw ms anchor reason =
     memory_answer_trace_set ABSTAIN reason True False (memory_answer_trace_init aw ms anchor)"

text \<open>The search of the question: by the request's scope when it has one and none is given.\<close>

definition ask_search ::
    "'v find_env \<Rightarrow> string \<Rightarrow> cptr \<Rightarrow> cptr \<Rightarrow> int \<Rightarrow> find_state \<Rightarrow> find_outcome \<times> find_state" where
  "ask_search fe query scope_type scope_value limit st =
     (let scope = fd_scope st; lim = (if 0 < limit then limit else 5)
      in if sc_active scope \<and> \<not> nonempty scope_type
         then memory_find_facts_visible_ex fe (Some query) (sc_workspace scope) (sc_project scope) (sc_include_all scope)
                lim 8 st
         else memory_find_facts_scoped fe (Some query) scope_type scope_value lim 8 st)"

definition reprompt_search :: "'v find_env \<Rightarrow> string \<Rightarrow> scope_context \<Rightarrow> find_state \<Rightarrow> find_outcome \<times> find_state" where
  "reprompt_search fe query scope st =
     (if sc_active scope
      then memory_find_facts_visible_ex fe (Some query) (sc_workspace scope) (sc_project scope) (sc_include_all scope) 5 8 st
      else memory_find_facts fe (Some query) 5 8 st)"

definition citations_mode :: "answer_config \<Rightarrow> string" where
  "citations_mode aw = (if nonempty (aw_citations_env aw) then cptr_str (aw_citations_env aw) else aw_citations_mode aw)"

definition strip_unverified :: "answer_config \<Rightarrow> bool" where
  "strip_unverified aw =
     (if nonempty (aw_strip_env aw) then atoi (cptr_str (aw_strip_env aw)) \<noteq> 0 else aw_strip aw)"

definition low_answer_header :: string where
  "low_answer_header =
     ''## Retrieval Confidence: LOW'' @ [CHR 0x0A] @
     ''No verified citations could be attached to this answer. '' @
     ''The information below is unverified and may be inaccurate.'' @ [CHR 0x0A, CHR 0x0A]"

text \<open>The last part: confidence, gate and the answer that is kept.\<close>

definition ask_gate ::
    "'v find_env \<Rightarrow> answer_config \<Rightarrow> string \<Rightarrow> memory_t list \<Rightarrow> nat \<Rightarrow> bool \<Rightarrow> answer_result \<Rightarrow> find_state
     \<Rightarrow> string list \<Rightarrow> ask_outcome" where
  "ask_gate fe aw norm_query ms anchor required_abstain out st counters =
     (let cited = (ar_citations out \<noteq> []);
          counters1 = counters @ (if cited then [''memory.citation.verified''] else []);
          confidence = memory_answer_confidence (se_rc fe) ms anchor (length (ar_citations out)) False (ar_low_confidence out);
          threshold = (if 0 < aw_abstain_gate aw then aw_abstain_gate aw else 0.40);
          chunk_floor = min 1 (if 0 < aw_chunk_min aw then aw_chunk_min aw else 0);
          terms = memory_split_tokens (Some norm_query) 32;
          abstain_enabled = (aw_abstain_enabled aw \<and> 0 < threshold);
          required = (required_abstain \<and> citations_mode aw \<noteq> [] \<and> citations_mode aw \<noteq> ''off'');
          e = memory_answerable aw ms anchor terms (length (ar_citations out)) required False REASON_OK threshold
                (if abstain_enabled then chunk_floor else 0) abstain_enabled confidence;
          out1 = out\<lparr>ar_confidence := confidence, ar_evidence := e\<rparr>
      in if ae_decision e = ABSTAIN
         then Asked 0 (out1\<lparr>ar_no_answer := True, ar_low_confidence := True, ar_answer := [], ar_citations := []\<rparr>)
                st (counters1 @ [''memory.answer.abstained''])
         else if required \<and> \<not> cited
         then Asked 0 (out1\<lparr>ar_answer := cbuf (aw_answer_size aw) (cbuf (aw_answer_size aw) (low_answer_header @ ar_answer out))\<rparr>)
                st counters1
         else Asked 0 out1 st counters1)"

text \<open>The answer without citations: stripped, or kept under a warning when they are required.\<close>

definition ask_citations ::
    "'v find_env \<Rightarrow> answer_config \<Rightarrow> string \<Rightarrow> memory_t list \<Rightarrow> nat \<Rightarrow> answer_result \<Rightarrow> find_state
     \<Rightarrow> string list \<Rightarrow> ask_outcome" where
  "ask_citations fe aw norm_query ms anchor out st counters =
     (let required = (citations_mode aw = ''required'');
          missing = (ar_citations out = [] \<and> citations_mode aw \<noteq> [] \<and> citations_mode aw \<noteq> ''off'')
      in if \<not> missing then ask_gate fe aw norm_query ms anchor False out st counters
         else let counters1 = counters @ [''memory.citation.missing'']
              in if strip_unverified aw
                 then Asked 0 (out\<lparr>ar_answer := [], ar_no_answer := True, ar_confidence := 0,
                        ar_evidence := memory_answerable aw ms anchor [] 0 required True CITATION_REQUIRED 0 0 False 0\<rparr>)
                        st (counters1 @ [''memory.citation.stripped''])
                 else ask_gate fe aw norm_query ms anchor required
                        (if required then out\<lparr>ar_low_confidence := True\<rparr> else out) st counters1)"

text \<open>The second search when citations are required and missing.\<close>

definition ask_reprompt ::
    "'v find_env \<Rightarrow> answer_config \<Rightarrow> answer_store \<Rightarrow> string \<Rightarrow> string \<Rightarrow> query_intent \<Rightarrow> scope_context \<Rightarrow> memory_t list \<Rightarrow> nat
     \<Rightarrow> answer_result \<Rightarrow> find_state \<Rightarrow> string list \<Rightarrow> ask_outcome" where
  "ask_reprompt fe aw db query norm_query intent scope ms anchor out st counters =
     (let counters1 = counters @ [''memory.citation.reprompted'']
      in case reprompt_search fe query scope st of
           (Wild_Write, st') \<Rightarrow> Ask_Undefined
         | (Failed, st') \<Rightarrow>
             Asked (-1) (out\<lparr>ar_error := cbuf (aw_error_size aw) index_error,
               ar_evidence := abstained aw ms anchor DB_UNAVAILABLE\<rparr>) st' counters1
         | (Found rows, st') \<Rightarrow>
             if rows = [] then ask_citations fe aw norm_query ms anchor out st' counters1
             else let rc = se_rc fe;
                      answer = memory_pick_answer_from_cluster rc db rows intent (aw_answer_size aw) [];
                      anchor' = memory_answer_anchor_index rc rows;
                      cites = memory_collect_answer_citation_ids rows anchor' (aw_max_citations aw)
                  in if answer \<noteq> [] \<and> cites \<noteq> []
                     then ask_citations fe aw norm_query rows anchor'
                            (out\<lparr>ar_answer := cbuf (aw_answer_size aw) answer, ar_citations := cites,
                               ar_retrieval_count := length rows\<rparr>) st' counters1
                     else ask_citations fe aw norm_query ms anchor out st' counters1)"

definition ask_found ::
    "'v find_env \<Rightarrow> answer_config \<Rightarrow> answer_store \<Rightarrow> string \<Rightarrow> scope_context \<Rightarrow> memory_t list \<Rightarrow> find_state \<Rightarrow> ask_outcome" where
  "ask_found fe aw db query scope ms st =
     (let rc = se_rc fe;
          out0 = (zero_result aw)\<lparr>ar_retrieval_count := length ms\<rparr>;
          norm_query = find_norm fe query;
          intent = memory_query_intent (Some query) (Some norm_query);
          answer = memory_pick_answer_from_cluster rc db ms intent (aw_answer_size aw) [];
          anchor = memory_answer_anchor_index rc ms
      in if ms = [] then Asked 0 (out0\<lparr>ar_no_answer := True, ar_evidence := abstained aw [] 0 STRUCTURAL_EMPTY\<rparr>) st []
         else if answer = []
         then Asked 0 (out0\<lparr>ar_no_answer := True, ar_evidence := abstained aw ms anchor STRUCTURAL_NO_EXTRACT\<rparr>) st []
         else let required = (citations_mode aw = ''required'');
                  cites = memory_collect_answer_citation_ids ms anchor (aw_max_citations aw);
                  out = out0\<lparr>ar_answer := answer, ar_citations := cites,
                          ar_mode := cbuf (aw_mode_size aw) (memory_answer_mode_for_anchor aw ms anchor)\<rparr>;
                  counters = (if required then [''memory.citation.required''] else [])
              in if cites = [] \<and> required \<and> aw_reprompt aw
                 then ask_reprompt fe aw db query norm_query intent scope ms anchor out st counters
                 else ask_citations fe aw norm_query ms anchor out st counters)"

definition memory_ask_query_scoped ::
    "'v find_env \<Rightarrow> answer_config \<Rightarrow> answer_store \<Rightarrow> cptr \<Rightarrow> cptr \<Rightarrow> cptr \<Rightarrow> int \<Rightarrow> find_state \<Rightarrow> ask_outcome" where
  "memory_ask_query_scoped fe aw db query scope_type scope_value limit st =
     (if \<not> nonempty query
      then Asked (-1) ((zero_result aw)\<lparr>ar_error := cbuf (aw_error_size aw) ''query is required''\<rparr>) st []
      else case ask_search fe (cptr_str query) scope_type scope_value limit st of
             (Wild_Write, st') \<Rightarrow> Ask_Undefined
           | (Failed, st') \<Rightarrow>
               Asked (-1) ((zero_result aw)\<lparr>ar_error := cbuf (aw_error_size aw) index_error,
                 ar_evidence := abstained aw [] 0 DB_UNAVAILABLE\<rparr>) st' []
           | (Found ms, st') \<Rightarrow> ask_found fe aw db (cptr_str query) (fd_scope st) ms st')"

definition memory_ask_query ::
    "'v find_env \<Rightarrow> answer_config \<Rightarrow> answer_store \<Rightarrow> cptr \<Rightarrow> int \<Rightarrow> find_state \<Rightarrow> ask_outcome" where
  "memory_ask_query fe aw db query limit st = memory_ask_query_scoped fe aw db query None None limit st"

definition memory_answer_query_scoped ::
    "'v find_env \<Rightarrow> answer_config \<Rightarrow> answer_store \<Rightarrow> cptr \<Rightarrow> cptr \<Rightarrow> cptr \<Rightarrow> int \<Rightarrow> find_state \<Rightarrow> string option" where
  "memory_answer_query_scoped fe aw db query scope_type scope_value limit st =
     (case memory_ask_query_scoped fe aw db query scope_type scope_value limit st of
        Ask_Undefined \<Rightarrow> None
      | Asked r out st' counters \<Rightarrow>
          Some (if r \<noteq> 0 then ar_error out
                else if ar_no_answer out
                then cbuf 768 (if nonempty query
                               then ''No confident answer for '' @ [CHR 0x22] @ cptr_str query @ [CHR 0x22]
                               else ''No confident answer.'')
                else if ar_citations out \<noteq> [] then memory_render_cited_answer (Some (ar_answer out)) (ar_citations out)
                else ar_answer out))"

definition memory_answer_query ::
    "'v find_env \<Rightarrow> answer_config \<Rightarrow> answer_store \<Rightarrow> cptr \<Rightarrow> int \<Rightarrow> find_state \<Rightarrow> string option" where
  "memory_answer_query fe aw db query limit st = memory_answer_query_scoped fe aw db query None None limit st"

end
