(* ===== verification/Answer_Properties.thy ===== *)
theory Answer_Properties
  imports Answers Find_Properties
begin

text \<open>
  Properties of the answers: what an answer that is given rests on, what it cites and how it is
  rendered.
\<close>

subsection \<open>The anchor\<close>

lemma argmax_fold:
  fixes f :: "nat \<Rightarrow> real"
  shows "let a = foldl (\<lambda>a i. if f a < f i then i else a) b xs in a \<in> set (b # xs) \<and> (\<forall>i \<in> set (b # xs). f i \<le> f a)"
proof (induction xs arbitrary: b)
  case (Cons x xs)
  from Cons.IH [of "if f b < f x then x else b"] show ?case
    by (auto simp: Let_def split: if_splits)
qed simp

lemma anchor_index_best:
  assumes "ms \<noteq> []"
  shows "memory_answer_anchor_index rc ms < length ms"
    and "i < length ms \<Longrightarrow>
      memory_answer_cluster_score rc ms i \<le> memory_answer_cluster_score rc ms (memory_answer_anchor_index rc ms)"
proof -
  have all: "set (0 # [1..<length ms]) = {..<length ms}" using assms by (auto simp: Suc_le_eq)
  show "memory_answer_anchor_index rc ms < length ms"
    and "i < length ms \<Longrightarrow>
      memory_answer_cluster_score rc ms i \<le> memory_answer_cluster_score rc ms (memory_answer_anchor_index rc ms)"
    using argmax_fold [of "memory_answer_cluster_score rc ms" 0 "[1..<length ms]"]
    unfolding all by (auto simp: memory_answer_anchor_index_def Let_def)
qed

lemma anchor_in_cluster: "a < length ms \<Longrightarrow> a \<in> set (cluster_indices ms a)"
  by (simp add: cluster_indices_def memory_cluster_member_def)

subsection \<open>Citations\<close>

lemma add_citations_ok:
  assumes "distinct out" and "length out \<le> mx"
  shows "distinct (foldl (add_citation mx) out is) \<and> length (foldl (add_citation mx) out is) \<le> mx \<and>
     set out \<subseteq> set (foldl (add_citation mx) out is) \<and> set (foldl (add_citation mx) out is) \<subseteq> set out \<union> set is"
  using assms
proof (induction "is" arbitrary: out)
  case (Cons i "is")
  have "distinct (add_citation mx out i)" "length (add_citation mx out i) \<le> mx" using Cons.prems by (auto simp: add_citation_def)
  from Cons.IH [OF this] show ?case by (auto simp: add_citation_def split: if_splits)
qed simp

lemma citations_ok:
  assumes "anchor < length ms" and "0 < mx"
  shows "distinct (memory_collect_answer_citation_ids ms anchor mx)"
    and "length (memory_collect_answer_citation_ids ms anchor mx) \<le> mx"
    and "memory_collect_answer_citation_ids ms anchor mx \<noteq> []"
    and "set (memory_collect_answer_citation_ids ms anchor mx) \<subseteq> (\<lambda>i. m_id (ms ! i)) ` set (cluster_indices ms anchor)"
proof -
  let ?is = "map (\<lambda>i. m_id (ms ! i)) (cluster_indices ms anchor @ filter (\<lambda>i. i = anchor) [0..<length ms])"
  note ok = add_citations_ok [of "[]" mx ?is]
  show "distinct (memory_collect_answer_citation_ids ms anchor mx)"
    and "length (memory_collect_answer_citation_ids ms anchor mx) \<le> mx"
    using ok by (simp_all add: memory_collect_answer_citation_ids_def)
  have "(\<lambda>i. m_id (ms ! i)) ` {i. i = anchor \<and> i < length ms} \<subseteq> (\<lambda>i. m_id (ms ! i)) ` set (cluster_indices ms anchor)"
    using anchor_in_cluster [OF assms(1)] by auto
  then show "set (memory_collect_answer_citation_ids ms anchor mx) \<subseteq> (\<lambda>i. m_id (ms ! i)) ` set (cluster_indices ms anchor)"
    using ok by (auto simp: memory_collect_answer_citation_ids_def)
  obtain i "is" where cons: "?is = i # is"
    using anchor_in_cluster [OF assms(1)] by (cases "cluster_indices ms anchor") auto
  have "add_citation mx [] i = [i]" using assms(2) by (simp add: add_citation_def)
  then have "i \<in> set (foldl (add_citation mx) [] ?is)"
    using add_citations_ok [of "[i]" mx "is"] assms(2) unfolding cons by auto
  then show "memory_collect_answer_citation_ids ms anchor mx \<noteq> []"
    by (auto simp: memory_collect_answer_citation_ids_def)
qed

lemma confidence_unit: "0 \<le> memory_answer_confidence rc ms a n na lc \<and> memory_answer_confidence rc ms a n na lc \<le> 1"
  unfolding memory_answer_confidence_def Let_def by (simp add: le_max_iff_disj)

subsection \<open>What a given answer rests on\<close>

text \<open>With room for a citation there always is one, so neither the second search nor the warning
  is ever reached.\<close>

lemma ask_found_gate:
  assumes "ms \<noteq> []" and "0 < aw_max_citations aw"
    and "ask_found fe aw db query scope ms st = Asked r out st' cs" and "\<not> ar_no_answer out"
  shows "\<exists>out0. ask_gate fe aw (find_norm fe query) ms (memory_answer_anchor_index (se_rc fe) ms) False out0 st
             (if citations_mode aw = ''required'' then [''memory.citation.required''] else []) = Asked r out st' cs \<and>
           ar_answer out0 = memory_pick_answer_from_cluster (se_rc fe) db ms
             (memory_query_intent (Some query) (Some (find_norm fe query))) (aw_answer_size aw) [] \<and>
           ar_citations out0 = memory_collect_answer_citation_ids ms (memory_answer_anchor_index (se_rc fe) ms) (aw_max_citations aw) \<and>
           ar_answer out0 \<noteq> [] \<and> ar_low_confidence out0 = False \<and> ar_error out0 = [] \<and> ar_no_answer out0 = False"
proof -
  let ?a = "memory_answer_anchor_index (se_rc fe) ms"
  have ne: "memory_collect_answer_citation_ids ms ?a (aw_max_citations aw) \<noteq> []"
    by (rule citations_ok(3) [OF anchor_index_best(1) [OF assms(1)] assms(2)])
  have given: "memory_pick_answer_from_cluster (se_rc fe) db ms
      (memory_query_intent (Some query) (Some (find_norm fe query))) (aw_answer_size aw) [] \<noteq> []"
  proof
    assume "memory_pick_answer_from_cluster (se_rc fe) db ms
      (memory_query_intent (Some query) (Some (find_norm fe query))) (aw_answer_size aw) [] = []"
    then have "out = (zero_result aw)\<lparr>ar_retrieval_count := length ms, ar_no_answer := True,
        ar_evidence := abstained aw ms ?a STRUCTURAL_NO_EXTRACT\<rparr>"
      using assms(1,3) by (simp add: ask_found_def)
    then show False using assms(4) by simp
  qed
  show ?thesis
    using assms(3) given ne assms(1)
    by (simp add: ask_found_def Let_def ask_citations_def) (fastforce simp: zero_result_def)
qed

definition gate_threshold :: "answer_config \<Rightarrow> real" where
  "gate_threshold aw = (if 0 < aw_abstain_gate aw then aw_abstain_gate aw else 0.40)"

definition gate_floor :: "answer_config \<Rightarrow> real" where
  "gate_floor aw = min 1 (if 0 < aw_chunk_min aw then aw_chunk_min aw else 0)"

text \<open>The weakest of the three measures of support.\<close>

definition evidence_strength :: "answer_config \<Rightarrow> string list \<Rightarrow> memory_t list \<Rightarrow> nat \<Rightarrow> real" where
  "evidence_strength aw terms ms anchor =
     min (min (memory_text_term_coverage terms (m_key (ms ! anchor)) (m_content (ms ! anchor)))
              (cluster_coverage terms ms anchor))
         (cf_score (memory_retrieval_confidence terms (gate_candidates aw (gate_floor aw) ms) (gate_threshold aw)))"

lemma gate_threshold_pos: "0 < gate_threshold aw"
  by (simp add: gate_threshold_def)

lemma answerable_grounded:
  assumes "anchor < length ms"
    and "ae_decision (memory_answerable aw ms anchor terms n False False REASON_OK (gate_threshold aw) (gate_floor aw) True conf)
          \<noteq> ABSTAIN"
  shows "memory_answer_anchor_exempt ms anchor \<or>
     gate_threshold aw \<le> evidence_strength aw terms ms anchor \<or>
     gate_threshold aw - evidence_strength aw terms ms anchor < 0.02 \<and> gate_threshold aw \<le> conf"
  using assms
  by (auto simp: memory_answerable_def Let_def memory_answer_trace_set_def evidence_strength_def not_less
      simp del: min_less_iff_disj min_le_iff_disj split: if_splits)

lemma ask_gate_given:
  assumes "ask_gate fe aw nq ms anchor False out0 st counters = Asked r out st' cs"
    and "\<not> ar_no_answer out" and "ar_citations out0 = cites" and "cites \<noteq> []" and "ar_low_confidence out0 = lc"
  shows "ar_citations out = cites" and "ar_answer out = ar_answer out0" and "ar_low_confidence out = lc"
    and "st' = st" and "cs = counters @ [''memory.citation.verified'']"
    and "ar_confidence out = memory_answer_confidence (se_rc fe) ms anchor (length (ar_citations out)) False lc"
    and "ar_evidence out = memory_answerable aw ms anchor (memory_split_tokens (Some nq) 32) (length (ar_citations out)) False
       False REASON_OK (gate_threshold aw) (if aw_abstain_enabled aw then gate_floor aw else 0) (aw_abstain_enabled aw)
       (ar_confidence out)"
    and "ae_decision (ar_evidence out) \<noteq> ABSTAIN"
  using assms gate_threshold_pos [of aw]
  by (auto simp: ask_gate_def Let_def gate_threshold_def gate_floor_def split: if_splits)

lemma asked_search:
  assumes "memory_ask_query_scoped fe aw db query scope_type scope_value limit st = Asked 0 out st' cs"
    and "\<not> ar_no_answer out"
  shows "\<exists>ms st1. ask_search fe (cptr_str query) scope_type scope_value limit st = (Found ms, st1) \<and> ms \<noteq> [] \<and>
     ask_found fe aw db (cptr_str query) (fd_scope st) ms st1 = Asked 0 out st' cs"
proof -
  obtain o1 st1 where s: "ask_search fe (cptr_str query) scope_type scope_value limit st = (o1, st1)" by fastforce
  have q: "nonempty query" using assms(1) by (auto simp: memory_ask_query_scoped_def split: if_splits)
  then obtain ms where ms: "o1 = Found ms" using assms(1) s
    by (cases o1) (auto simp: memory_ask_query_scoped_def)
  then have f: "ask_found fe aw db (cptr_str query) (fd_scope st) ms st1 = Asked 0 out st' cs"
    using assms(1) s q by (simp add: memory_ask_query_scoped_def)
  then have "ms \<noteq> []" using assms(2) by (auto simp: ask_found_def Let_def)
  then show ?thesis using s ms f by blast
qed

lemma given_answer:
  assumes "memory_ask_query_scoped fe aw db query scope_type scope_value limit st = Asked 0 out st' cs"
    and "\<not> ar_no_answer out" and "0 < aw_max_citations aw"
  obtains ms st1 where "ask_search fe (cptr_str query) scope_type scope_value limit st = (Found ms, st1)" and "ms \<noteq> []"
    and "ar_citations out = memory_collect_answer_citation_ids ms (memory_answer_anchor_index (se_rc fe) ms) (aw_max_citations aw)"
    and "ar_answer out \<noteq> []"
    and "ar_answer out = memory_pick_answer_from_cluster (se_rc fe) db ms
           (memory_query_intent (Some (cptr_str query)) (Some (find_norm fe (cptr_str query)))) (aw_answer_size aw) []"
    and "\<not> ar_low_confidence out" and "st' = st1"
    and "cs = (if citations_mode aw = ''required'' then [''memory.citation.required''] else []) @ [''memory.citation.verified'']"
    and "ar_confidence out = memory_answer_confidence (se_rc fe) ms (memory_answer_anchor_index (se_rc fe) ms)
           (length (ar_citations out)) False False"
    and "ar_evidence out = memory_answerable aw ms (memory_answer_anchor_index (se_rc fe) ms)
           (memory_split_tokens (Some (find_norm fe (cptr_str query))) 32) (length (ar_citations out)) False
           False REASON_OK (gate_threshold aw) (if aw_abstain_enabled aw then gate_floor aw else 0) (aw_abstain_enabled aw)
           (ar_confidence out)"
    and "ae_decision (ar_evidence out) \<noteq> ABSTAIN"
proof -
  obtain ms st1 where s: "ask_search fe (cptr_str query) scope_type scope_value limit st = (Found ms, st1)" "ms \<noteq> []"
    and f: "ask_found fe aw db (cptr_str query) (fd_scope st) ms st1 = Asked 0 out st' cs"
    using asked_search [OF assms(1,2)] by blast
  let ?a = "memory_answer_anchor_index (se_rc fe) ms"
  have ne: "memory_collect_answer_citation_ids ms ?a (aw_max_citations aw) \<noteq> []"
    by (rule citations_ok(3) [OF anchor_index_best(1) [OF s(2)] assms(3)])
  from ask_found_gate [OF s(2) assms(3) f assms(2)] obtain out0
    where g: "ask_gate fe aw (find_norm fe (cptr_str query)) ms ?a False out0 st1
        (if citations_mode aw = ''required'' then [''memory.citation.required''] else []) = Asked 0 out st' cs"
      and p: "ar_answer out0 = memory_pick_answer_from_cluster (se_rc fe) db ms
        (memory_query_intent (Some (cptr_str query)) (Some (find_norm fe (cptr_str query)))) (aw_answer_size aw) []"
      and c: "ar_citations out0 = memory_collect_answer_citation_ids ms ?a (aw_max_citations aw)"
      and a: "ar_answer out0 \<noteq> []" and l: "ar_low_confidence out0 = False" by blast
  note given = ask_gate_given [OF g assms(2) c ne l]
  show thesis
    by (rule that [OF s]) (use given a p in simp_all)
qed

text \<open>A question with one row to answer it from, abstention enabled and citations required.\<close>

definition dns_row :: memory_t where
  "dns_row = (row_of 1)\<lparr>m_content := ''dns is up''\<rparr>"

definition answer_env :: "unit find_env" where
  "answer_env = sample_env\<lparr>se_rv := (\<lambda>_. sample_retrieval\<lparr>rv_like := (\<lambda>_ _. Some [dns_row])\<rparr>)\<rparr>"

definition answer_sample_config :: answer_config where
  "answer_sample_config =
     \<lparr>aw_citations_env = None, aw_citations_mode = ''required'', aw_strip_env = None, aw_strip = False, aw_reprompt = True,
      aw_abstain_gate = 0, aw_abstain_enabled = True, aw_chunk_min = 0, aw_max_citations = 4, aw_trace_ids = 8,
      aw_answer_size = 512, aw_mode_size = 16, aw_error_size = 128, aw_tier_size = 8, aw_kind_size = 16,
      aw_provenance_size = 16, aw_key_size = 512, aw_content_size = 2048\<rparr>"

definition answer_sample_store :: answer_store where
  "answer_sample_store = \<lparr>as_event = (\<lambda>_. None), as_temporal_ref = (\<lambda>_. None), as_summary = (\<lambda>_. None)\<rparr>"

lemma answer_search:
  "ask_search answer_env ''dns'' None None 5 sample_state = (Found [dns_row], sample_state)"
  by (simp add: ask_search_def answer_env_def memory_find_facts_scoped_def sample_simps found_of_def
      memory_find_facts_lexical_fallback_def search_env.truncate_def start_limit_def fallback_terms_def
      fallback_collect_def like_rows_def fallback_fetch_def memory_filter_scope_def memory_append_unique_def Let_def
      dns_row_def)

lemma answer_words:
  "memory_split_tokens (Some ''dns'') 32 = [''dns'']" "significant_term ''dns''" "text_covers [] ''dns is up'' ''dns''"
  "memory_query_intent (Some ''dns'') (Some ''dns'') = QUERY_GENERAL"
  by code_simp+

lemma dns_fields:
  "m_id dns_row = 1" "m_content dns_row = ''dns is up''" "m_key dns_row = []" "m_tier dns_row = []" "m_retrieval_score dns_row = 0"
  by (simp_all add: dns_row_def row_of_def)

lemma answer_cluster: "cluster_indices [dns_row] 0 = [0]" "memory_answer_anchor_index rc [dns_row] = 0"
  by (simp_all add: cluster_indices_def memory_cluster_member_def memory_answer_anchor_index_def)

lemma answer_picked:
  "memory_pick_answer_from_cluster rc answer_sample_store [dns_row] QUERY_GENERAL 512 [] = ''dns is up''"
  by (simp add: memory_pick_answer_from_cluster_def answer_cluster pick_passes_def memory_pick_answer_from_event_def
      answer_sample_store_def pick_summary_def Let_def dns_fields cbuf_def)

lemma answer_cites: "memory_collect_answer_citation_ids [dns_row] 0 4 = [1]"
  by (simp add: memory_collect_answer_citation_ids_def answer_cluster add_citation_def dns_fields)

lemma answer_norm: "find_norm answer_env ''dns'' = ''dns''"
  by (simp add: find_norm_def normalized_def answer_env_def sample_simps cbuf_def)

lemma answer_evidence:
  "ae_decision (memory_answerable answer_sample_config [dns_row] 0 [''dns''] 1 False False REASON_OK 0.4 0 True conf) = ANSWERABLE"
proof -
  have c: "gate_candidates answer_sample_config 0 [dns_row] = [\<lparr>cc_id = 1, cc_key = [], cc_content = ''dns is up'', cc_score = 1\<rparr>]"
    by (simp add: gate_candidates_def gate_candidate_def answer_sample_config_def dns_fields cbuf_def)
  have k: "covered_by [\<lparr>cc_id = 1, cc_key = [], cc_content = ''dns is up'', cc_score = 1\<rparr>] ''dns''"
    using answer_words(3) by (simp add: covered_by_def text_covers_def lower_in_def contains_Nil cbuf_def)
  have "cf_score (memory_retrieval_confidence [''dns''] (gate_candidates answer_sample_config 0 [dns_row]) 0.4) = 0.8"
    by (simp add: c memory_retrieval_confidence_def Let_def answer_words k share_of_def separation_def)
  moreover have t: "memory_text_term_coverage [''dns''] (m_key dns_row) (m_content dns_row) = 1"
    using answer_words by (simp add: memory_text_term_coverage_def share_of_def Let_def dns_fields)
  moreover have "cluster_coverage [''dns''] [dns_row] 0 = 1"
    by (simp add: cluster_coverage_def cluster_covers_def answer_cluster t answer_words share_of_def Let_def)
  moreover have "\<not> memory_answer_anchor_exempt [dns_row] 0"
    by (simp add: memory_answer_anchor_exempt_def memory_tier_priority_def dns_fields)
  ultimately show ?thesis
    by (simp add: memory_answerable_def Let_def memory_answer_trace_set_def)
qed

lemma answer_asked:
  "\<exists>out. memory_ask_query_scoped answer_env answer_sample_config answer_sample_store (Some ''dns'') None None 5 sample_state
      = Asked 0 out sample_state [''memory.citation.required'', ''memory.citation.verified''] \<and>
     \<not> ar_no_answer out \<and> ar_answer out = ''dns is up'' \<and> ar_citations out = [1]"
proof -
  note answer_evidence [simplified, simp]
  show ?thesis
    by (simp add: memory_ask_query_scoped_def answer_search ask_found_def Let_def answer_norm answer_words answer_cluster
        answer_picked answer_cites ask_citations_def ask_gate_def zero_result_def answer_sample_config_def [THEN arg_cong, of aw_answer_size]
        answer_sample_config_def [THEN arg_cong, of aw_max_citations] citations_mode_def
        answer_sample_config_def [THEN arg_cong, of aw_citations_env] answer_sample_config_def [THEN arg_cong, of aw_citations_mode]
        answer_sample_config_def [THEN arg_cong, of aw_abstain_gate] answer_sample_config_def [THEN arg_cong, of aw_abstain_enabled]
        answer_sample_config_def [THEN arg_cong, of aw_chunk_min])
qed

text \<open>
  C28. With abstention enabled an answer is given only on evidence: its anchor, a row of highest
  cluster score among the rows the search returned, is curated (tier L4 or L5), or the weakest of the
  three measures - the share of the question's significant terms in the anchor, the share in the
  anchor's cluster, the grounding of the best rows - reaches the threshold, or misses it by less
  than 0.02 while the answer's confidence reaches it.  Whatever is configured besides.
\<close>

theorem answers_are_grounded:
  assumes "memory_ask_query_scoped fe aw db query scope_type scope_value limit st = Asked 0 out st' cs"
    and "\<not> ar_no_answer out" and "aw_abstain_enabled aw" and "0 < aw_max_citations aw"
  shows "\<exists>ms anchor. fst (ask_search fe (cptr_str query) scope_type scope_value limit st) = Found ms \<and>
     anchor < length ms \<and> ae_anchor_id (ar_evidence out) = m_id (ms ! anchor) \<and>
     (\<forall>i < length ms. memory_answer_cluster_score (se_rc fe) ms i \<le> memory_answer_cluster_score (se_rc fe) ms anchor) \<and>
     (m_tier (ms ! anchor) \<in> {''L4'', ''L5''} \<or>
      (let strength = evidence_strength aw (memory_split_tokens (Some (find_norm fe (cptr_str query))) 32) ms anchor
       in gate_threshold aw \<le> strength \<or>
          gate_threshold aw - strength < 0.02 \<and> gate_threshold aw \<le> ar_confidence out))"
proof -
  from given_answer [OF assms(1,2,4)] obtain ms st1
    where s: "ask_search fe (cptr_str query) scope_type scope_value limit st = (Found ms, st1)" "ms \<noteq> []"
      and e: "ar_evidence out = memory_answerable aw ms (memory_answer_anchor_index (se_rc fe) ms)
           (memory_split_tokens (Some (find_norm fe (cptr_str query))) 32) (length (ar_citations out)) False
           False REASON_OK (gate_threshold aw) (if aw_abstain_enabled aw then gate_floor aw else 0) (aw_abstain_enabled aw)
           (ar_confidence out)"
      and d: "ae_decision (ar_evidence out) \<noteq> ABSTAIN" by blast
  let ?a = "memory_answer_anchor_index (se_rc fe) ms"
  note best = anchor_index_best [OF s(2)]
  have "m_tier (ms ! ?a) \<in> {''L4'', ''L5''}" if "memory_answer_anchor_exempt ms ?a"
    using that by (simp add: memory_answer_anchor_exempt_def memory_tier_priority_def split: if_splits)
  moreover have "ae_anchor_id (ar_evidence out) = m_id (ms ! ?a)"
    unfolding e by (simp add: memory_answerable_def Let_def memory_answer_trace_set_def memory_answer_trace_init_def best(1))
  moreover have "ae_decision (memory_answerable aw ms ?a (memory_split_tokens (Some (find_norm fe (cptr_str query))) 32)
      (length (ar_citations out)) False False REASON_OK (gate_threshold aw) (gate_floor aw) True (ar_confidence out)) \<noteq> ABSTAIN"
    using d assms(3) unfolding e by simp
  note answerable_grounded [OF best(1) this]
  ultimately show ?thesis
    using s(1) best by (intro exI [of _ ms] exI [of _ ?a]) (auto simp: Let_def)
qed

theorem answers_are_grounded_witness:
  "\<exists>out. memory_ask_query_scoped answer_env answer_sample_config answer_sample_store (Some ''dns'') None None 5 sample_state
      = Asked 0 out sample_state [''memory.citation.required'', ''memory.citation.verified''] \<and> ar_answer out = ''dns is up'' \<and>
     ae_anchor_id (ar_evidence out) = 1"
proof -
  obtain out where a: "memory_ask_query_scoped answer_env answer_sample_config answer_sample_store (Some ''dns'') None None 5 sample_state
      = Asked 0 out sample_state [''memory.citation.required'', ''memory.citation.verified'']"
      "\<not> ar_no_answer out" "ar_answer out = ''dns is up''"
    using answer_asked by blast
  have cfg: "aw_abstain_enabled answer_sample_config" "0 < aw_max_citations answer_sample_config"
    by (simp_all add: answer_sample_config_def)
  from answers_are_grounded [OF a(1,2) cfg] have "ae_anchor_id (ar_evidence out) = 1"
    by (auto simp: answer_search dns_fields)
  then show ?thesis using a by blast
qed

text \<open>
  C32. An answer that is given is not empty and is cited: its citations are ids of the anchor's
  cluster among the rows the search returned, at least one, none twice and no more than the result
  holds; its confidence lies between 0 and 1.  So a caller that requires citations is served from
  the first search: the state is the one that search left (there is no second one), the answer is
  what was extracted from its rows, without the warning of an unverified answer or the mark of a
  low confidence, and the counters say verified, never reprompted, missing or stripped.
\<close>

theorem answers_are_cited:
  assumes "memory_ask_query_scoped fe aw db query scope_type scope_value limit st = Asked 0 out st' cs"
    and "\<not> ar_no_answer out" and "0 < aw_max_citations aw"
  shows "ar_answer out \<noteq> [] \<and> ar_citations out \<noteq> [] \<and> distinct (ar_citations out) \<and>
     length (ar_citations out) \<le> aw_max_citations aw \<and> 0 \<le> ar_confidence out \<and> ar_confidence out \<le> 1 \<and>
     (\<exists>ms. ask_search fe (cptr_str query) scope_type scope_value limit st = (Found ms, st') \<and>
        (\<forall>c \<in> set (ar_citations out). \<exists>i. memory_cluster_member ms (memory_answer_anchor_index (se_rc fe) ms) i \<and> c = m_id (ms ! i)) \<and>
        ar_answer out = memory_pick_answer_from_cluster (se_rc fe) db ms
          (memory_query_intent (Some (cptr_str query)) (Some (find_norm fe (cptr_str query)))) (aw_answer_size aw) []) \<and>
     \<not> ar_low_confidence out \<and>
     cs = (if citations_mode aw = ''required'' then [''memory.citation.required''] else []) @ [''memory.citation.verified'']"
proof -
  from given_answer [OF assms] obtain ms st1
    where s: "ask_search fe (cptr_str query) scope_type scope_value limit st = (Found ms, st1)" "ms \<noteq> []"
      and c: "ar_citations out = memory_collect_answer_citation_ids ms (memory_answer_anchor_index (se_rc fe) ms) (aw_max_citations aw)"
      and a: "ar_answer out \<noteq> []"
      and p: "ar_answer out = memory_pick_answer_from_cluster (se_rc fe) db ms
           (memory_query_intent (Some (cptr_str query)) (Some (find_norm fe (cptr_str query)))) (aw_answer_size aw) []"
      and l: "\<not> ar_low_confidence out" "st' = st1"
        "cs = (if citations_mode aw = ''required'' then [''memory.citation.required''] else []) @ [''memory.citation.verified'']"
      and k: "ar_confidence out = memory_answer_confidence (se_rc fe) ms (memory_answer_anchor_index (se_rc fe) ms)
           (length (ar_citations out)) False False"
    by blast
  note ok = citations_ok [OF anchor_index_best(1) [OF s(2)] assms(3), of "se_rc fe", folded c]
  have "\<exists>i. memory_cluster_member ms (memory_answer_anchor_index (se_rc fe) ms) i \<and> x = m_id (ms ! i)"
    if "x \<in> set (ar_citations out)" for x
    using ok(4) that by (auto simp: cluster_indices_def)
  moreover have "0 \<le> ar_confidence out \<and> ar_confidence out \<le> 1" unfolding k by (rule confidence_unit)
  ultimately show ?thesis using s(1) a p l ok(1-3) by simp
qed

theorem answers_are_cited_witness:
  "\<exists>out. memory_ask_query_scoped answer_env answer_sample_config answer_sample_store (Some ''dns'') None None 5 sample_state
      = Asked 0 out sample_state [''memory.citation.required'', ''memory.citation.verified''] \<and>
     set (ar_citations out) = {1} \<and> ar_confidence out \<le> 1"
proof -
  obtain out where a: "memory_ask_query_scoped answer_env answer_sample_config answer_sample_store (Some ''dns'') None None 5 sample_state
      = Asked 0 out sample_state [''memory.citation.required'', ''memory.citation.verified'']"
      "\<not> ar_no_answer out" "ar_citations out = [1]"
    using answer_asked by blast
  have cfg: "0 < aw_max_citations answer_sample_config" by (simp add: answer_sample_config_def)
  from answers_are_cited [OF a(1,2) cfg] show ?thesis using a by auto
qed

subsection \<open>Rendering\<close>

lemma length_decimal: "- (2 ^ 63) \<le> v \<Longrightarrow> v < 2 ^ 63 \<Longrightarrow> length (decimal v) \<le> 20"
  using length_digits [of "nat (- v)" 19] length_digits [of "nat v" 19]
  by (auto simp: decimal_def nat_less_iff)

fun refs_text :: "bool \<Rightarrow> int list \<Rightarrow> string" where
  "refs_text later [] = []"
| "refs_text later (i # is) = (if later then '', '' else []) @ ''#'' @ decimal i @ refs_text True is"

lemma render_refs_fits:
  "\<forall>i \<in> set is. - (2 ^ 63) \<le> i \<and> i < 2 ^ 63 \<Longrightarrow> length out + 28 * length is \<le> cap \<Longrightarrow>
   render_refs cap later is out = Some (out @ refs_text later is)"
proof (induction "is" arbitrary: out later)
  case (Cons i "is")
  let ?t = "(if later then '', '' else []) @ ''#'' @ decimal i"
  have t: "length ?t \<le> 23" using length_decimal [of i] Cons.prems(1) by simp
  have "render_refs cap True is (out @ ?t) = Some ((out @ ?t) @ refs_text True is)"
    using Cons.prems t by (intro Cons.IH) simp_all
  moreover have "length ?t < cap - length out" using Cons.prems(2) t by simp
  ultimately show ?case by (simp add: Let_def)
qed simp

text \<open>
  The buffer of the rendered answer is always large enough: for ids of 64 bits the answer is
  rendered whole, with every citation in order.
\<close>

lemma rendered_answer_complete:
  assumes "ids \<noteq> []" and "\<forall>i \<in> set ids. - (2 ^ 63) \<le> i \<and> i < 2 ^ 63"
  shows "memory_render_cited_answer (Some a) ids = a @ '' ['' @ refs_text False ids @ '']''"
  using assms render_refs_fits [OF assms(2), of "a @ '' [''" "length a + 64 + length ids * 28" False]
  by (simp add: memory_render_cited_answer_def Let_def)

text \<open>
  A row whose retrieval score is not positive enters the gate with its place counted from the
  end, which may exceed the scores before it: the separation is then negative without bound, and
  rows that carry every term of the question still make it abstain.
\<close>

lemma gate_score_mixes_scales:
  assumes "m_retrieval_score a = 0.5" and "m_retrieval_score b = 0.4" and "m_retrieval_score c = 0"
  shows "map cc_score (gate_candidates aw 0 [a, b, c]) = [0.5, 0.4, 1]"
    and "separation (gate_candidates aw 0 [a, b, c]) = - 1"
  by (simp_all add: gate_candidates_def gate_candidate_def separation_def Let_def assms)

end
