(* ===== verification/Staged_Match.thy ===== *)
theory Staged_Match
  imports C_Base
begin

text \<open>
  The merge both staged matchers share (\<open>pm_merge_unique\<close> of \<open>memory_prospective.c\<close> and
  \<open>ed_merge_unique\<close> of \<open>memory_directives.c\<close>): the rows of a stage are appended unless their id has
  been seen, until the output is full.  The list of seen ids has a capacity of its own.
\<close>

fun merge_unique :: "('a \<Rightarrow> int) \<Rightarrow> nat \<Rightarrow> nat \<Rightarrow> 'a list \<Rightarrow> 'a list \<times> int list \<Rightarrow> 'a list \<times> int list" where
  "merge_unique row_id mx cap [] st = st"
| "merge_unique row_id mx cap (r # rs) (out, seen) =
     (if mx \<le> length out then (out, seen)
      else if row_id r \<in> set seen then merge_unique row_id mx cap rs (out, seen)
      else merge_unique row_id mx cap rs (out @ [r], if length seen < cap then seen @ [row_id r] else seen))"

text \<open>With room for every id of the output the list of seen ids is that of the output.\<close>

definition merging :: "('a \<Rightarrow> int) \<Rightarrow> nat \<Rightarrow> 'a list \<times> int list \<Rightarrow> bool" where
  "merging row_id mx st \<longleftrightarrow> snd st = map row_id (fst st) \<and> distinct (snd st) \<and> length (fst st) \<le> mx"

lemma merging_Nil [simp]: "merging row_id mx ([], [])"
  by (simp add: merging_def)

lemma merge_unique_full: "mx \<le> length (fst st) \<Longrightarrow> merge_unique row_id mx cap rs st = st"
  by (cases st; cases rs) simp_all

lemma merge_unique_ok:
  assumes "merging row_id mx st" and "mx \<le> cap"
  shows "merging row_id mx (merge_unique row_id mx cap rs st) \<and>
     prefix (fst st) (fst (merge_unique row_id mx cap rs st)) \<and>
     set (fst (merge_unique row_id mx cap rs st)) \<subseteq> set (fst st) \<union> set rs \<and>
     (length (fst (merge_unique row_id mx cap rs st)) < mx \<longrightarrow>
        row_id ` set rs \<subseteq> row_id ` set (fst (merge_unique row_id mx cap rs st)))"
  using assms(1)
proof (induction rs arbitrary: st)
  case (Cons r rs)
  obtain out seen where st: "st = (out, seen)" by (rule prod.exhaust)
  from Cons.prems have seen: "seen = map row_id out" "distinct (map row_id out)" "length out \<le> mx"
    by (auto simp: merging_def st)
  consider (full) "mx \<le> length out" | (dup) "length out < mx" "row_id r \<in> row_id ` set out"
    | (fresh) "length out < mx" "row_id r \<notin> row_id ` set out" by force
  then show ?case
  proof cases
    case full
    then show ?thesis using Cons.prems by (auto simp: st)
  next
    case dup
    then have step: "merge_unique row_id mx cap (r # rs) st = merge_unique row_id mx cap rs st"
      by (simp add: st seen)
    note IH = Cons.IH [OF Cons.prems]
    then have "set out \<subseteq> set (fst (merge_unique row_id mx cap rs st))"
      by (auto simp: st dest: set_mono_prefix)
    then show ?thesis using IH dup(2) unfolding step by (auto simp: st)
  next
    case fresh
    let ?st = "(out @ [r], map row_id (out @ [r]))"
    have step: "merge_unique row_id mx cap (r # rs) st = merge_unique row_id mx cap rs ?st"
      using fresh assms(2) by (simp add: st seen)
    have "merging row_id mx ?st" using fresh seen by (auto simp: merging_def)
    note IH = Cons.IH [OF this]
    then have "prefix (out @ [r]) (fst (merge_unique row_id mx cap rs ?st))" by simp
    then have "prefix out (fst (merge_unique row_id mx cap rs ?st))" "r \<in> set (fst (merge_unique row_id mx cap rs ?st))"
      by (auto dest: set_mono_prefix append_prefixD)
    then show ?thesis using IH unfolding step by (auto simp: st)
  qed
qed simp

text \<open>A stage whose condition fails, or that starts with a full output, adds nothing.\<close>

definition stage :: "bool \<Rightarrow> nat \<Rightarrow> ('a list \<Rightarrow> 'a list \<times> int list \<Rightarrow> 'a list \<times> int list) \<Rightarrow> 'a list \<Rightarrow> 'a list \<times> int list \<Rightarrow> 'a list \<times> int list" where
  "stage guard mx merge rs st = (if guard \<and> length (fst st) < mx then merge rs st else st)"

text \<open>What a stage keeps, what it adds, and when it has added everything.\<close>

lemma stage_ok:
  assumes "merging row_id mx st" and "mx \<le> cap"
  shows "merging row_id mx (stage g mx (merge_unique row_id mx cap) rs st)"
    and "prefix (fst st) (fst (stage g mx (merge_unique row_id mx cap) rs st))"
    and "set (fst (stage g mx (merge_unique row_id mx cap) rs st)) \<subseteq> set (fst st) \<union> (if g then set rs else {})"
    and "length (fst (stage g mx (merge_unique row_id mx cap) rs st)) < mx \<Longrightarrow> g \<Longrightarrow>
        row_id ` set rs \<subseteq> row_id ` set (fst (stage g mx (merge_unique row_id mx cap) rs st))"
  using merge_unique_ok [OF assms, of rs] assms(1) by (auto simp: stage_def)

text \<open>The stages in order, each with its condition.\<close>

definition run_stages ::
    "nat \<Rightarrow> ('a list \<Rightarrow> 'a list \<times> int list \<Rightarrow> 'a list \<times> int list) \<Rightarrow> (bool \<times> 'a list) list \<Rightarrow> 'a list \<times> int list" where
  "run_stages mx merge ss = foldl (\<lambda>st (g, rs). stage g mx merge rs st) ([], []) ss"

lemma run_stages_ok:
  assumes "mx \<le> cap"
  shows "merging row_id mx (run_stages mx (merge_unique row_id mx cap) ss)"
    and "set (fst (run_stages mx (merge_unique row_id mx cap) ss)) \<subseteq> (\<Union>(g, rs) \<in> set ss. if g then set rs else {})"
    and "length (fst (run_stages mx (merge_unique row_id mx cap) ss)) < mx \<Longrightarrow> (True, rs) \<in> set ss \<Longrightarrow>
       row_id ` set rs \<subseteq> row_id ` set (fst (run_stages mx (merge_unique row_id mx cap) ss))"
proof -
  let ?run = "\<lambda>ss. run_stages mx (merge_unique row_id mx cap) ss"
  have step: "?run (ss @ [(g, rs)]) = stage g mx (merge_unique row_id mx cap) rs (?run ss)" for ss g rs
    by (simp add: run_stages_def)
  show inv: "merging row_id mx (?run ss)" for ss
  proof (induction ss rule: rev_induct)
    case (snoc x ss)
    obtain g rs where x: "x = (g, rs)" by (rule prod.exhaust)
    show ?case unfolding x step by (rule stage_ok(1) [OF snoc.IH assms])
  qed (simp add: run_stages_def)
  note ok = stage_ok [OF inv assms]
  show "set (fst (?run ss)) \<subseteq> (\<Union>(g, rs) \<in> set ss. if g then set rs else {})"
  proof (induction ss rule: rev_induct)
    case (snoc x ss)
    obtain g rs where x: "x = (g, rs)" by (rule prod.exhaust)
    have "set (fst (?run (ss @ [x]))) \<subseteq> set (fst (?run ss)) \<union> (if g then set rs else {})" unfolding x step by (rule ok(3))
    also have "\<dots> \<subseteq> (\<Union>(g, rs) \<in> set ss. if g then set rs else {}) \<union> (if g then set rs else {})"
      using snoc.IH by (rule Un_mono [OF _ subset_refl])
    also have "\<dots> = (\<Union>(g, rs) \<in> set (ss @ [x]). if g then set rs else {})" by (simp add: x Un_commute)
    finally show ?case .
  qed (simp add: run_stages_def)
  show "length (fst (?run ss)) < mx \<Longrightarrow> (True, rs) \<in> set ss \<Longrightarrow> row_id ` set rs \<subseteq> row_id ` set (fst (?run ss))"
  proof (induction ss rule: rev_induct)
    case (snoc x ss)
    obtain g rs' where x: "x = (g, rs')" by (rule prod.exhaust)
    have p: "prefix (fst (?run ss)) (fst (?run (ss @ [x])))" unfolding x step by (rule ok(2))
    show ?case
    proof (cases "(True, rs) \<in> set ss")
      case True
      have "length (fst (?run ss)) < mx" using prefix_length_le [OF p] snoc.prems(1) by simp
      from snoc.IH [OF this True] image_mono [OF set_mono_prefix [OF p], of row_id] show ?thesis by (rule subset_trans)
    next
      case False
      then have "x = (True, rs)" using snoc.prems(2) by auto
      then show ?thesis using stage_ok(4) [OF inv [of ss] assms, where g = True and rs = rs] snoc.prems(1) unfolding step by (simp add: step)
    qed
  qed simp
qed

end
