(* ===== verification/Prospective.thy ===== *)
theory Prospective
  imports Complex_Main Staged_Match
begin

text \<open>
  Prospective memories (\<open>memory_prospective.c\<close>): creating, completing and triggering a reminder,
  the sweep of expired ones and the staged matcher.

  The table is a store outside the repository: the record \<open>reminder_db\<close> has one function per
  \<open>db2_prospective\<close> call over an abstract state.  Names of states and recurrences, buffer sizes and the
  lower-casing copy are the record \<open>reminder_config\<close>.  The counters of the process are
  \<open>reminder_metrics\<close>, unbounded; the time a match took is an argument.  Logs are not modelled.
\<close>

record reminder =
  rem_id :: int
  rem_trigger :: string
  rem_action :: string
  rem_recurrence :: string
  rem_state :: string
  rem_count :: int

record 's reminder_db =
  rd_insert :: "string \<Rightarrow> string \<Rightarrow> cptr \<Rightarrow> cptr \<Rightarrow> string \<Rightarrow> cptr \<Rightarrow> cptr \<Rightarrow> 's \<Rightarrow> int \<times> 's"
  rd_get :: "int \<Rightarrow> 's \<Rightarrow> reminder option"
  rd_list :: "cptr \<Rightarrow> int \<Rightarrow> 's \<Rightarrow> reminder list"
  rd_set_state :: "int \<Rightarrow> string \<Rightarrow> 's \<Rightarrow> bool \<times> 's"
  rd_record_trigger :: "int \<Rightarrow> bool \<Rightarrow> 's \<Rightarrow> bool \<times> 's"
  rd_sweep :: "'s \<Rightarrow> int \<times> 's"
  rd_by_entity :: "string \<Rightarrow> nat \<Rightarrow> 's \<Rightarrow> reminder list"
  rd_by_file :: "string \<Rightarrow> nat \<Rightarrow> 's \<Rightarrow> reminder list"
  rd_by_terms :: "string \<Rightarrow> nat \<Rightarrow> 's \<Rightarrow> reminder list"
  rd_armed :: "nat \<Rightarrow> 's \<Rightarrow> reminder list"

record reminder_config =
  rn_once :: string
  rn_repeat :: string
  rn_armed :: string
  rn_completed :: string
  rn_expired :: string
  rn_max_matches :: nat
  rn_anchor_len :: nat
  rn_trigger_len :: nat
  rn_lower_copy :: "string \<Rightarrow> nat \<Rightarrow> string"

record reminder_metrics =
  rm_triggered :: int
  rm_completed :: int
  rm_expired :: int
  rm_calls :: int
  rm_ms_sum :: real
  rm_ms_max :: real

definition no_reminder_metrics :: reminder_metrics where
  "no_reminder_metrics = \<lparr>rm_triggered = 0, rm_completed = 0, rm_expired = 0, rm_calls = 0, rm_ms_sum = 0, rm_ms_max = 0\<rparr>"

text \<open>What the dashboard reads: the four counts, the mean and the longest match.\<close>

definition memory_prospective_metrics :: "reminder_metrics \<Rightarrow> int \<times> int \<times> int \<times> int \<times> real \<times> real" where
  "memory_prospective_metrics m =
     (rm_triggered m, rm_completed m, rm_expired m, rm_calls m,
      if 0 < rm_calls m then rm_ms_sum m / real_of_int (rm_calls m) else 0, rm_ms_max m)"

definition pm_metrics_record_match :: "real \<Rightarrow> reminder_metrics \<Rightarrow> reminder_metrics" where
  "pm_metrics_record_match ms m =
     m\<lparr>rm_calls := rm_calls m + 1, rm_ms_sum := rm_ms_sum m + ms, rm_ms_max := (if rm_ms_max m < ms then ms else rm_ms_max m)\<rparr>"

subsection \<open>Single reminders\<close>

text \<open>A created reminder is read back for the caller, who gets no row when it cannot be read.\<close>

definition memory_prospective_create ::
    "reminder_config \<Rightarrow> 's reminder_db \<Rightarrow> cptr \<Rightarrow> cptr \<Rightarrow> cptr \<Rightarrow> cptr \<Rightarrow> cptr \<Rightarrow> cptr \<Rightarrow> cptr \<Rightarrow> 's \<Rightarrow> reminder option option \<times> 's" where
  "memory_prospective_create cfg db trigger action entity file recurrence valid_until session s =
     (if \<not> nonempty trigger \<or> \<not> nonempty action then (None, s)
      else let recur = (if nonempty recurrence then cptr_str recurrence else rn_once cfg)
           in if recur \<noteq> rn_once cfg \<and> recur \<noteq> rn_repeat cfg then (None, s)
              else let (new_id, s') = rd_insert db (cptr_str trigger) (cptr_str action) entity file recur valid_until session s
                   in if new_id \<le> 0 then (None, s') else (Some (rd_get db new_id s'), s'))"

definition memory_prospective_get :: "'s reminder_db \<Rightarrow> int \<Rightarrow> 's \<Rightarrow> reminder option" where
  "memory_prospective_get db i s = (if i \<le> 0 then None else rd_get db i s)"

definition memory_prospective_list :: "'s reminder_db \<Rightarrow> cptr \<Rightarrow> int \<Rightarrow> 's \<Rightarrow> reminder list" where
  "memory_prospective_list db st mx s = rd_list db st mx s"

text \<open>The code's 0 and -1 are True and False.\<close>

definition memory_prospective_complete ::
    "reminder_config \<Rightarrow> 's reminder_db \<Rightarrow> int \<Rightarrow> reminder_metrics \<times> 's \<Rightarrow> bool \<times> reminder_metrics \<times> 's" where
  "memory_prospective_complete cfg db i ms =
     (case ms of (m, s) \<Rightarrow>
        if i \<le> 0 then (False, m, s)
        else case rd_get db i s of None \<Rightarrow> (False, m, s)
             | Some cur \<Rightarrow>
                 if rem_state cur = rn_completed cfg \<or> rem_state cur = rn_expired cfg then (False, m, s)
                 else let (ok, s') = rd_set_state db i (rn_completed cfg) s
                      in if ok then (True, m\<lparr>rm_completed := rm_completed m + 1\<rparr>, s') else (False, m, s'))"

definition memory_prospective_sweep_expired ::
    "'s reminder_db \<Rightarrow> reminder_metrics \<times> 's \<Rightarrow> int \<times> reminder_metrics \<times> 's" where
  "memory_prospective_sweep_expired db ms =
     (case ms of (m, s) \<Rightarrow>
        let (n, s') = rd_sweep db s in (n, (if n \<le> 0 then m else m\<lparr>rm_expired := rm_expired m + n\<rparr>), s'))"

definition memory_prospective_mark_triggered ::
    "reminder_config \<Rightarrow> 's reminder_db \<Rightarrow> int \<Rightarrow> reminder_metrics \<times> 's \<Rightarrow> bool \<times> reminder_metrics \<times> 's" where
  "memory_prospective_mark_triggered cfg db i ms =
     (case ms of (m, s) \<Rightarrow>
        if i \<le> 0 then (False, m, s)
        else case rd_get db i s of None \<Rightarrow> (False, m, s)
             | Some cur \<Rightarrow>
                 if rem_state cur \<noteq> rn_armed cfg then (False, m, s)
                 else let (ok, s') = rd_record_trigger db i (rem_recurrence cur = rn_once cfg) s
                      in if ok then (True, m\<lparr>rm_triggered := rm_triggered m + 1\<rparr>, s') else (False, m, s'))"

subsection \<open>Stems\<close>

definition suffixes :: "string list" where
  "suffixes =
     [''ations'', ''ations'', ''ization'', ''ations'', ''ations'', ''ings'', ''ations'', ''tion'', ''tions'', ''sion'',
      ''sions'', ''ment'', ''ments'', ''ness'', ''ing'', ''ed'', ''es'', ''s'']"

fun drop_suffix :: "string list \<Rightarrow> string \<Rightarrow> string" where
  "drop_suffix [] stem = stem"
| "drop_suffix (x # xs) stem =
     (if length x + 2 < length stem \<and> drop (length stem - length x) stem = x then take (length stem - length x) stem
      else drop_suffix xs stem)"

definition stem_of :: "string \<Rightarrow> string option" where
  "stem_of w =
     (let stem = drop_suffix suffixes (map tolower (take 47 w))
      in if length w < 5 \<or> length stem < 4 then None else Some stem)"

definition add_stem :: "string list \<Rightarrow> string \<Rightarrow> string list" where
  "add_stem stems w =
     (if 8 \<le> length stems then stems
      else case stem_of w of None \<Rightarrow> stems | Some s \<Rightarrow> if s \<in> set stems then stems else stems @ [s])"

definition turn_stems :: "string \<Rightarrow> string list" where
  "turn_stems t = foldl add_stem [] (lead_words isalnum (\<lambda>c. isalnum c \<or> c = CHR ''_'') t)"

definition stem_matches :: "reminder_config \<Rightarrow> string list \<Rightarrow> reminder \<Rightarrow> bool" where
  "stem_matches cfg stems r \<longleftrightarrow> list_ex (contains (map tolower (cbuf (rn_trigger_len cfg) (rem_trigger r)))) stems"

subsection \<open>The staged matcher\<close>

definition pm_merge_unique :: "reminder_config \<Rightarrow> nat \<Rightarrow> reminder list \<Rightarrow> reminder list \<times> int list \<Rightarrow> reminder list \<times> int list" where
  "pm_merge_unique cfg mx rs st = merge_unique rem_id mx (3 * rn_max_matches cfg) rs st"

definition entity_rows :: "reminder_config \<Rightarrow> 's reminder_db \<Rightarrow> nat \<Rightarrow> cptr \<Rightarrow> 's \<Rightarrow> reminder list" where
  "entity_rows cfg db mx entity s = rd_by_entity db (rn_lower_copy cfg (cptr_str entity) (rn_anchor_len cfg)) mx s"

definition stem_rows :: "reminder_config \<Rightarrow> 's reminder_db \<Rightarrow> cptr \<Rightarrow> 's \<Rightarrow> reminder list" where
  "stem_rows cfg db turn s =
     (let stems = turn_stems (cptr_str turn)
      in if stems = [] then [] else filter (stem_matches cfg stems) (rd_armed db (4 * rn_max_matches cfg) s))"

definition match_stages ::
    "reminder_config \<Rightarrow> 's reminder_db \<Rightarrow> cptr \<Rightarrow> cptr \<Rightarrow> cptr \<Rightarrow> nat \<Rightarrow> 's \<Rightarrow> reminder list \<times> int list" where
  "match_stages cfg db turn entity file mx s =
     run_stages mx (pm_merge_unique cfg mx)
       [(nonempty entity, entity_rows cfg db mx entity s), (nonempty file, rd_by_file db (cptr_str file) mx s),
        (nonempty turn, rd_by_terms db (cptr_str turn) mx s), (nonempty turn, stem_rows cfg db turn s)]"

definition memory_prospective_match ::
    "reminder_config \<Rightarrow> 's reminder_db \<Rightarrow> real \<Rightarrow> cptr \<Rightarrow> cptr \<Rightarrow> cptr \<Rightarrow> int \<Rightarrow> reminder_metrics \<times> 's
     \<Rightarrow> reminder list \<times> reminder_metrics \<times> 's" where
  "memory_prospective_match cfg db elapsed turn entity file mx ms =
     (if mx \<le> 0 then ([], ms)
      else let (n, m, s) = memory_prospective_sweep_expired db ms
           in (fst (match_stages cfg db turn entity file (nat mx) s), pm_metrics_record_match elapsed m, s))"


subsection \<open>Correctness\<close>

text \<open>
  Two words of one stem family are not always brought to one stem: of the code's own examples
  only the third is cut to \<open>rotat\<close>.
\<close>

lemma rotation_stems:
  "map stem_of [''rotation'', ''rotate'', ''rotating''] = [Some ''rota'', Some ''rotate'', Some ''rotat'']"
  by code_simp

lemma drop_suffix_prefix: "prefix (drop_suffix xs stem) stem"
  by (induction xs) (auto simp: take_is_prefix)

lemma stem_of_Some: "stem_of w = Some s \<Longrightarrow> 4 \<le> length s \<and> length s < 48 \<and> prefix s (map tolower w)"
proof -
  assume "stem_of w = Some s"
  then have s: "s = drop_suffix suffixes (map tolower (take 47 w))" "4 \<le> length s"
    by (auto simp: stem_of_def Let_def split: if_splits)
  have p: "prefix s (map tolower (take 47 w))" unfolding s(1) by (rule drop_suffix_prefix)
  moreover have "prefix (map tolower (take 47 w)) (map tolower w)" by (simp add: take_is_prefix flip: take_map)
  ultimately show ?thesis using s(2) prefix_length_le [OF p] by (auto dest: prefix_order.trans)
qed

lemma turn_stems_ok: "distinct (turn_stems t) \<and> length (turn_stems t) \<le> 8 \<and> (\<forall>s \<in> set (turn_stems t). 4 \<le> length s)"
proof -
  have "distinct (foldl add_stem ss ws) \<and> length (foldl add_stem ss ws) \<le> 8 \<and> (\<forall>s \<in> set (foldl add_stem ss ws). 4 \<le> length s)"
    if "distinct ss \<and> length ss \<le> 8 \<and> (\<forall>s \<in> set ss. 4 \<le> length s)" for ss ws
    using that
  proof (induction ws arbitrary: ss)
    case (Cons w ws)
    have "distinct (add_stem ss w) \<and> length (add_stem ss w) \<le> 8 \<and> (\<forall>s \<in> set (add_stem ss w). 4 \<le> length s)"
      using Cons.prems stem_of_Some by (auto simp: add_stem_def split: option.splits)
    from Cons.IH [OF this] show ?case by simp
  qed simp
  from this [of "[]"] show ?thesis by (simp add: turn_stems_def)
qed

text \<open>The rows each stage may add, for the stages whose argument is there.\<close>

definition match_sources ::
    "reminder_config \<Rightarrow> 's reminder_db \<Rightarrow> cptr \<Rightarrow> cptr \<Rightarrow> cptr \<Rightarrow> nat \<Rightarrow> 's \<Rightarrow> reminder set set" where
  "match_sources cfg db turn entity file mx s =
     (if nonempty entity then {set (entity_rows cfg db mx entity s)} else {}) \<union>
     (if nonempty file then {set (rd_by_file db (cptr_str file) mx s)} else {}) \<union>
     (if nonempty turn then {set (rd_by_terms db (cptr_str turn) mx s), set (stem_rows cfg db turn s)} else {})"

lemma match_stages_ok:
  assumes "mx \<le> rn_max_matches cfg"
  shows "merging rem_id mx (match_stages cfg db turn entity path mx s)"
    and "set (fst (match_stages cfg db turn entity path mx s)) \<subseteq> \<Union> (match_sources cfg db turn entity path mx s)"
    and "length (fst (match_stages cfg db turn entity path mx s)) < mx \<Longrightarrow> R \<in> match_sources cfg db turn entity path mx s \<Longrightarrow>
       rem_id ` R \<subseteq> rem_id ` set (fst (match_stages cfg db turn entity path mx s))"
proof -
  have m: "pm_merge_unique cfg mx = merge_unique rem_id mx (3 * rn_max_matches cfg)" by (intro ext) (simp add: pm_merge_unique_def)
  have cap: "mx \<le> 3 * rn_max_matches cfg" using assms by simp
  note ok = run_stages_ok [where row_id = "rem_id :: reminder \<Rightarrow> int", OF cap, folded m]
  show "merging rem_id mx (match_stages cfg db turn entity path mx s)" unfolding match_stages_def by (rule ok(1))
  show "set (fst (match_stages cfg db turn entity path mx s)) \<subseteq> \<Union> (match_sources cfg db turn entity path mx s)"
    unfolding match_stages_def match_sources_def by (rule subset_trans [OF ok(2)]) (auto split: if_splits)
  assume lt: "length (fst (match_stages cfg db turn entity path mx s)) < mx" and R: "R \<in> match_sources cfg db turn entity path mx s"
  from R obtain rs where "R = set rs" and "(True, rs) \<in> set
       [(nonempty entity, entity_rows cfg db mx entity s), (nonempty path, rd_by_file db (cptr_str path) mx s),
        (nonempty turn, rd_by_terms db (cptr_str turn) mx s), (nonempty turn, stem_rows cfg db turn s)]"
    by (auto simp: match_sources_def split: if_splits)
  then show "rem_id ` R \<subseteq> rem_id ` set (fst (match_stages cfg db turn entity path mx s))"
    using ok(3) lt unfolding match_stages_def by simp
qed

end
