(* ===== verification/Directives.thy ===== *)
theory Directives
  imports Temporal Json Staged_Match
begin

text \<open>
  Epistemic directives (\<open>memory_directives.c\<close>): validation, creation with recovery of the
  existing row, the staged matcher with the query it builds, the two recorders and the JSON form.

  The table is the record \<open>directive_db\<close> of one function per \<open>db2_directive\<close> call over an abstract
  state; a call that failed leaves whatever state it gives back.  Sizes and names are
  \<open>directive_config\<close>.  Numbers of the JSON form go through a \<open>double\<close>: \<open>dn_double\<close> rounds an
  integer to one and back.  Logs are not modelled.
\<close>

record directive =
  dir_id :: int
  dir_question :: string
  dir_topic :: string
  dir_entity :: string
  dir_file :: string
  dir_cause :: string
  dir_priority :: int
  dir_state :: string
  dir_memory_a :: int
  dir_memory_b :: int
  dir_resolution :: int
  dir_evidence :: string
  dir_surfaced :: int
  dir_last_surfaced :: string
  dir_resolved_at :: string
  dir_valid_until :: string
  dir_created_at :: string

text \<open>The insert has a new id, or finds that the row existed, or fails.\<close>

datatype insert_result = Inserted int | Existed | Insert_Failed

record new_directive =
  nd_question :: string
  nd_topic :: cptr
  nd_entity :: cptr
  nd_file :: cptr
  nd_cause :: string
  nd_priority :: int
  nd_memory_a :: int
  nd_memory_b :: int
  nd_evidence :: cptr
  nd_session :: cptr
  nd_valid_until :: cptr

record 's directive_db =
  dd_get :: "int \<Rightarrow> 's \<Rightarrow> directive option"
  dd_insert :: "new_directive \<Rightarrow> 's \<Rightarrow> insert_result \<times> 's"
  dd_list :: "cptr \<Rightarrow> cptr \<Rightarrow> int \<Rightarrow> 's \<Rightarrow> directive list"
  dd_counts :: "'s \<Rightarrow> (int \<times> int \<times> int \<times> int) option"
  dd_resolve :: "int \<Rightarrow> int \<Rightarrow> 's \<Rightarrow> bool \<times> 's"
  dd_suppress :: "int \<Rightarrow> 's \<Rightarrow> bool \<times> 's"
  dd_sweep :: "'s \<Rightarrow> int \<times> 's"
  dd_by_entity :: "string \<Rightarrow> nat \<Rightarrow> 's \<Rightarrow> directive list"
  dd_by_file :: "string \<Rightarrow> nat \<Rightarrow> 's \<Rightarrow> directive list"
  dd_by_lexical :: "string \<Rightarrow> nat \<Rightarrow> 's \<Rightarrow> directive list"
  dd_surface :: "int \<Rightarrow> 's \<Rightarrow> bool \<times> 's"
  dd_bump :: "string \<Rightarrow> 's \<Rightarrow> int \<times> 's"
  dd_find :: "string \<Rightarrow> string \<Rightarrow> 's \<Rightarrow> directive option"
  dd_resolve_pair :: "int \<Rightarrow> int \<Rightarrow> int \<Rightarrow> 's \<Rightarrow> int \<times> 's"

record directive_config =
  dn_contradiction :: string
  dn_retrieval_failure :: string
  dn_missing_config :: string
  dn_follow_up :: string
  dn_max_matches :: nat
  dn_anchor_len :: nat
  dn_question_len :: nat
  dn_evidence_len :: nat
  dn_topic_len :: nat
  dn_cause_len :: nat
  dn_state_len :: nat
  dn_time_len :: nat
  dn_threshold :: int
  dn_lower_copy :: "string \<Rightarrow> nat \<Rightarrow> string"
  dn_double :: "int \<Rightarrow> int"

record directive_metrics =
  dm_created :: int
  dm_resolved :: int
  dm_expired :: int
  dm_surfaced :: int
  dm_calls :: int
  dm_ms_sum :: real
  dm_ms_max :: real

definition memory_directive_metrics :: "directive_metrics \<Rightarrow> int \<times> int \<times> int \<times> int \<times> int \<times> real \<times> real" where
  "memory_directive_metrics m =
     (dm_created m, dm_resolved m, dm_expired m, dm_surfaced m, dm_calls m,
      if 0 < dm_calls m then dm_ms_sum m / real_of_int (dm_calls m) else 0, dm_ms_max m)"

definition ed_metrics_record_match :: "real \<Rightarrow> directive_metrics \<Rightarrow> directive_metrics" where
  "ed_metrics_record_match ms m =
     m\<lparr>dm_calls := dm_calls m + 1, dm_ms_sum := dm_ms_sum m + ms, dm_ms_max := (if dm_ms_max m < ms then ms else dm_ms_max m)\<rparr>"

subsection \<open>Single directives\<close>

definition ed_cause_valid :: "directive_config \<Rightarrow> cptr \<Rightarrow> bool" where
  "ed_cause_valid cfg cause \<longleftrightarrow>
     cause \<in> Some ` {dn_contradiction cfg, dn_retrieval_failure cfg, dn_missing_config cfg, dn_follow_up cfg}"

definition memory_directive_get :: "'s directive_db \<Rightarrow> int \<Rightarrow> 's \<Rightarrow> directive option" where
  "memory_directive_get db i s = (if i \<le> 0 then None else dd_get db i s)"

text \<open>
  The outcome of a creation: the new row as it is read back, the code's 1 for a row that existed,
  or its -1.
\<close>

datatype create_result = Created "directive option" | Exists | Create_Failed

definition memory_directive_create ::
    "directive_config \<Rightarrow> 's directive_db \<Rightarrow> cptr \<Rightarrow> cptr \<Rightarrow> cptr \<Rightarrow> cptr \<Rightarrow> cptr \<Rightarrow> int \<Rightarrow> int \<Rightarrow> int \<Rightarrow> cptr \<Rightarrow> cptr \<Rightarrow> cptr
     \<Rightarrow> directive_metrics \<times> 's \<Rightarrow> create_result \<times> directive_metrics \<times> 's" where
  "memory_directive_create cfg db question topic entity file cause priority a b evidence session valid_until ms =
     (case ms of (m, s) \<Rightarrow>
        if \<not> nonempty question \<or> \<not> ed_cause_valid cfg cause then (Create_Failed, m, s)
        else let (r, s') = dd_insert db
                   \<lparr>nd_question = cptr_str question, nd_topic = topic, nd_entity = entity, nd_file = file,
                    nd_cause = cptr_str cause, nd_priority = min 100 (max 0 priority), nd_memory_a = a, nd_memory_b = b,
                    nd_evidence = evidence, nd_session = session, nd_valid_until = valid_until\<rparr> s
             in case r of Insert_Failed \<Rightarrow> (Create_Failed, m, s') | Existed \<Rightarrow> (Exists, m, s')
                | Inserted i \<Rightarrow> (Created (dd_get db i s'), m\<lparr>dm_created := dm_created m + 1\<rparr>, s'))"

definition memory_directive_list :: "'s directive_db \<Rightarrow> cptr \<Rightarrow> cptr \<Rightarrow> int \<Rightarrow> 's \<Rightarrow> directive list" where
  "memory_directive_list db st cause mx s = dd_list db st cause mx s"

definition memory_directive_counts :: "'s directive_db \<Rightarrow> 's \<Rightarrow> (int \<times> int \<times> int \<times> int) option" where
  "memory_directive_counts db s = dd_counts db s"

definition memory_directive_resolve ::
    "'s directive_db \<Rightarrow> int \<Rightarrow> int \<Rightarrow> directive_metrics \<times> 's \<Rightarrow> bool \<times> directive_metrics \<times> 's" where
  "memory_directive_resolve db i resolution ms =
     (case ms of (m, s) \<Rightarrow>
        if i \<le> 0 then (False, m, s)
        else let (ok, s') = dd_resolve db i resolution s
             in (ok, if ok then m\<lparr>dm_resolved := dm_resolved m + 1\<rparr> else m, s'))"

definition memory_directive_suppress :: "'s directive_db \<Rightarrow> int \<Rightarrow> 's \<Rightarrow> bool \<times> 's" where
  "memory_directive_suppress db i s = (if i \<le> 0 then (False, s) else dd_suppress db i s)"

definition memory_directive_sweep_expired ::
    "'s directive_db \<Rightarrow> directive_metrics \<times> 's \<Rightarrow> int \<times> directive_metrics \<times> 's" where
  "memory_directive_sweep_expired db ms =
     (case ms of (m, s) \<Rightarrow>
        let (n, s') = dd_sweep db s in (n, (if n \<le> 0 then m else m\<lparr>dm_expired := dm_expired m + n\<rparr>), s'))"

definition memory_directive_mark_surfaced ::
    "'s directive_db \<Rightarrow> int \<Rightarrow> directive_metrics \<times> 's \<Rightarrow> bool \<times> directive_metrics \<times> 's" where
  "memory_directive_mark_surfaced db i ms =
     (case ms of (m, s) \<Rightarrow>
        if i \<le> 0 then (False, m, s)
        else let (ok, s') = dd_surface db i s
             in (ok, if ok then m\<lparr>dm_surfaced := dm_surfaced m + 1\<rparr> else m, s'))"

subsection \<open>The lexical query\<close>

text \<open>
  One quoted lower-case word after another, joined by OR, as long as the buffer has room; \<open>left\<close>
  is the room left.  A word that does not fit ends the query after its separator.
\<close>

definition quoted :: "string \<Rightarrow> string" where
  "quoted w = [CHR 0x22] @ map tolower w @ [CHR 0x22]"

fun lexical_loop :: "nat \<Rightarrow> bool \<Rightarrow> string list \<Rightarrow> string \<Rightarrow> string \<times> bool" where
  "lexical_loop cap wrote [] out = (out, wrote)"
| "lexical_loop cap wrote (w # ws) out =
     (if cap - length out \<le> 24 then (out, wrote)
      else if length w < 3 then lexical_loop cap wrote ws out
      else let out1 = out @ (if wrote then '' OR '' else [])
           in if cap - length out1 \<le> length w + 2 then (out1, wrote)
              else lexical_loop cap True ws (out1 @ quoted w))"

definition ed_build_lexical_query :: "cptr \<Rightarrow> nat \<Rightarrow> string \<times> bool" where
  "ed_build_lexical_query turn_text out_len =
     lexical_loop out_len False (lead_words isalnum (\<lambda>c. isalnum c \<or> c = CHR ''_'') (cptr_str turn_text)) []"

subsection \<open>The staged matcher\<close>

definition ed_merge_unique :: "directive_config \<Rightarrow> nat \<Rightarrow> directive list \<Rightarrow> directive list \<times> int list \<Rightarrow> directive list \<times> int list" where
  "ed_merge_unique cfg mx rs st = merge_unique dir_id mx (4 * dn_max_matches cfg) rs st"

definition lexical_rows :: "'s directive_db \<Rightarrow> nat \<Rightarrow> cptr \<Rightarrow> 's \<Rightarrow> directive list" where
  "lexical_rows db mx turn s =
     (let (clause, ok) = ed_build_lexical_query turn 2048 in if ok then dd_by_lexical db clause mx s else [])"

definition directive_stages ::
    "directive_config \<Rightarrow> 's directive_db \<Rightarrow> cptr \<Rightarrow> cptr \<Rightarrow> cptr \<Rightarrow> nat \<Rightarrow> 's \<Rightarrow> directive list \<times> int list" where
  "directive_stages cfg db turn entity file mx s =
     run_stages mx (ed_merge_unique cfg mx)
       [(nonempty entity, dd_by_entity db (dn_lower_copy cfg (cptr_str entity) (dn_anchor_len cfg)) mx s),
        (nonempty file, dd_by_file db (cptr_str file) mx s), (nonempty turn, lexical_rows db mx turn s)]"

definition memory_directive_match ::
    "directive_config \<Rightarrow> 's directive_db \<Rightarrow> real \<Rightarrow> cptr \<Rightarrow> cptr \<Rightarrow> cptr \<Rightarrow> int \<Rightarrow> directive_metrics \<times> 's
     \<Rightarrow> directive list \<times> directive_metrics \<times> 's" where
  "memory_directive_match cfg db elapsed turn entity file mx ms =
     (case ms of (m, s) \<Rightarrow>
        if mx \<le> 0 then ([], m, s)
        else (fst (directive_stages cfg db turn entity file (nat mx) s), ed_metrics_record_match elapsed m, s))"

subsection \<open>The recorders\<close>

text \<open>\<open>None\<close> stands for a value the code reads from a row it could not fetch.\<close>

definition created_id :: "create_result \<Rightarrow> int option \<Rightarrow> int option" where
  "created_id r existing =
     (case r of Created d \<Rightarrow> map_option dir_id d | Exists \<Rightarrow> existing | Create_Failed \<Rightarrow> Some 0)"

definition quote :: string where
  "quote = [CHR 0x22]"

definition failure_question :: "string \<Rightarrow> string" where
  "failure_question q =
     ''I keep failing to find a confident answer about '' @ [CHR 0x27] @ q @ [CHR 0x27] @
     ''. Can you tell me the answer so I can record it?''"

definition failure_evidence :: "string \<Rightarrow> int \<Rightarrow> string" where
  "failure_evidence q n =
     ''{'' @ quote @ ''query'' @ quote @ '':'' @ quote @ q @ quote @ '','' @ quote @ ''failures'' @ quote @ '':'' @ decimal n @ ''}''"

definition memory_directive_record_retrieval_failure ::
    "directive_config \<Rightarrow> 's directive_db \<Rightarrow> cptr \<Rightarrow> int \<Rightarrow> cptr \<Rightarrow> directive_metrics \<times> 's \<Rightarrow> int option \<times> directive_metrics \<times> 's" where
  "memory_directive_record_retrieval_failure cfg db query_norm threshold session ms =
     (case ms of (m, s) \<Rightarrow>
        if \<not> nonempty query_norm then (Some 0, m, s)
        else let q = cptr_str query_norm; limit = (if threshold \<le> 0 then dn_threshold cfg else threshold);
                 (n, s1) = dd_bump db q s
             in if n < limit then (Some 0, m, s1)
                else let (r, m2, s2) = memory_directive_create cfg db
                           (Some (cbuf (dn_question_len cfg) (failure_question q))) query_norm (Some []) (Some [])
                           (Some (dn_retrieval_failure cfg)) 60 0 0
                           (Some (cbuf (dn_evidence_len cfg) (failure_evidence q n))) session (Some []) (m, s1)
                     in (created_id r (Some (case dd_find db (dn_retrieval_failure cfg) q s2 of None \<Rightarrow> 0 | Some d \<Rightarrow> dir_id d)), m2, s2))"

definition pair_question :: "cptr \<Rightarrow> cptr \<Rightarrow> cptr \<Rightarrow> string" where
  "pair_question topic a b =
     (let q = (\<lambda>s. [CHR 0x27] @ s @ [CHR 0x27])
      in ''Which is correct about '' @ q (case topic of None \<Rightarrow> ''this'' | Some t \<Rightarrow> t) @ '': '' @
         q (case a of None \<Rightarrow> ''(a)'' | Some t \<Rightarrow> t) @ '' or '' @ q (case b of None \<Rightarrow> ''(b)'' | Some t \<Rightarrow> t) @ ''?'')"

definition pair_evidence :: "int \<Rightarrow> int \<Rightarrow> string" where
  "pair_evidence a b =
     ''{'' @ quote @ ''memory_a'' @ quote @ '':'' @ decimal a @ '','' @ quote @ ''memory_b'' @ quote @ '':'' @ decimal b @ ''}''"

text \<open>The pair in the order of its ids; the row that existed counts only when it is of that pair.\<close>

definition record_pair ::
    "directive_config \<Rightarrow> 's directive_db \<Rightarrow> int \<Rightarrow> int \<Rightarrow> cptr \<Rightarrow> cptr \<Rightarrow> cptr \<Rightarrow> cptr \<Rightarrow> cptr
     \<Rightarrow> directive_metrics \<times> 's \<Rightarrow> int option \<times> directive_metrics \<times> 's" where
  "record_pair cfg db a b topic entity content_a content_b session ms =
     (let t = cptr_str topic;
          (r, m2, s2) = memory_directive_create cfg db
            (Some (cbuf (dn_question_len cfg) (pair_question topic content_a content_b))) (Some t) (Some (cptr_str entity)) (Some [])
            (Some (dn_contradiction cfg)) 80 a b (Some (cbuf (dn_evidence_len cfg) (pair_evidence a b))) session (Some []) ms;
          existing = (case dd_find db (dn_contradiction cfg) t s2 of None \<Rightarrow> 0
             | Some d \<Rightarrow> if dir_memory_a d = a \<and> dir_memory_b d = b \<or> dir_memory_a d = b \<and> dir_memory_b d = a
                         then dir_id d else 0)
      in (created_id r (Some existing), m2, s2))"

definition memory_directive_record_contradiction ::
    "directive_config \<Rightarrow> 's directive_db \<Rightarrow> int \<Rightarrow> int \<Rightarrow> cptr \<Rightarrow> cptr \<Rightarrow> cptr \<Rightarrow> cptr \<Rightarrow> cptr
     \<Rightarrow> directive_metrics \<times> 's \<Rightarrow> int option \<times> directive_metrics \<times> 's" where
  "memory_directive_record_contradiction cfg db a b topic entity content_a content_b session ms =
     (if a \<le> 0 \<or> b \<le> 0 then (Some 0, ms)
      else if b < a then record_pair cfg db b a topic entity content_b content_a session ms
      else record_pair cfg db a b topic entity content_a content_b session ms)"

definition memory_directive_resolve_contradiction ::
    "'s directive_db \<Rightarrow> int \<Rightarrow> int \<Rightarrow> int \<Rightarrow> directive_metrics \<times> 's \<Rightarrow> int \<times> directive_metrics \<times> 's" where
  "memory_directive_resolve_contradiction db a b resolution ms =
     (case ms of (m, s) \<Rightarrow>
        if a \<le> 0 \<or> b \<le> 0 then (0, m, s)
        else let (n, s') = dd_resolve_pair db a b resolution s
             in if 0 < n then (n, m\<lparr>dm_resolved := dm_resolved m + n\<rparr>, s') else (0, m, s'))"

subsection \<open>The JSON form\<close>

definition memory_directive_to_json :: "directive_config \<Rightarrow> directive \<Rightarrow> cjson" where
  "memory_directive_to_json cfg d =
     (let num = (\<lambda>v. JNumber (dn_double cfg v))
      in JObject
        [(''id'', num (dir_id d)), (''question'', JString (dir_question d)), (''topic'', JString (dir_topic d)),
         (''anchor_entity'', JString (dir_entity d)), (''anchor_file'', JString (dir_file d)), (''cause'', JString (dir_cause d)),
         (''priority'', num (dir_priority d)), (''state'', JString (dir_state d)), (''memory_a_id'', num (dir_memory_a d)),
         (''memory_b_id'', num (dir_memory_b d)), (''resolution_memory_id'', num (dir_resolution d)),
         (''evidence'', JString (dir_evidence d)), (''surfaced_count'', num (dir_surfaced d)),
         (''last_surfaced_at'', JString (dir_last_surfaced d)), (''resolved_at'', JString (dir_resolved_at d)),
         (''valid_until'', JString (dir_valid_until d)), (''created_at'', JString (dir_created_at d))])"

definition json_int :: "cjson \<Rightarrow> string \<Rightarrow> int option" where
  "json_int j k = (case json_get j k of Some (JNumber v) \<Rightarrow> Some v | _ \<Rightarrow> None)"

definition int_or_zero :: "cjson \<Rightarrow> string \<Rightarrow> int" where
  "int_or_zero j k = (case json_int j k of None \<Rightarrow> 0 | Some v \<Rightarrow> v)"

definition djson_copy_str :: "cjson \<Rightarrow> string \<Rightarrow> nat \<Rightarrow> string" where
  "djson_copy_str j k cap = (case json_text j k of None \<Rightarrow> [] | Some s \<Rightarrow> cbuf cap s)"

definition memory_directive_from_json :: "directive_config \<Rightarrow> cjson \<Rightarrow> directive option" where
  "memory_directive_from_json cfg j =
     (case json_int j ''id'' of None \<Rightarrow> None
      | Some i \<Rightarrow> Some
          \<lparr>dir_id = i, dir_question = djson_copy_str j ''question'' (dn_question_len cfg),
           dir_topic = djson_copy_str j ''topic'' (dn_topic_len cfg),
           dir_entity = djson_copy_str j ''anchor_entity'' (dn_anchor_len cfg),
           dir_file = djson_copy_str j ''anchor_file'' (dn_anchor_len cfg),
           dir_cause = djson_copy_str j ''cause'' (dn_cause_len cfg), dir_priority = int_or_zero j ''priority'',
           dir_state = djson_copy_str j ''state'' (dn_state_len cfg), dir_memory_a = int_or_zero j ''memory_a_id'',
           dir_memory_b = int_or_zero j ''memory_b_id'', dir_resolution = int_or_zero j ''resolution_memory_id'',
           dir_evidence = djson_copy_str j ''evidence'' (dn_evidence_len cfg), dir_surfaced = int_or_zero j ''surfaced_count'',
           dir_last_surfaced = djson_copy_str j ''last_surfaced_at'' (dn_time_len cfg),
           dir_resolved_at = djson_copy_str j ''resolved_at'' (dn_time_len cfg),
           dir_valid_until = djson_copy_str j ''valid_until'' (dn_time_len cfg),
           dir_created_at = djson_copy_str j ''created_at'' (dn_time_len cfg)\<rparr>)"

subsection \<open>Correctness\<close>

lemma directive_stages_ok:
  assumes "mx \<le> dn_max_matches cfg"
  shows "merging dir_id mx (directive_stages cfg db turn entity file mx s)"
proof -
  have m: "ed_merge_unique cfg mx = merge_unique dir_id mx (4 * dn_max_matches cfg)" by (intro ext) (simp add: ed_merge_unique_def)
  have cap: "mx \<le> 4 * dn_max_matches cfg" using assms by simp
  show ?thesis unfolding directive_stages_def m by (rule run_stages_ok(1) [OF cap])
qed

text \<open>The query as words: quoted and joined.\<close>

fun joined :: "string list \<Rightarrow> string" where
  "joined [] = []"
| "joined [w] = quoted w"
| "joined (w # v # ws) = quoted w @ '' OR '' @ joined (v # ws)"

lemma joined_snoc: "joined (ds @ [w]) = joined ds @ (if ds = [] then [] else '' OR '') @ quoted w"
  by (induction ds rule: joined.induct) simp_all

lemma length_quoted: "length (quoted w) = length w + 2"
  by (simp add: quoted_def)

definition query_word :: "string \<Rightarrow> bool" where
  "query_word w \<longleftrightarrow> 3 \<le> length w"

lemma lexical_loop_spec:
  assumes "length (joined ds) < cap"
  shows "\<exists>ds' t. lexical_loop cap (ds \<noteq> []) ws (joined ds) = (joined (ds @ ds') @ t, ds @ ds' \<noteq> []) \<and>
     prefix ds' (filter query_word ws) \<and> t \<in> {[], '' OR ''} \<and> length (joined (ds @ ds') @ t) < cap \<and>
     (length (joined ds) + (\<Sum>w \<leftarrow> filter query_word ws. length w + 6) + 24 < cap \<longrightarrow> ds' = filter query_word ws \<and> t = [])"
  using assms
proof (induction ws arbitrary: ds)
  case Nil
  then show ?case by (intro exI [of _ "[]"]) simp
next
  case (Cons w ws)
  let ?or = "if ds = [] then [] else '' OR ''"
  consider (full) "cap - length (joined ds) \<le> 24"
    | (short) "24 < cap - length (joined ds)" "\<not> query_word w"
    | (cut) "24 < cap - length (joined ds)" "query_word w" "cap - length (joined ds @ ?or) \<le> length w + 2"
    | (fits) "24 < cap - length (joined ds)" "query_word w" "length w + 2 < cap - length (joined ds @ ?or)"
    by (meson not_le)
  then show ?case
  proof cases
    case full
    then have "\<not> length (joined ds) + (\<Sum>w \<leftarrow> filter query_word (w # ws). length w + 6) + 24 < cap" by linarith
    then show ?thesis using full Cons.prems by (intro exI [of _ "[]"] exI [of _ "[]"]) (simp del: filter.simps)
  next
    case short
    then show ?thesis using Cons.IH [OF Cons.prems] by (simp add: query_word_def)
  next
    case cut
    then show ?thesis using Cons.prems
      by (intro exI [of _ "[]"] exI [of _ ?or]) (auto simp: query_word_def Let_def)
  next
    case fits
    let ?ds = "ds @ [w]"
    have step: "lexical_loop cap (ds \<noteq> []) (w # ws) (joined ds) = lexical_loop cap (?ds \<noteq> []) ws (joined ?ds)"
      using fits by (auto simp: query_word_def Let_def joined_snoc)
    have len: "length (joined ?ds) < cap" "length (joined ?ds) \<le> length (joined ds) + length w + 6"
      using fits by (auto simp: joined_snoc length_quoted)
    from Cons.IH [OF len(1)] obtain ds' t where IH: "lexical_loop cap (?ds \<noteq> []) ws (joined ?ds) = (joined (?ds @ ds') @ t, ?ds @ ds' \<noteq> [])"
      "prefix ds' (filter query_word ws)" "t \<in> {[], '' OR ''}" "length (joined (?ds @ ds') @ t) < cap"
      "length (joined ?ds) + (\<Sum>w \<leftarrow> filter query_word ws. length w + 6) + 24 < cap \<longrightarrow> ds' = filter query_word ws \<and> t = []"
      by blast
    show ?thesis
      unfolding step IH(1) using IH(2-5) fits(2) len(2)
      by (intro exI [of _ "w # ds'"] exI [of _ t]) auto
  qed
qed

text \<open>
  The query fits its buffer and consists of the first words of the turn with three or more
  characters, quoted and joined; it is all of them when the buffer has room.  A separator may
  be left at its end when a word does not fit.
\<close>

lemma lexical_query_spec:
  assumes "0 < cap"
  shows "\<exists>ds t. ed_build_lexical_query turn cap = (joined ds @ t, ds \<noteq> []) \<and>
     prefix ds (filter query_word (lead_words isalnum (\<lambda>c. isalnum c \<or> c = CHR ''_'') (cptr_str turn))) \<and>
     t \<in> {[], '' OR ''} \<and> length (joined ds @ t) < cap"
  using lexical_loop_spec [of "[]" cap "lead_words isalnum (\<lambda>c. isalnum c \<or> c = CHR ''_'') (cptr_str turn)"] assms
  by (auto simp: ed_build_lexical_query_def)

lemma lexical_query_complete:
  assumes "(\<Sum>w \<leftarrow> filter query_word (lead_words isalnum (\<lambda>c. isalnum c \<or> c = CHR ''_'') (cptr_str turn)). length w + 6) + 24 < cap"
  shows "fst (ed_build_lexical_query turn cap)
     = joined (filter query_word (lead_words isalnum (\<lambda>c. isalnum c \<or> c = CHR ''_'') (cptr_str turn)))"
  using lexical_loop_spec [of "[]" cap "lead_words isalnum (\<lambda>c. isalnum c \<or> c = CHR ''_'') (cptr_str turn)"] assms
  by (auto simp: ed_build_lexical_query_def)

lemma lexical_query_dangling:
  "lexical_loop 2048 False [replicate 2000 (CHR ''a''), replicate 45 (CHR ''b'')] []
     = (quoted (replicate 2000 (CHR ''a'')) @ '' OR '', True)"
  by (simp add: Let_def length_quoted)

text \<open>The order in which a contradiction is reported does not matter.\<close>

lemma contradiction_order_free:
  "a \<noteq> b \<Longrightarrow> memory_directive_record_contradiction cfg db a b topic entity ca cb session ms
     = memory_directive_record_contradiction cfg db b a topic entity cb ca session ms"
  by (auto simp: memory_directive_record_contradiction_def)

text \<open>A directive fits its row: no string is longer than its field, numbers survive a \<open>double\<close>.\<close>

definition directive_fits :: "directive_config \<Rightarrow> directive \<Rightarrow> bool" where
  "directive_fits cfg d \<longleftrightarrow>
     (\<forall>v \<in> {dir_id d, dir_priority d, dir_memory_a d, dir_memory_b d, dir_resolution d, dir_surfaced d}. dn_double cfg v = v) \<and>
     length (dir_question d) < dn_question_len cfg \<and> length (dir_topic d) < dn_topic_len cfg \<and>
     length (dir_entity d) < dn_anchor_len cfg \<and> length (dir_file d) < dn_anchor_len cfg \<and>
     length (dir_cause d) < dn_cause_len cfg \<and> length (dir_state d) < dn_state_len cfg \<and>
     length (dir_evidence d) < dn_evidence_len cfg \<and>
     (\<forall>t \<in> {dir_last_surfaced d, dir_resolved_at d, dir_valid_until d, dir_created_at d}. length t < dn_time_len cfg)"

end
