(* ===== verification/Recall.thy ===== *)
theory Recall
  imports Prospective Directives
begin

text \<open>
  Proactive recall (\<open>memory_recall\<close> of \<open>memory_context.c\<close>): the seven sections of the bundle, the
  trim to the token budget, the ids reported and the counters.

  The store's sections, the hard rules, the evidence log and cJSON's printer are the record
  \<open>recall_env\<close>; reminders and directives are those of their theories.  The bundle's sections are a
  list in the order of the bundle, which is the reverse of the order they are trimmed in.
\<close>

subsection \<open>Counters\<close>

record recall_metrics =
  rec_assemblies :: int
  rec_session_start :: int
  rec_ms_sum :: real
  rec_ms_max :: real

definition recall_metrics_record :: "real \<Rightarrow> bool \<Rightarrow> recall_metrics \<Rightarrow> recall_metrics" where
  "recall_metrics_record ms session_start m =
     m\<lparr>rec_assemblies := rec_assemblies m + 1,
       rec_session_start := rec_session_start m + (if session_start then 1 else 0),
       rec_ms_sum := rec_ms_sum m + ms, rec_ms_max := (if rec_ms_max m < ms then ms else rec_ms_max m)\<rparr>"

definition memory_recall_metrics :: "recall_metrics \<Rightarrow> int \<times> int \<times> real \<times> real" where
  "memory_recall_metrics m =
     (rec_assemblies m, rec_session_start m,
      if 0 < rec_assemblies m then rec_ms_sum m / real_of_int (rec_assemblies m) else 0, rec_ms_max m)"

subsection \<open>Rows\<close>

record cand_row =
  cr_id :: int
  cr_tier :: string
  cr_kind :: string
  cr_key :: string
  cr_content :: string

record rule_row =
  ru_id :: int
  ru_polarity :: string
  ru_title :: string
  ru_description :: string
  ru_weight :: int

datatype recall_section = RECALL_IDENTITY | RECALL_PREFERENCES | RECALL_ACTIVE | RECALL_COMMITMENTS

record ('r, 'd) recall_env =
  re_section :: "recall_section \<Rightarrow> nat \<Rightarrow> cand_row list"
  re_rules :: "nat \<Rightarrow> rule_row list"
  re_reminder_cfg :: reminder_config
  re_reminder_db :: "'r reminder_db"
  re_directive_cfg :: directive_config
  re_directive_db :: "'d directive_db"
  re_directive_open :: string
  re_print :: "cjson \<Rightarrow> cptr"
  re_double :: "int \<Rightarrow> int"
  re_limit_session :: int
  re_limit_turn :: int
  re_limit_min :: int
  re_limit_max :: int
  re_event_id :: "string \<Rightarrow> int list \<Rightarrow> string"

record ('r, 'd) recall_state =
  rs_reminders :: "reminder_metrics \<times> 'r"
  rs_directives :: "directive_metrics \<times> 'd"
  rs_metrics :: recall_metrics

definition row_json :: "('r, 'd) recall_env \<Rightarrow> int \<Rightarrow> string \<Rightarrow> string \<Rightarrow> string \<Rightarrow> string \<Rightarrow> string \<Rightarrow> cjson" where
  "row_json re i tier kind key content why =
     JObject [(''memory_id'', JNumber (re_double re i)), (''tier'', JString tier), (''kind'', JString kind),
              (''key'', JString key), (''text'', JString content), (''why'', JString why)]"

definition recall_fill_from_rows :: "('r, 'd) recall_env \<Rightarrow> cand_row list \<Rightarrow> cptr \<Rightarrow> nat \<Rightarrow> cjson list" where
  "recall_fill_from_rows re rows why max_rows =
     map (\<lambda>r. row_json re (cr_id r) (cr_tier r) (cr_kind r) (cr_key r) (cr_content r) (cptr_str why)) (take max_rows rows)"

definition recall_fill_identity :: "('r, 'd) recall_env \<Rightarrow> nat \<Rightarrow> cjson list" where
  "recall_fill_identity re mx =
     recall_fill_from_rows re (re_section re RECALL_IDENTITY (min mx 64)) (Some ''identity key prefix'') mx"

definition recall_fill_preferences :: "('r, 'd) recall_env \<Rightarrow> nat \<Rightarrow> cjson list" where
  "recall_fill_preferences re mx =
     recall_fill_from_rows re (re_section re RECALL_PREFERENCES (min mx 64)) (Some ''stable preference'') mx"

definition recall_fill_active_context :: "('r, 'd) recall_env \<Rightarrow> nat \<Rightarrow> cjson list" where
  "recall_fill_active_context re mx =
     recall_fill_from_rows re (re_section re RECALL_ACTIVE (min mx 64)) (Some ''recent active context'') mx"

definition recall_fill_open_commitments :: "('r, 'd) recall_env \<Rightarrow> nat \<Rightarrow> cjson list" where
  "recall_fill_open_commitments re mx =
     recall_fill_from_rows re (re_section re RECALL_COMMITMENTS (min mx 64)) (Some ''pending commitment'') mx"

definition recall_fill_reminders ::
    "('r, 'd) recall_env \<Rightarrow> real \<Rightarrow> cptr \<Rightarrow> nat \<Rightarrow> ('r, 'd) recall_state \<Rightarrow> cjson list \<times> ('r, 'd) recall_state" where
  "recall_fill_reminders re elapsed hint mx st =
     (let (rows, rm) = memory_prospective_match (re_reminder_cfg re) (re_reminder_db re) elapsed hint None None
                         (int (min mx (rn_max_matches (re_reminder_cfg re)))) (rs_reminders st)
      in (map (\<lambda>r. row_json re (rem_id r) [] ''reminder'' (rem_trigger r) (rem_action r) ''prospective matcher fired'') rows,
          st\<lparr>rs_reminders := rm\<rparr>))"

definition directive_json :: "('r, 'd) recall_env \<Rightarrow> directive \<Rightarrow> cjson" where
  "directive_json re d =
     row_json re (dir_id d) [] ''directive'' (dir_topic d) (dir_question d) (cbuf 64 (''directive:'' @ dir_cause d))"

text \<open>The sweep, the match by topic or the open ones, and the mark of every row that surfaces.\<close>

definition recall_fill_directives ::
    "('r, 'd) recall_env \<Rightarrow> real \<Rightarrow> cptr \<Rightarrow> nat \<Rightarrow> ('r, 'd) recall_state \<Rightarrow> cjson list \<times> ('r, 'd) recall_state" where
  "recall_fill_directives re elapsed hint mx st =
     (if mx = 0 then ([], st)
      else let cfg = re_directive_cfg re; db = re_directive_db re; cap = int (min mx (dn_max_matches cfg));
               ms1 = snd (memory_directive_sweep_expired db (rs_directives st));
               (matched, ms2) = (if nonempty hint then memory_directive_match cfg db elapsed hint None None cap ms1 else ([], ms1));
               rows = (if matched = [] then memory_directive_list db (Some (re_directive_open re)) None cap (snd ms2) else matched);
               ms3 = foldl (\<lambda>ms d. snd (memory_directive_mark_surfaced db (dir_id d) ms)) ms2 rows
           in (map (directive_json re) rows, st\<lparr>rs_directives := ms3\<rparr>))"

definition recall_fill_always_on_rules :: "('r, 'd) recall_env \<Rightarrow> nat \<Rightarrow> cjson list" where
  "recall_fill_always_on_rules re mx =
     map (\<lambda>r. JObject [(''id'', JNumber (re_double re (ru_id r))), (''polarity'', JString (ru_polarity r)),
             (''title'', JString (ru_title r)), (''description'', JString (ru_description r)), (''weight'', JNumber (ru_weight r))])
       (re_rules re (min mx 32))"

subsection \<open>The bundle and its trim\<close>

definition section_names :: "string list" where
  "section_names = [''always_on_rules'', ''identity'', ''preferences'', ''active_context'', ''open_commitments'', ''reminders'', ''directives'']"

definition bundle_of :: "bool \<Rightarrow> int \<Rightarrow> cjson list list \<Rightarrow> (string \<times> cjson) list" where
  "bundle_of session_start limit secs =
     [(''session_start'', JBool session_start), (''limit_tokens'', JNumber limit)] @ zip section_names (map JArray secs)"

definition recall_approx_tokens :: "('r, 'd) recall_env \<Rightarrow> cjson \<Rightarrow> int" where
  "recall_approx_tokens re j = (case re_print re j of None \<Rightarrow> 0 | Some s \<Rightarrow> (int (length s) + 3) div 4)"

text \<open>Rows leave a section from its end until the whole bundle fits.\<close>

function drop_rows :: "('a list \<Rightarrow> int) \<Rightarrow> int \<Rightarrow> 'a list \<Rightarrow> 'a list" where
  "drop_rows tokens limit xs = (if xs \<noteq> [] \<and> limit < tokens xs then drop_rows tokens limit (butlast xs) else xs)"
  by pat_completeness auto

termination drop_rows
  by (relation "measure (\<lambda>(_, _, xs). length xs)") simp_all

declare drop_rows.simps [simp del]

definition recall_truncate_section :: "('a list list \<Rightarrow> int) \<Rightarrow> int \<Rightarrow> 'a list list \<Rightarrow> nat \<Rightarrow> 'a list list" where
  "recall_truncate_section tokens limit secs i =
     (if limit \<le> 0 then secs else secs[i := drop_rows (\<lambda>xs. tokens (secs[i := xs])) limit (secs ! i)])"

definition trim_sections :: "('a list list \<Rightarrow> int) \<Rightarrow> int \<Rightarrow> 'a list list \<Rightarrow> 'a list list" where
  "trim_sections tokens limit secs = foldl (recall_truncate_section tokens limit) secs [6, 5, 4, 3, 2, 1, 0]"

definition recall_collect_ids :: "(string \<times> cjson) list \<Rightarrow> nat \<Rightarrow> int list" where
  "recall_collect_ids bundle mx =
     take mx (concat (map (\<lambda>name. case map_of bundle name of
         Some (JArray items) \<Rightarrow> concat (map (\<lambda>j. case json_get j ''memory_id'' of Some (JNumber v) \<Rightarrow> [v] | _ \<Rightarrow> []) items)
       | _ \<Rightarrow> [])
       [''identity'', ''preferences'', ''active_context'', ''open_commitments'', ''reminders'', ''directives'']))"

definition recall_limit :: "('r, 'd) recall_env \<Rightarrow> int \<Rightarrow> bool \<Rightarrow> int" where
  "recall_limit re limit session_start =
     (let l0 = (if limit \<le> 0 then if session_start then re_limit_session re else re_limit_turn re else limit);
          l1 = (if l0 < re_limit_min re then re_limit_min re else l0)
      in if re_limit_max re < l1 then re_limit_max re else l1)"

text \<open>The sections as they are filled, in the order of the bundle.\<close>

definition recall_sections ::
    "('r, 'd) recall_env \<Rightarrow> real \<Rightarrow> real \<Rightarrow> cptr \<Rightarrow> bool \<Rightarrow> ('r, 'd) recall_state \<Rightarrow> cjson list list \<times> ('r, 'd) recall_state" where
  "recall_sections re t1 t2 hint session_start st =
     (let cap = (\<lambda>a b. if session_start then a else b);
          (reminders, st1) = recall_fill_reminders re t1 hint (cap 5 3) st;
          (directives, st2) = recall_fill_directives re t2 hint (cap 5 2) st1
      in ([recall_fill_always_on_rules re (cap 16 8), recall_fill_identity re (cap 6 3), recall_fill_preferences re (cap 8 4),
           recall_fill_active_context re (cap 10 5), recall_fill_open_commitments re (cap 6 3), reminders, directives], st2))"

text \<open>
  What is added after the trim: the bundle's size, the elapsed time (a number node) and the id of
  the logged event.
\<close>

definition recall_closing ::
    "('r, 'd) recall_env \<Rightarrow> cptr \<Rightarrow> cjson \<Rightarrow> (string \<times> cjson) list \<Rightarrow> (string \<times> cjson) list" where
  "recall_closing re hint elapsed_node bundle =
     (let sized = [(''approx_tokens'', JNumber (recall_approx_tokens re (JObject bundle))), (''elapsed_ms'', elapsed_node)];
          event = re_event_id re (cptr_str hint) (recall_collect_ids (bundle @ sized) 256)
      in sized @ (if event \<noteq> [] then [(''retrieval_event_id'', JString event)] else []))"

definition memory_recall ::
    "('r, 'd) recall_env \<Rightarrow> real \<Rightarrow> real \<Rightarrow> real \<Rightarrow> cjson \<Rightarrow> cptr \<Rightarrow> int \<Rightarrow> bool \<Rightarrow> ('r, 'd) recall_state
     \<Rightarrow> cjson \<times> ('r, 'd) recall_state" where
  "memory_recall re t1 t2 elapsed elapsed_node hint limit session_start st =
     (let limit' = recall_limit re limit session_start;
          (filled, st1) = recall_sections re t1 t2 hint session_start st;
          tokens = (\<lambda>secs. recall_approx_tokens re (JObject (bundle_of session_start limit' secs)));
          bundle = bundle_of session_start limit' (trim_sections tokens limit' filled)
      in (JObject (bundle @ recall_closing re hint elapsed_node bundle),
          st1\<lparr>rs_metrics := recall_metrics_record elapsed session_start (rs_metrics st1)\<rparr>))"

subsection \<open>What the trim keeps\<close>

lemma drop_rows_spec:
  "prefix (drop_rows tokens limit xs) xs \<and> (drop_rows tokens limit xs = [] \<or> tokens (drop_rows tokens limit xs) \<le> limit) \<and>
   (tokens xs \<le> limit \<longrightarrow> drop_rows tokens limit xs = xs)"
proof (induction tokens limit xs rule: drop_rows.induct)
  case (1 tokens limit xs)
  show ?case
  proof (cases "xs \<noteq> [] \<and> limit < tokens xs")
    case True
    then have "drop_rows tokens limit xs = drop_rows tokens limit (butlast xs)" by (subst drop_rows.simps) simp
    then show ?thesis using 1 [OF True] True prefix_order.trans [OF _ prefixeq_butlast] by auto
  next
    case False
    have "drop_rows tokens limit xs = xs" by (subst drop_rows.simps, subst if_not_P [OF False]) (rule refl)
    then show ?thesis using False by auto
  qed
qed

text \<open>
  Truncating sections one after the other: every section keeps a prefix, the others stay, the
  bundle fits unless the truncated sections are all empty, and a section loses rows only when
  those truncated before it are empty.
\<close>

lemma truncate_fold:
  assumes "0 < limit" and "\<forall>i \<in> set is. i < length secs" and "distinct is"
  shows "let out = foldl (recall_truncate_section tokens limit) secs is in
     length out = length secs \<and> (\<forall>i. i \<notin> set is \<longrightarrow> out ! i = secs ! i) \<and>
     (\<forall>i \<in> set is. prefix (out ! i) (secs ! i)) \<and>
     (tokens out \<le> limit \<or> (\<forall>i \<in> set is. out ! i = [])) \<and>
     (\<forall>k < length is. out ! (is ! k) \<noteq> secs ! (is ! k) \<longrightarrow> (\<forall>j < k. out ! (is ! j) = []))"
  using assms(2,3)
proof (induction "is" rule: rev_induct)
  case (snoc i "is")
  define out where "out = foldl (recall_truncate_section tokens limit) secs is"
  have len: "length out = length secs" and other: "\<And>i. i \<notin> set is \<Longrightarrow> out ! i = secs ! i"
    and pre: "\<And>i. i \<in> set is \<Longrightarrow> prefix (out ! i) (secs ! i)"
    and fit: "tokens out \<le> limit \<or> (\<forall>i \<in> set is. out ! i = [])"
    and ord: "\<And>k j. k < length is \<Longrightarrow> out ! (is ! k) \<noteq> secs ! (is ! k) \<Longrightarrow> j < k \<Longrightarrow> out ! (is ! j) = []"
    using snoc.IH snoc.prems by (simp_all add: Let_def out_def)
  have i: "i \<notin> set is" "i < length out" using snoc.prems len by auto
  define row where "row = drop_rows (\<lambda>xs. tokens (out[i := xs])) limit (out ! i)"
  have out': "foldl (recall_truncate_section tokens limit) secs (is @ [i]) = out[i := row]"
    using assms(1) by (simp add: out_def [symmetric] recall_truncate_section_def row_def)
  have row: "prefix row (out ! i)" "row = [] \<or> tokens (out[i := row]) \<le> limit" "tokens out \<le> limit \<Longrightarrow> row = out ! i"
    using drop_rows_spec [of "\<lambda>xs. tokens (out[i := xs])" limit "out ! i"] by (simp_all add: row_def)
  have keep: "j \<in> set is \<Longrightarrow> out[i := row] ! j = out ! j" for j using i(1) by (metis nth_list_update_neq)
  have "tokens (out[i := row]) \<le> limit \<or> (\<forall>j \<in> set (is @ [i]). out[i := row] ! j = [])"
  proof (cases "tokens out \<le> limit")
    case True
    then show ?thesis using row(3) by simp
  next
    case False
    then have "\<forall>j \<in> set is. out[i := row] ! j = []" using fit keep by simp
    then show ?thesis using row(2) i(2) by auto
  qed
  moreover have "out[i := row] ! ((is @ [i]) ! j) = []"
    if k: "k < length (is @ [i])" "out[i := row] ! ((is @ [i]) ! k) \<noteq> secs ! ((is @ [i]) ! k)" and j: "j < k" for k j
  proof (cases "k < length is")
    case True
    then have "out ! (is ! k) \<noteq> secs ! (is ! k)" "is ! j \<in> set is" using k(2) j keep [of "is ! k"] by (simp_all add: nth_append)
    then show ?thesis using ord [OF True _ j] keep [of "is ! j"] True j by (simp add: nth_append)
  next
    case False
    then have "k = length is" using k(1) by simp
    then have "row \<noteq> out ! i" "j < length is" using k(2) j i other [OF i(1)] by simp_all
    then have "out ! (is ! j) = []" using row(3) fit by auto
    then show ?thesis using keep [of "is ! j"] \<open>j < length is\<close> by (simp add: nth_append)
  qed
  moreover have "prefix (out[i := row] ! j) (secs ! j)" if "j \<in> set (is @ [i])" for j
    using that row(1) i pre keep other [OF i(1)] by auto
  moreover have "out[i := row] ! j = secs ! j" if "j \<notin> set (is @ [i])" for j
    using that other by (auto simp: nth_list_update_neq)
  ultimately show ?case unfolding out' Let_def using len by auto
qed simp

lemma trim_sections_spec:
  assumes "0 < limit" and "length secs = 7"
  shows "length (trim_sections tokens limit secs) = 7"
    and "i < 7 \<Longrightarrow> prefix (trim_sections tokens limit secs ! i) (secs ! i)"
    and "tokens (trim_sections tokens limit secs) \<le> limit \<or> concat (trim_sections tokens limit secs) = []"
    and "i < j \<Longrightarrow> j < 7 \<Longrightarrow> trim_sections tokens limit secs ! i \<noteq> secs ! i \<Longrightarrow> trim_sections tokens limit secs ! j = []"
proof -
  let ?is = "[6, 5, 4, 3, 2, 1, 0] :: nat list"
  have st: "set ?is = {..<7}" and len7: "length ?is = 7" by auto
  have "\<forall>i \<in> set ?is. i < length secs" "distinct ?is" using assms(2) by auto
  note fold = truncate_fold [OF assms(1) this, of tokens, unfolded st len7 Let_def assms(2), folded trim_sections_def]
  have all: "length (trim_sections tokens limit secs) = 7"
    "\<forall>i \<in> {..<7}. prefix (trim_sections tokens limit secs ! i) (secs ! i)"
    "tokens (trim_sections tokens limit secs) \<le> limit \<or> (\<forall>i \<in> {..<7}. trim_sections tokens limit secs ! i = [])"
    "\<forall>k < 7. trim_sections tokens limit secs ! (?is ! k) \<noteq> secs ! (?is ! k) \<longrightarrow> (\<forall>j < k. trim_sections tokens limit secs ! (?is ! j) = [])"
    by (rule conjunct1 [OF fold] fold [THEN conjunct2, THEN conjunct2, THEN conjunct1]
        fold [THEN conjunct2, THEN conjunct2, THEN conjunct2, THEN conjunct1] fold [THEN conjunct2, THEN conjunct2, THEN conjunct2, THEN conjunct2])+
  show "length (trim_sections tokens limit secs) = 7" by (rule all(1))
  show "i < 7 \<Longrightarrow> prefix (trim_sections tokens limit secs ! i) (secs ! i)" using all(2) by simp
  show "tokens (trim_sections tokens limit secs) \<le> limit \<or> concat (trim_sections tokens limit secs) = []"
    using all(1,3) by (auto simp: concat_eq_Nil_conv in_set_conv_nth)
  have rv: "?is ! (6 - n) = n" if "n < 7" for n :: nat
    using that by (cases n rule: nat.exhaust; auto simp: less_Suc_eq numeral_eq_Suc)
  assume ij: "i < j" "j < 7" "trim_sections tokens limit secs ! i \<noteq> secs ! i"
  then have "trim_sections tokens limit secs ! (?is ! (6 - j)) = []"
    using all(4) [rule_format, of "6 - i" "6 - j"] rv [of i] by simp
  then show "trim_sections tokens limit secs ! j = []" using rv [OF ij(2)] by simp
qed

end
