(* ===== verification/Derive.thy ===== *)
theory Derive
  imports Context Temporal Sorts Rerank Json "HOL-Library.List_Lexorder" "HOL-Library.Monad_Syntax"
begin

text \<open>
  The rest of \<open>memory_context.c\<close> before the recall: compaction of the windows and the facts
  derived from the dates of what was retrieved.

  The window store and the relation table are outside the repository: \<open>window_db\<close> has one function
  per \<open>db1\<close> call over an abstract state, and the dates of a memory are an argument.  \<open>mktime\<close> depends
  on the time zone of the process and is an argument too; its error value is \<open>None\<close>.
\<close>

subsection \<open>Window compaction\<close>

record 's window_db =
  wd_complete :: bool
  wd_session :: "(int \<Rightarrow> 's \<Rightarrow> string option) option"
  wd_l2_count :: "string \<Rightarrow> 's \<Rightarrow> int"
  wd_list :: "string \<Rightarrow> int \<Rightarrow> nat \<Rightarrow> 's \<Rightarrow> int list"
  wd_prune_terms :: "int \<Rightarrow> int \<Rightarrow> 's \<Rightarrow> 's"
  wd_set_tier :: "int \<Rightarrow> string \<Rightarrow> 's \<Rightarrow> 's"
  wd_prune_files :: "int \<Rightarrow> int \<Rightarrow> 's \<Rightarrow> 's"
  wd_delete_files :: "int \<Rightarrow> 's \<Rightarrow> 's"

record compact_config =
  cp_summary_age :: int
  cp_fact_age :: int
  cp_summary_terms :: int
  cp_fact_terms :: int
  cp_keep_files :: int

definition window_has_l2_link :: "'s window_db \<Rightarrow> int \<Rightarrow> 's \<Rightarrow> bool" where
  "window_has_l2_link db w s \<longleftrightarrow>
     (case wd_session db of None \<Rightarrow> False
      | Some f \<Rightarrow> (case f w s of None \<Rightarrow> False | Some sid \<Rightarrow> sid \<noteq> [] \<and> 0 < wd_l2_count db (cbuf 128 sid) s))"

definition compute_keep_terms :: "'s window_db \<Rightarrow> int \<Rightarrow> int \<Rightarrow> 's \<Rightarrow> int" where
  "compute_keep_terms db w base_terms s = (if window_has_l2_link db w s then base_terms * 2 else base_terms)"

definition compact_raw :: "compact_config \<Rightarrow> 's window_db \<Rightarrow> 's \<Rightarrow> int \<Rightarrow> 's" where
  "compact_raw cfg db s w =
     wd_set_tier db w ''summary'' (wd_prune_terms db w (compute_keep_terms db w (cp_summary_terms cfg) s) s)"

definition compact_summary :: "compact_config \<Rightarrow> 's window_db \<Rightarrow> 's \<Rightarrow> int \<Rightarrow> 's" where
  "compact_summary cfg db s w =
     (let keep = compute_keep_terms db w (cp_fact_terms cfg) s;
          is_l2 = window_has_l2_link db w s;
          s1 = wd_prune_terms db w keep s;
          s2 = (if is_l2 then wd_prune_files db w (cp_keep_files cfg) s1 else wd_delete_files db w s1)
      in wd_set_tier db w ''fact'' s2)"

definition memory_compact_windows :: "compact_config \<Rightarrow> 's window_db \<Rightarrow> 's \<Rightarrow> nat \<times> nat \<times> 's" where
  "memory_compact_windows cfg db s =
     (if \<not> wd_complete db then (0, 0, s)
      else let raw = wd_list db ''raw'' (cp_summary_age cfg) 500 s;
               s1 = foldl (compact_raw cfg db) s raw;
               summaries = wd_list db ''summary'' (cp_fact_age cfg) 500 s1
           in (length raw, length summaries, foldl (compact_summary cfg db) s1 summaries))"

subsection \<open>Dates\<close>

text \<open>One \<open>%d\<close> of \<open>sscanf\<close>, with what it leaves.\<close>

definition scan_int_rest :: "string \<Rightarrow> (int \<times> string) option" where
  "scan_int_rest s =
     (let t = dropWhile isspace s;
          u = (if t \<noteq> [] \<and> (hd t = CHR ''-'' \<or> hd t = CHR ''+'') then tl t else t)
      in map_option (\<lambda>v. (v, dropWhile isdigit u)) (scan_int s))"

definition scan_dash :: "string \<Rightarrow> string option" where
  "scan_dash s = (case s of c # cs \<Rightarrow> if c = CHR ''-'' then Some cs else None | [] \<Rightarrow> None)"

definition scan_ymd :: "string \<Rightarrow> (int \<times> int \<times> int) option" where
  "scan_ymd s =
     do { (y, r1) \<leftarrow> scan_int_rest s; r2 \<leftarrow> scan_dash r1; (m, r3) \<leftarrow> scan_int_rest r2; r4 \<leftarrow> scan_dash r3;
          d \<leftarrow> scan_int r4; Some (y, m, d) }"

definition parse_iso8601_date :: "cptr \<Rightarrow> (int \<times> int \<times> int) option" where
  "parse_iso8601_date s =
     (if \<not> nonempty s then None
      else case scan_ymd (cptr_str s) of None \<Rightarrow> None
           | Some (y, m, d) \<Rightarrow> if y < 1900 \<or> m < 1 \<or> 12 < m \<or> d < 1 \<or> 31 < d then None else Some (y, m, d))"

text \<open>Division of C, towards zero.\<close>

definition day_quotient :: "int \<Rightarrow> int" where
  "day_quotient x = (if x < 0 then - ((- x) div 86400) else x div 86400)"

definition days_between :: "(int \<times> int \<times> int \<Rightarrow> int option) \<Rightarrow> cptr \<Rightarrow> cptr \<Rightarrow> int option" where
  "days_between mktime earlier later =
     do { a \<leftarrow> parse_iso8601_date earlier; b \<leftarrow> parse_iso8601_date later; ta \<leftarrow> mktime a; tb \<leftarrow> mktime b;
          Some (day_quotient (tb - ta)) }"

subsection \<open>Derived facts\<close>

record derive_config =
  dv_enabled :: bool
  dv_max_facts :: nat
  dv_label_size :: nat
  dv_value_size :: nat
  dv_mktime :: "int \<times> int \<times> int \<Rightarrow> int option"
  dv_today :: int

definition collect_dates :: "(int \<Rightarrow> string list) \<Rightarrow> int list \<Rightarrow> string list" where
  "collect_dates rows ids = take 256 (concat (map (\<lambda>i. map (cbuf 32) (take 64 (rows i))) ids))"

text \<open>The dates in the order of \<open>strcmp\<close>, by exchange.\<close>

definition date_step :: "nat \<Rightarrow> string list \<Rightarrow> nat \<Rightarrow> string list" where
  "date_step i ds j = (if 0 < strcmp (ds ! i) (ds ! j) then swap_rows i j ds else ds)"

definition sort_dates :: "string list \<Rightarrow> string list" where
  "sort_dates ds = foldl (\<lambda>ds i. foldl (date_step i) ds [i + 1..<length ds]) ds [0..<length ds - 1]"

definition derived :: "derive_config \<Rightarrow> string \<Rightarrow> string \<Rightarrow> string \<times> string" where
  "derived cfg label v = (cbuf (dv_label_size cfg) label, cbuf (dv_value_size cfg) v)"

definition add_fact :: "derive_config \<Rightarrow> string \<Rightarrow> string \<Rightarrow> (string \<times> string) list \<Rightarrow> (string \<times> string) list" where
  "add_fact cfg label v out = (if length out < dv_max_facts cfg then out @ [derived cfg label v] else out)"

definition date_gaps :: "derive_config \<Rightarrow> string list \<Rightarrow> int list" where
  "date_gaps cfg ds =
     concat (map (\<lambda>i. case days_between (dv_mktime cfg) (Some (ds ! i)) (Some (ds ! (i + 1))) of None \<Rightarrow> [] | Some g \<Rightarrow> [\<bar>g\<bar>])
       [0..<length ds - 1])"

definition gap_facts :: "derive_config \<Rightarrow> int list \<Rightarrow> (string \<times> string) list \<Rightarrow> (string \<times> string) list" where
  "gap_facts cfg gaps out =
     (if gaps \<noteq> [] \<and> length out + 2 < dv_max_facts cfg
      then out @ [derived cfg ''Gap between events (min/max)''
                    (decimal (fold min (tl gaps) (hd gaps)) @ '' / '' @ decimal (fold max (tl gaps) (hd gaps)) @ '' days''),
                  derived cfg ''Average gap between events'' (decimal (sum_list gaps div int (length gaps)) @ '' days'')]
      else out)"

definition today_text :: "int \<Rightarrow> string" where
  "today_text n = (case utc_date n of (y, m, d) \<Rightarrow> cbuf 32 (pad 4 y @ ''-'' @ pad 2 m @ ''-'' @ pad 2 d))"

definition interval_facts :: "derive_config \<Rightarrow> string list \<Rightarrow> (string \<times> string) list" where
  "interval_facts cfg dates =
     (let ds = sort_dates dates;
          latest = ds ! (length ds - 1);
          out1 = add_fact cfg ''Most recent event date'' latest [];
          out2 = (case days_between (dv_mktime cfg) (Some latest) (Some (today_text (dv_today cfg))) of None \<Rightarrow> out1
                  | Some delta \<Rightarrow> add_fact cfg ''Days since most recent event'' (decimal \<bar>delta\<bar> @ '' days'') out1)
      in gap_facts cfg (date_gaps cfg ds) out2)"

definition memory_derive_facts ::
    "derive_config \<Rightarrow> (int \<Rightarrow> string list) \<Rightarrow> cptr \<Rightarrow> int list \<Rightarrow> (string \<times> string) list" where
  "memory_derive_facts cfg rows query ids =
     (if \<not> dv_enabled cfg \<or> query = None \<or> ids = [] then []
      else let dates = collect_dates rows ids
           in case memory_classify_deriver_shape query of
                DERIVE_UNKNOWN \<Rightarrow> []
              | DERIVE_QUANTITATIVE \<Rightarrow>
                  let unique = length (remdups dates)
                  in add_fact cfg ''Event count (from retrieved evidence)''
                       (decimal (int (if 0 < unique then unique else length ids))) []
              | DERIVE_INTERVAL \<Rightarrow> if dates = [] then [] else interval_facts cfg dates)"

definition memory_derived_facts_to_json :: "(cjson \<Rightarrow> cptr) \<Rightarrow> (string \<times> string) list \<Rightarrow> cptr" where
  "memory_derived_facts_to_json print facts =
     (if facts = [] then None
      else print (JObject [(''derived_facts'',
        JArray (map (\<lambda>(l, v). JObject [(''label'', JString l), (''value'', JString v)]) facts))]))"

subsection \<open>The sort of the dates\<close>

text \<open>
  Over the key of negated codes with a terminator, whose order is the reverse of \<open>strcmp\<close>'s, the
  sort of the dates is the exchange sort; the facts about that sort apply.
\<close>

definition date_key :: "string \<Rightarrow> int list" where
  "date_key s = map (\<lambda>c. - int (code c)) s @ [0]"

lemma code_inj: "code c = code d \<longleftrightarrow> c = d"
  by (metis char_of_char)

lemma code_pos: "c \<noteq> NUL \<Longrightarrow> 0 < code c"
  by (metis code_NUL code_inj gr0I)

lemma strcmp_key:
  assumes "cstring s" and "cstring t"
  shows "0 < strcmp s t \<longleftrightarrow> date_key s < date_key t"
  using assms
  by (induction s t rule: strcmp.induct) (auto simp: date_key_def code_inj not_less le_less dest: code_pos)

lemma date_step_exchange:
  assumes "\<forall>d \<in> set ds. cstring d" and "i < length ds" and "j < length ds"
  shows "date_step i ds j = exchange_step date_key i ds j"
  using assms by (simp add: date_step_def exchange_step_def strcmp_key)

lemma date_pass_exchange:
  assumes "\<forall>d \<in> set ds. cstring d" and "i < length ds"
  shows "foldl (date_step i) ds [i + 1..<length ds] = exchange_pass date_key ds i"
proof -
  have "foldl (date_step i) ds js = foldl (exchange_step date_key i) ds js"
    if "\<forall>d \<in> set ds. cstring d" "i < length ds" "\<forall>j \<in> set js. j < length ds" for ds js
    using that
  proof (induction js arbitrary: ds)
    case (Cons j js)
    have "mset (exchange_step date_key i ds j) = mset ds" using Cons.prems by (simp add: exchange_step_mset)
    then have "set (exchange_step date_key i ds j) = set ds" by (rule mset_eq_setD)
    then show ?case using Cons.prems Cons.IH [of "exchange_step date_key i ds j"] by (simp add: date_step_exchange)
  qed simp
  then show ?thesis using assms by (simp add: exchange_pass_def)
qed

lemmas date_pass_exchange_Suc = date_pass_exchange [simplified]

lemma sort_dates_exchange:
  assumes "\<forall>d \<in> set ds. cstring d"
  shows "sort_dates ds = exchange_sort date_key ds"
proof -
  have "foldl (\<lambda>ds i. foldl (date_step i) ds [i + 1..<length ds]) ds is = foldl (exchange_pass date_key) ds is"
    if "\<forall>d \<in> set ds. cstring d" "\<forall>i \<in> set is. i < length ds" for ds "is"
    using that
  proof (induction "is" arbitrary: ds)
    case (Cons i "is")
    have i: "i < length ds" using Cons.prems by simp
    note pass = exchange_pass_scan(1,2) [OF i, where key = date_key]
    have "set (exchange_pass date_key ds i) = set ds" by (rule mset_eq_setD [OF pass(2)])
    then show ?case using Cons.prems Cons.IH [of "exchange_pass date_key ds i"] pass(1) by (simp add: date_pass_exchange_Suc)
  qed simp
  moreover have "\<forall>i \<in> set [0..<length ds - 1]. i < length ds" by auto
  ultimately show ?thesis using assms unfolding sort_dates_def exchange_sort_def by blast
qed

lemma latest_date:
  assumes "\<forall>d \<in> set ds. cstring d" and "ds \<noteq> []"
  shows "sort_dates ds ! (length ds - 1) \<in> set ds"
    and "d \<in> set ds \<Longrightarrow> strcmp d (sort_dates ds ! (length ds - 1)) \<le> 0"
proof -
  let ?l = "sort_dates ds ! (length ds - 1)"
  have len: "length (sort_dates ds) = length ds" and st: "set (sort_dates ds) = set ds"
    by (simp_all add: sort_dates_exchange [OF assms(1)] exchange.length_srt exchange.set_srt)
  have last: "length ds - 1 < length ds" using assms(2) by simp
  show l: "?l \<in> set ds" using nth_mem [of "length ds - 1" "sort_dates ds"] len st last by simp
  assume d: "d \<in> set ds"
  then obtain i where i: "i < length ds" "sort_dates ds ! i = d" using len st by (metis in_set_conv_nth)
  have "date_key ?l \<le> date_key d"
    using exchange.srt_mono [of i "length ds - 1" ds, where key = date_key] i last
    by (simp add: sort_dates_exchange [OF assms(1)])
  then show "strcmp d ?l \<le> 0" using strcmp_key [of d ?l] assms(1) d l by auto
qed

text \<open>The gaps lie between the smallest and the largest, and so does their mean.\<close>

lemma mean_between:
  fixes gs :: "int list"
  assumes "gs \<noteq> []"
  shows "fold min (tl gs) (hd gs) \<le> sum_list gs div int (length gs)" and "sum_list gs div int (length gs) \<le> fold max (tl gs) (hd gs)"
proof -
  have lo: "fold min xs a \<le> a \<and> (\<forall>x \<in> set xs. fold min xs a \<le> x)" for xs and a :: int
  proof (induction xs arbitrary: a)
    case (Cons x xs)
    from Cons.IH [of "min x a"] show ?case by simp
  qed simp
  have hi: "a \<le> fold max xs a \<and> (\<forall>x \<in> set xs. x \<le> fold max xs a)" for xs and a :: int
  proof (induction xs arbitrary: a)
    case (Cons x xs)
    from Cons.IH [of "max x a"] show ?case by simp
  qed simp
  obtain g gs' where gs: "gs = g # gs'" using assms by (cases gs) auto
  have bounds: "\<forall>x \<in> set gs. fold min (tl gs) (hd gs) \<le> x \<and> x \<le> fold max (tl gs) (hd gs)"
    using lo hi by (simp add: gs)
  have sums: "m * int (length xs) \<le> sum_list xs \<and> sum_list xs \<le> k * int (length xs)"
    if "\<forall>x \<in> set xs. m \<le> x \<and> x \<le> k" for m k and xs :: "int list"
    using that by (induction xs) (auto simp: algebra_simps)
  have n: "0 < int (length gs)" by (simp add: gs)
  show "fold min (tl gs) (hd gs) \<le> sum_list gs div int (length gs)" and "sum_list gs div int (length gs) \<le> fold max (tl gs) (hd gs)"
    using zdiv_mono1 [OF conjunct1 [OF sums [OF bounds]] n] zdiv_mono1 [OF conjunct2 [OF sums [OF bounds]] n] n by simp_all
qed

end
