(* ===== verification/Recall_Properties.thy ===== *)
theory Recall_Properties
  imports Recall Derive
begin

text \<open>
  Properties of proactive recall, of the reminders and directives it surfaces and of the facts
  derived from dates.
\<close>

subsection \<open>The bundle\<close>

lemma recall_limit_pos:
  assumes "0 < re_limit_min re" and "re_limit_min re \<le> re_limit_max re"
  shows "0 < recall_limit re limit session_start" and "recall_limit re limit session_start \<le> re_limit_max re"
  using assms by (simp_all add: recall_limit_def Let_def)

lemma bundle_section:
  assumes "length secs = 7" and "i < 7"
  shows "map_of (bundle_of b limit secs @ rest) (section_names ! i) = Some (JArray (secs ! i))"
proof -
  obtain a0 a1 a2 a3 a4 a5 a6 where secs: "secs = [a0, a1, a2, a3, a4, a5, a6]"
    using assms(1) by (auto simp: numeral_eq_Suc length_Suc_conv)
  have "i \<in> {0, 1, 2, 3, 4, 5, 6}" using assms(2) by auto
  then show ?thesis by (auto simp: bundle_of_def section_names_def secs)
qed

lemma recall_sections_7: "length (fst (recall_sections re t1 t2 hint b st)) = 7"
  by (simp add: recall_sections_def Let_def split: prod.split)

text \<open>
  C12. Recall keeps to its budget by priority.  Each section of the bundle is the beginning of what was
  filled in; before the closing counters are added the bundle fits the limit of the request, or
  every section is empty; and a section loses a row only when all sections of lower priority are
  empty: rules before identity, preferences, context, commitments, reminders and directives.
\<close>

theorem recall_trims_by_priority:
  assumes "0 < re_limit_min re" and "re_limit_min re \<le> re_limit_max re"
  shows "\<exists>ms kept. fst (memory_recall re t1 t2 elapsed node hint limit session_start st) = JObject ms \<and>
     (let filled = fst (recall_sections re t1 t2 hint session_start st);
          limit' = recall_limit re limit session_start
      in 0 < limit' \<and> limit' \<le> re_limit_max re \<and>
         (\<forall>i < 7. map_of ms (section_names ! i) = Some (JArray (kept ! i)) \<and> prefix (kept ! i) (filled ! i)) \<and>
         (recall_approx_tokens re (JObject (bundle_of session_start limit' kept)) \<le> limit' \<or> (\<forall>i < 7. kept ! i = [])) \<and>
         (\<forall>i j. i < j \<longrightarrow> j < 7 \<longrightarrow> kept ! i \<noteq> filled ! i \<longrightarrow> kept ! j = []))"
proof -
  let ?filled = "fst (recall_sections re t1 t2 hint session_start st)"
  let ?l = "recall_limit re limit session_start"
  let ?tok = "\<lambda>secs. recall_approx_tokens re (JObject (bundle_of session_start ?l secs))"
  define kept where "kept = trim_sections ?tok ?l ?filled"
  note l = recall_limit_pos [OF assms, of limit session_start]
  have "length ?filled = 7" by (rule recall_sections_7)
  note spec = trim_sections_spec [where tokens = ?tok, OF l(1) this, folded kept_def]
  let ?rest = "recall_closing re hint node (bundle_of session_start ?l kept)"
  have r: "fst (memory_recall re t1 t2 elapsed node hint limit session_start st) = JObject (bundle_of session_start ?l kept @ ?rest)"
    by (cases "recall_sections re t1 t2 hint session_start st") (simp add: memory_recall_def Let_def kept_def)
  have "?tok kept \<le> ?l \<or> (\<forall>i < 7. kept ! i = [])"
    using spec(1,3) by (auto simp: concat_eq_Nil_conv)
  then show ?thesis
    unfolding Let_def using r l spec(2,4) bundle_section [OF spec(1)]
    by (intro exI [of _ "bundle_of session_start ?l kept @ ?rest"] exI [of _ kept]) simp
qed

text \<open>A small environment: one identity row and one open directive.\<close>

definition sample_directive :: directive where
  "sample_directive =
     \<lparr>dir_id = 7, dir_question = ''which port'', dir_topic = ''dns'', dir_entity = [], dir_file = [], dir_cause = ''user_follow_up'',
      dir_priority = 60, dir_state = ''open'', dir_memory_a = 0, dir_memory_b = 0, dir_resolution = 0, dir_evidence = [],
      dir_surfaced = 0, dir_last_surfaced = [], dir_resolved_at = [], dir_valid_until = [], dir_created_at = ''2026-01-01''\<rparr>"

definition sample_directive_config :: directive_config where
  "sample_directive_config =
     \<lparr>dn_contradiction = ''contradiction'', dn_retrieval_failure = ''retrieval_failure'', dn_missing_config = ''missing_config'',
      dn_follow_up = ''user_follow_up'', dn_max_matches = 8, dn_anchor_len = 256, dn_question_len = 512, dn_evidence_len = 512,
      dn_topic_len = 256, dn_cause_len = 32, dn_state_len = 16, dn_time_len = 32, dn_threshold = 3,
      dn_lower_copy = (\<lambda>s n. cbuf n (map tolower s)), dn_double = (\<lambda>v. v)\<rparr>"

definition sample_directive_db :: "unit directive_db" where
  "sample_directive_db =
     \<lparr>dd_get = (\<lambda>_ _. None), dd_insert = (\<lambda>_ s. (Existed, s)), dd_list = (\<lambda>_ _ _ _. [sample_directive]), dd_counts = (\<lambda>_. None),
      dd_resolve = (\<lambda>_ _ s. (False, s)), dd_suppress = (\<lambda>_ s. (False, s)), dd_sweep = (\<lambda>s. (0, s)), dd_by_entity = (\<lambda>_ _ _. []),
      dd_by_file = (\<lambda>_ _ _. []), dd_by_lexical = (\<lambda>_ _ _. []), dd_surface = (\<lambda>_ s. (True, s)), dd_bump = (\<lambda>_ s. (1, s)),
      dd_find = (\<lambda>_ _ _. None), dd_resolve_pair = (\<lambda>_ _ _ s. (0, s))\<rparr>"

definition sample_reminder :: "int \<Rightarrow> string \<Rightarrow> reminder" where
  "sample_reminder i t = \<lparr>rem_id = i, rem_trigger = t, rem_action = ''rotate the key'', rem_recurrence = ''once'', rem_state = ''armed'', rem_count = 0\<rparr>"

definition sample_reminder_config :: reminder_config where
  "sample_reminder_config =
     \<lparr>rn_once = ''once'', rn_repeat = ''repeat'', rn_armed = ''armed'', rn_completed = ''completed'', rn_expired = ''expired'',
      rn_max_matches = 8, rn_anchor_len = 256, rn_trigger_len = 512, rn_lower_copy = (\<lambda>s n. cbuf n (map tolower s))\<rparr>"

text \<open>Two armed reminders, of which the words of a turn find the first.\<close>

definition sample_reminder_db :: "unit reminder_db" where
  "sample_reminder_db =
     \<lparr>rd_insert = (\<lambda>_ _ _ _ _ _ _ s. (0, s)), rd_get = (\<lambda>_ _. None), rd_list = (\<lambda>_ _ _. []), rd_set_state = (\<lambda>_ _ s. (False, s)),
      rd_record_trigger = (\<lambda>_ _ s. (False, s)), rd_sweep = (\<lambda>s. (0, s)), rd_by_entity = (\<lambda>_ _ _. []), rd_by_file = (\<lambda>_ _ _. []),
      rd_by_terms = (\<lambda>_ _ _. [sample_reminder 1 ''key'']),
      rd_armed = (\<lambda>_ _. [sample_reminder 1 ''key'', sample_reminder 2 ''key rotation''])\<rparr>"

definition sample_recall :: "(unit, unit) recall_env" where
  "sample_recall =
     \<lparr>re_section = (\<lambda>sec n. if sec = RECALL_IDENTITY
        then [\<lparr>cr_id = 3, cr_tier = ''L2'', cr_kind = ''fact'', cr_key = ''name'', cr_content = ''Ada''\<rparr>] else []),
      re_rules = (\<lambda>_. []), re_reminder_cfg = sample_reminder_config, re_reminder_db = sample_reminder_db,
      re_directive_cfg = sample_directive_config, re_directive_db = sample_directive_db, re_directive_open = ''open'',
      re_print = (\<lambda>j. Some (if json_get j ''directives'' = Some (JArray []) then [] else replicate 8000 (CHR ''x''))),
      re_double = (\<lambda>v. v), re_limit_session = 1500, re_limit_turn = 600, re_limit_min = 100, re_limit_max = 4000,
      re_event_id = (\<lambda>_ _. [])\<rparr>"

definition sample_recall_state :: "(unit, unit) recall_state" where
  "sample_recall_state =
     \<lparr>rs_reminders = (no_reminder_metrics, ()),
      rs_directives = (\<lparr>dm_created = 0, dm_resolved = 0, dm_expired = 0, dm_surfaced = 0, dm_calls = 0, dm_ms_sum = 0, dm_ms_max = 0\<rparr>, ()),
      rs_metrics = \<lparr>rec_assemblies = 0, rec_session_start = 0, rec_ms_sum = 0, rec_ms_max = 0\<rparr>\<rparr>"

lemmas recall_sample_simps = sample_recall_def sample_recall_state_def sample_reminder_config_def sample_reminder_db_def
  sample_directive_config_def sample_directive_db_def

lemma sample_filled:
  "fst (recall_sections sample_recall 0 0 None True sample_recall_state)
     = [[], [row_json sample_recall 3 ''L2'' ''fact'' ''name'' ''Ada'' ''identity key prefix''], [], [], [], [],
        [directive_json sample_recall sample_directive]]"
proof -
  have "turn_stems [] = []" by code_simp
  then show ?thesis
    by (simp add: recall_sections_def recall_fill_reminders_def recall_fill_directives_def memory_prospective_match_def
        memory_prospective_sweep_expired_def match_stages_def run_stages_def stage_def recall_fill_always_on_rules_def
        recall_fill_identity_def recall_fill_preferences_def recall_fill_active_context_def recall_fill_open_commitments_def
        recall_fill_from_rows_def memory_directive_sweep_expired_def memory_directive_list_def recall_sample_simps
        row_json_def directive_json_def stem_rows_def Let_def)
qed

theorem recall_trims_by_priority_witness:
  "\<exists>ms identity directives. fst (memory_recall sample_recall 0 0 0 JNull None 0 True sample_recall_state) = JObject ms \<and>
     map_of ms ''identity'' = Some (JArray identity) \<and> length identity \<le> 1 \<and> map_of ms ''directives'' = Some (JArray directives) \<and>
     prefix directives [directive_json sample_recall sample_directive]"
proof -
  have "0 < re_limit_min sample_recall" "re_limit_min sample_recall \<le> re_limit_max sample_recall" by (simp_all add: sample_recall_def)
  from recall_trims_by_priority [OF this, of 0 0 0 JNull None 0 True sample_recall_state] obtain ms kept
    where ms: "fst (memory_recall sample_recall 0 0 0 JNull None 0 True sample_recall_state) = JObject ms"
      and secs: "\<forall>i < 7. map_of ms (section_names ! i) = Some (JArray (kept ! i)) \<and>
        prefix (kept ! i) (fst (recall_sections sample_recall 0 0 None True sample_recall_state) ! i)" unfolding Let_def by blast
  from secs [rule_format, of 1] secs [rule_format, of 6] show ?thesis
    using ms by (intro exI [of _ ms] exI [of _ "kept ! 1"] exI [of _ "kept ! 6"])
      (auto simp: section_names_def sample_filled dest: prefix_length_le)
qed

text \<open>
  A directive is marked as surfaced when its row is made, before the trim: here the one directive
  is dropped from the bundle and counted as surfaced.
\<close>

lemma surfaced_but_trimmed:
  "\<exists>ms st'. memory_recall sample_recall 0 0 0 JNull None 0 True sample_recall_state = (JObject ms, st') \<and>
     map_of ms ''directives'' = Some (JArray []) \<and> dm_surfaced (fst (rs_directives st')) = 1"
proof -
  obtain filled st1 where f: "recall_sections sample_recall 0 0 None True sample_recall_state = (filled, st1)" by (rule prod.exhaust)
  let ?l = "recall_limit sample_recall 0 True"
  let ?tok = "\<lambda>secs. recall_approx_tokens sample_recall (JObject (bundle_of True ?l secs))"
  let ?kept = "trim_sections ?tok ?l filled"
  have l: "?l = 1500" by (simp add: recall_limit_def sample_recall_def)
  have filled: "filled = [[], [row_json sample_recall 3 ''L2'' ''fact'' ''name'' ''Ada'' ''identity key prefix''], [], [], [], [],
      [directive_json sample_recall sample_directive]]"
    using sample_filled f by simp
  have fit: "?tok ?kept \<le> ?l \<or> concat ?kept = []" and k7: "length ?kept = 7"
    using trim_sections_spec [where limit = ?l and secs = filled and tokens = ?tok] l filled by simp_all
  have "map_of (bundle_of True ?l ?kept @ []) (section_names ! 6) = Some (JArray (?kept ! 6))"
    by (rule bundle_section [OF k7]) simp
  then have d: "map_of (bundle_of True ?l ?kept) ''directives'' = Some (JArray (?kept ! 6))" by (simp add: section_names_def)
  have empty: "?kept ! 6 = []"
  proof (rule ccontr)
    assume ne: "?kept ! 6 \<noteq> []"
    then have "concat ?kept \<noteq> []" using k7 nth_mem [of 6 ?kept] by (auto simp: concat_eq_Nil_conv)
    moreover have "?tok ?kept = 2000" using d ne by (simp add: recall_approx_tokens_def sample_recall_def)
    ultimately show False using fit l by simp
  qed
  have surfaced: "dm_surfaced (fst (rs_directives st1)) = 1"
  proof -
    have "turn_stems [] = []" by code_simp
    then have "snd (recall_sections sample_recall 0 0 None True sample_recall_state) = st1
        \<Longrightarrow> dm_surfaced (fst (rs_directives st1)) = 1"
      by (auto simp: recall_sections_def recall_fill_reminders_def recall_fill_directives_def memory_prospective_match_def
          memory_prospective_sweep_expired_def memory_directive_sweep_expired_def memory_directive_list_def
          memory_directive_mark_surfaced_def recall_sample_simps sample_directive_def Let_def)
    then show ?thesis using f by simp
  qed
  show ?thesis
    using d empty surfaced by (simp add: memory_recall_def f Let_def)
qed

subsection \<open>Reminders and directives\<close>

text \<open>
  C18. The reminders a turn brings up: each once, at most \<open>max\<close>, and only rows one of the four stages
  may add - the entity's and the file's, those of the turn's words, and the armed ones that share a
  stem with the turn - as the table is after the sweep of expired reminders.  While there is room
  nothing is missed: every row of every stage whose argument is given is among them.
\<close>

theorem reminders_matched:
  assumes "0 < mx" and "nat mx \<le> rn_max_matches cfg"
    and "memory_prospective_match cfg db elapsed turn entity path mx (m, s) = (rows, m', s')"
  shows "s' = snd (rd_sweep db s) \<and> distinct (map rem_id rows) \<and> length rows \<le> nat mx \<and>
     set rows \<subseteq> \<Union> (match_sources cfg db turn entity path (nat mx) s') \<and>
     (length rows < nat mx \<longrightarrow> rem_id ` \<Union> (match_sources cfg db turn entity path (nat mx) s') \<subseteq> rem_id ` set rows) \<and>
     rm_calls m' = rm_calls m + 1"
proof -
  obtain n s1 where sweep: "rd_sweep db s = (n, s1)" by (rule prod.exhaust)
  then have r: "rows = fst (match_stages cfg db turn entity path (nat mx) s1)" "s' = s1" "rm_calls m' = rm_calls m + 1"
    using assms(1,3) by (auto simp: memory_prospective_match_def memory_prospective_sweep_expired_def pm_metrics_record_match_def)
  note ok = match_stages_ok [OF assms(2), where db = db and turn = turn and entity = entity and path = path and s = s1]
  have "distinct (map rem_id rows)" "length rows \<le> nat mx" using ok(1) by (auto simp: merging_def r)
  moreover have "rem_id ` \<Union> (match_sources cfg db turn entity path (nat mx) s1) \<subseteq> rem_id ` set rows"
    if "length rows < nat mx"
    using ok(3) that unfolding r by blast
  ultimately show ?thesis using ok(2) sweep r by simp
qed

theorem reminders_matched_witness:
  "\<exists>rows m'. memory_prospective_match sample_reminder_config sample_reminder_db 0 (Some ''the key rotates'') None None 8
       (no_reminder_metrics, ()) = (rows, m', ()) \<and> distinct (map rem_id rows) \<and> rm_calls m' = 1"
proof -
  obtain rows m' s' where r: "memory_prospective_match sample_reminder_config sample_reminder_db 0 (Some ''the key rotates'') None None 8
       (no_reminder_metrics, ()) = (rows, m', s')" by (metis prod.exhaust)
  have "nat 8 \<le> rn_max_matches sample_reminder_config" by (simp add: sample_reminder_config_def)
  from reminders_matched [OF _ this r] show ?thesis using r by (auto simp: no_reminder_metrics_def)
qed

text \<open>
  C20. A directive survives its JSON form: written and read back it is the same, field by field, when
  its strings fit their fields and its numbers are exact as \<open>double\<close>s.
\<close>

theorem directive_json_round_trip:
  assumes "directive_fits cfg d"
  shows "memory_directive_from_json cfg (memory_directive_to_json cfg d) = Some d"
proof -
  note fit = assms [unfolded directive_fits_def, simplified]
  show ?thesis
    by (simp add: memory_directive_from_json_def memory_directive_to_json_def json_int_def int_or_zero_def djson_copy_str_def
        json_text_def cbuf_fits fit Let_def)
qed

theorem directive_json_round_trip_witness:
  "memory_directive_from_json sample_directive_config (memory_directive_to_json sample_directive_config sample_directive)
     = Some sample_directive"
proof -
  have "directive_fits sample_directive_config sample_directive"
    by (simp add: directive_fits_def sample_directive_config_def sample_directive_def)
  then show ?thesis by (rule directive_json_round_trip)
qed

end
