(* ===== verification/Crud.thy ===== *)
theory Crud
  imports Ranking
begin

text \<open>
  Writing a memory (\<open>memory_core_crud.c\<close>): the quality gates, the semantic value of a profile
  key, the numeric tokens of a key, the insertion with its supersession, merge and near-duplicate
  paths, and the operations on single rows and on the vector index.

  The store, the other modules an insertion calls (derived metadata, workspace tags, maintenance,
  the background embedder) and the audit hook act on an abstract state \<open>'s\<close>: the record
  \<open>crud_db\<close> has one function per call.  The calls into this repository's own modules
  (\<open>cd_refresh\<close>, \<open>cd_auto_tag\<close>, \<open>cd_surprise\<close>, \<open>cd_maintain\<close>) are fields because maintenance inserts
  in its turn; the theory \<open>Insertion\<close> closes them with the models of these functions
  (\<open>program_crud\<close>), and \<open>program_insert\<close> is \<open>memory_insert_ex\<close> with nothing of \<open>src/\<close> left open.  The text classifiers of the platform
  (\<open>gate_check_sensitive\<close>, \<open>memory_scan_content\<close>, \<open>trigram_similarity\<close>, ...) are outside \<open>src/\<close>
  and fields of \<open>crud_text\<close>; tier and kind names, buffer sizes and thresholds are fields of
  \<open>crud_config\<close>.  Logs are not modelled.
\<close>

datatype gate_result = GATE_ACCEPT | GATE_REJECT | GATE_DOWNGRADE | GATE_REDACT

record gate_verdict =
  gv_result :: gate_result
  gv_reason :: string
  gv_redacted :: string

record crud_config =
  cc_L0 :: string
  cc_L2 :: string
  cc_scratch :: string
  cc_reason_len :: nat
  cc_redacted_len :: nat
  cc_floor_text :: string
  cc_dedup :: real
  cc_embed_field :: string
  cc_embed_current :: string
  cc_skip_side_effects :: bool
  cc_now :: string

record crud_text =
  ct_norm :: normalizer
  ct_sensitive :: "string \<Rightarrow> nat \<Rightarrow> int \<times> string"
  ct_ephemeral :: "string \<Rightarrow> bool"
  ct_evidence :: "string \<Rightarrow> bool"
  ct_noise :: "string \<Rightarrow> bool"
  ct_scan :: "string \<Rightarrow> (string \<times> string) option"
  ct_contradiction :: "string \<Rightarrow> string \<Rightarrow> bool"
  ct_trigram :: "string \<Rightarrow> string \<Rightarrow> real"
  ct_word_sim :: "string \<Rightarrow> string \<Rightarrow> real"
  ct_two_places :: "real \<Rightarrow> string"

record merge_fields =
  mg_id :: int
  mg_content :: string
  mg_conf :: real
  mg_use :: int
  mg_surprise :: real
  mg_obs :: int
  mg_evidence :: real

record dedupe_candidate =
  dc_id :: int
  dc_key :: string
  dc_conf :: real
  dc_use :: int
  dc_obs :: int
  dc_evidence :: real
  dc_surprise :: real

record new_row =
  nr_tier :: string
  nr_kind :: string
  nr_key :: string
  nr_content :: cptr
  nr_use_cases :: cptr
  nr_conf :: real
  nr_session :: cptr
  nr_ts :: string
  nr_sensitivity :: string
  nr_evidence :: real
  nr_salience :: real
  nr_surprise :: real

record row_update =
  up_content :: cptr
  up_use_cases :: cptr
  up_conf :: real
  up_use :: int
  up_obs :: int
  up_evidence :: real
  up_salience :: real
  up_surprise :: real
  up_ts :: string

record audit_event =
  ae_op :: string
  ae_id :: int
  ae_tier :: string
  ae_kind :: string
  ae_key :: string
  ae_conf :: real
  ae_session :: string

record 's crud_db =
  cd_conflict :: "cptr \<Rightarrow> string \<Rightarrow> 's \<Rightarrow> real option"
  cd_lookup_key :: "string \<Rightarrow> 's \<Rightarrow> (int \<times> string \<times> real \<times> string) option"
  cd_lookup_merge :: "string \<Rightarrow> 's \<Rightarrow> merge_fields option"
  cd_dedupe :: "string \<Rightarrow> 's \<Rightarrow> dedupe_candidate list"
  cd_get :: "int \<Rightarrow> 's \<Rightarrow> memory_t option"
  cd_surprise :: "cptr \<Rightarrow> cptr \<Rightarrow> 's \<Rightarrow> real"
  cd_update :: "int \<Rightarrow> row_update \<Rightarrow> 's \<Rightarrow> bool \<times> 's"
  cd_insert :: "new_row \<Rightarrow> 's \<Rightarrow> int \<times> 's"
  cd_provenance :: "int \<Rightarrow> cptr \<Rightarrow> string \<Rightarrow> cptr \<Rightarrow> 's \<Rightarrow> 's"
  cd_count_versions :: "string \<Rightarrow> 's \<Rightarrow> int"
  cd_set_versioned :: "int \<Rightarrow> string \<Rightarrow> string \<Rightarrow> 's \<Rightarrow> bool \<times> 's"
  cd_valid_from :: "int \<Rightarrow> string \<Rightarrow> 's \<Rightarrow> 's"
  cd_link :: "int \<Rightarrow> int \<Rightarrow> string \<Rightarrow> 's \<Rightarrow> int \<times> 's"
  cd_refresh :: "int \<Rightarrow> string \<Rightarrow> string \<Rightarrow> 's \<Rightarrow> 's"
  cd_auto_tag :: "int \<Rightarrow> string \<Rightarrow> string \<Rightarrow> 's \<Rightarrow> 's"
  cd_embed :: "int \<Rightarrow> string \<Rightarrow> 's \<Rightarrow> 's"
  cd_invalidate :: "'s \<Rightarrow> 's"
  cd_maintain :: "'s \<Rightarrow> 's"
  cd_audit :: "(audit_event \<Rightarrow> 's \<Rightarrow> 's) option"

record 's crud =
  cr_cfg :: crud_config
  cr_txt :: crud_text
  cr_db :: "'s crud_db"

text \<open>The audit hook never sees the content; a NULL name is the empty one.\<close>

definition mem_audit ::
    "'s crud_db \<Rightarrow> string \<Rightarrow> int \<Rightarrow> cptr \<Rightarrow> cptr \<Rightarrow> cptr \<Rightarrow> real \<Rightarrow> cptr \<Rightarrow> 's \<Rightarrow> 's" where
  "mem_audit db op i tier kind key confidence session_id s =
     (case cd_audit db of None \<Rightarrow> s
      | Some h \<Rightarrow> h \<lparr>ae_op = op, ae_id = i, ae_tier = cptr_str tier, ae_kind = cptr_str kind, ae_key = cptr_str key,
                     ae_conf = confidence, ae_session = cptr_str session_id\<rparr> s)"

definition memory_set_audit_hook :: "(audit_event \<Rightarrow> 's \<Rightarrow> 's) option \<Rightarrow> 's crud_db \<Rightarrow> 's crud_db" where
  "memory_set_audit_hook fn db = db\<lparr>cd_audit := fn\<rparr>"

subsection \<open>The quality gates\<close>

definition verdict :: "crud_config \<Rightarrow> gate_result \<Rightarrow> string \<Rightarrow> string \<Rightarrow> gate_verdict" where
  "verdict cfg r reason redacted =
     \<lparr>gv_result = r, gv_reason = cbuf (cc_reason_len cfg) reason, gv_redacted = redacted\<rparr>"

definition source_reason :: "'s crud \<Rightarrow> string \<Rightarrow> real \<Rightarrow> string \<Rightarrow> string" where
  "source_reason cr tier confidence c =
     (if tier \<noteq> cc_L0 (cr_cfg cr) \<and> 9 / 10 < confidence \<and> \<not> ct_evidence (cr_txt cr) c
      then ''source: confidence capped at '' @ cc_floor_text (cr_cfg cr) @ '' (no evidence markers)'' else [])"

definition memory_gate_check :: "'s crud \<Rightarrow> string \<Rightarrow> cptr \<Rightarrow> cptr \<Rightarrow> cptr \<Rightarrow> real \<Rightarrow> 's \<Rightarrow> gate_verdict" where
  "memory_gate_check cr tier kind key content confidence s =
     (let cfg = cr_cfg cr; txt = cr_txt cr
      in if \<not> nonempty content
         then if tier \<noteq> cc_L0 cfg then verdict cfg GATE_REJECT (''empty content at tier '' @ tier) []
              else verdict cfg GATE_ACCEPT [] []
         else let c = cptr_str content; (sens, redacted) = ct_sensitive txt c (cc_redacted_len cfg)
              in if sens = 2 then verdict cfg GATE_REJECT ''sensitivity: content matches secret/PII pattern'' redacted
                 else if sens = 1 then verdict cfg GATE_REDACT ''sensitivity: secret/PII redacted'' redacted
                 else if tier \<noteq> cc_L0 cfg \<and> ct_ephemeral txt c
                 then verdict cfg GATE_DOWNGRADE ''stability: ephemeral content downgraded to L0'' redacted
                 else case cd_conflict (cr_db cr) key c s of
                        Some existing \<Rightarrow>
                          if confidence \<le> existing \<and> tier = cc_L2 cfg
                          then verdict cfg GATE_DOWNGRADE
                                 (''conflict: contradicts L2 memory with confidence '' @ ct_two_places txt existing) redacted
                          else verdict cfg GATE_ACCEPT (source_reason cr tier confidence c) redacted
                      | None \<Rightarrow> verdict cfg GATE_ACCEPT (source_reason cr tier confidence c) redacted)"

subsection \<open>Semantic values and numeric keys\<close>

definition memory_is_semantic_profile_key :: "cptr \<Rightarrow> bool" where
  "memory_is_semantic_profile_key raw_key \<longleftrightarrow> (case raw_key of None \<Rightarrow> False | Some k \<Rightarrow> CHR '':'' \<in> set k)"

fun semantic_loop :: "nat \<Rightarrow> string \<Rightarrow> bool \<Rightarrow> string \<Rightarrow> string" where
  "semantic_loop cap out last_space [] = out"
| "semantic_loop cap out last_space (c # cs) =
     (if cap \<le> length out + 1 then out
      else if isalnum c then semantic_loop cap (out @ [tolower c]) False cs
      else if \<not> last_space then semantic_loop cap (out @ '' '') True cs
      else semantic_loop cap out last_space cs)"

definition memory_normalize_semantic_value :: "cptr \<Rightarrow> nat \<Rightarrow> string" where
  "memory_normalize_semantic_value raw cap =
     rev (dropWhile (\<lambda>c. c = CHR '' '') (rev (semantic_loop cap [] True (cptr_str raw))))"

definition memory_semantic_value_equivalent :: "crud_text \<Rightarrow> cptr \<Rightarrow> cptr \<Rightarrow> bool" where
  "memory_semantic_value_equivalent txt a b =
     (if a = None \<or> b = None then False
      else let na = memory_normalize_semantic_value a 1024; nb = memory_normalize_semantic_value b 1024
           in if na = [] \<or> nb = [] then False else na = nb \<or> 92 / 100 \<le> ct_trigram txt na nb)"

text \<open>The runs of digits of a key, comma-separated and cut to the buffer, and how many there are.\<close>

fun commas :: "string list \<Rightarrow> string" where
  "commas [] = []"
| "commas [w] = w"
| "commas (w # ws) = w @ '','' @ commas ws"

definition memory_numeric_key_signature :: "string \<Rightarrow> nat \<Rightarrow> nat \<times> string" where
  "memory_numeric_key_signature key cap =
     (let ws = split_words (\<lambda>c. \<not> isdigit c) key in (length ws, cbuf cap (commas ws)))"

definition memory_keys_have_different_numeric_tokens :: "string \<Rightarrow> string \<Rightarrow> bool" where
  "memory_keys_have_different_numeric_tokens a b =
     (case (memory_numeric_key_signature a 128, memory_numeric_key_signature b 128) of
        ((n_a, sig_a), (n_b, sig_b)) \<Rightarrow> n_a \<noteq> n_b \<or> 0 < n_a \<and> sig_a \<noteq> sig_b)"

definition month_marks :: "string list" where
  "month_marks =
     [''202'', ''201'', ''Jan'', ''Feb'', ''Mar'', ''Apr'', ''May'', ''Jun'', ''Jul'', ''Aug'', ''Sep'', ''Oct'', ''Nov'', ''Dec'']"

definition memory_base_evidence_strength :: "crud_text \<Rightarrow> cptr \<Rightarrow> cptr \<Rightarrow> real \<Rightarrow> real" where
  "memory_base_evidence_strength txt key content confidence =
     (let c = cptr_str content;
          score = 35 / 100 + confidence * (45 / 100) + (if nonempty key then 5 / 100 else 0) +
                  (if nonempty content \<and> ct_evidence txt c then 15 / 100 else 0) +
                  (if content \<noteq> None \<and> list_ex (contains c) month_marks then 5 / 100 else 0);
          capped = (if 1 < score then 1 else score)
      in if capped < 1 / 10 then 1 / 10 else capped)"

subsection \<open>Inserting\<close>

definition scanned :: "crud_text \<Rightarrow> string \<Rightarrow> string \<Rightarrow> cptr \<Rightarrow> (string \<times> string \<times> cptr \<times> string) option" where
  "scanned txt tier kind content =
     (if nonempty content
      then case ct_scan txt (cbuf 2048 (cptr_str content)) of None \<Rightarrow> None
           | Some (sensitivity, safe) \<Rightarrow> Some (tier, kind, Some safe, sensitivity)
      else Some (tier, kind, content, ''normal''))"

text \<open>The gates, the downgrade or redaction they ask for, and the content scan.\<close>

definition admit ::
    "'s crud \<Rightarrow> string \<Rightarrow> string \<Rightarrow> string \<Rightarrow> cptr \<Rightarrow> real \<Rightarrow> 's \<Rightarrow> (string \<times> string \<times> cptr \<times> string) option" where
  "admit cr tier kind key content confidence s =
     (let v = memory_gate_check cr tier (Some kind) (Some key) content confidence s
      in case gv_result v of
           GATE_REJECT \<Rightarrow> None
         | GATE_DOWNGRADE \<Rightarrow> scanned (cr_txt cr) (cc_L0 (cr_cfg cr)) (cc_scratch (cr_cfg cr)) content
         | GATE_REDACT \<Rightarrow> scanned (cr_txt cr) tier kind (Some (gv_redacted v))
         | GATE_ACCEPT \<Rightarrow> scanned (cr_txt cr) tier kind content)"

definition materially_different :: "crud_text \<Rightarrow> bool \<Rightarrow> string \<Rightarrow> cptr \<Rightarrow> bool" where
  "materially_different txt semantic_profile ex content \<longleftrightarrow>
     ex \<noteq> [] \<and>
     (semantic_profile \<and> \<not> memory_semantic_value_equivalent txt (Some ex) content \<or>
      ct_contradiction txt ex (cptr_str content) \<or>
      memory_temporal_value_conflict (ct_norm txt) (ct_word_sim txt) (ct_trigram txt) (Some ex) content \<or>
      ct_trigram txt ex (cptr_str content) < 6 / 10)"

text \<open>The L2 fact a new one contradicts, which is then kept as an older version.\<close>

definition version_of :: "'s crud \<Rightarrow> string \<Rightarrow> string \<Rightarrow> string \<Rightarrow> cptr \<Rightarrow> real \<Rightarrow> 's \<Rightarrow> int option" where
  "version_of cr tier key norm_key content confidence s =
     (if \<not> cc_skip_side_effects (cr_cfg cr) \<and> nonempty content \<and> 8 / 10 \<le> confidence \<and> tier = cc_L2 (cr_cfg cr)
      then case cd_lookup_key (cr_db cr) norm_key s of None \<Rightarrow> None
           | Some (ex_id, ex_content, ex_conf, ex_tier) \<Rightarrow>
               if ex_tier = cc_L2 (cr_cfg cr) \<and> 7 / 10 \<le> ex_conf \<and>
                  materially_different (cr_txt cr) (memory_is_semantic_profile_key (Some key)) ex_content content
               then Some ex_id else None
      else None)"

definition merged_obs :: "int \<Rightarrow> int" where
  "merged_obs old = (if 0 < old then old else 1) + 1"

definition merged_evidence :: "real \<Rightarrow> real \<Rightarrow> real \<Rightarrow> int \<Rightarrow> real" where
  "merged_evidence step old base obs =
     (let e = (if old < base then base else old) + step + (if 3 \<le> obs then 3 / 100 else 0)
      in if 1 < e then 1 else e)"

definition larger :: "real \<Rightarrow> real \<Rightarrow> real" where
  "larger a b = (if b < a then a else b)"

text \<open>What an insertion carries once it is admitted.\<close>

record offer =
  of_tier :: string
  of_kind :: string
  of_key :: string
  of_norm :: string
  of_content :: cptr
  of_use_cases :: cptr
  of_conf :: real
  of_session :: cptr
  of_sensitivity :: string

definition merge_row ::
    "'s crud \<Rightarrow> offer \<Rightarrow> real \<Rightarrow> cptr \<Rightarrow> real \<Rightarrow> int \<Rightarrow> int \<Rightarrow> real \<Rightarrow> real \<Rightarrow> 's \<Rightarrow> row_update" where
  "merge_row cr f step content old_conf old_use old_obs old_evidence old_surprise s =
     (let conf = larger (of_conf f) old_conf; obs = merged_obs old_obs
      in \<lparr>up_content = content, up_use_cases = of_use_cases f, up_conf = conf, up_use = old_use + 1, up_obs = obs,
          up_evidence = merged_evidence step old_evidence
            (memory_base_evidence_strength (cr_txt cr) (Some (of_norm f)) (of_content f) conf) obs,
          up_salience = memory_content_salience (ct_noise (cr_txt cr)) (of_content f),
          up_surprise = larger old_surprise (cd_surprise (cr_db cr) (of_session f) (of_content f) s),
          up_ts = cc_now (cr_cfg cr)\<rparr>)"

text \<open>The out-row is filled from the store when the caller gave one and the row can be read.\<close>

definition read_back :: "'s crud_db \<Rightarrow> int \<Rightarrow> memory_t option \<Rightarrow> 's \<Rightarrow> memory_t option" where
  "read_back db i out s =
     (case out of None \<Rightarrow> None | Some m \<Rightarrow> (case cd_get db i s of None \<Rightarrow> Some m | Some r \<Rightarrow> Some r))"

definition merge_into ::
    "'s crud \<Rightarrow> offer \<Rightarrow> int \<Rightarrow> row_update \<Rightarrow> string \<Rightarrow> string \<Rightarrow> bool \<Rightarrow> memory_t option \<Rightarrow> 's \<Rightarrow>
       bool \<times> memory_t option \<times> 's" where
  "merge_into cr f i u why command maintain out s =
     (let db = cr_db cr; (ok, s1) = cd_update db i u s
      in if \<not> ok then (False, out, s1)
         else let s2 = cd_refresh db i (of_norm f) (cptr_str (up_content u)) s1;
                  s3 = cd_provenance db i (of_session f) ''merge'' (Some why) s2;
                  s4 = cd_embed db i command s3;
                  out' = read_back db i out s4;
                  s5 = cd_invalidate db s4;
                  s6 = (if maintain then cd_maintain db s5 else s5);
                  s7 = mem_audit db ''memory.merge'' i (Some (of_tier f)) (Some (of_kind f)) (Some (of_norm f))
                         (up_conf u) (of_session f) s6
              in (True, out', s7))"

definition merge_exact ::
    "'s crud \<Rightarrow> offer \<Rightarrow> merge_fields \<Rightarrow> memory_t option \<Rightarrow> 's \<Rightarrow> bool \<times> memory_t option \<times> 's" where
  "merge_exact cr f g out s =
     (let semantic = (of_tier f = cc_L2 (cr_cfg cr) \<and> memory_is_semantic_profile_key (Some (of_key f)));
          same = (semantic \<and> memory_semantic_value_equivalent (cr_txt cr) (Some (mg_content g)) (Some (cptr_str (of_content f))));
          content = (if same \<and> mg_content g \<noteq> [] then Some (mg_content g) else of_content f);
          u = merge_row cr f (4 / 100) content (mg_conf g) (mg_use g) (mg_obs g) (mg_evidence g) (mg_surprise g) s;
          command = (if cc_embed_field (cr_cfg cr) \<noteq> [] then cc_embed_field (cr_cfg cr) else ''builtin'')
      in merge_into cr f (mg_id g) u (if same then ''semantic profile dedupe'' else ''exact key match'') command
           (\<not> cc_skip_side_effects (cr_cfg cr)) out s)"

text \<open>The first row of the kind whose key is near enough and has the same numbers.\<close>

fun near_duplicate :: "crud_text \<Rightarrow> real \<Rightarrow> string \<Rightarrow> dedupe_candidate list \<Rightarrow> dedupe_candidate option" where
  "near_duplicate txt threshold norm_key [] = None"
| "near_duplicate txt threshold norm_key (c # cs) =
     (if memory_keys_have_different_numeric_tokens norm_key (dc_key c) then near_duplicate txt threshold norm_key cs
      else if threshold \<le> ct_trigram txt norm_key (dc_key c) then Some c
      else near_duplicate txt threshold norm_key cs)"

definition duplicate_of :: "'s crud \<Rightarrow> offer \<Rightarrow> 's \<Rightarrow> dedupe_candidate option" where
  "duplicate_of cr f s =
     (if cc_skip_side_effects (cr_cfg cr) then None
      else case near_duplicate (cr_txt cr) (cc_dedup (cr_cfg cr)) (of_norm f) (take 100 (cd_dedupe (cr_db cr) (of_kind f) s)) of
             None \<Rightarrow> None | Some c \<Rightarrow> if 0 < dc_id c then Some c else None)"

definition merge_near ::
    "'s crud \<Rightarrow> offer \<Rightarrow> dedupe_candidate \<Rightarrow> memory_t option \<Rightarrow> 's \<Rightarrow> bool \<times> memory_t option \<times> 's" where
  "merge_near cr f c out s =
     merge_into cr f (dc_id c)
       (merge_row cr f (3 / 100) (of_content f) (dc_conf c) (dc_use c) (dc_obs c) (dc_evidence c) (dc_surprise c) s)
       ''trigram near-duplicate'' (cc_embed_current (cr_cfg cr)) True out s"

definition insert_row :: "'s crud \<Rightarrow> offer \<Rightarrow> 's \<Rightarrow> new_row" where
  "insert_row cr f s =
     \<lparr>nr_tier = of_tier f, nr_kind = of_kind f, nr_key = of_norm f, nr_content = of_content f,
      nr_use_cases = of_use_cases f, nr_conf = of_conf f, nr_session = of_session f, nr_ts = cc_now (cr_cfg cr),
      nr_sensitivity = of_sensitivity f,
      nr_evidence = memory_base_evidence_strength (cr_txt cr) (Some (of_norm f)) (of_content f) (of_conf f),
      nr_salience = memory_content_salience (ct_noise (cr_txt cr)) (of_content f),
      nr_surprise = cd_surprise (cr_db cr) (of_session f) (of_content f) s\<rparr>"

definition insert_new :: "'s crud \<Rightarrow> offer \<Rightarrow> memory_t option \<Rightarrow> 's \<Rightarrow> bool \<times> memory_t option \<times> 's" where
  "insert_new cr f out s =
     (let db = cr_db cr; (i, s1) = cd_insert db (insert_row cr f s) s
      in if i < 0 then (False, out, s1)
         else let s2 = cd_refresh db i (of_norm f) (cptr_str (of_content f)) s1;
                  s3 = cd_provenance db i (of_session f) ''insert'' None s2;
                  s4 = (if cc_skip_side_effects (cr_cfg cr) then s3
                        else cd_auto_tag db i (of_norm f) (cptr_str (of_content f)) s3);
                  s5 = cd_embed db i (cc_embed_current (cr_cfg cr)) s4;
                  out' = read_back db i out s5;
                  s6 = cd_invalidate db s5;
                  s7 = (if cc_skip_side_effects (cr_cfg cr) then s6 else cd_maintain db s6);
                  s8 = mem_audit db ''memory.insert'' i (Some (of_tier f)) (Some (of_kind f)) (Some (of_norm f))
                         (of_conf f) (of_session f) s7
              in (True, out', s8))"

definition store_offer :: "'s crud \<Rightarrow> offer \<Rightarrow> memory_t option \<Rightarrow> 's \<Rightarrow> bool \<times> memory_t option \<times> 's" where
  "store_offer cr f out s =
     (case cd_lookup_merge (cr_db cr) (of_norm f) s of
        Some g \<Rightarrow> merge_exact cr f g out s
      | None \<Rightarrow> (case duplicate_of cr f s of Some c \<Rightarrow> merge_near cr f c out s | None \<Rightarrow> insert_new cr f out s))"

text \<open>
  \<open>memory_supersede\<close> inserts the new version, and an insertion supersedes: the two are tied with
  fuel, and \<open>None\<close> is a nesting that went deeper.
\<close>

type_synonym 's insertion = "bool \<times> memory_t option \<times> 's"

definition versioned_key :: "'s crud_db \<Rightarrow> string \<Rightarrow> 's \<Rightarrow> string" where
  "versioned_key db key s = cbuf 560 (key @ ''#v'' @ decimal (cd_count_versions db key s + 1))"

text \<open>What is noted about a new version once it is inserted; nothing when the caller took no row.\<close>

definition note_version :: "'s crud \<Rightarrow> int \<Rightarrow> cptr \<Rightarrow> memory_t option \<Rightarrow> 's \<Rightarrow> 's" where
  "note_version cr old_id session_id out s =
     (case out of None \<Rightarrow> s
      | Some r \<Rightarrow>
          let db = cr_db cr; s1 = cd_valid_from db (m_id r) (cc_now (cr_cfg cr)) s;
              s2 = cd_provenance db (m_id r) session_id ''supersede''
                     (Some (cbuf 128 (''supersedes memory '' @ decimal old_id))) s1
          in snd (cd_link db (m_id r) old_id ''supersedes'' s2))"

definition version_outcome :: "'s crud \<Rightarrow> int \<Rightarrow> cptr \<Rightarrow> 's insertion \<Rightarrow> 's insertion" where
  "version_outcome cr old_id session_id r =
     (case r of (ok, out, s) \<Rightarrow> (ok, out, if ok then note_version cr old_id session_id out s else s))"

definition memory_supersede_with ::
    "(cptr \<Rightarrow> cptr \<Rightarrow> cptr \<Rightarrow> cptr \<Rightarrow> cptr \<Rightarrow> real \<Rightarrow> cptr \<Rightarrow> memory_t option \<Rightarrow> 's \<Rightarrow> 's insertion option) \<Rightarrow>
     's crud \<Rightarrow> int \<Rightarrow> cptr \<Rightarrow> real \<Rightarrow> cptr \<Rightarrow> memory_t option \<Rightarrow> 's \<Rightarrow> 's insertion option" where
  "memory_supersede_with ins cr old_id content confidence session_id out s =
     (if old_id \<le> 0 then Some (False, out, s)
      else case cd_get (cr_db cr) old_id s of None \<Rightarrow> Some (False, out, s)
           | Some old \<Rightarrow>
               (case cd_set_versioned (cr_db cr) old_id (versioned_key (cr_db cr) (m_key old) s) (cc_now (cr_cfg cr)) s of
                  (ok, s1) \<Rightarrow>
                    if \<not> ok then Some (False, out, s1)
                    else map_option (version_outcome cr old_id session_id)
                           (ins (Some (m_tier old)) (Some (m_kind old)) (Some (m_key old)) content (Some []) confidence
                              session_id out s1)))"

text \<open>What an insertion does when the fact it contradicts was superseded, or could not be.\<close>

definition after_version :: "'s crud \<Rightarrow> offer \<Rightarrow> 's insertion \<Rightarrow> 's insertion" where
  "after_version cr f r =
     (case r of (ok, out, s) \<Rightarrow> if ok then (True, out, cd_invalidate (cr_db cr) s) else store_offer cr f out s)"

definition insert_with ::
    "(int \<Rightarrow> cptr \<Rightarrow> real \<Rightarrow> cptr \<Rightarrow> memory_t option \<Rightarrow> 's \<Rightarrow> 's insertion option) \<Rightarrow>
     's crud \<Rightarrow> cptr \<Rightarrow> cptr \<Rightarrow> cptr \<Rightarrow> cptr \<Rightarrow> cptr \<Rightarrow> real \<Rightarrow> cptr \<Rightarrow> memory_t option \<Rightarrow> 's \<Rightarrow> 's insertion option" where
  "insert_with older cr tier kind key content use_cases confidence session_id out s =
     (case (tier, kind, key) of
        (Some t, Some k, Some ky) \<Rightarrow>
          (case admit cr t k ky content confidence s of None \<Rightarrow> Some (False, out, s)
           | Some (t', k', c, sensitivity) \<Rightarrow>
               let norm_key = ct_norm (cr_txt cr) ky 512;
                   f = \<lparr>of_tier = t', of_kind = k', of_key = ky, of_norm = norm_key, of_content = c,
                        of_use_cases = use_cases, of_conf = confidence, of_session = session_id,
                        of_sensitivity = sensitivity\<rparr>
               in case version_of cr t' ky norm_key c confidence s of
                    None \<Rightarrow> Some (store_offer cr f out s)
                  | Some ex_id \<Rightarrow> map_option (after_version cr f) (older ex_id c confidence session_id out s))
      | _ \<Rightarrow> Some (False, out, s))"

fun memory_insert_ex ::
    "nat \<Rightarrow> 's crud \<Rightarrow> cptr \<Rightarrow> cptr \<Rightarrow> cptr \<Rightarrow> cptr \<Rightarrow> cptr \<Rightarrow> real \<Rightarrow> cptr \<Rightarrow> memory_t option \<Rightarrow> 's \<Rightarrow>
       's insertion option" where
  "memory_insert_ex 0 cr tier kind key content use_cases confidence session_id out s = None"
| "memory_insert_ex (Suc n) cr tier kind key content use_cases confidence session_id out s =
     insert_with (memory_supersede_with (memory_insert_ex n cr) cr)
       cr tier kind key content use_cases confidence session_id out s"

definition memory_supersede ::
    "nat \<Rightarrow> 's crud \<Rightarrow> int \<Rightarrow> cptr \<Rightarrow> real \<Rightarrow> cptr \<Rightarrow> memory_t option \<Rightarrow> 's \<Rightarrow> 's insertion option" where
  "memory_supersede n cr old_id content confidence session_id out s =
     memory_supersede_with (memory_insert_ex n cr) cr old_id content confidence session_id out s"

definition memory_insert ::
    "nat \<Rightarrow> 's crud \<Rightarrow> cptr \<Rightarrow> cptr \<Rightarrow> cptr \<Rightarrow> cptr \<Rightarrow> real \<Rightarrow> cptr \<Rightarrow> memory_t option \<Rightarrow> 's \<Rightarrow> 's insertion option" where
  "memory_insert n cr tier kind key content confidence session_id out s =
     memory_insert_ex n cr tier kind key content (Some []) confidence session_id out s"

text \<open>
  What the other modules call: two levels are all an insertion takes when the store lets a renamed
  row go from its key (\<open>insertion_returns\<close>), so the last case is none of the code's.
\<close>

definition insert_memory ::
    "'s crud \<Rightarrow> string \<Rightarrow> string \<Rightarrow> string \<Rightarrow> string \<Rightarrow> real \<Rightarrow> cptr \<Rightarrow> memory_t option \<Rightarrow> 's \<Rightarrow> 's insertion" where
  "insert_memory cr tier kind key content confidence session_id out s =
     (case memory_insert 2 cr (Some tier) (Some kind) (Some key) (Some content) confidence session_id out s of
        Some r \<Rightarrow> r | None \<Rightarrow> (False, out, s))"

subsection \<open>Single rows\<close>

text \<open>The calls of the row operations; the code's 0 and -1 are True and False.\<close>

record 's row_db =
  rw_touch :: "int \<Rightarrow> 's \<Rightarrow> bool \<times> 's"
  rw_update_content :: "int \<Rightarrow> string \<Rightarrow> 's \<Rightarrow> int \<times> 's"
  rw_reject :: "int \<Rightarrow> cptr \<Rightarrow> 's \<Rightarrow> bool \<times> 's"
  rw_list :: "cptr \<Rightarrow> cptr \<Rightarrow> bool \<Rightarrow> int \<Rightarrow> nat \<Rightarrow> 's \<Rightarrow> memory_t list"
  rw_provenance_delete :: "int \<Rightarrow> 's \<Rightarrow> 's"
  rw_unit_ids :: "int \<Rightarrow> 's \<Rightarrow> int list"
  rw_point_delete :: "int \<Rightarrow> 's \<Rightarrow> 's"
  rw_index_op_remove :: "int \<Rightarrow> 's \<Rightarrow> 's"
  rw_delete_row :: "int \<Rightarrow> 's \<Rightarrow> int \<times> 's"
  rw_id_key_content :: "int \<Rightarrow> 's \<Rightarrow> (int \<times> string \<times> string) list"
  rw_memory_embed :: "int \<Rightarrow> cptr \<Rightarrow> 's \<Rightarrow> bool \<times> 's"
  rw_retryable :: "int \<Rightarrow> int \<Rightarrow> 's \<Rightarrow> int list"
  rw_unit_offset :: int

definition memory_get :: "'s crud_db \<Rightarrow> int \<Rightarrow> 's \<Rightarrow> memory_t option" where
  "memory_get db i s = cd_get db i s"

definition memory_touch :: "'s row_db \<Rightarrow> int \<Rightarrow> 's \<Rightarrow> bool \<times> 's" where
  "memory_touch rw i s = rw_touch rw i s"

text \<open>An audit of an operation that knows the id only.\<close>

definition audit_id :: "'s crud_db \<Rightarrow> string \<Rightarrow> int \<Rightarrow> bool \<Rightarrow> 's \<Rightarrow> 's" where
  "audit_id db op i ok s = (if ok then mem_audit db op i None None None 0 None s else s)"

definition memory_update_content :: "'s crud_db \<Rightarrow> 's row_db \<Rightarrow> int \<Rightarrow> cptr \<Rightarrow> 's \<Rightarrow> bool \<times> 's" where
  "memory_update_content db rw i content s =
     (if i \<le> 0 \<or> \<not> nonempty content then (False, s)
      else let (changes, s') = rw_update_content rw i (cptr_str content) s
           in (0 < changes, audit_id db ''memory.update'' i (0 < changes) s'))"

definition memory_reject :: "'s crud_db \<Rightarrow> 's row_db \<Rightarrow> int \<Rightarrow> cptr \<Rightarrow> 's \<Rightarrow> bool \<times> 's" where
  "memory_reject db rw i reason s =
     (let (ok, s') = rw_reject rw i reason s in (ok, audit_id db ''memory.reject'' i ok s'))"

definition memory_list :: "bool \<Rightarrow> bool \<Rightarrow> 's row_db \<Rightarrow> cptr \<Rightarrow> cptr \<Rightarrow> int \<Rightarrow> nat \<Rightarrow> 's \<Rightarrow> memory_t list" where
  "memory_list lifecycle_enabled hide_archived rw tier kind limit mx s =
     rw_list rw tier kind (lifecycle_enabled \<and> hide_archived) limit mx s"

definition drop_point :: "'s row_db \<Rightarrow> int \<Rightarrow> 's \<Rightarrow> 's" where
  "drop_point rw pt s = rw_index_op_remove rw pt (rw_point_delete rw pt s)"

definition memory_delete :: "'s crud_db \<Rightarrow> 's row_db \<Rightarrow> int \<Rightarrow> 's \<Rightarrow> bool \<times> 's" where
  "memory_delete db rw i s =
     (let s1 = rw_provenance_delete rw i s;
          s2 = foldl (\<lambda>t u. drop_point rw (rw_unit_offset rw + u) t) s1 (take 64 (rw_unit_ids rw i s1));
          s3 = drop_point rw i s2;
          (changes, s4) = rw_delete_row rw i s3;
          s5 = (if 0 < changes then cd_invalidate db s4 else s4)
      in (0 < changes, audit_id db ''memory.delete'' i (0 < changes) s5))"

definition memory_rebuild_derived_indexes :: "'s crud_db \<Rightarrow> 's row_db \<Rightarrow> int \<Rightarrow> 's \<Rightarrow> nat \<times> 's" where
  "memory_rebuild_derived_indexes db rw limit s =
     (let rows = take 256 (rw_id_key_content rw limit s)
      in (length rows, foldl (\<lambda>t r. case r of (i, key, content) \<Rightarrow> cd_refresh db i key content t) s rows))"

subsection \<open>The vector index\<close>

definition memory_repair_vector_index :: "'s crud_db \<Rightarrow> 's row_db \<Rightarrow> int \<Rightarrow> cptr \<Rightarrow> 's \<Rightarrow> bool \<times> 's" where
  "memory_repair_vector_index db rw i command s =
     (if i \<le> 0 then (False, s)
      else case cd_get db i s of None \<Rightarrow> (False, s)
           | Some m \<Rightarrow>
               let (ok, s1) = rw_memory_embed rw i command s
               in if \<not> ok then (False, s1) else (True, cd_refresh db i (m_key m) (m_content m) s1))"

definition pgvec_memory_vector_max_retry_attempts :: "environment \<Rightarrow> int" where
  "pgvec_memory_vector_max_retry_attempts env = memory_env_int env ''AIMEE_VECTOR_MAX_RETRY'' 8 1 1024"

fun repair_all :: "'s crud_db \<Rightarrow> 's row_db \<Rightarrow> cptr \<Rightarrow> int list \<Rightarrow> nat \<times> nat \<times> 's \<Rightarrow> nat \<times> nat \<times> 's" where
  "repair_all db rw command [] st = st"
| "repair_all db rw command (i # is) (repaired, failed, s) =
     (let (ok, s') = memory_repair_vector_index db rw i command s
      in repair_all db rw command is (if ok then (repaired + 1, failed, s') else (repaired, failed + 1, s')))"

text \<open>How many points were repaired, and how many were not.\<close>

definition memory_repair_vector_index_failed_only ::
    "environment \<Rightarrow> 's crud_db \<Rightarrow> 's row_db \<Rightarrow> cptr \<Rightarrow> int \<Rightarrow> 's \<Rightarrow> nat \<times> nat \<times> 's" where
  "memory_repair_vector_index_failed_only env db rw command limit s =
     repair_all db rw command
       (take 256 (rw_retryable rw (pgvec_memory_vector_max_retry_attempts env) limit s)) (0, 0, s)"

record 's rebuild_db =
  rb_initialized :: bool
  rb_try_lock :: "'s \<Rightarrow> bool \<times> 's"
  rb_release :: "'s \<Rightarrow> 's"
  rb_dim :: int
  rb_max_dim :: int
  rb_recreate :: "int \<Rightarrow> 's \<Rightarrow> bool \<times> 's"
  rb_payload_indexes :: "'s \<Rightarrow> 's"
  rb_set_version :: "'s \<Rightarrow> 's"

definition rebuild_dim :: "'s rebuild_db \<Rightarrow> int" where
  "rebuild_dim rb = (if rb_dim rb \<le> 0 \<or> rb_max_dim rb < rb_dim rb then 1024 else rb_dim rb)"

definition memory_rebuild_vector_index_for_version :: "'s rebuild_db \<Rightarrow> cptr \<Rightarrow> 's \<Rightarrow> bool \<times> 's" where
  "memory_rebuild_vector_index_for_version rb version s =
     (if \<not> nonempty version \<or> \<not> rb_initialized rb then (False, s)
      else let (got, s1) = rb_try_lock rb s
           in if \<not> got then (False, s1)
              else let (ok, s2) = rb_recreate rb (rebuild_dim rb) s1
                   in if \<not> ok then (False, rb_release rb s2)
                      else (True, rb_release rb (rb_set_version rb (rb_payload_indexes rb s2))))"

end
