(* ===== verification/Crud_Properties.thy ===== *)
theory Crud_Properties
  imports Crud
begin

text \<open>
  What an insertion guarantees: nothing reaches the store past the gates, whatever the calls into
  other modules do; a refused fact leaves the store alone; nested supersession ends; a near-duplicate carries the same numbers;
  the rebuild of the vector index gives its lock back.
\<close>

subsection \<open>What reaches the store\<close>

text \<open>
  The gates as a relation between a request (tier, kind, content) and what is stored for it (tier,
  kind, content, sensitivity), stated apart from the code: no content only in tier L0; a content
  of class 2 never; of class 1 only its redacted text; an ephemeral one, or one that contradicts
  an L2 fact it does not outrank, only as a scratch of L0; and of any text that is not empty,
  only what the scanner makes of its first 2047 bytes.
\<close>

definition past_gates ::
    "'s crud \<Rightarrow> string \<Rightarrow> real \<Rightarrow> 's \<Rightarrow> string \<times> string \<times> cptr \<Rightarrow> string \<times> string \<times> cptr \<times> string \<Rightarrow> bool" where
  "past_gates cr key conf s req stored \<longleftrightarrow>
     (case req of (tier, kind, content) \<Rightarrow>
        if \<not> nonempty content then tier = cc_L0 (cr_cfg cr) \<and> stored = (tier, kind, content, ''normal'')
        else let c = cptr_str content;
                 (cls, redacted) = ct_sensitive (cr_txt cr) c (cc_redacted_len (cr_cfg cr));
                 written = (if cls = 1 then redacted else c);
                 contradicts = (tier = cc_L2 (cr_cfg cr) \<and>
                   (\<exists>ex. cd_conflict (cr_db cr) (Some key) c s = Some ex \<and> conf \<le> ex));
                 down = (cls \<noteq> 1 \<and> (tier \<noteq> cc_L0 (cr_cfg cr) \<and> ct_ephemeral (cr_txt cr) c \<or> contradicts));
                 (t, k) = (if down then (cc_L0 (cr_cfg cr), cc_scratch (cr_cfg cr)) else (tier, kind))
             in cls \<noteq> 2 \<and>
                (if written = [] then stored = (t, k, Some [], ''normal'')
                 else \<exists>sens safe. ct_scan (cr_txt cr) (cbuf 2048 written) = Some (sens, safe) \<and>
                        stored = (t, k, Some safe, sens)))"

lemma admit_past_gates:
  "admit cr tier kind key content conf s = Some r \<longleftrightarrow> past_gates cr key conf s (tier, kind, content) r"
proof (cases "nonempty content")
  case False
  then show ?thesis
    by (auto simp: admit_def memory_gate_check_def verdict_def past_gates_def scanned_def Let_def)
next
  case True
  then obtain c where c: "content = Some c" "c \<noteq> []"
    by (cases content) (auto simp: nonempty_def)
  obtain cls red where sens: "ct_sensitive (cr_txt cr) c (cc_redacted_len (cr_cfg cr)) = (cls, red)"
    by fastforce
  show ?thesis
    using c sens
    by (auto simp: admit_def memory_gate_check_def verdict_def past_gates_def scanned_def Let_def nonempty_def
        split: option.splits if_splits)
qed

text \<open>The calls of an insertion that carry no content of a row.\<close>

inductive other_call :: "'s crud_db \<Rightarrow> ('s \<Rightarrow> 's) \<Rightarrow> bool" for db where
  provenance: "other_call db (cd_provenance db i x a d)"
| set_versioned: "other_call db (\<lambda>s. snd (cd_set_versioned db i k t s))"
| valid_from: "other_call db (cd_valid_from db i t)"
| link: "other_call db (\<lambda>s. snd (cd_link db i j r s))"
| refresh: "other_call db (cd_refresh db i k c)"
| auto_tag: "other_call db (cd_auto_tag db i k c)"
| embed: "other_call db (cd_embed db i c)"
| invalidate: "other_call db (cd_invalidate db)"
| maintain: "other_call db (cd_maintain db)"
| audit: "cd_audit db = Some h \<Longrightarrow> other_call db (h e)"

text \<open>
  The runs of an insertion that the gates allow.  \<open>gated\<close> takes a request from one state to another:
  nothing happens, or the gates let something through and only that is written.  \<open>writes\<close> are the
  writes for what was let through: a new row, an update with that content, an update that leaves
  the content of the merged row as it was, an insertion of that content, through the gates again,
  as a version of another row, and any of the other calls, about which nothing is assumed.
\<close>

inductive gated :: "'s crud \<Rightarrow> string \<Rightarrow> string \<Rightarrow> string \<Rightarrow> cptr \<Rightarrow> real \<Rightarrow> 's \<Rightarrow> 's \<Rightarrow> bool"
  and writes :: "'s crud \<Rightarrow> string \<Rightarrow> real \<Rightarrow> string \<times> string \<times> cptr \<times> string \<Rightarrow> 's \<Rightarrow> 's \<Rightarrow> bool" where
  refused: "\<forall>r. \<not> past_gates cr key conf s (t, k, content) r \<Longrightarrow> gated cr t k key content conf s s"
| passed: "past_gates cr key conf s (t, k, content) r \<Longrightarrow> writes cr key conf r s s' \<Longrightarrow>
    gated cr t k key content conf s s'"
| unwritten: "writes cr key conf r s s"
| new_row: "writes cr key conf (t, k, c, sens) s s' \<Longrightarrow>
    nr_tier w = t \<and> nr_kind w = k \<and> nr_key w = ct_norm (cr_txt cr) key 512 \<and> nr_content w = c \<and>
    nr_sensitivity w = sens \<Longrightarrow>
    writes cr key conf (t, k, c, sens) s (snd (cd_insert (cr_db cr) w s'))"
| overwrite: "writes cr key conf (t, k, c, sens) s s' \<Longrightarrow> up_content u = c \<Longrightarrow>
    writes cr key conf (t, k, c, sens) s (snd (cd_update (cr_db cr) i u s'))"
| same_text: "writes cr key conf r s s' \<Longrightarrow>
    cd_lookup_merge (cr_db cr) (ct_norm (cr_txt cr) key 512) s' = Some g \<Longrightarrow> up_content u = Some (mg_content g) \<Longrightarrow>
    writes cr key conf r s (snd (cd_update (cr_db cr) (mg_id g) u s'))"
| version: "writes cr key conf (t, k, c, sens) s s' \<Longrightarrow> cd_get (cr_db cr) i s0 = Some old \<Longrightarrow>
    gated cr (m_tier old) (m_kind old) (m_key old) c conf s' s'' \<Longrightarrow>
    writes cr key conf (t, k, c, sens) s s''"
| other: "writes cr key conf r s s' \<Longrightarrow> other_call (cr_db cr) f \<Longrightarrow> writes cr key conf r s (f s')"

lemma writes_other:
  assumes "writes cr key conf r s t"
  shows "writes cr key conf r s (cd_provenance (cr_db cr) i x a d t)"
    and "writes cr key conf r s (snd (cd_set_versioned (cr_db cr) i n ts t))"
    and "writes cr key conf r s (cd_valid_from (cr_db cr) i ts t)"
    and "writes cr key conf r s (snd (cd_link (cr_db cr) i j a t))"
    and "writes cr key conf r s (cd_refresh (cr_db cr) i n c t)"
    and "writes cr key conf r s (cd_auto_tag (cr_db cr) i n c t)"
    and "writes cr key conf r s (cd_embed (cr_db cr) i c t)"
    and "writes cr key conf r s (cd_invalidate (cr_db cr) t)"
    and "writes cr key conf r s (cd_maintain (cr_db cr) t)"
    and "writes cr key conf r s (mem_audit (cr_db cr) op i tier kind n' conf' session t)"
  using other [OF assms] other_call.intros [of "cr_db cr"]
  by (simp_all add: mem_audit_def assms other [OF assms set_versioned] other [OF assms link] split: option.split)

lemma merge_into_writes:
  assumes "writes cr key conf r s (snd (cd_update (cr_db cr) i u t))"
  shows "writes cr key conf r s (snd (snd (merge_into cr f i u why command maintain out t)))"
proof -
  obtain ok s1 where up: "cd_update (cr_db cr) i u t = (ok, s1)" by fastforce
  then have "writes cr key conf r s s1" using assms by simp
  then show ?thesis by (simp add: merge_into_def Let_def up writes_other)
qed

definition offer_for :: "'s crud \<Rightarrow> string \<Rightarrow> string \<times> string \<times> cptr \<times> string \<Rightarrow> offer \<Rightarrow> bool" where
  "offer_for cr key r f \<longleftrightarrow>
     r = (of_tier f, of_kind f, of_content f, of_sensitivity f) \<and> of_norm f = ct_norm (cr_txt cr) key 512"

lemma insert_new_writes:
  assumes "writes cr key conf r s t" "offer_for cr key r f"
  shows "writes cr key conf r s (snd (snd (insert_new cr f out t)))"
proof -
  obtain i s1 where ins: "cd_insert (cr_db cr) (insert_row cr f t) t = (i, s1)" by fastforce
  have "writes cr key conf r s (snd (cd_insert (cr_db cr) (insert_row cr f t) t))"
    using assms new_row [of cr key conf "of_tier f" "of_kind f" "of_content f" "of_sensitivity f" s t "insert_row cr f t"]
    by (simp add: offer_for_def insert_row_def)
  then have "writes cr key conf r s s1" by (simp add: ins)
  then show ?thesis by (simp add: insert_new_def Let_def ins writes_other)
qed

lemma up_content_merge_row [simp]: "up_content (merge_row cr f step c a b d e h s) = c"
  by (simp add: merge_row_def Let_def)

lemma store_offer_writes:
  assumes "writes cr key conf r s t" "offer_for cr key r f"
  shows "writes cr key conf r s (snd (snd (store_offer cr f out t)))"
proof -
  have over: "writes cr key conf r s (snd (cd_update (cr_db cr) i u t))" if "up_content u = of_content f" for i u
    using overwrite [OF assms(1) [unfolded conjunct1 [OF assms(2) [unfolded offer_for_def]]] that] assms(2)
    by (simp add: offer_for_def)
  show ?thesis
  proof (cases "cd_lookup_merge (cr_db cr) (of_norm f) t")
    case (Some g)
    have "writes cr key conf r s (snd (cd_update (cr_db cr) (mg_id g) u t))" if "up_content u = Some (mg_content g)" for u
      using same_text [OF assms(1) _ that] Some assms(2) by (simp add: offer_for_def)
    then show ?thesis
      unfolding store_offer_def Some option.case merge_exact_def Let_def
      by (intro merge_into_writes) (simp add: over)
  next
    case None
    then show ?thesis
      by (cases "duplicate_of cr f t")
        (simp_all add: store_offer_def merge_near_def merge_into_writes over insert_new_writes [OF assms])
  qed
qed

lemma note_version_writes: "writes cr key conf r s t \<Longrightarrow> writes cr key conf r s (note_version cr i session out t)"
  by (cases out) (simp_all add: note_version_def Let_def writes_other)

lemma supersede_writes:
  assumes "writes cr key conf (t, k, c, sens) s s1"
    and "memory_supersede_with ins cr old_id c conf session out s1 = Some (ok, out', s2)"
    and ins: "\<And>t k y x o' s ok o'' s'. ins (Some t) (Some k) (Some y) c (Some []) conf x o' s = Some (ok, o'', s') \<Longrightarrow>
      gated cr t k y c conf s s'"
  shows "writes cr key conf (t, k, c, sens) s s2"
proof (cases "old_id \<le> 0 \<or> cd_get (cr_db cr) old_id s1 = None")
  case True
  then show ?thesis using assms(1,2) by (auto simp: memory_supersede_with_def split: if_splits)
next
  case False
  then obtain old where old: "\<not> old_id \<le> 0" "cd_get (cr_db cr) old_id s1 = Some old" by auto
  obtain b u where v: "cd_set_versioned (cr_db cr) old_id (versioned_key (cr_db cr) (m_key old) s1) (cc_now (cr_cfg cr)) s1 = (b, u)"
    by fastforce
  have u: "writes cr key conf (t, k, c, sens) s u" using writes_other(2) [OF assms(1)] v by (metis snd_conv)
  show ?thesis
  proof (cases b)
    case True
    then obtain ok' o'' w where w: "ins (Some (m_tier old)) (Some (m_kind old)) (Some (m_key old)) c (Some []) conf session out u
        = Some (ok', o'', w)" "s2 = (if ok' then note_version cr old_id session o'' w else w)"
      using assms(2) old v by (auto simp: memory_supersede_with_def version_outcome_def)
    have "writes cr key conf (t, k, c, sens) s w" by (rule version [OF u old(2) ins [OF w(1)]])
    then show ?thesis unfolding w(2) by (simp add: note_version_writes)
  qed (use assms(2) old v u in \<open>simp add: memory_supersede_with_def\<close>)
qed

lemma insert_with_gated:
  assumes "insert_with older cr (Some t) (Some k) (Some key) content uses conf session out s = Some (ok, out', s')"
    and older: "\<And>i x t' k' c sens ok o'' s1. older i c conf session out s = Some (ok, o'', s1) \<Longrightarrow>
      writes cr key conf (t', k', c, sens) s s1"
  shows "gated cr t k key content conf s s' \<and>
    ((\<exists>r. past_gates cr key conf s (t, k, content) r) \<or> \<not> ok \<and> out' = out \<and> s' = s)"
proof (cases "admit cr t k key content conf s")
  case None
  then have no: "\<not> past_gates cr key conf s (t, k, content) r" for r
    using admit_past_gates [of cr t k key content conf s r] by simp
  have "\<not> ok \<and> out' = out \<and> s' = s" using assms(1) None by (simp add: insert_with_def)
  then show ?thesis using no refused [of cr key conf s t k content] by auto
next
  case (Some r)
  obtain t' k' c sens where r: "r = (t', k', c, sens)" by (cases r)
  define f where "f = \<lparr>of_tier = t', of_kind = k', of_key = key, of_norm = ct_norm (cr_txt cr) key 512, of_content = c,
     of_use_cases = uses, of_conf = conf, of_session = session, of_sensitivity = sens\<rparr>"
  have f: "offer_for cr key r f" by (simp add: offer_for_def f_def r)
  have unfold: "insert_with older cr (Some t) (Some k) (Some key) content uses conf session out s =
      (case version_of cr t' key (ct_norm (cr_txt cr) key 512) c conf s of None \<Rightarrow> Some (store_offer cr f out s)
       | Some i \<Rightarrow> map_option (after_version cr f) (older i c conf session out s))"
    unfolding insert_with_def f_def by (simp add: Some r Let_def)
  have "writes cr key conf r s s'"
  proof (cases "version_of cr t' key (ct_norm (cr_txt cr) key 512) c conf s")
    case None
    then show ?thesis
      using store_offer_writes [OF unwritten f, of conf s out] assms(1) unfolding unfold by simp
  next
    case (Some i)
    then obtain ok1 o1 s1 where o: "older i c conf session out s = Some (ok1, o1, s1)"
      "after_version cr f (ok1, o1, s1) = (ok, out', s')"
      using assms(1) unfolding unfold by auto
    have "writes cr key conf r s s1" unfolding r by (rule older [OF o(1)])
    then show ?thesis
      using o(2) store_offer_writes [OF _ f, of conf s s1 o1] writes_other(8) [of cr key conf r s s1]
      by (auto simp: after_version_def split: if_splits)
  qed
  moreover have past: "past_gates cr key conf s (t, k, content) r"
    using iffD1 [OF admit_past_gates Some] .
  ultimately show ?thesis using passed [OF past] past by blast
qed


text \<open>A refused fact leaves the store and the caller's row as they were.\<close>

lemma refused_insertion_changes_nothing:
  "admit cr t k y content conf s = None \<Longrightarrow>
     memory_insert_ex (Suc n) cr (Some t) (Some k) (Some y) content uses conf session out s = Some (False, out, s)"
  by (simp add: insert_with_def)

subsection \<open>Nested versions end\<close>

text \<open>The store's side of a supersession: the renamed row no longer answers to its key.\<close>

definition renaming_frees :: "crud_text \<Rightarrow> 's crud_db \<Rightarrow> bool" where
  "renaming_frees txt db \<longleftrightarrow>
     (\<forall>i m ts s s'. cd_get db i s = Some m \<longrightarrow>
        cd_set_versioned db i (versioned_key db (m_key m) s) ts s = (True, s') \<longrightarrow>
        cd_lookup_key db (ct_norm txt (m_key m) 512) s' = None)"

lemma map_option_not_None: "r \<noteq> None \<Longrightarrow> map_option f r \<noteq> None"
  by (cases r) simp_all

lemma insert_with_returns:
  assumes "\<And>i c cf x o' s'. older i c cf x o' s' \<noteq> None"
  shows "insert_with older cr tier kind key content uses conf session out s \<noteq> None"
proof (cases "tier = None \<or> kind = None \<or> key = None")
  case True
  then show ?thesis by (cases tier; cases kind; cases key) (simp_all add: insert_with_def)
next
  case False
  then obtain t k y where tk: "tier = Some t" "kind = Some k" "key = Some y" by (cases tier; cases kind; cases key) simp_all
  show ?thesis
  proof (cases "admit cr t k y content conf s")
    case None
    then show ?thesis by (simp add: insert_with_def tk)
  next
    case (Some a)
    obtain t' k' c sens where a: "a = (t', k', c, sens)" by (cases a)
    show ?thesis
    proof (cases "version_of cr t' y (ct_norm (cr_txt cr) y 512) c conf s")
      case (Some i)
      obtain r where "older i c conf session out s = Some r" using assms by blast
      then show ?thesis using \<open>admit cr t k y content conf s = Some a\<close> Some a by (simp add: insert_with_def tk Let_def)
    qed (use Some a in \<open>simp add: insert_with_def tk Let_def\<close>)
  qed
qed

lemma insert_with_free_key:
  assumes "cd_lookup_key (cr_db cr) (ct_norm (cr_txt cr) y 512) s = None"
  shows "insert_with older cr t k (Some y) c u cf x out s = insert_with older' cr t k (Some y) c u cf x out s"
    and "insert_with older cr t k (Some y) c u cf x out s \<noteq> None"
proof -
  have "version_of cr t' y (ct_norm (cr_txt cr) y 512) c' cf s = None" for t' c'
    using assms by (simp add: version_of_def)
  then show "insert_with older cr t k (Some y) c u cf x out s = insert_with older' cr t k (Some y) c u cf x out s"
    "insert_with older cr t k (Some y) c u cf x out s \<noteq> None"
    by (auto simp: insert_with_def Let_def simp del: not_None_eq split: option.splits)
qed

lemma supersede_with_free:
  assumes "renaming_frees (cr_txt cr) (cr_db cr)"
    and "\<And>t k y c u cf x o' s. cd_lookup_key (cr_db cr) (ct_norm (cr_txt cr) y 512) s = None \<Longrightarrow>
      ins t k (Some y) c u cf x o' s = ins' t k (Some y) c u cf x o' s \<and> ins t k (Some y) c u cf x o' s \<noteq> None"
  shows "memory_supersede_with ins cr i c cf x out s = memory_supersede_with ins' cr i c cf x out s \<and>
    memory_supersede_with ins cr i c cf x out s \<noteq> None"
proof (cases "i \<le> 0 \<or> cd_get (cr_db cr) i s = None")
  case True
  then show ?thesis by (auto simp: memory_supersede_with_def)
next
  case False
  then obtain old where old: "\<not> i \<le> 0" "cd_get (cr_db cr) i s = Some old" by auto
  obtain b s1 where v: "cd_set_versioned (cr_db cr) i (versioned_key (cr_db cr) (m_key old) s) (cc_now (cr_cfg cr)) s = (b, s1)"
    by fastforce
  show ?thesis
  proof (cases b)
    case True
    have "cd_lookup_key (cr_db cr) (ct_norm (cr_txt cr) (m_key old) 512) s1 = None"
      using assms(1) [unfolded renaming_frees_def, rule_format, OF old(2)] v True by simp
    note step = assms(2) [OF this, of "Some (m_tier old)" "Some (m_kind old)" c "Some []" cf x out]
    show ?thesis
      using old v True map_option_not_None [OF conjunct2 [OF step], of "version_outcome cr i x"] conjunct1 [OF step]
      by (simp add: memory_supersede_with_def del: not_None_eq)
  qed (use old v in \<open>simp add: memory_supersede_with_def\<close>)
qed

lemma insertion_depth:
  assumes "renaming_frees (cr_txt cr) (cr_db cr)"
  shows "\<exists>r. \<forall>n \<ge> 2. memory_insert_ex n cr tier kind key content uses conf session out s = Some r"
proof -
  have inner: "memory_insert_ex (Suc n) cr t k (Some y) c u cf x o' s' = memory_insert_ex 1 cr t k (Some y) c u cf x o' s' \<and>
      memory_insert_ex (Suc n) cr t k (Some y) c u cf x o' s' \<noteq> None"
    if "cd_lookup_key (cr_db cr) (ct_norm (cr_txt cr) y 512) s' = None" for n t k y c u cf x o' s'
    using insert_with_free_key [OF that] by (simp only: memory_insert_ex.simps One_nat_def) blast
  have sup: "memory_supersede_with (memory_insert_ex (Suc n) cr) cr = memory_supersede_with (memory_insert_ex 1 cr) cr"
    and sup_some: "memory_supersede_with (memory_insert_ex 1 cr) cr i c cf x o' s' \<noteq> None" for n i c cf x o' s'
  proof -
    show "memory_supersede_with (memory_insert_ex (Suc n) cr) cr = memory_supersede_with (memory_insert_ex 1 cr) cr"
      by (intro ext) (rule conjunct1 [OF supersede_with_free [where ins = "memory_insert_ex (Suc n) cr", OF assms]], rule inner)
    show "memory_supersede_with (memory_insert_ex 1 cr) cr i c cf x o' s' \<noteq> None"
      by (rule conjunct2 [OF supersede_with_free [where ins = "memory_insert_ex 1 cr" and ins' = "memory_insert_ex 1 cr", OF assms]])
        (use inner [of _ _ 0] in simp)
  qed
  have two: "memory_insert_ex 2 cr = insert_with (memory_supersede_with (memory_insert_ex 1 cr) cr) cr"
    by (intro ext) (simp only: numeral_2_eq_2 One_nat_def memory_insert_ex.simps(2))
  have "memory_insert_ex 2 cr tier kind key content uses conf session out s \<noteq> None"
    unfolding two by (rule insert_with_returns) (rule sup_some)
  then obtain r where r: "memory_insert_ex 2 cr tier kind key content uses conf session out s = Some r" by blast
  have "memory_insert_ex n cr tier kind key content uses conf session out s = Some r" if le: "2 \<le> n" for n
  proof -
    obtain k where k: "n = Suc (Suc k)" using le by (cases n; cases "n - 1") auto
    have "memory_insert_ex n cr tier kind key content uses conf session out s =
        insert_with (memory_supersede_with (memory_insert_ex (Suc k) cr) cr) cr tier kind key content uses conf session out s"
      unfolding k by (rule memory_insert_ex.simps(2))
    also have "\<dots> = insert_with (memory_supersede_with (memory_insert_ex 1 cr) cr) cr tier kind key content uses conf session out s"
      by (subst sup) (rule refl)
    finally show ?thesis using r unfolding two by simp
  qed
  then show ?thesis by blast
qed


subsection \<open>Merging and the index\<close>

text \<open>A near-duplicate is a row of the store whose key is near enough and carries the same numbers.\<close>

lemma near_duplicate_sound:
  "near_duplicate txt th key cs = Some c \<Longrightarrow>
     c \<in> set cs \<and> th \<le> ct_trigram txt key (dc_key c) \<and> \<not> memory_keys_have_different_numeric_tokens key (dc_key c)"
  by (induction cs) (auto split: if_splits)

lemma numeric_tokens_sym:
  "memory_keys_have_different_numeric_tokens a b = memory_keys_have_different_numeric_tokens b a"
  by (auto simp: memory_keys_have_different_numeric_tokens_def split: prod.splits)

lemma numeric_tokens_refl: "\<not> memory_keys_have_different_numeric_tokens a a"
  by (simp add: memory_keys_have_different_numeric_tokens_def case_prod_unfold)

lemma merge_row_monotone:
  "of_conf f \<le> up_conf (merge_row cr f step c a b d e h s)" "a \<le> up_conf (merge_row cr f step c a b d e h s)"
  "up_evidence (merge_row cr f step c a b d e h s) \<le> 1"
  "2 \<le> up_obs (merge_row cr f step c a b d e h s)"
  by (auto simp: merge_row_def Let_def larger_def merged_evidence_def merged_obs_def)

text \<open>The lock of a rebuild is free afterwards when it was free before.\<close>

lemma rebuild_releases_lock:
  assumes "\<And>t. snd (rb_try_lock rb t) = t \<or> fst (rb_try_lock rb t)"
    and "\<And>t. \<not> locked (rb_release rb t)" and "\<not> locked s"
  shows "\<not> locked (snd (memory_rebuild_vector_index_for_version rb v s))"
proof -
  obtain got s1 where l: "rb_try_lock rb s = (got, s1)" by fastforce
  show ?thesis
    using assms(1) [of s] assms(2,3)
    by (cases got) (simp_all add: memory_rebuild_vector_index_for_version_def l Let_def case_prod_unfold)
qed

subsection \<open>A small store\<close>

text \<open>
  Rows with an id, a key, a content and the mark of an older version; all of tier \<open>L2\<close>.  The
  scanner blocks a content with the word \<open>password\<close>.
\<close>

type_synonym sample_rows = "(int \<times> string \<times> string \<times> bool) list"

definition sample_memory :: "int \<Rightarrow> string \<Rightarrow> string \<Rightarrow> memory_t" where
  "sample_memory i key content =
     \<lparr>m_id = i, m_tier = ''L2'', m_kind = ''fact'', m_key = key, m_content = content, m_use_cases = [],
      m_source_session = [], m_created_at = [], m_provenance = [], m_confidence = 9 / 10, m_retrieval_score = 0,
      m_hybrid_rank = 0\<rparr>"

definition sample_get :: "int \<Rightarrow> sample_rows \<Rightarrow> memory_t option" where
  "sample_get i s = (case find (\<lambda>(j, k, c, v). j = i) s of None \<Rightarrow> None | Some (j, k, c, v) \<Rightarrow> Some (sample_memory j k c))"

definition sample_lookup :: "string \<Rightarrow> sample_rows \<Rightarrow> (int \<times> string \<times> real \<times> string) option" where
  "sample_lookup key s =
     (case find (\<lambda>(j, k, c, v). k = key \<and> \<not> v) s of None \<Rightarrow> None | Some (j, k, c, v) \<Rightarrow> Some (j, c, 9 / 10, ''L2''))"

definition sample_version :: "int \<Rightarrow> string \<Rightarrow> string \<Rightarrow> sample_rows \<Rightarrow> bool \<times> sample_rows" where
  "sample_version i vkey ts s =
     (case sample_get i s of None \<Rightarrow> (False, s)
      | Some m \<Rightarrow> (True, map (\<lambda>(j, k, c, v). (j, k, c, v \<or> k = m_key m)) s))"

definition sample_crud_cfg :: crud_config where
  "sample_crud_cfg = \<lparr>cc_L0 = ''L0'', cc_L2 = ''L2'', cc_scratch = ''scratch'', cc_reason_len = 64, cc_redacted_len = 64,
     cc_floor_text = ''0.5'', cc_dedup = 9 / 10, cc_embed_field = [], cc_embed_current = [],
     cc_skip_side_effects = False, cc_now = ''2026''\<rparr>"

definition sample_crud_txt :: crud_text where
  "sample_crud_txt = \<lparr>ct_norm = (\<lambda>s n. s), ct_sensitive = (\<lambda>c n. (0, [])), ct_ephemeral = (\<lambda>c. False),
     ct_evidence = (\<lambda>c. True), ct_noise = (\<lambda>c. False),
     ct_scan = (\<lambda>c. if contains c ''password'' then None else Some (''normal'', c)),
     ct_contradiction = (\<noteq>), ct_trigram = (\<lambda>a b. if a = b then 1 else 0), ct_word_sim = (\<lambda>a b. if a = b then 1 else 0),
     ct_two_places = (\<lambda>r. ''0.90'')\<rparr>"

definition sample_crud_db :: "sample_rows crud_db" where
  "sample_crud_db = \<lparr>cd_conflict = (\<lambda>k c s. None), cd_lookup_key = sample_lookup, cd_lookup_merge = (\<lambda>k s. None),
     cd_dedupe = (\<lambda>k s. []), cd_get = sample_get, cd_surprise = (\<lambda>x c s. 1 / 2), cd_update = (\<lambda>i u s. (True, s)),
     cd_insert = (\<lambda>r s. (int (length s) + 1, s @ [(int (length s) + 1, nr_key r, cptr_str (nr_content r), False)])),
     cd_provenance = (\<lambda>i x a d s. s), cd_count_versions = (\<lambda>k s. int (length s)), cd_set_versioned = sample_version,
     cd_valid_from = (\<lambda>i t s. s), cd_link = (\<lambda>i j r s. (1, s)), cd_refresh = (\<lambda>i k c s. s), cd_auto_tag = (\<lambda>i k c s. s),
     cd_embed = (\<lambda>i c s. s), cd_invalidate = id, cd_maintain = id, cd_audit = None\<rparr>"

definition sample_crud :: "sample_rows crud" where
  "sample_crud = \<lparr>cr_cfg = sample_crud_cfg, cr_txt = sample_crud_txt, cr_db = sample_crud_db\<rparr>"

lemmas sample_crud_defs =
  sample_crud_def sample_crud_cfg_def sample_crud_txt_def sample_crud_db_def

lemma sample_renaming: "renaming_frees (cr_txt sample_crud) (cr_db sample_crud)"
proof -
  have "sample_lookup (m_key m) s' = None" if "sample_get i s = Some m" "sample_version i k t s = (True, s')" for i m s k t s'
  proof -
    have "find (\<lambda>(j, k, c, v). k = m_key m \<and> \<not> v) (map (\<lambda>(j, k, c, v). (j, k, c, v \<or> k = m_key m)) s) = None"
      by (auto simp: find_None_iff)
    then show ?thesis using that by (auto simp: sample_version_def sample_lookup_def)
  qed
  then show ?thesis by (auto simp: renaming_frees_def sample_crud_defs)
qed

lemma sample_insertion:
  "memory_insert_ex 2 sample_crud (Some ''L2'') (Some ''fact'') (Some ''drink'') (Some ''tea'') None (9 / 10) None
     None [(1, ''drink'', ''coffee'', False)] =
   Some (True, None, [(1, ''drink'', ''coffee'', True), (2, ''drink'', ''tea'', False)])"
  by code_simp



end
