(* ===== verification/Promotion.thy ===== *)
theory Promotion
  imports Crud Answers Json
begin

text \<open>
  The life of a kind (\<open>memory_logic.c\<close>): promotion, demotion and expiry by thresholds, demotion
  after failures, the facts and episodes distilled from the delegation log; and the upper tiers
  (\<open>memory_core_tiers.c\<close>): names, reclassification, synthesis of patterns, lineage and citation.

  \<open>promo_db\<close> has one function per store call; the weakly linked calls are options.  Formats of
  doubles and the thresholds of the headers are fields of \<open>promo_config\<close>.  The stubs of a build
  without a store and the log lines are not modelled.
\<close>

record kind_lifecycle =
  kl_promote_use_count :: int
  kl_promote_confidence :: real
  kl_demote_days :: int
  kl_demote_confidence :: real
  kl_demotion_resistance :: real
  kl_expire_days :: int

record delegation_pattern =
  dp_role :: string
  dp_agent :: string
  dp_wins :: int
  dp_fails :: int
  dp_total :: int
  dp_avg_turns :: int
  dp_avg_tools :: int
  dp_recent_error :: string

record episode_seed =
  es_role :: string
  es_agent :: string
  es_fails :: int
  es_errors :: string

record l5_candidate =
  lc_source_id :: int
  lc_src_key :: string
  lc_src_content :: string
  lc_session_count :: int

record lineage_row =
  ln_id :: int
  ln_source_kind :: string
  ln_source_ref :: string
  ln_ingested_at :: string
  ln_confidence :: real

record promo_config =
  pc_fact :: string
  pc_episode :: string
  pc_calibration :: int
  pc_tau :: real
  pc_episode_window :: int
  pc_episode_min :: int
  pc_error_len :: nat
  pc_four_places :: "real \<Rightarrow> string"
  pc_two_places :: "real \<Rightarrow> string"
  pc_stack_row :: memory_t
  pc_embed_command :: string
  pc_embed_model :: string

record 's promo_db =
  pd_kinds :: "string \<Rightarrow> nat \<Rightarrow> 's \<Rightarrow> string list"
  pd_lifecycle :: "string \<Rightarrow> 's \<Rightarrow> kind_lifecycle"
  pd_profile :: "string \<Rightarrow> 's \<Rightarrow> string option"
  pd_threshold :: "string \<Rightarrow> real \<Rightarrow> real option"
  pd_promote_kind :: "string \<Rightarrow> string \<Rightarrow> int \<Rightarrow> real \<Rightarrow> 's \<Rightarrow> int \<times> 's"
  pd_promote_slot :: "string \<Rightarrow> string \<Rightarrow> int \<Rightarrow> real \<Rightarrow> int \<Rightarrow> int \<Rightarrow> int \<Rightarrow> 's \<Rightarrow> int \<times> 's"
  pd_artifact_id :: "'s \<Rightarrow> string \<times> 's"
  pd_artifact :: "string \<Rightarrow> string \<Rightarrow> string \<Rightarrow> 's \<Rightarrow> 's"
  pd_demote_kind :: "string \<Rightarrow> string \<Rightarrow> real \<Rightarrow> string \<Rightarrow> 's \<Rightarrow> int \<times> 's"
  pd_demote_cascade :: "string \<Rightarrow> 's \<Rightarrow> 's"
  pd_delete_l0_provenance :: "'s \<Rightarrow> 's"
  pd_delete_l0 :: "'s \<Rightarrow> int \<times> 's"
  pd_stale_provenance :: "string \<Rightarrow> string \<Rightarrow> 's \<Rightarrow> 's"
  pd_delete_stale :: "string \<Rightarrow> string \<Rightarrow> 's \<Rightarrow> int \<times> 's"
  pd_recent_errors :: "(int \<Rightarrow> nat \<Rightarrow> 's \<Rightarrow> string list) option"
  pd_match_error_keys :: "string \<Rightarrow> nat \<Rightarrow> 's \<Rightarrow> int list"
  pd_demote_id :: "int \<Rightarrow> 's \<Rightarrow> int \<times> 's"
  pd_patterns :: "(int \<Rightarrow> int \<Rightarrow> nat \<Rightarrow> 's \<Rightarrow> delegation_pattern list) option"
  pd_episode_seeds :: "(int \<Rightarrow> int \<Rightarrow> nat \<Rightarrow> 's \<Rightarrow> episode_seed list) option"
  pd_key_exists :: "string \<Rightarrow> 's \<Rightarrow> bool"
  pd_unembedded :: "string \<Rightarrow> nat \<Rightarrow> 's \<Rightarrow> int list"
  pd_memory_embed :: "int \<Rightarrow> cptr \<Rightarrow> 's \<Rightarrow> bool \<times> 's"
  pd_reclassify :: "bool \<Rightarrow> 's \<Rightarrow> int \<times> 's"
  pd_l5_candidates :: "nat \<Rightarrow> 's \<Rightarrow> l5_candidate list option"
  pd_mdl :: "string \<Rightarrow> string \<Rightarrow> (real \<times> real \<times> real \<times> int) option"
  pd_feature :: "string \<Rightarrow> string \<Rightarrow> 's \<Rightarrow> 's"
  pd_promote_stable :: "string \<Rightarrow> 's \<Rightarrow> int \<times> 's"
  pd_record_approval :: "int \<Rightarrow> cptr \<Rightarrow> cptr \<Rightarrow> 's \<Rightarrow> bool \<times> 's"
  pd_lineage_insert :: "cptr \<Rightarrow> int \<Rightarrow> cptr \<Rightarrow> cptr \<Rightarrow> real \<Rightarrow> 's \<Rightarrow> int \<times> 's"
  pd_lineage :: "string \<Rightarrow> int \<Rightarrow> nat \<Rightarrow> 's \<Rightarrow> lineage_row list"
  pd_provenance_list :: "int \<Rightarrow> nat \<Rightarrow> 's \<Rightarrow> (string \<times> string \<times> string) list"

record 's promo =
  pr_crud :: "'s crud"
  pr_cfg :: promo_config
  pr_db :: "'s promo_db"

text \<open>\<open>(int)\<close> of a double drops the fraction.\<close>

definition trunc_int :: "real \<Rightarrow> int" where
  "trunc_int x = (if 0 \<le> x then \<lfloor>x\<rfloor> else \<lceil>x\<rceil>)"

definition pr_now :: "'s promo \<Rightarrow> string" where
  "pr_now pr = cc_now (cr_cfg (pr_crud pr))"

text \<open>A step over the kinds of a tier: the changes it made are added up.\<close>

definition add_up :: "('a \<Rightarrow> 's \<Rightarrow> int \<times> 's) \<Rightarrow> 'a list \<Rightarrow> int \<times> 's \<Rightarrow> int \<times> 's" where
  "add_up f xs st = foldl (\<lambda>(n, s) x. case f x s of (k, s') \<Rightarrow> (n + k, s')) st xs"

subsection \<open>Promotion, demotion, expiry\<close>

definition calibration_payload :: "'s promo \<Rightarrow> string \<Rightarrow> string \<Rightarrow> real \<Rightarrow> real \<Rightarrow> int \<Rightarrow> string" where
  "calibration_payload pr kind path static_threshold calibrated_threshold changed =
     cbuf 384 (''{\"target_surface\":\"memory\",\"kind\":\"'' @ kind @ ''\",\"path\":\"'' @ path @
       ''\",\"static_threshold\":'' @ pc_four_places (pr_cfg pr) static_threshold @
       '',\"calibrated_threshold\":'' @ pc_four_places (pr_cfg pr) calibrated_threshold @
       '',\"promoted_count\":'' @ decimal changed @ ''}'')"

definition calibration_trace_write :: "'s promo \<Rightarrow> string \<Rightarrow> string \<Rightarrow> real \<Rightarrow> real \<Rightarrow> int \<Rightarrow> 's \<Rightarrow> 's" where
  "calibration_trace_write pr kind path static_threshold calibrated_threshold changed s =
     (case pd_artifact_id (pr_db pr) s of
        (art_id, s') \<Rightarrow>
          pd_artifact (pr_db pr) art_id kind (calibration_payload pr kind path static_threshold calibrated_threshold changed) s')"

definition calibrated_of :: "'s promo \<Rightarrow> string \<Rightarrow> kind_lifecycle \<Rightarrow> 's \<Rightarrow> real option" where
  "calibrated_of pr kind lc s =
     (if pc_calibration (pr_cfg pr) < 2 then None
      else case pd_profile (pr_db pr) kind s of None \<Rightarrow> None
           | Some profile \<Rightarrow>
               pd_threshold (pr_db pr) profile (if 0 < pc_tau (pr_cfg pr) then pc_tau (pr_cfg pr) else kl_promote_confidence lc))"

text \<open>
  Mode 2 runs the calibrated threshold beside the static one and traces both; from mode 3 on the
  calibrated threshold is the one used.
\<close>

definition promote_one :: "'s promo \<Rightarrow> string \<Rightarrow> 's \<Rightarrow> int \<times> 's" where
  "promote_one pr kind s =
     (let db = pr_db pr; ts = pr_now pr; lc = pd_lifecycle db kind s; static = kl_promote_confidence lc;
          uses = kl_promote_use_count lc
      in case calibrated_of pr kind lc s of
           Some calibrated \<Rightarrow>
             if pc_calibration (pr_cfg pr) = 2
             then case pd_promote_slot db ts kind uses calibrated 5 0 1 s of
                    (n1, s1) \<Rightarrow>
                      (case pd_promote_slot db ts kind uses static 5 0 0 s1 of
                         (n2, s2) \<Rightarrow>
                           let s3 = calibration_trace_write pr kind ''calibrated'' static calibrated n1 s2
                           in (n1 + n2, calibration_trace_write pr kind ''static'' static calibrated n2 s3))
             else pd_promote_kind db ts kind uses calibrated s
         | None \<Rightarrow> pd_promote_kind db ts kind uses static s)"

definition memory_promote :: "'s promo \<Rightarrow> 's \<Rightarrow> int \<times> 's" where
  "memory_promote pr s = add_up (promote_one pr) (take 16 (pd_kinds (pr_db pr) ''L1'' 16 s)) (0, s)"

definition days_back :: "int \<Rightarrow> string" where
  "days_back d = cbuf 16 (''-'' @ decimal d)"

definition demote_one :: "'s promo \<Rightarrow> string \<Rightarrow> 's \<Rightarrow> int \<times> 's" where
  "demote_one pr kind s =
     (let lc = pd_lifecycle (pr_db pr) kind s;
          effective_days = trunc_int (real_of_int (kl_demote_days lc) * kl_demotion_resistance lc)
      in pd_demote_kind (pr_db pr) (pr_now pr) kind (kl_demote_confidence lc) (days_back effective_days) s)"

definition memory_demote :: "'s promo \<Rightarrow> 's \<Rightarrow> int \<times> 's" where
  "memory_demote pr s =
     (case add_up (demote_one pr) (take 16 (pd_kinds (pr_db pr) ''L2'' 16 s)) (0, s) of
        (n, s') \<Rightarrow> (n, if 0 < n then pd_demote_cascade (pr_db pr) (pr_now pr) s' else s'))"

definition expire_one :: "'s promo \<Rightarrow> string \<Rightarrow> 's \<Rightarrow> int \<times> 's" where
  "expire_one pr kind s =
     (let days = days_back (kl_expire_days (pd_lifecycle (pr_db pr) kind s))
      in pd_delete_stale (pr_db pr) kind days (pd_stale_provenance (pr_db pr) kind days s))"

definition memory_expire :: "'s promo \<Rightarrow> 's \<Rightarrow> int \<times> 's" where
  "memory_expire pr s =
     (case pd_delete_l0 (pr_db pr) (pd_delete_l0_provenance (pr_db pr) s) of
        (n, s') \<Rightarrow> add_up (expire_one pr) (take 16 (pd_kinds (pr_db pr) ''L1'' 16 s')) (n, s'))"

subsection \<open>Failures\<close>

definition lowercase_copy :: "nat \<Rightarrow> string \<Rightarrow> string" where
  "lowercase_copy cap src = map tolower (cbuf cap src)"

definition append_unique_int64 :: "int list \<Rightarrow> int \<Rightarrow> int list" where
  "append_unique_int64 ids i = (if i \<in> set ids then ids else ids @ [i])"

definition matched_ids :: "'s promo \<Rightarrow> string list \<Rightarrow> 's \<Rightarrow> int list" where
  "matched_ids pr errors s =
     foldl (\<lambda>ids e. let lowered = lowercase_copy (pc_error_len (pr_cfg pr)) e
                    in if lowered = [] then ids
                       else foldl append_unique_int64 ids (take 256 (pd_match_error_keys (pr_db pr) lowered 256 s)))
       [] errors"

definition memory_demote_from_failures :: "'s promo \<Rightarrow> 's \<Rightarrow> int \<times> 's" where
  "memory_demote_from_failures pr s =
     (case pd_recent_errors (pr_db pr) of None \<Rightarrow> (0, s)
      | Some recent \<Rightarrow> add_up (pd_demote_id (pr_db pr)) (matched_ids pr (take 128 (recent 7 128 s)) s) (0, s))"

text \<open>The caller's row is the one on the stack; what it is filled with is not used.\<close>

definition learn :: "'s promo \<Rightarrow> string \<Rightarrow> string \<Rightarrow> string \<Rightarrow> string \<Rightarrow> real \<Rightarrow> 's \<Rightarrow> 's insertion" where
  "learn pr tier kind key content confidence s =
     insert_memory (pr_crud pr) tier kind key content confidence (Some []) (Some (pc_stack_row (pr_cfg pr))) s"

definition success_rate :: "delegation_pattern \<Rightarrow> real" where
  "success_rate p = (if 0 < dp_total p then real_of_int (dp_wins p) / real_of_int (dp_total p) else 0)"

text \<open>A failure count over no attempt is infinite, and more than half.\<close>

definition often_fails :: "delegation_pattern \<Rightarrow> bool" where
  "often_fails p \<longleftrightarrow>
     3 \<le> dp_fails p \<and> (dp_total p = 0 \<or> 5 / 10 \<le> real_of_int (dp_fails p) / real_of_int (dp_total p))"

definition reliable_fact :: "delegation_pattern \<Rightarrow> string \<times> string" where
  "reliable_fact p =
     (cbuf 256 (''delegate_pattern_'' @ dp_role p @ ''_'' @ dp_agent p),
      cbuf 1024 (''Delegation ['' @ dp_role p @ ''] via '' @ dp_agent p @ '' reliably succeeds ('' @ decimal (dp_wins p) @
        ''/'' @ decimal (dp_total p) @ '' attempts, avg '' @ decimal (dp_avg_turns p) @ '' turns, '' @
        decimal (dp_avg_tools p) @ '' tool calls).''))"

definition failing_fact :: "delegation_pattern \<Rightarrow> string \<times> string" where
  "failing_fact p =
     (cbuf 256 (''delegate_warning_'' @ dp_role p @ ''_'' @ dp_agent p),
      cbuf 1024 (''Delegation ['' @ dp_role p @ ''] via '' @ dp_agent p @ '' often fails ('' @ decimal (dp_fails p) @
        ''/'' @ decimal (dp_total p) @ '' attempts). Recent error: '' @
        (if dp_recent_error p \<noteq> [] then dp_recent_error p else ''unknown'')))"

definition pattern_facts :: "delegation_pattern \<Rightarrow> (string \<times> string \<times> real) list" where
  "pattern_facts p =
     (if 7 / 10 \<le> success_rate p then [(fst (reliable_fact p), snd (reliable_fact p), success_rate p)] else []) @
     (if often_fails p then [(fst (failing_fact p), snd (failing_fact p), 8 / 10)] else [])"

definition learn_fact :: "'s promo \<Rightarrow> string \<times> string \<times> real \<Rightarrow> 's \<Rightarrow> int \<times> 's" where
  "learn_fact pr f s =
     (case f of (key, content, conf) \<Rightarrow> (1, snd (snd (learn pr ''L2'' (pc_fact (pr_cfg pr)) key content conf s))))"

definition memory_promote_delegation_patterns :: "'s promo \<Rightarrow> 's \<Rightarrow> int \<times> 's" where
  "memory_promote_delegation_patterns pr s =
     (case pd_patterns (pr_db pr) of None \<Rightarrow> (0, s)
      | Some patterns \<Rightarrow> add_up (learn_fact pr) (concat (map pattern_facts (take 128 (patterns 30 3 128 s)))) (0, s))"

definition episode_key :: "'s promo \<Rightarrow> episode_seed \<Rightarrow> string" where
  "episode_key pr e = cbuf 256 (''failure_episode_'' @ es_role e @ ''_'' @ es_agent e @ ''_'' @ take 10 (pr_now pr))"

definition episode_content :: "'s promo \<Rightarrow> episode_seed \<Rightarrow> string" where
  "episode_content pr e =
     cbuf 1024 (''Delegation ['' @ es_role e @ ''] via '' @ es_agent e @ '' failed '' @ decimal (es_fails e) @ '' times in '' @
       decimal (pc_episode_window (pr_cfg pr)) @ '' days. Errors: '' @
       (if es_errors e \<noteq> [] then take 500 (es_errors e) else ''unknown'') @
       ''. Avoid repeating this pattern without addressing the root cause.'')"

definition episode_one :: "'s promo \<Rightarrow> episode_seed \<Rightarrow> 's \<Rightarrow> int \<times> 's" where
  "episode_one pr e s =
     (if pd_key_exists (pr_db pr) (episode_key pr e) s then (0, s)
      else case learn pr ''L3'' (pc_episode (pr_cfg pr)) (episode_key pr e) (episode_content pr e) (7 / 10) s of
             (ok, _, s') \<Rightarrow> (if ok then 1 else 0, s'))"

definition memory_synthesize_failure_episodes :: "'s promo \<Rightarrow> 's \<Rightarrow> int \<times> 's" where
  "memory_synthesize_failure_episodes pr s =
     (case pd_episode_seeds (pr_db pr) of None \<Rightarrow> (0, s)
      | Some seeds \<Rightarrow>
          add_up (episode_one pr)
            (take 128 (seeds (pc_episode_window (pr_cfg pr)) (pc_episode_min (pr_cfg pr)) 128 s)) (0, s))"

definition embed_unembedded_l2 :: "'s promo \<Rightarrow> 's \<Rightarrow> 's" where
  "embed_unembedded_l2 pr s =
     (let ver = (if pc_embed_model (pr_cfg pr) \<noteq> [] then pc_embed_model (pr_cfg pr) else pc_embed_command (pr_cfg pr))
      in foldl (\<lambda>t i. snd (pd_memory_embed (pr_db pr) i (Some (pc_embed_command (pr_cfg pr))) t)) s
           (take 50 (pd_unembedded (pr_db pr) ver 50 s)))"

subsection \<open>The upper tiers\<close>

text \<open>The functional names of the tiers are strings of a header.\<close>

record tier_names =
  tn_L0 :: string
  tn_L2 :: string
  tn_L3 :: string
  tn_L4 :: string
  tn_L5 :: string

definition memory_functional_tier_name :: "tier_names \<Rightarrow> cptr \<Rightarrow> string" where
  "memory_functional_tier_name tn tier =
     (case tier of None \<Rightarrow> ''Unknown''
      | Some t \<Rightarrow> if t = ''L0'' \<or> t = ''L1'' then tn_L0 tn else if t = ''L2'' then tn_L2 tn else if t = ''L3'' then tn_L3 tn
          else if t = ''L4'' then tn_L4 tn else if t = ''L5'' then tn_L5 tn else ''Unknown'')"

definition memory_reclassify_directives_ex :: "'s promo \<Rightarrow> bool \<Rightarrow> 's \<Rightarrow> int \<times> 's" where
  "memory_reclassify_directives_ex pr require_approval s =
     (case pd_reclassify (pr_db pr) require_approval s of (n, s') \<Rightarrow> (if n < 0 then -1 else n, s'))"

definition memory_reclassify_directives :: "'s promo \<Rightarrow> 's \<Rightarrow> int \<times> 's" where
  "memory_reclassify_directives pr s = memory_reclassify_directives_ex pr False s"

definition l5_confidence :: "int \<Rightarrow> real" where
  "l5_confidence sessions =
     (let c = 85 / 100 + 1 / 100 * real_of_int (sessions - 3) in if 95 / 100 < c then 95 / 100 else c)"

definition l5_content :: "l5_candidate \<Rightarrow> string" where
  "l5_content c =
     cbuf 1024 (''Pattern observed across '' @ decimal (lc_session_count c) @ '' sessions: '' @ take 400 (lc_src_content c))"

definition mdl_features :: "promo_config \<Rightarrow> real \<times> real \<times> real \<times> int \<Rightarrow> string" where
  "mdl_features cfg m =
     (case m of (candidate, residual, whole, rank) \<Rightarrow>
        cbuf 256 (''{\"mdl.l_candidate\":'' @ pc_two_places cfg candidate @ '',\"mdl.l_residual\":'' @
          pc_two_places cfg residual @ '',\"mdl.total\":'' @ pc_two_places cfg whole @ '',\"mdl.rank_in_cluster\":'' @
          decimal rank @ ''}''))"

text \<open>The zeroed row an L5 synthesis hands to the insertion.\<close>

definition zero_memory :: memory_t where
  "zero_memory = \<lparr>m_id = 0, m_tier = [], m_kind = [], m_key = [], m_content = [], m_use_cases = [], m_source_session = [],
     m_created_at = [], m_provenance = [], m_confidence = 0, m_retrieval_score = 0, m_hybrid_rank = 0\<rparr>"

definition synthesize_one :: "'s promo \<Rightarrow> l5_candidate \<Rightarrow> 's \<Rightarrow> int \<times> 's" where
  "synthesize_one pr c s =
     (if lc_src_key c = [] \<or> lc_src_content c = [] then (0, s)
      else case insert_memory (pr_crud pr) ''L5'' (pc_fact (pr_cfg pr)) (cbuf 256 (''pattern_'' @ take 200 (lc_src_key c)))
                  (l5_content c) (l5_confidence (lc_session_count c)) (Some []) (Some zero_memory) s of
             (ok, out, s1) \<Rightarrow>
               if \<not> ok then (0, s1)
               else let new_id = (case out of None \<Rightarrow> 0 | Some m \<Rightarrow> m_id m);
                        s2 = snd (cd_link (cr_db (pr_crud pr)) new_id (lc_source_id c) ''synthesizes'' s1)
                    in (1, case pd_mdl (pr_db pr) (l5_content c) (lc_src_content c) of None \<Rightarrow> s2
                           | Some m \<Rightarrow> pd_feature (pr_db pr) (decimal new_id) (mdl_features (pr_cfg pr) m) s2))"

text \<open>\<open>-1\<close> when the candidates cannot be read.\<close>

definition memory_synthesize_l5_patterns :: "'s promo \<Rightarrow> 's \<Rightarrow> int \<times> 's" where
  "memory_synthesize_l5_patterns pr s =
     (case pd_l5_candidates (pr_db pr) 20 s of None \<Rightarrow> (-1, s)
      | Some cands \<Rightarrow> add_up (synthesize_one pr) (take 20 cands) (0, s))"

definition memory_promote_stable_l2_to_l3 :: "'s promo \<Rightarrow> 's \<Rightarrow> int \<times> 's" where
  "memory_promote_stable_l2_to_l3 pr s = pd_promote_stable (pr_db pr) (pr_now pr) s"

definition memory_approve_l4_promotion :: "'s promo \<Rightarrow> int \<Rightarrow> cptr \<Rightarrow> cptr \<Rightarrow> 's \<Rightarrow> bool \<times> 's" where
  "memory_approve_l4_promotion pr i approver note' s = pd_record_approval (pr_db pr) i approver note' s"

definition memory_lineage_insert :: "'s promo \<Rightarrow> cptr \<Rightarrow> int \<Rightarrow> cptr \<Rightarrow> cptr \<Rightarrow> real \<Rightarrow> 's \<Rightarrow> int \<times> 's" where
  "memory_lineage_insert pr object_type object_id source_kind source_ref confidence s =
     pd_lineage_insert (pr_db pr) object_type object_id source_kind source_ref confidence s"

definition memory_lineage_get :: "'s promo \<Rightarrow> string \<Rightarrow> int \<Rightarrow> nat \<Rightarrow> 's \<Rightarrow> lineage_row list" where
  "memory_lineage_get pr object_type object_id mx s = pd_lineage (pr_db pr) object_type object_id mx s"

subsection \<open>Citing a memory\<close>

text \<open>A number node, as the printer of cJSON takes it.\<close>

definition lineage_node :: "(real \<Rightarrow> cjson) \<Rightarrow> lineage_row \<Rightarrow> cjson" where
  "lineage_node num l =
     JObject [(''lineage_id'', num (real_of_int (ln_id l))), (''source_kind'', JString (ln_source_kind l)),
       (''source_ref'', JString (ln_source_ref l)), (''ingested_at'', JString (ln_ingested_at l)),
       (''confidence'', num (ln_confidence l))]"

definition left_justified :: "nat \<Rightarrow> string \<Rightarrow> string" where
  "left_justified w s = s @ replicate (w - length s) (CHR '' '')"

definition lineage_line :: "promo_config \<Rightarrow> nat \<times> lineage_row \<Rightarrow> string" where
  "lineage_line cfg il =
     (case il of (i, l) \<Rightarrow>
        ''    ['' @ decimal (int i + 1) @ ''] kind='' @ left_justified 12 (ln_source_kind l) @ '' ref='' @
        left_justified 48 (if ln_source_ref l \<noteq> [] then ln_source_ref l else ''(none)'') @ '' ingested='' @ ln_ingested_at l @
        '' conf='' @ pc_two_places cfg (ln_confidence l) @ ''\<newline>'')"

record citation =
  ct_key :: string
  ct_tier :: string
  ct_created :: string
  ct_provenance :: "string \<times> string \<times> string"
  ct_lineage :: "lineage_row list"

definition citation_of :: "'s promo \<Rightarrow> int \<Rightarrow> 's \<Rightarrow> citation" where
  "citation_of pr i s =
     (let m = cd_get (cr_db (pr_crud pr)) i s;
          field = (\<lambda>n f. case m of None \<Rightarrow> [] | Some r \<Rightarrow> cbuf n (f r));
          prov = (case pd_provenance_list (pr_db pr) i 1 s of [] \<Rightarrow> ([], [], [])
                  | (a, b, c) # _ \<Rightarrow> (cbuf 256 a, cbuf 64 b, cbuf 512 c))
      in \<lparr>ct_key = field 512 m_key, ct_tier = field 16 m_tier, ct_created = field 32 m_created_at,
          ct_provenance = prov, ct_lineage = take 32 (memory_lineage_get pr ''memory'' i 32 s)\<rparr>)"

definition citation_json :: "(real \<Rightarrow> cjson) \<Rightarrow> int \<Rightarrow> citation \<Rightarrow> cjson" where
  "citation_json num i c =
     (case ct_provenance c of (session, action, details) \<Rightarrow>
        JObject ([(''id'', num (real_of_int i)), (''key'', JString (ct_key c)), (''tier'', JString (ct_tier c)),
             (''created_at'', JString (ct_created c))] @
          (if session \<noteq> []
           then [(''provenance'', JObject [(''session_id'', JString session), (''action'', JString action),
                   (''details'', JString details)])]
           else []) @
          [(''lineage'', JArray (map (lineage_node num) (ct_lineage c)))]))"

definition citation_text :: "promo_config \<Rightarrow> int \<Rightarrow> citation \<Rightarrow> string" where
  "citation_text cfg i c =
     (case ct_provenance c of (session, action, details) \<Rightarrow>
        ''Memory #'' @ decimal i @ '': '' @ (if ct_key c \<noteq> [] then ct_key c else ''(not found)'') @ ''  ['' @ ct_tier c @
        '']  created '' @ ct_created c @ ''\<newline>'' @
        (if session \<noteq> []
         then ''  Provenance: session='' @ session @ '' action='' @ action @ '' details='' @ details @ ''\<newline>'' else []) @
        (if ct_lineage c \<noteq> []
         then ''  Lineage chain:\<newline>'' @ concat (map (lineage_line cfg) (zip [0..<length (ct_lineage c)] (ct_lineage c)))
         else ''  No lineage records.\<newline>''))"

text \<open>What is printed: a tree for the JSON printer, or text; nothing for no id.\<close>

definition memory_cite :: "'s promo \<Rightarrow> (real \<Rightarrow> cjson) \<Rightarrow> int \<Rightarrow> bool \<Rightarrow> 's \<Rightarrow> (cjson + string) option" where
  "memory_cite pr num i json_out s =
     (if i \<le> 0 then None
      else let c = citation_of pr i s
           in Some (if json_out then Inl (citation_json num i c) else Inr (citation_text (pr_cfg pr) i c)))"

subsection \<open>Facts about the life of a kind\<close>

text \<open>The counts of a pass are what its steps report, in any grouping.\<close>

lemma add_up_Nil [simp]: "add_up f [] st = st"
  and add_up_Cons [simp]: "add_up f (x # xs) (n, s) = add_up f xs (n + fst (f x s), snd (f x s))"
  by (simp_all add: add_up_def case_prod_unfold)

lemma add_up_append: "add_up f (xs @ ys) st = add_up f ys (add_up f xs st)"
  by (simp add: add_up_def)

lemma add_up_nonneg:
  "(\<And>x s. 0 \<le> fst (f x s)) \<Longrightarrow> n \<le> fst (add_up f xs (n, s))"
proof (induction xs arbitrary: n s)
  case (Cons x xs)
  have "n \<le> n + fst (f x s)" using Cons.prems [of x s] by simp
  also have "\<dots> \<le> fst (add_up f xs (n + fst (f x s), snd (f x s)))" by (rule Cons.IH) (rule Cons.prems)
  finally show ?case by simp
qed simp

lemma set_append_unique: "set (foldl append_unique_int64 ids xs) = set ids \<union> set xs"
  by (induction xs arbitrary: ids) (auto simp: append_unique_int64_def)

lemma distinct_append_unique: "distinct ids \<Longrightarrow> distinct (foldl append_unique_int64 ids xs)"
  by (induction xs arbitrary: ids) (auto simp: append_unique_int64_def)

text \<open>A memory is demoted once for all the errors it occurs in.\<close>

lemma matched_ids_distinct: "distinct (matched_ids pr errors s)"
proof -
  have "distinct ids \<Longrightarrow> distinct (foldl (\<lambda>ids e. let lowered = lowercase_copy (pc_error_len (pr_cfg pr)) e
      in if lowered = [] then ids
         else foldl append_unique_int64 ids (take 256 (pd_match_error_keys (pr_db pr) lowered 256 s))) ids errors)" for ids
    by (induction errors arbitrary: ids) (simp_all add: Let_def distinct_append_unique)
  then show ?thesis by (simp add: matched_ids_def)
qed

lemma l5_confidence_bounds: "3 \<le> n \<Longrightarrow> 85 / 100 \<le> l5_confidence n \<and> l5_confidence n \<le> 95 / 100"
  by (auto simp: l5_confidence_def Let_def)

lemma success_rate_bounds: "0 \<le> dp_wins p \<Longrightarrow> dp_wins p \<le> dp_total p \<Longrightarrow> 0 \<le> success_rate p \<and> success_rate p \<le> 1"
  by (auto simp: success_rate_def)

text \<open>The resistance of a kind stretches the days before a demotion.\<close>

lemma effective_days_mono:
  "0 \<le> d \<Longrightarrow> 0 \<le> r \<Longrightarrow> r \<le> r' \<Longrightarrow> trunc_int (real_of_int d * r) \<le> trunc_int (real_of_int d * r')"
  by (auto simp: trunc_int_def intro!: floor_mono mult_left_mono)

end
