(* ===== verification/Conflict.thy ===== *)
theory Conflict
  imports Promotion Directives
begin

text \<open>
  Folding a session and conflicts between memories (\<open>memory_conflict.c\<close>).  The state is that of
  the store with the counters of the directives, which a recorded conflict opens and a resolved
  one closes.  A copy of a negative number of bytes is the fault \<open>None\<close>.
\<close>

record l0_row =
  l0_key :: string
  l0_content :: string

record memory_pair =
  mp_id_a :: int
  mp_id_b :: int
  mp_content_a :: string
  mp_content_b :: string

record conflict_config =
  cf_episode :: string
  cf_max_pairs :: nat
  cf_min_l2 :: int
  cf_interval :: int

record 's conflict_db =
  kd_l0_list :: "string \<Rightarrow> nat \<Rightarrow> 's \<Rightarrow> l0_row list"
  kd_l0_purge :: "string \<Rightarrow> 's \<Rightarrow> 's"
  kd_by_key :: "string \<Rightarrow> nat \<Rightarrow> 's \<Rightarrow> (int \<times> string) list"
  kd_record :: "int \<Rightarrow> int \<Rightarrow> 's \<Rightarrow> bool \<times> 's"
  kd_log :: "int \<Rightarrow> int \<Rightarrow> cptr \<Rightarrow> cptr \<Rightarrow> 's \<Rightarrow> 's"
  kd_last_scan :: "'s \<Rightarrow> string option"
  kd_count_l2 :: "'s \<Rightarrow> int"
  kd_cross_key :: "nat \<Rightarrow> 's \<Rightarrow> memory_pair list"
  kd_fact_decision :: "nat \<Rightarrow> 's \<Rightarrow> memory_pair list"
  kd_scan_marker :: "string \<Rightarrow> 's \<Rightarrow> 's"
  kd_list :: "nat \<Rightarrow> 's \<Rightarrow> (int \<times> int \<times> int) list"
  kd_pair :: "int \<Rightarrow> 's \<Rightarrow> (int \<times> int) option"
  kd_resolve :: "int \<Rightarrow> cptr \<Rightarrow> 's \<Rightarrow> int \<times> 's"

record 's conflict_env =
  ke_crud :: "'s crud"
  ke_cfg :: conflict_config
  ke_db :: "'s conflict_db"
  ke_dir_cfg :: directive_config
  ke_dir_db :: "'s directive_db"

subsection \<open>Folding a session\<close>

text \<open>The checkpoint in 200 bytes, the number of rows in it; the index arithmetic is the code's.\<close>

fun fold_rows :: "string \<Rightarrow> nat \<Rightarrow> string list \<Rightarrow> (string \<times> nat) option" where
  "fold_rows checkpoint n [] = Some (checkpoint, n)"
| "fold_rows checkpoint n (t # ts) =
     (let pos = int (length checkpoint); remaining = 200 - pos - 3
      in if remaining \<le> 0 then Some (checkpoint, n)
         else let remaining' = (if 0 < pos then remaining - 2 else remaining);
                  checkpoint' = (if 0 < pos then checkpoint @ ''; '' else checkpoint);
                  len = (if remaining' < int (length t) then remaining' else int (length t))
              in if len < 0 then None else fold_rows (checkpoint' @ take (nat len) t) (n + 1) ts)"

definition row_texts :: "l0_row list \<Rightarrow> string list" where
  "row_texts rows =
     map (\<lambda>r. if l0_content r \<noteq> [] then l0_content r else l0_key r) (filter (\<lambda>r. l0_key r \<noteq> []) rows)"

text \<open>
  The outcome: the code's 0 and -1 as True and False, and the summary the caller gets in its buffer.
  The rows are purged whether or not the episode could be inserted.
\<close>

definition memory_fold_session ::
    "'s conflict_env \<Rightarrow> cptr \<Rightarrow> nat \<Rightarrow> 's \<Rightarrow> (bool \<times> string \<times> 's) option" where
  "memory_fold_session ke session_id summary_len s =
     (case session_id of None \<Rightarrow> Some (False, [], s)
      | Some sid \<Rightarrow>
          (case fold_rows [] 0 (row_texts (take 64 (kd_l0_list (ke_db ke) sid 64 s))) of None \<Rightarrow> None
           | Some (checkpoint, n) \<Rightarrow>
               if n = 0 then Some (True, [], s)
               else let s1 = snd (snd (insert_memory (ke_crud ke) ''L1'' (cf_episode (ke_cfg ke)) (cbuf 256 (''session:'' @ sid))
                                  checkpoint (8 / 10) (Some sid) None s))
                    in Some (True, cbuf summary_len checkpoint, kd_l0_purge (ke_db ke) sid s1)))"

subsection \<open>Conflicts\<close>

definition memory_detect_conflict :: "'s conflict_env \<Rightarrow> cptr \<Rightarrow> cptr \<Rightarrow> 's \<Rightarrow> int" where
  "memory_detect_conflict ke key content s =
     (case (key, content) of
        (Some k, Some c) \<Rightarrow>
          (case find (\<lambda>r. ct_contradiction (cr_txt (ke_crud ke)) (snd r) c) (take 64 (kd_by_key (ke_db ke) k 64 s)) of
             None \<Rightarrow> 0 | Some r \<Rightarrow> fst r)
      | _ \<Rightarrow> 0)"

definition memory_log_contradiction :: "'s conflict_env \<Rightarrow> int \<Rightarrow> int \<Rightarrow> cptr \<Rightarrow> cptr \<Rightarrow> 's \<Rightarrow> 's" where
  "memory_log_contradiction ke a b resolution details s = kd_log (ke_db ke) a b resolution details s"

text \<open>A recorded conflict is logged, linked and asked about.\<close>

definition memory_record_conflict ::
    "'s conflict_env \<Rightarrow> int \<Rightarrow> int \<Rightarrow> directive_metrics \<times> 's \<Rightarrow> bool \<times> directive_metrics \<times> 's" where
  "memory_record_conflict ke a b ms =
     (case ms of (m, s) \<Rightarrow>
        case kd_record (ke_db ke) a b s of (ok, s1) \<Rightarrow>
          if \<not> ok then (False, m, s1)
          else let s2 = memory_log_contradiction ke a b (Some ''pending'') None s1;
                   s3 = snd (cd_link (cr_db (ke_crud ke)) a b ''contradicts'' s2);
                   ra = memory_get (cr_db (ke_crud ke)) a s3;
                   rb = memory_get (cr_db (ke_crud ke)) b s3;
                   key_a = (case ra of None \<Rightarrow> ''this'' | Some r \<Rightarrow> m_key r);
                   content_a = (case ra of None \<Rightarrow> [] | Some r \<Rightarrow> m_content r);
                   content_b = (case rb of None \<Rightarrow> [] | Some r \<Rightarrow> m_content r)
               in (True, snd (memory_directive_record_contradiction (ke_dir_cfg ke) (ke_dir_db ke) a b (Some key_a)
                                (Some []) (Some content_a) (Some content_b) (Some []) (m, s3))))"

text \<open>\<open>stamp\<close> reads a time stamp, \<open>now\<close> is the clock.\<close>

definition retro_scan_due :: "'s conflict_env \<Rightarrow> (string \<Rightarrow> int) \<Rightarrow> int \<Rightarrow> 's \<Rightarrow> bool" where
  "retro_scan_due ke stamp now s =
     (case kd_last_scan (ke_db ke) s of None \<Rightarrow> True
      | Some last_scan \<Rightarrow>
          \<not> (0 < stamp last_scan \<and> stamp last_scan < now \<and> now - stamp last_scan < cf_interval (ke_cfg ke)))"

definition record_pairs ::
    "'s conflict_env \<Rightarrow> memory_pair list \<Rightarrow> int \<times> directive_metrics \<times> 's \<Rightarrow> int \<times> directive_metrics \<times> 's" where
  "record_pairs ke pairs st =
     foldl (\<lambda>(n, ms) p. if ct_contradiction (cr_txt (ke_crud ke)) (mp_content_a p) (mp_content_b p)
                        then (n + 1, snd (memory_record_conflict ke (mp_id_a p) (mp_id_b p) ms)) else (n, ms)) st pairs"

definition memory_scan_retroactive_conflicts ::
    "'s conflict_env \<Rightarrow> (string \<Rightarrow> int) \<Rightarrow> int \<Rightarrow> directive_metrics \<times> 's \<Rightarrow> int \<times> directive_metrics \<times> 's" where
  "memory_scan_retroactive_conflicts ke stamp now ms =
     (if \<not> retro_scan_due ke stamp now (snd ms) \<or> kd_count_l2 (ke_db ke) (snd ms) < cf_min_l2 (ke_cfg ke) then (0, ms)
      else let mx = cf_max_pairs (ke_cfg ke);
               st1 = record_pairs ke (take mx (kd_cross_key (ke_db ke) mx (snd ms))) (0, ms);
               (n, m, s) = record_pairs ke (take mx (kd_fact_decision (ke_db ke) mx (snd (snd st1)))) st1
           in (n, m, kd_scan_marker (ke_db ke) (cc_now (cr_cfg (ke_crud ke))) s))"

definition memory_list_conflicts :: "'s conflict_env \<Rightarrow> nat \<Rightarrow> 's \<Rightarrow> (int \<times> int \<times> int) list" where
  "memory_list_conflicts ke mx s = kd_list (ke_db ke) mx s"

definition memory_resolve_conflict ::
    "'s conflict_env \<Rightarrow> int \<Rightarrow> cptr \<Rightarrow> directive_metrics \<times> 's \<Rightarrow> bool \<times> directive_metrics \<times> 's" where
  "memory_resolve_conflict ke conflict_id resolution ms =
     (case ms of (m, s) \<Rightarrow>
        let (a, b) = (case kd_pair (ke_db ke) conflict_id s of None \<Rightarrow> (0, 0) | Some p \<Rightarrow> p)
        in case kd_resolve (ke_db ke) conflict_id resolution s of (changes, s1) \<Rightarrow>
             if changes \<le> 0 then (False, m, s1)
             else if 0 < a
             then let s2 = memory_log_contradiction ke a b
                             (Some (case resolution of None \<Rightarrow> ''resolved'' | Some r \<Rightarrow> r)) None s1
                  in (True, snd (memory_directive_resolve_contradiction (ke_dir_db ke) a b 0 (m, s2)))
             else (True, m, s1))"

subsection \<open>What the checkpoint holds\<close>

text \<open>The rows of a session as one text.\<close>

definition tail_text :: "string list \<Rightarrow> string" where
  "tail_text us = concat (map (\<lambda>u. ''; '' @ u) us)"

definition digest :: "string list \<Rightarrow> string" where
  "digest ts = (case ts of [] \<Rightarrow> [] | t # us \<Rightarrow> t @ tail_text us)"

lemma tail_text_simps [simp]: "tail_text [] = []" "tail_text (u # us) = ''; '' @ u @ tail_text us"
  by (simp_all add: tail_text_def)

lemma digest_Cons: "digest (t # us) = t @ tail_text us"
  by (simp add: digest_def)

text \<open>The length of a row boundary at which the separator overruns the room that is left.\<close>

definition bad_boundary :: "nat \<Rightarrow> string list \<Rightarrow> bool" where
  "bad_boundary pos us \<longleftrightarrow> (\<exists>k < length us. pos + length (tail_text (take k us)) = 196)"

lemma bad_boundary_Cons: "bad_boundary pos (u # us) \<longleftrightarrow> pos = 196 \<or> bad_boundary (pos + 2 + length u) us"
proof -
  have "(\<exists>k < length (u # us). pos + length (tail_text (take k (u # us))) = 196) \<longleftrightarrow>
      pos = 196 \<or> (\<exists>k < length us. pos + 2 + length u + length (tail_text (take k us)) = 196)"
    by (auto simp: less_Suc_eq_0_disj add.assoc)
  then show ?thesis by (simp only: bad_boundary_def)
qed

lemma bad_boundary_late: "197 \<le> pos \<Longrightarrow> \<not> bad_boundary pos us"
  by (auto simp: bad_boundary_def)

lemma fold_rows_full: "length c = 197 \<Longrightarrow> fold_rows c n us = Some (c, n)"
  by (cases us) simp_all

lemma fold_rows_tail:
  "c \<noteq> [] \<Longrightarrow> length c \<le> 197 \<Longrightarrow>
     map_option fst (fold_rows c n us) = (if bad_boundary (length c) us then None else Some (take 197 (c @ tail_text us)))"
proof (induction us arbitrary: c n)
  case Nil
  then show ?case by (simp add: bad_boundary_def)
next
  case (Cons u us)
  consider (full) "length c = 197" | (bad) "length c = 196" | (fits) "length c < 196" "length c + 2 + length u \<le> 197"
    | (cut) "length c < 196" "197 < length c + 2 + length u"
    using Cons.prems(2) by linarith
  then show ?case
  proof cases
    case full
    then show ?thesis by (simp add: bad_boundary_late)
  next
    case bad
    then show ?thesis using Cons.prems(1) by (simp add: bad_boundary_Cons Let_def)
  next
    case fits
    have step: "fold_rows c n (u # us) = fold_rows (c @ ''; '' @ u) (n + 1) us"
      using fits Cons.prems(1) by (simp add: Let_def)
    show ?thesis
      unfolding step using Cons.IH [of "c @ ''; '' @ u" "n + 1"] fits
      by (simp add: bad_boundary_Cons)
  next
    case cut
    let ?c = "c @ ''; '' @ take (195 - length c) u"
    have len: "length ?c = 197" using cut by simp
    have step: "fold_rows c n (u # us) = fold_rows ?c (n + 1) us"
      using cut Cons.prems(1) by (simp add: Let_def nat_diff_distrib)
    have n: "197 - length c = Suc (Suc (195 - length c))" using cut(1) by simp
    have cut_text: "take 197 (c @ tail_text (u # us)) = ?c"
      using cut by (simp add: n)
    have "\<not> bad_boundary (length c) (u # us)"
      using cut by (simp add: bad_boundary_Cons bad_boundary_late)
    then show ?thesis
      unfolding step fold_rows_full [OF len] cut_text by simp
  qed
qed

lemma fold_rows_spec:
  assumes "[] \<notin> set ts"
  shows "map_option fst (fold_rows [] 0 ts) =
    (if ts \<noteq> [] \<and> bad_boundary (length (hd ts)) (tl ts) then None else Some (take 197 (digest ts)))"
proof (cases ts)
  case (Cons t us)
  have step: "fold_rows [] 0 ts = fold_rows (take 197 t) 1 us"
    by (simp add: Cons Let_def)
  show ?thesis
  proof (cases "length t \<le> 197")
    case True
    then show ?thesis
      unfolding step using fold_rows_tail [of t 1 us] assms by (auto simp: Cons digest_Cons split: if_splits)
  next
    case False
    then have l: "length (take 197 t) = 197" by simp
    show ?thesis unfolding step using False by (simp add: fold_rows_full [OF l] Cons digest_Cons bad_boundary_late)
  qed
qed (simp add: digest_def)

lemma fold_rows_count: "fold_rows c n ts = Some (c', m) \<Longrightarrow> n \<le> m \<and> (ts \<noteq> [] \<and> c = [] \<longrightarrow> n < m)"
proof (induction ts arbitrary: c n)
  case (Cons t ts)
  then show ?case by (fastforce simp: Let_def split: if_splits)
qed simp

end
