(* ===== verification/Health.thy ===== *)
theory Health
  imports Conflict
begin

text \<open>
  Health of the store (\<open>memory_health.c\<close>): the quiet-lane alarm, the effectiveness of memories
  over the sessions they were shown in, retention, the consolidation of session chains, the
  maintenance pass that calls all of them, and the health rates.

  The state of the process is the counter of quiet cycles with the counters of the directives;
  the store is \<open>'s\<close>.  The clock, the parser of time stamps and the operations of other programs
  (conventions of the knowledge base, pruning of the graph) are fields of \<open>health_env\<close>.
\<close>

record health_config =
  hc_min_samples :: int
  hc_demote_threshold :: real
  hc_restricted_days :: int
  hc_sensitive_days :: int
  hc_use_count :: int
  hc_confidence :: real
  hc_session_len :: nat

text \<open>The weakly linked snapshot calls: all present, or the effectiveness is not computed.\<close>

record 's snapshot_db =
  sn_count :: "int \<Rightarrow> 's \<Rightarrow> int"
  sn_ids :: "int \<Rightarrow> nat \<Rightarrow> 's \<Rightarrow> int list"
  sn_count_for :: "int \<Rightarrow> 's \<Rightarrow> int"
  sn_sessions :: "int \<Rightarrow> nat \<Rightarrow> 's \<Rightarrow> string list"

record health_counters =
  hq_cycles :: int
  hq_contradictions :: int
  hq_promotions :: int
  hq_demotions :: int
  hq_expirations :: int
  hq_new_memories :: int
  hq_l1_eligible :: int
  hq_l2_total :: int
  hq_l2_stale :: int

record 's health_db =
  hd_snapshots :: "'s snapshot_db option"
  hd_outcome :: "(string \<Rightarrow> 's \<Rightarrow> string option) option"
  hd_set_effectiveness :: "int \<Rightarrow> real \<Rightarrow> 's \<Rightarrow> 's"
  hd_clear_effectiveness :: "int \<Rightarrow> 's \<Rightarrow> 's"
  hd_demote_low :: "real \<Rightarrow> 's \<Rightarrow> int \<times> 's"
  hd_stats :: "real \<Rightarrow> 's \<Rightarrow> (real \<times> int \<times> int) option"
  hd_l2_ids :: "nat \<Rightarrow> 's \<Rightarrow> int list"
  hd_has_memory :: "(int \<Rightarrow> 's \<Rightarrow> bool) option"
  hd_delete_sensitive :: "string \<Rightarrow> int \<Rightarrow> 's \<Rightarrow> int \<times> 's"
  hd_clusters :: "nat \<Rightarrow> 's \<Rightarrow> string list"
  hd_created_at :: "string \<Rightarrow> nat \<Rightarrow> 's \<Rightarrow> string list"
  hd_content :: "string \<Rightarrow> nat \<Rightarrow> 's \<Rightarrow> string list"
  hd_pending :: "'s \<Rightarrow> int option"
  hd_conventions :: "'s \<Rightarrow> int \<times> 's"
  hd_count :: "'s \<Rightarrow> int"
  hd_recent_conflicts :: "int \<Rightarrow> 's \<Rightarrow> int"
  hd_record :: "int \<Rightarrow> int \<Rightarrow> int \<Rightarrow> int \<Rightarrow> int \<Rightarrow> 's \<Rightarrow> 's"
  hd_prune :: "int \<Rightarrow> 's \<Rightarrow> 's"
  hd_prune_contradictions :: "int \<Rightarrow> 's \<Rightarrow> 's"
  hd_graph_prune :: "'s \<Rightarrow> 's"
  hd_graph_normalize :: "'s \<Rightarrow> 's"
  hd_counters :: "int \<Rightarrow> real \<Rightarrow> 's \<Rightarrow> health_counters option"

record 's health_env =
  he_promo :: "'s promo"
  he_conflict :: "'s conflict_env"
  he_rows :: "'s row_db"
  he_cfg :: health_config
  he_db :: "'s health_db"
  he_stamp :: "string \<Rightarrow> int"
  he_now :: int

definition he_crud :: "'s health_env \<Rightarrow> 's crud" where
  "he_crud he = pr_crud (he_promo he)"

subsection \<open>The quiet lane\<close>

definition memory_quiet_lane_alarm :: "int \<Rightarrow> int \<Rightarrow> int \<Rightarrow> bool" where
  "memory_quiet_lane_alarm changes pending consecutive_quiet \<longleftrightarrow>
     (if 0 < changes then False else if pending \<le> 0 then False else 3 \<le> consecutive_quiet)"

text \<open>The counter after a cycle, and whether it alarms; \<open>pending = None\<close> when it cannot be counted.\<close>

definition memory_note_cycle_output :: "int \<Rightarrow> int \<Rightarrow> int \<Rightarrow> int option \<Rightarrow> int \<Rightarrow> bool \<times> int" where
  "memory_note_cycle_output promoted demoted expired pending run =
     (let changes = promoted + demoted + expired
      in if 0 < changes then (False, 0)
         else (case pending of None \<Rightarrow> False | Some p \<Rightarrow> memory_quiet_lane_alarm changes p (run + 1), run + 1))"

definition memory_quiet_cycles :: "int \<Rightarrow> int" where
  "memory_quiet_cycles run = run"

subsection \<open>Effectiveness\<close>

definition mh_is_within_days :: "'s health_env \<Rightarrow> string \<Rightarrow> int \<Rightarrow> bool" where
  "mh_is_within_days he t days \<longleftrightarrow> he_stamp he t \<noteq> 0 \<and> he_now he - he_stamp he t \<le> days * 86400"

text \<open>1 a success, 0 another outcome, -1 none known.\<close>

definition session_outcome :: "'s health_env \<Rightarrow> 's \<Rightarrow> string \<Rightarrow> int" where
  "session_outcome he s sid =
     (case hd_outcome (he_db he) of None \<Rightarrow> -1
      | Some get \<Rightarrow> (case get sid s of None \<Rightarrow> -1
                   | Some r \<Rightarrow> if r = [] then -1 else if r = ''success'' then 1 else 0))"

definition mh_cached_session_outcome ::
    "'s health_env \<Rightarrow> 's \<Rightarrow> (string \<times> int) list \<Rightarrow> string \<Rightarrow> int \<times> (string \<times> int) list" where
  "mh_cached_session_outcome he s cache sid =
     (if sid = [] then (-1, cache)
      else case map_of cache sid of Some r \<Rightarrow> (r, cache)
           | None \<Rightarrow> let r = session_outcome he s sid in (r, cache @ [(cbuf (hc_session_len (he_cfg he)) sid, r)]))"

text \<open>The rated sessions of a memory and the successes among them.\<close>

fun rate_sessions ::
    "'s health_env \<Rightarrow> 's \<Rightarrow> string list \<Rightarrow> int \<times> int \<times> (string \<times> int) list \<Rightarrow> int \<times> int \<times> (string \<times> int) list" where
  "rate_sessions he s [] st = st"
| "rate_sessions he s (sid # sids) (rated, successes, cache) =
     (case mh_cached_session_outcome he s cache sid of
        (r, cache') \<Rightarrow> rate_sessions he s sids
          (if 0 \<le> r then rated + 1 else rated, if 0 < r then successes + 1 else successes, cache'))"

definition laplace :: "int \<Rightarrow> int \<Rightarrow> real" where
  "laplace successes rated = real_of_int (successes + 1) / real_of_int (rated + 2)"

definition rate_memory ::
    "'s health_env \<Rightarrow> 's snapshot_db \<Rightarrow> (string \<times> int) list \<times> 's \<Rightarrow> int \<Rightarrow> (string \<times> int) list \<times> 's" where
  "rate_memory he sn st i =
     (case st of (cache, s) \<Rightarrow>
        if sn_count_for sn i s \<le> 0 then (cache, s)
        else let n = nat (sn_count_for sn i s)
             in case rate_sessions he s (take n (sn_sessions sn i n s)) (0, 0, cache) of
                  (rated, successes, cache') \<Rightarrow>
                    (cache', if 0 < rated then hd_set_effectiveness (he_db he) i (laplace successes rated) s
                             else hd_clear_effectiveness (he_db he) i s))"

definition memory_compute_effectiveness :: "'s health_env \<Rightarrow> 's \<Rightarrow> int \<times> 's" where
  "memory_compute_effectiveness he s =
     (case hd_snapshots (he_db he) of None \<Rightarrow> (0, s)
      | Some sn \<Rightarrow>
          let updated = sn_count sn (hc_min_samples (he_cfg he)) s;
              ids = sn_ids sn (hc_min_samples (he_cfg he)) (nat updated) s
          in if updated \<le> 0 \<or> int (length ids) \<noteq> updated then (0, s)
             else (updated, snd (foldl (rate_memory he sn) ([], s) ids)))"

definition memory_demote_low_effectiveness :: "'s health_env \<Rightarrow> 's \<Rightarrow> int \<times> 's" where
  "memory_demote_low_effectiveness he s = hd_demote_low (he_db he) (hc_demote_threshold (he_cfg he)) s"

text \<open>Mean effectiveness, low ones, high-impact ones, and the L2 rows no session was ever shown.\<close>

definition memory_effectiveness_stats :: "'s health_env \<Rightarrow> 's \<Rightarrow> (real \<times> int \<times> int \<times> nat) option" where
  "memory_effectiveness_stats he s =
     (case hd_stats (he_db he) (hc_demote_threshold (he_cfg he)) s of None \<Rightarrow> None
      | Some (avg, low, high) \<Rightarrow>
          Some (avg, low, high,
            length (filter (\<lambda>i. case hd_has_memory (he_db he) of None \<Rightarrow> True | Some has \<Rightarrow> \<not> has i s)
              (take 2048 (hd_l2_ids (he_db he) 2048 s)))))"

subsection \<open>Retention and consolidation\<close>

definition memory_enforce_retention :: "'s health_env \<Rightarrow> 's \<Rightarrow> int \<times> 's" where
  "memory_enforce_retention he s =
     (case hd_delete_sensitive (he_db he) ''restricted'' (hc_restricted_days (he_cfg he)) s of
        (n1, s1) \<Rightarrow> (case hd_delete_sensitive (he_db he) ''sensitive'' (hc_sensitive_days (he_cfg he)) s1 of
                     (n2, s2) \<Rightarrow> (n1 + n2, s2)))"

definition chain_step :: "string \<Rightarrow> string \<Rightarrow> string" where
  "chain_step summary c =
     (if c = [] \<or> 2048 \<le> length summary + length c + 4 then summary
      else (if summary \<noteq> [] then summary @ '' | '' else summary) @ c)"

definition consolidate_one :: "'s health_env \<Rightarrow> string \<Rightarrow> 's \<Rightarrow> int \<times> 's" where
  "consolidate_one he sid s =
     (if sid = [] then (0, s)
      else let recent = filter (\<lambda>t. mh_is_within_days he t 1) (take 256 (hd_created_at (he_db he) sid 256 s))
           in if length recent < 5 then (0, s)
              else let summary = foldl chain_step [] (take 256 (hd_content (he_db he) sid 256 s))
                   in if summary = [] then (0, s)
                      else case insert_memory (he_crud he) ''L2'' (pc_fact (pr_cfg (he_promo he)))
                                  (cbuf 256 (''milestone:'' @ sid))
                                  (cbuf 2048 (''Consolidated milestone for session '' @ sid @ '': '' @ summary))
                                  (8 / 10) (Some sid) (Some (pc_stack_row (pr_cfg (he_promo he)))) s of
                             (ok, out, s1) \<Rightarrow>
                               if \<not> ok then (0, s1)
                               else (1, cd_provenance (cr_db (he_crud he)) (case out of None \<Rightarrow> 0 | Some m \<Rightarrow> m_id m)
                                          (Some sid) ''consolidate'' (Some ''L1 chain distillation'') s1))"

definition memory_consolidate_l1_chains :: "'s health_env \<Rightarrow> 's \<Rightarrow> int \<times> 's" where
  "memory_consolidate_l1_chains he s = add_up (consolidate_one he) (take 64 (hd_clusters (he_db he) 64 s)) (0, s)"

subsection \<open>The maintenance pass\<close>

definition memory_record_health :: "'s health_env \<Rightarrow> int \<Rightarrow> int \<Rightarrow> int \<Rightarrow> 's \<Rightarrow> 's" where
  "memory_record_health he promotions demotions expirations s =
     hd_record (he_db he) (hd_count (he_db he) s) (hd_recent_conflicts (he_db he) 1 s) promotions demotions expirations s"

definition memory_prune_health :: "'s health_env \<Rightarrow> 's \<Rightarrow> 's" where
  "memory_prune_health he s = hd_prune_contradictions (he_db he) 90 (hd_prune (he_db he) 90 s)"

text \<open>The sum of some passes; a pass that reports a negative number counts as none when it is \<open>guarded\<close>.\<close>

definition guarded :: "('s \<Rightarrow> int \<times> 's) \<Rightarrow> 's \<Rightarrow> int \<times> 's" where
  "guarded f s = (case f s of (n, s') \<Rightarrow> (if 0 < n then n else 0, s'))"

definition passes :: "('s \<Rightarrow> int \<times> 's) list \<Rightarrow> 's \<Rightarrow> int \<times> 's" where
  "passes fs s = add_up (\<lambda>f t. f t) fs (0, s)"

definition promotion_passes :: "'s health_env \<Rightarrow> 's \<Rightarrow> int \<times> 's" where
  "promotion_passes he =
     passes [memory_promote (he_promo he), memory_promote_delegation_patterns (he_promo he),
       memory_synthesize_failure_episodes (he_promo he), memory_consolidate_l1_chains he,
       guarded (memory_promote_stable_l2_to_l3 (he_promo he)), guarded (memory_synthesize_l5_patterns (he_promo he)),
       guarded (hd_conventions (he_db he))]"

definition demotion_passes :: "'s health_env \<Rightarrow> 's \<Rightarrow> int \<times> 's" where
  "demotion_passes he =
     passes [memory_demote (he_promo he), memory_demote_from_failures (he_promo he), memory_demote_low_effectiveness he]"

definition expiry_passes :: "'s health_env \<Rightarrow> 's \<Rightarrow> int \<times> 's" where
  "expiry_passes he = passes [memory_expire (he_promo he), memory_enforce_retention he]"

record 's health_state =
  hs_quiet :: int
  hs_alarm :: bool
  hs_directives :: directive_metrics
  hs_store :: 's

text \<open>The pass up to the note about its output: the three counts, and the state it leaves.\<close>

definition maintenance_work ::
    "'s health_env \<Rightarrow> directive_metrics \<times> 's \<Rightarrow> (int \<times> int \<times> int) \<times> directive_metrics \<times> 's" where
  "maintenance_work he ms =
     (let (p, s1) = promotion_passes he (snd ms);
          (d, s2) = demotion_passes he s1;
          (e, s3) = expiry_passes he s2;
          s4 = (if 0 < p then embed_unembedded_l2 (he_promo he) s3 else s3);
          s5 = snd (memory_compute_effectiveness he s4);
          s6 = snd (memory_rebuild_derived_indexes (cr_db (he_crud he)) (he_rows he) 250 s5);
          (_, m, s7) = memory_scan_retroactive_conflicts (he_conflict he) (he_stamp he) (he_now he) (fst ms, s6)
      in ((p, d, e), m, memory_record_health he p d e s7))"

definition memory_run_maintenance :: "'s health_env \<Rightarrow> 's health_state \<Rightarrow> (int \<times> int \<times> int) \<times> 's health_state" where
  "memory_run_maintenance he st =
     (case maintenance_work he (hs_directives st, hs_store st) of
        ((p, d, e), m, s) \<Rightarrow>
          (case memory_note_cycle_output p d e (hd_pending (he_db he) s) (hs_quiet st) of
             (alarm, run) \<Rightarrow>
               ((p, d, e), \<lparr>hs_quiet = run, hs_alarm = alarm, hs_directives = m,
                  hs_store = hd_graph_normalize (he_db he) (hd_graph_prune (he_db he) (memory_prune_health he s))\<rparr>)))"

subsection \<open>Health rates\<close>

record memory_health =
  mh_counts :: "int \<times> int \<times> int \<times> int \<times> int"
  mh_contradiction_rate :: real
  mh_promotion_rate :: real
  mh_demotion_rate :: real
  mh_staleness :: real

definition ratio :: "int \<Rightarrow> int \<Rightarrow> real" where
  "ratio a b = (if 0 < b then real_of_int a / real_of_int b else 0)"

definition memory_query_health :: "'s health_env \<Rightarrow> 's \<Rightarrow> memory_health option" where
  "memory_query_health he s =
     (case hd_counters (he_db he) (hc_use_count (he_cfg he)) (hc_confidence (he_cfg he)) s of None \<Rightarrow> None
      | Some c \<Rightarrow> Some \<lparr>mh_counts = (hq_cycles c, hq_contradictions c, hq_promotions c, hq_demotions c, hq_expirations c),
          mh_contradiction_rate = ratio (hq_contradictions c) (hq_new_memories c),
          mh_promotion_rate = ratio (hq_promotions c) (hq_l1_eligible c + hq_promotions c),
          mh_demotion_rate = ratio (hq_demotions c) (hq_l2_total c + hq_demotions c),
          mh_staleness = ratio (hq_l2_stale c) (hq_l2_total c)\<rparr>)"

subsection \<open>Facts about the parts\<close>

lemma laplace_bounds: "0 \<le> a \<Longrightarrow> a \<le> n \<Longrightarrow> 0 < laplace a n \<and> laplace a n < 1"
  by (simp add: laplace_def)

lemma laplace_mono: "a \<le> b \<Longrightarrow> 0 \<le> n \<Longrightarrow> laplace a n \<le> laplace b n"
  by (simp add: laplace_def divide_right_mono)

lemma ratio_bounds: "0 \<le> a \<Longrightarrow> a \<le> b \<Longrightarrow> 0 \<le> ratio a b \<and> ratio a b \<le> 1"
  by (simp add: ratio_def)

text \<open>The summary of a chain always fits its buffer.\<close>

lemma chain_fits: "length summary < 2048 \<Longrightarrow> length (foldl chain_step summary cs) < 2048"
proof (induction cs arbitrary: summary)
  case (Cons c cs)
  then show ?case by (simp add: chain_step_def)
qed simp

text \<open>The cache of outcomes is transparent: it holds what the sessions say.\<close>

definition cache_ok :: "'s health_env \<Rightarrow> 's \<Rightarrow> (string \<times> int) list \<Rightarrow> bool" where
  "cache_ok he s cache \<longleftrightarrow> (\<forall>sid r. map_of cache sid = Some r \<longrightarrow> r = session_outcome he s sid)"

lemma cached_outcome:
  assumes "cache_ok he s cache" "length sid < hc_session_len (he_cfg he)"
  shows "fst (mh_cached_session_outcome he s cache sid) = (if sid = [] then -1 else session_outcome he s sid)"
    and "cache_ok he s (snd (mh_cached_session_outcome he s cache sid))"
  using assms
  by (auto simp: mh_cached_session_outcome_def cache_ok_def cbuf_fits Let_def map_add_def map_of_append
      split: option.splits if_splits)

lemma rate_sessions_counts:
  assumes "cache_ok he s cache" "\<forall>sid \<in> set sids. length sid < hc_session_len (he_cfg he)"
  shows "fst (rate_sessions he s sids (n, k, cache)) =
      n + int (length (filter (\<lambda>sid. sid \<noteq> [] \<and> 0 \<le> session_outcome he s sid) sids)) \<and>
    fst (snd (rate_sessions he s sids (n, k, cache))) =
      k + int (length (filter (\<lambda>sid. sid \<noteq> [] \<and> 0 < session_outcome he s sid) sids))"
  using assms
proof (induction sids arbitrary: n k cache)
  case (Cons sid sids)
  obtain r cache' where c: "mh_cached_session_outcome he s cache sid = (r, cache')" by fastforce
  have r: "r = (if sid = [] then -1 else session_outcome he s sid)" and ok: "cache_ok he s cache'"
    using cached_outcome [OF Cons.prems(1), of sid] Cons.prems(2) by (simp_all add: c)
  have rest: "\<forall>sid \<in> set sids. length sid < hc_session_len (he_cfg he)" using Cons.prems(2) by simp
  show ?case using Cons.IH [OF ok rest] by (simp add: c r)
qed simp

end
