(* ===== verification/Maintenance.thy ===== *)
theory Maintenance
  imports Health Prospective
begin

text \<open>
  The scheduled curation cycle (\<open>memory_maintenance.c\<close>): its modes, the idle guard, the dry run,
  the metrics, the summary with its JSON form and the reading of the last summary.

  \<open>modes\<close> is the unsigned bit mask of the code, a word of 32 bits; the bits, the defaults of the
  configuration and the buffer of the summary are fields of \<open>maint_config\<close>.  The improvement loop,
  the profile cards, the curiosity scores and the drift report are functions of \<open>maint_db\<close>; the
  maintenance pass is that of \<open>Health\<close>.  The JSON printer and parser are functions of \<open>maint_env\<close>,
  the time a cycle took an argument; the lock of the metrics and the log are not modelled.
\<close>

record maint_config =
  mc_replay :: u32
  mc_prune :: u32
  mc_compact :: u32
  mc_summarize :: u32
  mc_drift :: u32
  mc_default :: u32
  mc_interval :: int
  mc_default_interval :: int
  mc_enabled :: bool
  mc_profile_cards :: bool
  mc_min_obs :: int
  mc_stale_secs :: int
  mc_dedupe :: bool
  mc_summarize_enabled :: bool
  mc_improve_summarise :: bool
  mc_min_cluster :: int
  mc_max_confidence :: real
  mc_json_len :: nat

record maint_summary =
  su_skipped :: bool
  su_dry_run :: bool
  su_modes_run :: int
  su_promoted :: int
  su_demoted :: int
  su_expired :: int
  su_archived :: int
  su_reminders :: int
  su_directives :: int
  su_rescored :: int
  su_cards :: int
  su_merged :: int
  su_summarized :: int
  su_drift_candidates :: int
  su_drift_requeued :: int
  su_elapsed :: real
  su_count_before :: int
  su_count_after :: int
  su_json :: string

record maint_saved =
  ms_present :: bool
  ms_last_run_at :: string
  ms_last_count :: int
  ms_last_changes :: int
  ms_last_elapsed :: real
  ms_last_json :: string

record maint_metrics =
  mt_runs :: int
  mt_skips :: int
  mt_changes :: int
  mt_ms_sum :: real
  mt_ms_max :: real

text \<open>The calls of a cycle; \<open>md_load\<close> gives the zeroed state when nothing was saved.\<close>

record 's maint_db =
  md_count :: "'s \<Rightarrow> int"
  md_load :: "'s \<Rightarrow> maint_saved"
  md_save :: "maint_saved \<Rightarrow> 's \<Rightarrow> 's"
  md_profile_refresh :: "int \<Rightarrow> int \<Rightarrow> 's \<Rightarrow> int \<times> 's"
  md_curiosity :: "'s \<Rightarrow> int \<times> 's"
  md_lifecycle_sweep :: "'s \<Rightarrow> int \<times> 's"
  md_dedupe :: "bool \<Rightarrow> 's \<Rightarrow> int \<times> 's"
  md_summarise :: "bool \<Rightarrow> int \<Rightarrow> real \<Rightarrow> 's \<Rightarrow> int \<times> 's"
  md_drift :: "'s \<Rightarrow> int"
  md_requeue :: "'s \<Rightarrow> int \<times> 's"

record 's maint_env =
  me_health :: "'s health_env"
  me_cfg :: maint_config
  me_db :: "'s maint_db"
  me_reminder_db :: "'s reminder_db"
  me_print :: "cjson \<Rightarrow> string"
  me_parse :: "string \<Rightarrow> cjson option"
  me_elapsed_node :: "real \<Rightarrow> cjson"
  me_double :: "int \<Rightarrow> int"

text \<open>What a cycle changes: the health state with the store, the reminder and maintenance metrics.\<close>

record 's maint_state =
  mz_health :: "'s health_state"
  mz_reminders :: reminder_metrics
  mz_metrics :: maint_metrics

definition mz_store :: "'s maint_state \<Rightarrow> 's" where
  "mz_store z = hs_store (mz_health z)"

definition on_store :: "('s \<Rightarrow> 's) \<Rightarrow> 's maint_state \<Rightarrow> 's maint_state" where
  "on_store f z = z\<lparr>mz_health := (mz_health z)\<lparr>hs_store := f (mz_store z)\<rparr>\<rparr>"

subsection \<open>Metrics and the saved state\<close>

definition memory_maintenance_metrics :: "maint_metrics \<Rightarrow> int \<times> int \<times> int \<times> real \<times> real" where
  "memory_maintenance_metrics m =
     (mt_runs m, mt_skips m, mt_changes m, if 0 < mt_runs m then mt_ms_sum m / real_of_int (mt_runs m) else 0, mt_ms_max m)"

definition mm_metrics_record :: "real \<Rightarrow> bool \<Rightarrow> int \<Rightarrow> maint_metrics \<Rightarrow> maint_metrics" where
  "mm_metrics_record ms skipped changes m =
     (if skipped then m\<lparr>mt_skips := mt_skips m + 1\<rparr>
      else m\<lparr>mt_runs := mt_runs m + 1, mt_ms_sum := mt_ms_sum m + ms,
             mt_ms_max := (if mt_ms_max m < ms then ms else mt_ms_max m),
             mt_changes := (if 0 < changes then mt_changes m + changes else mt_changes m)\<rparr>)"

definition zero_summary :: maint_summary where
  "zero_summary = \<lparr>su_skipped = False, su_dry_run = False, su_modes_run = 0, su_promoted = 0, su_demoted = 0, su_expired = 0,
     su_archived = 0, su_reminders = 0, su_directives = 0, su_rescored = 0, su_cards = 0, su_merged = 0, su_summarized = 0,
     su_drift_candidates = 0, su_drift_requeued = 0, su_elapsed = 0, su_count_before = 0, su_count_after = 0, su_json = []\<rparr>"

definition summary_changes :: "maint_summary \<Rightarrow> int" where
  "summary_changes u = su_promoted u + su_demoted u + su_expired u + su_archived u + su_reminders u + su_directives u +
     su_rescored u + su_cards u + su_merged u + su_summarized u"

definition mm_state_save :: "'s maint_env \<Rightarrow> string \<Rightarrow> maint_summary \<Rightarrow> 's \<Rightarrow> 's" where
  "mm_state_save me now u s =
     md_save (me_db me)
       \<lparr>ms_present = True, ms_last_run_at = now, ms_last_count = su_count_after u, ms_last_changes = summary_changes u,
        ms_last_elapsed = su_elapsed u, ms_last_json = cbuf (mc_json_len (me_cfg me)) (su_json u)\<rparr> s"

definition mm_interval_secs :: "maint_config \<Rightarrow> int" where
  "mm_interval_secs cfg = (if 0 < mc_interval cfg then mc_interval cfg else mc_default_interval cfg)"

text \<open>Idle: the count has not moved and the interval has not passed.\<close>

definition mm_should_skip :: "'s maint_env \<Rightarrow> maint_saved \<Rightarrow> int \<Rightarrow> bool" where
  "mm_should_skip me st current_count =
     (if \<not> ms_present st \<or> current_count \<noteq> ms_last_count st \<or> mm_interval_secs (me_cfg me) \<le> 0 then False
      else let last_run = he_stamp (me_health me) (ms_last_run_at st); elapsed = he_now (me_health me) - last_run
           in if last_run = 0 \<or> elapsed < 0 then False else elapsed < mm_interval_secs (me_cfg me))"

subsection \<open>The summary as JSON\<close>

definition memory_maintenance_summary_to_json :: "'s maint_env \<Rightarrow> maint_summary \<Rightarrow> cjson" where
  "memory_maintenance_summary_to_json me u =
     JObject [(''skipped'', JBool (su_skipped u)), (''dry_run'', JBool (su_dry_run u)),
       (''modes_run'', JNumber (su_modes_run u)), (''promoted'', JNumber (su_promoted u)),
       (''demoted'', JNumber (su_demoted u)), (''expired'', JNumber (su_expired u)),
       (''lifecycle_archived'', JNumber (su_archived u)), (''reminders_expired'', JNumber (su_reminders u)),
       (''directives_expired'', JNumber (su_directives u)), (''rescored'', JNumber (su_rescored u)),
       (''profile_cards_refreshed'', JNumber (su_cards u)), (''merged'', JNumber (su_merged u)),
       (''summarized'', JNumber (su_summarized u)), (''drift_candidates'', JNumber (su_drift_candidates u)),
       (''drift_requeued'', JNumber (su_drift_requeued u)), (''elapsed_ms'', me_elapsed_node me (su_elapsed u)),
       (''memory_count_before'', JNumber (me_double me (su_count_before u))),
       (''memory_count_after'', JNumber (me_double me (su_count_after u)))]"

text \<open>\<open>cJSON_GetObjectItem\<close> ignores the case of names; a missing or ill-typed member leaves the zero.\<close>

fun member_ci :: "cjson \<Rightarrow> string \<Rightarrow> cjson option" where
  "member_ci (JObject ms) k = map_option snd (find (\<lambda>m. map tolower (fst m) = map tolower k) ms)"
| "member_ci _ k = None"

definition bool_member :: "cjson \<Rightarrow> string \<Rightarrow> bool" where
  "bool_member j k = (case member_ci j k of Some (JBool b) \<Rightarrow> b | _ \<Rightarrow> False)"

definition int_member :: "cjson \<Rightarrow> string \<Rightarrow> int \<Rightarrow> int" where
  "int_member j k old = (case member_ci j k of Some (JNumber v) \<Rightarrow> v | _ \<Rightarrow> old)"

definition memory_maintenance_last_summary :: "'s maint_env \<Rightarrow> 's \<Rightarrow> maint_summary option" where
  "memory_maintenance_last_summary me s =
     (let st = md_load (me_db me) s;
          base = zero_summary\<lparr>su_json := cbuf (mc_json_len (me_cfg me)) (ms_last_json st),
                   su_elapsed := ms_last_elapsed st, su_count_after := ms_last_count st\<rparr>
      in if \<not> ms_present st then None
         else case me_parse me (ms_last_json st) of None \<Rightarrow> Some base
              | Some j \<Rightarrow> Some (base\<lparr>
                  su_skipped := bool_member j ''skipped'', su_dry_run := bool_member j ''dry_run'',
                  su_modes_run := int_member j ''modes_run'' 0, su_promoted := int_member j ''promoted'' 0,
                  su_demoted := int_member j ''demoted'' 0, su_expired := int_member j ''expired'' 0,
                  su_archived := int_member j ''lifecycle_archived'' 0, su_reminders := int_member j ''reminders_expired'' 0,
                  su_directives := int_member j ''directives_expired'' 0, su_rescored := int_member j ''rescored'' 0,
                  su_cards := int_member j ''profile_cards_refreshed'' 0, su_merged := int_member j ''merged'' 0,
                  su_summarized := int_member j ''summarized'' 0, su_count_before := int_member j ''memory_count_before'' 0,
                  su_count_after := int_member j ''memory_count_after'' (ms_last_count st)\<rparr>))"

subsection \<open>The modes\<close>

definition positive :: "int \<Rightarrow> int" where
  "positive n = (if 0 < n then n else 0)"

definition or_default :: "int \<Rightarrow> int \<Rightarrow> int" where
  "or_default v d = (if 0 < v then v else d)"

definition has_mode :: "u32 \<Rightarrow> u32 \<Rightarrow> bool" where
  "has_mode modes flag \<longleftrightarrow> and modes flag \<noteq> 0"

type_synonym 's cycle = "maint_summary \<times> 's maint_state"

definition mode_replay :: "'s maint_env \<Rightarrow> 's cycle \<Rightarrow> 's cycle" where
  "mode_replay me c =
     (case c of (u, z) \<Rightarrow>
        let cfg = me_cfg me; (n1, s1) = memory_compute_effectiveness (me_health me) (mz_store z);
            (n2, s2) = (if mc_profile_cards cfg
                        then md_profile_refresh (me_db me) (or_default (mc_min_obs cfg) 10) (or_default (mc_stale_secs cfg) 86400) s1
                        else (0, s1));
            (n3, s3) = md_curiosity (me_db me) s2
        in (u\<lparr>su_rescored := positive n1 + positive n3, su_cards := positive n2\<rparr>, on_store (\<lambda>_. s3) z))"

definition mode_prune :: "'s maint_env \<Rightarrow> 's cycle \<Rightarrow> 's cycle" where
  "mode_prune me c =
     (case c of (u, z) \<Rightarrow>
        let (n1, s1) = md_lifecycle_sweep (me_db me) (mz_store z);
            (n2, rm, s2) = memory_prospective_sweep_expired (me_reminder_db me) (mz_reminders z, s1);
            (n3, dm, s3) = memory_directive_sweep_expired (ke_dir_db (he_conflict (me_health me)))
                             (hs_directives (mz_health z), s2);
            ((p, d, e), h) = memory_run_maintenance (me_health me)
                               ((mz_health z)\<lparr>hs_directives := dm, hs_store := s3\<rparr>)
        in (u\<lparr>su_archived := positive n1, su_reminders := positive n2, su_directives := positive n3,
              su_promoted := p, su_demoted := d, su_expired := e\<rparr>,
            z\<lparr>mz_health := h, mz_reminders := rm\<rparr>))"

definition mode_compact :: "'s maint_env \<Rightarrow> bool \<Rightarrow> 's cycle \<Rightarrow> 's cycle" where
  "mode_compact me dry_run c =
     (case c of (u, z) \<Rightarrow>
        if mc_dedupe (me_cfg me)
        then case md_dedupe (me_db me) dry_run (mz_store z) of (n, s) \<Rightarrow> (u\<lparr>su_merged := positive n\<rparr>, on_store (\<lambda>_. s) z)
        else (u, z))"

definition mode_summarize :: "'s maint_env \<Rightarrow> bool \<Rightarrow> 's cycle \<Rightarrow> 's cycle" where
  "mode_summarize me dry_run c =
     (case c of (u, z) \<Rightarrow>
        let cfg = me_cfg me
        in if mc_summarize_enabled cfg \<or> mc_improve_summarise cfg
           then case md_summarise (me_db me) dry_run (or_default (mc_min_cluster cfg) 3)
                       (if 0 < mc_max_confidence cfg then mc_max_confidence cfg else 6 / 10) (mz_store z) of
                  (n, s) \<Rightarrow> (u\<lparr>su_summarized := positive n\<rparr>, on_store (\<lambda>_. s) z)
           else (u, z))"

definition mode_drift :: "'s maint_env \<Rightarrow> bool \<Rightarrow> 's cycle \<Rightarrow> 's cycle" where
  "mode_drift me dry_run c =
     (case c of (u, z) \<Rightarrow>
        let u1 = u\<lparr>su_drift_candidates := md_drift (me_db me) (mz_store z)\<rparr>
        in if dry_run then (u1, z)
           else case md_requeue (me_db me) (mz_store z) of (n, s) \<Rightarrow> (u1\<lparr>su_drift_requeued := n\<rparr>, on_store (\<lambda>_. s) z))"

text \<open>A mode whose bit is set is run; replay and prune have nothing a dry run could report.\<close>

definition run_modes :: "'s maint_env \<Rightarrow> u32 \<Rightarrow> bool \<Rightarrow> 's cycle \<Rightarrow> 's cycle" where
  "run_modes me modes dry_run c =
     (let cfg = me_cfg me;
          c1 = (if has_mode modes (mc_replay cfg) \<and> \<not> dry_run then mode_replay me c else c);
          c2 = (if has_mode modes (mc_prune cfg) \<and> \<not> dry_run then mode_prune me c1 else c1);
          c3 = (if has_mode modes (mc_compact cfg) then mode_compact me dry_run c2 else c2);
          c4 = (if has_mode modes (mc_summarize cfg) then mode_summarize me dry_run c3 else c3)
      in if has_mode modes (mc_drift cfg) then mode_drift me dry_run c4 else c4)"

subsection \<open>A cycle\<close>

text \<open>\<open>(int) modes\<close> of the mask, the signed reading of the word.\<close>

definition with_json :: "'s maint_env \<Rightarrow> maint_summary \<Rightarrow> maint_summary" where
  "with_json me u =
     u\<lparr>su_json := cbuf (mc_json_len (me_cfg me)) (me_print me (memory_maintenance_summary_to_json me u))\<rparr>"

definition memory_maintenance_run ::
    "'s maint_env \<Rightarrow> real \<Rightarrow> u32 \<Rightarrow> bool \<Rightarrow> bool \<Rightarrow> 's maint_state \<Rightarrow> maint_summary \<times> 's maint_state" where
  "memory_maintenance_run me elapsed modes0 force dry_run z =
     (let modes = (if modes0 = 0 then mc_default (me_cfg me) else modes0);
          count_before = md_count (me_db me) (mz_store z);
          u0 = zero_summary\<lparr>su_modes_run := sint modes, su_dry_run := dry_run, su_count_before := count_before\<rparr>
      in if \<not> force \<and> mm_should_skip me (md_load (me_db me) (mz_store z)) count_before
         then (with_json me (u0\<lparr>su_skipped := True, su_count_after := count_before, su_elapsed := elapsed\<rparr>),
               z\<lparr>mz_metrics := mm_metrics_record elapsed True 0 (mz_metrics z)\<rparr>)
         else let (u1, z1) = run_modes me modes dry_run (u0, z);
                  u2 = with_json me (u1\<lparr>su_count_after := md_count (me_db me) (mz_store z1), su_elapsed := elapsed\<rparr>);
                  z2 = z1\<lparr>mz_metrics := mm_metrics_record elapsed False (summary_changes u2) (mz_metrics z1)\<rparr>
              in (u2, if dry_run then z2
                      else on_store (mm_state_save me (cc_now (cr_cfg (he_crud (me_health me)))) u2) z2))"

text \<open>Whether a cycle was run, and the summary the caller gets when the feature is on.\<close>

definition memory_maintenance_maybe_run ::
    "'s maint_env \<Rightarrow> real \<Rightarrow> 's maint_state \<Rightarrow> bool \<times> maint_summary option \<times> 's maint_state" where
  "memory_maintenance_maybe_run me elapsed z =
     (if \<not> mc_enabled (me_cfg me) then (False, None, z)
      else case memory_maintenance_run me elapsed 0 False False z of (u, z') \<Rightarrow> (\<not> su_skipped u, Some u, z'))"

end
