(* ===== verification/Upkeep_Properties.thy ===== *)
theory Upkeep_Properties
  imports Maintenance Crud_Properties
begin

text \<open>
  What upkeep guarantees: the alarm of the quiet lane is raised exactly when it should be, the
  checkpoint of a folded session is its digest or a fault, the last summary is the one of the last
  cycle, and a dry or skipped cycle leaves the store alone.
\<close>

subsection \<open>The quiet lane\<close>

text \<open>
  The state after \<open>n\<close> cycles of a process that has just started, with the environment of each cycle
  and what the world does to the store before it.
\<close>

fun lane_after ::
    "(nat \<Rightarrow> 's health_env) \<Rightarrow> (nat \<Rightarrow> 's \<Rightarrow> 's) \<Rightarrow> 's health_state \<Rightarrow> nat \<Rightarrow> 's health_state" where
  "lane_after he world st 0 = st\<lparr>hs_quiet := 0\<rparr>"
| "lane_after he world st (Suc n) =
     (let t = lane_after he world st n
      in snd (memory_run_maintenance (he n) (t\<lparr>hs_store := world n (hs_store t)\<rparr>)))"

definition cycle_work ::
    "(nat \<Rightarrow> 's health_env) \<Rightarrow> (nat \<Rightarrow> 's \<Rightarrow> 's) \<Rightarrow> 's health_state \<Rightarrow> nat \<Rightarrow> (int \<times> int \<times> int) \<times> directive_metrics \<times> 's" where
  "cycle_work he world st n =
     (let t = lane_after he world st n in maintenance_work (he n) (hs_directives t, world n (hs_store t)))"

text \<open>The cycle promoted, demoted and expired nothing; rows were pending when it ended.\<close>

definition cycle_quiet where
  "cycle_quiet he world st n \<longleftrightarrow> (case cycle_work he world st n of ((p, d, e), _) \<Rightarrow> p + d + e \<le> 0)"

definition cycle_backlog where
  "cycle_backlog he world st n \<longleftrightarrow>
     (case cycle_work he world st n of (_, _, s) \<Rightarrow> case hd_pending (he_db (he n)) s of None \<Rightarrow> False | Some p \<Rightarrow> 0 < p)"

lemma lane_step:
  "hs_quiet (lane_after he world st (Suc n)) =
     (if cycle_quiet he world st n then hs_quiet (lane_after he world st n) + 1 else 0)"
  "hs_alarm (lane_after he world st (Suc n)) \<longleftrightarrow>
     cycle_quiet he world st n \<and> cycle_backlog he world st n \<and> 3 \<le> hs_quiet (lane_after he world st n) + 1"
proof -
  obtain p d e m s where w: "cycle_work he world st n = ((p, d, e), m, s)" by (metis prod.collapse)
  then show "hs_quiet (lane_after he world st (Suc n)) =
     (if cycle_quiet he world st n then hs_quiet (lane_after he world st n) + 1 else 0)"
    "hs_alarm (lane_after he world st (Suc n)) \<longleftrightarrow>
     cycle_quiet he world st n \<and> cycle_backlog he world st n \<and> 3 \<le> hs_quiet (lane_after he world st n) + 1"
    by (auto simp: cycle_work_def cycle_quiet_def cycle_backlog_def memory_run_maintenance_def Let_def
        memory_note_cycle_output_def memory_quiet_lane_alarm_def split: option.split prod.split)
qed

lemma quiet_run_nonneg: "0 \<le> hs_quiet (lane_after he world st n)"
proof (induction n)
  case (Suc n)
  then show ?case by (simp only: lane_step(1)) simp
qed simp

lemma quiet_run_of_two:
  "2 \<le> hs_quiet (lane_after he world st n) \<longleftrightarrow>
     2 \<le> n \<and> cycle_quiet he world st (n - 1) \<and> cycle_quiet he world st (n - 2)"
proof (cases n)
  case (Suc m)
  show ?thesis
  proof (cases m)
    case 0
    then show ?thesis unfolding Suc lane_step(1) by simp
  next
    fix k assume m: "m = Suc k"
    show ?thesis
      using quiet_run_nonneg [of he world st k] unfolding Suc m lane_step(1) by (simp add: numeral_2_eq_2)
  qed
qed simp

text \<open>
  C17. A wedged lane is noticed: in a process that has just started, whatever the world does to the
  store between the cycles, the alarm is raised after exactly those cycles that changed nothing while
  rows were pending and that follow two cycles which changed nothing either.  So a lane that stops
  progressing alarms at its third quiet cycle and at each one after it, and an idle or a working
  lane never does.
\<close>

theorem quiet_lane_alarms:
  "hs_alarm (lane_after he world st (Suc n)) \<longleftrightarrow>
     2 \<le> n \<and> cycle_quiet he world st (n - 2) \<and> cycle_quiet he world st (n - 1) \<and> cycle_quiet he world st n \<and>
     cycle_backlog he world st n"
  using quiet_run_of_two [of he world st n] unfolding lane_step(2) by auto

subsection \<open>The checkpoint of a session\<close>

lemma row_texts_nonempty: "[] \<notin> set (row_texts rows)"
  by (auto simp: row_texts_def)

definition session_texts :: "'s conflict_env \<Rightarrow> string \<Rightarrow> 's \<Rightarrow> string list" where
  "session_texts ke sid s = row_texts (take 64 (kd_l0_list (ke_db ke) sid 64 s))"

text \<open>
  C23. Folding a session keeps the beginning of its digest: the texts of its scratch rows, separated
  by a semicolon and a blank, cut to 197 bytes, become one episode, and the rows are purged.  There is
  one exception, which the code does not guard against: when a row ends at byte 196 and another
  follows, the separator leaves a room of minus one byte, and the copy of that many bytes is a fault.
\<close>

theorem folded_session_is_digest:
  "memory_fold_session ke (Some sid) len s =
     (let ts = session_texts ke sid s; checkpoint = take 197 (digest ts)
      in if ts = [] then Some (True, [], s)
         else if bad_boundary (length (hd ts)) (tl ts) then None
         else Some (True, cbuf len checkpoint,
                kd_l0_purge (ke_db ke) sid
                  (snd (snd (insert_memory (ke_crud ke) ''L1'' (cf_episode (ke_cfg ke)) (cbuf 256 (''session:'' @ sid))
                     checkpoint (8 / 10) (Some sid) None s)))))"
proof -
  define ts where "ts = session_texts ke sid s"
  have spec: "map_option fst (fold_rows [] 0 ts) =
      (if ts \<noteq> [] \<and> bad_boundary (length (hd ts)) (tl ts) then None else Some (take 197 (digest ts)))"
    by (rule fold_rows_spec) (simp add: ts_def session_texts_def row_texts_nonempty)
  have fold: "memory_fold_session ke (Some sid) len s =
      (case fold_rows [] 0 ts of None \<Rightarrow> None
       | Some (checkpoint, n) \<Rightarrow>
           if n = 0 then Some (True, [], s)
           else Some (True, cbuf len checkpoint, kd_l0_purge (ke_db ke) sid
                  (snd (snd (insert_memory (ke_crud ke) ''L1'' (cf_episode (ke_cfg ke)) (cbuf 256 (''session:'' @ sid))
                     checkpoint (8 / 10) (Some sid) None s)))))"
    unfolding memory_fold_session_def ts_def session_texts_def option.case Let_def ..
  show ?thesis
  proof (cases "fold_rows [] 0 ts")
    case None
    then show ?thesis
      using spec unfolding fold ts_def [symmetric] Let_def by (simp split: if_splits)
  next
    case (Some r)
    obtain c n where r: "r = (c, n)" by (cases r)
    have c: "c = take 197 (digest ts)" "\<not> (ts \<noteq> [] \<and> bad_boundary (length (hd ts)) (tl ts))"
      using spec by (simp_all add: Some r split: if_splits)
    have n: "n = 0 \<longleftrightarrow> ts = []"
    proof (cases ts)
      case Nil
      then show ?thesis using Some r by simp
    next
      case (Cons t us)
      then show ?thesis using fold_rows_count [of "[]" 0 ts c n] Some r by simp
    qed
    show ?thesis
      unfolding fold ts_def [symmetric] Let_def using c n by (auto simp: Some r)
  qed
qed

lemma fold_fault_example: "fold_rows [] 0 [replicate 196 (CHR ''x''), ''y''] = None"
  by code_simp

subsection \<open>The last summary\<close>

lemma mz_store_simps [simp]:
  "mz_store (on_store f z) = f (mz_store z)"
  "mz_store (z\<lparr>mz_metrics := m\<rparr>) = mz_store z"
  "mz_metrics (on_store f z) = mz_metrics z"
  by (simp_all add: mz_store_def on_store_def)

lemma summary_json_ignores_text: "memory_maintenance_summary_to_json me (u\<lparr>su_json := x\<rparr>) = memory_maintenance_summary_to_json me u"
  by (simp add: memory_maintenance_summary_to_json_def)

text \<open>The members of the printed summary, as the reader finds them.\<close>

lemma lower_names:
  "map tolower ''skipped'' = ''skipped''" "map tolower ''dry_run'' = ''dry_run''" "map tolower ''modes_run'' = ''modes_run''"
  "map tolower ''promoted'' = ''promoted''" "map tolower ''demoted'' = ''demoted''" "map tolower ''expired'' = ''expired''"
  "map tolower ''lifecycle_archived'' = ''lifecycle_archived''" "map tolower ''reminders_expired'' = ''reminders_expired''"
  "map tolower ''directives_expired'' = ''directives_expired''" "map tolower ''rescored'' = ''rescored''"
  "map tolower ''profile_cards_refreshed'' = ''profile_cards_refreshed''" "map tolower ''merged'' = ''merged''"
  "map tolower ''summarized'' = ''summarized''" "map tolower ''drift_candidates'' = ''drift_candidates''"
  "map tolower ''drift_requeued'' = ''drift_requeued''" "map tolower ''elapsed_ms'' = ''elapsed_ms''"
  "map tolower ''memory_count_before'' = ''memory_count_before''" "map tolower ''memory_count_after'' = ''memory_count_after''"
  by code_simp+

lemma summary_members:
  "bool_member (memory_maintenance_summary_to_json me u) ''skipped'' = su_skipped u"
  "bool_member (memory_maintenance_summary_to_json me u) ''dry_run'' = su_dry_run u"
  "int_member (memory_maintenance_summary_to_json me u) ''modes_run'' d = su_modes_run u"
  "int_member (memory_maintenance_summary_to_json me u) ''promoted'' d = su_promoted u"
  "int_member (memory_maintenance_summary_to_json me u) ''demoted'' d = su_demoted u"
  "int_member (memory_maintenance_summary_to_json me u) ''expired'' d = su_expired u"
  "int_member (memory_maintenance_summary_to_json me u) ''lifecycle_archived'' d = su_archived u"
  "int_member (memory_maintenance_summary_to_json me u) ''reminders_expired'' d = su_reminders u"
  "int_member (memory_maintenance_summary_to_json me u) ''directives_expired'' d = su_directives u"
  "int_member (memory_maintenance_summary_to_json me u) ''rescored'' d = su_rescored u"
  "int_member (memory_maintenance_summary_to_json me u) ''profile_cards_refreshed'' d = su_cards u"
  "int_member (memory_maintenance_summary_to_json me u) ''merged'' d = su_merged u"
  "int_member (memory_maintenance_summary_to_json me u) ''summarized'' d = su_summarized u"
  "int_member (memory_maintenance_summary_to_json me u) ''memory_count_before'' d = me_double me (su_count_before u)"
  "int_member (memory_maintenance_summary_to_json me u) ''memory_count_after'' d = me_double me (su_count_after u)"
  by (simp_all add: memory_maintenance_summary_to_json_def bool_member_def int_member_def lower_names
      del: list.map)

text \<open>What the reading relies on: the saved state comes back, and so does a printed summary that fits.\<close>

definition summary_readable :: "'s maint_env \<Rightarrow> maint_summary \<Rightarrow> bool" where
  "summary_readable me u \<longleftrightarrow>
     (let j = memory_maintenance_summary_to_json me u
      in me_parse me (me_print me j) = Some j \<and> length (me_print me j) < mc_json_len (me_cfg me) \<and>
         me_double me (su_count_before u) = su_count_before u \<and> me_double me (su_count_after u) = su_count_after u)"

definition first_summary :: "'s maint_env \<Rightarrow> u32 \<Rightarrow> bool \<Rightarrow> 's maint_state \<Rightarrow> maint_summary" where
  "first_summary me modes dry_run z =
     zero_summary\<lparr>su_modes_run := sint modes, su_dry_run := dry_run, su_count_before := md_count (me_db me) (mz_store z)\<rparr>"

definition cycle_skips :: "'s maint_env \<Rightarrow> bool \<Rightarrow> 's maint_state \<Rightarrow> bool" where
  "cycle_skips me force z \<longleftrightarrow>
     \<not> force \<and> mm_should_skip me (md_load (me_db me) (mz_store z)) (md_count (me_db me) (mz_store z))"

text \<open>A cycle is skipped, or it runs its modes and may save its state.\<close>

lemma skipped_cycle:
  assumes "memory_maintenance_run me elapsed modes force dry_run z = (u, z')" "cycle_skips me force z"
  shows "su_skipped u" "z' = z\<lparr>mz_metrics := mm_metrics_record elapsed True 0 (mz_metrics z)\<rparr>"
  using assms unfolding memory_maintenance_run_def cycle_skips_def Let_def by (auto simp: with_json_def)

lemma worked_cycle:
  assumes "memory_maintenance_run me elapsed modes force dry_run z = (u, z')" "\<not> cycle_skips me force z"
    and "run_modes me md dry_run (first_summary me md dry_run z, z) = (u1, z1)"
    and "md = (if modes = 0 then mc_default (me_cfg me) else modes)"
  shows "u = with_json me (u1\<lparr>su_count_after := md_count (me_db me) (mz_store z1), su_elapsed := elapsed\<rparr>)"
    and "z' = (let z2 = z1\<lparr>mz_metrics := mm_metrics_record elapsed False (summary_changes u) (mz_metrics z1)\<rparr>
               in if dry_run then z2 else on_store (mm_state_save me (cc_now (cr_cfg (he_crud (me_health me)))) u) z2)"
proof -
  have "memory_maintenance_run me elapsed modes force dry_run z =
      (let u2 = with_json me (u1\<lparr>su_count_after := md_count (me_db me) (mz_store z1), su_elapsed := elapsed\<rparr>);
           z2 = z1\<lparr>mz_metrics := mm_metrics_record elapsed False (summary_changes u2) (mz_metrics z1)\<rparr>
       in (u2, if dry_run then z2 else on_store (mm_state_save me (cc_now (cr_cfg (he_crud (me_health me)))) u2) z2))"
    unfolding memory_maintenance_run_def Let_def
    using assms(2) unfolding cycle_skips_def by (simp only: if_False assms(3) [unfolded first_summary_def assms(4)] prod.case)
  then show "u = with_json me (u1\<lparr>su_count_after := md_count (me_db me) (mz_store z1), su_elapsed := elapsed\<rparr>)"
    and "z' = (let z2 = z1\<lparr>mz_metrics := mm_metrics_record elapsed False (summary_changes u) (mz_metrics z1)\<rparr>
               in if dry_run then z2 else on_store (mm_state_save me (cc_now (cr_cfg (he_crud (me_health me)))) u) z2)"
    using assms(1) by (simp_all only: Let_def prod.inject)
qed

lemma real_run:
  assumes "memory_maintenance_run me elapsed modes force False z = (u, z')" "\<not> su_skipped u"
  obtains v s where "u = with_json me v" "mz_store z' = mm_state_save me (cc_now (cr_cfg (he_crud (me_health me)))) u s"
proof -
  define md where "md = (if modes = 0 then mc_default (me_cfg me) else modes)"
  obtain u1 z1 where r: "run_modes me md False (first_summary me md False z, z) = (u1, z1)" by fastforce
  have n: "\<not> cycle_skips me force z" using skipped_cycle(1) [OF assms(1)] assms(2) by blast
  show thesis
    by (rule that [OF worked_cycle(1) [OF assms(1) n r md_def]]) (simp add: worked_cycle(2) [OF assms(1) n r md_def] Let_def)
qed

text \<open>
  C29. The last summary is the summary of the last cycle: after a cycle that was run for real, what
  the store gives back is what the cycle reported, field by field, as long as the printed summary
  fits its buffer and parses back and the counts are exact as doubles; only the two drift fields,
  which are written and never read, come back as zero.
\<close>

theorem last_summary_restores:
  assumes "memory_maintenance_run me elapsed modes force False z = (u, z')" "\<not> su_skipped u"
    and "\<And>x s. md_load (me_db me) (md_save (me_db me) x s) = x" and "summary_readable me u"
  shows "memory_maintenance_last_summary me (mz_store z') =
    Some (u\<lparr>su_drift_candidates := 0, su_drift_requeued := 0\<rparr>)"
proof -
  obtain v s where v: "u = with_json me v"
    and s: "mz_store z' = mm_state_save me (cc_now (cr_cfg (he_crud (me_health me)))) u s"
    by (rule real_run [OF assms(1,2)])
  define j where "j = memory_maintenance_summary_to_json me u"
  have jv: "memory_maintenance_summary_to_json me v = j" by (simp add: j_def v with_json_def summary_json_ignores_text)
  have p: "me_parse me (me_print me j) = Some j" "length (me_print me j) < mc_json_len (me_cfg me)"
    "me_double me (su_count_before u) = su_count_before u" "me_double me (su_count_after u) = su_count_after u"
    using assms(4) by (simp_all add: summary_readable_def Let_def j_def)
  have json: "su_json u = me_print me j" using p(2) by (simp add: v with_json_def jv cbuf_fits)
  have load: "md_load (me_db me) (mz_store z') =
      \<lparr>ms_present = True, ms_last_run_at = cc_now (cr_cfg (he_crud (me_health me))), ms_last_count = su_count_after u,
       ms_last_changes = summary_changes u, ms_last_elapsed = su_elapsed u, ms_last_json = me_print me j\<rparr>"
    unfolding s mm_state_save_def assms(3) json using p(2) by (simp add: cbuf_fits)
  have "memory_maintenance_last_summary me (mz_store z') \<noteq> None"
    "the (memory_maintenance_last_summary me (mz_store z')) = u\<lparr>su_drift_candidates := 0, su_drift_requeued := 0\<rparr>"
    unfolding memory_maintenance_last_summary_def Let_def load
    by (simp_all add: p j_def [symmetric] summary_members [of me u, folded j_def] json cbuf_fits zero_summary_def
        maint_summary.equality)
  then show ?thesis by force
qed

subsection \<open>Cycles that change nothing\<close>

lemmas mode_defs = mode_replay_def mode_prune_def mode_compact_def mode_summarize_def mode_drift_def

lemma on_store_simps [simp]:
  "mz_health (on_store f z) = (mz_health z)\<lparr>hs_store := f (mz_store z)\<rparr>" "mz_reminders (on_store f z) = mz_reminders z"
  by (simp_all add: on_store_def)

text \<open>No mode touches the metrics or the mark of a skipped cycle.\<close>

definition mode_frame :: "'s cycle \<Rightarrow> 's cycle \<Rightarrow> bool" where
  "mode_frame c c' \<longleftrightarrow> mz_metrics (snd c') = mz_metrics (snd c) \<and> su_skipped (fst c') = su_skipped (fst c)"

lemma mode_frames:
  "mode_frame c (mode_replay me c)" "mode_frame c (mode_prune me c)" "mode_frame c (mode_compact me d c)"
  "mode_frame c (mode_summarize me d c)" "mode_frame c (mode_drift me d c)"
  by (cases c; simp add: mode_frame_def mode_defs Let_def case_prod_unfold)+

lemma mode_frame_if: "mode_frame c c1 \<Longrightarrow> mode_frame c1 c2 \<Longrightarrow> mode_frame c (if b then c2 else c1)"
  by (auto simp: mode_frame_def)

lemma mode_frame_refl: "mode_frame c c"
  by (simp add: mode_frame_def)

lemma run_modes_frame:
  assumes "run_modes me modes dry_run (u, z) = (u1, z1)"
  shows "mz_metrics z1 = mz_metrics z" "su_skipped u1 = su_skipped u"
proof -
  have "mode_frame (u, z) (run_modes me modes dry_run (u, z))"
    unfolding run_modes_def Let_def by (intro mode_frame_if mode_frame_refl mode_frames)
  then show "mz_metrics z1 = mz_metrics z" "su_skipped u1 = su_skipped u" by (simp_all add: assms mode_frame_def)
qed

text \<open>A dry run of the modes.\<close>

definition same_state :: "'s maint_state \<Rightarrow> 's cycle \<Rightarrow> bool" where
  "same_state z c \<longleftrightarrow> mz_health (snd c) = mz_health z \<and> mz_reminders (snd c) = mz_reminders z"

lemma run_modes_dry:
  assumes "\<And>s. snd (md_dedupe (me_db me) True s) = s" "\<And>n c s. snd (md_summarise (me_db me) True n c s) = s"
    and "run_modes me modes True (u, z) = (u1, z1)"
  shows "mz_health z1 = mz_health z \<and> mz_reminders z1 = mz_reminders z"
proof -
  have step: "same_state z (mode_compact me True c)" "same_state z (mode_summarize me True c)" "same_state z (mode_drift me True c)"
    if "same_state z c" for c
    using that by (cases c; simp add: same_state_def mode_defs Let_def case_prod_unfold assms(1,2) mz_store_def)+
  have "same_state z (run_modes me modes True (u, z))"
    unfolding run_modes_def Let_def by (simp add: step same_state_def [of z "(u, z)"])
  then show ?thesis by (simp add: assms(3) same_state_def)
qed

lemma mm_should_skip_unfold:
  "mm_should_skip me st c \<longleftrightarrow>
     ms_present st \<and> ms_last_count st = c \<and> he_stamp (me_health me) (ms_last_run_at st) \<noteq> 0 \<and>
     he_stamp (me_health me) (ms_last_run_at st) \<le> he_now (me_health me) \<and>
     he_now (me_health me) < he_stamp (me_health me) (ms_last_run_at st) + mm_interval_secs (me_cfg me)"
  by (auto simp: mm_should_skip_def Let_def)

text \<open>
  C36. A dry run and a skipped cycle leave everything but the metrics alone, given that the two
  improvement passes keep the promise of their own dry run; each cycle is counted once, as a run or as
  a skip.  A cycle is skipped exactly when it is not forced, the saved state is there with the same
  count of memories, its time of the last run can be read and is not after the clock, and the clock
  stands less than the interval after it.
\<close>

theorem dry_or_skipped_cycle_is_pure:
  assumes "memory_maintenance_run me elapsed modes force dry_run z = (u, z')"
    and "\<And>s. snd (md_dedupe (me_db me) True s) = s" "\<And>n c s. snd (md_summarise (me_db me) True n c s) = s"
  shows "(dry_run \<or> su_skipped u \<longrightarrow> mz_health z' = mz_health z \<and> mz_reminders z' = mz_reminders z) \<and>
    mt_runs (mz_metrics z') = mt_runs (mz_metrics z) + (if su_skipped u then 0 else 1) \<and>
    mt_skips (mz_metrics z') = mt_skips (mz_metrics z) + (if su_skipped u then 1 else 0) \<and>
    (su_skipped u \<longleftrightarrow> \<not> force \<and>
      (let saved = md_load (me_db me) (mz_store z); last_run = he_stamp (me_health me) (ms_last_run_at saved);
           now = he_now (me_health me) in
       ms_present saved \<and> ms_last_count saved = md_count (me_db me) (mz_store z) \<and>
       last_run \<noteq> 0 \<and> last_run \<le> now \<and> now < last_run + mm_interval_secs (me_cfg me)))"
proof (cases "cycle_skips me force z")
  case True
  then show ?thesis
    using skipped_cycle [OF assms(1) True] by (auto simp: mm_metrics_record_def cycle_skips_def mm_should_skip_unfold)
next
  case False
  define md where "md = (if modes = 0 then mc_default (me_cfg me) else modes)"
  obtain u1 z1 where r: "run_modes me md dry_run (first_summary me md dry_run z, z) = (u1, z1)" by fastforce
  have frame: "mz_metrics z1 = mz_metrics z" "su_skipped u1 = su_skipped (first_summary me md dry_run z)"
    by (rule run_modes_frame [OF r])+
  have skipped: "\<not> su_skipped u"
    unfolding worked_cycle(1) [OF assms(1) False r md_def] by (simp add: with_json_def frame first_summary_def zero_summary_def)
  have pure: "mz_health z1 = mz_health z \<and> mz_reminders z1 = mz_reminders z" if dry_run
    using run_modes_dry [OF assms(2,3)] r that by (cases dry_run) simp_all
  show ?thesis
    using skipped False pure unfolding worked_cycle(2) [OF assms(1) False r md_def] Let_def
    by (auto simp: mm_metrics_record_def frame cycle_skips_def mm_should_skip_unfold)
qed

subsection \<open>A small system\<close>

text \<open>A store whose state is what maintenance saved; the other calls find nothing and change nothing.\<close>

definition still_crud :: "'s crud" where
  "still_crud = \<lparr>cr_cfg = sample_crud_cfg, cr_txt = sample_crud_txt, cr_db =
     \<lparr>cd_conflict = (\<lambda>k c s. None), cd_lookup_key = (\<lambda>k s. None), cd_lookup_merge = (\<lambda>k s. None), cd_dedupe = (\<lambda>k s. []),
      cd_get = (\<lambda>i s. None), cd_surprise = (\<lambda>x c s. 1 / 2), cd_update = (\<lambda>i u s. (True, s)), cd_insert = (\<lambda>r s. (1, s)),
      cd_provenance = (\<lambda>i x a d s. s), cd_count_versions = (\<lambda>k s. 0), cd_set_versioned = (\<lambda>i k t s. (False, s)),
      cd_valid_from = (\<lambda>i t s. s), cd_link = (\<lambda>i j r s. (1, s)), cd_refresh = (\<lambda>i k c s. s), cd_auto_tag = (\<lambda>i k c s. s),
      cd_embed = (\<lambda>i c s. s), cd_invalidate = id, cd_maintain = id, cd_audit = None\<rparr>\<rparr>"

definition still_promo :: "'s promo" where
  "still_promo = \<lparr>pr_crud = still_crud,
     pr_cfg = \<lparr>pc_fact = ''fact'', pc_episode = ''episode'', pc_calibration = 0, pc_tau = 0, pc_episode_window = 7,
       pc_episode_min = 3, pc_error_len = 256, pc_four_places = (\<lambda>r. ''0.0000''), pc_two_places = (\<lambda>r. ''0.00''),
       pc_stack_row = zero_memory, pc_embed_command = [], pc_embed_model = []\<rparr>,
     pr_db = \<lparr>pd_kinds = (\<lambda>t n s. []), pd_lifecycle = (\<lambda>k s. \<lparr>kl_promote_use_count = 3, kl_promote_confidence = 9 / 10,
         kl_demote_days = 30, kl_demote_confidence = 3 / 10, kl_demotion_resistance = 1, kl_expire_days = 30\<rparr>),
       pd_profile = (\<lambda>k s. None), pd_threshold = (\<lambda>j t. None), pd_promote_kind = (\<lambda>t k u c s. (0, s)),
       pd_promote_slot = (\<lambda>t k u c a b d s. (0, s)), pd_artifact_id = (\<lambda>s. ([], s)), pd_artifact = (\<lambda>i k p s. s),
       pd_demote_kind = (\<lambda>t k c d s. (0, s)), pd_demote_cascade = (\<lambda>t s. s), pd_delete_l0_provenance = id,
       pd_delete_l0 = (\<lambda>s. (0, s)), pd_stale_provenance = (\<lambda>k d s. s), pd_delete_stale = (\<lambda>k d s. (0, s)),
       pd_recent_errors = None, pd_match_error_keys = (\<lambda>e n s. []), pd_demote_id = (\<lambda>i s. (0, s)), pd_patterns = None,
       pd_episode_seeds = None, pd_key_exists = (\<lambda>k s. False), pd_unembedded = (\<lambda>v n s. []),
       pd_memory_embed = (\<lambda>i c s. (True, s)), pd_reclassify = (\<lambda>a s. (0, s)), pd_l5_candidates = (\<lambda>n s. None),
       pd_mdl = (\<lambda>a b. None), pd_feature = (\<lambda>i f s. s), pd_promote_stable = (\<lambda>t s. (0, s)),
       pd_record_approval = (\<lambda>i a n s. (True, s)), pd_lineage_insert = (\<lambda>t i k r c s. (1, s)),
       pd_lineage = (\<lambda>t i n s. []), pd_provenance_list = (\<lambda>i n s. [])\<rparr>\<rparr>"

definition still_directive_db :: "'s directive_db" where
  "still_directive_db = \<lparr>dd_get = (\<lambda>i s. None), dd_insert = (\<lambda>d s. (Insert_Failed, s)), dd_list = (\<lambda>a b n s. []),
     dd_counts = (\<lambda>s. None), dd_resolve = (\<lambda>i r s. (False, s)), dd_suppress = (\<lambda>i s. (False, s)), dd_sweep = (\<lambda>s. (0, s)),
     dd_by_entity = (\<lambda>e n s. []), dd_by_file = (\<lambda>e n s. []), dd_by_lexical = (\<lambda>e n s. []), dd_surface = (\<lambda>i s. (False, s)),
     dd_bump = (\<lambda>q s. (0, s)), dd_find = (\<lambda>c t s. None), dd_resolve_pair = (\<lambda>a b r s. (0, s))\<rparr>"

definition still_conflict :: "'s conflict_env" where
  "still_conflict = \<lparr>ke_crud = still_crud,
     ke_cfg = \<lparr>cf_episode = ''episode'', cf_max_pairs = 50, cf_min_l2 = 10, cf_interval = 86400\<rparr>,
     ke_db = \<lparr>kd_l0_list = (\<lambda>x n s. []), kd_l0_purge = (\<lambda>x s. s), kd_by_key = (\<lambda>k n s. []), kd_record = (\<lambda>a b s. (True, s)),
       kd_log = (\<lambda>a b r d s. s), kd_last_scan = (\<lambda>s. None), kd_count_l2 = (\<lambda>s. 0), kd_cross_key = (\<lambda>n s. []),
       kd_fact_decision = (\<lambda>n s. []), kd_scan_marker = (\<lambda>t s. s), kd_list = (\<lambda>n s. []), kd_pair = (\<lambda>i s. None),
       kd_resolve = (\<lambda>i r s. (0, s))\<rparr>,
     ke_dir_cfg = \<lparr>dn_contradiction = ''contradiction'', dn_retrieval_failure = ''failure'', dn_missing_config = ''config'',
       dn_follow_up = ''follow'', dn_max_matches = 3, dn_anchor_len = 64, dn_question_len = 64, dn_evidence_len = 64,
       dn_topic_len = 64, dn_cause_len = 64, dn_state_len = 64, dn_time_len = 64, dn_threshold = 3,
       dn_lower_copy = (\<lambda>t n. t), dn_double = id\<rparr>,
     ke_dir_db = still_directive_db\<rparr>"

definition still_health :: "'s health_env" where
  "still_health = \<lparr>he_promo = still_promo, he_conflict = still_conflict,
     he_rows = \<lparr>rw_touch = (\<lambda>i s. (True, s)), rw_update_content = (\<lambda>i c s. (0, s)), rw_reject = (\<lambda>i r s. (False, s)),
       rw_list = (\<lambda>t k h l n s. []), rw_provenance_delete = (\<lambda>i s. s), rw_unit_ids = (\<lambda>i s. []), rw_point_delete = (\<lambda>i s. s),
       rw_index_op_remove = (\<lambda>i s. s), rw_delete_row = (\<lambda>i s. (0, s)), rw_id_key_content = (\<lambda>n s. []),
       rw_memory_embed = (\<lambda>i c s. (True, s)), rw_retryable = (\<lambda>a b s. []), rw_unit_offset = 1000\<rparr>,
     he_cfg = \<lparr>hc_min_samples = 5, hc_demote_threshold = 3 / 10, hc_restricted_days = 1, hc_sensitive_days = 7,
       hc_use_count = 3, hc_confidence = 9 / 10, hc_session_len = 64\<rparr>,
     he_db = \<lparr>hd_snapshots = None, hd_outcome = None, hd_set_effectiveness = (\<lambda>i r s. s), hd_clear_effectiveness = (\<lambda>i s. s),
       hd_demote_low = (\<lambda>r s. (0, s)), hd_stats = (\<lambda>r s. None), hd_l2_ids = (\<lambda>n s. []), hd_has_memory = None,
       hd_delete_sensitive = (\<lambda>k d s. (0, s)), hd_clusters = (\<lambda>n s. []), hd_created_at = (\<lambda>x n s. []),
       hd_content = (\<lambda>x n s. []), hd_pending = (\<lambda>s. Some 4), hd_conventions = (\<lambda>s. (0, s)), hd_count = (\<lambda>s. 5),
       hd_recent_conflicts = (\<lambda>d s. 0), hd_record = (\<lambda>a b c d e s. s), hd_prune = (\<lambda>d s. s),
       hd_prune_contradictions = (\<lambda>d s. s), hd_graph_prune = id, hd_graph_normalize = id, hd_counters = (\<lambda>u c s. None)\<rparr>,
     he_stamp = (\<lambda>t. 1000), he_now = 2000\<rparr>"

definition sample_maint_summary :: maint_summary where
  "sample_maint_summary = zero_summary\<lparr>su_modes_run := 20, su_merged := 2, su_drift_candidates := 7, su_drift_requeued := 1,
     su_elapsed := 1 / 2, su_count_before := 5, su_count_after := 5, su_json := ''summary''\<rparr>"

definition sample_maint :: "maint_saved maint_env" where
  "sample_maint = \<lparr>me_health = still_health,
     me_cfg = \<lparr>mc_replay = 1, mc_prune = 2, mc_compact = 4, mc_summarize = 8, mc_drift = 16, mc_default = 7, mc_interval = 0,
       mc_default_interval = 3600, mc_enabled = True, mc_profile_cards = False, mc_min_obs = 0, mc_stale_secs = 0,
       mc_dedupe = True, mc_summarize_enabled = False, mc_improve_summarise = False, mc_min_cluster = 0,
       mc_max_confidence = 0, mc_json_len = 512\<rparr>,
     me_db = \<lparr>md_count = (\<lambda>s. 5), md_load = id, md_save = (\<lambda>x s. x), md_profile_refresh = (\<lambda>a b s. (0, s)),
       md_curiosity = (\<lambda>s. (0, s)), md_lifecycle_sweep = (\<lambda>s. (0, s)), md_dedupe = (\<lambda>d s. (2, s)),
       md_summarise = (\<lambda>d n c s. (0, s)), md_drift = (\<lambda>s. 7), md_requeue = (\<lambda>s. (1, s))\<rparr>,
     me_reminder_db = \<lparr>rd_insert = (\<lambda>a b c d e f g s. (0, s)), rd_get = (\<lambda>i s. None), rd_list = (\<lambda>a n s. []),
       rd_set_state = (\<lambda>i x s. (False, s)), rd_record_trigger = (\<lambda>i b s. (False, s)), rd_sweep = (\<lambda>s. (0, s)),
       rd_by_entity = (\<lambda>e n s. []), rd_by_file = (\<lambda>e n s. []), rd_by_terms = (\<lambda>e n s. []), rd_armed = (\<lambda>n s. [])\<rparr>,
     me_print = (\<lambda>j. ''summary''),
     me_parse = (\<lambda>t. Some (JObject [(''skipped'', JBool False), (''dry_run'', JBool False), (''modes_run'', JNumber 20),
       (''promoted'', JNumber 0), (''demoted'', JNumber 0), (''expired'', JNumber 0), (''lifecycle_archived'', JNumber 0),
       (''reminders_expired'', JNumber 0), (''directives_expired'', JNumber 0), (''rescored'', JNumber 0),
       (''profile_cards_refreshed'', JNumber 0), (''merged'', JNumber 2), (''summarized'', JNumber 0),
       (''drift_candidates'', JNumber 7), (''drift_requeued'', JNumber 1), (''elapsed_ms'', JNull),
       (''memory_count_before'', JNumber 5), (''memory_count_after'', JNumber 5)])),
     me_elapsed_node = (\<lambda>r. JNull), me_double = id\<rparr>"

definition never_run :: maint_saved where
  "never_run = \<lparr>ms_present = False, ms_last_run_at = [], ms_last_count = 0, ms_last_changes = 0, ms_last_elapsed = 0,
     ms_last_json = []\<rparr>"

definition sample_maint_state :: "maint_saved maint_state" where
  "sample_maint_state = \<lparr>mz_health = \<lparr>hs_quiet = 0, hs_alarm = False,
       hs_directives = \<lparr>dm_created = 0, dm_resolved = 0, dm_expired = 0, dm_surfaced = 0, dm_calls = 0, dm_ms_sum = 0, dm_ms_max = 0\<rparr>,
       hs_store = never_run\<rparr>,
     mz_reminders = no_reminder_metrics,
     mz_metrics = \<lparr>mt_runs = 0, mt_skips = 0, mt_changes = 0, mt_ms_sum = 0, mt_ms_max = 0\<rparr>\<rparr>"

lemma sample_cycle: "fst (memory_maintenance_run sample_maint (1 / 2) 20 False False sample_maint_state) = sample_maint_summary"
  by code_simp

theorem last_summary_restores_witness:
  "memory_maintenance_last_summary sample_maint
     (mz_store (snd (memory_maintenance_run sample_maint (1 / 2) 20 False False sample_maint_state))) =
   Some (sample_maint_summary\<lparr>su_drift_candidates := 0, su_drift_requeued := 0\<rparr>)"
proof (rule last_summary_restores)
  show "memory_maintenance_run sample_maint (1 / 2) 20 False False sample_maint_state =
      (sample_maint_summary, snd (memory_maintenance_run sample_maint (1 / 2) 20 False False sample_maint_state))"
    by (simp add: sample_cycle [symmetric])
  show "\<not> su_skipped sample_maint_summary" by code_simp
  show "md_load (me_db sample_maint) (md_save (me_db sample_maint) x s) = x" for x s by (simp add: sample_maint_def)
  show "summary_readable sample_maint sample_maint_summary" by code_simp
qed

theorem dry_or_skipped_cycle_is_pure_witness:
  "mz_health (snd (memory_maintenance_run sample_maint (1 / 2) 20 False True sample_maint_state)) = mz_health sample_maint_state"
  using dry_or_skipped_cycle_is_pure [of sample_maint "1 / 2" 20 False True sample_maint_state,
      OF prod.collapse [symmetric]]
  by (simp add: sample_maint_def)

end
