(* ===== verification/Weekday.thy ===== *)
theory Weekday
  imports Dates
begin

text \<open>
  The weekday of a date, as \<open>mktime\<close> fills it in: by the number of days since the epoch.  It is
  the weekday the clock gives for that day (\<open>weekday_of_the_clock\<close>).
\<close>

definition leaps_before :: "int \<Rightarrow> int" where
  "leaps_before y = (y - 1) div 4 - (y - 1) div 100 + (y - 1) div 400"

definition month_start :: "int \<Rightarrow> int \<Rightarrow> int" where
  "month_start y m = (\<Sum>k\<leftarrow>[1..m - 1]. month_days y k)"

definition day_number :: "date \<Rightarrow> int" where
  "day_number ymd =
     (case ymd of (y, m, d) \<Rightarrow>
        365 * (y - 1970) + (leaps_before y - leaps_before 1970) + month_start y m + (d - 1))"

definition date_weekday :: "date \<Rightarrow> int" where
  "date_weekday ymd = utc_weekday (day_number ymd)"

lemma month_start_Suc: "1 \<le> m \<Longrightarrow> month_start y (m + 1) = month_start y m + month_days y m"
  using upto_rec2 [of 1 m] by (simp add: month_start_def)

lemma month_start_1 [simp]: "month_start y 1 = 0"
  by (simp add: month_start_def)

lemma month_start_12: "month_start y 12 + 31 = 365 + (if is_leap y then 1 else 0)"
proof -
  have "[1..11] = [1, 2, 3, 4, 5, 6, 7, 8, 9, 10, 11 :: int]"
    by (simp add: upto.simps)
  then show ?thesis
    by (simp add: month_start_def month_days_def)
qed

lemma div_step:
  assumes "0 < (k :: int)"
  shows "y div k = (y - 1) div k + (if y mod k = 0 then 1 else 0)"
proof (cases "y mod k = 0")
  case True
  then have "y - 1 = k * (y div k - 1) + (k - 1)"
    using mult_div_mod_eq [of k y] by (simp add: algebra_simps)
  then have "(y - 1) div k = y div k - 1"
    using assms by (intro int_div_pos_eq [where r = "k - 1"]) auto
  then show ?thesis
    using True by simp
next
  case False
  then have "y - 1 = k * (y div k) + (y mod k - 1)" "0 \<le> y mod k - 1" "y mod k - 1 < k"
    using mult_div_mod_eq [of k y] pos_mod_sign [OF assms, of y] pos_mod_bound [OF assms, of y] by linarith+
  then have "(y - 1) div k = y div k"
    by (rule int_div_pos_eq)
  then show ?thesis
    using False by simp
qed

lemma leaps_Suc: "leaps_before (y + 1) = leaps_before y + (if is_leap y then 1 else 0)"
proof -
  have nested: "y mod 100 = 0 \<Longrightarrow> y mod 4 = 0" "y mod 400 = 0 \<Longrightarrow> y mod 100 = 0"
    using dvd_trans [of 4 100 y] dvd_trans [of 100 400 y] by (simp_all flip: dvd_eq_mod_eq_0)
  have sums: "a = a' + (if P then 1 else 0) \<Longrightarrow> b = b' + (if Q then 1 else 0) \<Longrightarrow> c = c' + (if R then 1 else 0) \<Longrightarrow>
      (Q \<Longrightarrow> P) \<Longrightarrow> (R \<Longrightarrow> Q) \<Longrightarrow> a - b + c = a' - b' + c' + (if P \<and> (\<not> Q \<or> R) then 1 else 0)"
    for a a' b b' c c' :: int and P Q R
    by (cases P; cases Q; cases R) simp_all
  show ?thesis
    unfolding leaps_before_def is_leap_def add_diff_cancel_right'
    by (rule sums [OF div_step div_step div_step nested]) (rule zero_less_numeral | assumption)+
qed

lemma day_number_next: "valid_date d \<Longrightarrow> day_number (next_day d) = day_number d + 1"
proof -
  assume ok: "valid_date d"
  obtain y m k where d: "d = (y, m, k)"
    by (cases d)
  consider "k < month_days y m" | "k = month_days y m" "m < 12" | "k = month_days y m" "m = 12"
    using ok d by fastforce
  then show ?thesis
  proof cases
    case 3
    then show ?thesis
      using month_start_12 [of y] leaps_Suc [of y] by (simp add: d day_number_def)
  qed (use ok d in \<open>simp_all add: day_number_def month_start_Suc\<close>)
qed

lemma day_number_utc: "day_number (utc_date n) = n"
proof -
  have up: "day_number (utc_date (n + 1)) = day_number (utc_date n) + 1" for n
    using day_number_next [OF utc_date_valid, of n] shift_succ [OF epoch_valid, of n] by (simp add: utc_date_def)
  have start: "day_number (utc_date 0) = 0"
    by (simp add: utc_date_def epoch_def day_number_def)
  show ?thesis
  proof (induction n rule: int_induct [where k = 0])
    case (step2 i)
    then show ?case
      using up [of "i - 1"] by simp
  qed (simp_all add: start up)
qed

lemma weekday_of_the_clock: "date_weekday (utc_date n) = utc_weekday n"
  by (simp add: date_weekday_def day_number_utc)

end
