(* ===== verification/Derived.thy ===== *)
theory Derived
  imports Temporal Weights Weekday
begin

text \<open>
  The metadata derived from a memory's text (\<open>memory_core_helpers_b.c\<close> with the small inserts of
  \<open>memory_core_helpers.c\<close>): aliases, entities, pronoun bindings, temporal references, summaries,
  event frames, chunks and negation tokens.

  Each refresh clears the rows of the memory and inserts new ones.  The rows are computed by a
  pure function (\<open>alias_rows\<close>, \<open>entity_rows\<close>, ...) in the order of the inserts; the inserts act on
  an abstract state \<open>'s\<close> through the record \<open>derived_db\<close>.  \<open>normalize_key\<close>,
  \<open>extract_negation_tokens\<close> and the parsed answer of the cognifier are fields of \<open>derive_env\<close>.
  \<open>de_stale\<close> stands for what is read out of a buffer whose terminator a join has overwritten
  (\<open>memory_alias_join_tokens\<close>); two or three tokens always fit.  A key that is \<open>NULL\<close> is read as
  the empty key.  A number of the text is what \<open>atoi\<close> leaves of it in a C \<open>int\<close>, and arithmetic on
  it wraps as it is compiled (\<open>wrap32\<close>).
\<close>

record derive_env =
  de_norm :: normalizer
  de_stale :: "nat \<Rightarrow> string list \<Rightarrow> string"
  de_negation_on :: bool
  de_negation :: "string \<Rightarrow> nat \<Rightarrow> int \<times> string"
  de_env :: environment
  de_coref_mode :: cptr
  de_coref_window :: int
  de_cognify_command :: string
  de_cognify :: "int \<Rightarrow> string \<Rightarrow> string list \<Rightarrow> (string \<times> real) list option"

record event_frame =
  ef_actor :: string
  ef_action :: string
  ef_object :: string
  ef_location :: string
  ef_time :: string

record 's derived_db =
  dd_alias_clear :: "int \<Rightarrow> 's \<Rightarrow> 's"
  dd_alias :: "int \<Rightarrow> string \<Rightarrow> real \<Rightarrow> 's \<Rightarrow> 's"
  dd_entity_clear :: "int \<Rightarrow> 's \<Rightarrow> 's"
  dd_entity :: "int \<Rightarrow> string \<Rightarrow> string \<Rightarrow> real \<Rightarrow> 's \<Rightarrow> 's"
  dd_temporal_clear :: "int \<Rightarrow> 's \<Rightarrow> 's"
  dd_temporal :: "int \<Rightarrow> string \<Rightarrow> string \<Rightarrow> real \<Rightarrow> 's \<Rightarrow> 's"
  dd_summary_clear :: "int \<Rightarrow> 's \<Rightarrow> 's"
  dd_summary :: "int \<Rightarrow> string \<Rightarrow> string \<Rightarrow> 's \<Rightarrow> 's"
  dd_frame_clear :: "int \<Rightarrow> 's \<Rightarrow> 's"
  dd_frame :: "int \<Rightarrow> event_frame \<Rightarrow> string \<Rightarrow> 's \<Rightarrow> 's"
  dd_chunk_clear :: "int \<Rightarrow> 's \<Rightarrow> 's"
  dd_chunk :: "int \<Rightarrow> nat \<Rightarrow> string \<Rightarrow> 's \<Rightarrow> 's"
  dd_negation :: "int \<Rightarrow> string \<Rightarrow> 's \<Rightarrow> 's"
  dd_session :: "int \<Rightarrow> 's \<Rightarrow> string option"
  dd_prior :: "string \<Rightarrow> int \<Rightarrow> int \<Rightarrow> 's \<Rightarrow> (string \<times> string) list"
  dd_created :: "int \<Rightarrow> 's \<Rightarrow> date option"
  dd_coref_audit :: "int \<Rightarrow> string \<Rightarrow> string \<Rightarrow> string \<Rightarrow> string \<Rightarrow> real \<Rightarrow> 's \<Rightarrow> 's"

text \<open>The tokens of a text, and the joined phrase at a position.\<close>

definition text_tokens :: "derive_env \<Rightarrow> string \<Rightarrow> int \<Rightarrow> string list" where
  "text_tokens e t n = memory_split_tokens (Some (de_norm e t 2048)) n"

definition phrase_at :: "derive_env \<Rightarrow> nat \<Rightarrow> string list \<Rightarrow> nat \<Rightarrow> nat \<Rightarrow> string" where
  "phrase_at e buf_len ts i n =
     (case memory_alias_join_tokens buf_len ts i n of Some p \<Rightarrow> p
      | None \<Rightarrow> de_stale e buf_len (take n (drop i ts)))"

subsection \<open>Aliases\<close>

definition memory_alias_insert :: "derive_env \<Rightarrow> 's derived_db \<Rightarrow> int \<Rightarrow> string \<Rightarrow> real \<Rightarrow> 's \<Rightarrow> 's" where
  "memory_alias_insert e db i alias w s =
     (let a = de_norm e alias 256 in if a = [] then s else dd_alias db i a w s)"

text \<open>The leading spans, the longest first; at least three tokens.\<close>

definition span_aliases :: "derive_env \<Rightarrow> string list \<Rightarrow> (string \<times> real) list" where
  "span_aliases e ts =
     filter (\<lambda>(a, w). a \<noteq> [])
       (map (\<lambda>n. (phrase_at e 256 ts 0 n, 3 + real n * (1 / 10)))
         (rev [3..<Suc (min 6 (length ts))]))"

definition useful_run :: "string list \<Rightarrow> nat \<Rightarrow> nat \<Rightarrow> bool" where
  "useful_run ts i n = list_all (\<lambda>t. memory_alias_is_useful_token (Some t)) (take n (drop i ts))"

definition run_aliases :: "derive_env \<Rightarrow> nat \<Rightarrow> real \<Rightarrow> string list \<Rightarrow> (string \<times> real) list" where
  "run_aliases e n w ts =
     filter (\<lambda>(a, w). a \<noteq> [])
       (map (\<lambda>i. (phrase_at e 256 ts i n, w)) (filter (\<lambda>i. useful_run ts i n) [0..<Suc (length ts) - n]))"

definition token_aliases :: "string list \<Rightarrow> (string \<times> real) list" where
  "token_aliases ts = map (\<lambda>t. (t, 1)) (filter (\<lambda>t. memory_alias_is_useful_token (Some t)) ts)"

definition alias_rows :: "derive_env \<Rightarrow> string \<Rightarrow> string \<Rightarrow> (string \<times> real) list" where
  "alias_rows e key content =
     (if key = [] then [] else [(key, 4)]) @
     (if content = [] then []
      else let ts = text_tokens e content 16
           in take 24 (span_aliases e ts @ run_aliases e 2 2 ts @ run_aliases e 3 (25 / 10) ts @ token_aliases ts))"

definition memory_refresh_aliases :: "derive_env \<Rightarrow> 's derived_db \<Rightarrow> int \<Rightarrow> string \<Rightarrow> string \<Rightarrow> 's \<Rightarrow> 's" where
  "memory_refresh_aliases e db i key content s =
     (if i \<le> 0 then s
      else foldl (\<lambda>t (a, w). memory_alias_insert e db i a w t) (dd_alias_clear db i s) (alias_rows e key content))"

subsection \<open>Entities\<close>

definition memory_entity_insert ::
    "derive_env \<Rightarrow> 's derived_db \<Rightarrow> int \<Rightarrow> string \<Rightarrow> string \<Rightarrow> real \<Rightarrow> 's \<Rightarrow> 's" where
  "memory_entity_insert e db i entity role w s =
     (let n = memory_canonicalize_term (de_norm e) (Some entity) 256
      in if n = [] then s else dd_entity db i n role w s)"

definition term_token :: "string \<Rightarrow> bool" where
  "term_token t \<longleftrightarrow>
     5 \<le> length t \<and> \<not> memory_is_stopword_token t \<and> \<not> memory_is_likely_action_token t \<and>
     \<not> memory_is_month_token t \<and> \<not> memory_is_weekday_token t \<and> \<not> memory_is_relation_token t \<and>
     \<not> memory_is_probable_location_token t"

definition phrase_token :: "string \<Rightarrow> bool" where
  "phrase_token t \<longleftrightarrow> 4 \<le> length t \<and> \<not> memory_is_stopword_token t \<and> \<not> memory_is_likely_action_token t"

definition phrase_rows :: "derive_env \<Rightarrow> real \<Rightarrow> string list \<Rightarrow> nat \<Rightarrow> nat \<Rightarrow> (string \<times> string \<times> real) list" where
  "phrase_rows e w ts i n =
     (let p = phrase_at e 256 ts i n in if p = [] then [] else [(p, ''phrase'', w)])"

definition entity_rows_at :: "derive_env \<Rightarrow> string list \<Rightarrow> nat \<Rightarrow> (string \<times> string \<times> real) list" where
  "entity_rows_at e ts i =
     (let t = ts ! i
      in (if term_token t then [(t, ''term'', if 8 \<le> length t then 15 / 10 else 1)] else []) @
         (if i + 1 < length ts \<and> phrase_token t \<and> phrase_token (ts ! (i + 1)) \<and>
             \<not> memory_is_relation_token t \<and> \<not> memory_is_relation_token (ts ! (i + 1))
          then phrase_rows e 2 ts i 2 else []) @
         (if i + 2 < length ts \<and> phrase_token t \<and> phrase_token (ts ! (i + 1)) \<and> phrase_token (ts ! (i + 2))
          then phrase_rows e (25 / 10) ts i 3 else []))"

definition entity_rows :: "derive_env \<Rightarrow> string \<Rightarrow> string \<Rightarrow> (string \<times> string \<times> real) list" where
  "entity_rows e key content =
     (if key = [] then [] else [(key, ''key'', 3)]) @
     (case memory_extract_speaker_from_content (Some content) 64 of None \<Rightarrow> []
      | Some sp \<Rightarrow> [(sp, ''actor'', 28 / 10)]) @
     (let ts = text_tokens e content 24 in concat (map (entity_rows_at e ts) [0..<length ts]))"

definition memory_refresh_entities :: "derive_env \<Rightarrow> 's derived_db \<Rightarrow> int \<Rightarrow> string \<Rightarrow> string \<Rightarrow> 's \<Rightarrow> 's" where
  "memory_refresh_entities e db i key content s =
     foldl (\<lambda>t (a, role, w). memory_entity_insert e db i a role w t) (dd_entity_clear db i s) (entity_rows e key content)"

subsection \<open>Pronoun bindings\<close>

record coref_counts =
  ct_bound :: nat
  ct_ambiguous :: nat
  ct_unbound :: nat

definition memory_coref_stats_reset :: coref_counts where
  "memory_coref_stats_reset = \<lparr>ct_bound = 0, ct_ambiguous = 0, ct_unbound = 0\<rparr>"

definition memory_coref_audit_record ::
    "'s derived_db \<Rightarrow> int \<Rightarrow> string \<Rightarrow> cptr \<Rightarrow> string \<Rightarrow> string \<Rightarrow> real \<Rightarrow> coref_counts \<times> 's \<Rightarrow> coref_counts \<times> 's" where
  "memory_coref_audit_record db i session outcome entity mode confidence cs =
     (let o' = (case outcome of None \<Rightarrow> ''none'' | Some o1 \<Rightarrow> o1); c = fst cs
      in (if o' = ''bound'' then c\<lparr>ct_bound := Suc (ct_bound c)\<rparr>
          else if o' = ''ambiguous'' then c\<lparr>ct_ambiguous := Suc (ct_ambiguous c)\<rparr>
          else c\<lparr>ct_unbound := Suc (ct_unbound c)\<rparr>,
          dd_coref_audit db i session o' entity mode confidence (snd cs)))"

definition memory_coref_mode_effective :: "derive_env \<Rightarrow> string" where
  "memory_coref_mode_effective e =
     (case de_env e ''AIMEE_MEMORY_COREF_MODE'' of
        Some m \<Rightarrow> if m \<noteq> [] then m else if nonempty (de_coref_mode e) then cptr_str (de_coref_mode e) else ''off''
      | None \<Rightarrow> if nonempty (de_coref_mode e) then cptr_str (de_coref_mode e) else ''off'')"

definition memory_coref_window_effective :: "derive_env \<Rightarrow> int" where
  "memory_coref_window_effective e =
     memory_env_int (de_env e) ''AIMEE_MEMORY_COREF_WINDOW''
       (if 0 < de_coref_window e then de_coref_window e else 5) 1 12"

text \<open>The newest earlier row that names someone decides; \<open>True\<close>: it names more than one.\<close>

definition prior_names :: "derive_env \<Rightarrow> string \<Rightarrow> string \<Rightarrow> string list" where
  "prior_names e content key =
     (let names = memory_extract_named_entities (de_norm e) (Some content) 8
      in if names = [] then memory_extract_named_entities (de_norm e) (Some key) 8 else names)"

fun coref_choice :: "derive_env \<Rightarrow> (string \<times> string) list \<Rightarrow> string \<times> bool" where
  "coref_choice e [] = ([], False)"
| "coref_choice e ((content, key) # ps) =
     (case prior_names e content key of [] \<Rightarrow> coref_choice e ps
      | [n] \<Rightarrow> (cbuf 128 n, False)
      | _ \<Rightarrow> ([], True))"

text \<open>The binding with the highest confidence, the first of equals; below one half none counts.\<close>

fun best_binding :: "(string \<times> real) option \<Rightarrow> (string \<times> real) list \<Rightarrow> (string \<times> real) option" where
  "best_binding best [] = best"
| "best_binding best ((entity, c) # bs) =
     best_binding
       (if entity = [] \<or> c < 1 / 2 then best
        else case best of None \<Rightarrow> Some (entity, c) | Some (_, c') \<Rightarrow> if c' < c then Some (entity, c) else best) bs"

definition memory_coref_llm_resolve ::
    "derive_env \<Rightarrow> 's derived_db \<Rightarrow> int \<Rightarrow> string \<Rightarrow> string \<Rightarrow> 's \<Rightarrow> bool \<times> 's" where
  "memory_coref_llm_resolve e db i content session s =
     (if de_cognify_command e = [] then (False, s)
      else let prior = take 64 (dd_prior db session i (memory_coref_window_effective e) s);
               context = filter (\<lambda>c. c \<noteq> []) (map fst prior)
           in case de_cognify e i content context of None \<Rightarrow> (False, s)
              | Some bindings \<Rightarrow>
                  (case best_binding None bindings of None \<Rightarrow> (False, s)
                   | Some (entity, _) \<Rightarrow> (True, memory_entity_insert e db i entity ''coref'' (28 / 10) s)))"

definition coref_heuristic ::
    "derive_env \<Rightarrow> 's derived_db \<Rightarrow> int \<Rightarrow> string \<Rightarrow> coref_counts \<times> 's \<Rightarrow> coref_counts \<times> 's" where
  "coref_heuristic e db i session cs =
     (case coref_choice e (take 64 (dd_prior db session i (memory_coref_window_effective e) (snd cs))) of
        (chosen, ambiguous) \<Rightarrow>
          if chosen \<noteq> []
          then memory_coref_audit_record db i session (Some ''bound'') chosen ''heuristic'' 1
                 (fst cs, memory_entity_insert e db i chosen ''coref'' (28 / 10) (snd cs))
          else memory_coref_audit_record db i session (Some (if ambiguous then ''ambiguous'' else ''unbound'')) []
                 ''heuristic'' 0 cs)"

definition memory_refresh_coref_entities ::
    "derive_env \<Rightarrow> 's derived_db \<Rightarrow> int \<Rightarrow> string \<Rightarrow> coref_counts \<times> 's \<Rightarrow> coref_counts \<times> 's" where
  "memory_refresh_coref_entities e db i content cs =
     (let mode = memory_coref_mode_effective e
      in if i \<le> 0 \<or> content = [] \<or> \<not> memory_coref_has_pronoun (de_norm e) (Some content) then cs
         else if mode \<noteq> ''heuristic'' \<and> mode \<noteq> ''llm'' then cs
         else case dd_session db i (snd cs) of None \<Rightarrow> cs
              | Some session \<Rightarrow>
                  let session = cbuf 128 session
                  in if mode = ''llm''
                     then case memory_coref_llm_resolve e db i content session (snd cs) of (found, s1) \<Rightarrow>
                            memory_coref_audit_record db i session (Some (if found then ''bound'' else ''unbound'')) []
                              ''llm'' (if found then 1 else 0) (fst cs, s1)
                     else coref_heuristic e db i session cs)"

subsection \<open>Temporal references\<close>

type_synonym temporal_row = "string \<times> string \<times> real"

definition memory_temporal_insert :: "derive_env \<Rightarrow> 's derived_db \<Rightarrow> int \<Rightarrow> string \<Rightarrow> string \<Rightarrow> real \<Rightarrow> 's \<Rightarrow> 's" where
  "memory_temporal_insert e db i ref granularity w s =
     (let n = de_norm e ref 128 in if n = [] then s else dd_temporal db i n granularity w s)"

definition year_token :: "string \<Rightarrow> bool" where
  "year_token t \<longleftrightarrow> length t = 4 \<and> list_all isdigit t"

definition key_temporal_rows :: "derive_env \<Rightarrow> string \<Rightarrow> temporal_row list" where
  "key_temporal_rows e key =
     concat (map (\<lambda>t.
       if memory_is_month_token t then [(t, ''month'', 18 / 10)]
       else if memory_is_weekday_token t then [(t, ''weekday'', 15 / 10)]
       else if year_token t then [(t, ''year'', 2)] else []) (text_tokens e key 24))"

definition print_day :: "date \<Rightarrow> string" where
  "print_day ymd = (case ymd of (y, m, d) \<Rightarrow> memory_format_date 128 y m d)"

definition relative_rows :: "date option \<Rightarrow> string \<Rightarrow> temporal_row list" where
  "relative_rows created t =
     (t, ''relative'', 18 / 10) #
     (case created of None \<Rightarrow> []
      | Some c \<Rightarrow>
          if t \<in> {''today'', ''yesterday'', ''tomorrow''}
          then [(print_day
                  (if t = ''yesterday'' then memory_shift_day c (-1)
                   else if t = ''tomorrow'' then memory_shift_day c 1 else c), ''absolute_day'', 26 / 10)]
          else [])"

definition month_day_rows :: "derive_env \<Rightarrow> date option \<Rightarrow> string list \<Rightarrow> nat \<Rightarrow> temporal_row list" where
  "month_day_rows e created ts i =
     (let p = phrase_at e 128 ts i 2;
          month_num = memory_month_number (ts ! i); day_num = atoi (ts ! (i + 1))
      in (if p = [] then [] else [(p, ''date_phrase'', 23 / 10)]) @
         (case created of None \<Rightarrow> []
          | Some (y, _, _) \<Rightarrow>
              if 0 < month_num \<and> 0 < day_num \<and> day_num \<le> 31
              then [(memory_format_date 128 y month_num day_num, ''absolute_day'', 28 / 10)] else []))"

definition month_rows :: "derive_env \<Rightarrow> date option \<Rightarrow> string list \<Rightarrow> nat \<Rightarrow> temporal_row list" where
  "month_rows e created ts i =
     (ts ! i, ''month'', 2) #
     (if i + 1 < length ts \<and> length (ts ! (i + 1)) \<le> 4 then month_day_rows e created ts i else [])"

text \<open>\<open>last week\<close>, \<open>last month\<close>, \<open>last year\<close> and \<open>last <weekday>\<close>, from the day of the row.\<close>

definition previous_weekday :: "date \<Rightarrow> nat \<Rightarrow> date" where
  "previous_weekday c target =
     (case c of (y, m, d) \<Rightarrow>
        let wday = date_weekday (norm_date y m d);
            cur = (if wday \<noteq> 0 then wday - 1 else 6);
            delta = cur - int target
        in memory_shift_day c (- (if delta \<le> 0 then delta + 7 else delta)))"

definition last_rows :: "date \<Rightarrow> string \<Rightarrow> temporal_row list" where
  "last_rows c w =
     (case c of (y, m, d) \<Rightarrow>
        if w = ''week''
        then [(print_day (memory_shift_day c (-7)), ''absolute_day'', 22 / 10), (''last:week'', ''relative_phrase'', 2)]
        else if w = ''month''
        then [(''last:month'', ''relative_phrase'', 2),
              (if m - 1 < 1 then memory_format_date 128 (y - 1) 12 1 else memory_format_date 128 y (m - 1) 1,
               ''absolute_day'', 2)]
        else if w = ''year''
        then [(''last:year'', ''relative_phrase'', 2), (cbuf 8 (pad 4 (y - 1)), ''year'', 22 / 10)]
        else case index_of w [''monday'', ''tuesday'', ''wednesday'', ''thursday'', ''friday'', ''saturday'', ''sunday''] of
               None \<Rightarrow> []
             | Some target \<Rightarrow> [(print_day (previous_weekday c target), ''absolute_day'', 24 / 10)])"

definition bound_rows :: "date option \<Rightarrow> string list \<Rightarrow> nat \<Rightarrow> temporal_row list" where
  "bound_rows created ts i =
     (let t = ts ! i
      in (t, ''relative'', 12 / 10) #
         (case created of None \<Rightarrow> []
          | Some c \<Rightarrow> if t = ''last'' \<and> i + 1 < length ts then last_rows c (ts ! (i + 1)) else []) @
         (if t \<in> {''before'', ''after'', ''during''} \<and> i + 1 < length ts
          then [(cbuf 128 (t @ '':'' @ ts ! (i + 1)), ''ordering'', 18 / 10)] else []) @
         (if t = ''between'' \<and> i + 2 < length ts
          then [(cbuf 128 (''between:'' @ ts ! (i + 1) @ '':'' @ ts ! (i + 2)), ''range'', 2)] else []))"

text \<open>The calendar month \<open>n\<close> months before: the loop that adds twelve until the month is positive.\<close>

definition months_before :: "date \<Rightarrow> int \<Rightarrow> date" where
  "months_before c n =
     (case c of (y, m, d) \<Rightarrow>
        let pm = m - n; back = (if pm < 1 then (12 - pm) div 12 else 0)
        in (y - back, pm + 12 * back, if 28 < d then 28 else d))"

definition ago_rows :: "date \<Rightarrow> int \<Rightarrow> string \<Rightarrow> temporal_row list" where
  "ago_rows c n w =
     (if n \<le> 0 then []
      else if w = ''days'' \<or> w = ''day''
      then [(print_day (memory_shift_day c (- n)), ''absolute_day'', 25 / 10), (''ago'', ''relative'', 1)]
      else if w = ''weeks'' \<or> w = ''week''
      then [(print_day (memory_shift_day c (wrap32 (- (n * 7)))), ''absolute_day'', 24 / 10), (''ago'', ''relative'', 1)]
      else if w = ''months'' \<or> w = ''month''
      then [(print_day (months_before c n), ''absolute_day'', 24 / 10), (''ago'', ''relative'', 1)]
      else [])"

definition ago_at :: "date option \<Rightarrow> string list \<Rightarrow> nat \<Rightarrow> temporal_row list" where
  "ago_at created ts i =
     (case created of None \<Rightarrow> []
      | Some c \<Rightarrow>
          let t = ts ! i
          in if i + 2 < length ts \<and> ts ! (i + 2) = ''ago'' \<and> t \<noteq> [] \<and> isdigit (hd t) \<and> hd t \<noteq> CHR ''0''
             then ago_rows c (atoi t) (ts ! (i + 1)) else [])"

definition temporal_rows_at :: "derive_env \<Rightarrow> date option \<Rightarrow> string list \<Rightarrow> nat \<Rightarrow> temporal_row list" where
  "temporal_rows_at e created ts i =
     (let t = ts ! i
      in if t \<in> {''today'', ''yesterday'', ''tomorrow'', ''tonight'', ''morning'', ''afternoon'', ''evening''}
         then relative_rows created t
         else if memory_is_month_token t then month_rows e created ts i
         else if memory_is_weekday_token t then [(t, ''weekday'', 17 / 10)]
         else if year_token t then [(t, ''year'', 22 / 10)]
         else if t \<in> {''before'', ''after'', ''during'', ''first'', ''last'', ''recently''} then bound_rows created ts i
         else ago_at created ts i)"

definition temporal_rows :: "derive_env \<Rightarrow> date option \<Rightarrow> string \<Rightarrow> string \<Rightarrow> temporal_row list" where
  "temporal_rows e created key content =
     key_temporal_rows e key @
     (let ts = text_tokens e content 24 in concat (map (temporal_rows_at e created ts) [0..<length ts]))"

definition memory_refresh_temporal_refs :: "derive_env \<Rightarrow> 's derived_db \<Rightarrow> int \<Rightarrow> string \<Rightarrow> string \<Rightarrow> 's \<Rightarrow> 's" where
  "memory_refresh_temporal_refs e db i key content s =
     (let s1 = dd_temporal_clear db i s
      in foldl (\<lambda>t (ref, g, w). memory_temporal_insert e db i ref g w t)
           s1 (temporal_rows e (dd_created db i s1) key content))"

subsection \<open>Summaries\<close>

definition memory_is_summary_noise_token :: "cptr \<Rightarrow> bool" where
  "memory_is_summary_noise_token tok \<longleftrightarrow>
     \<not> nonempty tok \<or> cptr_str tok \<in> {''user'', ''assistant'', ''system'', ''speaker''}"

definition concept_term :: "derive_env \<Rightarrow> string \<Rightarrow> string" where
  "concept_term e t = (let c = memory_canonicalize_term (de_norm e) (Some t) 64 in if c = [] then t else c)"

text \<open>
  The concepts joined into a buffer of 512 bytes: \<open>seen\<close> holds the terms so far, at most 24; a
  term that does not fit is cut and ends the scan.
\<close>

fun concept_loop :: "derive_env \<Rightarrow> string list \<Rightarrow> string \<Rightarrow> string list \<Rightarrow> string" where
  "concept_loop e seen buf [] = buf"
| "concept_loop e seen buf (t # ts) =
     (if 24 \<le> length seen then buf
      else if \<not> memory_is_signal_token (Some t) \<or> memory_is_summary_noise_token (Some t) then concept_loop e seen buf ts
      else let term' = concept_term e t
           in if length term' < 4 \<or> term' \<in> set seen then concept_loop e seen buf ts
              else let buf' = buf @ (if buf = [] then [] else '' '') @ term'
                   in if 512 \<le> length buf' then cbuf 512 buf'
                      else concept_loop e (seen @ [cbuf 64 term']) buf' ts)"

definition summary_rows :: "derive_env \<Rightarrow> string \<Rightarrow> string \<Rightarrow> (string \<times> string) list" where
  "summary_rows e key content =
     (let ts = text_tokens e (if content = [] then key else content) 32;
          headline = phrase_at e 512 ts 0 (min 20 (length ts));
          concepts = concept_loop e [] [] ts
      in if ts = [] then []
         else (if headline = [] then [] else [(''headline'', headline)]) @
              (if concepts = [] then [] else [(''signals'', concepts)]))"

definition memory_refresh_summaries :: "derive_env \<Rightarrow> 's derived_db \<Rightarrow> int \<Rightarrow> string \<Rightarrow> string \<Rightarrow> 's \<Rightarrow> 's" where
  "memory_refresh_summaries e db i key content s =
     foldl (\<lambda>t (scope, summary). dd_summary db i scope summary t) (dd_summary_clear db i s) (summary_rows e key content)"

subsection \<open>Event frames\<close>

text \<open>The scan of the tokens: the first action with its place, the first location, the first time.\<close>

record frame_scan =
  fs_action :: "nat option"
  fs_location :: string
  fs_time :: string

definition frame_location :: "derive_env \<Rightarrow> string list \<Rightarrow> nat \<Rightarrow> string \<Rightarrow> string" where
  "frame_location e ts i loc =
     (let loc1 = (if loc = [] \<and> memory_is_probable_location_token (ts ! i) then cbuf 128 (ts ! i) else loc)
      in if loc1 = [] \<and> memory_is_relation_token (ts ! i) \<and> i + 1 < length ts
         then phrase_at e 128 ts (i + 1)
                (if i + 3 \<le> length ts \<and> \<not> memory_is_relation_token (ts ! (i + 2)) then 2 else 1)
         else loc1)"

definition time_word :: "string \<Rightarrow> bool" where
  "time_word t \<longleftrightarrow>
     memory_is_month_token t \<or> memory_is_weekday_token t \<or> t \<in> {''today'', ''yesterday'', ''tomorrow''} \<or>
     length t = 4 \<and> isdigit (hd t)"

definition frame_time :: "derive_env \<Rightarrow> string list \<Rightarrow> nat \<Rightarrow> string \<Rightarrow> string" where
  "frame_time e ts i time =
     (if time \<noteq> [] then time
      else if memory_is_month_token (ts ! i) \<and> i + 1 < length ts \<and> length (ts ! (i + 1)) \<le> 4 \<and>
              isdigit (char_at (ts ! (i + 1)) 0)
      then phrase_at e 128 ts i 2
      else if time_word (ts ! i) then cbuf 128 (ts ! i) else [])"

definition frame_step :: "derive_env \<Rightarrow> string list \<Rightarrow> frame_scan \<Rightarrow> nat \<Rightarrow> frame_scan" where
  "frame_step e ts f i =
     \<lparr>fs_action = (case fs_action f of Some k \<Rightarrow> Some k
        | None \<Rightarrow> if memory_is_likely_action_token (ts ! i) then Some i else None),
      fs_location = frame_location e ts i (fs_location f), fs_time = frame_time e ts i (fs_time f)\<rparr>"

text \<open>The actor: the nearest telling word before the action, with the word before it.\<close>

definition actor_skips :: "string \<Rightarrow> bool" where
  "actor_skips t \<longleftrightarrow>
     memory_is_stopword_token t \<or> memory_is_month_token t \<or> memory_is_weekday_token t \<or> memory_is_relation_token t"

fun frame_actor :: "derive_env \<Rightarrow> string list \<Rightarrow> nat \<Rightarrow> string" where
  "frame_actor e ts 0 = []"
| "frame_actor e ts (Suc i) =
     (if actor_skips (ts ! i) then frame_actor e ts i
      else if 0 < i \<and> 3 \<le> length (ts ! (i - 1)) \<and> \<not> memory_is_stopword_token (ts ! (i - 1)) \<and>
              \<not> memory_is_relation_token (ts ! (i - 1))
      then phrase_at e 128 ts (i - 1) 2
      else cbuf 128 (ts ! i))"

text \<open>The object: the next telling word behind the action, with the one behind it.\<close>

definition object_skips :: "string \<Rightarrow> bool" where
  "object_skips t \<longleftrightarrow> memory_is_stopword_token t \<or> memory_is_relation_token t"

definition frame_object :: "derive_env \<Rightarrow> string list \<Rightarrow> nat \<Rightarrow> string" where
  "frame_object e ts k =
     (case dropWhile object_skips (drop (k + 1) ts) of [] \<Rightarrow> []
      | w # ws \<Rightarrow>
          if memory_is_month_token w \<or> memory_is_weekday_token w then []
          else phrase_at e 256 (w # ws) 0
                 (if ws \<noteq> [] \<and> \<not> object_skips (hd ws) \<and> \<not> memory_is_month_token (hd ws) then 2 else 1))"

definition or_else :: "string \<Rightarrow> string \<Rightarrow> string" where
  "or_else a b = (if a = [] then b else a)"

definition memory_extract_event_frame_fields :: "derive_env \<Rightarrow> string \<Rightarrow> string \<Rightarrow> event_frame option" where
  "memory_extract_event_frame_fields e t key =
     (let ts = text_tokens e (or_else t key) 32;
          f = foldl (frame_step e ts) \<lparr>fs_action = None, fs_location = [], fs_time = []\<rparr> [0..<length ts];
          k = (case fs_action f of None \<Rightarrow> 0 | Some k \<Rightarrow> k);
          action = (case fs_action f of None \<Rightarrow> [] | Some k \<Rightarrow> cbuf 128 (ts ! k))
      in if ts = [] then None
         else Some \<lparr>ef_actor = or_else (if 0 < k then frame_actor e ts k else []) (cbuf 128 key),
                ef_action = or_else action ''state'',
                ef_object = or_else (if 0 < k then frame_object e ts k else []) (cbuf 256 key),
                ef_location = fs_location f, ef_time = fs_time f\<rparr>)"

definition sentence_mark :: "char \<Rightarrow> bool" where
  "sentence_mark c \<longleftrightarrow> c \<in> set ''.!?;'' \<or> c = CHR 0x0A"

text \<open>The pieces of a text between the marks; the last one ends at the terminator.\<close>

fun sentences :: "string \<Rightarrow> string list" where
  "sentences [] = [[]]"
| "sentences (c # cs) =
     (if sentence_mark c then [] # sentences cs
      else case sentences cs of [] \<Rightarrow> [[c]] | p # ps \<Rightarrow> (c # p) # ps)"

definition trim_end :: "string \<Rightarrow> string" where
  "trim_end s = rev (dropWhile isspace (rev s))"

fun frame_rows :: "derive_env \<Rightarrow> string \<Rightarrow> nat \<Rightarrow> string list \<Rightarrow> (event_frame \<times> string) list" where
  "frame_rows e key n [] = []"
| "frame_rows e key n (p # ps) =
     (let chunk = trim_end (take 511 p)
      in case (if chunk = [] then None else memory_extract_event_frame_fields e chunk key) of
           None \<Rightarrow> if 8 \<le> n then [] else frame_rows e key n ps
         | Some f \<Rightarrow>
             (f, if n = 0 then ''derived'' else ''chunk'') # (if 8 \<le> Suc n then [] else frame_rows e key (Suc n) ps))"

definition event_rows :: "derive_env \<Rightarrow> string \<Rightarrow> string \<Rightarrow> (event_frame \<times> string) list" where
  "event_rows e key content =
     (if content = [] then
        (case memory_extract_event_frame_fields e key key of None \<Rightarrow> [] | Some f \<Rightarrow> [(f, ''derived'')])
      else frame_rows e key 0 (sentences content))"

definition memory_refresh_event_frames :: "derive_env \<Rightarrow> 's derived_db \<Rightarrow> int \<Rightarrow> string \<Rightarrow> string \<Rightarrow> 's \<Rightarrow> 's" where
  "memory_refresh_event_frames e db i key content s =
     foldl (\<lambda>t (f, k). dd_frame db i f k t) (dd_frame_clear db i s) (event_rows e key content)"

subsection \<open>Chunks\<close>

text \<open>
  Windows of 200 characters that end behind their last sentence mark, the next one starting 40
  characters before the end of this one.  \<open>break_point c p k\<close> is the last break in the window from \<open>p\<close> that
  ends at most at \<open>k\<close>.  The loop need not end, so it is a partial function: \<open>None\<close> is a run that
  does not return.
\<close>

definition CHUNK_CHARS :: nat where
  "CHUNK_CHARS = 200"

definition OVERLAP_CHARS :: nat where
  "OVERLAP_CHARS = 40"

definition MAX_CHUNKS :: nat where
  "MAX_CHUNKS = 8"

fun break_point :: "string \<Rightarrow> nat \<Rightarrow> nat \<Rightarrow> nat option" where
  "break_point c p 0 = None"
| "break_point c p (Suc k) =
     (if Suc k \<le> p then None else if sentence_mark (char_at c k) then Some (Suc k) else break_point c p k)"

definition window_end :: "string \<Rightarrow> nat \<Rightarrow> nat" where
  "window_end c p =
     (let stop = min (p + CHUNK_CHARS) (length c)
      in if stop < length c then (case break_point c p stop of None \<Rightarrow> stop | Some k \<Rightarrow> k) else stop)"

definition window_text :: "string \<Rightarrow> nat \<Rightarrow> nat \<Rightarrow> string" where
  "window_text c p b = trim_end (take (min (b - p) 511) (drop p c))"

definition next_window :: "nat \<Rightarrow> nat" where
  "next_window b =
     (let p = (if OVERLAP_CHARS < b then b - OVERLAP_CHARS else 0)
      in if p \<le> (if CHUNK_CHARS < b then b - CHUNK_CHARS else 0) then b else p)"

partial_function (option) chunk_loop :: "string \<Rightarrow> nat \<Rightarrow> nat \<Rightarrow> string list option" where
  [code]: "chunk_loop c p ci =
     (if length c \<le> p \<or> MAX_CHUNKS \<le> ci then Some []
      else let b = window_end c p; w = window_text c p b
           in if b = p then Some []
              else if length c \<le> b then Some (if w = [] then [] else [w])
              else Option.bind (chunk_loop c (next_window b) (if w = [] then ci else Suc ci))
                     (\<lambda>ws. Some (if w = [] then ws else w # ws)))"

definition chunk_rows :: "string \<Rightarrow> string list option" where
  "chunk_rows content =
     (if content = [] then Some []
      else map_option (\<lambda>ws. if ws = [] then [content] else ws) (chunk_loop content 0 0))"

definition memory_refresh_chunks :: "'s derived_db \<Rightarrow> int \<Rightarrow> string \<Rightarrow> 's \<Rightarrow> 's option" where
  "memory_refresh_chunks db i content s =
     map_option (\<lambda>ws. foldl (\<lambda>t (k, w). dd_chunk db i k w t) (dd_chunk_clear db i s) (enumerate 0 ws))
       (chunk_rows content)"

subsection \<open>Negation tokens\<close>

definition memory_refresh_negation_tokens :: "derive_env \<Rightarrow> 's derived_db \<Rightarrow> int \<Rightarrow> string \<Rightarrow> string \<Rightarrow> 's \<Rightarrow> 's" where
  "memory_refresh_negation_tokens e db i key content s =
     (if \<not> de_negation_on e then s
      else case de_negation e (cbuf 3072 (key @ '' '' @ content)) 2048 of
             (k, tokens) \<Rightarrow> dd_negation db i (if k \<le> 0 then [] else tokens) s)"

end
