(* ===== verification/Embedding.thy ===== *)
theory Embedding
  imports Temporal Weights
begin

unbundle bit_operations_syntax

text \<open>
  Embeddings: the client of the embedding service and its dependency breaker
  (\<open>memory_core_scope_embed.c\<close>), the HTTP transport, the per-recall memo and the batch calls
  (\<open>memory_core_helpers_b.c\<close>).

  A vector is a list of reals: rounding to \<open>float\<close> is not modelled, and the dimension the C
  functions return is the length.  The breaker, the HTTP client, child processes and the secret
  store are outside \<open>src/\<close>; they are the functions of \<open>embed_env\<close> on an abstract state \<open>'s\<close>.  A
  parsed JSON value is an \<open>rjson\<close>, what a missing allocation would do is not modelled, nor are
  logs and stage timings.
\<close>

datatype rjson = RNumber real | RString string | RArray "rjson list" | RObject "(string \<times> rjson) list" | ROther

datatype embed_input_type = EMBED_INPUT_QUERY | EMBED_INPUT_DOCUMENT

type_synonym vector = "real list"

record 's embed_env =
  eb_http_post :: "string \<Rightarrow> cptr \<Rightarrow> string \<Rightarrow> int \<Rightarrow> 's \<Rightarrow> (int \<times> cptr) \<times> 's"
  eb_http_get :: "string \<Rightarrow> cptr \<Rightarrow> int \<Rightarrow> 's \<Rightarrow> int \<times> cptr"
  eb_exec :: "string \<Rightarrow> string \<Rightarrow> 's \<Rightarrow> (bool \<times> cptr) \<times> 's"
  eb_popen :: "string \<Rightarrow> 's \<Rightarrow> cptr"
  eb_secret :: "'s \<Rightarrow> cptr"
  eb_env :: environment
  eb_allow :: "'s \<Rightarrow> bool \<times> 's"
  eb_success :: "'s \<Rightarrow> 's"
  eb_failure :: "'s \<Rightarrow> 's"
  eb_parse :: "string \<Rightarrow> rjson option"
  eb_print :: "string list \<Rightarrow> string"
  eb_norm :: normalizer
  eb_dims :: nat
  eb_max_dim :: nat
  eb_fixture :: cptr
  eb_effective :: "cptr \<Rightarrow> string"

record memo_entry =
  mm_command :: string
  mm_text :: string
  mm_vec :: vector

record 's embed_state =
  es_unauthorized :: bool
  es_memo :: "memo_entry list"
  es_requests :: nat
  es_misses :: nat
  es_world :: 's

definition unauthorized :: "bool \<Rightarrow> 's embed_state \<Rightarrow> 's embed_state" where
  "unauthorized b st = st\<lparr>es_unauthorized := b\<rparr>"

definition on_world :: "('s \<Rightarrow> 's) \<Rightarrow> 's embed_state \<Rightarrow> 's embed_state" where
  "on_world f st = st\<lparr>es_world := f (es_world st)\<rparr>"

definition json_numbers :: "rjson list \<Rightarrow> vector" where
  "json_numbers js = concat (map (\<lambda>j. case j of RNumber v \<Rightarrow> [v] | _ \<Rightarrow> []) js)"

subsection \<open>Transport\<close>

definition memory_embed_http_timeout_ms :: "environment \<Rightarrow> int" where
  "memory_embed_http_timeout_ms env =
     (case env ''AIMEE_EMBED_HTTP_TIMEOUT_MS'' of
        Some v \<Rightarrow> if v \<noteq> [] \<and> 0 < atoi v \<and> atoi v \<le> 24 * 60 * 60 * 1000 then atoi v else 180000
      | None \<Rightarrow> 180000)"

definition memory_embed_command_is_http :: "cptr \<Rightarrow> bool" where
  "memory_embed_command_is_http cmd \<longleftrightarrow>
     (case cmd of None \<Rightarrow> False | Some c \<Rightarrow> prefix ''http://'' c \<or> prefix ''https://'' c)"

definition memory_embed_http_url :: "string \<Rightarrow> string \<Rightarrow> nat \<Rightarrow> string" where
  "memory_embed_http_url base path out_len =
     cbuf out_len (rev (dropWhile (\<lambda>c. c = CHR ''/'') (rev base)) @ path)"

text \<open>The authorization header: \<open>Inl\<close> when none may be sent and one is needed.\<close>

definition auth_header :: "cptr \<Rightarrow> environment \<Rightarrow> unit + cptr" where
  "auth_header token env =
     (case token of
        None \<Rightarrow> if env ''SYNTHESIS_AUTH_REQUIRED'' = Some ''1'' then Inl () else Inr None
      | Some t \<Rightarrow> let h = ''Authorization: Bearer '' @ t in if 640 \<le> length h then Inl () else Inr (Some h))"

text \<open>The body of a response of status 2xx, and the status.\<close>

definition memory_embed_http_post_status ::
    "'s embed_env \<Rightarrow> string \<Rightarrow> string \<Rightarrow> string \<Rightarrow> 's \<Rightarrow> cptr \<times> int \<times> 's" where
  "memory_embed_http_post_status ev base path body s =
     (case auth_header (eb_secret ev s) (eb_env ev) of
        Inl _ \<Rightarrow> (None, 401, s)
      | Inr h \<Rightarrow>
          (case eb_http_post ev (memory_embed_http_url base path 1024) h body (memory_embed_http_timeout_ms (eb_env ev)) s of
             ((status, resp), s') \<Rightarrow> (if status < 200 \<or> 300 \<le> status then None else resp, status, s')))"

definition memory_embed_http_post :: "'s embed_env \<Rightarrow> string \<Rightarrow> string \<Rightarrow> string \<Rightarrow> 's \<Rightarrow> cptr \<times> 's" where
  "memory_embed_http_post ev base path body s =
     (case memory_embed_http_post_status ev base path body s of (resp, status, s') \<Rightarrow> (resp, s'))"

definition memory_embed_input_type_name :: "embed_input_type \<Rightarrow> string" where
  "memory_embed_input_type_name t = (case t of EMBED_INPUT_QUERY \<Rightarrow> ''query'' | EMBED_INPUT_DOCUMENT \<Rightarrow> ''document'')"

text \<open>The identity of the vector space: \<open>None\<close> when the endpoint cannot be reached.\<close>

definition trim_line :: "string \<Rightarrow> string" where
  "trim_line s = rev (dropWhile (\<lambda>c. c \<in> {CHR 0x0A, CHR 0x0D, CHR '' ''}) (rev s))"

definition serving_field :: "rjson \<Rightarrow> string" where
  "serving_field j =
     (case j of RObject ms \<Rightarrow> (case map_of ms ''serving_id'' of Some (RString s) \<Rightarrow> s | _ \<Rightarrow> []) | _ \<Rightarrow> [])"

definition serving_http :: "'s embed_env \<Rightarrow> string \<Rightarrow> nat \<Rightarrow> 's \<Rightarrow> cptr" where
  "serving_http ev command out_len s =
     (let token = (case eb_env ev ''SYNTHESIS_API_KEY'' of Some t \<Rightarrow> if t = [] then None else Some t | None \<Rightarrow> None)
      in case auth_header token (eb_env ev) of
           Inl _ \<Rightarrow> None
         | Inr h \<Rightarrow>
             (case eb_http_get ev (memory_embed_http_url command ''/health'' 1024) h
                     (memory_embed_http_timeout_ms (eb_env ev)) s of
                (status, None) \<Rightarrow> None
              | (status, Some body) \<Rightarrow>
                  if status \<noteq> 200 \<and> status \<noteq> 503 then None
                  else map_option (\<lambda>j. cbuf out_len (serving_field j)) (eb_parse ev body)))"

definition memory_embed_serving_id :: "'s embed_env \<Rightarrow> cptr \<Rightarrow> nat \<Rightarrow> 's \<Rightarrow> cptr" where
  "memory_embed_serving_id ev command out_len s =
     (if out_len = 0 then None
      else if \<not> nonempty command then Some []
      else if memory_embed_command_is_http command then serving_http ev (cptr_str command) out_len s
      else map_option (\<lambda>line. cbuf out_len (trim_line (take 191 line)))
             (eb_popen ev (cbuf 1200 (cptr_str command @ '' --serving-id'')) s))"

subsection \<open>The lexical fixture of the test builds\<close>

definition memory_embed_hash_token :: "string \<Rightarrow> u32" where
  "memory_embed_hash_token tok =
     foldl (\<lambda>h c. (h XOR word_of_nat (code c)) * 16777619) 2166136261 tok"

definition add_at :: "nat \<Rightarrow> real \<Rightarrow> vector \<Rightarrow> vector" where
  "add_at i x v = v[i := v ! i + x]"

definition memory_embed_add_feature :: "string \<Rightarrow> real \<Rightarrow> vector \<Rightarrow> vector" where
  "memory_embed_add_feature feature mag v =
     (if v = [] \<or> feature = [] \<or> \<bar>mag\<bar> < 1 / 1000000 then v
      else let h = memory_embed_hash_token feature;
               bucket = unat h mod length v;
               x = (if h AND 1 \<noteq> 0 then mag else - mag);
               v1 = add_at bucket x v;
               v2 = (if bucket + 1 < length v then add_at (bucket + 1) (x * (20 / 100)) v1 else v1)
           in if 0 < bucket then add_at (bucket - 1) (x * (10 / 100)) v2 else v2)"

definition trigrams :: "string \<Rightarrow> string list" where
  "trigrams t = map (\<lambda>j. take 3 (drop j t)) [0..<length t - 2]"

definition lexical_features :: "string list \<Rightarrow> nat \<Rightarrow> (string \<times> real) list" where
  "lexical_features ts i =
     (let t = ts ! i;
          mag0 = (if 8 \<le> length t then 18 / 10 else if 5 \<le> length t then 12 / 10 else 8 / 10);
          mag = (if memory_is_stopword_token t then mag0 * (15 / 100) else mag0)
      in (t, mag) #
         (if i + 1 < length ts then [(cbuf 144 (t @ ''_'' @ ts ! (i + 1)), mag * (85 / 100))] else []) @
         (if i + 2 < length ts \<and> \<not> memory_is_stopword_token (ts ! (i + 1))
          then [(cbuf 192 (t @ ''_'' @ ts ! (i + 1) @ ''_'' @ ts ! (i + 2)), mag * (40 / 100))] else []) @
         (if 5 \<le> length t then map (\<lambda>g. (g, 18 / 100)) (trigrams t) else []))"

definition unit_length :: "vector \<Rightarrow> vector" where
  "unit_length v =
     (let q = (\<Sum>x\<leftarrow>v. x * x) in if 1 / 1000000000 < q then map (\<lambda>x. x * (1 / sqrt q)) v else v)"

definition memory_embed_text_lexical_fixture :: "'s embed_env \<Rightarrow> string \<Rightarrow> nat \<Rightarrow> vector" where
  "memory_embed_text_lexical_fixture ev text max_dim =
     (let v0 = replicate (min max_dim (eb_dims ev)) 0;
          ts = memory_split_tokens (Some (eb_norm ev text 4096)) 64
      in if ts = [] then []
         else unit_length
           (foldl (\<lambda>v (f, mag). memory_embed_add_feature f mag v) v0
             (concat (map (lexical_features ts) [0..<length ts]))))"

subsection \<open>One text\<close>

datatype embed_reply = Unauthorized | Failed | Body string

definition memory_embedder_failure :: "'s embed_env \<Rightarrow> 's embed_state \<Rightarrow> 's embed_state" where
  "memory_embedder_failure ev st = on_world (eb_failure ev) st"

definition embed_path :: "embed_input_type \<Rightarrow> string" where
  "embed_path t = cbuf 64 (''/embed?input_type='' @ memory_embed_input_type_name t)"

definition http_reply :: "'s embed_env \<Rightarrow> string \<Rightarrow> string \<Rightarrow> embed_input_type \<Rightarrow> 's embed_state \<Rightarrow> embed_reply \<times> 's embed_state" where
  "http_reply ev text command input st =
     (case memory_embed_http_post_status ev command (embed_path input) text (es_world st) of
        (resp, status, s') \<Rightarrow>
          (case resp of Some b \<Rightarrow> Body b
           | None \<Rightarrow> if status = 401 \<or> status = 403 then Unauthorized else Failed, st\<lparr>es_world := s'\<rparr>))"

definition exec_reply :: "'s embed_env \<Rightarrow> string \<Rightarrow> string \<Rightarrow> 's embed_state \<Rightarrow> embed_reply \<times> 's embed_state" where
  "exec_reply ev text command st =
     (case eb_exec ev command text (es_world st) of
        ((ok, out), s') \<Rightarrow>
          (if ok then (case out of Some b \<Rightarrow> Body b | None \<Rightarrow> Failed) else Failed, st\<lparr>es_world := s'\<rparr>))"

text \<open>The vector of a reply; items of the array that are no numbers are skipped.\<close>

definition reply_vector :: "'s embed_env \<Rightarrow> nat \<Rightarrow> string \<Rightarrow> vector" where
  "reply_vector ev max_dim body =
     (if body = [] then []
      else case eb_parse ev body of Some (RArray js) \<Rightarrow> take max_dim (json_numbers js) | _ \<Rightarrow> [])"

definition settle_reply :: "'s embed_env \<Rightarrow> nat \<Rightarrow> embed_reply \<times> 's embed_state \<Rightarrow> vector \<times> 's embed_state" where
  "settle_reply ev max_dim r =
     (case r of
        (Unauthorized, st) \<Rightarrow> ([], on_world (eb_success ev) (unauthorized True st))
      | (Failed, st) \<Rightarrow> ([], memory_embedder_failure ev (unauthorized False st))
      | (Body b, st) \<Rightarrow>
          let v = reply_vector ev max_dim b
          in (v, if v \<noteq> [] then on_world (eb_success ev) (unauthorized False st)
                 else memory_embedder_failure ev (unauthorized False st)))"

definition memory_embed_text ::
    "'s embed_env \<Rightarrow> string \<Rightarrow> cptr \<Rightarrow> embed_input_type \<Rightarrow> nat \<Rightarrow> 's embed_state \<Rightarrow> vector \<times> 's embed_state" where
  "memory_embed_text ev text command input max_dim st =
     (let c = cptr_str command
      in if max_dim = 0 \<or> c = [] then ([], unauthorized False st)
         else if eb_fixture ev = Some c
         then (memory_embed_text_lexical_fixture ev text max_dim, unauthorized False st)
         else case eb_allow ev (es_world st) of (allowed, s') \<Rightarrow>
                let st1 = st\<lparr>es_world := s'\<rparr>
                in if \<not> allowed then ([], unauthorized False st1)
                   else settle_reply ev max_dim
                          (if memory_embed_command_is_http command then http_reply ev text c input st1
                           else exec_reply ev text c st1))"

subsection \<open>The memo of a recall\<close>

definition MEMORY_QEMBED_CAP :: nat where
  "MEMORY_QEMBED_CAP = 32"

definition MEMORY_QEMBED_TEXT_MAX :: nat where
  "MEMORY_QEMBED_TEXT_MAX = 1024"

definition MEMORY_QEMBED_CMD_MAX :: nat where
  "MEMORY_QEMBED_CMD_MAX = 512"

definition memory_effective_embedding_cmd :: "'s embed_env \<Rightarrow> cptr \<Rightarrow> string" where
  "memory_effective_embedding_cmd ev command = eb_effective ev command"

definition memory_query_embed_cache_reset :: "'s embed_state \<Rightarrow> 's embed_state" where
  "memory_query_embed_cache_reset st = st\<lparr>es_memo := [], es_requests := 0, es_misses := 0\<rparr>"

definition memo_key_fits :: "string \<Rightarrow> string \<Rightarrow> bool" where
  "memo_key_fits text cmd \<longleftrightarrow> length text < MEMORY_QEMBED_TEXT_MAX \<and> length cmd < MEMORY_QEMBED_CMD_MAX"

definition memo_lookup :: "memo_entry list \<Rightarrow> string \<Rightarrow> string \<Rightarrow> nat \<Rightarrow> vector option" where
  "memo_lookup es cmd text max_dim =
     map_option mm_vec (find (\<lambda>e. mm_vec e \<noteq> [] \<and> length (mm_vec e) \<le> max_dim \<and> mm_command e = cmd \<and> mm_text e = text) es)"

text \<open>A fresh query embedding: the command, then the one called builtin.\<close>

definition embed_fresh :: "'s embed_env \<Rightarrow> string \<Rightarrow> string \<Rightarrow> nat \<Rightarrow> 's embed_state \<Rightarrow> vector \<times> 's embed_state" where
  "embed_fresh ev text cmd max_dim st =
     (case memory_embed_text ev text (Some cmd) EMBED_INPUT_QUERY max_dim st of
        (v, st1) \<Rightarrow>
          if v = [] \<and> cmd \<noteq> ''builtin''
          then memory_embed_text ev text (Some ''builtin'') EMBED_INPUT_QUERY max_dim st1
          else (v, st1))"

definition memo_store :: "'s embed_env \<Rightarrow> string \<Rightarrow> string \<Rightarrow> vector \<Rightarrow> 's embed_state \<Rightarrow> 's embed_state" where
  "memo_store ev cmd text v st =
     (if v \<noteq> [] \<and> length v \<le> eb_max_dim ev \<and> length (es_memo st) < MEMORY_QEMBED_CAP
      then st\<lparr>es_memo := es_memo st @ [\<lparr>mm_command = cmd, mm_text = text, mm_vec = v\<rparr>]\<rparr> else st)"

definition memory_embed_text_runtime ::
    "'s embed_env \<Rightarrow> string \<Rightarrow> cptr \<Rightarrow> nat \<Rightarrow> 's embed_state \<Rightarrow> vector \<times> 's embed_state" where
  "memory_embed_text_runtime ev text command max_dim st =
     (let cmd = memory_effective_embedding_cmd ev command;
          st0 = st\<lparr>es_requests := Suc (es_requests st)\<rparr>;
          cacheable = (command \<noteq> None \<and> memo_key_fits text cmd)
      in case (if cacheable then memo_lookup (es_memo st) cmd text max_dim else None) of
           Some v \<Rightarrow> (v, st0)
         | None \<Rightarrow>
             (case embed_fresh ev text cmd max_dim (st0\<lparr>es_misses := Suc (es_misses st0)\<rparr>) of
                (v, st1) \<Rightarrow> (v, if cacheable then memo_store ev cmd text v st1 else st1)))"

definition memory_query_embed_cache_put :: "'s embed_env \<Rightarrow> string \<Rightarrow> string \<Rightarrow> vector \<Rightarrow> 's embed_state \<Rightarrow> 's embed_state" where
  "memory_query_embed_cache_put ev cmd text v st =
     (if v = [] \<or> eb_max_dim ev < length v \<or> \<not> memo_key_fits text cmd then st
      else if list_ex (\<lambda>e. mm_command e = cmd \<and> mm_text e = text) (es_memo st) then st
      else memo_store ev cmd text v st)"

definition memory_query_embed_cache_stats_test :: "'s embed_state \<Rightarrow> nat \<times> nat" where
  "memory_query_embed_cache_stats_test st = (es_requests st, es_misses st)"

subsection \<open>Batches\<close>

fun batch_rows :: "nat \<Rightarrow> rjson list \<Rightarrow> vector list option" where
  "batch_rows d [] = Some []"
| "batch_rows d (RArray js # rs) =
     (if length js \<noteq> d \<or> length (json_numbers js) \<noteq> d then None
      else map_option ((#) (json_numbers js)) (batch_rows d rs))"
| "batch_rows d (_ # rs) = None"

text \<open>The rows of a batch, all of them at full width, or none.\<close>

definition memory_embed_texts ::
    "'s embed_env \<Rightarrow> cptr list \<Rightarrow> cptr \<Rightarrow> embed_input_type \<Rightarrow> nat \<Rightarrow> 's \<Rightarrow> vector list option \<times> 's" where
  "memory_embed_texts ev texts command input d s =
     (let c = cptr_str command
      in if texts = [] \<or> d = 0 \<or> c = [] \<or> c = ''builtin'' \<or> \<not> memory_embed_command_is_http command then (None, s)
         else if \<not> list_all nonempty texts then (None, s)
         else case memory_embed_http_post_status ev c (cbuf 64 (''/embed_batch?input_type='' @ memory_embed_input_type_name input))
                (eb_print ev (map cptr_str texts)) s of
                (None, status, s') \<Rightarrow> (None, s')
              | (Some b, status, s') \<Rightarrow>
                  (case eb_parse ev b of
                     Some (RArray rs) \<Rightarrow> (if length rs = length texts then batch_rows d rs else None, s')
                   | _ \<Rightarrow> (None, s')))"

text \<open>The texts a prewarm sends: new ones that fit, each once, at most 32.\<close>

fun pick_texts :: "memo_entry list \<Rightarrow> string \<Rightarrow> string list \<Rightarrow> cptr list \<Rightarrow> string list" where
  "pick_texts es cmd picked [] = picked"
| "pick_texts es cmd picked (t # ts) =
     (if MEMORY_QEMBED_CAP \<le> length picked then picked
      else case t of
             None \<Rightarrow> pick_texts es cmd picked ts
           | Some s \<Rightarrow>
               if s = [] \<or> MEMORY_QEMBED_TEXT_MAX \<le> length s \<or>
                  list_ex (\<lambda>e. mm_command e = cmd \<and> mm_text e = s) es \<or> s \<in> set picked
               then pick_texts es cmd picked ts
               else pick_texts es cmd (picked @ [s]) ts)"

definition prewarm_reply :: "'s embed_env \<Rightarrow> string \<Rightarrow> string \<Rightarrow> 's embed_state \<Rightarrow> cptr \<times> 's embed_state" where
  "prewarm_reply ev cmd input st =
     (if memory_embed_command_is_http (Some cmd)
      then case memory_embed_http_post ev cmd ''/embed_batch'' input (es_world st) of
             (resp, s') \<Rightarrow> (resp, st\<lparr>es_world := s'\<rparr>)
      else case eb_exec ev cmd input (es_world st) of
             ((ok, out), s') \<Rightarrow> (if ok \<and> out \<noteq> Some [] then out else None, st\<lparr>es_world := s'\<rparr>))"

definition put_row :: "'s embed_env \<Rightarrow> string \<Rightarrow> 's embed_state \<Rightarrow> string \<times> rjson \<Rightarrow> 's embed_state" where
  "put_row ev cmd st tr =
     (case tr of
        (t, RArray js) \<Rightarrow> memory_query_embed_cache_put ev cmd t (take (eb_max_dim ev) (json_numbers js)) st
      | _ \<Rightarrow> st)"

definition memory_query_embed_prewarm :: "'s embed_env \<Rightarrow> cptr list \<Rightarrow> cptr \<Rightarrow> 's embed_state \<Rightarrow> 's embed_state" where
  "memory_query_embed_prewarm ev texts command st =
     (let cmd = memory_effective_embedding_cmd ev command;
          picked = pick_texts (es_memo st) cmd [] texts
      in if texts = [] \<or> cmd = ''builtin'' \<or> length picked < 2 then st
         else case prewarm_reply ev cmd (eb_print ev picked) st of
                (None, st1) \<Rightarrow> st1
              | (Some b, st1) \<Rightarrow>
                  (case eb_parse ev b of
                     Some (RArray rs) \<Rightarrow>
                       if length rs = length picked then foldl (put_row ev cmd) st1 (zip picked rs) else st1
                   | _ \<Rightarrow> st1))"

subsection \<open>Similarity\<close>

definition cosine_similarity :: "vector \<Rightarrow> vector \<Rightarrow> nat \<Rightarrow> real" where
  "cosine_similarity a b d =
     (let dot = (\<Sum>i\<leftarrow>[0..<d]. a ! i * b ! i);
          na = (\<Sum>i\<leftarrow>[0..<d]. a ! i * a ! i);
          nb = (\<Sum>i\<leftarrow>[0..<d]. b ! i * b ! i);
          denom = sqrt na * sqrt nb
      in if 1 / 1000000000 < denom then dot / denom else 0)"

end
