(* ===== verification/Units.thy ===== *)
theory Units
  imports Derived Embedding Query
begin

text \<open>
  What is built on the derived metadata (\<open>memory_core_helpers_b.c\<close>): the unit graph of a memory
  with the kinds of its units, the embeddings of units and memories, the episodes and relations,
  and the refresh of everything.

  The rows the code reads back from the store are those of the record \<open>units_db\<close>; each reader
  takes the size of the buffer it fills.  Unit kinds and memory kinds are strings of headers
  outside \<open>src/\<close> and fields of \<open>unit_names\<close>; \<open>%.2f\<close> is the field \<open>un_two_places\<close>.  Keys and contents
  are never \<open>NULL\<close> in the calls modelled here.
\<close>

datatype memory_unit_kind = MEMORY_UNIT_KIND_SEMANTIC | MEMORY_UNIT_KIND_EPISODIC | MEMORY_UNIT_KIND_PROCEDURAL

record unit_names =
  un_episodic :: string
  un_semantic :: string
  un_procedural :: string
  un_preference :: string
  un_procedure :: string
  un_policy :: string
  un_workflow :: string
  un_episode :: string
  un_two_places :: "real \<Rightarrow> string"
  un_offset :: int

record unit_row =
  ur_id :: int
  ur_type :: string
  ur_key :: string
  ur_text :: string
  ur_weight :: real

record 's units_db =
  ud_edges_clear :: "int \<Rightarrow> 's \<Rightarrow> 's"
  ud_unit_ids :: "int \<Rightarrow> 's \<Rightarrow> int list"
  ud_drop_point :: "int \<Rightarrow> 's \<Rightarrow> 's"
  ud_units_clear :: "int \<Rightarrow> 's \<Rightarrow> 's"
  ud_unit_insert :: "int \<Rightarrow> string \<Rightarrow> string \<Rightarrow> string \<Rightarrow> string \<Rightarrow> real \<Rightarrow> 's \<Rightarrow> int \<times> 's"
  ud_edge :: "int \<Rightarrow> int \<Rightarrow> string \<Rightarrow> real \<Rightarrow> 's \<Rightarrow> 's"
  ud_kinds :: "int \<Rightarrow> 's \<Rightarrow> string \<times> string \<times> string"
  ud_summaries :: "int \<Rightarrow> nat \<Rightarrow> 's \<Rightarrow> (string \<times> string) list"
  ud_events :: "int \<Rightarrow> 's \<Rightarrow> event_frame list"
  ud_temporals :: "int \<Rightarrow> 's \<Rightarrow> (string \<times> string \<times> real) list"
  ud_entities :: "int \<Rightarrow> 's \<Rightarrow> (string \<times> string \<times> real) list"
  ud_chunks :: "int \<Rightarrow> 's \<Rightarrow> (int \<times> string) list"
  ud_session_episodes :: "int \<Rightarrow> string \<Rightarrow> 's \<Rightarrow> int list"
  ud_superseded :: "int \<Rightarrow> 's \<Rightarrow> int list"
  ud_units :: "int \<Rightarrow> 's \<Rightarrow> unit_row list"
  ud_sync_suppressed :: "'s \<Rightarrow> bool"
  ud_memory_payload :: "int \<Rightarrow> 's \<Rightarrow> cptr"
  ud_unit_payload :: "int \<Rightarrow> 's \<Rightarrow> cptr"
  ud_upsert_memory :: "int \<Rightarrow> vector \<Rightarrow> string \<Rightarrow> 's \<Rightarrow> bool \<times> 's"
  ud_upsert_unit :: "int \<Rightarrow> vector \<Rightarrow> string \<Rightarrow> 's \<Rightarrow> bool \<times> 's"
  ud_index_op :: "int \<Rightarrow> bool \<Rightarrow> cptr \<Rightarrow> 's \<Rightarrow> 's"
  ud_key_content :: "int \<Rightarrow> 's \<Rightarrow> (string \<times> string) option"
  ud_episodes_clear :: "int \<Rightarrow> 's \<Rightarrow> 's"
  ud_relations_clear :: "int \<Rightarrow> 's \<Rightarrow> 's"
  ud_time_bounds :: "int \<Rightarrow> 's \<Rightarrow> string \<times> string"
  ud_source_session :: "int \<Rightarrow> 's \<Rightarrow> string"
  ud_episode_insert :: "int \<Rightarrow> string \<Rightarrow> string \<Rightarrow> string \<Rightarrow> string \<Rightarrow> 's \<Rightarrow> int \<times> 's"
  ud_primary_entity :: "int \<Rightarrow> 's \<Rightarrow> string"
  ud_links :: "int \<Rightarrow> 's \<Rightarrow> (string \<times> string \<times> string) list"
  ud_relation :: "int \<Rightarrow> int \<Rightarrow> string \<Rightarrow> string \<Rightarrow> string \<Rightarrow> string \<Rightarrow> string \<Rightarrow> string \<Rightarrow> real \<Rightarrow> 's \<Rightarrow> 's"

subsection \<open>Kinds\<close>

definition memory_unit_kind_name :: "unit_names \<Rightarrow> memory_unit_kind \<Rightarrow> string" where
  "memory_unit_kind_name un k =
     (case k of MEMORY_UNIT_KIND_SEMANTIC \<Rightarrow> un_semantic un
      | MEMORY_UNIT_KIND_PROCEDURAL \<Rightarrow> un_procedural un
      | MEMORY_UNIT_KIND_EPISODIC \<Rightarrow> un_episodic un)"

definition memory_unit_kind_for_memory :: "unit_names \<Rightarrow> string \<Rightarrow> string \<Rightarrow> bool \<Rightarrow> bool \<Rightarrow> memory_unit_kind" where
  "memory_unit_kind_for_memory un memory_kind unit_type has_events has_temporal =
     (if memory_kind \<in> {un_preference un, un_procedure un, un_policy un, un_workflow un} then MEMORY_UNIT_KIND_PROCEDURAL
      else if unit_type \<in> {''event'', ''temporal'', ''episode''} then MEMORY_UNIT_KIND_EPISODIC
      else if memory_kind = un_episode un then MEMORY_UNIT_KIND_EPISODIC
      else if has_events \<or> has_temporal then MEMORY_UNIT_KIND_EPISODIC
      else MEMORY_UNIT_KIND_SEMANTIC)"

definition memory_unit_kind_from_explicit :: "unit_names \<Rightarrow> string \<Rightarrow> memory_unit_kind option" where
  "memory_unit_kind_from_explicit un k =
     (if k = [] then None
      else if k = un_episodic un then Some MEMORY_UNIT_KIND_EPISODIC
      else if k = un_semantic un then Some MEMORY_UNIT_KIND_SEMANTIC
      else if k = un_procedural un then Some MEMORY_UNIT_KIND_PROCEDURAL else None)"

definition memory_unit_kind_resolve :: "unit_names \<Rightarrow> string \<Rightarrow> string \<Rightarrow> string \<Rightarrow> bool \<Rightarrow> bool \<Rightarrow> memory_unit_kind" where
  "memory_unit_kind_resolve un explicit memory_kind unit_type has_events has_temporal =
     (case memory_unit_kind_from_explicit un explicit of Some k \<Rightarrow> k
      | None \<Rightarrow> memory_unit_kind_for_memory un memory_kind unit_type has_events has_temporal)"

subsection \<open>Units\<close>

definition memory_unit_insert ::
    "derive_env \<Rightarrow> unit_names \<Rightarrow> 's units_db \<Rightarrow> int \<Rightarrow> string \<Rightarrow> memory_unit_kind \<Rightarrow> string \<Rightarrow> string \<Rightarrow> real \<Rightarrow> 's \<Rightarrow> int \<times> 's" where
  "memory_unit_insert e un db i unit_type k key t w s =
     (let norm_key = de_norm e key 256; norm_text = de_norm e t 512
      in if i \<le> 0 \<or> unit_type = [] \<or> t = [] \<or> norm_text = [] then (0, s)
         else ud_unit_insert db i unit_type (memory_unit_kind_name un k) norm_key norm_text w s)"

text \<open>A unit to insert: its type, kind, key, text and weight.\<close>

type_synonym unit_spec = "string \<times> memory_unit_kind \<times> string \<times> string \<times> real"

definition insert_spec :: "derive_env \<Rightarrow> unit_names \<Rightarrow> 's units_db \<Rightarrow> int \<Rightarrow> unit_spec \<Rightarrow> 's \<Rightarrow> int \<times> 's" where
  "insert_spec e un db i sp s =
     (case sp of (ty, k, key, t, w) \<Rightarrow> memory_unit_insert e un db i ty k key t w s)"

text \<open>The ids of the units that were stored, at most \<open>cap\<close> of them.\<close>

fun insert_units ::
    "derive_env \<Rightarrow> unit_names \<Rightarrow> 's units_db \<Rightarrow> int \<Rightarrow> nat \<Rightarrow> int list \<Rightarrow> unit_spec list \<Rightarrow> 's \<Rightarrow> int list \<times> 's" where
  "insert_units e un db i cap ids [] s = (ids, s)"
| "insert_units e un db i cap ids (sp # sps) s =
     (if cap \<le> length ids then (ids, s)
      else case insert_spec e un db i sp s of
             (u, s') \<Rightarrow> insert_units e un db i cap (if 0 < u then ids @ [u] else ids) sps s')"

definition summary_specs :: "memory_unit_kind \<Rightarrow> (string \<times> string) list \<Rightarrow> unit_spec list" where
  "summary_specs k rows = map (\<lambda>(scope, t). (''summary'', k, or_else scope ''headline'', t, 3)) rows"

definition join5 :: "string \<Rightarrow> string \<Rightarrow> string \<Rightarrow> string \<Rightarrow> string \<Rightarrow> string" where
  "join5 a b c d e = a @ '' '' @ b @ '' '' @ c @ '' '' @ d @ '' '' @ e"

definition frame_text :: "event_frame \<Rightarrow> string" where
  "frame_text f = join5 (ef_actor f) (ef_action f) (ef_object f) (ef_location f) (ef_time f)"

definition event_specs :: "event_frame list \<Rightarrow> unit_spec list" where
  "event_specs frames =
     map (\<lambda>f. (''event'', MEMORY_UNIT_KIND_EPISODIC, cbuf 256 (ef_actor f @ '' '' @ ef_action f),
       cbuf 512 (frame_text f), 28 / 10)) frames"

definition temporal_specs :: "(string \<times> string \<times> real) list \<Rightarrow> unit_spec list" where
  "temporal_specs rows =
     map (\<lambda>(g, ref, w). (''temporal'', MEMORY_UNIT_KIND_EPISODIC, or_else g ''time'', ref, 16 / 10 + w * (4 / 10))) rows"

definition entity_specs :: "memory_unit_kind \<Rightarrow> (string \<times> string \<times> real) list \<Rightarrow> unit_spec list" where
  "entity_specs k rows =
     map (\<lambda>(role, entity, w). (''entity'', k, or_else role ''mention'', entity, 14 / 10 + w * (3 / 10))) rows"

definition chunk_specs :: "memory_unit_kind \<Rightarrow> (int \<times> string) list \<Rightarrow> unit_spec list" where
  "chunk_specs k rows = map (\<lambda>(n, t). (''chunk'', k, cbuf 32 (''chunk_'' @ decimal n), t, 12 / 10)) rows"

subsection \<open>Edges\<close>

record unit_groups =
  ug_summaries :: "int list"
  ug_events :: "int list"
  ug_temporals :: "int list"
  ug_entities :: "int list"
  ug_chunks :: "int list"
  ug_episode :: int

type_synonym unit_edge = "int \<times> int \<times> string \<times> real"

definition join_edges :: "string \<Rightarrow> real \<Rightarrow> int list \<Rightarrow> int list \<Rightarrow> unit_edge list" where
  "join_edges ty w us vs = concat (map (\<lambda>u. map (\<lambda>v. (u, v, ty, w)) vs) us)"

definition event_edges :: "unit_groups \<Rightarrow> int \<Rightarrow> unit_edge list" where
  "event_edges g ev =
     join_edges ''anchored_by'' (11 / 10) [ev] (ug_temporals g) @ join_edges ''mentions'' 1 [ev] (ug_entities g) @
     map (\<lambda>c. (c, ev, ''supports'', 7 / 10)) (ug_chunks g)"

definition group_edges :: "unit_groups \<Rightarrow> unit_edge list" where
  "group_edges g =
     join_edges ''contains'' 1 (ug_summaries g) (ug_events g) @
     join_edges ''contains'' (8 / 10) (ug_summaries g) (ug_chunks g) @
     concat (map (event_edges g) (ug_events g)) @
     (if 0 < ug_episode g
      then join_edges ''same_episode'' 1 [ug_episode g] (ug_summaries g) @
           join_edges ''same_episode'' 1 [ug_episode g] (ug_events g) @
           join_edges ''same_episode'' (8 / 10) [ug_episode g] (ug_chunks g)
      else [])"

text \<open>The edges to the episodes of other memories.\<close>

definition outer_edges :: "'s units_db \<Rightarrow> int \<Rightarrow> string \<Rightarrow> int \<Rightarrow> 's \<Rightarrow> unit_edge list" where
  "outer_edges db i session ep s =
     (if session = [] then []
      else concat (map (\<lambda>o'. [(ep, o', ''same_episode'', 9 / 10), (o', ep, ''same_episode'', 9 / 10)])
             (take 64 (ud_session_episodes db i session s))))"

definition memory_unit_edge_insert :: "'s units_db \<Rightarrow> unit_edge \<Rightarrow> 's \<Rightarrow> 's" where
  "memory_unit_edge_insert db ed s = (case ed of (u, v, ty, w) \<Rightarrow> ud_edge db u v ty w s)"

definition insert_edges :: "'s units_db \<Rightarrow> unit_edge list \<Rightarrow> 's \<Rightarrow> 's" where
  "insert_edges db eds s = foldl (\<lambda>t ed. memory_unit_edge_insert db ed t) s eds"

subsection \<open>The unit graph\<close>

definition clear_units :: "unit_names \<Rightarrow> 's units_db \<Rightarrow> int \<Rightarrow> 's \<Rightarrow> 's" where
  "clear_units un db i s =
     (let s1 = ud_edges_clear db i s;
          s2 = foldl (\<lambda>t u. ud_drop_point db (un_offset un + u) t) s1 (take 256 (ud_unit_ids db i s1))
      in ud_units_clear db i s2)"

definition summary_units :: "derive_env \<Rightarrow> unit_names \<Rightarrow> 's units_db \<Rightarrow> int \<Rightarrow> memory_unit_kind \<Rightarrow> string \<Rightarrow> 's \<Rightarrow> int list \<times> 's" where
  "summary_units e un db i k key s =
     (case insert_units e un db i 8 [] (summary_specs k (take 8 (ud_summaries db i 8 s))) s of
        (ids, s') \<Rightarrow>
          if ids = [] \<and> key \<noteq> [] then insert_units e un db i 8 [] [(''summary'', k, ''fallback'', key, 2)] s'
          else (ids, s'))"

definition build_groups ::
    "derive_env \<Rightarrow> unit_names \<Rightarrow> 's units_db \<Rightarrow> int \<Rightarrow> string \<Rightarrow> string \<Rightarrow> string \<Rightarrow> string \<Rightarrow> 's \<Rightarrow> unit_groups \<times> 's" where
  "build_groups e un db i memory_kind explicit key content s0 =
     (let resolve = memory_unit_kind_resolve un explicit memory_kind;
          (sms, s1) = summary_units e un db i (resolve ''summary'' False False) key s0;
          (evs, s2) = insert_units e un db i 16 [] (event_specs (take 16 (ud_events db i s1))) s1;
          (tmps, s3) = insert_units e un db i 16 [] (temporal_specs (take 16 (ud_temporals db i s2))) s2;
          (ents, s4) = insert_units e un db i 16 []
            (entity_specs (resolve ''entity'' (evs \<noteq> []) (tmps \<noteq> [])) (take 16 (ud_entities db i s3))) s3;
          (chks, s5) = insert_units e un db i 16 []
            (chunk_specs (resolve ''chunk'' (evs \<noteq> []) (tmps \<noteq> [])) (take 16 (ud_chunks db i s4))) s4;
          (ep, s6) = (if content = [] then (0, s5)
             else memory_unit_insert e un db i ''episode'' MEMORY_UNIT_KIND_EPISODIC key content (18 / 10) s5)
      in (\<lparr>ug_summaries = sms, ug_events = evs, ug_temporals = tmps, ug_entities = ents, ug_chunks = chks,
           ug_episode = ep\<rparr>, s6))"

definition memory_refresh_units_graph ::
    "derive_env \<Rightarrow> unit_names \<Rightarrow> 's units_db \<Rightarrow> int \<Rightarrow> string \<Rightarrow> string \<Rightarrow> 's \<Rightarrow> 's" where
  "memory_refresh_units_graph e un db i key content s =
     (if i \<le> 0 then s
      else let s1 = clear_units un db i s
           in case ud_kinds db i s1 of (session, memory_kind, explicit) \<Rightarrow>
                (case build_groups e un db i memory_kind explicit key content s1 of
                   (g, s2) \<Rightarrow>
                     let s3 = insert_edges db (group_edges g) s2; ep = ug_episode g
                     in if ep \<le> 0 then s3
                        else let s4 = insert_edges db (outer_edges db i session ep s3) s3
                             in insert_edges db (map (\<lambda>o'. (ep, o', ''supersedes'', 12 / 10)) (take 64 (ud_superseded db i s4))) s4))"

subsection \<open>Vectors of units and memories\<close>

text \<open>A vector with its payload: whether the store took it.  An empty vector counts as done.\<close>

definition memory_sync_vec_row :: "'s units_db \<Rightarrow> int \<Rightarrow> vector \<Rightarrow> 's \<Rightarrow> bool \<times> 's" where
  "memory_sync_vec_row db i v s =
     (if v = [] \<or> ud_sync_suppressed db s then (True, s)
      else case ud_memory_payload db i s of
             None \<Rightarrow> (False, ud_index_op db i False (Some ''payload build failed'') s)
           | Some p \<Rightarrow>
               (case ud_upsert_memory db i v p s of
                  (ok, s') \<Rightarrow> (ok, ud_index_op db i ok (if ok then None else Some ''upsert failed'') s')))"

definition memory_sync_unit_vec_row :: "unit_names \<Rightarrow> 's units_db \<Rightarrow> int \<Rightarrow> vector \<Rightarrow> 's \<Rightarrow> bool \<times> 's" where
  "memory_sync_unit_vec_row un db u v s =
     (let point = un_offset un + u
      in if v = [] \<or> ud_sync_suppressed db s then (True, s)
         else case ud_unit_payload db u s of
                None \<Rightarrow> (False, ud_index_op db point False (Some ''payload build failed'') s)
              | Some p \<Rightarrow>
                  (case ud_upsert_unit db u v p s of
                     (ok, s') \<Rightarrow> (ok, ud_index_op db point ok (if ok then None else Some ''upsert failed'') s')))"

definition unit_embed_text :: "unit_names \<Rightarrow> unit_row \<Rightarrow> string" where
  "unit_embed_text un r =
     (let ty = ur_type r; k = ur_key r; t = ur_text r; w = un_two_places un (ur_weight r)
      in cbuf 2048
        (if ty = ''event'' then ''event actor_action '' @ k @ '' details '' @ t @ '' weight '' @ w
         else if ty = ''temporal'' then ''time reference '' @ t @ '' granularity '' @ k @ '' weight '' @ w
         else if ty = ''entity'' then ''entity role '' @ k @ '' value '' @ t @ '' weight '' @ w
         else if ty = ''summary'' then ''summary scope '' @ k @ '' text '' @ t @ '' weight '' @ w
         else if ty = ''chunk'' then ''evidence chunk '' @ k @ '' text '' @ t @ '' weight '' @ w
         else ty @ '' '' @ k @ '' '' @ t @ '' '' @ w))"

definition embed_model :: "cptr \<Rightarrow> string" where
  "embed_model command = (if nonempty command then cptr_str command else ''builtin'')"

definition memory_embed_unit_row ::
    "'s embed_env \<Rightarrow> unit_names \<Rightarrow> 's units_db \<Rightarrow> cptr \<Rightarrow> 's embed_state \<Rightarrow> unit_row \<Rightarrow> 's embed_state" where
  "memory_embed_unit_row ev un db command st r =
     (if ur_id r \<le> 0 \<or> ur_text r = [] then st
      else case memory_embed_text ev (unit_embed_text un r) (Some (embed_model command)) EMBED_INPUT_DOCUMENT
                  (eb_max_dim ev) st of
             (v, st1) \<Rightarrow>
               if v = [] then st1 else on_world (\<lambda>s. snd (memory_sync_unit_vec_row un db (ur_id r) v s)) st1)"

definition memory_refresh_unit_embeddings ::
    "'s embed_env \<Rightarrow> unit_names \<Rightarrow> 's units_db \<Rightarrow> int \<Rightarrow> 's embed_state \<Rightarrow> 's embed_state" where
  "memory_refresh_unit_embeddings ev un db i st =
     (if i \<le> 0 then st
      else foldl (memory_embed_unit_row ev un db (Some (eb_effective ev None))) st (take 64 (ud_units db i (es_world st))))"

definition memory_embed :: "'s embed_env \<Rightarrow> unit_names \<Rightarrow> 's units_db \<Rightarrow> int \<Rightarrow> cptr \<Rightarrow> 's embed_state \<Rightarrow> bool \<times> 's embed_state" where
  "memory_embed ev un db i command st =
     (if i \<le> 0 then (False, st)
      else case ud_key_content db i (es_world st) of
             None \<Rightarrow> (False, st)
           | Some (key, content) \<Rightarrow>
               (case memory_embed_text ev (cbuf 3072 (cbuf 512 key @ '': '' @ cbuf 2560 content)) (Some (embed_model command))
                       EMBED_INPUT_DOCUMENT (eb_max_dim ev) st of
                  (v, st1) \<Rightarrow>
                    if v = [] then (False, st1)
                    else case memory_sync_vec_row db i v (es_world st1) of
                           (ok, s') \<Rightarrow>
                             let st2 = st1\<lparr>es_world := s'\<rparr>
                             in if \<not> ok then (False, st2) else (True, memory_refresh_unit_embeddings ev un db i st2)))"

subsection \<open>Episodes and relations\<close>

type_synonym relation_row = "string \<times> string \<times> string \<times> string \<times> string \<times> real"

text \<open>The relations of an event: what was done, where and when.\<close>

definition event_relations :: "string \<Rightarrow> event_frame \<Rightarrow> relation_row list" where
  "event_relations valid_at f =
     (let said = cbuf 1024 (frame_text f); since = or_else (ef_time f) valid_at
      in if ef_actor f = [] then []
         else (if ef_action f \<noteq> [] \<and> ef_object f \<noteq> [] then [(ef_actor f, ef_action f, ef_object f, said, since, 24 / 10)] else []) @
              (if ef_location f \<noteq> [] then [(ef_actor f, ''located_at'', ef_location f, said, since, 18 / 10)] else []) @
              (if ef_time f \<noteq> [] then [(ef_actor f, ''occurred_at'', ef_time f, said, ef_time f, 19 / 10)] else []))"

definition link_relation :: "string \<Rightarrow> string \<Rightarrow> string \<Rightarrow> string \<times> string \<times> string \<Rightarrow> relation_row" where
  "link_relation primary key valid_at l =
     (case l of (relation, target_key, target_content) \<Rightarrow>
        let src = or_else primary key
        in (src, or_else relation ''related_to'', or_else target_key target_content,
            cbuf 1024 (src @ '' '' @ relation @ '' '' @ or_else target_content target_key), valid_at, 13 / 10))"

definition insert_relation :: "'s units_db \<Rightarrow> int \<Rightarrow> int \<Rightarrow> string \<Rightarrow> 's \<Rightarrow> relation_row \<Rightarrow> 's" where
  "insert_relation db i ep invalid_at s r =
     (case r of (src, rel, dst, said, since, w) \<Rightarrow> ud_relation db i ep src rel dst said since invalid_at w s)"

definition insert_episodes :: "'s units_db \<Rightarrow> int \<Rightarrow> string \<Rightarrow> string \<Rightarrow> string \<Rightarrow> string \<Rightarrow> 's \<Rightarrow> int \<times> 's" where
  "insert_episodes db i key content session valid_at s =
     (case ud_episode_insert db i key content session valid_at s of
        (ep, s1) \<Rightarrow>
          (ep, foldl (\<lambda>t (scope, summary).
             if summary = [] then t else snd (ud_episode_insert db i (or_else scope key) summary session valid_at t))
             s1 (take 2 (ud_summaries db i 2 s1))))"

definition memory_refresh_episode_relations :: "'s units_db \<Rightarrow> int \<Rightarrow> string \<Rightarrow> string \<Rightarrow> 's \<Rightarrow> 's" where
  "memory_refresh_episode_relations db i key content s =
     (if i \<le> 0 then s
      else let s1 = ud_relations_clear db i (ud_episodes_clear db i s)
           in case ud_time_bounds db i s1 of (valid_at, invalid_at) \<Rightarrow>
                (case insert_episodes db i key content (cbuf 128 (ud_source_session db i s1)) valid_at s1 of
                   (ep, s2) \<Rightarrow>
                     let primary = cbuf 128 (ud_primary_entity db i s2);
                         s3 = foldl (insert_relation db i ep invalid_at) s2
                           (concat (map (event_relations valid_at) (take 64 (ud_events db i s2))))
                     in foldl (insert_relation db i ep invalid_at) s3
                          (map (link_relation primary key valid_at) (take 64 (ud_links db i s3)))))"

subsection \<open>Everything derived from a memory\<close>

definition refresh_rows ::
    "derive_env \<Rightarrow> 's derived_db \<Rightarrow> int \<Rightarrow> string \<Rightarrow> string \<Rightarrow> coref_counts \<times> 's \<Rightarrow> coref_counts \<times> 's" where
  "refresh_rows e dd i key content cs =
     (let cs1 = memory_refresh_coref_entities e dd i content
            (fst cs, memory_refresh_entities e dd i key content (memory_refresh_aliases e dd i key content (snd cs)))
      in (fst cs1, memory_refresh_event_frames e dd i key content
           (memory_refresh_summaries e dd i key content (memory_refresh_temporal_refs e dd i key content (snd cs1)))))"

text \<open>\<open>None\<close>: the chunks never return, so neither does the refresh.\<close>

definition memory_refresh_derived_metadata ::
    "derive_env \<Rightarrow> 's derived_db \<Rightarrow> 's embed_env \<Rightarrow> unit_names \<Rightarrow> 's units_db \<Rightarrow> int \<Rightarrow> string \<Rightarrow> string \<Rightarrow>
     coref_counts \<times> 's embed_state \<Rightarrow> (coref_counts \<times> 's embed_state) option" where
  "memory_refresh_derived_metadata e dd ev un db i key content cs =
     (let rows = refresh_rows e dd i key content (fst cs, es_world (snd cs))
      in map_option
           (\<lambda>s1. let s2 = memory_refresh_episode_relations db i key content (memory_refresh_units_graph e un db i key content s1);
                     st = memory_refresh_unit_embeddings ev un db i ((snd cs)\<lparr>es_world := s2\<rparr>)
                 in (fst rows, on_world (memory_refresh_negation_tokens e dd i key content) st))
           (memory_refresh_chunks dd i content (snd rows)))"

end
