(* ===== verification/Scopes.thy ===== *)
theory Scopes
  imports Crud Embedding
begin

text \<open>
  Scopes, workflows and the views of \<open>memory_core_scope_embed.c\<close>: the tags of a memory and its
  primary scope, tagging by the working directory and by shared keywords, learning a workflow, the
  health of the embedder, the profile of an entity and the context block.

  The tag tables are the record \<open>scope_db\<close>.  \<open>memory_auto_tag_workspace\<close> writes behind its buffer
  when the texts are long: \<open>None\<close> here.  In the context block a \<open>snprintf\<close> that is cut off leaves
  the position behind the text it would have written; lines are only written below 15000, so such
  a piece is the last.  The fields of the structs are short enough for the head of a block.
\<close>

datatype memory_scope_level = MEMORY_SCOPE_NONE | MEMORY_SCOPE_GLOBAL | MEMORY_SCOPE_WORKSPACE | MEMORY_SCOPE_PROJECT

record 's scope_db =
  sd_has_type :: "int \<Rightarrow> string \<Rightarrow> 's \<Rightarrow> bool"
  sd_has_workspace_tag :: "int \<Rightarrow> 's \<Rightarrow> bool"
  sd_scopes :: "int \<Rightarrow> nat \<Rightarrow> 's \<Rightarrow> (string \<times> string) list"
  sd_scope_insert :: "int \<Rightarrow> string \<Rightarrow> string \<Rightarrow> 's \<Rightarrow> 's"
  sd_workspace_insert :: "int \<Rightarrow> string \<Rightarrow> 's \<Rightarrow> 's"
  sd_confidence :: "string \<Rightarrow> 's \<Rightarrow> real option"

record scope_config =
  so_shared :: string
  so_workspaces :: "string list"
  so_cwd :: cptr
  so_type_len :: nat
  so_value_len :: nat
  so_L1 :: string
  so_workflow :: string

definition memory_scope_level_name :: "memory_scope_level \<Rightarrow> string" where
  "memory_scope_level_name l =
     (case l of MEMORY_SCOPE_GLOBAL \<Rightarrow> ''global'' | MEMORY_SCOPE_WORKSPACE \<Rightarrow> ''workspace''
      | MEMORY_SCOPE_PROJECT \<Rightarrow> ''project'' | MEMORY_SCOPE_NONE \<Rightarrow> ''none'')"

definition memory_has_any_canonical_scope :: "'s scope_db \<Rightarrow> int \<Rightarrow> 's \<Rightarrow> bool" where
  "memory_has_any_canonical_scope db i s \<longleftrightarrow>
     sd_has_type db i ''global'' s \<or> sd_has_type db i ''workspace'' s \<or> sd_has_type db i ''project'' s \<or>
     sd_has_workspace_tag db i s"

definition memory_collect_scopes :: "scope_config \<Rightarrow> 's scope_db \<Rightarrow> int \<Rightarrow> nat \<Rightarrow> 's \<Rightarrow> (string \<times> string) list" where
  "memory_collect_scopes sc db i mx s =
     (if i \<le> 0 \<or> mx = 0 then []
      else let rows = take (min 16 mx) (sd_scopes db i (min 16 mx) s);
               cut = (\<lambda>(t, v). (cbuf (so_type_len sc) t, cbuf (so_value_len sc) v))
           in if rows = [] then [cut (''global'', ''_global'')] else map cut rows)"

text \<open>The first scope of a type, when the memory has one of that type at all.\<close>

definition scope_value :: "scope_config \<Rightarrow> 's scope_db \<Rightarrow> int \<Rightarrow> string \<Rightarrow> 's \<Rightarrow> string option" where
  "scope_value sc db i ty s =
     (if sd_has_type db i ty s
      then map_option snd (find (\<lambda>tag. fst tag = ty) (memory_collect_scopes sc db i 8 s)) else None)"

definition memory_primary_scope :: "scope_config \<Rightarrow> 's scope_db \<Rightarrow> int \<Rightarrow> nat \<Rightarrow> 's \<Rightarrow> memory_scope_level \<times> string" where
  "memory_primary_scope sc db i value_len s =
     (if i \<le> 0 then (MEMORY_SCOPE_NONE, [])
      else case scope_value sc db i ''project'' s of Some v \<Rightarrow> (MEMORY_SCOPE_PROJECT, cbuf value_len v)
      | None \<Rightarrow>
          (case scope_value sc db i ''workspace'' s of Some v \<Rightarrow> (MEMORY_SCOPE_WORKSPACE, cbuf value_len v)
           | None \<Rightarrow> (MEMORY_SCOPE_GLOBAL, cbuf value_len ''_global'')))"

subsection \<open>Tagging\<close>

definition memory_tag_workspace :: "'s scope_db \<Rightarrow> int \<Rightarrow> cptr \<Rightarrow> 's \<Rightarrow> bool \<times> 's" where
  "memory_tag_workspace db i workspace s =
     (if i \<le> 0 \<or> \<not> nonempty workspace then (False, s)
      else let w = cptr_str workspace in (True, sd_scope_insert db i ''workspace'' w (sd_workspace_insert db i w s)))"

definition memory_tag_scope :: "'s scope_db \<Rightarrow> int \<Rightarrow> cptr \<Rightarrow> cptr \<Rightarrow> 's \<Rightarrow> bool \<times> 's" where
  "memory_tag_scope db i scope_type tag_value s =
     (if i \<le> 0 \<or> \<not> nonempty scope_type \<or> \<not> nonempty tag_value then (False, s)
      else let s1 = sd_scope_insert db i (cptr_str scope_type) (cptr_str tag_value) s
           in if scope_type = Some ''workspace'' then memory_tag_workspace db i tag_value s1 else (True, s1))"

definition memory_tag_global :: "'s scope_db \<Rightarrow> int \<Rightarrow> 's \<Rightarrow> bool \<times> 's" where
  "memory_tag_global db i s = memory_tag_scope db i (Some ''global'') (Some ''_global'') s"

definition memory_tag_project :: "'s scope_db \<Rightarrow> int \<Rightarrow> cptr \<Rightarrow> 's \<Rightarrow> bool \<times> 's" where
  "memory_tag_project db i project s = memory_tag_scope db i (Some ''project'') project s"

definition shared_keywords :: "string list" where
  "shared_keywords =
     [''network'', ''deploy'', ''auth'', ''datastore'', ''spire'', ''proxmox'', ''cert'', ''tls'', ''ssl'',
      ''firewall'', ''gateway'', ''dns'', ''database'', ''backup'', ''security'']"

text \<open>The configured workspace the directory is in, by the last part of its path.\<close>

definition inside :: "string \<Rightarrow> string \<Rightarrow> bool" where
  "inside cwd w \<longleftrightarrow>
     w \<noteq> [] \<and> prefix w cwd \<and> (char_at cwd (length w) = CHR ''/'' \<or> char_at cwd (length w) = NUL)"

definition last_part :: "string \<Rightarrow> string" where
  "last_part p = rev (takeWhile (\<lambda>c. c \<noteq> CHR ''/'') (rev p))"

definition cwd_workspace :: "scope_config \<Rightarrow> string option" where
  "cwd_workspace sc =
     (case so_cwd sc of None \<Rightarrow> None
      | Some cwd \<Rightarrow> map_option last_part (find (inside cwd) (so_workspaces sc)))"

text \<open>The lower-case texts in a buffer of 1024 bytes; a blank follows each text that was started.\<close>

definition lower_fill :: "string \<Rightarrow> string \<Rightarrow> string" where
  "lower_fill buf t =
     (if 1023 \<le> length buf then buf else buf @ map tolower (take (1023 - length buf) t) @ '' '')"

definition lower_text :: "string \<Rightarrow> string \<Rightarrow> string" where
  "lower_text key content = lower_fill (lower_fill [] key) content"

definition memory_auto_tag_workspace :: "scope_config \<Rightarrow> 's scope_db \<Rightarrow> int \<Rightarrow> string \<Rightarrow> string \<Rightarrow> 's \<Rightarrow> (bool \<times> 's) option" where
  "memory_auto_tag_workspace sc db i key content s =
     (if i \<le> 0 then Some (False, s)
      else let s1 = (case cwd_workspace sc of None \<Rightarrow> s | Some w \<Rightarrow> snd (memory_tag_workspace db i (Some w) s));
               low = lower_text key content
           in if 1024 \<le> length low then None
              else Some (True, if list_ex (contains low) shared_keywords
                     then snd (memory_tag_workspace db i (Some (so_shared sc)) s1) else s1))"

subsection \<open>Workflows\<close>

text \<open>The confidence of an observation: a step of 0.2 above what is stored, never below what is seen.\<close>

definition workflow_confidence :: "real \<Rightarrow> real option \<Rightarrow> real" where
  "workflow_confidence observed stored =
     (let target = (if 0 < observed then observed else 6 / 10)
      in case stored of None \<Rightarrow> target
         | Some old \<Rightarrow> let bumped = min 1 (old + 2 / 10) in if target < bumped then bumped else target)"

definition workflow_key :: "string \<Rightarrow> string \<Rightarrow> string" where
  "workflow_key workspace signal_type = cbuf 512 (''workflow:'' @ workspace @ '':'' @ signal_type)"

definition memory_upsert_workflow ::
    "scope_config \<Rightarrow> 's scope_db \<Rightarrow> 's crud \<Rightarrow> cptr \<Rightarrow> cptr \<Rightarrow> cptr \<Rightarrow> real \<Rightarrow> cptr \<Rightarrow> memory_t \<Rightarrow> 's \<Rightarrow> int \<times> 's" where
  "memory_upsert_workflow sc db cr workspace signal_type rule observed session_id out0 s =
     (if \<not> nonempty workspace \<or> \<not> nonempty signal_type \<or> \<not> nonempty rule then (-1, s)
      else let key = workflow_key (cptr_str workspace) (cptr_str signal_type);
               conf = workflow_confidence observed (sd_confidence db (ct_norm (cr_txt cr) key 512) s)
           in case insert_memory cr (so_L1 sc) (so_workflow sc) key (cptr_str rule) conf
                     (case session_id of None \<Rightarrow> Some ''workflow_learning'' | Some x \<Rightarrow> Some x) (Some out0) s of
                (ok, out, s1) \<Rightarrow>
                  if \<not> ok then (-1, s1)
                  else let i = (case out of Some m \<Rightarrow> m_id m | None \<Rightarrow> m_id out0)
                       in (i, snd (memory_tag_workspace db i workspace s1)))"

subsection \<open>The health of the embedder\<close>

record breaker_snapshot =
  bs_open :: bool
  bs_probe_inflight :: bool
  bs_failure_streak :: int
  bs_open_count :: int
  bs_retry_after :: int
  bs_last_success :: int
  bs_last_failure :: int
  bs_suppressed :: int

record embedder_health =
  eh_state :: string
  eh_available :: bool
  eh_failure_streak :: int
  eh_recovery_attempt :: int
  eh_retry_after :: int
  eh_last_success :: int
  eh_last_failure :: int
  eh_suppressed :: int

definition memory_embedder_health :: "breaker_snapshot \<Rightarrow> embedder_health" where
  "memory_embedder_health b =
     \<lparr>eh_state = (if \<not> bs_open b then ''closed''
        else if bs_probe_inflight b \<or> bs_retry_after b = 0 then ''half_open'' else ''open''),
      eh_available = (\<not> bs_open b), eh_failure_streak = bs_failure_streak b, eh_recovery_attempt = bs_open_count b,
      eh_retry_after = bs_retry_after b, eh_last_success = bs_last_success b, eh_last_failure = bs_last_failure b,
      eh_suppressed = bs_suppressed b\<rparr>"

subsection \<open>Views\<close>

record memory_episode =
  ep_reference_time :: string
  ep_source_session :: string
  ep_text :: string

record memory_relation =
  rl_src :: string
  rl_relation :: string
  rl_dst :: string
  rl_valid_at :: string

record entity_profile =
  pf_entity :: string
  pf_mentions :: int
  pf_relations :: int
  pf_latest :: string
  pf_summary :: string

record view_db =
  vd_episodes :: "cptr \<Rightarrow> int \<Rightarrow> nat \<Rightarrow> memory_episode list"
  vd_relations :: "cptr \<Rightarrow> int \<Rightarrow> nat \<Rightarrow> memory_relation list"
  vd_entity_relations :: "cptr \<Rightarrow> int \<Rightarrow> nat \<Rightarrow> memory_relation list"
  vd_profile :: "string \<Rightarrow> (int \<times> int \<times> string \<times> string) option"
  vd_norm :: normalizer
  vd_entity_len :: nat
  vd_context :: "string \<Rightarrow> cptr"

definition memory_list_episodes :: "view_db \<Rightarrow> cptr \<Rightarrow> int \<Rightarrow> nat \<Rightarrow> memory_episode list" where
  "memory_list_episodes vd query limit mx = (if mx = 0 then [] else take mx (vd_episodes vd query limit mx))"

definition memory_get_episode :: "view_db \<Rightarrow> cptr \<Rightarrow> memory_episode option" where
  "memory_get_episode vd key =
     (if \<not> nonempty key then None
      else case memory_list_episodes vd key 1 1 of [] \<Rightarrow> None | ep # _ \<Rightarrow> Some ep)"

definition memory_search_graph :: "view_db \<Rightarrow> cptr \<Rightarrow> int \<Rightarrow> nat \<Rightarrow> memory_relation list" where
  "memory_search_graph vd query limit mx = take mx (vd_relations vd query limit mx)"

definition memory_get_entity_edges :: "view_db \<Rightarrow> cptr \<Rightarrow> int \<Rightarrow> nat \<Rightarrow> memory_relation list" where
  "memory_get_entity_edges vd entity limit mx = take mx (vd_entity_relations vd entity limit mx)"

definition memory_get_entity_profile :: "view_db \<Rightarrow> cptr \<Rightarrow> entity_profile option" where
  "memory_get_entity_profile vd entity =
     (if \<not> nonempty entity then None
      else let n = vd_norm vd (cptr_str entity) 128;
               e = cbuf (vd_entity_len vd) (if n = [] then cptr_str entity else n)
           in map_option (\<lambda>(m, r, latest, summary).
                \<lparr>pf_entity = e, pf_mentions = m, pf_relations = r, pf_latest = latest, pf_summary = summary\<rparr>)
                (vd_profile vd e))"

text \<open>
  Writing into the block: the text so far and the position, which counts what did not fit.  A
  line is written only while the position is below 15000.
\<close>

definition put_text :: "string \<times> nat \<Rightarrow> string \<Rightarrow> string \<times> nat" where
  "put_text b t = (case b of (s, pos) \<Rightarrow> (s @ take (16383 - pos) t, pos + length t))"

definition put_line :: "string \<times> nat \<Rightarrow> string \<Rightarrow> string \<times> nat" where
  "put_line b t = (if snd b < 15000 then put_text b t else b)"

definition nl :: string where
  "nl = [CHR 0x0A]"

definition episode_line :: "memory_episode \<Rightarrow> string" where
  "episode_line ep =
     ''- ['' @ (if ep_reference_time ep = [] then ep_source_session ep else ep_reference_time ep) @ ''] '' @
     ep_text ep @ nl"

definition edge_line :: "memory_relation \<Rightarrow> string" where
  "edge_line r = ''- '' @ rl_src r @ '' ['' @ rl_relation r @ ''] '' @ rl_dst r"

definition relation_line :: "memory_relation \<Rightarrow> string" where
  "relation_line r =
     edge_line r @ '' ('' @ (if rl_valid_at r = [] then ''undated'' else rl_valid_at r) @ '')'' @ nl"

definition entity_block :: "entity_profile \<Rightarrow> memory_relation list \<Rightarrow> string \<times> nat" where
  "entity_block p edges =
     (let b1 = put_text ([], 0) (''# Entity Dossier'' @ nl @ pf_entity p @ nl @ ''Mentions: '' @ decimal (pf_mentions p) @ nl @
            ''Relations: '' @ decimal (pf_relations p) @ nl);
          b2 = (if pf_latest p = [] then b1 else put_text b1 (''Latest episode: '' @ pf_latest p @ nl));
          b3 = (if pf_summary p = [] then b2 else put_text b2 (''Summary: '' @ pf_summary p @ nl))
      in foldl put_line b3 (map (\<lambda>r. edge_line r @ nl) edges))"

definition memory_get_context_block :: "view_db \<Rightarrow> cptr \<Rightarrow> cptr \<Rightarrow> int \<Rightarrow> cptr" where
  "memory_get_context_block vd query block_type limit =
     (let q = cptr_str query; ty = cptr_str block_type; n = (if limit \<le> 0 then 5 else limit)
      in if q = [] then None
         else if ty = [] \<or> ty = ''general'' then vd_context vd q
         else if ty = ''timeline'' \<or> ty = ''episode''
         then Some (fst (foldl put_line
                (put_text ([], 0) (''# '' @ (if ty = ''timeline'' then ''Timeline'' else ''Episode'') @ '' Context'' @ nl))
                (map episode_line (memory_list_episodes vd query (min n 16) 16))))
         else if ty = ''entity''
         then (case memory_get_entity_profile vd query of None \<Rightarrow> Some ''No entity profile found.''
               | Some p \<Rightarrow> Some (fst (entity_block p (memory_get_entity_edges vd query (min n 12) 12))))
         else if ty = ''relationship''
         then Some (fst (foldl put_line (put_text ([], 0) (''# Relationship Summary'' @ nl))
                (map relation_line (memory_search_graph vd query (min n 16) 16))))
         else vd_context vd q)"

end
