(* ===== verification/Insertion.thy ===== *)
theory Insertion
  imports Units Scopes Health
begin

text \<open>
  The whole program of an insertion.  \<open>Crud\<close> describes the calls of an insertion into the other
  modules of the repository as functions on the state; here they are the models of those modules:
  the refresh of the derived metadata (\<open>Units\<close>), the tags (\<open>Scopes\<close>), the surprise of a
  content (\<open>Weights\<close>) and
  \<open>memory_maybe_run_maintenance\<close> (\<open>memory_core_helpers.c\<close>), which runs the maintenance pass of
  \<open>Health\<close>, and that inserts again.

  The state is what the process keeps (the counter of quiet cycles with its alarm, the counters of
  the directives and of the coreference audit, the embedding client with its memo) with the
  database inside it; \<open>None\<close> is a call that does not return, or that wrote outside a buffer.
  \<open>maintenance_running\<close>, the static flag, is what ends the recursion: while it is set the function
  returns at once.  An insertion inside the pass is therefore one with \<open>cd_maintain = id\<close>.
\<close>

record 'd process =
  pg_quiet :: int
  pg_alarm :: bool
  pg_directives :: directive_metrics
  pg_coref :: coref_counts
  pg_embed :: "'d embed_state"

type_synonym 'd running = "'d process option"

record 'd modules =
  im_derive :: derive_env
  im_rows :: "'d derived_db"
  im_embedder :: "'d embed_env"
  im_names :: unit_names
  im_units :: "'d units_db"
  im_scope :: scope_config
  im_tags :: "'d scope_db"
  im_rank :: rank_config
  im_env :: environment
  im_prior :: "string \<Rightarrow> int \<Rightarrow> 'd \<Rightarrow> string list"

subsection \<open>The calls of an insertion\<close>

definition refresh_call :: "'d modules \<Rightarrow> int \<Rightarrow> string \<Rightarrow> string \<Rightarrow> 'd running \<Rightarrow> 'd running" where
  "refresh_call im i key content p =
     Option.bind p (\<lambda>g.
       map_option (\<lambda>(c, st). g\<lparr>pg_coref := c, pg_embed := st\<rparr>)
         (memory_refresh_derived_metadata (im_derive im) (im_rows im) (im_embedder im) (im_names im) (im_units im)
            i key content (pg_coref g, pg_embed g)))"

definition auto_tag_call :: "'d modules \<Rightarrow> int \<Rightarrow> string \<Rightarrow> string \<Rightarrow> 'd running \<Rightarrow> 'd running" where
  "auto_tag_call im i key content p =
     Option.bind p (\<lambda>g.
       map_option (\<lambda>(ok, s). g\<lparr>pg_embed := (pg_embed g)\<lparr>es_world := s\<rparr>\<rparr>)
         (memory_auto_tag_workspace (im_scope im) (im_tags im) i key content (es_world (pg_embed g))))"

definition surprise_call :: "'d modules \<Rightarrow> normalizer \<Rightarrow> cptr \<Rightarrow> cptr \<Rightarrow> 'd running \<Rightarrow> real" where
  "surprise_call im nrm session_id content p =
     memory_content_surprise (im_rank im) (im_env im) nrm
       (\<lambda>session n. case p of None \<Rightarrow> [] | Some g \<Rightarrow> im_prior im session n (es_world (pg_embed g))) session_id content"

subsection \<open>Maintenance now and then\<close>

text \<open>
  The two calls on the runtime state are weakly linked; \<open>tr_sweep\<close> is
  \<open>memory_lifecycle_sweep_expired\<close>, one database call.  The clustering of scenes does nothing.
\<close>

record 's trigger_env =
  tr_inserts :: int
  tr_secs :: int
  tr_env :: environment
  tr_get :: "(string \<Rightarrow> 's \<Rightarrow> string option) option"
  tr_set :: "(string \<Rightarrow> string \<Rightarrow> 's \<Rightarrow> 's) option"
  tr_now :: int
  tr_lifecycle :: bool
  tr_sweep :: "'s \<Rightarrow> 's"

definition trigger_limit :: "environment \<Rightarrow> string \<Rightarrow> int \<Rightarrow> int \<Rightarrow> int" where
  "trigger_limit env name configured fallback =
     (let base = (if 0 < configured then configured else fallback)
      in case env name of None \<Rightarrow> base | Some v \<Rightarrow> if v \<noteq> [] \<and> 0 < atoi v then atoi v else base)"

text \<open>A number of the runtime state, through a buffer of 32 bytes.\<close>

definition state_number :: "(string \<Rightarrow> 's \<Rightarrow> string option) \<Rightarrow> string \<Rightarrow> 's \<Rightarrow> int option" where
  "state_number get name s =
     (case get name s of None \<Rightarrow> None | Some v \<Rightarrow> if v = [] then None else Some (atoi (cbuf 32 v)))"

definition maintenance_due :: "'s trigger_env \<Rightarrow> int \<Rightarrow> int \<Rightarrow> bool" where
  "maintenance_due tr pending last_run \<longleftrightarrow>
     trigger_limit (tr_env tr) ''AIMEE_MEMORY_MAINTENANCE_TRIGGER_INSERTS'' (tr_inserts tr) 20 \<le> pending \<or>
     (0 < last_run \<and>
      trigger_limit (tr_env tr) ''AIMEE_MEMORY_MAINTENANCE_TRIGGER_SECS'' (tr_secs tr) 600
        \<le> wrap32 (tr_now tr - last_run))"

definition memory_maybe_run_maintenance :: "'s trigger_env \<Rightarrow> ('s \<Rightarrow> 's) \<Rightarrow> 's \<Rightarrow> 's" where
  "memory_maybe_run_maintenance tr run s =
     (case (tr_get tr, tr_set tr) of
        (Some get, Some put) \<Rightarrow>
          let pending = (case state_number get ''maintenance_pending_writes'' s of None \<Rightarrow> 1 | Some n \<Rightarrow> wrap32 (n + 1));
              s1 = put ''maintenance_pending_writes'' (decimal pending) s;
              last_run = (case state_number get ''maintenance_last_run_epoch'' s1 of None \<Rightarrow> 0 | Some n \<Rightarrow> n);
              now = decimal (wrap32 (tr_now tr));
              s2 = (if last_run = 0 then put ''maintenance_last_run_epoch'' now s1 else s1)
          in if \<not> maintenance_due tr pending last_run then s2
             else let s3 = run s2;
                      s4 = put ''maintenance_last_run_epoch'' now (put ''maintenance_pending_writes'' ''0'' s3)
                  in if tr_lifecycle tr then tr_sweep tr s4 else s4
      | _ \<Rightarrow> s)"

subsection \<open>The program\<close>

text \<open>The insertion while a maintenance pass runs, and the pass itself on the state of the process.\<close>

definition nested_crud :: "'d modules \<Rightarrow> 'd running crud \<Rightarrow> 'd running crud" where
  "nested_crud im cr =
     cr\<lparr>cr_db := (cr_db cr)\<lparr>cd_refresh := refresh_call im, cd_auto_tag := auto_tag_call im,
        cd_surprise := surprise_call im (ct_norm (cr_txt cr)), cd_maintain := id\<rparr>\<rparr>"

definition nested_env :: "'d modules \<Rightarrow> 'd running crud \<Rightarrow> 'd running health_env \<Rightarrow> 'd running health_env" where
  "nested_env im cr he =
     he\<lparr>he_promo := (he_promo he)\<lparr>pr_crud := nested_crud im cr\<rparr>,
        he_conflict := (he_conflict he)\<lparr>ke_crud := nested_crud im cr\<rparr>\<rparr>"

definition maintenance_call :: "'d running health_env \<Rightarrow> 'd running \<Rightarrow> 'd running" where
  "maintenance_call he p =
     Option.bind p (\<lambda>g.
       let st = snd (memory_run_maintenance he
                  \<lparr>hs_quiet = pg_quiet g, hs_alarm = pg_alarm g, hs_directives = pg_directives g, hs_store = Some g\<rparr>)
       in map_option (\<lambda>g'. g'\<lparr>pg_quiet := hs_quiet st, pg_alarm := hs_alarm st, pg_directives := hs_directives st\<rparr>)
            (hs_store st))"

definition program_crud ::
    "'d modules \<Rightarrow> 'd running trigger_env \<Rightarrow> 'd running health_env \<Rightarrow> 'd running crud \<Rightarrow> 'd running crud" where
  "program_crud im tr he cr =
     cr\<lparr>cr_db := (cr_db (nested_crud im cr))\<lparr>cd_maintain :=
        memory_maybe_run_maintenance tr (maintenance_call (nested_env im cr he))\<rparr>\<rparr>"

text \<open>An insertion of the program: \<open>None\<close> when it does not return, or not with the state intact.\<close>

definition program_insert ::
    "'d modules \<Rightarrow> 'd running trigger_env \<Rightarrow> 'd running health_env \<Rightarrow> 'd running crud \<Rightarrow>
     cptr \<Rightarrow> cptr \<Rightarrow> cptr \<Rightarrow> cptr \<Rightarrow> cptr \<Rightarrow> real \<Rightarrow> cptr \<Rightarrow> memory_t option \<Rightarrow> 'd process \<Rightarrow>
     (bool \<times> memory_t option \<times> 'd process) option" where
  "program_insert im tr he cr tier kind key content use_cases confidence session_id out g =
     (case memory_insert_ex 2 (program_crud im tr he cr) tier kind key content use_cases confidence session_id out (Some g) of
        Some (ok, out', Some g') \<Rightarrow> Some (ok, out', g')
      | _ \<Rightarrow> None)"

lemma nested_crud_sel [simp]:
  "cr_cfg (nested_crud im cr) = cr_cfg cr" "cr_txt (nested_crud im cr) = cr_txt cr"
  "cd_refresh (cr_db (nested_crud im cr)) = refresh_call im"
  "cd_maintain (cr_db (nested_crud im cr)) = id"
  by (simp_all add: nested_crud_def)

lemma program_crud_sel [simp]:
  "cr_cfg (program_crud im tr he cr) = cr_cfg cr" "cr_txt (program_crud im tr he cr) = cr_txt cr"
  "cd_refresh (cr_db (program_crud im tr he cr)) = refresh_call im"
  "cd_auto_tag (cr_db (program_crud im tr he cr)) = auto_tag_call im"
  "cd_lookup_merge (cr_db (program_crud im tr he cr)) = cd_lookup_merge (cr_db cr)"
  "cd_lookup_key (cr_db (program_crud im tr he cr)) = cd_lookup_key (cr_db cr)"
  "cd_set_versioned (cr_db (program_crud im tr he cr)) = cd_set_versioned (cr_db cr)"
  "cd_count_versions (cr_db (program_crud im tr he cr)) = cd_count_versions (cr_db cr)"
  "cd_get (cr_db (program_crud im tr he cr)) = cd_get (cr_db cr)"
  "cd_insert (cr_db (program_crud im tr he cr)) = cd_insert (cr_db cr)"
  "cd_provenance (cr_db (program_crud im tr he cr)) = cd_provenance (cr_db cr)"
  "cd_embed (cr_db (program_crud im tr he cr)) = cd_embed (cr_db cr)"
  "cd_invalidate (cr_db (program_crud im tr he cr)) = cd_invalidate (cr_db cr)"
  "cd_audit (cr_db (program_crud im tr he cr)) = cd_audit (cr_db cr)"
  "cd_maintain (cr_db (program_crud im tr he cr)) =
     memory_maybe_run_maintenance tr (maintenance_call (nested_env im cr he))"
  by (simp_all add: program_crud_def nested_crud_def)

end
