(* ===== verification/Derived_Properties.thy ===== *)
theory Derived_Properties
  imports Derived
begin

text \<open>
  Properties of the derived metadata: the chunking loop returns on texts without line feeds and
  may run forever with them, the number of rows is bounded, and the days that the temporal
  references resolve to are the right ones.
\<close>

subsection \<open>Chunks\<close>

lemma break_point_Some: "break_point c p k = Some b \<Longrightarrow> p < b \<and> b \<le> k \<and> sentence_mark (char_at c (b - 1))"
  by (induction k) (auto split: if_splits)

lemma break_point_None: "break_point c p k = None \<longleftrightarrow> (\<forall>i. p \<le> i \<and> i < k \<longrightarrow> \<not> sentence_mark (char_at c i))"
  by (induction k) (auto simp: less_Suc_eq not_less_eq_eq)

lemma window_end_short: "length c \<le> p + CHUNK_CHARS \<Longrightarrow> window_end c p = length c"
  by (simp add: window_end_def Let_def)

lemma window_end_long:
  "p + CHUNK_CHARS < length c \<Longrightarrow> window_end c p =
     (case break_point c p (p + CHUNK_CHARS) of None \<Rightarrow> p + CHUNK_CHARS | Some k \<Rightarrow> k)"
  by (simp add: window_end_def Let_def)

lemma window_end_bounds:
  assumes "p < length c"
  shows "p < window_end c p \<and> window_end c p \<le> p + CHUNK_CHARS \<and> window_end c p \<le> length c"
proof (cases "p + CHUNK_CHARS < length c")
  case True
  then show ?thesis
    using break_point_Some [of c p "p + CHUNK_CHARS"]
    by (auto simp: window_end_long CHUNK_CHARS_def split: option.split)
qed (use assms in \<open>simp add: window_end_short\<close>)

text \<open>A window that does not end the text stops at a mark or is 200 characters long.\<close>

lemma window_end_cases:
  assumes "window_end c p < length c" "p < length c"
  shows "sentence_mark (char_at c (window_end c p - 1)) \<or> window_end c p = p + CHUNK_CHARS"
proof (cases "p + CHUNK_CHARS < length c")
  case True
  then show ?thesis
    using break_point_Some [of c p "p + CHUNK_CHARS"] by (auto simp: window_end_long split: option.split)
qed (use assms(1) in \<open>simp add: window_end_short\<close>)

lemma trim_end_snoc: "\<not> isspace x \<Longrightarrow> trim_end (s @ [x]) = s @ [x]"
  by (simp add: trim_end_def)

lemma trim_end_prefix: "prefix (trim_end s) s"
proof -
  have "suffix (dropWhile isspace (rev s)) (rev s)" by (rule suffix_dropWhile)
  then have "prefix (rev (dropWhile isspace (rev s))) (rev (rev s))" by (simp only: suffix_to_prefix rev_rev_ident)
  then show ?thesis by (simp add: trim_end_def)
qed

lemma window_text_ok: "sublist (window_text c p b) c \<and> length (window_text c p b) \<le> b - p"
proof -
  have "prefix (window_text c p b) (take (min (b - p) 511) (drop p c))"
    unfolding window_text_def by (rule trim_end_prefix)
  moreover have "sublist (take (min (b - p) 511) (drop p c)) c"
    by (rule sublist_order.order_trans [OF sublist_take sublist_drop])
  ultimately have "sublist (window_text c p b) c" "length (window_text c p b) \<le> min (b - p) 511"
    using sublist_order.order_trans [OF prefix_imp_sublist] by (auto dest: prefix_length_le)
  then show ?thesis by simp
qed

lemma window_text_ends_mark:
  assumes "p < b" "b \<le> p + 200" "b \<le> length c" "\<not> isspace (c ! (b - 1))"
  shows "window_text c p b \<noteq> []"
proof -
  have "take (b - p) (drop p c) = take (b - p - 1) (drop p c) @ [c ! (b - 1)]"
    using assms take_Suc_conv_app_nth [of "b - p - 1" "drop p c"] by (simp add: Suc_diff_Suc)
  then show ?thesis
    using assms trim_end_snoc by (simp add: window_text_def)
qed

text \<open>Whatever the loop returns is made of windows of the text, at most eight in all.\<close>

lemma chunk_loop_sound:
  assumes "chunk_loop c p ci = Some ws"
  shows "ci \<le> MAX_CHUNKS \<longrightarrow> ci + length ws \<le> MAX_CHUNKS \<and>
    list_all (\<lambda>w. w \<noteq> [] \<and> sublist w c \<and> length w \<le> CHUNK_CHARS) ws"
proof (rule chunk_loop.raw_induct [where P = "\<lambda>c p ci ws. ci \<le> MAX_CHUNKS \<longrightarrow> ci + length ws \<le> MAX_CHUNKS \<and>
    list_all (\<lambda>w. w \<noteq> [] \<and> sublist w c \<and> length w \<le> CHUNK_CHARS) ws", OF _ assms], goal_cases)
  case (1 loop c p ci ws)
  show ?case
  proof (cases "length c \<le> p \<or> MAX_CHUNKS \<le> ci")
    case True
    then show ?thesis using 1(2) by auto
  next
    case False
    let ?b = "window_end c p" let ?w = "window_text c p ?b"
    have b: "p < ?b" "?b \<le> p + CHUNK_CHARS" using window_end_bounds [of p c] False by auto
    have w: "sublist ?w c" "length ?w \<le> CHUNK_CHARS" using window_text_ok [of c p ?b] b by auto
    show ?thesis
    proof (cases "length c \<le> ?b")
      case True
      then have "ws = (if ?w = [] then [] else [?w])" using 1(2) False b by (simp add: Let_def split: if_splits)
      then show ?thesis using w False by simp
    next
      case go: False
      then obtain vs where vs: "loop c (next_window ?b) (if ?w = [] then ci else Suc ci) = Some vs"
        "ws = (if ?w = [] then vs else ?w # vs)"
        using 1(2) False b by (auto simp: Let_def bind_eq_Some_conv split: if_splits)
      then show ?thesis using 1(1) [OF vs(1)] False w by (simp split: if_splits)
    qed
  qed
qed

text \<open>Each round either stores a chunk or moves on, so the loop returns on a text without line feeds.\<close>

lemma next_window_full: "next_window (p + CHUNK_CHARS) = p + CHUNK_CHARS - OVERLAP_CHARS"
  by (simp add: next_window_def Let_def CHUNK_CHARS_def OVERLAP_CHARS_def)

lemma next_window_less: "p < length c \<Longrightarrow> next_window (window_end c p) \<le> length c"
  using window_end_bounds [of p c] by (auto simp: next_window_def Let_def)

lemma blank_window_is_full:
  assumes "CHR 0x0A \<notin> set c" "p < length c" "window_end c p < length c" "window_text c p (window_end c p) = []"
  shows "window_end c p = p + CHUNK_CHARS"
proof (rule ccontr)
  let ?b = "window_end c p"
  assume "?b \<noteq> p + CHUNK_CHARS"
  then have "sentence_mark (char_at c (?b - 1))" using window_end_cases assms(2,3) by blast
  then have "sentence_mark (c ! (?b - 1))" "c ! (?b - 1) \<in> set c"
    using assms(2,3) window_end_bounds [of p c] less_imp_diff_less [of ?b "length c" 1] by (simp_all add: char_at_def)
  then have "\<not> isspace (c ! (?b - 1))" using assms(1) by (auto simp: sentence_mark_def isspace_def)
  then show False
    using window_text_ends_mark [of p ?b c] window_end_bounds [of p c] assms by (simp add: CHUNK_CHARS_def)
qed

lemma chunk_loop_returns:
  assumes "CHR 0x0A \<notin> set c"
  shows "\<exists>ws. chunk_loop c p ci = Some ws"
proof (induction "(MAX_CHUNKS - ci) * Suc (length c) + (length c - p)" arbitrary: p ci rule: less_induct)
  case less
  let ?b = "window_end c p"
  show ?case
  proof (cases "length c \<le> p \<or> MAX_CHUNKS \<le> ci \<or> length c \<le> ?b")
    case True
    then show ?thesis by (subst chunk_loop.simps) (auto simp: Let_def)
  next
    case False
    let ?w = "window_text c p ?b" let ?q = "next_window ?b" let ?ci = "if ?w = [] then ci else Suc ci"
    have "(MAX_CHUNKS - ?ci) * Suc (length c) + (length c - ?q) < (MAX_CHUNKS - ci) * Suc (length c) + (length c - p)"
    proof (cases "?w = []")
      case True
      then have "?b = p + CHUNK_CHARS" using blank_window_is_full [OF assms, of p] False by simp
      then have "p < ?q" "p < length c" using False next_window_full [of p] by (simp_all add: CHUNK_CHARS_def OVERLAP_CHARS_def)
      then show ?thesis using True by simp
    next
      case False
      obtain k where "MAX_CHUNKS - ci = Suc k"
        using \<open>\<not> (length c \<le> p \<or> MAX_CHUNKS \<le> ci \<or> length c \<le> ?b)\<close> by (cases "MAX_CHUNKS - ci") auto
      then have "MAX_CHUNKS - Suc ci = k" by simp
      then show ?thesis using False \<open>MAX_CHUNKS - ci = Suc k\<close> by simp
    qed
    then obtain vs where "chunk_loop c ?q ?ci = Some vs" using less by blast
    then show ?thesis by (subst chunk_loop.simps) (simp add: Let_def)
  qed
qed

text \<open>A round that stores nothing and comes back to its own position never ends.\<close>

lemma stuck_never_returns:
  assumes "p < length c" "ci < MAX_CHUNKS" "window_end c p = b" "b < length c" "window_text c p b = []" "next_window b = p"
  shows "chunk_loop c p ci = None"
proof -
  have "chunk_loop d q ck = Some ws \<Longrightarrow> \<not> (d = c \<and> q = p \<and> ck = ci)" for d q ck ws
  proof (rule chunk_loop.raw_induct [where P = "\<lambda>d q ck ws. \<not> (d = c \<and> q = p \<and> ck = ci)"], goal_cases)
    case (1 loop d q ck ws)
    show ?case
    proof
      assume at_stuck: "d = c \<and> q = p \<and> ck = ci"
      have "b \<noteq> p" using window_end_bounds [OF assms(1)] assms(3) by simp
      then have "Option.bind (loop c p ci) (\<lambda>ws. Some ws) = Some ws"
        using 1(3) assms at_stuck by (simp add: Let_def)
      then obtain vs where "loop c p ci = Some vs" by (cases "loop c p ci") simp_all
      then show False using 1(2) by blast
    qed
  qed simp
  then show ?thesis by (cases "chunk_loop c p ci") auto
qed

text \<open>
  Chunking returns on a text without line feeds, whatever its length.  The chunks are then at
  most eight, none is empty, a text that is not empty has at least one, and each is a stretch of
  the text of at most 200 characters; only a text made of blanks is stored whole.
\<close>

lemma chunking_returns:
  assumes "CHR 0x0A \<notin> set content" "content \<noteq> []"
  shows "\<exists>ws. chunk_rows content = Some ws \<and> ws \<noteq> [] \<and> length ws \<le> 8 \<and>
    (ws = [content] \<or> list_all (\<lambda>w. w \<noteq> [] \<and> sublist w content \<and> length w \<le> 200) ws)"
proof -
  obtain vs where vs: "chunk_loop content 0 0 = Some vs" using chunk_loop_returns [OF assms(1)] by blast
  show ?thesis
    using chunk_loop_sound [OF vs] assms(2) by (auto simp: chunk_rows_def vs MAX_CHUNKS_def CHUNK_CHARS_def)
qed

lemma chunking_returns_instance:
  "\<exists>ws. chunk_rows ''one. two'' = Some ws \<and> ws \<noteq> [] \<and> length ws \<le> 8 \<and>
    (ws = [''one. two''] \<or> list_all (\<lambda>w. w \<noteq> [] \<and> sublist w ''one. two'' \<and> length w \<le> 200) ws)"
  by (rule chunking_returns) simp_all

definition feeds_then :: "nat \<Rightarrow> nat \<Rightarrow> string" where
  "feeds_then n m = ''a'' @ replicate n (CHR 0x0A) @ replicate m (CHR ''x'')"

lemma feeds_char: "char_at (feeds_then n m) i =
    (if i = 0 then CHR ''a'' else if i \<le> n then CHR 0x0A else if i \<le> n + m then CHR ''x'' else NUL)"
  by (auto simp: char_at_def feeds_then_def nth_append nth_Cons split: nat.split)

lemma feeds_break:
  assumes "1 \<le> n" "p \<le> n" "n < k" "k \<le> n + m"
  shows "break_point (feeds_then n m) p k = Some (n + 1)"
  using assms(3,4)
proof (induction k)
  case (Suc k)
  show ?case
  proof (cases "k = n")
    case True
    then show ?thesis using assms(1,2) by (simp add: feeds_char sentence_mark_def)
  next
    case False
    then have "\<not> sentence_mark (char_at (feeds_then n m) k)" using Suc.prems by (simp add: feeds_char sentence_mark_def)
    then show ?thesis using Suc False assms(2) by simp
  qed
qed simp


lemma feeds_window:
  assumes "1 \<le> n" "p \<le> n" "n < p + 200" "p + 199 < n + m"
  shows "window_end (feeds_then n m) p = n + 1"
proof -
  have "p + CHUNK_CHARS < length (feeds_then n m)" using assms by (simp add: feeds_then_def CHUNK_CHARS_def)
  then show ?thesis using assms feeds_break [of n p "p + 200" m] by (simp add: window_end_long) (simp add: CHUNK_CHARS_def)
qed

lemma trim_end_blank: "list_all isspace s \<Longrightarrow> trim_end s = []"
  by (simp add: trim_end_def list_all_iff)

lemma trim_end_append_blank: "list_all isspace t \<Longrightarrow> trim_end (s @ t) = trim_end s"
proof -
  assume "list_all isspace t"
  then have "dropWhile isspace (rev t @ rev s) = dropWhile isspace (rev s)"
    by (intro dropWhile_append2) (simp add: list_all_iff)
  then show ?thesis by (simp add: trim_end_def)
qed

lemma feeds_blank: "list_all isspace (replicate n (CHR 0x0A))"
  by (simp add: list_all_iff isspace_def)

lemma feeds_text:
  assumes "0 < p" "p \<le> n" "n < 200"
  shows "window_text (feeds_then n m) p (n + 1) = []"
proof -
  have "take (min (n + 1 - p) 511) (drop p (feeds_then n m)) = replicate (n + 1 - p) (CHR 0x0A)"
    using assms by (simp add: feeds_then_def drop_Cons' min_def)
  then show ?thesis using trim_end_blank [OF feeds_blank] by (simp only: window_text_def)
qed

lemma feeds_first_text:
  assumes "n < 200"
  shows "window_text (feeds_then n m) 0 (n + 1) = ''a''"
proof -
  have "take (min (n + 1 - 0) 511) (drop 0 (feeds_then n m)) = ''a'' @ replicate n (CHR 0x0A)"
    using assms by (simp add: feeds_then_def min_def)
  then have "window_text (feeds_then n m) 0 (n + 1) = trim_end ''a''"
    using trim_end_append_blank [OF feeds_blank, of "''a''" n] by (simp only: window_text_def)
  then show ?thesis by (simp add: trim_end_def isspace_def)
qed

lemma feeds_next: "40 \<le> n \<Longrightarrow> n < 200 \<Longrightarrow> next_window (n + 1) = n - 39"
  by (simp add: next_window_def Let_def CHUNK_CHARS_def OVERLAP_CHARS_def)

lemma chunking_diverges:
  assumes "40 \<le> n" "n < 200" "160 < m"
  shows "chunk_rows (feeds_then n m) = None"
proof -
  let ?c = "feeds_then n m"
  have len: "length ?c = n + m + 1" by (simp add: feeds_then_def)
  have start: "window_end ?c 0 = n + 1" and again: "window_end ?c (n - 39) = n + 1"
    using assms by (simp_all add: feeds_window)
  have stuck: "chunk_loop ?c (n - 39) 1 = None"
    using assms len again feeds_text [of "n - 39" n m] feeds_next [of n]
    by (intro stuck_never_returns) (simp_all add: MAX_CHUNKS_def)
  have "chunk_loop ?c 0 0 = None"
    using assms len start feeds_first_text [of n m] feeds_next [of n] stuck
    by (subst chunk_loop.simps) (simp add: Let_def MAX_CHUNKS_def)
  then show ?thesis by (simp add: chunk_rows_def feeds_then_def)
qed

subsection \<open>Days\<close>

lemma shift_day_of_clock: "day_shift k \<Longrightarrow> memory_shift_day (utc_date n) k = utc_date (n + k)"
proof -
  assume k: "day_shift k"
  obtain y m d where u: "utc_date n = (y, m, d)" by (cases "utc_date n")
  then have "wrap32 (d + k) = d + k"
    using utc_day_range [OF u] k by (intro wrap32_id) (auto simp: day_shift_def)
  then show ?thesis
    using u norm_date_valid [of y m d k] utc_date_valid [of n] shift_utc_date [of k n]
    by (simp add: memory_shift_day_def)
qed

lemma norm_of_clock: "utc_date n = (y, m, d) \<Longrightarrow> norm_date y m d = utc_date n"
  using norm_date_valid [of y m d 0] utc_date_valid [of n] by simp

text \<open>
  \<open>last <weekday>\<close> is the right day: for a row made on day \<open>n\<close> of the clock it is the last day
  before \<open>n\<close> that falls on that weekday, never day \<open>n\<close> itself.
\<close>

lemma previous_weekday_correct:
  assumes "target < 7"
  shows "\<exists>k. previous_weekday (utc_date n) target = utc_date k \<and> n - 7 \<le> k \<and> k < n \<and>
    utc_weekday k = (int target + 1) mod 7"
proof -
  obtain y m d where u: "utc_date n = (y, m, d)" by (cases "utc_date n")
  define cur where "cur = (if utc_weekday n \<noteq> 0 then utc_weekday n - 1 else 6)"
  define gap where "gap = (if cur - int target \<le> 0 then cur - int target + 7 else cur - int target)"
  have cur: "0 \<le> cur" "cur < 7" "(cur + 1) mod 7 = utc_weekday n"
    by (auto simp: cur_def utc_weekday_def)
  have w: "date_weekday (norm_date y m d) = utc_weekday n" using norm_of_clock [OF u] weekday_of_the_clock by simp
  have "previous_weekday (utc_date n) target = memory_shift_day (utc_date n) (- gap)"
    unfolding u previous_weekday_def prod.case w gap_def cur_def Let_def by (rule refl)
  moreover have gap: "1 \<le> gap" "gap \<le> 7" using cur assms by (auto simp: gap_def)
  ultimately have "previous_weekday (utc_date n) target = utc_date (n - gap)"
    by (simp add: shift_day_of_clock day_shift_def)
  moreover note gap
  moreover have "utc_weekday (n - gap) = (int target + 1) mod 7"
  proof -
    have "gap mod 7 = (cur - int target) mod 7" by (simp add: gap_def)
    moreover have "(n + 4) mod 7 = (cur + 1) mod 7" using cur(3) by (simp add: utc_weekday_def)
    ultimately have "(n + 4 - gap) mod 7 = (cur + 1 - (cur - int target)) mod 7" by (intro mod_diff_cong)
    then show ?thesis by (simp add: utc_weekday_def algebra_simps)
  qed
  ultimately show ?thesis by (intro exI [of _ "n - gap"]) auto
qed

end
