(* ===== verification/Unit_Properties.thy ===== *)
theory Unit_Properties
  imports Units Derived_Properties
begin

text \<open>
  Properties of what is built on the derived metadata: the unit graph is well typed and bounded,
  every row the refresh inserts is within its bounds, and the refresh
  of a memory returns when its content has no line feed, and need not when it has.
\<close>

subsection \<open>The unit graph\<close>

lemma insert_units_ok:
  "list_all (\<lambda>u. 0 < u) ids \<Longrightarrow> length ids \<le> cap \<Longrightarrow>
     list_all (\<lambda>u. 0 < u) (fst (insert_units e un db i cap ids sps s)) \<and>
     length (fst (insert_units e un db i cap ids sps s)) \<le> cap"
  by (induction sps arbitrary: ids s) (simp_all split: prod.split)

lemma inserted_ok:
  assumes "insert_units e un db i cap [] sps s = (ids, s')"
  shows "list_all (\<lambda>u. 0 < u) ids" "length ids \<le> cap"
  using insert_units_ok [of "[]" cap e un db i sps s] assms by simp_all

definition small_ids :: "nat \<Rightarrow> int list \<Rightarrow> bool" where
  "small_ids n ids \<longleftrightarrow> list_all (\<lambda>u. 0 < u) ids \<and> length ids \<le> n"

definition groups_ok :: "unit_groups \<Rightarrow> bool" where
  "groups_ok g \<longleftrightarrow>
     small_ids 8 (ug_summaries g) \<and> small_ids 16 (ug_events g) \<and> small_ids 16 (ug_temporals g) \<and>
     small_ids 16 (ug_entities g) \<and> small_ids 16 (ug_chunks g)"

lemma summary_units_ok: "summary_units e un db i k key s = (ids, s') \<Longrightarrow> small_ids 8 ids"
  by (auto simp: summary_units_def small_ids_def dest: inserted_ok split: prod.splits if_splits)

lemma build_groups_ok: "groups_ok (fst (build_groups e un db i mk ex key content s))"
  by (auto simp: build_groups_def Let_def groups_ok_def small_ids_def dest: inserted_ok
      dest!: summary_units_ok [unfolded small_ids_def] split: prod.split)

text \<open>What an edge may join.\<close>

definition typed_edge :: "unit_groups \<Rightarrow> unit_edge \<Rightarrow> bool" where
  "typed_edge g ed =
     (case ed of (u, v, ty, w) \<Rightarrow>
        0 < w \<and>
        (ty = ''contains'' \<and> u \<in> set (ug_summaries g) \<and> v \<in> set (ug_events g) \<union> set (ug_chunks g) \<or>
         ty = ''anchored_by'' \<and> u \<in> set (ug_events g) \<and> v \<in> set (ug_temporals g) \<or>
         ty = ''mentions'' \<and> u \<in> set (ug_events g) \<and> v \<in> set (ug_entities g) \<or>
         ty = ''supports'' \<and> u \<in> set (ug_chunks g) \<and> v \<in> set (ug_events g) \<or>
         ty = ''same_episode'' \<and> 0 < u \<and> u = ug_episode g \<and>
           v \<in> set (ug_summaries g) \<union> set (ug_events g) \<union> set (ug_chunks g)))"

lemma group_edges_typed: "list_all (typed_edge g) (group_edges g)"
  by (auto simp: group_edges_def event_edges_def join_edges_def typed_edge_def list_all_iff)

lemma join_edges_length: "length (join_edges ty w us vs) = length us * length vs"
  by (simp add: join_edges_def length_concat o_def sum_list_triv)

lemma event_edges_length:
  "length (event_edges g ev) = length (ug_temporals g) + length (ug_entities g) + length (ug_chunks g)"
  by (simp add: event_edges_def join_edges_length)

lemma group_edges_length:
  "length (group_edges g) =
     length (ug_summaries g) * (length (ug_events g) + length (ug_chunks g)) +
     length (ug_events g) * (length (ug_temporals g) + length (ug_entities g) + length (ug_chunks g)) +
     (if 0 < ug_episode g then length (ug_summaries g) + length (ug_events g) + length (ug_chunks g) else 0)"
  by (simp add: group_edges_def join_edges_length length_concat o_def event_edges_length sum_list_triv algebra_simps)

lemma group_edges_bound:
  assumes "groups_ok g"
  shows "length (group_edges g) \<le> 1064"
proof -
  have "length (ug_summaries g) * (length (ug_events g) + length (ug_chunks g)) \<le> 8 * (16 + 16)"
    "length (ug_events g) * (length (ug_temporals g) + length (ug_entities g) + length (ug_chunks g)) \<le> 16 * (16 + 16 + 16)"
    using assms by (intro mult_mono add_mono; simp add: groups_ok_def small_ids_def)+
  then show ?thesis
    using assms unfolding group_edges_length groups_ok_def small_ids_def by simp
qed

text \<open>
  The unit graph is well typed.  Whatever the store answers, the units of a memory are at most
  8 summaries and 16 each of events, times, entities and chunks, all stored; and every edge inside
  the memory joins the kinds its type says (a summary contains events and chunks, an event is
  anchored by times and mentions entities, a chunk supports an event, the episode holds summaries,
  events and chunks), with a positive weight, at most 1064 edges in all.
\<close>

lemma unit_graph_typed:
  "let g = fst (build_groups e un db i memory_kind explicit key content s)
   in groups_ok g \<and> list_all (typed_edge g) (group_edges g) \<and> length (group_edges g) \<le> 1064"
  by (simp add: Let_def build_groups_ok group_edges_typed group_edges_bound)

subsection \<open>Bounds\<close>

lemma length_concat_le: "(\<And>x. x \<in> set xs \<Longrightarrow> length (f x) \<le> n) \<Longrightarrow> length (concat (map f xs)) \<le> n * length xs"
proof (induction xs)
  case (Cons x xs)
  have "length (f x) \<le> n" "length (concat (map f xs)) \<le> n * length xs"
    using Cons.IH Cons.prems by simp_all
  then show ?case by simp
qed simp

lemma tokens_bound: "length (text_tokens e t n) \<le> nat n"
  by (simp add: text_tokens_def memory_split_tokens_def)

lemma alias_rows_bound: "length (alias_rows e key content) \<le> 25"
  by (auto simp: alias_rows_def Let_def simp del: take_append)

lemma entity_rows_bound: "length (entity_rows e key content) \<le> 74"
proof -
  have "length (entity_rows_at e ts i) \<le> 3" for ts i
    by (simp add: entity_rows_at_def Let_def phrase_rows_def)
  then have "length (concat (map (entity_rows_at e ts) [0..<length ts])) \<le> 3 * length ts" for ts
    using length_concat_le [of "[0..<length ts]" "entity_rows_at e ts" 3] by simp
  from this [of "text_tokens e content 24"] show ?thesis
    using tokens_bound [of e content 24]
    by (auto simp: entity_rows_def Let_def split: option.split)
qed

lemma last_rows_bound: "length (last_rows c w) \<le> 2"
  by (simp add: last_rows_def split: prod.split option.split)

lemma temporal_rows_bound: "length (temporal_rows e created key content) \<le> 120"
proof -
  have bound: "length (bound_rows created ts i) \<le> 4" for ts i
  proof (cases "ts ! i = ''last''")
    case True
    then show ?thesis
      by (simp add: bound_rows_def Let_def le_trans [OF last_rows_bound] split: option.split)
  qed (simp add: bound_rows_def Let_def split: option.split)
  have ago: "length (ago_at created ts i) \<le> 2" for ts i
    by (simp add: ago_at_def ago_rows_def Let_def split: option.split)
  have month: "length (month_rows e created ts i) \<le> 3" for ts i
    by (simp add: month_rows_def month_day_rows_def Let_def split: option.split prod.split)
  have rel: "length (relative_rows created t) \<le> 2" for t
    by (simp add: relative_rows_def split: option.split)
  have "length (temporal_rows_at e created ts i) \<le> 4" for ts i
    using bound [of ts i] ago [of ts i] month [of ts i] rel [of "ts ! i"] by (simp add: temporal_rows_at_def Let_def)
  then have "length (concat (map (temporal_rows_at e created ts) [0..<length ts])) \<le> 4 * length ts" for ts
    using length_concat_le [of "[0..<length ts]" "temporal_rows_at e created ts" 4] by simp
  from this [of "text_tokens e content 24"] have "length (temporal_rows e created key content) \<le> length (key_temporal_rows e key) + 96"
    using tokens_bound [of e content 24] by (simp add: temporal_rows_def Let_def)
  moreover have "length (key_temporal_rows e key) \<le> 24"
  proof -
    have "length (key_temporal_rows e key) \<le> 1 * length (text_tokens e key 24)"
      unfolding key_temporal_rows_def by (rule length_concat_le) simp
    then show ?thesis using tokens_bound [of e key 24] by simp
  qed
  ultimately show ?thesis by simp
qed

lemma frame_rows_bound: "n < 8 \<Longrightarrow> n + length (frame_rows e key n ps) \<le> 8"
proof (induction ps arbitrary: n)
  case (Cons p ps)
  show ?case
  proof (cases "if trim_end (take 511 p) = [] then None else memory_extract_event_frame_fields e (trim_end (take 511 p)) key")
    case None
    then show ?thesis using Cons by (simp add: Let_def)
  next
    case (Some f)
    then show ?thesis using Cons.IH [of "Suc n"] Cons.prems by (simp add: Let_def)
  qed
qed simp

text \<open>A frame is complete: with a key, it has an actor, an action and an object.\<close>

definition frame_complete :: "event_frame \<Rightarrow> bool" where
  "frame_complete f \<longleftrightarrow> ef_actor f \<noteq> [] \<and> ef_action f \<noteq> [] \<and> ef_object f \<noteq> []"

lemma or_else_nonempty: "b \<noteq> [] \<Longrightarrow> or_else a b \<noteq> []"
  by (simp add: or_else_def)

lemma fields_complete:
  assumes "memory_extract_event_frame_fields e t key = Some f" "key \<noteq> []"
  shows "frame_complete f"
proof -
  have "cbuf 128 key \<noteq> []" "cbuf 256 key \<noteq> []" using assms(2) by (simp_all add: cbuf_def)
  then show ?thesis
    using assms(1) by (auto simp: memory_extract_event_frame_fields_def Let_def frame_complete_def or_else_nonempty split: if_splits)
qed

lemma frame_rows_complete: "key \<noteq> [] \<Longrightarrow> list_all (\<lambda>(f, k). frame_complete f) (frame_rows e key n ps)"
  by (induction ps arbitrary: n) (auto simp: Let_def fields_complete split: option.split)

lemma event_rows_ok:
  "length (event_rows e key content) \<le> 8 \<and>
   (key \<noteq> [] \<longrightarrow> list_all (\<lambda>(f, k). frame_complete f) (event_rows e key content))"
  using frame_rows_bound [of 0 e key "sentences content"]
  by (auto simp: event_rows_def frame_rows_complete fields_complete split: option.split)

text \<open>
  The derived metadata is bounded and its frames are complete.  Whatever the text, a memory
  gets at most 25 aliases, 74 entities, 120 temporal references, 2 summaries and 8 event frames;
  and with a key every frame has an actor, an action and an object.
\<close>

lemma derived_rows_bounded:
  "length (alias_rows e key content) \<le> 25 \<and> length (entity_rows e key content) \<le> 74 \<and>
   length (temporal_rows e created key content) \<le> 120 \<and> length (summary_rows e key content) \<le> 2 \<and>
   length (event_rows e key content) \<le> 8 \<and>
   (key = [] \<or> list_all (\<lambda>(f, k). frame_complete f) (event_rows e key content))"
  using alias_rows_bound [of e key content] entity_rows_bound [of e key content]
    temporal_rows_bound [of e created key content] event_rows_ok [of e key content]
  by (auto simp: summary_rows_def Let_def)

subsection \<open>The refresh\<close>

text \<open>
  C8. Refreshing the derived metadata of a memory, which every insertion does, returns for every
  content without line feeds, and its chunks are then at most eight, each a stretch of the
  content of at most 200 characters, or the content as it is.  With line feeds it need not
  return: a line, 40 line feeds and more than 160 characters without a mark are enough.  Behind
  the first chunk every window ends at the last line feed, the overlap takes the loop back to
  where it was, and as the window is blank no chunk is counted; the guard for forward progress
  does not see it.
\<close>

theorem refresh_returns:
  "(CHR 0x0A \<notin> set content \<longrightarrow>
      memory_refresh_derived_metadata e dd ev un db i key content cs \<noteq> None \<and>
      (\<exists>ws. chunk_rows content = Some ws \<and> length ws \<le> 8 \<and>
        (ws = [content] \<or> list_all (\<lambda>w. w \<noteq> [] \<and> sublist w content \<and> length w \<le> 200) ws))) \<and>
   memory_refresh_derived_metadata e dd ev un db i key (feeds_then 40 (161 + m)) cs = None"
proof -
  have "\<exists>ws. chunk_rows content = Some ws \<and> length ws \<le> 8 \<and>
      (ws = [content] \<or> list_all (\<lambda>w. w \<noteq> [] \<and> sublist w content \<and> length w \<le> 200) ws)"
    if "CHR 0x0A \<notin> set content"
    using chunking_returns [OF that] by (cases "content = []") (simp add: chunk_rows_def, blast)
  then show ?thesis
    by (auto simp: memory_refresh_derived_metadata_def memory_refresh_chunks_def Let_def chunking_diverges)
qed

theorem refresh_returns_witness:
  "\<forall>e dd ev un db cs. memory_refresh_derived_metadata e dd ev un db 1 ''key'' ''one. two'' cs \<noteq> None"
proof (intro allI)
  fix e dd ev un db and cs :: "coref_counts \<times> 's embed_state"
  have "CHR 0x0A \<notin> set ''one. two''" by simp
  then show "memory_refresh_derived_metadata e dd ev un db 1 ''key'' ''one. two'' cs \<noteq> None"
    using refresh_returns [where content = "''one. two''" and key = "''key''" and i = 1 and e = e and dd = dd and
        ev = ev and un = un and db = db and cs = cs] by blast
qed

end
