(* ===== verification/Embedding_Properties.thy ===== *)
theory Embedding_Properties
  imports Scopes
begin

text \<open>
  Properties of the embedding client: the memo of a recall is transparent and embeds each text
  once, a batch is complete or absent, similarity is a cosine, and what an authorization failure
  does to the breaker; and of tagging and learned workflows.
\<close>

subsection \<open>The memo\<close>

text \<open>The service answers a text the same way every time.\<close>

definition steady :: "'s embed_env \<Rightarrow> nat \<Rightarrow> bool" where
  "steady ev md \<longleftrightarrow>
     (\<forall>t c st st'. fst (memory_embed_text ev t (Some c) EMBED_INPUT_QUERY md st) =
        fst (memory_embed_text ev t (Some c) EMBED_INPUT_QUERY md st'))"

lemma steady_fresh:
  assumes "steady ev md"
  shows "fst (embed_fresh ev t c md st) = fst (embed_fresh ev t c md st')"
proof -
  define g where "g c = fst (memory_embed_text ev t (Some c) EMBED_INPUT_QUERY md st)" for c
  have "fst (memory_embed_text ev t (Some c) EMBED_INPUT_QUERY md s) = g c" for c s
    using assms unfolding steady_def g_def by blast
  then show ?thesis by (simp add: embed_fresh_def split_beta)
qed

lemma add_at_length [simp]: "length (add_at i x v) = length v"
  by (simp add: add_at_def)

lemma add_feature_length [simp]: "length (memory_embed_add_feature f mag v) = length v"
  by (simp add: memory_embed_add_feature_def Let_def)

lemma features_length: "length (foldl (\<lambda>v (f, mag). memory_embed_add_feature f mag v) v fs) = length v"
  by (induction fs arbitrary: v) (auto simp: split_beta)

lemma fixture_length: "length (memory_embed_text_lexical_fixture ev t md) \<le> md"
  by (simp add: memory_embed_text_lexical_fixture_def unit_length_def Let_def features_length)

lemma reply_length: "length (reply_vector ev md b) \<le> md"
  by (auto simp: reply_vector_def split: option.split rjson.split)

lemma settle_length: "length (fst (settle_reply ev md r)) \<le> md"
  by (auto simp: settle_reply_def Let_def reply_length split: prod.split embed_reply.split)

lemma embed_text_length: "length (fst (memory_embed_text ev t c i md st)) \<le> md"
  by (simp add: memory_embed_text_def Let_def fixture_length settle_length split_beta)

lemma fresh_length: "length (fst (embed_fresh ev t c md st)) \<le> md"
  by (simp add: embed_fresh_def embed_text_length split_beta)

text \<open>Embedding leaves the memo and its counters alone.\<close>

definition same_memo :: "'s embed_state \<Rightarrow> 's embed_state \<Rightarrow> bool" where
  "same_memo st st' \<longleftrightarrow> es_memo st' = es_memo st \<and> es_misses st' = es_misses st"

lemma same_memo_trans: "same_memo a b \<Longrightarrow> same_memo b c \<Longrightarrow> same_memo a c"
  by (simp add: same_memo_def)

lemma same_memo_simps [simp]:
  "same_memo st st" "same_memo st (unauthorized b st)" "same_memo st (on_world f st)" "same_memo st (st\<lparr>es_world := w\<rparr>)"
  by (simp_all add: same_memo_def unauthorized_def on_world_def)

lemma settle_memo: "same_memo (snd r) (snd (settle_reply ev md r))"
  by (auto simp: settle_reply_def Let_def same_memo_def unauthorized_def on_world_def memory_embedder_failure_def
      split: prod.split embed_reply.split)

lemma reply_memo: "same_memo st (snd (http_reply ev t c i st))" "same_memo st (snd (exec_reply ev t c st))"
  by (simp_all add: http_reply_def exec_reply_def split_beta)

lemma embed_text_memo: "same_memo st (snd (memory_embed_text ev t c i md st))"
proof -
  have "same_memo st (snd (settle_reply ev md (http_reply ev t c' i (st\<lparr>es_world := w\<rparr>))))"
    "same_memo st (snd (settle_reply ev md (exec_reply ev t c' (st\<lparr>es_world := w\<rparr>))))"
    "same_memo st (unauthorized b (st\<lparr>es_world := w\<rparr>))" for w c' b
    using same_memo_simps(4) [of st w] reply_memo settle_memo same_memo_simps(2)
    by (blast intro: same_memo_trans)+
  then show ?thesis by (simp add: memory_embed_text_def Let_def split_beta)
qed

lemma fresh_memo: "same_memo st (snd (embed_fresh ev t c md st))"
  by (simp add: embed_fresh_def split_beta embed_text_memo same_memo_trans [OF embed_text_memo embed_text_memo])

text \<open>A recall is a list of requests, each a text and a command.\<close>

fun serve :: "'s embed_env \<Rightarrow> nat \<Rightarrow> (string \<times> cptr) list \<Rightarrow> 's embed_state \<Rightarrow> vector list \<times> 's embed_state" where
  "serve ev md [] st = ([], st)"
| "serve ev md ((t, c) # rs) st =
     (case memory_embed_text_runtime ev t c md st of
        (v, st1) \<Rightarrow> (case serve ev md rs st1 of (vs, st2) \<Rightarrow> (v # vs, st2)))"

definition memo_true :: "'s embed_env \<Rightarrow> nat \<Rightarrow> 's embed_state \<Rightarrow> bool" where
  "memo_true ev md st \<longleftrightarrow>
     (\<forall>e \<in> set (es_memo st). \<forall>st'. mm_vec e = fst (embed_fresh ev (mm_text e) (mm_command e) md st'))"

lemma memo_lookup_Some:
  "memo_lookup es c t md = Some v \<Longrightarrow> \<exists>e \<in> set es. mm_vec e = v \<and> mm_command e = c \<and> mm_text e = t"
  by (auto simp: memo_lookup_def find_Some_iff)

lemma runtime_true:
  assumes "steady ev md" "memo_true ev md st"
  shows "fst (memory_embed_text_runtime ev t c md st) = fst (embed_fresh ev t (eb_effective ev c) md st0) \<and>
    memo_true ev md (snd (memory_embed_text_runtime ev t c md st))"
proof -
  let ?cmd = "eb_effective ev c" let ?st = "st\<lparr>es_requests := Suc (es_requests st)\<rparr>"
  let ?hit = "if c \<noteq> None \<and> memo_key_fits t ?cmd then memo_lookup (es_memo st) ?cmd t md else None"
  show ?thesis
  proof (cases ?hit)
    case (Some v)
    then obtain e where "e \<in> set (es_memo st)" "mm_vec e = v" "mm_command e = ?cmd" "mm_text e = t"
      using memo_lookup_Some by (fastforce split: if_splits)
    then have "v = fst (embed_fresh ev t ?cmd md st0)" using assms(2) unfolding memo_true_def by fastforce
    then show ?thesis
      using Some assms(2) by (simp add: memory_embed_text_runtime_def memory_effective_embedding_cmd_def memo_true_def)
  next
    case None
    let ?st1 = "?st\<lparr>es_misses := Suc (es_misses st)\<rparr>"
    obtain v st2 where f: "embed_fresh ev t ?cmd md ?st1 = (v, st2)" by (cases "embed_fresh ev t ?cmd md ?st1")
    then have v: "v = fst (embed_fresh ev t ?cmd md s)" for s using steady_fresh [OF assms(1), of t ?cmd ?st1 s] by simp
    have "es_memo st2 = es_memo st" using fresh_memo [of ?st1 ev t ?cmd md] f by (simp add: same_memo_def)
    then have "memo_true ev md st2" "memo_true ev md (memo_store ev ?cmd t v st2)"
      using assms(2) v by (auto simp: memo_true_def memo_store_def)
    then show ?thesis
      using None f v by (simp add: memory_embed_text_runtime_def memory_effective_embedding_cmd_def Let_def)
  qed
qed

lemma serve_true:
  assumes "steady ev md"
  shows "memo_true ev md st \<Longrightarrow>
    fst (serve ev md rs st) = map (\<lambda>(t, c). fst (embed_fresh ev t (eb_effective ev c) md st0)) rs"
proof (induction rs arbitrary: st)
  case (Cons r rs)
  obtain t c where "r = (t, c)" by (cases r)
  then show ?case
    using Cons.IH runtime_true [OF assms Cons.prems, of t c st0] by (simp add: split_beta)
qed simp

text \<open>Requests that can be cached, with a vector that fits.\<close>

definition cacheable :: "'s embed_env \<Rightarrow> nat \<Rightarrow> 's embed_state \<Rightarrow> string \<times> cptr \<Rightarrow> bool" where
  "cacheable ev md st r \<longleftrightarrow>
     snd r \<noteq> None \<and> memo_key_fits (fst r) (eb_effective ev (snd r)) \<and>
     fst (embed_fresh ev (fst r) (eb_effective ev (snd r)) md st) \<noteq> []"

definition request_key :: "'s embed_env \<Rightarrow> string \<times> cptr \<Rightarrow> string \<times> string" where
  "request_key ev r = (fst r, eb_effective ev (snd r))"

definition memo_keys :: "'s embed_state \<Rightarrow> (string \<times> string) list" where
  "memo_keys st = map (\<lambda>e. (mm_text e, mm_command e)) (es_memo st)"

text \<open>The misses are counted by the entries, and no key is stored twice.\<close>

definition memo_counted :: "'s embed_state \<Rightarrow> bool" where
  "memo_counted st \<longleftrightarrow>
     distinct (memo_keys st) \<and> es_misses st = length (es_memo st) \<and> list_all (\<lambda>e. mm_vec e \<noteq> []) (es_memo st)"

lemma find_memo_key:
  assumes "(t, c) \<in> set (memo_keys st)" "list_all (\<lambda>e. mm_vec e \<noteq> [] \<and> length (mm_vec e) \<le> md) (es_memo st)"
  shows "memo_lookup (es_memo st) c t md \<noteq> None"
  using assms by (auto simp: memo_lookup_def memo_keys_def find_None_iff list_all_iff)

lemma memo_lengths: "memo_true ev md st \<Longrightarrow> memo_counted st \<Longrightarrow> list_all (\<lambda>e. mm_vec e \<noteq> [] \<and> length (mm_vec e) \<le> md) (es_memo st)"
  unfolding memo_true_def memo_counted_def list_all_iff using fresh_length by metis

lemma runtime_counts:
  assumes "steady ev md" "memo_true ev md st" "memo_counted st" "cacheable ev md st0 (t, c)" "md \<le> eb_max_dim ev"
    "length (es_memo st) < 32 \<or> (t, eb_effective ev c) \<in> set (memo_keys st)"
  shows "memo_counted (snd (memory_embed_text_runtime ev t c md st)) \<and>
    set (memo_keys (snd (memory_embed_text_runtime ev t c md st))) = insert (t, eb_effective ev c) (set (memo_keys st))"
proof -
  let ?cmd = "eb_effective ev c" let ?st = "st\<lparr>es_requests := Suc (es_requests st)\<rparr>"
  have ok: "c \<noteq> None" "memo_key_fits t ?cmd" using assms(4) by (simp_all add: cacheable_def)
  show ?thesis
  proof (cases "memo_lookup (es_memo st) ?cmd t md")
    case (Some v)
    then have "(t, ?cmd) \<in> set (memo_keys st)" using memo_lookup_Some by (fastforce simp: memo_keys_def)
    then show ?thesis
      using Some ok assms(3)
      by (simp add: memory_embed_text_runtime_def memory_effective_embedding_cmd_def memo_counted_def memo_keys_def insert_absorb)
  next
    case None
    then have new: "(t, ?cmd) \<notin> set (memo_keys st)" using find_memo_key memo_lengths [OF assms(2,3)] by blast
    let ?st1 = "?st\<lparr>es_misses := Suc (es_misses st)\<rparr>"
    obtain v st2 where f: "embed_fresh ev t ?cmd md ?st1 = (v, st2)" by (cases "embed_fresh ev t ?cmd md ?st1")
    have "v \<noteq> []" "length v \<le> md"
      using assms(4) steady_fresh [OF assms(1), of t ?cmd ?st1 st0] fresh_length [of ev t ?cmd md ?st1] f
      by (auto simp: cacheable_def)
    moreover have "es_memo st2 = es_memo st" "es_misses st2 = Suc (es_misses st)"
      using fresh_memo [of ?st1 ev t ?cmd md] f by (simp_all add: same_memo_def)
    moreover have "length (es_memo st) < 32" using assms(6) new by blast
    ultimately show ?thesis
      using None ok f assms(3,5) new
      by (simp add: memory_embed_text_runtime_def memory_effective_embedding_cmd_def Let_def memo_store_def
          MEMORY_QEMBED_CAP_def memo_counted_def memo_keys_def)
  qed
qed

lemma memo_size: "memo_counted st \<Longrightarrow> length (es_memo st) = card (set (memo_keys st))"
  using distinct_card [of "memo_keys st"] by (simp add: memo_counted_def) (simp add: memo_keys_def)

lemma serve_counts:
  assumes "steady ev md" "md \<le> eb_max_dim ev"
  shows "memo_true ev md st \<Longrightarrow> memo_counted st \<Longrightarrow> list_all (cacheable ev md st0) rs \<Longrightarrow>
    card (set (memo_keys st) \<union> request_key ev ` set rs) \<le> 32 \<Longrightarrow>
    es_misses (snd (serve ev md rs st)) = card (set (memo_keys st) \<union> request_key ev ` set rs)"
proof (induction rs arbitrary: st)
  case Nil
  then show ?case using memo_size [of st] by (simp add: memo_counted_def)
next
  case (Cons r rs)
  obtain t c where r: "r = (t, c)" by (cases r)
  let ?k = "(t, eb_effective ev c)" let ?st1 = "snd (memory_embed_text_runtime ev t c md st)"
  have "length (es_memo st) < 32 \<or> ?k \<in> set (memo_keys st)"
  proof (rule disjCI)
    assume "?k \<notin> set (memo_keys st)"
    then have "card (set (memo_keys st)) < card (set (memo_keys st) \<union> request_key ev ` set (r # rs))"
      by (intro psubset_card_mono) (auto simp: r request_key_def)
    then show "length (es_memo st) < 32" using Cons.prems(2,4) memo_size [of st] by simp
  qed
  then have after: "memo_counted ?st1" "set (memo_keys ?st1) = insert ?k (set (memo_keys st))"
    using runtime_counts [OF assms(1) Cons.prems(1,2), of st0 t c] Cons.prems(3) assms(2) r by simp_all
  have "set (memo_keys ?st1) \<union> request_key ev ` set rs = set (memo_keys st) \<union> request_key ev ` set (r # rs)"
    using after(2) by (auto simp: r request_key_def)
  then show ?case
    using Cons.IH [of ?st1] runtime_true [OF assms(1) Cons.prems(1), of t c st0] after(1) Cons.prems(3,4) r
    by (simp add: split_beta)
qed

text \<open>
  The memo of a recall is transparent and embeds each text once.  After a reset, and as long
  as the service answers a text the same way, every request gets the vector a fresh embedding
  would give it, with its fallback; and when all requests can be cached, the embedder runs exactly
  once for each pair of text and command, provided there are at most 32 of them.
\<close>

lemma memo_transparent:
  assumes "steady ev md" "md \<le> eb_max_dim ev"
  shows "fst (serve ev md rs (memory_query_embed_cache_reset st)) =
      map (\<lambda>(t, c). fst (embed_fresh ev t (memory_effective_embedding_cmd ev c) md st)) rs \<and>
    (list_all (cacheable ev md st) rs \<and> card (request_key ev ` set rs) \<le> 32 \<longrightarrow>
      snd (memory_query_embed_cache_stats_test (snd (serve ev md rs (memory_query_embed_cache_reset st)))) =
        card (request_key ev ` set rs))"
proof -
  let ?st = "memory_query_embed_cache_reset st"
  have start: "memo_true ev md ?st" "memo_counted ?st" "memo_keys ?st = []"
    by (simp_all add: memory_query_embed_cache_reset_def memo_true_def memo_counted_def memo_keys_def)
  have "fst (serve ev md rs ?st) = map (\<lambda>(t, c). fst (embed_fresh ev t (memory_effective_embedding_cmd ev c) md st)) rs"
    using serve_true [OF assms(1) start(1), of rs st] by (simp add: memory_effective_embedding_cmd_def)
  moreover have "list_all (cacheable ev md st) rs \<Longrightarrow> card (request_key ev ` set rs) \<le> 32 \<Longrightarrow>
      es_misses (snd (serve ev md rs ?st)) = card (request_key ev ` set rs)"
    using serve_counts [OF assms start(1,2)] start(3) by simp
  ultimately show ?thesis by (simp add: memory_query_embed_cache_stats_test_def)
qed

text \<open>A service that answers every text with the vector \<open>[1, 2]\<close>; the state counts its calls.\<close>

definition sample_embed :: "nat embed_env" where
  "sample_embed = \<lparr>eb_http_post = (\<lambda>u h b t s. ((200, Some ''[1,2]''), Suc s)), eb_http_get = (\<lambda>u h t s. (200, None)),
     eb_exec = (\<lambda>c i s. ((True, Some ''[1,2]''), Suc s)), eb_popen = (\<lambda>c s. None), eb_secret = (\<lambda>s. None),
     eb_env = (\<lambda>n. None), eb_allow = (\<lambda>s. (True, s)), eb_success = id, eb_failure = id,
     eb_parse = (\<lambda>b. Some (RArray [RNumber 1, RNumber 2])), eb_print = (\<lambda>ts. ''[]''), eb_norm = (\<lambda>s n. take (n - 1) s),
     eb_dims = 2, eb_max_dim = 8, eb_fixture = None,
     eb_effective = (\<lambda>c. case c of None \<Rightarrow> ''builtin'' | Some c \<Rightarrow> c)\<rparr>"

definition sample_embed_state :: "nat embed_state" where
  "sample_embed_state = \<lparr>es_unauthorized = False, es_memo = [], es_requests = 0, es_misses = 0, es_world = 0\<rparr>"

lemma sample_embed_text:
  "fst (memory_embed_text sample_embed t (Some c) i 8 st) = (if c = [] then [] else [1, 2])"
  by (simp add: memory_embed_text_def sample_embed_def http_reply_def exec_reply_def settle_reply_def
      memory_embed_http_post_status_def auth_header_def reply_vector_def json_numbers_def Let_def)

lemma memo_transparent_instance:
  "fst (serve sample_embed 8 [(''a'', Some ''e''), (''b'', Some ''e''), (''a'', Some ''e'')]
      (memory_query_embed_cache_reset sample_embed_state)) = [[1, 2], [1, 2], [1, 2]] \<and>
   snd (memory_query_embed_cache_stats_test (snd (serve sample_embed 8
      [(''a'', Some ''e''), (''b'', Some ''e''), (''a'', Some ''e'')]
      (memory_query_embed_cache_reset sample_embed_state)))) = 2"
proof -
  let ?rs = "[(''a'', Some ''e''), (''b'', Some ''e''), (''a'', Some ''e'')]"
  have "steady sample_embed 8" by (simp add: steady_def sample_embed_text)
  moreover have "8 \<le> eb_max_dim sample_embed" by (simp add: sample_embed_def)
  moreover have fresh: "fst (embed_fresh sample_embed t ''e'' 8 sample_embed_state) = [1, 2]" for t
    by (simp add: embed_fresh_def split_beta sample_embed_text)
  moreover have cmd: "eb_effective sample_embed (Some ''e'') = ''e''" by (simp add: sample_embed_def)
  moreover have "list_all (cacheable sample_embed 8 sample_embed_state) ?rs"
    by (simp add: cacheable_def cmd fresh memo_key_fits_def MEMORY_QEMBED_TEXT_MAX_def MEMORY_QEMBED_CMD_MAX_def)
  moreover have "request_key sample_embed ` set ?rs = {(''a'', ''e''), (''b'', ''e'')}"
    by (auto simp: request_key_def cmd)
  moreover have "card {(''a'', ''e''), (''b'', ''e'')} = 2" by simp
  ultimately show ?thesis
    using memo_transparent [of sample_embed 8 ?rs sample_embed_state]
    by (simp add: memory_effective_embedding_cmd_def del: serve.simps)
qed


subsection \<open>Batches\<close>

lemma batch_rows_full: "batch_rows d rs = Some vs \<Longrightarrow> length vs = length rs \<and> list_all (\<lambda>v. length v = d) vs"
  by (induction d rs arbitrary: vs rule: batch_rows.induct) (auto split: if_splits)

text \<open>
  A batch is all or nothing.  When \<open>memory_embed_texts\<close> reports success there is one vector
  for each text, in their order, and each has exactly the requested dimension.
\<close>

lemma batch_is_complete:
  assumes "memory_embed_texts ev texts command input d s = (Some rows, s')"
  shows "length rows = length texts \<and> list_all (\<lambda>v. length v = d) rows"
  using assms batch_rows_full
  by (auto simp: memory_embed_texts_def Let_def split: if_splits prod.splits option.splits rjson.splits)

subsection \<open>The breaker\<close>

text \<open>
  A missing secret closes the breaker.  When authorization is required and there is no token,
  no request is sent, yet the failure is taken for a refusal by the service: the breaker is told
  that the service was reached.
\<close>

lemma missing_secret_closes_breaker:
  assumes "eb_env ev ''SYNTHESIS_AUTH_REQUIRED'' = Some ''1''" "eb_secret ev w = None"
    and "eb_allow ev (es_world st) = (True, w)" "memory_embed_command_is_http (Some c)" "eb_fixture ev \<noteq> Some c" "0 < md"
  shows "memory_embed_text ev t (Some c) i md st = ([], st\<lparr>es_unauthorized := True, es_world := eb_success ev w\<rparr>)"
proof -
  have "c \<noteq> []" using assms(4) by (auto simp: memory_embed_command_is_http_def)
  then show ?thesis
    using assms
    by (simp add: memory_embed_text_def http_reply_def memory_embed_http_post_status_def auth_header_def settle_reply_def
        on_world_def unauthorized_def)
qed

subsection \<open>Similarity\<close>

lemma cauchy_step:
  fixes s x y A B :: real
  assumes "s\<^sup>2 \<le> A * B" "0 \<le> A" "0 \<le> B"
  shows "(s + x * y)\<^sup>2 \<le> (A + x * x) * (B + y * y)"
proof -
  have "\<bar>s\<bar> \<le> sqrt A * sqrt B" using assms real_sqrt_le_mono [OF assms(1)] by (simp add: real_sqrt_mult)
  then have "\<bar>s\<bar> * \<bar>x * y\<bar> \<le> sqrt A * sqrt B * \<bar>x * y\<bar>" by (intro mult_right_mono) simp_all
  moreover have "s * (x * y) \<le> \<bar>s\<bar> * \<bar>x * y\<bar>" by (simp flip: abs_mult)
  ultimately have "2 * s * (x * y) \<le> 2 * (sqrt A * sqrt B) * \<bar>x * y\<bar>" by simp
  also have "\<dots> \<le> A * (y * y) + B * (x * x)"
  proof -
    have "0 \<le> (sqrt A * \<bar>y\<bar> - sqrt B * \<bar>x\<bar>)\<^sup>2" by simp
    also have "\<dots> = A * (y * y) + B * (x * x) - 2 * (sqrt A * sqrt B) * \<bar>x * y\<bar>"
      using assms by (simp add: power2_diff power_mult_distrib abs_mult) (simp add: power2_eq_square)
    finally show ?thesis by simp
  qed
  finally show ?thesis using assms(1) by (simp add: power2_eq_square algebra_simps)
qed

lemma cauchy_list:
  fixes a b :: "nat \<Rightarrow> real"
  shows "(\<Sum>i\<leftarrow>is. a i * b i)\<^sup>2 \<le> (\<Sum>i\<leftarrow>is. a i * a i) * (\<Sum>i\<leftarrow>is. b i * b i)"
proof (induction "is")
  case (Cons i "is")
  have "0 \<le> (\<Sum>i\<leftarrow>is. a i * a i)" "0 \<le> (\<Sum>i\<leftarrow>is. b i * b i)"
    by (rule sum_list_nonneg; auto)+
  then show ?case using cauchy_step [OF Cons.IH, of "a i" "b i"] by (simp add: add.commute)
qed simp

text \<open>
  Similarity is a cosine: for vectors of any length it lies between -1 and 1, it does not
  depend on the order of its arguments, and a vector that is not negligible is at 1 from itself.
\<close>

lemma cosine_is_a_cosine:
  "\<bar>cosine_similarity a b d\<bar> \<le> 1 \<and> cosine_similarity a b d = cosine_similarity b a d \<and>
   (cosine_similarity a a d = 1 \<or> (\<Sum>i\<leftarrow>[0..<d]. a ! i * a ! i) \<le> 1 / 1000000000 \<and> cosine_similarity a a d = 0)"
proof -
  let ?ip = "\<lambda>a b. \<Sum>i\<leftarrow>[0..<d]. a ! i * b ! i"
  have nn: "0 \<le> ?ip a a" "0 \<le> ?ip b b" by (rule sum_list_nonneg; auto)+
  have "(?ip a b)\<^sup>2 \<le> ?ip a a * ?ip b b" by (rule cauchy_list)
  then have bound: "\<bar>?ip a b\<bar> \<le> sqrt (?ip a a) * sqrt (?ip b b)"
    using real_sqrt_le_mono by (fastforce simp: real_sqrt_mult)
  have one: "\<bar>cosine_similarity a b d\<bar> \<le> 1"
  proof (cases "1 / 1000000000 < sqrt (?ip a a) * sqrt (?ip b b)")
    case True
    then have "0 < sqrt (?ip a a) * sqrt (?ip b b)" by linarith
    then show ?thesis using bound True by (simp add: cosine_similarity_def Let_def abs_divide)
  qed (simp add: cosine_similarity_def Let_def)
  have "?ip a b = ?ip b a" by (simp add: mult.commute)
  then have two: "cosine_similarity a b d = cosine_similarity b a d"
    by (simp add: cosine_similarity_def Let_def mult.commute)
  have "sqrt (?ip a a) * sqrt (?ip a a) = ?ip a a" using nn by simp
  then show ?thesis using one two by (auto simp: cosine_similarity_def Let_def)
qed


subsection \<open>Tagging and workflows\<close>

lemma lower_text_length:
  "length (lower_text key content) =
     (let k = min 1023 (length key) + 1
      in if 1023 \<le> k then k else k + min (1023 - k) (length content) + 1)"
  by (auto simp: lower_text_def lower_fill_def Let_def min_def)

text \<open>
  Tagging a memory by its text writes behind its buffer exactly when the key and the content
  fill it: the blank after the last text then takes the place of the terminator, which lands one
  byte behind.
\<close>

lemma auto_tag_overflow:
  "memory_auto_tag_workspace sc db i key content s = None \<longleftrightarrow>
     0 < i \<and> (1023 \<le> length key \<or> length key \<le> 1021 \<and> 1022 \<le> length key + length content)"
  by (auto simp: memory_auto_tag_workspace_def Let_def lower_text_length min_def)

text \<open>Each observation of a workflow moves its confidence up, by 0.2 or to what is seen, and no further than 1.\<close>

lemma workflow_confidence_steps:
  assumes "observed \<le> 1" "old \<le> 1"
  shows "old \<le> workflow_confidence observed (Some old) \<and> workflow_confidence observed (Some old) \<le> 1 \<and>
    min 1 (old + 2 / 10) \<le> workflow_confidence observed (Some old)"
  using assms by (auto simp: workflow_confidence_def Let_def)

end
