(* ===== verification/Insertion_Properties.thy ===== *)
theory Insertion_Properties
  imports Insertion Crud_Properties Unit_Properties Embedding_Properties
begin

text \<open>
  Properties of the insertion of the program: the nesting of versions ends, a content that feeds
  the chunking loop is never stored to the end, and when maintenance runs.
\<close>

text \<open>Inserting in the program nests at most one version, whatever maintenance inserts besides.\<close>

lemma program_insertion_depth:
  assumes "renaming_frees (cr_txt cr) (cr_db cr)"
  shows "\<exists>r. \<forall>n \<ge> 2. memory_insert_ex n (program_crud im tr he cr) tier kind key content uses conf session out p = Some r"
proof (rule insertion_depth)
  show "renaming_frees (cr_txt (program_crud im tr he cr)) (cr_db (program_crud im tr he cr))"
    using assms by (simp add: renaming_frees_def versioned_key_def)
qed

subsection \<open>Calls that do not return\<close>

text \<open>Nothing is done once a call did not return.\<close>

definition absorbing :: "'d running crud_db \<Rightarrow> 'd running trigger_env \<Rightarrow> bool" where
  "absorbing db tr \<longleftrightarrow>
     (\<forall>i x a d. cd_provenance db i x a d None = None) \<and> (\<forall>i c. cd_embed db i c None = None) \<and>
     cd_invalidate db None = None \<and> (\<forall>h e. cd_audit db = Some h \<longrightarrow> h e None = None) \<and>
     (\<forall>put k v. tr_set tr = Some put \<longrightarrow> put k v None = None) \<and> tr_sweep tr None = None"

lemma maintenance_absorbs:
  assumes "absorbing db tr"
  shows "memory_maybe_run_maintenance tr (maintenance_call he) None = None"
proof (cases "tr_set tr")
  case (Some put)
  then have "put k v None = None" "tr_sweep tr None = None" "maintenance_call he None = None" for k v
    using assms by (simp_all add: absorbing_def maintenance_call_def)
  then show ?thesis
    using Some by (cases "tr_get tr") (simp_all add: memory_maybe_run_maintenance_def Let_def)
qed (simp add: memory_maybe_run_maintenance_def split: option.split)

lemma audit_absorbs: "absorbing db tr \<Longrightarrow> mem_audit db op i tier kind key conf session None = None"
  by (auto simp: absorbing_def mem_audit_def split: option.split)

lemma audit_program [simp]:
  "mem_audit (cr_db (program_crud im tr he cr)) op i tier kind key conf session p =
     mem_audit (cr_db cr) op i tier kind key conf session p"
  by (simp add: mem_audit_def)

text \<open>
  A new fact whose content is a line, 40 line feeds and more than 160 characters without a mark
  is inserted as a row, and then the insertion never returns.
\<close>

lemma feeding_insertion_never_returns:
  assumes "absorbing (cr_db cr) tr"
    and "cd_insert (cr_db cr) (Crud.insert_row (program_crud im tr he cr) f p) p = (i, Some g)" "0 \<le> i"
    and "of_content f = Some (feeds_then 40 (161 + m))"
  shows "snd (snd (insert_new (program_crud im tr he cr) f out p)) = None"
proof -
  have stuck: "refresh_call im i (of_norm f) (feeds_then 40 (161 + m)) (Some g) = None"
    by (simp add: refresh_call_def memory_refresh_derived_metadata_def memory_refresh_chunks_def Let_def
        chunking_diverges)
  have calls: "cd_provenance (cr_db cr) j x a d None = None" "cd_embed (cr_db cr) j c None = None"
    "cd_invalidate (cr_db cr) None = None" for j x a d c
    using assms(1) by (simp_all add: absorbing_def)
  have tag: "auto_tag_call im j n c None = None" for j n c
    by (simp add: auto_tag_call_def)
  show ?thesis
    using assms(2-4)
    by (simp add: insert_new_def Let_def stuck calls tag maintenance_absorbs [OF assms(1)] audit_absorbs [OF assms(1)])
qed

subsection \<open>When maintenance runs\<close>

text \<open>
  With a runtime state that returns what was put into it, each call counts one pending write, and
  a call that is due resets the count; the pass does not run before it is due.
\<close>

lemma maintenance_counts_writes:
  assumes "tr_get tr = Some get" "tr_set tr = Some put"
    and "\<And>k v s. get k (put k v s) = Some v" "\<And>j k v s. j \<noteq> k \<Longrightarrow> get j (put k v s) = get j s"
    and "\<And>k s. get k (tr_sweep tr s) = get k s"
    and "pending = (case state_number get ''maintenance_pending_writes'' s of None \<Rightarrow> 1 | Some n \<Rightarrow> wrap32 (n + 1))"
    and "last_run = (case state_number get ''maintenance_last_run_epoch'' s of None \<Rightarrow> 0 | Some n \<Rightarrow> n)"
  shows "get ''maintenance_pending_writes'' (memory_maybe_run_maintenance tr run s) =
      Some (if maintenance_due tr pending last_run then ''0'' else decimal pending)"
    and "\<not> maintenance_due tr pending last_run \<Longrightarrow>
      memory_maybe_run_maintenance tr run s = memory_maybe_run_maintenance tr run' s"
proof -
  have last': "state_number get ''maintenance_last_run_epoch'' (put ''maintenance_pending_writes'' v s) =
      state_number get ''maintenance_last_run_epoch'' s" for v
    by (simp add: state_number_def assms(4))
  show "get ''maintenance_pending_writes'' (memory_maybe_run_maintenance tr run s) =
      Some (if maintenance_due tr pending last_run then ''0'' else decimal pending)"
    by (simp add: memory_maybe_run_maintenance_def assms(1,2) Let_def last' assms(6,7) [symmetric] assms(3-5))
  show "memory_maybe_run_maintenance tr run s = memory_maybe_run_maintenance tr run' s"
    if "\<not> maintenance_due tr pending last_run"
    using that by (simp add: memory_maybe_run_maintenance_def assms(1,2) Let_def last' assms(6,7) [symmetric])
qed

end
