(* ===== verification/Spec2Isabelle.thy ===== *)
theory Spec2Isabelle
  imports Stage_Properties Graph_Properties Record_Properties Temporal_Properties Query_Properties Rank_Properties
    Find_Properties Answer_Properties Recall_Properties Crud_Properties Upkeep_Properties
    Insertion_Properties
begin

text \<open>
  \<^bold>\<open>The memory module: the root of its verification.\<close>

  The program.  The module keeps, gates, searches and assembles an assistant's memories.  A
  turn of the user is scanned for facts and retractions
  (\<open>memory_extract_patterns.c\<close>), a candidate fact passes the ontology gate
  (\<open>memory_fact_gate.c\<close>), a recalled fact the PII gate (\<open>memory_pii_gate.c\<close>); each of these
  decisions is taken locally or asked, over a byte protocol (\<open>include/aimee/memory/module_api.h\<close>),
  of a process written in Go (\<open>server-go/modules/memory\<close>).  An insertion
  (\<open>memory_core_crud.c\<close>) passes the quality gates, supersedes, merges or adds a row, and refreshes
  what is derived from it: aliases, entities, times, events, chunks, the unit graph and its
  embeddings (\<open>memory_core_helpers_b.c\<close>, \<open>memory_core_scope_embed.c\<close>).  A search normalises a query,
  plans its fetch, expands its terms and reads its dates (\<open>memory_core_search*.c\<close> with
  \<open>memory_core_helpers.c\<close>), collects rows, boosts them along the entity graph
  (\<open>memory_graph.c\<close>, \<open>memory_graph_fusion.c\<close>, \<open>memory_episodes.c\<close>), reranks them, and answers or
  hands them to the recall bundle (\<open>memory_context.c\<close>).  Around the rows stand promotion, conflicts,
  health and maintenance (\<open>memory_logic.c\<close>, \<open>memory_core_tiers.c\<close>, \<open>memory_conflict.c\<close>,
  \<open>memory_health.c\<close>, \<open>memory_maintenance.c\<close>), reminders and directives, the lifecycle, the provider
  registry, the profile packs and the hook that redirects a client's own memory files.

  The theories, bottom up, and the code they model (files without a directory are in
  \<open>src/modules/memory\<close>):
  \<^item> \<open>C_Base\<close>: C strings, \<open>ctype.h\<close>, bounded copies, the prelude of all others.
  \<^item> \<open>Wire\<close>, \<open>Wire_Messages\<close>: \<open>module_api.h\<close>, byte by byte, with the round trips of fields.
  \<^item> \<open>Node_Kinds\<close>, \<open>Ontology\<close>: \<open>memory_ontology.h\<close> and the tables of \<open>memory_episodes.c\<close>.
  \<^item> \<open>Extract\<close>, \<open>Gates\<close>: the extractor and the two gates with their registered seams.
  \<^item> \<open>Go_Ports\<close>, \<open>Go_Parity\<close>, \<open>Go_Module\<close>: the Go ports, one lemma per pair of functions that both
    sides agree, and the stage handlers of both sides.
  \<^item> \<open>Seam\<close>: the locale \<open>wire_seam\<close> of a decision asked over the wire, interpreted for the five
    stages.
  \<^item> \<open>Score_Table\<close>: the locale of the bounded score tables; \<open>Fusion\<close>, \<open>Graph_Walk\<close>,
    \<open>Graph_Boost\<close>: the graph side of search.
  \<^item> \<open>Provider\<close>, \<open>Lifecycle\<close>, \<open>Redirect\<close>, \<open>Json\<close>, \<open>Effective\<close>, \<open>Profile_Pack\<close>,
    \<open>Assemble_Util\<close>: one file of the code each.
  \<^item> \<open>Dates\<close>, \<open>Weekday\<close>, \<open>Tokens\<close>, \<open>Term_Shapes\<close>, \<open>Temporal\<close>, \<open>Query\<close>: the text side of search.
  \<^item> \<open>Selection\<close>, \<open>Sorts\<close>, \<open>Weights\<close>, \<open>Pagerank\<close>, \<open>Ranking\<close>, \<open>Rerank\<close>: the sorts of the code, the
    configured weights, the link rank, the features and the rerank of candidates.
  \<^item> \<open>Candidates\<close>, \<open>Generate\<close>, \<open>Generate_Invariant\<close>, \<open>Aggregation\<close>, \<open>Window_Search\<close>: candidate
    generation with its invariant, the shape of an aggregation, the search by windows.
  \<^item> \<open>Find_Parts\<close>, \<open>Rewrite\<close>, \<open>Search\<close>, \<open>Diagnose\<close>, \<open>Find_Invariants\<close>, \<open>Answers\<close>: finding facts
    (plain, scoped, visible), explaining a match, answering a question.
  \<^item> \<open>Context\<close>, \<open>Derive\<close>, \<open>Staged_Match\<close>, \<open>Prospective\<close>, \<open>Directives\<close>, \<open>Recall\<close>: the recall bundle
    with its windows, deriver, reminders and directives.
  \<^item> \<open>Crud\<close>, \<open>Promotion\<close>, \<open>Conflict\<close>, \<open>Health\<close>, \<open>Maintenance\<close>: writing and upkeep.
  \<^item> \<open>Derived\<close>, \<open>Embedding\<close>, \<open>Units\<close>, \<open>Scopes\<close>: what is derived from a row, and its scopes.
  \<^item> \<open>Insertion\<close>: the functions of the repository that an insertion calls put into \<open>memory_insert_ex\<close>,
    so that \<open>program_insert\<close> leaves open only what is outside \<open>src/\<close>.
  \<^item> The theories named \<open>..._Properties\<close> and this one: the properties and the lemmas they rest on.

  Correspondence.  A definition has the name of the function it translates, with the arguments
  in the order of the code; helpers without a name in the code are declared beside it.  A
  \<open>const char *\<close> is \<open>cptr\<close>, an optional character list without its terminator; an out-buffer is
  part of the result, cut by \<open>cbuf cap\<close> as the code's copy cuts it; a NULL argument is
  \<open>None\<close> and the error code \<open>-1\<close> is the value \<open>-1\<close> or \<open>None\<close>, as the definition says.
  Fields of the wire are words; a count is a \<open>nat\<close>; a C \<open>int\<close> that only counts or indexes what is
  bounded is an \<open>int\<close>, and one that text of the user reaches is cut to 32 bits (\<open>wrap32\<close>, \<open>atoi\<close>
  of \<open>Temporal\<close>).  A \<open>double\<close> is a real, except at the PII gate, whose test against the floor sees
  NaN and the infinities.  Static state is a record that operations return updated; the store
  (\<open>db2_*\<close>), the clock, HTTP, child processes, the JSON parser and the configuration are not in
  the repository and are arguments.  A store outside an array is an outcome of its own
  (\<open>Wild_Write\<close> of \<open>Search\<close>, the fault of \<open>Conflict\<close>, \<open>None\<close> of \<open>memory_auto_tag_workspace\<close>), and so is a
  call that does not return (\<open>None\<close>).

  What is shown.  C1 to C6: each decision taken over the wire is the one taken locally, for
  every input the messages carry, so the C and the Go side agree.  C7: the recall gate injects
  exactly what its table of tiers and its floor allow.  C8: refreshing a row returns without
  line feeds, and need not with them.  C9: what an insertion stores has passed the gates.  C10:
  extraction reads exactly the sentences that state an attribute.  C11, C15, C30, C33, C39, C40:
  search, its lane floor, candidates, scopes, link rank and rerank.  C12, C18, C20: recall,
  reminders, directives.  C13, C14, C19: the graph walk is sound and complete, the expansion of
  seeds exact.  C16: insertions return.  C17, C23, C29, C36: the alarm, folding, the summary and the
  purity of maintenance.  C21, C22, C24 to C27, C31: the registry, the lifecycle as a state machine,
  the hook and its names, packs, escaping.  C28, C32: answers rest on evidence and cite it.  C34,
  C35: dates in queries.  C37, C38: the plan and the expansion of a query.

  Bounds.  Fuel stands only for loops and recursions the code itself bounds: the hops of a walk,
  the size of an array, the nesting of insertion and supersession, where 2 is enough
  (C16 shows that more changes nothing).  The chunk loop, which may run forever, is a
  \<open>partial_function (option)\<close>; all other recursions are structural or have a termination proof.

  Not modelled: SQL and the store behind \<open>db2_*\<close>, logging and metrics, the HTTP client of the Go
  side, the JSON text parser, threads, rounding of floating point numbers.  Of the module itself:
  the printers of \<open>memory_assemble.c\<close> and of the briefing and the style learner of
  \<open>memory_advanced.c\<close>, the reader of session files (\<open>memory_scan.c\<close>), the parser of a language
  model's entities (\<open>memory_improve.c\<close>), the gateway stage and the build without a store
  (\<open>memory_core.c\<close>), which returns constants.
\<close>

definition wire_checker :: gate_checker where
  "wire_checker h rel t = map_option verdict_of (gate_over_wire (h, rel, t))"

text \<open>
  C1. The typed-fact write gate asked through the memory process (encode the candidate with
  the C encoder, let the Go handler decide, decode with the C decoder) returns the verdict
  and the matched definition of the local gate, for every candidate whose label fits the wire.
\<close>

theorem gate_over_wire_is_local:
  assumes "length (cptr_str rel) \<le> AIMEE_MEMORY_REL_TYPE_MAX"
  shows "memory_fact_gate_check go_rel_types (Some wire_checker) h rel t matched =
         memory_fact_gate_check go_rel_types None h rel t matched"
proof -
  have "gate_over_wire (h, rel, t) = Some (GateCheck (node_code h) (cptr_str rel) (node_code t))"
    unfolding gate_over_wire_def
    using gate.over_wire_eq [of "(h, rel, t)"] assms by (simp add: gate_carries_def gate_decide_def)
  then show ?thesis
    by (cases rel)
      (auto simp: memory_fact_gate_check_def wire_checker_def GateCheck_def Let_def split: option.split)
qed

theorem gate_over_wire_is_local_witness:
  "length (cptr_str (Some ''worksFor'')) \<le> (256 :: nat) \<and>
   memory_fact_gate_check go_rel_types (Some wire_checker) NODE_PERSON (Some ''worksFor'') NODE_ORG True =
   memory_fact_gate_check go_rel_types None NODE_PERSON (Some ''worksFor'') NODE_ORG True"
  using gate_over_wire_is_local [of "Some ''worksFor''" NODE_PERSON NODE_ORG True] by simp

text \<open>
  C2. The recall gate asked through the memory process: a turn classified over the wire is
  classified as the local code classifies it, whatever the length of the turn the wire carries.
\<close>

theorem pii_over_wire_is_local:
  assumes "length t \<le> UINT32_MAX - 12"
  shows "memory_pii_turn_requests_sensitive (Some (\<lambda>t. pii_over_wire (Some t))) (Some t) =
         memory_pii_turn_requests_sensitive None (Some t)"
  using assms pii.over_wire_eq [of "Some t"]
  by (simp add: memory_pii_turn_requests_sensitive_def pii_over_wire_def text_carries_def
      TurnRequestsSensitive_eq)

theorem pii_over_wire_is_local_witness:
  "memory_pii_turn_requests_sensitive (Some (\<lambda>t. pii_over_wire (Some t))) (Some ''What is my PHONE number?'') \<and>
   memory_pii_turn_requests_sensitive None (Some ''What is my PHONE number?'')"
proof -
  have "memory_pii_turn_requests_sensitive None (Some ''What is my PHONE number?'')"
    by code_simp
  then show ?thesis
    using pii_over_wire_is_local [of "''What is my PHONE number?''"] by (simp add: UINT32_MAX_def)
qed

text \<open>
  C3. The sensitivity batch asked through the memory process gives every relation the tier the
  local code gives it, in order, for every batch whose labels and count fit the wire.
\<close>

theorem sens_over_wire_is_local:
  assumes "sens_carries rs"
  shows "memory_pii_rel_sensitivity_batch go_rel_types (Some sens_over_wire) (Some rs) True =
         memory_pii_rel_sensitivity_batch go_rel_types None (Some rs) True"
proof -
  have "memory_pii_rel_sensitivity go_rel_types r = RelSensitivityOf (cptr_str r)" for r
    by (cases r) (simp_all add: RelSensitivityOf_eq memory_pii_rel_sensitivity_def)
  then show ?thesis
    using assms sens.over_wire_eq [of rs]
    by (simp add: memory_pii_rel_sensitivity_batch_def sens_over_wire_def sens_decide_def)
qed

theorem sens_over_wire_is_local_witness:
  "memory_pii_rel_sensitivity_batch go_rel_types (Some sens_over_wire)
     (Some [Some ''worksFor'', None, Some ''wifi password'']) True =
   Some [SENS_NORMAL, SENS_NORMAL, SENS_SECRET]"
proof -
  have "memory_pii_rel_sensitivity_batch go_rel_types None
      (Some [Some ''worksFor'', None, Some ''wifi password'']) True =
      Some [SENS_NORMAL, SENS_NORMAL, SENS_SECRET]"
    by code_simp
  then show ?thesis
    using sens_over_wire_is_local [of "[Some ''worksFor'', None, Some ''wifi password'']"]
    by (simp add: sens_carries_def)
qed

text \<open>The scanner the host registers: the wire exchange as a callback.\<close>

definition wire_scanner :: turn_scanner where
  "wire_scanner t =
     (case scan_over_wire (Some t) of
        None \<Rightarrow> (False, \<lparr>turn_is_retraction = False, turn_has_attr = False, turn_attr = []\<rparr>)
      | Some (r, h, a) \<Rightarrow> (True, \<lparr>turn_is_retraction = r, turn_has_attr = h, turn_attr = a\<rparr>))"

text \<open>
  C4. The retraction scan asked through the memory process fills the turn the local scan fills.
\<close>

theorem scan_over_wire_is_local:
  assumes "length t \<le> UINT32_MAX - 12"
  shows "memory_pattern_scan_turn (Some wire_scanner) (Some t) True =
         memory_pattern_scan_turn None (Some t) True"
  using assms scan.over_wire_eq [of "Some t"]
  by (simp add: memory_pattern_scan_turn_def wire_scanner_def scan_over_wire_def text_carries_def
      scan_decide_def PossessiveAttr_eq IsRetraction_eq split: prod.split)

theorem scan_over_wire_is_local_witness:
  "memory_pattern_scan_turn (Some wire_scanner) (Some ''Forget my home address, please.'') True =
   Some \<lparr>turn_is_retraction = True, turn_has_attr = True, turn_attr = ''home address, please''\<rparr>"
proof -
  have "memory_pattern_scan_turn None (Some ''Forget my home address, please.'') True =
      Some \<lparr>turn_is_retraction = True, turn_has_attr = True, turn_attr = ''home address, please''\<rparr>"
    by code_simp
  then show ?thesis
    using scan_over_wire_is_local [of "''Forget my home address, please.''"] by (simp add: UINT32_MAX_def)
qed

text \<open>
  C5. Extraction asked through the memory process returns the triples of the local extraction,
  field by field, whatever the text and the maximal count the wire carries.
\<close>

theorem extract_over_wire_is_local:
  assumes "length t \<le> UINT32_MAX - 16" "mx \<noteq> 0"
  shows "extract_over_wire (Some t, mx) =
         map_option (map (wire_triple \<circ> go_triple))
           (memory_extract_patterns (rel_normalize go_rel_types) None (Some t) True (int (unat mx)))"
proof -
  have "unat mx \<noteq> 0"
    using assms(2) by (simp only: unsigned_eq_0_iff not_False_eq_True)
  then have "0 < int (unat mx)"
    by linarith
  then obtain ts where
    "memory_extract_patterns (rel_normalize go_rel_types) None (Some t) True (int (unat mx)) = Some ts"
    "ExtractPatterns t (int (unat mx)) = map go_triple ts"
    using ExtractPatterns_eq [of "int (unat mx)" t] by (auto simp: map_option_case split: option.splits)
  then show ?thesis
    using assms triples.over_wire_eq [of "(Some t, mx)"]
    by (simp add: extract_over_wire_def extract_carries_def text_carries_def extract_decide_def comp_def)
qed

theorem extract_over_wire_is_local_witness:
  "extract_over_wire (Some ''my email is a@b.org'', 3) =
     map_option (map (wire_triple \<circ> go_triple))
       (memory_extract_patterns (rel_normalize go_rel_types) None (Some ''my email is a@b.org'') True 3)"
  using extract_over_wire_is_local [of "''my email is a@b.org''" 3] by (simp add: UINT32_MAX_def)

text \<open>
  C6. The C adapter of the reranking stage is the Go handler: at stage 5, with room for the
  response, it answers every request, malformed ones included, as the process does; at any
  other stage it refuses.
\<close>

theorem adapter_is_go_rerank:
  "aimee_module_handler (Some iv) (Some body) cap True =
     (if StageID iv = StageRerank \<and> 8 \<le> cap then Handle others iv body else Inl STATUS_INVALID_REQUEST)"
  by (auto simp: aimee_module_handler_def Handle_def handleRerank_def stage_defs confidence_band_def Let_def)

end
